(* ===== verification/Prelude.thy ===== *)
theory Prelude
  imports Main "HOL-Library.Word"
begin

text \<open>
  Shared vocabulary of the development: the values the TypeScript code throws, results that
  are either a thrown value or a normal one, traversals that stop at the first throw, and the
  character and list facts the components share.  A JavaScript string is a \<open>string\<close>
  (its UTF-8 bytes), a \<open>Uint8Array\<close> a list of bytes.
\<close>

named_theorems res_simps \<open>unfolding results in the thrown-or-returned monad\<close>
named_theorems codec_rules \<open>round-trip facts of the codecs\<close>

type_synonym byte = "8 word"
type_synonym bytes = "byte list"

section \<open>Thrown values\<close>

text \<open>
  The error classes of the worker package.  The text of a message is kept where the code
  reports it as a reason; interpolated values are dropped.
\<close>

datatype worker_error =
    WorkerStateError string
  | ConfigError string
  | JobSpecError string
  | ExecutorError string
  | ResultUploadError string
  | WalletFileError string
  | AgencError "string option" "nat option" "string option" string
  | PlainError string

type_synonym 'a res = "worker_error + 'a"

fun is_ok :: "'e + 'a \<Rightarrow> bool" where
  "is_ok (Inl _) = False"
| "is_ok (Inr _) = True"

definition bind_res :: "'e + 'a \<Rightarrow> ('a \<Rightarrow> 'e + 'b) \<Rightarrow> 'e + 'b" where
  "bind_res m f = (case m of Inl e \<Rightarrow> Inl e | Inr a \<Rightarrow> f a)"

definition guard_res :: "bool \<Rightarrow> 'e \<Rightarrow> 'e + unit" where
  "guard_res b e = (if b then Inr () else Inl e)"

lemma bind_res_simps [simp]:
  "bind_res (Inl e) f = Inl e"
  "bind_res (Inr a) f = f a"
  by (simp_all add: bind_res_def)

lemma guard_res_simps [simp]:
  "guard_res True e = Inr ()"
  "guard_res False e = Inl e"
  by (simp_all add: guard_res_def)

lemma bind_res_Inr_iff [res_simps]:
  "bind_res m f = Inr b \<longleftrightarrow> (\<exists>a. m = Inr a \<and> f a = Inr b)"
  by (cases m) simp_all

lemma guard_res_Inr_iff [res_simps]: "guard_res b e = Inr u \<longleftrightarrow> b"
  by (cases b) simp_all

lemma case_option_Inr_iff:
  "(case x of None \<Rightarrow> Inl e | Some y \<Rightarrow> f y) = Inr b \<longleftrightarrow> (\<exists>y. x = Some y \<and> f y = Inr b)"
  by (cases x) simp_all

lemma bind_res_Inl_iff:
  "bind_res m f = Inl e \<longleftrightarrow> m = Inl e \<or> (\<exists>a. m = Inr a \<and> f a = Inl e)"
  by (cases m) simp_all

lemma bind_res_cong [fundef_cong]:
  "m = m' \<Longrightarrow> (\<And>a. m' = Inr a \<Longrightarrow> f a = g a) \<Longrightarrow> bind_res m f = bind_res m' g"
  by (cases m') simp_all

lemma bind_res_assoc: "bind_res (bind_res m f) g = bind_res m (\<lambda>a. bind_res (f a) g)"
  by (cases m) simp_all

text \<open>Rethrowing another error.\<close>

definition map_error :: "('e \<Rightarrow> 'f) \<Rightarrow> 'e + 'a \<Rightarrow> 'f + 'a" where
  "map_error f m = (case m of Inl e \<Rightarrow> Inl (f e) | Inr a \<Rightarrow> Inr a)"

lemma map_error_Inr_iff [res_simps]: "map_error f m = Inr a \<longleftrightarrow> m = Inr a"
  by (cases m) (simp_all add: map_error_def)

text \<open>Applying a throwing function to every element, as \<open>Array.prototype.map\<close> does.\<close>

fun map_res :: "('a \<Rightarrow> 'e + 'b) \<Rightarrow> 'a list \<Rightarrow> 'e + 'b list" where
  "map_res f [] = Inr []"
| "map_res f (x # xs) = bind_res (f x) (\<lambda>y. bind_res (map_res f xs) (\<lambda>ys. Inr (y # ys)))"

lemma map_res_Inr_iff [res_simps]:
  "map_res f xs = Inr ys \<longleftrightarrow> list_all2 (\<lambda>x y. f x = Inr y) xs ys"
  by (induction xs arbitrary: ys) (auto simp: res_simps list_all2_Cons1)

lemma map_res_cong [fundef_cong]:
  "xs = ys \<Longrightarrow> (\<And>x. x \<in> set ys \<Longrightarrow> f x = g x) \<Longrightarrow> map_res f xs = map_res g ys"
proof (induction ys arbitrary: xs)
  case (Cons y ys)
  then show ?case by (auto intro!: bind_res_cong)
qed simp

lemma map_res_all_Inr:
  "(\<And>x. x \<in> set xs \<Longrightarrow> f x = Inr (g x)) \<Longrightarrow> map_res f xs = Inr (map g xs)"
  by (induction xs) auto

lemma map_res_Inl:
  "map_res f xs = Inl e \<Longrightarrow> \<exists>x \<in> set xs. f x = Inl e"
  by (induction xs) (auto simp: bind_res_Inl_iff)

lemma map_res_Inl_const:
  assumes "\<And>x e. x \<in> set xs \<Longrightarrow> f x = Inl e \<Longrightarrow> e = c" "x \<in> set xs" "f x = Inl e"
  shows "map_res f xs = Inl c"
proof (cases "map_res f xs")
  case (Inl e)
  then show ?thesis using assms(1) by (auto dest: map_res_Inl)
next
  case (Inr ys)
  then show ?thesis using assms(2, 3) by (auto simp: map_res_Inr_iff list_all2_conv_all_nth in_set_conv_nth)
qed

lemma map_res_length: "map_res f xs = Inr ys \<Longrightarrow> length ys = length xs"
  by (auto simp: res_simps dest: list_all2_lengthD)

section \<open>Characters\<close>

definition is_digit :: "char \<Rightarrow> bool" where
  "is_digit c \<longleftrightarrow> c \<in> set ''0123456789''"

definition is_lower_hex :: "char \<Rightarrow> bool" where
  "is_lower_hex c \<longleftrightarrow> c \<in> set ''0123456789abcdef''"

text \<open>\<open>/^\d+$/u\<close> and \<open>/^[0-9a-f]{64}$/u\<close>.\<close>

definition is_decimal :: "string \<Rightarrow> bool" where
  "is_decimal s \<longleftrightarrow> s \<noteq> [] \<and> list_all is_digit s"

definition is_hash_hex :: "string \<Rightarrow> bool" where
  "is_hash_hex s \<longleftrightarrow> length s = 64 \<and> list_all is_lower_hex s"

section \<open>Lists\<close>

text \<open>\<open>reduce((count, x) => count + (p(x) ? 1 : 0), 0)\<close>.\<close>

definition count_if :: "('a \<Rightarrow> bool) \<Rightarrow> 'a list \<Rightarrow> nat" where
  "count_if p xs = fold (\<lambda>x n. n + (if p x then 1 else 0)) xs 0"

lemma fold_count_if:
  "fold (\<lambda>x n. n + (if p x then 1 else 0)) xs k = k + length (List.filter p xs)"
  by (induction xs arbitrary: k) auto

lemma count_if_filter: "count_if p xs = length (List.filter p xs)"
  by (simp add: count_if_def fold_count_if)

lemma find_case_Inr:
  "(case List.find q xs of Some k \<Rightarrow> Inl (g k) | None \<Rightarrow> m) = Inr u \<longleftrightarrow>
     (\<forall>x\<in>set xs. \<not> q x) \<and> m = Inr u"
  by (induction xs) auto

lemma distinct_map_filter [intro]: "distinct (map f xs) \<Longrightarrow> distinct (map f (List.filter p xs))"
  by (induction xs) auto

end
