(* ===== verification/Codecs.thy ===== *)
theory Codecs
  imports Prelude
begin

text \<open>
  Byte and number codecs of the worker: \<open>bytesToHex\<close> / \<open>hexToBytes\<close> of
  \<open>state.ts\<close>, the base64 of executor output, decimal lamports.  The interface
  \<open>codec\<close> states the round trip every encoder and decoder pair promises; its
  consequences (injectivity, lists of encoded values) are proved once.
\<close>

section \<open>The interface\<close>

locale codec =
  fixes enc :: "'a \<Rightarrow> 'b"
    and dec :: "'b \<Rightarrow> 'e + 'a"
    and ok :: "'a \<Rightarrow> bool"
  assumes dec_enc: "ok a \<Longrightarrow> dec (enc a) = Inr a"
begin

lemma enc_inj: "ok a \<Longrightarrow> ok b \<Longrightarrow> enc a = enc b \<Longrightarrow> a = b"
  by (metis dec_enc sum.inject(2))

lemma inj_on_enc: "inj_on enc {a. ok a}"
  by (rule inj_onI) (auto intro: enc_inj)

lemma map_dec_enc: "list_all ok xs \<Longrightarrow> map_res dec (map enc xs) = Inr xs"
  by (induction xs) (auto simp: dec_enc)

lemma dec_enc_opt:
  "(\<And>a. x = Some a \<Longrightarrow> ok a) \<Longrightarrow>
   (case map_option enc x of None \<Rightarrow> Inr None | Some b \<Rightarrow> bind_res (dec b) (\<lambda>a. Inr (Some a))) = Inr x"
  by (cases x) (simp_all add: dec_enc)

end

text \<open>A decoder that accepts nothing but encodings: one spelling per value.\<close>

locale canonical_codec = codec +
  assumes enc_dec: "dec b = Inr a \<Longrightarrow> ok a \<and> enc a = b"
begin

lemma dec_inj: "dec b = Inr a \<Longrightarrow> dec c = Inr a \<Longrightarrow> b = c"
  using enc_dec by metis

lemma dec_iff: "dec b = Inr a \<longleftrightarrow> ok a \<and> b = enc a"
  using enc_dec dec_enc by auto

end

section \<open>Hexadecimal\<close>

definition hex_digit :: "nat \<Rightarrow> char" where
  "hex_digit n = ''0123456789abcdef'' ! n"

text \<open>Both cases are read, as \<open>Buffer.from(hex, 'hex')\<close> does.\<close>

definition hex_value :: "char \<Rightarrow> nat option" where
  "hex_value c = (let n = of_char c :: nat in
     if 48 \<le> n \<and> n \<le> 57 then Some (n - 48)
     else if 97 \<le> n \<and> n \<le> 102 then Some (n - 87)
     else if 65 \<le> n \<and> n \<le> 70 then Some (n - 55)
     else None)"

fun bytesToHex :: "bytes \<Rightarrow> string" where
  "bytesToHex [] = []"
| "bytesToHex (b # bs) = hex_digit (unat b div 16) # hex_digit (unat b mod 16) # bytesToHex bs"

fun hex_pairs :: "string \<Rightarrow> bytes option" where
  "hex_pairs [] = Some []"
| "hex_pairs [c] = None"
| "hex_pairs (c # d # cs) =
     (case (hex_value c, hex_value d, hex_pairs cs) of
        (Some m, Some n, Some bs) \<Rightarrow> Some (word_of_nat (16 * m + n) # bs)
      | _ \<Rightarrow> None)"

text \<open>The guard is \<open>/^[0-9a-fA-F]+$/\<close> and an even length: the empty string is refused.\<close>

definition hexToBytes :: "string \<Rightarrow> bytes res" where
  "hexToBytes s = (case (if s = [] then None else hex_pairs s) of
      None \<Rightarrow> Inl (PlainError ''invalid hex string'')
    | Some bs \<Rightarrow> Inr bs)"

lemma hex_digit_table: "list_all (\<lambda>n. hex_value (hex_digit n) = Some n \<and> is_lower_hex (hex_digit n)) [0..<16]"
  by code_simp

lemma hex_digit_16 [simp]: "n < 16 \<Longrightarrow> hex_value (hex_digit n) = Some n"
  and hex_digit_lower [simp]: "n < 16 \<Longrightarrow> is_lower_hex (hex_digit n)"
  using hex_digit_table by (auto simp: list_all_iff)

lemma unat_byte: "unat (b :: byte) < 256"
  by (rule less_le_trans [OF unsigned_less]) simp

lemma byte_nibbles: "unat (b :: byte) div 16 < 16" "unat (b :: byte) mod 16 < 16"
  using unat_byte [of b] by (simp_all add: less_mult_imp_div_less)

lemma hex_pairs_bytesToHex: "hex_pairs (bytesToHex bs) = Some bs"
  by (induction bs) (simp_all add: byte_nibbles mult.commute [of 16])

lemma bytesToHex_length [simp]: "length (bytesToHex bs) = 2 * length bs"
  by (induction bs) simp_all

lemma bytesToHex_Nil_iff [simp]: "bytesToHex bs = [] \<longleftrightarrow> bs = []"
  by (cases bs) simp_all

lemma bytesToHex_lower: "list_all is_lower_hex (bytesToHex bs)"
  by (induction bs) (simp_all add: byte_nibbles)

lemma bytesToHex_hash_hex: "is_hash_hex (bytesToHex bs) \<longleftrightarrow> length bs = 32"
  by (auto simp: is_hash_hex_def bytesToHex_lower)

interpretation hex: codec bytesToHex hexToBytes "\<lambda>bs. bs \<noteq> []"
  by unfold_locales (simp add: hexToBytes_def hex_pairs_bytesToHex)

lemma bytesToHex_inj: "bytesToHex a = bytesToHex b \<Longrightarrow> a = b"
  by (metis hex_pairs_bytesToHex option.inject)

section \<open>Base64\<close>

definition b64_char :: "nat \<Rightarrow> char" where
  "b64_char n = char_of (if n < 26 then n + 65 else if n < 52 then n + 71
     else if n < 62 then n - 4 else if n = 62 then 43 else 47)"

text \<open>Node's decoder also reads the URL-safe alphabet and skips every other character.\<close>

definition b64_value :: "char \<Rightarrow> nat option" where
  "b64_value c = (let n = of_char c :: nat in
     if 65 \<le> n \<and> n \<le> 90 then Some (n - 65)
     else if 97 \<le> n \<and> n \<le> 122 then Some (n - 71)
     else if 48 \<le> n \<and> n \<le> 57 then Some (n + 4)
     else if n = 43 \<or> n = 45 then Some 62
     else if n = 47 \<or> n = 95 then Some 63
     else None)"

lemma b64_value_pad: "b64_value (CHR ''='') = None"
  by (simp add: b64_value_def)

fun b64_sextets :: "nat list \<Rightarrow> nat list" where
  "b64_sextets [] = []"
| "b64_sextets [a] = [a div 4, a mod 4 * 16]"
| "b64_sextets [a, b] = [a div 4, a mod 4 * 16 + b div 16, b mod 16 * 4]"
| "b64_sextets (a # b # c # r) =
     a div 4 # (a mod 4 * 16 + b div 16) # (b mod 16 * 4 + c div 64) # c mod 64 # b64_sextets r"

fun b64_octets :: "nat list \<Rightarrow> nat list" where
  "b64_octets (p # q # r # s # t) =
     (p * 4 + q div 16) # (q mod 16 * 16 + r div 4) # (r mod 4 * 64 + s) # b64_octets t"
| "b64_octets [p, q, r] = [p * 4 + q div 16, q mod 16 * 16 + r div 4]"
| "b64_octets [p, q] = [p * 4 + q div 16]"
| "b64_octets [p] = []"
| "b64_octets [] = []"

definition b64_padding :: "nat \<Rightarrow> string" where
  "b64_padding n = (if n mod 3 = 1 then ''=='' else if n mod 3 = 2 then ''='' else [])"

definition b64_encode :: "bytes \<Rightarrow> string" where
  "b64_encode bs = map b64_char (b64_sextets (map unat bs)) @ b64_padding (length bs)"

definition b64_decode :: "string \<Rightarrow> bytes" where
  "b64_decode s =
     map word_of_nat (b64_octets (List.map_filter b64_value (takeWhile (\<lambda>c. c \<noteq> CHR ''='') s)))"

text \<open>\<open>Buffer.from(s, "base64").toString("base64") === s\<close>.\<close>

definition b64_canonical :: "string \<Rightarrow> bool" where
  "b64_canonical s \<longleftrightarrow> b64_encode (b64_decode s) = s"

lemma b64_char_64 [simp]: "n < 64 \<Longrightarrow> b64_value (b64_char n) = Some n"
  by (auto simp: b64_value_def b64_char_def Let_def)

lemma b64_char_not_pad [simp]: "n < 64 \<Longrightarrow> b64_char n \<noteq> CHR ''=''"
  by (metis b64_char_64 b64_value_pad option.distinct(1))

lemma nibble_bounds [simp]:
  fixes b c :: nat
  shows "b < 256 \<Longrightarrow> b div 4 < 64"
    and "b < 256 \<Longrightarrow> b div 16 < 16"
    and "c < 256 \<Longrightarrow> c div 64 < 4"
  by (simp_all add: less_mult_imp_div_less)

lemma sextet_joins [simp]:
  fixes q r :: nat
  shows "q < 4 \<Longrightarrow> q * 16 < 64"
    and "q < 16 \<Longrightarrow> q * 4 < 64"
    and "q < 4 \<Longrightarrow> r < 16 \<Longrightarrow> q * 16 + r < 64"
    and "q < 16 \<Longrightarrow> r < 4 \<Longrightarrow> q * 4 + r < 64"
  by linarith+

lemma b64_sextets_bound:
  "list_all (\<lambda>n. n < 256) ns \<Longrightarrow> list_all (\<lambda>n. n < 64) (b64_sextets ns)"
  by (induction ns rule: b64_sextets.induct) simp_all

lemma b64_octets_sextets: "list_all (\<lambda>n. n < 256) ns \<Longrightarrow> b64_octets (b64_sextets ns) = ns"
  by (induction ns rule: b64_sextets.induct) simp_all

lemma b64_values_of_chars:
  "list_all (\<lambda>n. n < 64) ns \<Longrightarrow>
   List.map_filter b64_value (takeWhile (\<lambda>c. c \<noteq> CHR ''='') (map b64_char ns @ b64_padding k)) = ns"
  by (induction ns) (auto simp: List.map_filter_simps b64_padding_def)

lemma bytes_as_nats: "list_all (\<lambda>n. n < 256) (map unat (bs :: bytes))"
  by (induction bs) (simp_all add: unat_byte)

lemma b64_decode_encode: "b64_decode (b64_encode bs) = bs"
  by (simp add: b64_decode_def b64_encode_def b64_values_of_chars b64_sextets_bound
        b64_octets_sextets bytes_as_nats comp_def)

definition b64_read :: "string \<Rightarrow> bytes res" where
  "b64_read s = (if b64_canonical s then Inr (b64_decode s)
     else Inl (WorkerStateError ''must be canonical base64''))"

interpretation b64: canonical_codec b64_encode b64_read "\<lambda>_. True"
  by unfold_locales
    (auto simp: b64_read_def b64_canonical_def b64_decode_encode split: if_splits)

lemma b64_canonical_encode [simp]: "b64_canonical (b64_encode bs)"
  by (simp add: b64_canonical_def b64_decode_encode)

section \<open>Decimal numbers\<close>

definition digit_char :: "nat \<Rightarrow> char" where
  "digit_char n = ''0123456789'' ! n"

definition digit_value :: "char \<Rightarrow> nat" where
  "digit_value c = of_char c - 48"

text \<open>\<open>n.toString()\<close> on a non-negative \<open>bigint\<close>, and \<open>BigInt(s)\<close> on a digit string.\<close>

fun dec_print :: "nat \<Rightarrow> string" where
  "dec_print n = (if n < 10 then [digit_char n] else dec_print (n div 10) @ [digit_char (n mod 10)])"

declare dec_print.simps [simp del]

definition dec_value :: "string \<Rightarrow> nat" where
  "dec_value s = foldl (\<lambda>a c. 10 * a + digit_value c) 0 s"

definition dec_read :: "string \<Rightarrow> nat res" where
  "dec_read s = (if is_decimal s then Inr (dec_value s)
     else Inl (WorkerStateError ''must be unsigned decimal lamports''))"

lemma digit_table:
  "list_all (\<lambda>n. digit_value (digit_char n) = n \<and> is_digit (digit_char n)) [0..<10]"
  by code_simp

lemma digit_10 [simp]: "n < 10 \<Longrightarrow> digit_value (digit_char n) = n"
  and is_digit_10 [simp]: "n < 10 \<Longrightarrow> is_digit (digit_char n)"
  using digit_table by (auto simp: list_all_iff)

lemma dec_value_snoc: "dec_value (s @ [c]) = 10 * dec_value s + digit_value c"
  by (simp add: dec_value_def)

lemma dec_value_print [simp]: "dec_value (dec_print n) = n"
proof (induction n rule: dec_print.induct)
  case (1 n)
  show ?case
  proof (cases "n < 10")
    case True
    then show ?thesis by (subst dec_print.simps) (simp add: dec_value_def)
  next
    case False
    with 1 show ?thesis by (subst dec_print.simps) (simp add: dec_value_snoc)
  qed
qed

lemma is_decimal_print [simp]: "is_decimal (dec_print n)"
proof (induction n rule: dec_print.induct)
  case (1 n)
  then show ?case
    by (cases "n < 10") (subst dec_print.simps, simp add: is_decimal_def)+
qed

lemma dec_print_length: "n < 10 ^ Suc k \<Longrightarrow> length (dec_print n) \<le> Suc k"
proof (induction k arbitrary: n)
  case (Suc k)
  then show ?case
    by (cases "n < 10") (subst dec_print.simps, simp add: less_mult_imp_div_less mult.commute)+
qed (simp add: dec_print.simps)

lemma dec_print_not_Nil [simp]: "dec_print n \<noteq> []"
  using is_decimal_print [of n] by (auto simp: is_decimal_def)

lemma dec_print_digits [simp]: "list_all is_digit (dec_print n)"
  using is_decimal_print [of n] by (simp add: is_decimal_def)

lemma dec_print_no_dot: "CHR ''.'' \<notin> set (dec_print n)"
proof
  assume "CHR ''.'' \<in> set (dec_print n)"
  then have "is_digit (CHR ''.'')" using dec_print_digits [of n] by (simp add: list_all_iff)
  then show False by (simp add: is_digit_def)
qed

lemma dec_value_trailing: "dec_value (s @ replicate n (CHR ''0'')) = dec_value s * 10 ^ n"
proof (induction n)
  case (Suc n)
  have "replicate (Suc n) (CHR ''0'') = replicate n (CHR ''0'') @ [CHR ''0'']"
    by (simp add: replicate_append_same)
  then show ?case using Suc
    by (simp only: append_assoc [symmetric] dec_value_snoc) (simp add: digit_value_def of_char_def)
qed simp

lemma dec_value_leading: "dec_value (replicate n (CHR ''0'') @ s) = dec_value s"
  by (induction n) (simp_all add: dec_value_def digit_value_def of_char_def)

interpretation dec: codec dec_print dec_read "\<lambda>_. True"
  by unfold_locales (simp add: dec_read_def)

section \<open>Round trips\<close>

text \<open>The base64 text of the result bytes decodes to the same bytes and is the only text the canonical
  reader accepts for them; hexadecimal likewise for non-empty bytes.\<close>

lemma result_bytes_roundtrip:
  "b64_decode (b64_encode bs) = bs \<and> (b64_canonical s \<longleftrightarrow> s = b64_encode (b64_decode s)) \<and>
   hexToBytes (bytesToHex (b # bs)) = Inr (b # bs)"
  using hex.dec_enc [of "b # bs"] by (auto simp: b64_canonical_def b64_decode_encode)

end
