(* ===== verification/Json.thy ===== *)
theory Json
  imports Codecs
begin

text \<open>
  The JSON values the worker persists, with the field access the validators use and the
  printer \<open>JSON.stringify(value, null, 2)\<close>, which the byte ceiling of the state file
  measures.  A number is an integer or some other number; an object is its list of properties
  in order.  \<open>None\<close> stands for \<open>undefined\<close>.
\<close>

datatype json =
    JNull
  | JBool bool
  | JInt int
  | JNonInt string
  | JStr string
  | JArr "json list"
  | JObj "(string \<times> json) list"

type_synonym fields = "(string \<times> json) list"

abbreviation field :: "fields \<Rightarrow> string \<Rightarrow> json option" where
  "field fs k \<equiv> map_of fs k"

definition has_prop :: "fields \<Rightarrow> string \<Rightarrow> bool" where
  "has_prop fs k \<longleftrightarrow> k \<in> set (map fst fs)"

lemma has_prop_iff: "has_prop fs k \<longleftrightarrow> field fs k \<noteq> None"
  by (simp add: has_prop_def map_of_eq_None_iff image_iff)

text \<open>An optional property of an object literal, \<open>...(x !== undefined ? {k: x} : {})\<close>.\<close>

definition opt_prop :: "string \<Rightarrow> json option \<Rightarrow> fields" where
  "opt_prop k v = (case v of None \<Rightarrow> [] | Some j \<Rightarrow> [(k, j)])"

lemma opt_prop_simps [simp]:
  "opt_prop k None = []"
  "opt_prop k (Some j) = [(k, j)]"
  by (simp_all add: opt_prop_def)

lemma map_of_opt_prop [simp]:
  "map_of (opt_prop k v @ fs) x =
     (if x = k \<and> v \<noteq> None then v else map_of fs x)"
  by (cases v) auto

lemma map_of_opt_prop_last [simp]: "map_of (opt_prop k v) x = (if x = k then v else None)"
  by (cases v) auto

lemma keys_opt_prop: "set (map fst (opt_prop k v)) = (if v = None then {} else {k})"
  by (cases v) auto

section \<open>Printing\<close>

definition json_escape_char :: "char \<Rightarrow> string" where
  "json_escape_char c = (let n = of_char c :: nat in
     if c = CHR 0x22 then [CHR 0x5C, CHR 0x22]
     else if c = CHR 0x5C then [CHR 0x5C, CHR 0x5C]
     else if n = 8 then CHR 0x5C # ''b''
     else if n = 9 then CHR 0x5C # ''t''
     else if n = 10 then CHR 0x5C # ''n''
     else if n = 12 then CHR 0x5C # ''f''
     else if n = 13 then CHR 0x5C # ''r''
     else if n < 32 then CHR 0x5C # ''u00'' @ [hex_digit (n div 16), hex_digit (n mod 16)]
     else [c])"

definition json_string :: "string \<Rightarrow> string" where
  "json_string s = CHR 0x22 # concat (map json_escape_char s) @ [CHR 0x22]"

definition json_int :: "int \<Rightarrow> string" where
  "json_int i = (if i < 0 then ''-'' @ dec_print (nat (- i)) else dec_print (nat i))"

definition newline :: "nat \<Rightarrow> string" where
  "newline d = CHR 0x0A # replicate (2 * d) (CHR '' '')"

definition commas :: "string \<Rightarrow> string list \<Rightarrow> string" where
  "commas sep xs = (case xs of [] \<Rightarrow> [] | y # ys \<Rightarrow> y @ concat (map (\<lambda>z. sep @ z) ys))"

fun json_print :: "nat \<Rightarrow> json \<Rightarrow> string" where
  "json_print d JNull = ''null''"
| "json_print d (JBool b) = (if b then ''true'' else ''false'')"
| "json_print d (JInt i) = json_int i"
| "json_print d (JNonInt s) = s"
| "json_print d (JStr s) = json_string s"
| "json_print d (JArr xs) =
     (if xs = [] then ''[]''
      else ''['' @ newline (Suc d)
        @ commas (CHR '','' # newline (Suc d)) (map (json_print (Suc d)) xs) @ newline d @ '']'')"
| "json_print d (JObj fs) =
     (if fs = [] then ''{}''
      else ''{'' @ newline (Suc d)
        @ commas (CHR '','' # newline (Suc d))
            (map (\<lambda>(k, v). json_string k @ '': '' @ json_print (Suc d) v) fs)
        @ newline d @ ''}'')"

lemma json_print_object:
  "json_print 0 (JObj [(''a'', JArr [JInt 1, JNull]), (''b'', JStr ''x'')]) =
   ''{'' @ newline 1 @ json_string ''a'' @ '': ['' @ newline 2 @ ''1,'' @ newline 2 @ ''null''
     @ newline 1 @ ''],'' @ newline 1 @ json_string ''b'' @ '': '' @ json_string ''x''
     @ newline 0 @ ''}''"
  by (simp add: commas_def json_int_def dec_print.simps digit_char_def numeral_2_eq_2)

end
