(* ===== verification/Web.thy ===== *)
theory Web
  imports Json
begin

text \<open>
  What the worker uses of the web platform: URL records and their serialisation
  (\<open>new URL(..)\<close>, its fields and \<open>toString()\<close>), and the UTF-16 view of a string that
  \<open>length\<close> and string comparison use.  Parsing is a function of the platform.
\<close>

section \<open>URLs\<close>

record url =
  u_protocol :: string
  u_authority :: bool
  u_username :: string
  u_password :: string
  u_hostname :: string
  u_port :: string
  u_pathname :: string
  u_search :: string
  u_hash :: string

definition url_credentials :: "url \<Rightarrow> string" where
  "url_credentials u =
     (if u_username u = [] \<and> u_password u = [] then []
      else u_username u @ (if u_password u = [] then [] else '':'' @ u_password u) @ ''@'')"

definition url_host :: "url \<Rightarrow> string" where
  "url_host u = u_hostname u @ (if u_port u = [] then [] else '':'' @ u_port u)"

definition url_href :: "url \<Rightarrow> string" where
  "url_href u = u_protocol u
     @ (if u_authority u then ''//'' @ url_credentials u @ url_host u
        else if take 2 (u_pathname u) = ''//'' then ''/.'' else [])
     @ u_pathname u @ u_search u @ u_hash u"

section \<open>Splitting\<close>

text \<open>\<open>split\<close> and \<open>join\<close> on a single character.\<close>

fun split_on :: "char \<Rightarrow> string \<Rightarrow> string list" where
  "split_on c [] = [[]]"
| "split_on c (x # xs) =
     (if x = c then [] # split_on c xs
      else (case split_on c xs of [] \<Rightarrow> [[x]] | y # ys \<Rightarrow> (x # y) # ys))"

fun join_with :: "string \<Rightarrow> string list \<Rightarrow> string" where
  "join_with sep [] = []"
| "join_with sep [x] = x"
| "join_with sep (x # y # zs) = x @ sep @ join_with sep (y # zs)"

lemma split_on_not_Nil [simp]: "split_on c xs \<noteq> []"
  by (induction xs) (auto split: list.splits)

lemma join_split [simp]: "join_with [c] (split_on c xs) = xs"
proof (induction xs)
  case (Cons x xs)
  obtain y ys where yys: "split_on c xs = y # ys" by (cases "split_on c xs") auto
  then show ?case using Cons by (cases ys) auto
qed simp

lemma join_with_Cons: "xs \<noteq> [] \<Longrightarrow> join_with sep (x # xs) = x @ sep @ join_with sep xs"
  by (cases xs) auto

lemma split_on_no_sep: "x \<in> set (split_on c xs) \<Longrightarrow> c \<notin> set x"
proof (induction xs arbitrary: x)
  case (Cons y ys)
  then show ?case by (cases "split_on c ys") (auto split: if_splits)
qed simp

lemma split_join:
  "xs \<noteq> [] \<Longrightarrow> list_all (\<lambda>x. c \<notin> set x) xs \<Longrightarrow> split_on c (join_with [c] xs) = xs"
proof (induction "[c]" xs rule: join_with.induct)
  case (2 x)
  then have "split_on c x = [x]" if "c \<notin> set x" for x :: string
    using that by (induction x) auto
  then show ?case using 2 by simp
next
  case (3 x y zs)
  have "split_on c (x @ c # r) = x # split_on c r" if "c \<notin> set x" for r
    using that by (induction x) auto
  then show ?case using 3 by simp
qed simp

section \<open>UTF-16\<close>

text \<open>\<open>length\<close> of a well-formed string given as UTF-8 bytes.\<close>

definition utf16_length :: "string \<Rightarrow> nat" where
  "utf16_length s = sum_list (map (\<lambda>c. let n = of_char c :: nat in
     if 128 \<le> n \<and> n < 192 then 0 else if 240 \<le> n then 2 else 1) s)"

text \<open>The code units of a well-formed string, in order.\<close>

function utf16_units :: "nat list \<Rightarrow> nat list" where
  "utf16_units [] = []"
| "utf16_units (a # xs) =
     (if a < 128 then a # utf16_units xs
      else if a < 224 then
        ((a - 192) * 64 + (hd (xs @ [128]) - 128)) # utf16_units (drop 1 xs)
      else if a < 240 then
        ((a - 224) * 4096 + (hd (xs @ [128]) - 128) * 64 + (hd (drop 1 xs @ [128]) - 128))
          # utf16_units (drop 2 xs)
      else
        (let n = (a - 240) * 262144 + (hd (xs @ [128]) - 128) * 4096
               + (hd (drop 1 xs @ [128]) - 128) * 64 + (hd (drop 2 xs @ [128]) - 128) - 65536
         in (55296 + n div 1024) # (56320 + n mod 1024) # utf16_units (drop 3 xs)))"
  by pat_completeness auto
termination by (relation "measure length") auto

definition utf16 :: "string \<Rightarrow> nat list" where
  "utf16 s = utf16_units (map of_char s)"

lemma utf16_ascii: "list_all (\<lambda>c. of_char c < (128::nat)) s \<Longrightarrow> utf16 s = map of_char s"
  by (induction s) (auto simp: utf16_def)

end
