(* ===== verification/WorkerState.thy ===== *)
theory WorkerState
  imports Web
begin

text \<open>
  The persisted worker state of \<open>packages/agenc-worker/src/state.ts\<close>: its records, the
  fail-closed validators (\<open>currentState\<close> and the functions it calls, in the order of
  their checks), the v0.1.1 migration, and the pruning of the settled ledger.  The encoders
  give the object \<open>saveState\<close> serialises.  Each validator with its encoder is a
  \<open>validating_codec\<close>: it reads back what was written, and accepts well-formed values only.
\<close>

section \<open>The platform\<close>

text \<open>
  Functions of the JavaScript runtime and of \<open>@solana/kit\<close> the worker calls: the SHA-256 of
  \<open>node:crypto\<close>, \<open>Date.parse\<close> (\<open>None\<close> for \<open>NaN\<close>), \<open>toISOString\<close> of a valid time value, whether
  \<open>address(s)\<close> returns, \<open>new URL(s)\<close> and \<open>new URL(s, base)\<close> (\<open>None\<close> when they throw), \<open>JSON.parse\<close>,
  the fatal UTF-8 \<open>TextDecoder\<close>, \<open>isIP\<close> of \<open>node:net\<close>, and \<open>Number(s)\<close> (\<open>None\<close> when not an integer).
\<close>

record platform =
  sha256 :: "bytes \<Rightarrow> bytes"
  date_parse :: "string \<Rightarrow> int option"
  to_iso :: "int \<Rightarrow> string"
  valid_address :: "string \<Rightarrow> bool"
  url_parse :: "string \<Rightarrow> url option"
  url_resolve :: "string \<Rightarrow> url \<Rightarrow> url option"
  json_parse :: "string \<Rightarrow> json option"
  utf8_decode :: "bytes \<Rightarrow> string option"
  is_ip :: "string \<Rightarrow> nat"
  js_number :: "string \<Rightarrow> int option"

text \<open>\<open>new TextEncoder().encode(s)\<close>: strings are kept as their UTF-8 bytes.\<close>

definition utf8_encode :: "string \<Rightarrow> bytes" where
  "utf8_encode s = map of_char s"

lemma length_utf8_encode [simp]: "length (utf8_encode s) = length s"
  by (simp add: utf8_encode_def)

text \<open>The time values a \<open>Date\<close> can hold, in milliseconds.\<close>

definition valid_time :: "int \<Rightarrow> bool" where
  "valid_time t \<longleftrightarrow> \<bar>t\<bar> \<le> 8640000000000000"

text \<open>
  The documented behaviour the model relies on: a digest has 32 bytes, and parsing an ISO
  string gives the time it was printed from.
\<close>

definition platform_ok :: "platform \<Rightarrow> bool" where
  "platform_ok p \<longleftrightarrow>
     (\<forall>b. length (sha256 p b) = 32) \<and>
     (\<forall>t. valid_time t \<longrightarrow> date_parse p (to_iso p t) = Some t)"

definition sha256Hex :: "platform \<Rightarrow> bytes \<Rightarrow> string" where
  "sha256Hex p b = bytesToHex (sha256 p b)"

lemma sha256Hex_hash_hex [simp]: "platform_ok p \<Longrightarrow> is_hash_hex (sha256Hex p b)"
  by (simp add: sha256Hex_def bytesToHex_hash_hex platform_ok_def)

section \<open>Data\<close>

record execution_intent =
  exResultBytesBase64 :: string
  exResultHashHex :: string
  exRewardAmount :: string
  exExecutedAt :: string

record submission_intent =
  siResultUri :: string
  siResultHashHex :: string
  siRewardAmount :: string
  siPreparedAt :: string
  siLastBroadcastAt :: "string option"
  siTransactionSignature :: "string option"

datatype claim_phase = Claiming | Claimed | Executed | Uploading | Submitting

record open_claim =
  ocTask :: string
  ocClaimedAt :: string
  ocPhase :: claim_phase
  ocClaimTransactionSignature :: "string option"
  ocRevisionSubmissionCount :: "nat option"
  ocExecution :: "execution_intent option"
  ocSubmission :: "submission_intent option"

datatype outcome = OAccepted | ORejected | OCancelled | OClosed | OStraggler

datatype terminal_evidence = CollaborativeStraggler

record submission_record =
  srTask :: string
  srSubmissionSignature :: "string option"
  srResultUri :: string
  srResultHashHex :: string
  srRewardAmount :: string
  srSubmittedAt :: string
  srSettled :: bool
  srOutcome :: "outcome option"
  srTerminalEvidence :: "terminal_evidence option"
  srEarnedLamports :: "string option option"
  srSettlementSignature :: "string option option"
  srSettledAt :: "string option"

record worker_state =
  wsAgentIdHex :: "string option"
  wsOpenClaim :: "open_claim option"
  wsTotalEarnedBaseline :: string
  wsSubmissions :: "submission_record list"

definition WORKER_STATE_VERSION :: int where "WORKER_STATE_VERSION = 1"
definition MAX_WORKER_STATE_BYTES :: nat where "MAX_WORKER_STATE_BYTES = 16 * 1024 * 1024"
definition MAX_UNSETTLED_SUBMISSIONS :: nat where "MAX_UNSETTLED_SUBMISSIONS = 10000"
definition SETTLED_SUBMISSION_RETENTION :: nat where "SETTLED_SUBMISSION_RETENTION = 1000"
definition MAX_PARSED_SUBMISSIONS :: nat where "MAX_PARSED_SUBMISSIONS = 50000"

section \<open>Field validators\<close>

definition fail :: "string \<Rightarrow> worker_error" where
  "fail message = WorkerStateError (''invalid worker state: '' @ message)"

definition as_record :: "json \<Rightarrow> string \<Rightarrow> fields res" where
  "as_record v label = (case v of JObj fs \<Rightarrow> Inr fs | _ \<Rightarrow> Inl (fail (label @ '' must be an object'')))"

definition exactKeys :: "fields \<Rightarrow> string \<Rightarrow> string list \<Rightarrow> string list \<Rightarrow> unit res" where
  "exactKeys fs label required optional =
     (case List.find (\<lambda>k. k \<notin> set (required @ optional)) (map fst fs) of
        Some k \<Rightarrow> Inl (fail (label @ ''.'' @ k @ '' is not supported''))
      | None \<Rightarrow>
          (case List.find (\<lambda>k. \<not> has_prop fs k) required of
             Some k \<Rightarrow> Inl (fail (label @ ''.'' @ k @ '' is required''))
           | None \<Rightarrow> Inr ()))"

definition js_string :: "json option \<Rightarrow> string \<Rightarrow> string res" where
  "js_string v label = (case v of Some (JStr s) \<Rightarrow> Inr s | _ \<Rightarrow> Inl (fail (label @ '' must be a string'')))"

definition nonempty :: "json option \<Rightarrow> string \<Rightarrow> string res" where
  "nonempty v label = bind_res (js_string v label) (\<lambda>s.
     bind_res (guard_res (s \<noteq> []) (fail (label @ '' must not be empty''))) (\<lambda>_. Inr s))"

text \<open>\<open>new Date(Date.parse(s)).toISOString() === s\<close>.\<close>

definition canonical_iso :: "platform \<Rightarrow> string \<Rightarrow> bool" where
  "canonical_iso p s \<longleftrightarrow> (case date_parse p s of None \<Rightarrow> False | Some t \<Rightarrow> to_iso p t = s)"

definition iso :: "platform \<Rightarrow> json option \<Rightarrow> string \<Rightarrow> string res" where
  "iso p v label = bind_res (js_string v label) (\<lambda>s.
     bind_res (guard_res (canonical_iso p s) (fail (label @ '' must be a canonical ISO timestamp'')))
       (\<lambda>_. Inr s))"

definition decimal :: "json option \<Rightarrow> string \<Rightarrow> string res" where
  "decimal v label = bind_res (js_string v label) (\<lambda>s.
     bind_res (guard_res (is_decimal s) (fail (label @ '' must be unsigned decimal lamports''))) (\<lambda>_. Inr s))"

definition hash_hex :: "json option \<Rightarrow> string \<Rightarrow> string res" where
  "hash_hex v label = bind_res (js_string v label) (\<lambda>s.
     bind_res (guard_res (is_hash_hex s) (fail (label @ '' must be a 32-byte lowercase hex hash''))) (\<lambda>_. Inr s))"

definition taskAddress :: "platform \<Rightarrow> json option \<Rightarrow> string \<Rightarrow> string res" where
  "taskAddress p v label = bind_res (nonempty v label) (\<lambda>s.
     bind_res (guard_res (valid_address p s) (fail (label @ '' must be a valid Solana address''))) (\<lambda>_. Inr s))"

definition optionalSignature :: "json option \<Rightarrow> string \<Rightarrow> string option res" where
  "optionalSignature v label = (case v of None \<Rightarrow> Inr None
     | Some _ \<Rightarrow> bind_res (nonempty v label) (\<lambda>s. Inr (Some s)))"

text \<open>A property that may be absent, and is read by \<open>f\<close> when present.\<close>

definition optional_field :: "json option \<Rightarrow> (json \<Rightarrow> 'a res) \<Rightarrow> 'a option res" where
  "optional_field v f = (case v of None \<Rightarrow> Inr None | Some j \<Rightarrow> bind_res (f j) (\<lambda>a. Inr (Some a)))"

text \<open>A property that may be absent, \<open>null\<close>, or a string satisfying \<open>q\<close>.\<close>

definition nullable_string :: "json option \<Rightarrow> (string \<Rightarrow> bool) \<Rightarrow> worker_error \<Rightarrow> string option option res" where
  "nullable_string v q e = (case v of
      None \<Rightarrow> Inr None
    | Some JNull \<Rightarrow> Inr (Some None)
    | Some (JStr s) \<Rightarrow> bind_res (guard_res (q s) e) (\<lambda>_. Inr (Some (Some s)))
    | _ \<Rightarrow> Inl e)"

section \<open>Record validators\<close>

definition executionIntent :: "platform \<Rightarrow> json \<Rightarrow> string \<Rightarrow> execution_intent res" where
  "executionIntent p v label =
     bind_res (as_record v label) (\<lambda>fs.
     bind_res (exactKeys fs label
       [''resultBytesBase64'', ''resultHashHex'', ''rewardAmount'', ''executedAt''] []) (\<lambda>_.
     bind_res (js_string (field fs ''resultBytesBase64'') (label @ ''.resultBytesBase64'')) (\<lambda>b64.
     bind_res (guard_res (b64_canonical b64)
       (fail (label @ ''.resultBytesBase64 must be canonical base64''))) (\<lambda>_.
     bind_res (hash_hex (field fs ''resultHashHex'') (label @ ''.resultHashHex'')) (\<lambda>h.
     bind_res (guard_res (sha256Hex p (b64_decode b64) = h)
       (fail (label @ ''.resultHashHex does not match stdout''))) (\<lambda>_.
     bind_res (decimal (field fs ''rewardAmount'') (label @ ''.rewardAmount'')) (\<lambda>r.
     bind_res (iso p (field fs ''executedAt'') (label @ ''.executedAt'')) (\<lambda>t.
     Inr \<lparr>exResultBytesBase64 = b64, exResultHashHex = h, exRewardAmount = r, exExecutedAt = t\<rparr>))))))))"

definition submissionIntent :: "platform \<Rightarrow> json \<Rightarrow> string \<Rightarrow> submission_intent res" where
  "submissionIntent p v label =
     bind_res (as_record v label) (\<lambda>fs.
     bind_res (exactKeys fs label
       [''resultUri'', ''resultHashHex'', ''rewardAmount'', ''preparedAt'']
       [''lastBroadcastAt'', ''transactionSignature'']) (\<lambda>_.
     bind_res (optionalSignature (field fs ''transactionSignature'') (label @ ''.transactionSignature'')) (\<lambda>sig.
     bind_res (nonempty (field fs ''resultUri'') (label @ ''.resultUri'')) (\<lambda>uri.
     bind_res (hash_hex (field fs ''resultHashHex'') (label @ ''.resultHashHex'')) (\<lambda>h.
     bind_res (decimal (field fs ''rewardAmount'') (label @ ''.rewardAmount'')) (\<lambda>r.
     bind_res (iso p (field fs ''preparedAt'') (label @ ''.preparedAt'')) (\<lambda>t.
     bind_res (optional_field (field fs ''lastBroadcastAt'')
       (\<lambda>j. iso p (Some j) (label @ ''.lastBroadcastAt''))) (\<lambda>b.
     Inr \<lparr>siResultUri = uri, siResultHashHex = h, siRewardAmount = r, siPreparedAt = t,
         siLastBroadcastAt = b, siTransactionSignature = sig\<rparr>))))))))"

definition claim_phase_of :: "json option \<Rightarrow> claim_phase option" where
  "claim_phase_of v =
     (if v = Some (JStr ''claiming'') then Some Claiming
      else if v = Some (JStr ''claimed'') then Some Claimed
      else if v = Some (JStr ''executed'') then Some Executed
      else if v = Some (JStr ''uploading'') then Some Uploading
      else if v = Some (JStr ''submitting'') then Some Submitting
      else None)"

fun phase_name :: "claim_phase \<Rightarrow> string" where
  "phase_name Claiming = ''claiming''"
| "phase_name Claimed = ''claimed''"
| "phase_name Executed = ''executed''"
| "phase_name Uploading = ''uploading''"
| "phase_name Submitting = ''submitting''"

definition revision_count :: "json option \<Rightarrow> string \<Rightarrow> nat option res" where
  "revision_count v label = (case v of
      None \<Rightarrow> Inr None
    | Some (JInt i) \<Rightarrow>
        bind_res (guard_res (\<not> (i < 1 \<or> i > 65535))
          (fail (label @ ''.revisionSubmissionCount must be a positive u16''))) (\<lambda>_. Inr (Some (nat i)))
    | _ \<Rightarrow> Inl (fail (label @ ''.revisionSubmissionCount must be a positive u16'')))"

definition openClaim :: "platform \<Rightarrow> json \<Rightarrow> string \<Rightarrow> open_claim res" where
  "openClaim p v label =
     bind_res (as_record v label) (\<lambda>fs.
     bind_res (exactKeys fs label [''task'', ''claimedAt'', ''phase'']
       [''claimTransactionSignature'', ''revisionSubmissionCount'', ''execution'', ''submission'']) (\<lambda>_.
     case claim_phase_of (field fs ''phase'') of
       None \<Rightarrow> Inl (fail (label @ ''.phase is unsupported''))
     | Some phase \<Rightarrow>
     bind_res (optional_field (field fs ''execution'') (\<lambda>j. executionIntent p j (label @ ''.execution''))) (\<lambda>ex.
     bind_res (optional_field (field fs ''submission'') (\<lambda>j. submissionIntent p j (label @ ''.submission''))) (\<lambda>su.
     bind_res (guard_res ((phase = Executed \<or> phase = Uploading) = (ex \<noteq> None))
       (fail (label @ ''.execution does not match phase ''  @ phase_name phase))) (\<lambda>_.
     bind_res (guard_res ((phase = Submitting) = (su \<noteq> None))
       (fail (label @ ''.submission does not match phase '' @ phase_name phase))) (\<lambda>_.
     bind_res (optionalSignature (field fs ''claimTransactionSignature'')
       (label @ ''.claimTransactionSignature'')) (\<lambda>sig.
     bind_res (revision_count (field fs ''revisionSubmissionCount'') label) (\<lambda>rev.
     bind_res (taskAddress p (field fs ''task'') (label @ ''.task'')) (\<lambda>task.
     bind_res (iso p (field fs ''claimedAt'') (label @ ''.claimedAt'')) (\<lambda>t.
     Inr \<lparr>ocTask = task, ocClaimedAt = t, ocPhase = phase, ocClaimTransactionSignature = sig,
         ocRevisionSubmissionCount = rev, ocExecution = ex, ocSubmission = su\<rparr>))))))))))"

fun outcome_name :: "outcome \<Rightarrow> string" where
  "outcome_name OAccepted = ''accepted''"
| "outcome_name ORejected = ''rejected''"
| "outcome_name OCancelled = ''cancelled''"
| "outcome_name OClosed = ''closed''"
| "outcome_name OStraggler = ''straggler''"

definition outcome_field :: "json option \<Rightarrow> string \<Rightarrow> outcome option res" where
  "outcome_field v label =
     (if v = None then Inr None
      else if v = Some (JStr ''accepted'') then Inr (Some OAccepted)
      else if v = Some (JStr ''rejected'') then Inr (Some ORejected)
      else if v = Some (JStr ''cancelled'') then Inr (Some OCancelled)
      else if v = Some (JStr ''closed'') then Inr (Some OClosed)
      else if v = Some (JStr ''straggler'') then Inr (Some OStraggler)
      else Inl (fail (label @ ''.outcome is unsupported'')))"

definition evidence_field :: "json option \<Rightarrow> string \<Rightarrow> terminal_evidence option res" where
  "evidence_field v label =
     (if v = None then Inr None
      else if v = Some (JStr ''collaborative-straggler'') then Inr (Some CollaborativeStraggler)
      else Inl (fail (label @ ''.terminalEvidence is unsupported'')))"

text \<open>
  A missing \<open>submissionSignature\<close> or \<open>settled\<close> cannot reach these checks: both are required keys.
\<close>

definition submissionRecord :: "platform \<Rightarrow> json \<Rightarrow> string \<Rightarrow> submission_record res" where
  "submissionRecord p v label =
     bind_res (as_record v label) (\<lambda>fs.
     bind_res (exactKeys fs label
       [''task'', ''submissionSignature'', ''resultUri'', ''resultHashHex'', ''rewardAmount'',
        ''submittedAt'', ''settled'']
       [''outcome'', ''terminalEvidence'', ''earnedLamports'', ''settlementSignature'', ''settledAt'']) (\<lambda>_.
     bind_res (nullable_string (field fs ''submissionSignature'') (\<lambda>_. True)
       (fail (label @ ''.submissionSignature must be a string or null''))) (\<lambda>sig.
     bind_res (case field fs ''settled'' of Some (JBool b) \<Rightarrow> Inr b
       | _ \<Rightarrow> Inl (fail (label @ ''.settled must be boolean''))) (\<lambda>settled.
     bind_res (outcome_field (field fs ''outcome'') label) (\<lambda>outcome.
     bind_res (evidence_field (field fs ''terminalEvidence'') label) (\<lambda>evidence.
     bind_res (guard_res (\<not> (settled \<and> (outcome = None \<or> \<not> has_prop fs ''settledAt'')))
       (fail (label @ '' settled records require outcome and settledAt''))) (\<lambda>_.
     bind_res (guard_res (\<not> (\<not> settled \<and> (outcome \<noteq> None \<or> has_prop fs ''earnedLamports''
         \<or> has_prop fs ''settlementSignature'' \<or> has_prop fs ''settledAt'')))
       (fail (label @ '' unsettled records cannot carry terminal fields''))) (\<lambda>_.
     bind_res (guard_res (\<not> (settled \<and> (\<not> has_prop fs ''earnedLamports'' \<or> \<not> has_prop fs ''settlementSignature'')))
       (fail (label @ '' settled records require complete settlement fields''))) (\<lambda>_.
     bind_res (nullable_string (field fs ''earnedLamports'') is_decimal
       (fail (label @ ''.earnedLamports must be decimal or null''))) (\<lambda>earned.
     bind_res (nullable_string (field fs ''settlementSignature'') (\<lambda>x. x \<noteq> [])
       (fail (label @ ''.settlementSignature must be a nonempty string or null''))) (\<lambda>settlement.
     bind_res (taskAddress p (field fs ''task'') (label @ ''.task'')) (\<lambda>task.
     bind_res (if sig = Some None then Inr None
       else bind_res (nonempty (field fs ''submissionSignature'') (label @ ''.submissionSignature'')) (\<lambda>x. Inr (Some x))) (\<lambda>signature.
     bind_res (nonempty (field fs ''resultUri'') (label @ ''.resultUri'')) (\<lambda>uri.
     bind_res (hash_hex (field fs ''resultHashHex'') (label @ ''.resultHashHex'')) (\<lambda>h.
     bind_res (decimal (field fs ''rewardAmount'') (label @ ''.rewardAmount'')) (\<lambda>r.
     bind_res (iso p (field fs ''submittedAt'') (label @ ''.submittedAt'')) (\<lambda>t.
     bind_res (optional_field (field fs ''settledAt'') (\<lambda>j. iso p (Some j) (label @ ''.settledAt''))) (\<lambda>st.
     Inr \<lparr>srTask = task, srSubmissionSignature = signature, srResultUri = uri, srResultHashHex = h,
         srRewardAmount = r, srSubmittedAt = t, srSettled = settled, srOutcome = outcome,
         srTerminalEvidence = evidence, srEarnedLamports = earned,
         srSettlementSignature = settlement, srSettledAt = st\<rparr>))))))))))))))))))"

definition unsettled_count :: "submission_record list \<Rightarrow> nat" where
  "unsettled_count rs = count_if (\<lambda>r. \<not> srSettled r) rs"

text \<open>\<open>root.submissions[i]\<close>: the index is part of the label of item \<open>i\<close>.\<close>

definition submission_label :: "nat \<Rightarrow> string" where
  "submission_label i = ''root.submissions['' @ dec_print i @ '']''"

definition currentState :: "platform \<Rightarrow> json \<Rightarrow> worker_state res" where
  "currentState p v =
     bind_res (as_record v ''root'') (\<lambda>fs.
     bind_res (exactKeys fs ''root''
       [''version'', ''agentIdHex'', ''openClaim'', ''totalEarnedBaseline'', ''submissions''] []) (\<lambda>_.
     bind_res (guard_res (field fs ''version'' = Some (JInt WORKER_STATE_VERSION))
       (fail ''unsupported version'')) (\<lambda>_.
     bind_res (nullable_string (field fs ''agentIdHex'') (\<lambda>_. True)
       (fail ''root.agentIdHex must be a string or null'')) (\<lambda>agent.
     bind_res (guard_res (case agent of Some (Some a) \<Rightarrow> is_hash_hex a | _ \<Rightarrow> True)
       (fail ''root.agentIdHex must encode exactly 32 bytes'')) (\<lambda>_.
     bind_res (case field fs ''submissions'' of Some (JArr js) \<Rightarrow> Inr js
       | _ \<Rightarrow> Inl (fail ''root.submissions must be an array'')) (\<lambda>js.
     bind_res (guard_res (\<not> length js > MAX_PARSED_SUBMISSIONS)
       (fail ''root.submissions exceeds the 50000 record parse limit'')) (\<lambda>_.
     bind_res (map_res (\<lambda>(i, j). submissionRecord p j (submission_label i)) (List.enumerate 0 js)) (\<lambda>rs.
     bind_res (guard_res (\<not> unsettled_count rs > MAX_UNSETTLED_SUBMISSIONS)
       (fail ''root.submissions exceeds the 10000 unsettled-record limit'')) (\<lambda>_.
     bind_res (guard_res (card (set (map srTask rs)) = length rs)
       (fail ''root.submissions contains duplicate tasks'')) (\<lambda>_.
     bind_res (case field fs ''openClaim'' of Some JNull \<Rightarrow> Inr None
       | None \<Rightarrow> Inr None
       | Some j \<Rightarrow> bind_res (openClaim p j ''root.openClaim'') (\<lambda>c. Inr (Some c))) (\<lambda>claim.
     bind_res (guard_res (\<not> (case claim of None \<Rightarrow> False | Some c \<Rightarrow> list_ex (\<lambda>r. srTask r = ocTask c) rs))
       (fail ''root.openClaim task also exists in the submission ledger'')) (\<lambda>_.
     bind_res (decimal (field fs ''totalEarnedBaseline'') ''root.totalEarnedBaseline'') (\<lambda>base.
     Inr \<lparr>wsAgentIdHex = (case agent of Some x \<Rightarrow> x | None \<Rightarrow> None), wsOpenClaim = claim,
         wsTotalEarnedBaseline = base, wsSubmissions = rs\<rparr>)))))))))))))"

text \<open>The legacy form had no version and a claim of two fields.\<close>

definition legacy_claim_json :: "string \<Rightarrow> string \<Rightarrow> json" where
  "legacy_claim_json task claimedAt =
     JObj [(''task'', JStr task), (''claimedAt'', JStr claimedAt), (''phase'', JStr ''claimed'')]"

definition migrateLegacyState :: "platform \<Rightarrow> json \<Rightarrow> worker_state res" where
  "migrateLegacyState p v =
     bind_res (as_record v ''legacy root'') (\<lambda>fs.
     bind_res (exactKeys fs ''legacy root''
       [''agentIdHex'', ''openClaim'', ''totalEarnedBaseline'', ''submissions''] []) (\<lambda>_.
     bind_res (case field fs ''openClaim'' of Some JNull \<Rightarrow> Inr JNull | None \<Rightarrow> Inr JNull
       | Some j \<Rightarrow>
          bind_res (as_record j ''legacy root.openClaim'') (\<lambda>cs.
          bind_res (exactKeys cs ''legacy root.openClaim'' [''task'', ''claimedAt''] []) (\<lambda>_.
          bind_res (taskAddress p (field cs ''task'') ''legacy root.openClaim.task'') (\<lambda>task.
          bind_res (iso p (field cs ''claimedAt'') ''legacy root.openClaim.claimedAt'') (\<lambda>t.
          Inr (legacy_claim_json task t)))))) (\<lambda>claim.
     currentState p (JObj
       ([(''version'', JInt WORKER_STATE_VERSION)]
        @ opt_prop ''agentIdHex'' (field fs ''agentIdHex'')
        @ [(''openClaim'', claim)]
        @ opt_prop ''totalEarnedBaseline'' (field fs ''totalEarnedBaseline'')
        @ opt_prop ''submissions'' (field fs ''submissions''))))))"

definition emptyState :: worker_state where
  "emptyState = \<lparr>wsAgentIdHex = None, wsOpenClaim = None, wsTotalEarnedBaseline = ''0'', wsSubmissions = []\<rparr>"

section \<open>Pruning\<close>

fun drop_settled :: "nat \<Rightarrow> submission_record list \<Rightarrow> submission_record list" where
  "drop_settled k [] = []"
| "drop_settled k (r # rs) =
     (if \<not> srSettled r \<or> k = 0 then r # drop_settled k rs else drop_settled (k - 1) rs)"

definition pruneSettledSubmissions :: "worker_state \<Rightarrow> int \<Rightarrow> (worker_state \<times> nat) res" where
  "pruneSettledSubmissions s retention =
     bind_res (guard_res (0 \<le> retention \<and> retention \<le> 9007199254740991)
       (WorkerStateError ''settled submission retention must be a non-negative safe integer'')) (\<lambda>_.
     let settledToRemove = nat (max 0 (int (count_if srSettled (wsSubmissions s)) - retention) )
     in if settledToRemove = 0 then Inr (s, 0)
        else let rs = drop_settled settledToRemove (wsSubmissions s)
             in Inr (s\<lparr>wsSubmissions := rs\<rparr>, length (wsSubmissions s) - length rs))"

text \<open>The state after pruning with the default retention, as \<open>loadState\<close> and \<open>saveState\<close> do.\<close>

definition pruned :: "worker_state \<Rightarrow> worker_state" where
  "pruned s = (case pruneSettledSubmissions s (int SETTLED_SUBMISSION_RETENTION) of
      Inl _ \<Rightarrow> s | Inr (s', _) \<Rightarrow> s')"

section \<open>Encoders\<close>

fun encode_execution :: "execution_intent \<Rightarrow> json" where
  "encode_execution x = JObj
     [(''resultBytesBase64'', JStr (exResultBytesBase64 x)), (''resultHashHex'', JStr (exResultHashHex x)),
      (''rewardAmount'', JStr (exRewardAmount x)), (''executedAt'', JStr (exExecutedAt x))]"

fun encode_submission_intent :: "submission_intent \<Rightarrow> json" where
  "encode_submission_intent x = JObj
     ([(''resultUri'', JStr (siResultUri x)), (''resultHashHex'', JStr (siResultHashHex x)),
       (''rewardAmount'', JStr (siRewardAmount x)), (''preparedAt'', JStr (siPreparedAt x))]
      @ opt_prop ''lastBroadcastAt'' (map_option JStr (siLastBroadcastAt x))
      @ opt_prop ''transactionSignature'' (map_option JStr (siTransactionSignature x)))"

fun encode_open_claim :: "open_claim \<Rightarrow> json" where
  "encode_open_claim c = JObj
     ([(''task'', JStr (ocTask c)), (''claimedAt'', JStr (ocClaimedAt c)),
       (''phase'', JStr (phase_name (ocPhase c)))]
      @ opt_prop ''claimTransactionSignature'' (map_option JStr (ocClaimTransactionSignature c))
      @ opt_prop ''revisionSubmissionCount'' (map_option (\<lambda>n. JInt (int n)) (ocRevisionSubmissionCount c))
      @ opt_prop ''execution'' (map_option encode_execution (ocExecution c))
      @ opt_prop ''submission'' (map_option encode_submission_intent (ocSubmission c)))"

definition encode_nullable :: "string option \<Rightarrow> json" where
  "encode_nullable v = (case v of None \<Rightarrow> JNull | Some x \<Rightarrow> JStr x)"

definition record_entries :: "submission_record \<Rightarrow> fields" where
  "record_entries r =
      [(''task'', JStr (srTask r)), (''submissionSignature'', encode_nullable (srSubmissionSignature r)),
       (''resultUri'', JStr (srResultUri r)), (''resultHashHex'', JStr (srResultHashHex r)),
       (''rewardAmount'', JStr (srRewardAmount r)), (''submittedAt'', JStr (srSubmittedAt r)),
       (''settled'', JBool (srSettled r))]
      @ opt_prop ''outcome'' (map_option (\<lambda>x. JStr (outcome_name x)) (srOutcome r))
      @ opt_prop ''terminalEvidence''
          (map_option (\<lambda>_. JStr ''collaborative-straggler'') (srTerminalEvidence r))
      @ opt_prop ''earnedLamports'' (map_option encode_nullable (srEarnedLamports r))
      @ opt_prop ''settlementSignature'' (map_option encode_nullable (srSettlementSignature r))
      @ opt_prop ''settledAt'' (map_option JStr (srSettledAt r))"

fun encode_record :: "submission_record \<Rightarrow> json" where
  "encode_record r = JObj (record_entries r)"

fun encode_state :: "worker_state \<Rightarrow> json" where
  "encode_state s = JObj
     [(''version'', JInt WORKER_STATE_VERSION),
      (''agentIdHex'', encode_nullable (wsAgentIdHex s)),
      (''openClaim'', (case wsOpenClaim s of None \<Rightarrow> JNull | Some c \<Rightarrow> encode_open_claim c)),
      (''totalEarnedBaseline'', JStr (wsTotalEarnedBaseline s)),
      (''submissions'', JArr (map encode_record (wsSubmissions s)))]"

declare encode_execution.simps [simp del] encode_submission_intent.simps [simp del]
  encode_open_claim.simps [simp del] encode_record.simps [simp del] encode_state.simps [simp del]

end
