(* ===== verification/ChainTypes.thy ===== *)
theory ChainTypes
  imports WorkerState
begin

text \<open>
  The decoded accounts of the AgenC program, as the worker of
  \<open>packages/agenc-worker/src/runtime.ts\<close> reads them (fields it does not use are left out), and
  the predicates it evaluates on them.  Addresses are base58 strings, lamports and counters
  naturals, chain timestamps integers in seconds.
\<close>

section \<open>Accounts\<close>

datatype task_status = TOpen | TInProgress | TPendingValidation | TCompleted | TCancelled | TDisputed | TRejectFrozen

datatype task_type = TTExclusive | TTCollaborative | TTCompetitive | TTBidExclusive

datatype submission_status = SIdle | SSubmitted | SAccepted | SRejected

record task_account =
  tkStatus :: task_status
  tkType :: task_type
  tkCreator :: string
  tkRewardAmount :: nat
  tkRewardMint :: "string option"
  tkRequiredCapabilities :: nat
  tkDependsOn :: "string option"
  tkDescription :: bytes
  tkCurrentWorkers :: nat

record claim_account =
  clTask :: string
  clWorker :: string
  clClaimedAt :: int
  clCompletedAt :: int
  clExpiresAt :: int
  clIsCompleted :: bool
  clIsValidated :: bool
  clRewardPaid :: nat

record submission_account =
  suTask :: string
  suClaim :: string
  suWorker :: string
  suStatus :: submission_status
  suProofHash :: bytes
  suSubmissionCount :: nat
  suSubmittedAt :: int
  suRejectionHash :: bytes

record hire_record =
  hrTask :: string
  hrBump :: nat
  hrDesignatedProvider :: string
  hrListing :: string

record agent_account =
  agAuthority :: string
  agCapabilities :: nat
  agTotalEarned :: nat

text \<open>An account with its metadata; the fields are \<open>None\<close> when of an unexpected type.\<close>

record account_snapshot =
  asData :: "bytes option"
  asOwner :: "string option"
  asExecutable :: "bool option"

definition DEFAULT_ADDRESS :: string where
  "DEFAULT_ADDRESS = ''11111111111111111111111111111111''"

definition AGENC_COORDINATION_PROGRAM_ADDRESS :: string where
  "AGENC_COORDINATION_PROGRAM_ADDRESS = ''HJsZ53Zb27b8QMRbQpuDngE44AdwCGxvEZr61Zmxw1xK''"

text \<open>
  Address derivation and the hire-record layout are generated code and \<open>@solana/kit\<close>: functions of
  the chain interface.
\<close>

record chain =
  pda_agent :: "bytes \<Rightarrow> string"
  pda_claim :: "string \<Rightarrow> string \<Rightarrow> string"
  pda_submission :: "string \<Rightarrow> string"
  pda_hire :: "string \<Rightarrow> string \<times> nat"
  hire_size :: nat
  hire_discriminator :: bytes
  decode_hire :: "bytes \<Rightarrow> hire_record res"

section \<open>Predicates\<close>

definition isLandedSubmission :: "submission_account \<Rightarrow> bool" where
  "isLandedSubmission s \<longleftrightarrow> suStatus s = SSubmitted \<or> suStatus s = SAccepted"

definition submissionMatchesIntent :: "submission_account \<Rightarrow> submission_intent \<Rightarrow> nat option \<Rightarrow> bool" where
  "submissionMatchesIntent s intent prior \<longleftrightarrow>
     bytesToHex (suProofHash s) = siResultHashHex intent \<and>
     (case prior of None \<Rightarrow> True | Some n \<Rightarrow> suSubmissionCount s > n)"

definition isMatchingLandedSubmission :: "submission_account \<Rightarrow> submission_intent \<Rightarrow> nat option \<Rightarrow> bool" where
  "isMatchingLandedSubmission s intent prior \<longleftrightarrow>
     isLandedSubmission s \<and> submissionMatchesIntent s intent prior"

text \<open>\<open>now\<close> is \<open>Date.now()\<close>, in milliseconds.\<close>

definition claimLooksLive :: "int \<Rightarrow> claim_account \<Rightarrow> bool" where
  "claimLooksLive now c \<longleftrightarrow>
     clClaimedAt c > 0 \<and> clCompletedAt c = 0 \<and> \<not> clIsCompleted c \<and> \<not> clIsValidated c \<and>
     clExpiresAt c \<ge> now div 1000"

definition isRevisionRequested :: "int \<Rightarrow> task_account \<Rightarrow> claim_account \<Rightarrow> submission_account \<Rightarrow> bool" where
  "isRevisionRequested now t c s =
     (if suStatus s \<noteq> SRejected then False
      else if tkStatus t \<noteq> TInProgress \<and> tkStatus t \<noteq> TPendingValidation then False
      else if tkCurrentWorkers t = 0 \<or> \<not> claimLooksLive now c then False
      else True)"

text \<open>
  \<open>Number(ts) * 1000\<close> is exact for every time a \<open>Date\<close> can hold; beyond it the fallback is taken.
\<close>

definition submissionTimestamp :: "platform \<Rightarrow> int \<Rightarrow> string \<Rightarrow> string" where
  "submissionTimestamp p timestamp fallback =
     (if valid_time (timestamp * 1000) then to_iso p (timestamp * 1000) else fallback)"

definition claimTimestamp :: "platform \<Rightarrow> claim_account \<Rightarrow> string \<Rightarrow> string" where
  "claimTimestamp p c fallback = submissionTimestamp p (clClaimedAt c) fallback"

section \<open>Hire provenance\<close>

record hire_binding =
  hbIsHire :: bool
  hbLegacyListing :: "string option"
  hbRejection :: "string option"

text \<open>The account read: its bytes only, or with its metadata.\<close>

datatype hire_read = HireBytes "bytes option" | HireInfo "account_snapshot option"

definition no_hire :: hire_binding where
  "no_hire = \<lparr>hbIsHire = False, hbLegacyListing = None, hbRejection = None\<rparr>"

definition decodeHireBinding :: "chain \<Rightarrow> string \<Rightarrow> string \<Rightarrow> bytes \<Rightarrow> hire_binding res" where
  "decodeHireBinding ch task expectedWorker data =
     bind_res (guard_res (length data = hire_size ch)
       (PlainError ''canonical hire account has invalid data length'')) (\<lambda>_.
     bind_res (guard_res (take (length (hire_discriminator ch)) data = hire_discriminator ch)
       (PlainError ''canonical hire account has invalid HireRecord discriminator'')) (\<lambda>_.
     bind_res (decode_hire ch data) (\<lambda>hr.
     bind_res (guard_res (hrTask hr = task \<and> hrBump hr = snd (pda_hire ch task))
       (PlainError ''canonical hire record has inconsistent task or bump'')) (\<lambda>_.
     if hrDesignatedProvider hr \<noteq> DEFAULT_ADDRESS \<and> hrDesignatedProvider hr \<noteq> expectedWorker
     then Inr \<lparr>hbIsHire = True, hbLegacyListing = None, hbRejection = Some ''not-designated-provider''\<rparr>
     else Inr \<lparr>hbIsHire = True,
         hbLegacyListing = (if hrDesignatedProvider hr = DEFAULT_ADDRESS then Some (hrListing hr) else None),
         hbRejection = None\<rparr>))))"

definition hireBindingForClaim :: "chain \<Rightarrow> hire_read \<Rightarrow> string \<Rightarrow> string \<Rightarrow> hire_binding res" where
  "hireBindingForClaim ch account task expectedWorker =
     (case account of
        HireBytes d \<Rightarrow>
          (case d of
             None \<Rightarrow> Inr no_hire
           | Some data \<Rightarrow> if data = [] then Inr no_hire else decodeHireBinding ch task expectedWorker data)
      | HireInfo i \<Rightarrow>
          (case i of
             None \<Rightarrow> Inr no_hire
           | Some a \<Rightarrow>
               (case (asData a, asOwner a, asExecutable a) of
                  (Some data, Some owner, Some executable) \<Rightarrow>
                    if executable then Inl (PlainError ''canonical hire account is executable'')
                    else if owner = DEFAULT_ADDRESS then
                      (if data \<noteq> []
                       then Inl (PlainError ''canonical hire account is System Program-owned but has non-empty data'')
                       else Inr no_hire)
                    else if owner \<noteq> AGENC_COORDINATION_PROGRAM_ADDRESS
                    then Inl (PlainError ''canonical hire account has unexpected owner'')
                    else decodeHireBinding ch task expectedWorker data
                | _ \<Rightarrow> Inl (PlainError ''canonical hire account is malformed''))))"

definition hiredCommitmentClaimRejection :: "bytes \<Rightarrow> bytes \<Rightarrow> bool \<Rightarrow> string option" where
  "hiredCommitmentClaimRejection description verifiedJobSpecHash isHire =
     (if \<not> isHire then None
      else if length description \<noteq> 64 \<or> length verifiedJobSpecHash \<noteq> 32
      then Some ''invalid-hire-commitment-shape''
      else let committed = take 32 (drop 32 description) in
        if list_all (\<lambda>b. b = 0) committed then Some ''legacy-hire-requires-rehire''
        else if \<not> list_all (\<lambda>i. committed ! i = verifiedJobSpecHash ! i) [0..<length committed]
        then Some ''hired-job-spec-commitment-mismatch''
        else None)"

section \<open>Canonical reads\<close>

text \<open>The consistency checks of \<open>readClaim\<close> and \<open>readSubmission\<close> on what the account holds.\<close>

definition checkClaim :: "string \<Rightarrow> string \<Rightarrow> claim_account option \<Rightarrow> claim_account option res" where
  "checkClaim agentPda task data = (case data of
      None \<Rightarrow> Inr None
    | Some c \<Rightarrow> if clTask c \<noteq> task \<or> clWorker c \<noteq> agentPda
        then Inl (PlainError ''canonical claim has inconsistent task/worker fields'') else Inr (Some c))"

definition checkSubmission ::
  "chain \<Rightarrow> string \<Rightarrow> string \<Rightarrow> submission_account option \<Rightarrow> submission_account option res" where
  "checkSubmission ch agentPda task data = (case data of
      None \<Rightarrow> Inr None
    | Some s \<Rightarrow> if suTask s \<noteq> task \<or> suClaim s \<noteq> pda_claim ch task agentPda \<or> suWorker s \<noteq> agentPda
        then Inl (PlainError ''canonical submission has inconsistent task/claim/worker fields'')
        else Inr (Some s))"

lemma hiredCommitment_None_iff:
  "hiredCommitmentClaimRejection d h isHire = None \<longleftrightarrow>
     (isHire \<longrightarrow> length d = 64 \<and> length h = 32 \<and> drop 32 d = h \<and> h \<noteq> replicate 32 0)"
proof (cases "isHire \<and> length d = 64 \<and> length h = 32")
  case True
  then have c: "take 32 (drop 32 d) = drop 32 d" by simp
  have eq: "list_all (\<lambda>i. drop 32 d ! i = h ! i) [0..<length (drop 32 d)] \<longleftrightarrow> drop 32 d = h"
    using True by (auto simp: list_all_iff intro!: nth_equalityI)
  have zero: "list_all (\<lambda>b. b = 0) (drop 32 d) \<longleftrightarrow> drop 32 d = replicate 32 0"
    using True by (auto simp: list_all_iff replicate_eqI)
  show ?thesis
    using True unfolding hiredCommitmentClaimRejection_def Let_def c eq zero by auto
next
  case False
  then show ?thesis by (auto simp: hiredCommitmentClaimRejection_def)
qed

lemma decodeHireBinding_provider:
  "decodeHireBinding ch task w data = Inr b \<Longrightarrow> hbRejection b = None \<Longrightarrow>
   \<exists>hr. decode_hire ch data = Inr hr \<and> hrTask hr = task \<and> hbIsHire b \<and>
     (hrDesignatedProvider hr = w \<or> hrDesignatedProvider hr = DEFAULT_ADDRESS)"
  by (auto simp: decodeHireBinding_def bind_res_Inr_iff guard_res_Inr_iff split: if_splits)

section \<open>What a hire commits to\<close>

text \<open>A hired task is claimed only when the second half of its 64-byte description is the verified job-spec
  hash and is not all zeros; a task without a hire is not restricted.\<close>

lemma hire_commitment:
  "hiredCommitmentClaimRejection d h isHire = None \<longleftrightarrow>
     (isHire \<longrightarrow> length d = 64 \<and> length h = 32 \<and> drop 32 d = h \<and> h \<noteq> replicate 32 0)"
  by (rule hiredCommitment_None_iff)

lemma hire_commitment_witness:
  "hiredCommitmentClaimRejection (replicate 64 7) (replicate 32 7) True = None \<and>
   hiredCommitmentClaimRejection (replicate 64 0) (replicate 32 0) True \<noteq> None"
  by (simp only: hire_commitment) (simp add: replicate_eq_replicate)

end
