(* ===== verification/Executor.thy ===== *)
theory Executor
  imports Web
begin

text \<open>
  Running the operator's coding agent (\<open>packages/agenc-worker/src/executor.ts\<close>) on a POSIX
  platform: the argv built around the untrusted prompt, the prompt cap, the scrubbed
  environment, the preflight, and the child process as a state machine over its events.
\<close>

section \<open>Argv and prompt\<close>

definition PROMPT_PLACEHOLDER :: string where "PROMPT_PLACEHOLDER = ''{prompt}''"
definition DEFAULT_MAX_STDOUT_BYTES :: nat where "DEFAULT_MAX_STDOUT_BYTES = 10 * 1024 * 1024"
definition DEFAULT_MAX_STDERR_BYTES :: nat where "DEFAULT_MAX_STDERR_BYTES = 256 * 1024"
definition DEFAULT_MAX_EXECUTOR_PROMPT_BYTES :: nat where "DEFAULT_MAX_EXECUTOR_PROMPT_BYTES = 48 * 1024"

definition BASE_ENV_ALLOWLIST :: "string list" where
  "BASE_ENV_ALLOWLIST = [''LANG'', ''LC_ALL'', ''LC_CTYPE'', ''TZ'']"

text \<open>The mapping sets \<open>replaced\<close> when it meets the placeholder.\<close>

definition buildExecutorArgv :: "string list \<Rightarrow> string \<Rightarrow> string list res" where
  "buildExecutorArgv template prompt =
     (if template = [] then Inl (ExecutorError ''executor argv template is empty'')
      else let argv = map (\<lambda>element. if element = PROMPT_PLACEHOLDER then prompt else element) template;
               replaced = list_ex (\<lambda>element. element = PROMPT_PLACEHOLDER) template
           in Inr (if replaced then argv else argv @ [prompt]))"

definition assertExecutorPromptFits :: "string \<Rightarrow> nat \<Rightarrow> unit res" where
  "assertExecutorPromptFits prompt maxBytes =
     bind_res (guard_res (CHR 0x00 \<notin> set prompt)
       (ExecutorError ''executor prompt contains a NUL byte and cannot be represented as argv'')) (\<lambda>_.
     guard_res (\<not> length prompt > maxBytes)
       (ExecutorError ''executor prompt is above the pre-claim argv cap''))"

section \<open>The environment of the child\<close>

type_synonym process_env = "string \<Rightarrow> string option"

definition scratch_env :: "string \<Rightarrow> process_env" where
  "scratch_env scratchDir = [''HOME'' \<mapsto> scratchDir, ''TMPDIR'' \<mapsto> scratchDir,
     ''XDG_CONFIG_HOME'' \<mapsto> scratchDir @ ''/config'', ''XDG_CACHE_HOME'' \<mapsto> scratchDir @ ''/cache'',
     ''XDG_DATA_HOME'' \<mapsto> scratchDir @ ''/data'', ''XDG_STATE_HOME'' \<mapsto> scratchDir @ ''/state'',
     ''CLAUDE_CODE_SAFE_MODE'' \<mapsto> ''1'', ''CLAUDE_CODE_SIMPLE'' \<mapsto> ''1'', ''NO_COLOR'' \<mapsto> ''1'']"

definition isAbsolute :: "string \<Rightarrow> bool" where
  "isAbsolute s \<longleftrightarrow> s \<noteq> [] \<and> hd s = CHR ''/''"

definition DEFAULT_PATH :: string where "DEFAULT_PATH = ''/usr/local/bin:/usr/bin:/bin''"

definition safe_path :: "process_env \<Rightarrow> string" where
  "safe_path ambient =
     (let path = (case ambient ''PATH'' of Some v \<Rightarrow> v | None \<Rightarrow> DEFAULT_PATH);
          safePath = join_with '':'' (List.filter isAbsolute (split_on (CHR '':'') path))
      in if safePath = [] then DEFAULT_PATH else safePath)"

definition copy_env :: "process_env \<Rightarrow> string list \<Rightarrow> process_env \<Rightarrow> process_env" where
  "copy_env ambient keys env = fold (\<lambda>key e. case ambient key of None \<Rightarrow> e | Some v \<Rightarrow> e(key \<mapsto> v)) keys env"

definition isolatedEnvironment :: "process_env \<Rightarrow> string \<Rightarrow> string list \<Rightarrow> process_env" where
  "isolatedEnvironment ambient scratchDir allowlist =
     copy_env ambient (BASE_ENV_ALLOWLIST @ allowlist)
       ((scratch_env scratchDir)(''PATH'' \<mapsto> safe_path ambient))"

section \<open>Finding the command\<close>

text \<open>The candidates, of which the first executable regular file is taken.\<close>

definition executable_candidates :: "process_env \<Rightarrow> (string \<Rightarrow> string) \<Rightarrow> string \<Rightarrow> string list" where
  "executable_candidates ambient resolve command =
     (if isAbsolute command \<or> CHR ''/'' \<in> set command \<or> CHR 0x5C \<in> set command then [resolve command]
      else map (\<lambda>directory. directory @ ''/'' @ command)
             (List.filter isAbsolute
               (split_on (CHR '':'') (case ambient ''PATH'' of Some v \<Rightarrow> v | None \<Rightarrow> []))))"

definition executablePath ::
  "process_env \<Rightarrow> (string \<Rightarrow> string) \<Rightarrow> (string \<Rightarrow> bool) \<Rightarrow> string \<Rightarrow> string option" where
  "executablePath ambient resolve runnable command =
     List.find runnable (executable_candidates ambient resolve command)"

text \<open>The result of \<open>--help\<close>: a spawn error, the exit status, and both output streams.\<close>

record help_check =
  hc_error :: bool
  hc_status :: "int option"
  hc_output :: string

definition required_flags :: "string list" where
  "required_flags = [''--bare'', ''--safe-mode'', ''--disable-slash-commands'', ''--strict-mcp-config'',
     ''--tools'', ''--no-session-persistence'']"

fun has_substring :: "string \<Rightarrow> string \<Rightarrow> bool" where
  "has_substring [] needle = (needle = [])"
| "has_substring (x # xs) needle = (take (length needle) (x # xs) = needle \<or> has_substring xs needle)"

definition preflightExecutor ::
  "(string \<Rightarrow> string option) \<Rightarrow> help_check \<Rightarrow> string list \<Rightarrow> bool \<Rightarrow> unit res" where
  "preflightExecutor locate check argv safeClaudeMode =
     (case argv of
        [] \<Rightarrow> Inl (ExecutorError ''executor command is not installed or executable: (empty argv)'')
      | command # _ \<Rightarrow>
          (case locate command of
             None \<Rightarrow> Inl (ExecutorError ''executor command is not installed or executable'')
           | Some _ \<Rightarrow>
               if \<not> safeClaudeMode then Inr ()
               else if hc_error check \<or> hc_status check \<noteq> Some 0
               then Inl (ExecutorError ''safe executor preflight failed'')
               else guard_res (List.filter (\<lambda>f. \<not> has_substring (hc_output check) f) required_flags = [])
                 (ExecutorError ''installed Claude CLI is too old for safe mode'')))"

section \<open>The child process\<close>

datatype child_event =
    TimerFired
  | StdoutData bytes
  | StderrData bytes
  | ChildError string
  | ChildClose "int option" "string option"

record run_state =
  rsChunks :: "bytes list"
  rsStdoutBytes :: nat
  rsStderrBytes :: nat
  rsTimerActive :: bool
  rsSettled :: bool
  rsFailure :: "worker_error option"
  rsKilled :: bool
  rsResult :: "bytes res option"

definition initial_run :: run_state where
  "initial_run = \<lparr>rsChunks = [], rsStdoutBytes = 0, rsStderrBytes = 0, rsTimerActive = True,
     rsSettled = False, rsFailure = None, rsKilled = False, rsResult = None\<rparr>"

abbreviation timeout_error :: worker_error where
  "timeout_error \<equiv> ExecutorError ''executor timed out''"
abbreviation stdout_error :: worker_error where
  "stdout_error \<equiv> ExecutorError ''executor stdout exceeded the cap''"
abbreviation stderr_error :: worker_error where
  "stderr_error \<equiv> ExecutorError ''executor stderr exceeded the cap''"

definition close_result :: "run_state \<Rightarrow> int option \<Rightarrow> string option \<Rightarrow> bytes res" where
  "close_result s exitCode signal =
     (case rsFailure s of
        Some e \<Rightarrow> Inl e
      | None \<Rightarrow>
          if signal \<noteq> None then Inl (ExecutorError ''executor was killed by signal'')
          else if exitCode \<noteq> Some 0
          then Inl (ExecutorError ''executor exited with a non-zero code: task execution failed, nothing submitted'')
          else Inr (concat (rsChunks s)))"

fun child_step :: "nat \<Rightarrow> nat \<Rightarrow> bool \<Rightarrow> child_event \<Rightarrow> run_state \<Rightarrow> run_state" where
  "child_step maxOut maxErr unsafe TimerFired s =
     (if rsTimerActive s
      then s\<lparr>rsFailure := Some timeout_error, rsKilled := True, rsTimerActive := False\<rparr> else s)"
| "child_step maxOut maxErr unsafe (StdoutData chunk) s =
     (let n = rsStdoutBytes s + length chunk; s1 = s\<lparr>rsStdoutBytes := n\<rparr> in
      if n > maxOut
      then s1\<lparr>rsFailure := (if rsFailure s = None then Some stdout_error else rsFailure s), rsKilled := True\<rparr>
      else s1\<lparr>rsChunks := rsChunks s @ [chunk]\<rparr>)"
| "child_step maxOut maxErr unsafe (StderrData chunk) s =
     (let n = rsStderrBytes s + length chunk; s1 = s\<lparr>rsStderrBytes := n\<rparr> in
      if n > maxErr
      then s1\<lparr>rsFailure := (if rsFailure s = None then Some stderr_error else rsFailure s), rsKilled := True\<rparr>
      else s1)"
| "child_step maxOut maxErr unsafe (ChildError message) s =
     (let s1 = s\<lparr>rsTimerActive := False\<rparr> in
      if rsSettled s then s1
      else s1\<lparr>rsSettled := True, rsKilled := (rsKilled s \<or> \<not> unsafe),
          rsResult := Some (Inl (ExecutorError ''executor failed to spawn''))\<rparr>)"
| "child_step maxOut maxErr unsafe (ChildClose exitCode signal) s =
     (let s1 = s\<lparr>rsTimerActive := False\<rparr> in
      if rsSettled s then s1
      else s1\<lparr>rsSettled := True, rsKilled := (rsKilled s \<or> \<not> unsafe),
          rsResult := Some (close_result s exitCode signal)\<rparr>)"

definition run_child :: "nat \<Rightarrow> nat \<Rightarrow> bool \<Rightarrow> child_event list \<Rightarrow> run_state \<Rightarrow> run_state" where
  "run_child maxOut maxErr unsafe evs s = fold (child_step maxOut maxErr unsafe) evs s"

text \<open>
  \<open>None\<close> while the child has not ended.  \<open>locate\<close> is \<open>executablePath\<close> and \<open>spawn\<close> gives the events
  of the child started with that command and arguments.
\<close>

definition runExecutor ::
  "(string \<Rightarrow> string option) \<Rightarrow> (string \<Rightarrow> string list \<Rightarrow> child_event list) \<Rightarrow>
   nat \<Rightarrow> nat \<Rightarrow> bool \<Rightarrow> string list \<Rightarrow> string \<Rightarrow> bytes res option" where
  "runExecutor locate spawn maxOut maxErr unsafe argv prompt =
     (case assertExecutorPromptFits prompt DEFAULT_MAX_EXECUTOR_PROMPT_BYTES of
        Inl e \<Rightarrow> Some (Inl e)
      | Inr _ \<Rightarrow>
          (case buildExecutorArgv argv prompt of
             Inl e \<Rightarrow> Some (Inl e)
           | Inr full \<Rightarrow>
               (case locate (hd full) of
                  None \<Rightarrow> Some (Inl (ExecutorError ''executor command is not installed or executable''))
                | Some command \<Rightarrow>
                    rsResult (run_child maxOut maxErr unsafe (spawn command (tl full)) initial_run))))"

section \<open>Argv and environment\<close>

lemma buildExecutorArgv_iff:
  "buildExecutorArgv template prompt = Inr argv \<longleftrightarrow>
     template \<noteq> [] \<and>
     argv = map (\<lambda>element. if element = PROMPT_PLACEHOLDER then prompt else element) template
       @ (if PROMPT_PLACEHOLDER \<in> set template then [] else [prompt])"
  by (auto simp: buildExecutorArgv_def Let_def list_ex_iff)

lemma assertExecutorPromptFits_iff [res_simps]:
  "assertExecutorPromptFits prompt n = Inr u \<longleftrightarrow> CHR 0x00 \<notin> set prompt \<and> length prompt \<le> n"
  by (auto simp: assertExecutorPromptFits_def res_simps)

lemma copy_env_apply:
  "copy_env ambient keys env k =
     (if k \<in> set keys \<and> ambient k \<noteq> None then ambient k else env k)"
proof (induction keys arbitrary: env)
  case (Cons key keys)
  have "copy_env ambient (key # keys) env =
      copy_env ambient keys (case ambient key of None \<Rightarrow> env | Some v \<Rightarrow> env(key \<mapsto> v))"
    by (simp add: copy_env_def)
  then show ?case by (auto simp: Cons.IH split: option.splits)
qed (simp add: copy_env_def)

definition scratch_keys :: "string list" where
  "scratch_keys = [''HOME'', ''TMPDIR'', ''XDG_CONFIG_HOME'', ''XDG_CACHE_HOME'', ''XDG_DATA_HOME'',
     ''XDG_STATE_HOME'', ''CLAUDE_CODE_SAFE_MODE'', ''CLAUDE_CODE_SIMPLE'', ''NO_COLOR'']"

lemma scratch_env_dom: "scratch_env d k \<noteq> None \<Longrightarrow> k \<in> set scratch_keys"
  by (auto simp: scratch_env_def scratch_keys_def split: if_splits)

lemma isolatedEnvironment_apply:
  "isolatedEnvironment ambient scratchDir allowlist k =
     (if k \<in> set (BASE_ENV_ALLOWLIST @ allowlist) \<and> ambient k \<noteq> None then ambient k
      else if k = ''PATH'' then Some (safe_path ambient) else scratch_env scratchDir k)"
  by (simp add: isolatedEnvironment_def copy_env_apply)

lemma safe_path_absolute: "x \<in> set (split_on (CHR '':'') (safe_path ambient)) \<Longrightarrow> isAbsolute x"
proof -
  let ?v = "case ambient ''PATH'' of Some v \<Rightarrow> v | None \<Rightarrow> DEFAULT_PATH"
  let ?xs = "List.filter isAbsolute (split_on (CHR '':'') ?v)"
  have default: "list_all isAbsolute (split_on (CHR '':'') DEFAULT_PATH)"
    by (simp add: DEFAULT_PATH_def isAbsolute_def)
  assume x: "x \<in> set (split_on (CHR '':'') (safe_path ambient))"
  show ?thesis
  proof (cases "join_with '':'' ?xs = []")
    case True
    with x default show ?thesis by (auto simp: safe_path_def Let_def list_all_iff)
  next
    case False
    then have "?xs \<noteq> []" by auto
    then have "split_on (CHR '':'') (join_with '':'' ?xs) = ?xs"
      by (rule split_join) (auto simp: list_all_iff dest: split_on_no_sep)
    with x False show ?thesis by (auto simp: safe_path_def Let_def)
  qed
qed

section \<open>The child process\<close>

fun ends_child :: "child_event \<Rightarrow> bool" where
  "ends_child (ChildError _) = True"
| "ends_child (ChildClose _ _) = True"
| "ends_child _ = False"

fun stdout_part :: "child_event \<Rightarrow> bytes" where
  "stdout_part (StdoutData b) = b"
| "stdout_part _ = []"

fun stderr_part :: "child_event \<Rightarrow> bytes" where
  "stderr_part (StderrData b) = b"
| "stderr_part _ = []"

definition stdout_of :: "child_event list \<Rightarrow> bytes" where
  "stdout_of evs = concat (map stdout_part evs)"

definition stderr_of :: "child_event list \<Rightarrow> bytes" where
  "stderr_of evs = concat (map stderr_part evs)"

lemma outputs_snoc [simp]:
  "stdout_of (evs @ [e]) = stdout_of evs @ stdout_part e"
  "stderr_of (evs @ [e]) = stderr_of evs @ stderr_part e"
  by (simp_all add: stdout_of_def stderr_of_def)

lemma run_child_snoc [simp]:
  "run_child maxOut maxErr unsafe (evs @ [e]) s = child_step maxOut maxErr unsafe e (run_child maxOut maxErr unsafe evs s)"
  by (simp add: run_child_def)

text \<open>While the child runs: what the counters, the timer and the failure say of the past events.\<close>

definition running :: "nat \<Rightarrow> nat \<Rightarrow> child_event list \<Rightarrow> run_state \<Rightarrow> bool" where
  "running maxOut maxErr evs s \<longleftrightarrow>
     \<not> rsSettled s \<and> rsResult s = None \<and>
     (rsTimerActive s \<longleftrightarrow> TimerFired \<notin> set evs) \<and>
     rsStdoutBytes s = length (stdout_of evs) \<and> rsStderrBytes s = length (stderr_of evs) \<and>
     (rsFailure s = None \<longleftrightarrow> TimerFired \<notin> set evs \<and> length (stdout_of evs) \<le> maxOut \<and>
        length (stderr_of evs) \<le> maxErr) \<and>
     (length (stdout_of evs) \<le> maxOut \<longrightarrow> concat (rsChunks s) = stdout_of evs) \<and>
     (rsFailure s \<noteq> None \<longrightarrow> rsKilled s)"

lemma run_child_running:
  "list_all (\<lambda>e. \<not> ends_child e) evs \<Longrightarrow> running maxOut maxErr evs (run_child maxOut maxErr unsafe evs initial_run)"
proof (induction evs rule: rev_induct)
  case Nil
  then show ?case
    by (simp add: running_def run_child_def initial_run_def stdout_of_def stderr_of_def)
next
  case (snoc e evs)
  then have "running maxOut maxErr evs (run_child maxOut maxErr unsafe evs initial_run)" "\<not> ends_child e"
    by auto
  then show ?case by (cases e) (auto simp: running_def Let_def)
qed

lemma child_step_settled:
  "rsSettled s \<Longrightarrow> rsSettled (child_step maxOut maxErr unsafe e s) \<and>
     rsResult (child_step maxOut maxErr unsafe e s) = rsResult s"
  by (cases e) (auto simp: Let_def)

lemma run_child_settled:
  "rsSettled s \<Longrightarrow> rsResult (run_child maxOut maxErr unsafe evs s) = rsResult s"
  by (induction evs arbitrary: s) (simp_all add: run_child_def child_step_settled)

lemma run_child_append:
  "run_child maxOut maxErr unsafe (xs @ ys) s = run_child maxOut maxErr unsafe ys (run_child maxOut maxErr unsafe xs s)"
  by (simp add: run_child_def)

lemma run_child_ended:
  assumes "list_all (\<lambda>e. \<not> ends_child e) evs" "ends_child t"
  shows "rsResult (run_child maxOut maxErr unsafe (evs @ t # rest) initial_run) =
    (case t of ChildClose exitCode signal \<Rightarrow>
        Some (close_result (run_child maxOut maxErr unsafe evs initial_run) exitCode signal)
     | _ \<Rightarrow> Some (Inl (ExecutorError ''executor failed to spawn'')))"
proof -
  let ?s = "run_child maxOut maxErr unsafe evs initial_run"
  have s: "\<not> rsSettled ?s" using run_child_running [OF assms(1)] by (simp add: running_def)
  have "run_child maxOut maxErr unsafe (evs @ t # rest) initial_run =
      run_child maxOut maxErr unsafe rest (child_step maxOut maxErr unsafe t ?s)"
    by (simp add: run_child_def)
  then show ?thesis using s assms(2) by (cases t) (simp_all add: run_child_settled Let_def)
qed

lemma run_child_ok_iff:
  assumes "list_all (\<lambda>e. \<not> ends_child e) evs" "ends_child t"
  shows "rsResult (run_child maxOut maxErr unsafe (evs @ t # rest) initial_run) = Some (Inr out) \<longleftrightarrow>
    t = ChildClose (Some 0) None \<and> TimerFired \<notin> set evs \<and> length (stdout_of evs) \<le> maxOut \<and>
    length (stderr_of evs) \<le> maxErr \<and> out = stdout_of evs"
proof -
  let ?s = "run_child maxOut maxErr unsafe evs initial_run"
  have run: "running maxOut maxErr evs ?s" by (rule run_child_running [OF assms(1)])
  show ?thesis
    unfolding run_child_ended [OF assms]
    using run by (cases t) (auto simp: close_result_def running_def split: option.splits)
qed

lemma run_child_unended:
  "list_all (\<lambda>e. \<not> ends_child e) evs \<Longrightarrow> rsResult (run_child maxOut maxErr unsafe evs initial_run) = None"
  using run_child_running [of evs maxOut maxErr unsafe] by (simp add: running_def)

section \<open>What the executor gets and gives\<close>

text \<open>The argv is the template with every prompt placeholder replaced by the whole prompt as one element,
  or with the prompt appended when no placeholder is present; only an empty template is refused.\<close>

lemma executor_argv:
  "buildExecutorArgv template prompt = Inr argv \<longleftrightarrow>
     template \<noteq> [] \<and>
     argv = map (\<lambda>element. if element = PROMPT_PLACEHOLDER then prompt else element) template
       @ (if PROMPT_PLACEHOLDER \<in> set template then [] else [prompt])"
  by (rule buildExecutorArgv_iff)

text \<open>The child's environment holds nothing of the worker's own beyond the base and configured allowlists:
  any other variable is a scratch setting or the search path, whose entries are absolute.\<close>

lemma executor_environment:
  assumes "k \<notin> set (BASE_ENV_ALLOWLIST @ allowlist)"
  shows "isolatedEnvironment ambient scratchDir allowlist k =
      (if k = ''PATH'' then Some (safe_path ambient) else scratch_env scratchDir k) \<and>
    (\<forall>x \<in> set (split_on (CHR '':'') (safe_path ambient)). isAbsolute x)"
  using assms safe_path_absolute by (auto simp: isolatedEnvironment_apply)

lemma executor_environment_witness:
  "isolatedEnvironment (\<lambda>_. Some ''secret'') ''/tmp/s'' [] ''SOLANA_KEY'' = None"
  using executor_environment [of "''SOLANA_KEY''" "[]" "\<lambda>_. Some ''secret''" "''/tmp/s''"]
  by (simp add: BASE_ENV_ALLOWLIST_def scratch_env_def)

text \<open>C29: a run yields a result exactly when the child closes with exit code 0 and no signal, before the
  timer fired and within both output caps, and the result is everything it wrote to stdout.\<close>

theorem executor_result:
  assumes "list_all (\<lambda>e. \<not> ends_child e) evs" "ends_child t"
  shows "rsResult (run_child maxOut maxErr unsafe (evs @ t # rest) initial_run) = Some (Inr out) \<longleftrightarrow>
    t = ChildClose (Some 0) None \<and> TimerFired \<notin> set evs \<and> length (stdout_of evs) \<le> maxOut \<and>
    length (stderr_of evs) \<le> maxErr \<and> out = stdout_of evs"
  using assms by (rule run_child_ok_iff)

theorem executor_result_witness:
  "rsResult (run_child 4 4 False ([StdoutData [1, 2]] @ [ChildClose (Some 0) None]) initial_run)
     = Some (Inr [1, 2])"
  using executor_result [of "[StdoutData [1, 2]]" "ChildClose (Some 0) None" 4 4 False "[]" "[1, 2]"]
  by (simp add: stdout_of_def stderr_of_def)

end
