(* ===== verification/StableJson.thy ===== *)
theory StableJson
  imports Web "HOL-Library.List_Lexorder" "HOL-Library.Multiset"
begin

text \<open>
  The \<open>json-stable-v1\<close> canonical form of \<open>packages/sdk-ts/src/values/job-spec.ts\<close>, whose SHA-256
  is the on-chain commitment of a job spec: \<open>canonicalize\<close> and the compact
  \<open>JSON.stringify\<close> it feeds.  The canonical text does not depend on the order in which the
  fields of an object were written.
\<close>

section \<open>The property order of a JavaScript object\<close>

text \<open>Keys that are array indices come first, in numeric order, whenever they were added.\<close>

definition is_array_index :: "string \<Rightarrow> bool" where
  "is_array_index k \<longleftrightarrow> is_decimal k \<and> (k = ''0'' \<or> hd k \<noteq> CHR ''0'') \<and> dec_value k < 4294967295"

definition own_order :: "string list \<Rightarrow> string list" where
  "own_order ks = sort_key dec_value (List.filter is_array_index ks)
     @ List.filter (\<lambda>k. \<not> is_array_index k) ks"

section \<open>Canonicalisation\<close>

definition is_finite_number :: "string \<Rightarrow> bool" where
  "is_finite_number s \<longleftrightarrow> s \<notin> {''Infinity'', ''-Infinity'', ''NaN''}"

definition sorted_object :: "fields \<Rightarrow> fields" where
  "sorted_object fs =
     map (\<lambda>k. (k, the (field fs k))) (own_order (sort_key utf16 (map fst fs)))"

fun canonicalize :: "json \<Rightarrow> json res" where
  "canonicalize JNull = Inr JNull"
| "canonicalize (JBool b) = Inr (JBool b)"
| "canonicalize (JStr s) = Inr (JStr s)"
| "canonicalize (JInt i) = Inr (JInt i)"
| "canonicalize (JNonInt s) =
     (if is_finite_number s then Inr (JNonInt s) else Inl (PlainError ''json-stable-v1: non-finite number''))"
| "canonicalize (JArr xs) = bind_res (map_res canonicalize xs) (\<lambda>ys. Inr (JArr ys))"
| "canonicalize (JObj fs) =
     bind_res (map_res (\<lambda>(k, v). bind_res (canonicalize v) (\<lambda>w. Inr (k, w))) fs)
       (\<lambda>gs. Inr (JObj (sorted_object gs)))"

fun json_compact :: "json \<Rightarrow> string" where
  "json_compact JNull = ''null''"
| "json_compact (JBool b) = (if b then ''true'' else ''false'')"
| "json_compact (JInt i) = json_int i"
| "json_compact (JNonInt s) = s"
| "json_compact (JStr s) = json_string s"
| "json_compact (JArr xs) = ''['' @ commas '','' (map json_compact xs) @ '']''"
| "json_compact (JObj fs) =
     ''{'' @ commas '','' (map (\<lambda>(k, v). json_string k @ '':'' @ json_compact v) fs) @ ''}''"

definition canonicalJobSpecJson :: "json \<Rightarrow> string res" where
  "canonicalJobSpecJson spec = bind_res (canonicalize spec) (\<lambda>j. Inr (json_compact j))"

section \<open>Reordered documents\<close>

text \<open>
  The same document, up to the order in which the fields of its objects were written.  Property
  names are distinct as JavaScript strings.
\<close>

inductive same_json :: "json \<Rightarrow> json \<Rightarrow> bool" where
  atom: "same_json j j"
| arr: "list_all2 same_json xs ys \<Longrightarrow> same_json (JArr xs) (JArr ys)"
| obj: "distinct (map (\<lambda>kv. utf16 (fst kv)) fs) \<Longrightarrow> mset (map fst fs) = mset (map fst gs) \<Longrightarrow>
    (\<And>k. rel_option same_json (field fs k) (field gs k)) \<Longrightarrow> same_json (JObj fs) (JObj gs)"
  monos list_all2_mono option.rel_mono_strong

section \<open>The canonical text ignores field order\<close>

abbreviation not_finite :: worker_error where
  "not_finite \<equiv> PlainError ''json-stable-v1: non-finite number''"

lemma canonicalize_Inl: "canonicalize j = Inl e \<Longrightarrow> e = not_finite"
proof (induction j arbitrary: e rule: canonicalize.induct)
  case (6 xs)
  then show ?case by (auto simp: bind_res_Inl_iff dest: map_res_Inl)
next
  case (7 fs)
  then show ?case by (force simp: bind_res_Inl_iff dest: map_res_Inl)
qed (auto split: if_splits)

lemma own_order_cong:
  assumes "mset ks = mset ls" "inj_on utf16 (set ks)"
  shows "own_order (sort_key utf16 ks) = own_order (sort_key utf16 ls)"
proof -
  have "sort_key utf16 ks = sort_key utf16 ls"
    using assms by (intro sort_key_inj_key_eq) auto
  then show ?thesis by simp
qed

lemma sorted_object_cong:
  assumes "mset (map fst fs) = mset (map fst gs)" "distinct (map (\<lambda>kv. utf16 (fst kv)) fs)"
    "\<And>k. field fs k = field gs k"
  shows "sorted_object fs = sorted_object gs"
proof -
  have "inj_on utf16 (set (map fst fs))"
    using assms(2) by (simp add: distinct_map inj_on_def) (metis (mono_tags, lifting) fst_conv)
  then show ?thesis
    using own_order_cong [OF assms(1)] assms(3) by (simp add: sorted_object_def)
qed

definition canonical_fields :: "fields \<Rightarrow> fields" where
  "canonical_fields fs = map (\<lambda>(k, v). (k, projr (canonicalize v))) fs"

lemma canonical_fields_keys [simp]: "map fst (canonical_fields fs) = map fst fs"
  by (induction fs) (auto simp: canonical_fields_def)

lemma canonical_fields_field:
  "field (canonical_fields fs) k = map_option (\<lambda>v. projr (canonicalize v)) (field fs k)"
  by (induction fs) (auto simp: canonical_fields_def)

lemma canonicalize_obj:
  "canonicalize (JObj fs) =
     (if \<forall>v \<in> snd ` set fs. is_ok (canonicalize v)
      then Inr (JObj (sorted_object (canonical_fields fs))) else Inl not_finite)"
proof (cases "\<forall>v \<in> snd ` set fs. is_ok (canonicalize v)")
  case True
  have "map_res (\<lambda>(k, v). bind_res (canonicalize v) (\<lambda>w. Inr (k, w))) fs =
      Inr (canonical_fields fs)"
    unfolding canonical_fields_def
  proof (rule map_res_all_Inr)
    fix kv assume "kv \<in> set fs"
    then have "is_ok (canonicalize (snd kv))" using True by auto
    then show "(case kv of (k, v) \<Rightarrow> bind_res (canonicalize v) (\<lambda>w. Inr (k, w))) =
        Inr (case kv of (k, v) \<Rightarrow> (k, projr (canonicalize v)))"
      by (cases "canonicalize (snd kv)") (auto split: prod.splits)
  qed
  with True show ?thesis by simp
next
  case False
  then obtain k v where kv: "(k, v) \<in> set fs" "\<not> is_ok (canonicalize v)" by auto
  then have "canonicalize v = Inl not_finite"
    using canonicalize_Inl by (cases "canonicalize v") auto
  then have "map_res (\<lambda>(k, v). bind_res (canonicalize v) (\<lambda>w. Inr (k, w))) fs = Inl not_finite"
    using kv(1) by (intro map_res_Inl_const [of fs _ _ "(k, v)"])
      (auto simp: bind_res_Inl_iff dest: canonicalize_Inl)
  with False show ?thesis by simp
qed

lemma canonicalize_same: "same_json a b \<Longrightarrow> canonicalize a = canonicalize b"
proof (induction rule: same_json.induct)
  case (arr xs ys)
  then have "map_res canonicalize xs = map_res canonicalize ys"
    by (induction rule: list_all2_induct) auto
  then show ?case by simp
next
  case (obj fs gs)
  have inj: "inj_on utf16 (set (map fst fs))" and dist: "distinct (map fst fs)"
    using obj.hyps(1) by (auto simp: distinct_map inj_on_def)
  then have dist': "distinct (map fst gs)"
    using obj.hyps(2) mset_eq_imp_distinct_iff by blast
  have rel: "rel_option (\<lambda>a b. canonicalize a = canonicalize b) (field fs k) (field gs k)" for k
    using obj.IH [of k] by (rule option.rel_mono_strong) simp
  have vals: "snd ` set hs = ran (field hs)" if "distinct (map fst hs)" for hs :: fields
    using that by (simp add: ran_distinct)
  have ran_all: "(\<forall>v \<in> ran m. P v) \<longleftrightarrow> (\<forall>k. case m k of None \<Rightarrow> True | Some v \<Rightarrow> P v)"
    for m :: "string \<Rightarrow> json option" and P
    by (auto simp: ran_def split: option.splits)
  have "(case field fs k of None \<Rightarrow> True | Some v \<Rightarrow> is_ok (canonicalize v)) =
      (case field gs k of None \<Rightarrow> True | Some v \<Rightarrow> is_ok (canonicalize v))" for k
    using rel [of k] by (cases "field fs k"; cases "field gs k") auto
  then have "(\<forall>v \<in> ran (field fs). is_ok (canonicalize v)) \<longleftrightarrow> (\<forall>v \<in> ran (field gs). is_ok (canonicalize v))"
    by (simp add: ran_all)
  moreover have "field (canonical_fields fs) k = field (canonical_fields gs) k" for k
    using rel [of k] unfolding canonical_fields_field by (cases "field fs k"; cases "field gs k") auto
  then have "sorted_object (canonical_fields fs) = sorted_object (canonical_fields gs)"
    using obj.hyps by (intro sorted_object_cong) (simp_all add: canonical_fields_def comp_def case_prod_unfold)
  ultimately show ?case
    unfolding canonicalize_obj vals [OF dist] vals [OF dist'] by simp
qed simp

lemma canonicalJobSpecJson_same: "same_json a b \<Longrightarrow> canonicalJobSpecJson a = canonicalJobSpecJson b"
  by (simp add: canonicalJobSpecJson_def canonicalize_same)

text \<open>Two documents that differ only in the order of their object fields have the same canonical text,
  so they hash to the same on-chain commitment.\<close>

lemma canonical_text_order:
  assumes "same_json a b"
  shows "canonicalJobSpecJson a = canonicalJobSpecJson b"
  using assms by (rule canonicalJobSpecJson_same)

lemma canonical_text_order_witness:
  "canonicalJobSpecJson (JObj [(''b'', JInt 1), (''a'', JNull)])
     = canonicalJobSpecJson (JObj [(''a'', JNull), (''b'', JInt 1)])"
  by (rule canonical_text_order, rule same_json.obj)
    (auto simp: utf16_def intro: same_json.atom)

end
