(* ===== verification/Samples.thy ===== *)
theory Samples
  imports WorkerState StableJson
begin

text \<open>
  A concrete platform, on which the examples of the development are evaluated: a digest made of
  the length of its input, times printed as signed decimal milliseconds, and a few fixed URLs.  It
  satisfies \<open>platform_ok\<close>, so the theorems that assume it are not vacuous.
\<close>

definition sample_url :: "string \<Rightarrow> url" where
  "sample_url host = \<lparr>u_protocol = ''https:'', u_authority = True, u_username = [], u_password = [],
     u_hostname = host, u_port = [], u_pathname = ''/x'', u_search = [], u_hash = []\<rparr>"

text \<open>An empty job spec in its envelope; its canonical text has two bytes.\<close>

definition sample_hash :: bytes where "sample_hash = replicate 32 2"

definition sample_envelope :: json where
  "sample_envelope = JObj
     [(''integrity'', JObj [(''algorithm'', JStr ''sha256''), (''canonicalization'', JStr ''json-stable-v1''),
        (''payloadHash'', JStr (bytesToHex sample_hash))]),
      (''payload'', JObj [])]"

text \<open>An uploader's answer.\<close>

definition sample_uri :: string where "sample_uri = ''ar://'' @ replicate 43 (CHR ''a'')"

definition sample_answer :: json where "sample_answer = JObj [(''uri'', JStr sample_uri)]"

definition sample_platform :: platform where
  "sample_platform =
     \<lparr>sha256 = (\<lambda>b. replicate 32 (of_nat (length b))),
      date_parse = (\<lambda>s. case s of [] \<Rightarrow> None | c # ds \<Rightarrow>
         if c = CHR ''-'' then Some (- int (dec_value ds)) else Some (int (dec_value ds))),
      to_iso = (\<lambda>t. (if t < 0 then CHR ''-'' else CHR ''+'') # dec_print (nat \<bar>t\<bar>)),
      valid_address = (\<lambda>s. s \<noteq> []),
      url_parse = (\<lambda>s. if take 8 s = ''https://'' then Some (sample_url (drop 8 s)) else None),
      url_resolve = (\<lambda>s u. if take 8 s = ''https://'' then Some (sample_url (drop 8 s)) else None),
      json_parse = map_of (map (\<lambda>d. (json_compact d, d)) [JObj [], sample_envelope, sample_answer]),
      utf8_decode = (\<lambda>b. Some (map (\<lambda>x. char_of (unat x)) b)),
      is_ip = (\<lambda>s. if s \<noteq> [] \<and> list_all (\<lambda>c. is_digit c \<or> c = CHR ''.'') s then 4
         else if list_ex (\<lambda>c. c = CHR '':'') s then 6 else 0),
      js_number = (\<lambda>s. if is_decimal s then Some (int (dec_value s)) else None)\<rparr>"

lemma sample_platform_ok: "platform_ok sample_platform"
  by (simp add: platform_ok_def sample_platform_def)

end
