(* ===== verification/JsText.thy ===== *)
theory JsText
  imports Web
begin

text \<open>
  Operations of JavaScript strings that several components use: trimming, ASCII case, control
  characters, the alphabets of their regular expressions, and removal of duplicates with \<open>Set\<close>.
\<close>

section \<open>Trimming\<close>

text \<open>The UTF-8 encodings of the characters \<open>trim\<close> removes.\<close>

definition whitespace_codes :: "nat list list" where
  "whitespace_codes =
     [[9], [10], [11], [12], [13], [32], [0xC2, 0xA0], [0xE1, 0x9A, 0x80], [0xE2, 0x80, 0xA8],
      [0xE2, 0x80, 0xA9], [0xE2, 0x80, 0xAF], [0xE2, 0x81, 0x9F], [0xE3, 0x80, 0x80], [0xEF, 0xBB, 0xBF]]
     @ map (\<lambda>n. [0xE2, 0x80, n]) [0x80..<0x8B]"

definition codes :: "string \<Rightarrow> nat list" where
  "codes s = map of_char s"

definition is_trimmed :: "string \<Rightarrow> bool" where
  "is_trimmed s \<longleftrightarrow> \<not> list_ex (\<lambda>w. take (length w) (codes s) = w \<or>
     (length w \<le> length s \<and> drop (length s - length w) (codes s) = w)) whitespace_codes"

text \<open>Removing one such character at either end, as long as there is one.\<close>

function trim_start :: "string \<Rightarrow> string" where
  "trim_start s = (case List.find (\<lambda>w. w \<noteq> [] \<and> take (length w) (codes s) = w) whitespace_codes of
      None \<Rightarrow> s | Some w \<Rightarrow> if s = [] then s else trim_start (drop (length w) s))"
  by auto
termination
  by (relation "measure length") (auto simp: find_Some_iff)

declare trim_start.simps [simp del]

function trim_end :: "string \<Rightarrow> string" where
  "trim_end s = (case List.find (\<lambda>w. w \<noteq> [] \<and> length w \<le> length s \<and> drop (length s - length w) (codes s) = w)
        whitespace_codes of
      None \<Rightarrow> s | Some w \<Rightarrow> if s = [] then s else trim_end (take (length s - length w) s))"
  by auto
termination
  by (relation "measure length") (auto simp: find_Some_iff)

declare trim_end.simps [simp del]

definition js_trim :: "string \<Rightarrow> string" where
  "js_trim s = trim_end (trim_start s)"

section \<open>Characters\<close>

definition has_control :: "string \<Rightarrow> bool" where
  "has_control s \<longleftrightarrow> list_ex (\<lambda>n. n < 32 \<or> n = 127) (codes s)"

definition is_alnum :: "char \<Rightarrow> bool" where
  "is_alnum c \<longleftrightarrow> (let n = of_char c :: nat in
     (65 \<le> n \<and> n \<le> 90) \<or> (97 \<le> n \<and> n \<le> 122) \<or> (48 \<le> n \<and> n \<le> 57))"

definition is_base58 :: "char \<Rightarrow> bool" where
  "is_base58 c \<longleftrightarrow> c \<in> set ''123456789ABCDEFGHJKLMNPQRSTUVWXYZabcdefghijkmnopqrstuvwxyz''"

definition lower_ascii :: "string \<Rightarrow> string" where
  "lower_ascii s = map (\<lambda>c. if 65 \<le> (of_char c :: nat) \<and> (of_char c :: nat) \<le> 90
     then char_of ((of_char c :: nat) + 32) else c) s"

definition strip_prefix :: "string \<Rightarrow> string \<Rightarrow> string option" where
  "strip_prefix pre s = (if take (length pre) s = pre then Some (drop (length pre) s) else None)"

text \<open>The white space character a text starts with, by its codes; the characters that are none.\<close>

definition leading_space :: "string \<Rightarrow> nat list option" where
  "leading_space s = List.find (\<lambda>w. w \<noteq> [] \<and> take (length w) (codes s) = w) whitespace_codes"

definition plain_char :: "char \<Rightarrow> bool" where
  "plain_char c \<longleftrightarrow> 33 \<le> (of_char c :: nat) \<and> (of_char c :: nat) \<le> 126 \<and> c \<noteq> CHR '')''"

lemma leading_space_plain: "plain_char c \<Longrightarrow> leading_space (c # s) = None"
  by (auto simp: leading_space_def find_None_iff whitespace_codes_def codes_def plain_char_def)

lemma leading_space_blank: "leading_space (CHR '' '' # s) = Some [32]"
  by (simp add: leading_space_def whitespace_codes_def codes_def)

section \<open>Lists\<close>

text \<open>\<open>[...new Set(xs)]\<close>: the first occurrence of each element.\<close>

fun js_unique :: "'a list \<Rightarrow> 'a list" where
  "js_unique [] = []"
| "js_unique (x # xs) = x # List.filter (\<lambda>y. y \<noteq> x) (js_unique xs)"

lemma js_unique_set [simp]: "set (js_unique xs) = set xs"
  by (induction xs) auto

lemma js_unique_distinct [simp]: "distinct (js_unique xs)"
  by (induction xs) auto

section \<open>Trimmed strings\<close>

lemma whitespace_nonempty: "w \<in> set whitespace_codes \<Longrightarrow> w \<noteq> []"
  by (auto simp: whitespace_codes_def)

lemma length_codes [simp]: "length (codes s) = length s"
  by (simp add: codes_def)

lemma trim_start_fixed:
  "trim_start s = s \<longleftrightarrow> (\<forall>w \<in> set whitespace_codes. take (length w) (codes s) \<noteq> w)"
proof -
  have shorter: "length (trim_start t) \<le> length t" for t
  proof (induction t rule: trim_start.induct)
    case (1 t)
    then show ?case by (subst trim_start.simps) (fastforce split: option.split)
  qed
  show ?thesis
  proof (cases "List.find (\<lambda>w. w \<noteq> [] \<and> take (length w) (codes s) = w) whitespace_codes")
    case None
    then have "trim_start s = s" by (subst trim_start.simps) simp
    with None show ?thesis using whitespace_nonempty by (auto simp: find_None_iff)
  next
    case (Some w)
    then have w: "w \<in> set whitespace_codes" "w \<noteq> []" "take (length w) (codes s) = w"
      by (auto simp: find_Some_iff)
    then have "s \<noteq> []" by (auto simp: codes_def)
    with Some have "trim_start s = trim_start (drop (length w) s)" by (subst trim_start.simps) simp
    moreover have "length (drop (length w) s) < length s" using w(2) \<open>s \<noteq> []\<close> by simp
    ultimately have "trim_start s \<noteq> s" using shorter [of "drop (length w) s"] by auto
    with w show ?thesis by blast
  qed
qed

lemma trim_end_fixed:
  "trim_end s = s \<longleftrightarrow> (\<forall>w \<in> set whitespace_codes. \<not> (length w \<le> length s \<and> drop (length s - length w) (codes s) = w))"
proof -
  have shorter: "length (trim_end t) \<le> length t" for t
  proof (induction t rule: trim_end.induct)
    case (1 t)
    then show ?case by (subst trim_end.simps) (fastforce split: option.split)
  qed
  show ?thesis
  proof (cases "List.find (\<lambda>w. w \<noteq> [] \<and> length w \<le> length s \<and> drop (length s - length w) (codes s) = w)
      whitespace_codes")
    case None
    then have "trim_end s = s" by (subst trim_end.simps) simp
    with None show ?thesis using whitespace_nonempty by (auto simp: find_None_iff)
  next
    case (Some w)
    then have w: "w \<in> set whitespace_codes" "w \<noteq> []" "length w \<le> length s"
      "drop (length s - length w) (codes s) = w"
      by (auto simp: find_Some_iff)
    then have "s \<noteq> []" by (cases s) auto
    with Some have "trim_end s = trim_end (take (length s - length w) s)" by (subst trim_end.simps) simp
    moreover have "length (take (length s - length w) s) < length s" using w(2) \<open>s \<noteq> []\<close> by simp
    ultimately have "trim_end s \<noteq> s" using shorter [of "take (length s - length w) s"] by auto
    with w show ?thesis by blast
  qed
qed

text \<open>\<open>s === s.trim()\<close>.\<close>

lemma is_trimmed_iff: "is_trimmed s \<longleftrightarrow> trim_start s = s \<and> trim_end s = s"
  unfolding trim_start_fixed trim_end_fixed by (auto simp: is_trimmed_def list_ex_iff)

lemma js_trim_fixed: "is_trimmed s \<Longrightarrow> js_trim s = s"
  by (simp add: is_trimmed_iff js_trim_def)

lemma plain_trimmed: "list_all plain_char s \<Longrightarrow> js_trim s = s"
proof (rule js_trim_fixed)
  assume s: "list_all plain_char s"
  have ends: "w \<noteq> [] \<and> (hd w < 33 \<or> 126 < hd w) \<and> (last w < 33 \<or> 126 < last w)" if "w \<in> set whitespace_codes" for w
    using that by (auto simp: whitespace_codes_def)
  have plain: "33 \<le> n \<and> n \<le> 126" if "n \<in> set (codes s)" for n
    using that s by (auto simp: codes_def list_all_iff plain_char_def)
  have "take (length w) (codes s) \<noteq> w" if w: "w \<in> set whitespace_codes" for w
  proof
    assume "take (length w) (codes s) = w"
    then have "hd w \<in> set (codes s)" using ends [OF w] by (metis hd_in_set in_set_takeD)
    then show False using ends [OF w] plain by fastforce
  qed
  moreover have "drop (length s - length w) (codes s) \<noteq> w" if w: "w \<in> set whitespace_codes" for w
  proof
    assume "drop (length s - length w) (codes s) = w"
    then have "last w \<in> set (codes s)" using ends [OF w] by (metis last_in_set in_set_dropD)
    then show False using ends [OF w] plain by fastforce
  qed
  ultimately show "is_trimmed s" by (auto simp: is_trimmed_def list_ex_iff)
qed

lemma digits_plain: "list_all is_digit s \<Longrightarrow> list_all plain_char s \<and> CHR '','' \<notin> set s"
  by (induction s) (auto simp: is_digit_def plain_char_def)

end
