(* ===== verification/PublicIp.thy ===== *)
theory PublicIp
  imports Samples JsText
begin

text \<open>
  The public-address classifier of \<open>packages/agenc-worker/src/job-spec.ts\<close>: IPv4 and IPv6
  literals as numbers, CIDR membership, and \<open>isPublicIpAddress\<close>, which every address the
  job-spec downloader connects to must pass.
\<close>

section \<open>IPv4\<close>

definition ipv4_octet :: "string \<Rightarrow> nat option" where
  "ipv4_octet part =
     (if 1 \<le> length part \<and> length part \<le> 3 \<and> list_all is_digit part
      then (let octet = dec_value part in if octet > 255 then None else Some octet)
      else None)"

fun ipv4_parts :: "string list \<Rightarrow> nat \<Rightarrow> nat option" where
  "ipv4_parts [] result = Some result"
| "ipv4_parts (part # parts) result =
     (case ipv4_octet part of None \<Rightarrow> None | Some octet \<Rightarrow> ipv4_parts parts (result * 256 + octet))"

definition ipv4Number :: "string \<Rightarrow> nat option" where
  "ipv4Number v = (let parts = split_on (CHR ''.'') v in
     if length parts \<noteq> 4 then None else ipv4_parts parts 0)"

definition ipv4InCidr :: "nat \<Rightarrow> string \<Rightarrow> nat \<Rightarrow> bool" where
  "ipv4InCidr v base prefix \<longleftrightarrow>
     (let divisor = 2 ^ (32 - prefix) in v div divisor = the (ipv4Number base) div divisor)"

definition blocked_ipv4 :: "(string \<times> nat) list" where
  "blocked_ipv4 =
     [(''0.0.0.0'', 8), (''10.0.0.0'', 8), (''100.64.0.0'', 10), (''127.0.0.0'', 8),
      (''169.254.0.0'', 16), (''172.16.0.0'', 12), (''192.0.0.0'', 24), (''192.0.2.0'', 24),
      (''192.88.99.0'', 24), (''192.168.0.0'', 16), (''198.18.0.0'', 15), (''198.51.100.0'', 24),
      (''203.0.113.0'', 24), (''224.0.0.0'', 4), (''240.0.0.0'', 4)]"

section \<open>IPv6\<close>

text \<open>\<open>n.toString(16)\<close>.\<close>

fun hex_print :: "nat \<Rightarrow> string" where
  "hex_print n = (if n < 16 then [hex_digit n] else hex_print (n div 16) @ [hex_digit (n mod 16)])"

declare hex_print.simps [simp del]

text \<open>Before and after the last occurrence of a character; \<open>None\<close> for \<open>lastIndexOf\<close> \<open>-1\<close>.\<close>

fun split_last :: "char \<Rightarrow> string \<Rightarrow> (string \<times> string) option" where
  "split_last c [] = None"
| "split_last c (x # xs) =
     (case split_last c xs of
        Some (a, b) \<Rightarrow> Some (x # a, b)
      | None \<Rightarrow> if x = c then Some ([], xs) else None)"

text \<open>\<open>value.match(/::/g)\<close> and \<open>value.split("::")\<close>, for values with at most one match.\<close>

fun count_dcolon :: "string \<Rightarrow> nat" where
  "count_dcolon (x # y # xs) =
     (if x = CHR '':'' \<and> y = CHR '':'' then Suc (count_dcolon xs) else count_dcolon (y # xs))"
| "count_dcolon _ = 0"

fun split_dcolon :: "string \<Rightarrow> string \<times> string option" where
  "split_dcolon (x # y # xs) =
     (if x = CHR '':'' \<and> y = CHR '':'' then ([], Some xs)
      else (case split_dcolon (y # xs) of (a, b) \<Rightarrow> (x # a, b)))"
| "split_dcolon xs = (xs, None)"

definition ipv6_group :: "string \<Rightarrow> bool" where
  "ipv6_group g \<longleftrightarrow> 1 \<le> length g \<and> length g \<le> 4 \<and> list_all is_lower_hex g"

definition hex_number :: "string \<Rightarrow> nat" where
  "hex_number g = fold (\<lambda>c n. 16 * n + the (hex_value c)) g 0"

definition ipv6_groups :: "string \<Rightarrow> string list option" where
  "ipv6_groups v =
     (if count_dcolon v > 1 then None else
      case split_dcolon v of (leftRaw, rightRaw) \<Rightarrow>
        let left = (if leftRaw = [] then [] else split_on (CHR '':'') leftRaw);
            right = (if rightRaw = None \<or> rightRaw = Some [] then [] else split_on (CHR '':'') (the rightRaw));
            missing = 8 - int (length left) - int (length right)
        in if (if rightRaw = None then missing \<noteq> 0 else missing < 1) then None
           else let groups = left @ replicate (nat missing) ''0'' @ right
                in if length groups \<noteq> 8 \<or> list_ex (\<lambda>g. \<not> ipv6_group g) groups then None
                   else Some groups)"

definition ipv6_embed :: "string \<Rightarrow> string option" where
  "ipv6_embed v =
     (if CHR ''.'' \<in> set v then
        (case split_last (CHR '':'') v of
           None \<Rightarrow> None
         | Some (front, rest) \<Rightarrow>
             (case ipv4Number rest of
                None \<Rightarrow> None
              | Some v4 \<Rightarrow> Some (front @ '':'' @ hex_print (v4 div 65536) @ '':'' @ hex_print (v4 mod 65536))))
      else Some v)"

definition ipv6Number :: "string \<Rightarrow> nat option" where
  "ipv6Number input =
     (let v = lower_ascii input in
      if CHR ''%'' \<in> set v then None
      else case ipv6_embed v of None \<Rightarrow> None
        | Some w \<Rightarrow> map_option (\<lambda>groups. fold (\<lambda>g total. total * 65536 + hex_number g) groups 0) (ipv6_groups w))"

definition ipv6InCidr :: "nat \<Rightarrow> string \<Rightarrow> nat \<Rightarrow> bool" where
  "ipv6InCidr v base prefix \<longleftrightarrow>
     (let divisor = 2 ^ (128 - prefix) in v div divisor = the (ipv6Number base) div divisor)"

definition blocked_ipv6 :: "(string \<times> nat) list" where
  "blocked_ipv6 =
     [(''::'', 96), (''::ffff:0:0'', 96), (''64:ff9b::'', 96), (''64:ff9b:1::'', 48), (''100::'', 64),
      (''2001::'', 32), (''2001:2::'', 48), (''2001:10::'', 28), (''2001:20::'', 28), (''2001:db8::'', 32),
      (''2002::'', 16), (''3fff::'', 20), (''5f00::'', 16), (''fc00::'', 7), (''fe80::'', 10),
      (''fec0::'', 10), (''ff00::'', 8)]"

definition isPublicIpAddress :: "platform \<Rightarrow> string \<Rightarrow> bool" where
  "isPublicIpAddress p a =
     (let family = is_ip p a in
      if family = 4 then
        (case ipv4Number a of None \<Rightarrow> False
         | Some v \<Rightarrow> \<not> list_ex (\<lambda>(base, prefix). ipv4InCidr v base prefix) blocked_ipv4)
      else if family = 6 then
        (case ipv6Number a of None \<Rightarrow> False
         | Some v \<Rightarrow>
             if \<not> ipv6InCidr v ''2000::'' 3 then False
             else \<not> list_ex (\<lambda>(base, prefix). ipv6InCidr v base prefix) blocked_ipv6)
      else False)"

section \<open>The IPv4 ranges\<close>

text \<open>The dotted form of four octets.\<close>

definition dotted :: "nat \<Rightarrow> nat \<Rightarrow> nat \<Rightarrow> nat \<Rightarrow> string" where
  "dotted a b c d = join_with ''.'' [dec_print a, dec_print b, dec_print c, dec_print d]"

lemma ipv4_octet_print: "n \<le> 255 \<Longrightarrow> ipv4_octet (dec_print n) = Some n"
  using dec_print_length [of n 2] by (simp add: ipv4_octet_def Let_def Suc_le_eq)

lemma ipv4Number_dotted:
  assumes "a \<le> 255" "b \<le> 255" "c \<le> 255" "d \<le> 255"
  shows "ipv4Number (dotted a b c d) = Some (((a * 256 + b) * 256 + c) * 256 + d)"
proof -
  have "split_on (CHR ''.'') (dotted a b c d) = [dec_print a, dec_print b, dec_print c, dec_print d]"
    unfolding dotted_def by (rule split_join) (simp_all add: dec_print_no_dot)
  with assms show ?thesis by (simp add: ipv4Number_def ipv4_octet_print)
qed

lemmas dec_eval = dotted_def dec_print.simps digit_char_def

lemma blocked_ipv4_dotted:
  "blocked_ipv4 =
     [(dotted 0 0 0 0, 8), (dotted 10 0 0 0, 8), (dotted 100 64 0 0, 10), (dotted 127 0 0 0, 8),
      (dotted 169 254 0 0, 16), (dotted 172 16 0 0, 12), (dotted 192 0 0 0, 24), (dotted 192 0 2 0, 24),
      (dotted 192 88 99 0, 24), (dotted 192 168 0 0, 16), (dotted 198 18 0 0, 15),
      (dotted 198 51 100 0, 24), (dotted 203 0 113 0, 24), (dotted 224 0 0 0, 4), (dotted 240 0 0 0, 4)]"
  by (simp add: blocked_ipv4_def dec_eval)

lemma ipv4_cidr_dotted:
  "a \<le> 255 \<Longrightarrow> b \<le> 255 \<Longrightarrow> c \<le> 255 \<Longrightarrow> d \<le> 255 \<Longrightarrow>
   ipv4InCidr v (dotted a b c d) prefix \<longleftrightarrow>
     v div 2 ^ (32 - prefix) = (((a * 256 + b) * 256 + c) * 256 + d) div 2 ^ (32 - prefix)"
  unfolding ipv4InCidr_def Let_def by (simp only: ipv4Number_dotted option.sel)

text \<open>The addresses outside the public IPv4 range, by octet.\<close>

definition reserved_ipv4 :: "nat \<Rightarrow> nat \<Rightarrow> nat \<Rightarrow> bool" where
  "reserved_ipv4 a b c \<longleftrightarrow>
     a = 0 \<or> a = 10 \<or> (a = 100 \<and> 64 \<le> b \<and> b \<le> 127) \<or> a = 127 \<or> (a = 169 \<and> b = 254) \<or>
     (a = 172 \<and> 16 \<le> b \<and> b \<le> 31) \<or> (a = 192 \<and> b = 0 \<and> (c = 0 \<or> c = 2)) \<or>
     (a = 192 \<and> b = 88 \<and> c = 99) \<or> (a = 192 \<and> b = 168) \<or> (a = 198 \<and> (b = 18 \<or> b = 19)) \<or>
     (a = 198 \<and> b = 51 \<and> c = 100) \<or> (a = 203 \<and> b = 0 \<and> c = 113) \<or> a \<ge> 224"

lemma octet_divs:
  fixes a :: nat
  assumes "b \<le> 255" "c \<le> 255" "d \<le> (255 :: nat)"
  defines "v \<equiv> ((a * 256 + b) * 256 + c) * 256 + d"
  shows "v div 256 = (a * 256 + b) * 256 + c" "v div 65536 = a * 256 + b" "v div 16777216 = a"
    "v div 131072 = a * 128 + b div 2" "v div 1048576 = a * 16 + b div 16"
    "v div 4194304 = a * 4 + b div 64" "v div 268435456 = a div 16"
proof -
  show 1: "v div 256 = (a * 256 + b) * 256 + c" using assms by simp
  have "v div 65536 = v div 256 div 256" by (simp add: div_mult2_eq [symmetric])
  also have "\<dots> = a * 256 + b" unfolding 1 using assms by simp
  finally show 2: "v div 65536 = a * 256 + b" .
  have "v div (65536 * n) = (a * 256 + b) div n" for n by (simp add: div_mult2_eq 2)
  note 3 = this [of 256] this [of 2] this [of 16] this [of 64] this [of 4096]
  show "v div 16777216 = a" using 3(1) assms by simp
  show "v div 131072 = a * 128 + b div 2" using 3(2) by simp
  show "v div 1048576 = a * 16 + b div 16" using 3(3) by simp
  show "v div 4194304 = a * 4 + b div 64" using 3(4) by simp
  have "(a * 256 + b) div 4096 = (a * 256 + b) div 256 div 16" by (simp add: div_mult2_eq [symmetric])
  with 3(5) show "v div 268435456 = a div 16" using assms by simp
qed

lemma digit_eq: "q < n \<Longrightarrow> r < n \<Longrightarrow> a * n + q = k * n + r \<longleftrightarrow> a = k \<and> q = (r :: nat)"
  by (metis add.commute div_mult_self3 div_less add_0 mod_mult_self3 mod_less not_less_zero)

lemma div_eq_interval: "0 < n \<Longrightarrow> b div n = k \<longleftrightarrow> k * n \<le> b \<and> b < (k + 1) * (n :: nat)"
  using less_eq_div_iff_mult_less_eq [of n k b] div_less_iff_less_mult [of n b "k + 1"] by auto

lemma octet_cases:
  fixes a :: nat
  assumes "a \<le> 255" "b \<le> 255"
  shows "a * 4 + b div 64 = 401 \<longleftrightarrow> a = 100 \<and> 64 \<le> b \<and> b \<le> 127"
    "a * 256 + b = 43518 \<longleftrightarrow> a = 169 \<and> b = 254"
    "a * 256 + b = 49320 \<longleftrightarrow> a = 192 \<and> b = 168"
    "a * 16 + b div 16 = 2753 \<longleftrightarrow> a = 172 \<and> 16 \<le> b \<and> b \<le> 31"
    "a * 128 + b div 2 = 25353 \<longleftrightarrow> a = 198 \<and> (b = 18 \<or> b = 19)"
    "a div 16 = 14 \<or> a div 16 = 15 \<longleftrightarrow> 224 \<le> a"
proof -
  have "b div 64 < 4" "b div 16 < 16" "b div 2 < 128" "b < 256" using assms(2) by simp_all
  note eqs = digit_eq [OF this(1), of 1 a 100] digit_eq [OF this(2), of 1 a 172]
    digit_eq [OF this(3), of 9 a 198] digit_eq [OF this(4), of 254 a 169] digit_eq [OF this(4), of 168 a 192]
  have "b div 64 = 1 \<longleftrightarrow> 64 \<le> b \<and> b \<le> 127" "b div 16 = 1 \<longleftrightarrow> 16 \<le> b \<and> b \<le> 31"
    "b div 2 = 9 \<longleftrightarrow> b = 18 \<or> b = 19" by (auto simp: div_eq_interval)
  with eqs show "a * 4 + b div 64 = 401 \<longleftrightarrow> a = 100 \<and> 64 \<le> b \<and> b \<le> 127"
    "a * 256 + b = 43518 \<longleftrightarrow> a = 169 \<and> b = 254"
    "a * 256 + b = 49320 \<longleftrightarrow> a = 192 \<and> b = 168"
    "a * 16 + b div 16 = 2753 \<longleftrightarrow> a = 172 \<and> 16 \<le> b \<and> b \<le> 31"
    "a * 128 + b div 2 = 25353 \<longleftrightarrow> a = 198 \<and> (b = 18 \<or> b = 19)" by simp_all
  show "a div 16 = 14 \<or> a div 16 = 15 \<longleftrightarrow> 224 \<le> a" using assms(1) by (auto simp: div_eq_interval)
qed

lemma octet_prefix:
  assumes "b \<le> 255" "c \<le> 255" "n \<le> 255" "m \<le> 255"
  shows "(a * 256 + b) * 256 + c = (k * 256 + m) * 256 + n \<longleftrightarrow> a = k \<and> b = m \<and> c = (n :: nat)"
  using assms digit_eq [of c 256 n "a * 256 + b" "k * 256 + m"] digit_eq [of b 256 m a k] by auto

lemma blocked_ipv4_iff:
  assumes "a \<le> 255" "b \<le> 255" "c \<le> 255" "d \<le> 255"
  shows "list_ex (\<lambda>(base, prefix). ipv4InCidr (((a * 256 + b) * 256 + c) * 256 + d) base prefix) blocked_ipv4
    \<longleftrightarrow> reserved_ipv4 a b c"
proof -
  define v where "v = ((a * 256 + b) * 256 + c) * 256 + d"
  define w where "w = (a * 256 + b) * 256 + c"
  have divs: "v div 256 = w" "v div 65536 = a * 256 + b" "v div 16777216 = a"
    "v div 131072 = a * 128 + b div 2" "v div 1048576 = a * 16 + b div 16"
    "v div 4194304 = a * 4 + b div 64" "v div 268435456 = a div 16"
    using octet_divs [OF assms(2-4), of a] by (simp_all only: v_def w_def)
  have prefixes: "w = 12582912 \<longleftrightarrow> a = 192 \<and> b = 0 \<and> c = 0" "w = 12582914 \<longleftrightarrow> a = 192 \<and> b = 0 \<and> c = 2"
    "w = 12605539 \<longleftrightarrow> a = 192 \<and> b = 88 \<and> c = 99" "w = 12989284 \<longleftrightarrow> a = 198 \<and> b = 51 \<and> c = 100"
    "w = 13303921 \<longleftrightarrow> a = 203 \<and> b = 0 \<and> c = 113"
    using assms octet_prefix [of b c 0 0 a 192] octet_prefix [of b c 2 0 a 192]
      octet_prefix [of b c 99 88 a 192] octet_prefix [of b c 100 51 a 198]
      octet_prefix [of b c 113 0 a 203] by (simp_all add: w_def)
  have "list_ex (\<lambda>(base, prefix). ipv4InCidr v base prefix) blocked_ipv4 \<longleftrightarrow>
     a = 0 \<or> a = 10 \<or> a * 4 + b div 64 = 401 \<or> a = 127 \<or> a * 256 + b = 43518 \<or>
     a * 16 + b div 16 = 2753 \<or> w = 12582912 \<or> w = 12582914 \<or> w = 12605539 \<or>
     a * 256 + b = 49320 \<or> a * 128 + b div 2 = 25353 \<or> w = 12989284 \<or> w = 13303921 \<or>
     a div 16 = 14 \<or> a div 16 = 15"
    unfolding blocked_ipv4_dotted list_ex_Cons_iff list_ex_Nil_iff prod.case
    by (simp add: ipv4_cidr_dotted del: One_nat_def) (simp add: divs)
  then have "list_ex (\<lambda>(base, prefix). ipv4InCidr v base prefix) blocked_ipv4 \<longleftrightarrow> reserved_ipv4 a b c"
    unfolding reserved_ipv4_def prefixes octet_cases(1-5) [OF assms(1, 2)]
    using octet_cases(6) [OF assms(1, 2)] by argo
  then show ?thesis by (simp only: v_def)
qed

section \<open>The IPv6 ranges\<close>

lemmas ip_eval = ipv4Number_def ipv4_octet_def is_digit_def dec_value_def digit_value_def
  ipv6Number_def ipv6_groups_def ipv6_group_def is_lower_hex_def lower_ascii_def ipv6_embed_def
  of_char_def hex_number_def hex_value_def

lemma replicate_numeral_Suc: "replicate (numeral k) x = x # replicate (pred_numeral k) x"
  by (simp add: numeral_eq_Suc)

lemma ipv6_bases:
  "map (\<lambda>(b, n). (the (ipv6Number b), n)) blocked_ipv6 =
     [(0, 96), (281470681743360, 96), (524413980667603649783483181312245760, 96),
      (524413980668812575603097810486951936, 48), (1329227995784915872903807060280344576, 64),
      (42540488161975842760550356425300246528, 32), (42540488320432167789079031612388147200, 48),
      (42540489429626442988779757922003451904, 28), (42540490697277043217009159418706657280, 28),
      (42540766411282592856903984951653826560, 32), (42545680458834377588178886921629466624, 16),
      (85065399433376081038215121361612832768, 20), (126276659599567007925861670726632734720, 16),
      (334965454937798799971759379190646833152, 7), (338288524927261089654018896841347694592, 10),
      (338620831926207318622244848606417780736, 10), (338953138925153547590470800371487866880, 8)]"
  unfolding blocked_ipv6_def list.map prod.case by (simp add: ip_eval replicate_numeral_Suc)

text \<open>A public IPv6 address lies in \<open>2000::/3\<close> and outside every blocked range.\<close>

lemma ipv6_cidr: "ipv6Number base = Some b \<Longrightarrow>
    ipv6InCidr v base prefix \<longleftrightarrow> v div 2 ^ (128 - prefix) = b div 2 ^ (128 - prefix)"
  unfolding ipv6InCidr_def Let_def by (simp only: option.sel)

lemma unicast_base: "ipv6Number ''2000::'' = Some 42535295865117307932921825928971026432"
  by (simp add: ip_eval replicate_numeral_Suc)

lemma sixtofour_base: "ipv6Number ''2002::'' = Some 42545680458834377588178886921629466624"
  by (simp add: ip_eval replicate_numeral_Suc)

lemma isPublic_v6:
  assumes "isPublicIpAddress p a" "is_ip p a = 6"
  obtains v where "ipv6Number a = Some v" "v div 2 ^ 125 = 1"
    "\<forall>(base, prefix) \<in> set blocked_ipv6. \<not> ipv6InCidr v base prefix"
  using assms by (auto simp: isPublicIpAddress_def list_ex_iff ipv6_cidr [OF unicast_base] split: option.splits if_splits)

lemma isPublic_v4:
  assumes "is_ip p (dotted a b c d) = 4" "a \<le> 255" "b \<le> 255" "c \<le> 255" "d \<le> 255"
  shows "isPublicIpAddress p (dotted a b c d) \<longleftrightarrow> \<not> reserved_ipv4 a b c"
  unfolding isPublicIpAddress_def Let_def assms(1) ipv4Number_dotted [OF assms(2-5)]
  using blocked_ipv4_iff [OF assms(2-5)] by simp

section \<open>The classification\<close>

text \<open>C28: a dotted IPv4 address counts as public exactly when it lies outside the private, loopback,
  link-local, shared, documentation, benchmarking, multicast and reserved blocks.\<close>

theorem public_ipv4:
  assumes "is_ip p (dotted a b c d) = 4" "a \<le> 255" "b \<le> 255" "c \<le> 255" "d \<le> 255"
  shows "isPublicIpAddress p (dotted a b c d) \<longleftrightarrow> \<not> reserved_ipv4 a b c"
  using assms by (rule isPublic_v4)

theorem public_ipv4_witness:
  "\<not> isPublicIpAddress sample_platform (dotted 10 0 0 1) \<and> isPublicIpAddress sample_platform (dotted 8 8 8 8)"
proof -
  have four: "is_ip sample_platform (dotted 10 0 0 1) = 4" "is_ip sample_platform (dotted 8 8 8 8) = 4"
    by (simp_all add: sample_platform_def dec_eval is_digit_def)
  show ?thesis
    using public_ipv4 [OF four(1)] public_ipv4 [OF four(2)] by (simp add: reserved_ipv4_def)
qed

end
