(* ===== verification/JobSpec.thy ===== *)
theory JobSpec
  imports PublicIp StableJson
begin

text \<open>
  Fetching and verifying the job spec pinned by a task, before the task is claimed
  (\<open>packages/agenc-worker/src/job-spec.ts\<close>): the public-network downloader with its
  redirect loop and pinned address, the AgenC content address, the envelope check
  against the on-chain commitment.  Resolver, transport and account reader are parameters.
\<close>

section \<open>The downloader\<close>

definition DEFAULT_MAX_JOB_SPEC_BYTES :: int where "DEFAULT_MAX_JOB_SPEC_BYTES = 64 * 1024"
definition DEFAULT_MAX_JOB_SPEC_REDIRECTS :: int where "DEFAULT_MAX_JOB_SPEC_REDIRECTS = 5"

definition safe_integer :: "int \<Rightarrow> bool" where
  "safe_integer i \<longleftrightarrow> \<bar>i\<bar> \<le> 9007199254740991"

definition hostnameWithoutBrackets :: "string \<Rightarrow> string" where
  "hostnameWithoutBrackets hostname =
     (if hostname \<noteq> [] \<and> hd hostname = CHR ''['' \<and> last hostname = CHR '']''
      then butlast (tl hostname) else hostname)"

definition validateFetchUrl :: "url \<Rightarrow> unit res" where
  "validateFetchUrl u =
     bind_res (guard_res (u_protocol u = ''http:'' \<or> u_protocol u = ''https:'')
       (JobSpecError ''refusing job-spec URI scheme'')) (\<lambda>_.
     bind_res (guard_res (u_username u = [] \<and> u_password u = [])
       (JobSpecError ''refusing job-spec URI containing credentials'')) (\<lambda>_.
     guard_res (u_hostname u \<noteq> []) (JobSpecError ''job-spec URI has no hostname'')))"

text \<open>A DNS answer: address and family.\<close>

type_synonym resolved = "string \<times> nat"

definition resolvePublicAddress :: "platform \<Rightarrow> url \<Rightarrow> (string \<Rightarrow> resolved list res) \<Rightarrow> resolved res" where
  "resolvePublicAddress p u resolver =
     (let hostname = hostnameWithoutBrackets (u_hostname u) in
      bind_res (if is_ip p hostname \<noteq> 0 then Inr [(hostname, is_ip p hostname)] else resolver hostname)
        (\<lambda>addresses.
      bind_res (guard_res (addresses \<noteq> []) (JobSpecError ''job-spec hostname resolved to no addresses''))
        (\<lambda>_.
      case List.find (\<lambda>a. \<not> isPublicIpAddress p (fst a)) addresses of
        Some _ \<Rightarrow> Inl (JobSpecError ''refusing non-public job-spec target'')
      | None \<Rightarrow> Inr (hd addresses))))"

text \<open>
  What the transport answers.  A response is its status line, the two headers the code reads, and
  the body chunks up to the \<open>end\<close> or \<open>error\<close> event.
\<close>

datatype hop_response = Redirect string | Success bytes

record http_response =
  r_status :: nat
  r_location :: "string option"
  r_content_length :: "string option"
  r_chunks :: "bytes list"
  r_body_error :: bool

fun collect_chunks :: "nat \<Rightarrow> nat \<Rightarrow> bytes list \<Rightarrow> bytes list \<Rightarrow> bytes list res" where
  "collect_chunks maxBytes len [] chunks = Inr chunks"
| "collect_chunks maxBytes len (c # cs) chunks =
     (if len + length c > maxBytes then Inl (JobSpecError ''job spec exceeds the byte cap'')
      else collect_chunks maxBytes (len + length c) cs (chunks @ [c]))"

definition defaultPinnedRequester :: "nat \<Rightarrow> http_response \<Rightarrow> hop_response res" where
  "defaultPinnedRequester maxBytes r =
     (if r_status r \<in> {301, 302, 303, 307, 308} then
        (case r_location r of
           None \<Rightarrow> Inl (JobSpecError ''job-spec redirect has no Location header'')
         | Some location \<Rightarrow> Inr (Redirect location))
      else if r_status r < 200 \<or> r_status r \<ge> 300 then Inl (JobSpecError ''job-spec download failed'')
      else if (case r_content_length r of None \<Rightarrow> False
               | Some d \<Rightarrow> is_decimal d \<and> dec_value d > maxBytes)
      then Inl (JobSpecError ''job spec exceeds the byte cap'')
      else bind_res (collect_chunks maxBytes 0 (r_chunks r) []) (\<lambda>chunks.
        if r_body_error r then Inl (PlainError ''response error'') else Inr (Success (concat chunks))))"

text \<open>
  One download: per hop the resolver, the requester, and whether the 30 s budget had elapsed when
  the hop's resolution, respectively its request, failed.
\<close>

record network =
  n_resolver :: "nat \<Rightarrow> string \<Rightarrow> resolved list res"
  n_requester :: "nat \<Rightarrow> url \<Rightarrow> resolved \<Rightarrow> hop_response res"
  n_dns_aborted :: "nat \<Rightarrow> bool"
  n_http_aborted :: "nat \<Rightarrow> bool"

fun is_job_spec_error :: "worker_error \<Rightarrow> bool" where
  "is_job_spec_error (JobSpecError _) = True"
| "is_job_spec_error _ = False"

definition hop_error :: "bool \<Rightarrow> string \<Rightarrow> worker_error \<Rightarrow> worker_error" where
  "hop_error aborted message e =
     (if is_job_spec_error e then e
      else if aborted then JobSpecError ''job-spec download timed out after 30000ms''
      else JobSpecError message)"

text \<open>
  The hop loop; its first component lists the connections made, URL and pinned address.
\<close>

type_synonym connections = "(url \<times> resolved) list"

function fetch_hops :: "platform \<Rightarrow> network \<Rightarrow> nat \<Rightarrow> nat \<Rightarrow> url \<Rightarrow> connections \<times> bytes res" where
  "fetch_hops p net maxRedirects redirects current =
     (case validateFetchUrl current of Inl e \<Rightarrow> ([], Inl e) | Inr _ \<Rightarrow>
      case map_error (hop_error (n_dns_aborted net redirects) ''job-spec DNS lookup failed'')
             (resolvePublicAddress p current (n_resolver net redirects)) of
        Inl e \<Rightarrow> ([], Inl e)
      | Inr address \<Rightarrow>
          (case map_error (hop_error (n_http_aborted net redirects) ''job-spec download failed'')
                 (n_requester net redirects current address) of
             Inl e \<Rightarrow> ([(current, address)], Inl e)
           | Inr (Success bytes) \<Rightarrow> ([(current, address)], Inr bytes)
           | Inr (Redirect location) \<Rightarrow>
               if redirects \<ge> maxRedirects
               then ([(current, address)], Inl (JobSpecError ''job-spec download exceeded the redirect cap''))
               else (case url_resolve p location current of
                   None \<Rightarrow> ([(current, address)], Inl (JobSpecError ''job-spec redirect has an invalid Location''))
                 | Some next_url \<Rightarrow>
                     (case fetch_hops p net maxRedirects (redirects + 1) next_url of
                        (later, r) \<Rightarrow> ((current, address) # later, r)))))"
  by pat_completeness auto
termination by (relation "measure (\<lambda>(_, _, m, r, _). m - r)") auto

declare fetch_hops.simps [simp del]

definition createPublicUriFetcher ::
  "platform \<Rightarrow> network \<Rightarrow> int \<Rightarrow> int \<Rightarrow> string \<Rightarrow> connections \<times> bytes res" where
  "createPublicUriFetcher p net maxBytes maxRedirects uri =
     (if \<not> safe_integer maxBytes \<or> maxBytes \<le> 0
      then ([], Inl (JobSpecError ''job-spec byte cap must be a positive safe integer''))
      else if \<not> safe_integer maxRedirects \<or> maxRedirects < 0
      then ([], Inl (JobSpecError ''job-spec redirect cap must be a non-negative safe integer''))
      else case url_parse p uri of
          None \<Rightarrow> ([], Inl (JobSpecError ''job-spec URI is not a valid URL''))
        | Some u \<Rightarrow> fetch_hops p net (nat maxRedirects) 0 u)"

section \<open>The envelope\<close>

text \<open>\<open>/^\/sha256\/([0-9a-f]{64})$/.exec(pathname)\<close>.\<close>

definition sha256_path :: "string \<Rightarrow> string option" where
  "sha256_path s = (if take 8 s = ''/sha256/'' \<and> is_hash_hex (drop 8 s) then Some (drop 8 s) else None)"

definition validateAgencJobSpecUri :: "url \<Rightarrow> string \<Rightarrow> unit res" where
  "validateAgencJobSpecUri u expectedHashHex =
     bind_res (guard_res (u_username u = [] \<and> u_password u = [] \<and> u_port u = [] \<and> u_search u = [] \<and> u_hash u = [])
       (JobSpecError ''malformed AgenC job-spec URI: credentials, ports, query, and fragment are forbidden'')) (\<lambda>_.
     bind_res (guard_res (u_hostname u = ''job-spec'')
       (JobSpecError ''malformed AgenC job-spec URI: expected host job-spec'')) (\<lambda>_.
     case sha256_path (u_pathname u) of
       None \<Rightarrow> Inl (JobSpecError ''malformed AgenC job-spec URI: expected /sha256/<64 lowercase hex>'')
     | Some h \<Rightarrow> guard_res (h = expectedHashHex)
         (JobSpecError ''AgenC URI hash does not match the on-chain commitment'')))"

definition json_object :: "json option \<Rightarrow> string \<Rightarrow> fields res" where
  "json_object v message = (case v of Some (JObj fs) \<Rightarrow> Inr fs | _ \<Rightarrow> Inl (JobSpecError message))"

definition canonicalJobSpecHash :: "platform \<Rightarrow> json \<Rightarrow> bytes res" where
  "canonicalJobSpecHash p spec =
     bind_res (canonicalJobSpecJson spec) (\<lambda>s. Inr (sha256 p (utf8_encode s)))"

definition canonical_payload :: "platform \<Rightarrow> json \<Rightarrow> (string \<times> bytes) res" where
  "canonical_payload p spec =
     map_error (\<lambda>_. JobSpecError ''job-spec payload is not valid json-stable-v1 data'')
       (bind_res (canonicalJobSpecJson spec) (\<lambda>canonicalPayload.
        bind_res (canonicalJobSpecHash p spec) (\<lambda>digest. Inr (canonicalPayload, digest))))"

definition verifyJobSpecEnvelope :: "platform \<Rightarrow> bytes \<Rightarrow> bytes \<Rightarrow> bytes res" where
  "verifyJobSpecEnvelope p envelopeBytes onChainHash =
     bind_res (case Option.bind (utf8_decode p envelopeBytes) (json_parse p) of
         None \<Rightarrow> Inl (JobSpecError ''job-spec document is not a valid UTF-8 JSON envelope'')
       | Some v \<Rightarrow> Inr v) (\<lambda>parsed.
     bind_res (json_object (Some parsed) ''job-spec envelope must be a JSON object'') (\<lambda>fs.
     bind_res (json_object (field fs ''integrity'') ''job-spec envelope.integrity must be a JSON object'') (\<lambda>ig.
     bind_res (guard_res (field ig ''algorithm'' = Some (JStr ''sha256''))
       (JobSpecError ''job-spec envelope integrity.algorithm must be sha256'')) (\<lambda>_.
     bind_res (guard_res (field ig ''canonicalization'' = Some (JStr ''json-stable-v1''))
       (JobSpecError ''job-spec envelope integrity.canonicalization must be json-stable-v1'')) (\<lambda>_.
     bind_res (case field ig ''payloadHash'' of
         Some (JStr h) \<Rightarrow> (if is_hash_hex h then Inr h
           else Inl (JobSpecError ''job-spec envelope integrity.payloadHash must be 64 lowercase hex characters''))
       | _ \<Rightarrow> Inl (JobSpecError ''job-spec envelope integrity.payloadHash must be 64 lowercase hex characters''))
       (\<lambda>declared.
     bind_res (json_object (field fs ''payload'') ''job-spec envelope.payload must be a JSON object'') (\<lambda>ps.
     bind_res (canonical_payload p (JObj ps)) (\<lambda>(canonicalPayload, digest).
     bind_res (guard_res (length digest = length onChainHash \<and> digest = onChainHash)
       (JobSpecError ''job-spec payload hash mismatch'')) (\<lambda>_.
     bind_res (guard_res (declared = bytesToHex digest)
       (JobSpecError ''job-spec envelope integrity.payloadHash mismatch'')) (\<lambda>_.
     Inr (utf8_encode canonicalPayload)))))))))))"

section \<open>The verified job spec\<close>

record task_job_spec =
  tjsJobSpecHash :: bytes
  tjsJobSpecUri :: string

record verified_job_spec =
  vjsJobSpecHash :: bytes
  vjsJobSpecUri :: string
  vjsContent :: bytes

text \<open>
  The fetchers of a call: an injected one, the AgenC resolver, and the network of the built-in one.
\<close>

record fetchers =
  f_fetchUri :: "(string \<Rightarrow> bytes res) option"
  f_resolveAgencUri :: "(string \<Rightarrow> bytes res) option"
  f_network :: network

definition fetch_envelope :: "platform \<Rightarrow> fetchers \<Rightarrow> int \<Rightarrow> task_job_spec \<Rightarrow> url \<Rightarrow> bytes res" where
  "fetch_envelope p f maxBytes spec u =
     (if u_protocol u = ''agenc:'' then
        bind_res (validateAgencJobSpecUri u (bytesToHex (tjsJobSpecHash spec))) (\<lambda>_.
        case f_resolveAgencUri f of
          None \<Rightarrow> Inl (JobSpecError ''no trusted AgenC URI resolver is configured; refusing to claim'')
        | Some resolve \<Rightarrow> map_error (hop_error False ''AgenC URI job-spec resolution failed'')
            (resolve (tjsJobSpecUri spec)))
      else if u_protocol u = ''http:'' \<or> u_protocol u = ''https:'' then
        bind_res (validateFetchUrl u) (\<lambda>_.
        map_error (hop_error False ''job-spec download failed'')
          (case f_fetchUri f of
             Some fetch \<Rightarrow> fetch (tjsJobSpecUri spec)
           | None \<Rightarrow> snd (createPublicUriFetcher p (f_network f) maxBytes DEFAULT_MAX_JOB_SPEC_REDIRECTS
                (tjsJobSpecUri spec))))
      else Inl (JobSpecError ''refusing job-spec URI scheme''))"

definition fetchAndVerifyJobSpec ::
  "platform \<Rightarrow> fetchers \<Rightarrow> int \<Rightarrow> task_job_spec option res \<Rightarrow> verified_job_spec res" where
  "fetchAndVerifyJobSpec p f maxBytes account =
     bind_res (guard_res (safe_integer maxBytes \<and> maxBytes > 0)
       (JobSpecError ''job-spec byte cap must be a positive safe integer'')) (\<lambda>_.
     bind_res account (\<lambda>data.
     case data of
       None \<Rightarrow> Inl (JobSpecError ''no TaskJobSpec pinned (nothing to claim)'')
     | Some spec \<Rightarrow>
         bind_res (guard_res (\<not> list_all (\<lambda>b. b = 0) (tjsJobSpecHash spec))
           (JobSpecError ''job-spec hash is all zeros (unpinned)'')) (\<lambda>_.
         case url_parse p (tjsJobSpecUri spec) of
           None \<Rightarrow> Inl (JobSpecError ''job-spec URI is not a valid URI'')
         | Some u \<Rightarrow>
             bind_res (fetch_envelope p f maxBytes spec u) (\<lambda>envelopeBytes.
             bind_res (guard_res (int (length envelopeBytes) \<le> maxBytes)
               (JobSpecError ''job spec exceeds the byte cap'')) (\<lambda>_.
             bind_res (verifyJobSpecEnvelope p envelopeBytes (tjsJobSpecHash spec)) (\<lambda>content.
             Inr \<lparr>vjsJobSpecHash = tjsJobSpecHash spec, vjsJobSpecUri = tjsJobSpecUri spec,
                 vjsContent = content\<rparr>))))))"

section \<open>What the downloader connects to\<close>

lemma validateFetchUrl_iff [res_simps]:
  "validateFetchUrl u = Inr x \<longleftrightarrow>
     (u_protocol u = ''http:'' \<or> u_protocol u = ''https:'') \<and> u_username u = [] \<and> u_password u = [] \<and>
     u_hostname u \<noteq> []"
  by (auto simp: validateFetchUrl_def res_simps)

lemma resolvePublicAddress_public:
  assumes "resolvePublicAddress p u resolver = Inr a"
  shows "isPublicIpAddress p (fst a)"
    "is_ip p (hostnameWithoutBrackets (u_hostname u)) = 0 \<Longrightarrow>
       \<exists>as. resolver (hostnameWithoutBrackets (u_hostname u)) = Inr as \<and> a = hd as \<and>
            (\<forall>b \<in> set as. isPublicIpAddress p (fst b))"
proof -
  obtain as where as: "as \<noteq> []" "\<forall>b \<in> set as. isPublicIpAddress p (fst b)" "a = hd as"
    and source: "(if is_ip p (hostnameWithoutBrackets (u_hostname u)) \<noteq> 0
       then Inr [(hostnameWithoutBrackets (u_hostname u), is_ip p (hostnameWithoutBrackets (u_hostname u)))]
       else resolver (hostnameWithoutBrackets (u_hostname u))) = Inr as"
    using assms
    unfolding resolvePublicAddress_def Let_def bind_res_Inr_iff guard_res_Inr_iff find_case_Inr by auto
  from as show "isPublicIpAddress p (fst a)" by simp
  from as source show "is_ip p (hostnameWithoutBrackets (u_hostname u)) = 0 \<Longrightarrow>
     \<exists>as. resolver (hostnameWithoutBrackets (u_hostname u)) = Inr as \<and> a = hd as \<and>
            (\<forall>b \<in> set as. isPublicIpAddress p (fst b))" by auto
qed

definition safe_connection :: "platform \<Rightarrow> url \<times> resolved \<Rightarrow> bool" where
  "safe_connection p c \<longleftrightarrow> (case c of (u, a) \<Rightarrow>
     isPublicIpAddress p (fst a) \<and> (u_protocol u = ''http:'' \<or> u_protocol u = ''https:'') \<and>
     u_username u = [] \<and> u_password u = [])"

lemma fetch_hops_safe:
  "list_all (safe_connection p) (fst (fetch_hops p net m r u)) \<and>
   length (fst (fetch_hops p net m r u)) \<le> Suc (m - r)"
proof (induction p net m r u rule: fetch_hops.induct)
  case (1 p net m r u)
  show ?case
  proof (cases "validateFetchUrl u")
    case (Inl e)
    then show ?thesis by (simp add: fetch_hops.simps)
  next
    case valid: (Inr x)
    let ?a = "map_error (hop_error (n_dns_aborted net r) ''job-spec DNS lookup failed'')
             (resolvePublicAddress p u (n_resolver net r))"
    show ?thesis
    proof (cases ?a)
      case (Inl e)
      with valid show ?thesis by (simp add: fetch_hops.simps)
    next
      case addr: (Inr a)
      then have safe: "safe_connection p (u, a)"
        using valid by (auto simp: safe_connection_def map_error_Inr_iff validateFetchUrl_iff
            dest: resolvePublicAddress_public(1))
      let ?h = "map_error (hop_error (n_http_aborted net r) ''job-spec download failed'')
                 (n_requester net r u a)"
      show ?thesis
      proof (cases "\<exists>loc v. ?h = Inr (Redirect loc) \<and> r < m \<and> url_resolve p loc u = Some v")
        case True
        then obtain loc v where h: "?h = Inr (Redirect loc)" "r < m" "url_resolve p loc u = Some v"
          by blast
        obtain later res where rec: "fetch_hops p net m (r + 1) v = (later, res)" by fastforce
        have "fetch_hops p net m r u = ((u, a) # later, res)"
          using valid addr h rec by (subst fetch_hops.simps) simp
        moreover have "list_all (safe_connection p) later \<and> length later \<le> Suc (m - (r + 1))"
          using 1 [OF valid addr h(1) refl, of v] h(2, 3) rec by simp
        ultimately show ?thesis using safe h(2) by auto
      next
        case False
        then have "fst (fetch_hops p net m r u) = [(u, a)]"
          using valid addr
          by (subst fetch_hops.simps) (auto split: sum.splits hop_response.splits option.splits)
        then show ?thesis using safe by simp
      qed
    qed
  qed
qed

lemma collect_chunks_bound:
  "collect_chunks maxBytes len cs chunks = Inr r \<Longrightarrow> len = length (concat chunks) \<Longrightarrow>
   len \<le> maxBytes \<Longrightarrow> length (concat r) \<le> maxBytes"
proof (induction maxBytes len cs chunks rule: collect_chunks.induct)
  case (2 maxBytes len c cs chunks)
  then show ?case by (auto split: if_splits)
qed simp

lemma defaultPinnedRequester_bound:
  "defaultPinnedRequester maxBytes r = Inr (Success b) \<Longrightarrow> length b \<le> maxBytes"
  using collect_chunks_bound [of maxBytes 0 "r_chunks r" "[]"]
  by (auto simp: defaultPinnedRequester_def bind_res_Inr_iff split: if_splits option.splits)

section \<open>What verification establishes\<close>

lemma json_object_iff: "json_object v message = Inr fs \<longleftrightarrow> v = Some (JObj fs)"
  by (auto simp: json_object_def split: option.splits json.splits)

lemma case_Some_Inr_iff:
  "(case x of None \<Rightarrow> Inl e | Some y \<Rightarrow> Inr y) = Inr b \<longleftrightarrow> x = Some b"
  by (cases x) simp_all

lemma payload_hash_iff:
  "(case v of Some (JStr h) \<Rightarrow> (if q h then Inr h else Inl e) | _ \<Rightarrow> Inl e) = Inr x \<longleftrightarrow>
     v = Some (JStr x) \<and> q x"
  by (auto split: option.splits json.splits)

lemma canonical_payload_iff:
  "canonical_payload p j = Inr (c, d) \<longleftrightarrow> canonicalJobSpecJson j = Inr c \<and> d = sha256 p (utf8_encode c)"
  by (cases "canonicalJobSpecJson j")
    (auto simp: canonical_payload_def canonicalJobSpecHash_def map_error_def)

lemma verifyJobSpecEnvelope_ok:
  assumes "verifyJobSpecEnvelope p envelope onChain = Inr content"
  obtains fs ps ig canonical where
    "Option.bind (utf8_decode p envelope) (json_parse p) = Some (JObj fs)"
    "field fs ''payload'' = Some (JObj ps)" "field fs ''integrity'' = Some (JObj ig)"
    "field ig ''algorithm'' = Some (JStr ''sha256'')"
    "field ig ''canonicalization'' = Some (JStr ''json-stable-v1'')"
    "field ig ''payloadHash'' = Some (JStr (bytesToHex onChain))"
    "canonicalJobSpecJson (JObj ps) = Inr canonical" "content = utf8_encode canonical"
    "sha256 p content = onChain"
  using assms
  unfolding verifyJobSpecEnvelope_def bind_res_Inr_iff guard_res_Inr_iff json_object_iff case_Some_Inr_iff
    payload_hash_iff split_paired_Ex prod.case canonical_payload_iff
  by auto

lemma fetchAndVerifyJobSpec_ok:
  assumes "fetchAndVerifyJobSpec p f maxBytes account = Inr v"
  obtains spec u envelope where
    "account = Inr (Some spec)" "vjsJobSpecHash v = tjsJobSpecHash spec" "vjsJobSpecUri v = tjsJobSpecUri spec"
    "\<not> list_all (\<lambda>b. b = 0) (tjsJobSpecHash spec)"
    "url_parse p (tjsJobSpecUri spec) = Some u" "fetch_envelope p f maxBytes spec u = Inr envelope"
    "int (length envelope) \<le> maxBytes"
    "verifyJobSpecEnvelope p envelope (tjsJobSpecHash spec) = Inr (vjsContent v)"
  using assms
  unfolding fetchAndVerifyJobSpec_def bind_res_Inr_iff guard_res_Inr_iff case_option_Inr_iff by auto

lemma sha256_path_iff: "sha256_path s = Some h \<longleftrightarrow> s = ''/sha256/'' @ h \<and> is_hash_hex h"
  using append_take_drop_id [of 8 s] by (auto simp: sha256_path_def simp del: append_take_drop_id)

lemma validateAgencJobSpecUri_ok:
  "validateAgencJobSpecUri u h = Inr x \<Longrightarrow> u_hostname u = ''job-spec'' \<and> u_pathname u = ''/sha256/'' @ h"
  unfolding validateAgencJobSpecUri_def bind_res_Inr_iff guard_res_Inr_iff case_option_Inr_iff
    sha256_path_iff by auto

lemma fetch_envelope_scheme:
  "fetch_envelope p f maxBytes spec u = Inr e \<Longrightarrow>
   u_protocol u = ''http:'' \<or> u_protocol u = ''https:'' \<or>
   (u_protocol u = ''agenc:'' \<and> u_hostname u = ''job-spec'' \<and>
    u_pathname u = ''/sha256/'' @ bytesToHex (tjsJobSpecHash spec))"
  unfolding fetch_envelope_def
  by (simp only: bind_res_Inr_iff split: if_splits) (auto dest: validateAgencJobSpecUri_ok)

section \<open>The download and the verified content\<close>

text \<open>C27: one download makes at most \<open>maxRedirects + 1\<close> connections, and every one of them, redirects included,
  goes by http or https without credentials to an address that was classified as public.\<close>

theorem fetch_connections_public:
  assumes "createPublicUriFetcher p net maxBytes maxRedirects uri = (connections, r)" "0 \<le> maxRedirects"
  shows "list_all (safe_connection p) connections \<and> int (length connections) \<le> maxRedirects + 1"
proof -
  have *: "connections = [] \<or> (\<exists>u. connections = fst (fetch_hops p net (nat maxRedirects) 0 u))"
    using assms(1) by (auto simp: createPublicUriFetcher_def split: if_splits option.splits) (metis fst_conv)
  have "length (fst (fetch_hops p net (nat maxRedirects) 0 u)) \<le> Suc (nat maxRedirects)" for u
    using fetch_hops_safe [of p net "nat maxRedirects" 0 u] by simp
  then have "int (length (fst (fetch_hops p net (nat maxRedirects) 0 u))) \<le> maxRedirects + 1" for u
    using assms(2) by (metis int_nat_eq of_nat_Suc of_nat_mono add.commute)
  with * assms(2) show ?thesis using fetch_hops_safe by fastforce
qed

definition sample_network :: network where
  "sample_network = \<lparr>n_resolver = (\<lambda>_ _. Inr [(''8.8.8.8'', 4)]),
     n_requester = (\<lambda>_ _ _. Inr (Redirect ''https://b'')),
     n_dns_aborted = (\<lambda>_. False), n_http_aborted = (\<lambda>_. False)\<rparr>"

theorem fetch_connections_public_witness:
  "list_all (safe_connection sample_platform)
     (fst (createPublicUriFetcher sample_platform sample_network 1024 5 ''https://a''))"
  using fetch_connections_public [of sample_platform sample_network 1024 5 "''https://a''"]
  by (cases "createPublicUriFetcher sample_platform sample_network 1024 5 ''https://a''") simp

text \<open>The built-in requester never returns more bytes than its cap, whatever length was declared.\<close>

lemma download_bounded:
  assumes "defaultPinnedRequester maxBytes r = Inr (Success b)"
  shows "length b \<le> maxBytes"
  using assms by (rule defaultPinnedRequester_bound)

lemma download_bounded_witness: "length [1, 2 :: byte] \<le> (4 :: nat)"
  by (rule download_bounded [of 4 "\<lparr>r_status = 200, r_location = None, r_content_length = Some ''2'',
      r_chunks = [[1], [2]], r_body_error = False\<rparr>"])
    (simp add: defaultPinnedRequester_def is_decimal_def is_digit_def dec_value_def digit_value_def)

text \<open>C26: the content handed to the executor is the canonical text of the envelope's payload and its digest is
  the commitment on chain, which is not all zeros; the URI is http(s), or names that digest.\<close>

theorem verified_content:
  assumes "fetchAndVerifyJobSpec p f maxBytes account = Inr v"
  shows "\<exists>spec u fs ps canonical.
    account = Inr (Some spec) \<and> vjsJobSpecHash v = tjsJobSpecHash spec \<and>
    \<not> list_all (\<lambda>b. b = 0) (tjsJobSpecHash spec) \<and> url_parse p (tjsJobSpecUri spec) = Some u \<and>
    (u_protocol u = ''http:'' \<or> u_protocol u = ''https:'' \<or>
     (u_protocol u = ''agenc:'' \<and> u_hostname u = ''job-spec'' \<and>
      u_pathname u = ''/sha256/'' @ bytesToHex (tjsJobSpecHash spec))) \<and>
    field fs ''payload'' = Some (JObj ps) \<and> canonicalJobSpecJson (JObj ps) = Inr canonical \<and>
    vjsContent v = utf8_encode canonical \<and> sha256 p (vjsContent v) = tjsJobSpecHash spec"
proof -
  obtain spec u envelope where spec: "account = Inr (Some spec)" "vjsJobSpecHash v = tjsJobSpecHash spec"
    "\<not> list_all (\<lambda>b. b = 0) (tjsJobSpecHash spec)" "url_parse p (tjsJobSpecUri spec) = Some u"
    "fetch_envelope p f maxBytes spec u = Inr envelope"
    "verifyJobSpecEnvelope p envelope (tjsJobSpecHash spec) = Inr (vjsContent v)"
    by (rule fetchAndVerifyJobSpec_ok [OF assms])
  obtain fs ps canonical where
    "field fs ''payload'' = Some (JObj ps)" "canonicalJobSpecJson (JObj ps) = Inr canonical"
    "vjsContent v = utf8_encode canonical" "sha256 p (vjsContent v) = tjsJobSpecHash spec"
    by (rule verifyJobSpecEnvelope_ok [OF spec(6)])
  with spec(1-4) fetch_envelope_scheme [OF spec(5)] show ?thesis by blast
qed

definition sample_fetchers :: fetchers where
  "sample_fetchers = \<lparr>f_fetchUri = Some (\<lambda>_. Inr (utf8_encode (json_compact sample_envelope))),
     f_resolveAgencUri = None, f_network = sample_network\<rparr>"

definition sample_job_spec :: task_job_spec where
  "sample_job_spec = \<lparr>tjsJobSpecHash = sample_hash, tjsJobSpecUri = ''https://a''\<rparr>"

lemma sample_job_spec_verified:
  "fetchAndVerifyJobSpec sample_platform sample_fetchers 1024 (Inr (Some sample_job_spec)) =
     Inr \<lparr>vjsJobSpecHash = sample_hash, vjsJobSpecUri = ''https://a'', vjsContent = utf8_encode ''{}''\<rparr>"
  by code_simp

theorem verified_content_witness:
  "\<exists>spec ps canonical. Inr (Some sample_job_spec) = Inr (Some spec) \<and>
     canonicalJobSpecJson (JObj ps) = Inr canonical \<and> utf8_encode ''{}'' = utf8_encode canonical"
  using verified_content [OF sample_job_spec_verified] by auto

end
