(* ===== verification/ResultDelivery.thy ===== *)
theory ResultDelivery
  imports Samples JsText
begin

text \<open>
  Result delivery (\<open>packages/agenc-worker/src/result.ts\<close>): the placeholder URI, the 64-byte
  result data, the checks on the uploader's answer and on the result URI it gives.  The POST
  itself is a parameter.
\<close>

section \<open>Hash forms\<close>

definition resultPlaceholderUri :: "string \<Rightarrow> string res" where
  "resultPlaceholderUri hashHex =
     (if is_hash_hex hashHex then Inr (''agenc://result/sha256/'' @ hashHex)
      else Inl (PlainError ''resultPlaceholderUri requires a 64-char lowercase sha256 hex''))"

definition resultDataFromHashHex :: "string \<Rightarrow> bytes res" where
  "resultDataFromHashHex hashHex =
     (let b = utf8_encode hashHex in
      if length b \<noteq> 64 then Inl (PlainError ''resultData must be exactly 64 bytes'') else Inr b)"

section \<open>Result URIs\<close>

definition MAX_RESULT_URI_BYTES :: nat where "MAX_RESULT_URI_BYTES = 256"
definition DEFAULT_MAX_RESULT_UPLOAD_RESPONSE_BYTES :: int where
  "DEFAULT_MAX_RESULT_UPLOAD_RESPONSE_BYTES = 64 * 1024"

definition is_base32 :: "char \<Rightarrow> bool" where
  "is_base32 c \<longleftrightarrow> c \<in> set ''abcdefghijklmnopqrstuvwxyz234567''"

definition is_result_address :: "string \<Rightarrow> bool" where
  "is_result_address s = (case strip_prefix ''agenc://result/sha256/'' s of
     None \<Rightarrow> False | Some h \<Rightarrow> is_hash_hex h)"

definition is_arweave :: "string \<Rightarrow> bool" where
  "is_arweave s = (case strip_prefix ''ar://'' s of None \<Rightarrow> False
     | Some r \<Rightarrow> length r = 43 \<and> list_all (\<lambda>c. is_alnum c \<or> c \<in> set ''_-'') r)"

text \<open>\<open>(\/[A-Za-z0-9._~-]+)*\/?\<close>.\<close>

definition ipfs_path :: "string \<Rightarrow> bool" where
  "ipfs_path r =
     (case split_on (CHR ''/'') r of
        first # segs \<Rightarrow> first = [] \<and>
          (segs = [] \<or>
           (list_all (\<lambda>x. x \<noteq> []) (butlast segs) \<and>
            list_all (\<lambda>x. list_all (\<lambda>c. is_alnum c \<or> c \<in> set ''._~-'') x) segs))
      | [] \<Rightarrow> False)"

definition is_ipfs :: "string \<Rightarrow> bool" where
  "is_ipfs s = (case strip_prefix ''ipfs://'' s of None \<Rightarrow> False
     | Some r \<Rightarrow>
         ((take 2 r = ''Qm'' \<and> length r \<ge> 46 \<and> list_all is_base58 (take 44 (drop 2 r)) \<and> ipfs_path (drop 46 r)) \<or>
          (take 1 r = ''b'' \<and> length r \<ge> 59 \<and> list_all is_base32 (take 58 (drop 1 r)) \<and> ipfs_path (drop 59 r)))
         \<and> \<not> list_ex (\<lambda>seg. seg = ''.'' \<or> seg = ''..'') (split_on (CHR ''/'') s))"

definition is_canonical_https :: "platform \<Rightarrow> string \<Rightarrow> bool" where
  "is_canonical_https p s = (case url_parse p s of None \<Rightarrow> False
     | Some u \<Rightarrow> u_protocol u = ''https:'' \<and> u_username u = [] \<and> u_password u = [] \<and> u_hostname u \<noteq> [] \<and>
         u_hash u = [] \<and> url_href u = s)"

definition validateResultUri :: "platform \<Rightarrow> json option \<Rightarrow> string res" where
  "validateResultUri p v =
     (case v of
        Some (JStr s) \<Rightarrow>
          if s = [] then Inl (ResultUploadError ''result uploader response must be JSON'')
          else if \<not> is_trimmed s \<or> has_control s \<or> length (utf8_encode s) > MAX_RESULT_URI_BYTES
          then Inl (ResultUploadError ''result uploader returned an unsafe result URI'')
          else if is_result_address s then Inr s
          else if is_arweave s then Inr s
          else if is_ipfs s then Inr s
          else if url_parse p s = None
          then Inl (ResultUploadError ''result uploader returned an invalid result URI'')
          else if \<not> is_canonical_https p s
          then Inl (ResultUploadError
            ''result uploader returned a non-canonical URI or unsupported content address'')
          else Inr s
      | _ \<Rightarrow> Inl (ResultUploadError ''result uploader response must be JSON''))"

section \<open>The upload\<close>

text \<open>What \<open>fetch\<close> answers; \<open>ur_body\<close> is \<open>None\<close> for a null body, else its chunks.\<close>

record upload_response =
  ur_opaque_redirect :: bool
  ur_status :: nat
  ur_content_type :: "string option"
  ur_content_length :: "string option"
  ur_body :: "bytes list option"
  ur_read_error :: bool

definition upload_too_long :: worker_error where
  "upload_too_long = ResultUploadError ''result uploader response exceeds the byte cap''"

fun read_chunks :: "int \<Rightarrow> int \<Rightarrow> bytes list \<Rightarrow> bytes list \<Rightarrow> bytes list res" where
  "read_chunks maxBytes seen [] chunks = Inr chunks"
| "read_chunks maxBytes seen (c # cs) chunks =
     (if seen + int (length c) > maxBytes then Inl upload_too_long
      else read_chunks maxBytes (seen + int (length c)) cs (chunks @ [c]))"

definition readBoundedResponse :: "platform \<Rightarrow> upload_response \<Rightarrow> int \<Rightarrow> string res" where
  "readBoundedResponse p r maxBytes =
     (if \<bar>maxBytes\<bar> > 9007199254740991 \<or> maxBytes \<le> 0
      then Inl (ResultUploadError ''result uploader response limit is invalid'')
      else bind_res (case ur_content_length r of
          None \<Rightarrow> Inr ()
        | Some declared \<Rightarrow>
            (case js_number p declared of
               None \<Rightarrow> Inl (ResultUploadError ''result uploader returned an invalid content-length'')
             | Some n \<Rightarrow>
                 if \<bar>n\<bar> > 9007199254740991 \<or> n < 0
                 then Inl (ResultUploadError ''result uploader returned an invalid content-length'')
                 else guard_res (\<not> n > maxBytes) upload_too_long)) (\<lambda>_.
        case ur_body r of
          None \<Rightarrow> Inr []
        | Some cs \<Rightarrow>
            bind_res (read_chunks maxBytes 0 cs []) (\<lambda>chunks.
            if ur_read_error r then Inl (ResultUploadError ''could not read result uploader response'')
            else (case utf8_decode p (concat chunks) of
                None \<Rightarrow> Inl (PlainError ''The encoded data was not valid'')
              | Some s \<Rightarrow> Inr s))))"

text \<open>\<open>/^application\/(?:[a-z0-9.+-]+\+)?json(?:\s*;|\s*$)/iu\<close>.\<close>

definition lower :: "string \<Rightarrow> string" where
  "lower s = map (\<lambda>c. if 65 \<le> (of_char c :: nat) \<and> (of_char c :: nat) \<le> 90
     then char_of ((of_char c :: nat) + 32) else c) s"

definition is_space :: "char \<Rightarrow> bool" where
  "is_space c \<longleftrightarrow> (of_char c :: nat) \<in> {9, 10, 11, 12, 13, 32}"

definition json_suffix :: "string \<Rightarrow> bool" where
  "json_suffix s = (case strip_prefix ''json'' s of None \<Rightarrow> False
     | Some r \<Rightarrow> (let rest = dropWhile is_space r in rest = [] \<or> hd rest = CHR '';''))"

definition is_json_content_type :: "string \<Rightarrow> bool" where
  "is_json_content_type s = (case strip_prefix ''application/'' (lower s) of None \<Rightarrow> False
     | Some r \<Rightarrow> json_suffix r \<or>
         list_ex (\<lambda>i. list_all (\<lambda>c. is_alnum c \<or> c \<in> set ''.+-'') (take i r) \<and> r ! (i - 1) = CHR ''+'' \<and>
             json_suffix (drop i r)) [2..<Suc (length r)])"

definition uploader_url_ok :: "platform \<Rightarrow> string \<Rightarrow> unit res" where
  "uploader_url_ok p uploaderUrl = (case url_parse p uploaderUrl of
      None \<Rightarrow> Inl (ResultUploadError ''resultUploader must be an absolute HTTPS URL'')
    | Some u \<Rightarrow> guard_res (u_protocol u = ''https:'' \<and> u_username u = [] \<and> u_password u = [] \<and> u_hostname u \<noteq> [])
        (ResultUploadError ''resultUploader must be a credential-free HTTPS URL''))"

definition upload_error :: "worker_error \<Rightarrow> worker_error" where
  "upload_error e = (case e of ResultUploadError m \<Rightarrow> e
     | _ \<Rightarrow> ResultUploadError ''result uploader response was not JSON'')"

definition read_upload_json :: "platform \<Rightarrow> upload_response \<Rightarrow> int \<Rightarrow> json res" where
  "read_upload_json p r maxBytes =
     (case readBoundedResponse p r maxBytes of
        Inl e \<Rightarrow> Inl (upload_error e)
      | Inr s \<Rightarrow> (case json_parse p s of
          None \<Rightarrow> Inl (ResultUploadError ''result uploader response was not JSON'')
        | Some j \<Rightarrow> Inr j))"

text \<open>What is done with the answer of the POST.\<close>

definition read_upload_response :: "platform \<Rightarrow> upload_response \<Rightarrow> int \<Rightarrow> string res" where
  "read_upload_response p r maxBytes =
     (if ur_opaque_redirect r \<or> (300 \<le> ur_status r \<and> ur_status r < 400)
      then Inl (ResultUploadError ''result uploader redirects are not permitted'')
      else if \<not> (200 \<le> ur_status r \<and> ur_status r < 300)
      then Inl (ResultUploadError ''result uploader answered with an error status'')
      else if \<not> is_json_content_type (case ur_content_type r of Some c \<Rightarrow> c | None \<Rightarrow> [])
      then Inl (ResultUploadError ''result uploader response must have an application/json content type'')
      else bind_res (read_upload_json p r maxBytes) (\<lambda>parsed.
        case parsed of
          JObj fs \<Rightarrow>
            if length (remdups (map fst fs)) = 1 \<and> has_prop fs ''uri''
            then validateResultUri p (field fs ''uri'')
            else Inl (ResultUploadError ''result uploader response must be JSON'')
        | _ \<Rightarrow> Inl (ResultUploadError ''result uploader response must be JSON'')))"

text \<open>\<open>post\<close> is the POST of the body with the idempotency key \<open>sha256Hex(body)\<close>.\<close>

definition uploadResult ::
  "platform \<Rightarrow> (string \<Rightarrow> bytes \<Rightarrow> string \<Rightarrow> upload_response res) \<Rightarrow> string \<Rightarrow> bytes \<Rightarrow> int \<Rightarrow> string res" where
  "uploadResult p post uploaderUrl body maxResponseBytes =
     bind_res (uploader_url_ok p uploaderUrl) (\<lambda>_.
     case post uploaderUrl body (sha256Hex p body) of
       Inl _ \<Rightarrow> Inl (ResultUploadError ''result upload failed'')
     | Inr r \<Rightarrow> read_upload_response p r maxResponseBytes)"

section \<open>What an accepted answer satisfies\<close>

lemma validateResultUri_iff:
  "validateResultUri p v = Inr s \<longleftrightarrow>
     v = Some (JStr s) \<and> s \<noteq> [] \<and> is_trimmed s \<and> \<not> has_control s \<and> length s \<le> MAX_RESULT_URI_BYTES \<and>
     (is_result_address s \<or> is_arweave s \<or> is_ipfs s \<or> is_canonical_https p s)"
  by (auto simp: validateResultUri_def is_canonical_https_def split: option.splits json.splits if_splits)

lemma resultPlaceholderUri_iff:
  "resultPlaceholderUri h = Inr u \<longleftrightarrow> is_hash_hex h \<and> u = ''agenc://result/sha256/'' @ h"
  by (auto simp: resultPlaceholderUri_def)

lemma object_case_iff:
  "(case j of JObj fs \<Rightarrow> f fs | _ \<Rightarrow> Inl e) = Inr x \<longleftrightarrow> (\<exists>fs. j = JObj fs \<and> f fs = Inr x)"
  by (auto split: json.splits)

lemma read_upload_response_ok:
  assumes "read_upload_response p r maxBytes = Inr uri"
  shows "200 \<le> ur_status r \<and> ur_status r < 300 \<and> \<not> ur_opaque_redirect r \<and>
    (\<exists>j. validateResultUri p j = Inr uri)"
  using assms
  unfolding read_upload_response_def
  by (auto simp: bind_res_Inr_iff object_case_iff split: if_splits)

lemma read_chunks_bound:
  "read_chunks maxBytes seen cs chunks = Inr r \<Longrightarrow> seen = int (length (concat chunks)) \<Longrightarrow>
   seen \<le> maxBytes \<Longrightarrow> int (length (concat r)) \<le> maxBytes"
proof (induction maxBytes seen cs chunks rule: read_chunks.induct)
  case (2 maxBytes seen c cs chunks)
  then show ?case by (auto split: if_splits)
qed simp

lemma uploadResult_ok:
  assumes "uploadResult p post uploaderUrl body maxBytes = Inr uri"
  obtains r j where "post uploaderUrl body (sha256Hex p body) = Inr r" "200 \<le> ur_status r" "ur_status r < 300"
    "uploader_url_ok p uploaderUrl = Inr ()" "validateResultUri p j = Inr uri"
  using assms by (auto simp: uploadResult_def bind_res_Inr_iff split: sum.splits dest!: read_upload_response_ok)

text \<open>A result URI is accepted exactly when it is a non-empty trimmed string without control characters, at
  most 256 bytes long, and is a result address, an Arweave id, an IPFS path or a canonical https URL.\<close>

lemma result_uri_accepted:
  "validateResultUri p v = Inr s \<longleftrightarrow>
     v = Some (JStr s) \<and> s \<noteq> [] \<and> is_trimmed s \<and> \<not> has_control s \<and> length s \<le> MAX_RESULT_URI_BYTES \<and>
     (is_result_address s \<or> is_arweave s \<or> is_ipfs s \<or> is_canonical_https p s)"
  by (rule validateResultUri_iff)

text \<open>An upload succeeds only against a credential-free https endpoint, under the idempotency key
  \<open>sha256\<close> of the body, with a 2xx answer that is no redirect and whose URI was accepted.\<close>

lemma upload_accepted:
  assumes "uploadResult p post uploaderUrl body maxBytes = Inr uri"
  shows "uploader_url_ok p uploaderUrl = Inr () \<and>
    (\<exists>r j. post uploaderUrl body (sha256Hex p body) = Inr r \<and> 200 \<le> ur_status r \<and> ur_status r < 300 \<and>
       \<not> ur_opaque_redirect r \<and> validateResultUri p j = Inr uri)"
  using assms by (auto simp: uploadResult_def bind_res_Inr_iff split: sum.splits dest!: read_upload_response_ok)

definition sample_upload :: upload_response where
  "sample_upload = \<lparr>ur_opaque_redirect = False, ur_status = 200, ur_content_type = Some ''application/json'',
     ur_content_length = None, ur_body = Some [utf8_encode (json_compact sample_answer)], ur_read_error = False\<rparr>"

lemma sample_upload_ok:
  "uploadResult sample_platform (\<lambda>_ _ _. Inr sample_upload) ''https://up'' [1] 1024 = Inr sample_uri"
  by code_simp

lemma upload_accepted_witness:
  "uploader_url_ok sample_platform ''https://up'' = Inr () \<and>
   (\<exists>j. validateResultUri sample_platform j = Inr sample_uri)"
  using upload_accepted [OF sample_upload_ok] by blast

end
