(* ===== verification/StateCodec.thy ===== *)
theory StateCodec
  imports Samples
begin

text \<open>
  Well-formedness of the persisted records and the round trips of their validators:
  \<open>currentState\<close> reads back exactly the well-formed states, and every state it returns
  is well formed.  \<open>valid_state\<close> is the structural invariant of the durable state.
\<close>

section \<open>A validator: reads what was written, accepts only good values\<close>

locale validating_codec = codec +
  assumes dec_ok: "dec b = Inr a \<Longrightarrow> ok a"
    and enc_det: "dec (enc x) = Inr y \<Longrightarrow> y = x"
begin

lemma dec_enc_cases: "dec (enc a) = Inr b \<longleftrightarrow> b = a \<and> ok a"
  using dec_enc dec_ok enc_det by blast

lemma dec_enc_iff: "dec (enc a) = Inr a \<longleftrightarrow> ok a"
  using dec_enc dec_ok by blast

lemma reread: "dec b = Inr a \<Longrightarrow> dec (enc a) = Inr a"
  using dec_enc dec_ok by blast

lemma map_dec_ok: "map_res dec bs = Inr as \<Longrightarrow> list_all ok as"
  by (induction bs arbitrary: as) (auto simp: res_simps list_all2_Cons1 dec_ok)

end

section \<open>Well-formed records\<close>

definition wf_execution :: "platform \<Rightarrow> execution_intent \<Rightarrow> bool" where
  "wf_execution p x \<longleftrightarrow>
     b64_canonical (exResultBytesBase64 x) \<and>
     is_hash_hex (exResultHashHex x) \<and>
     sha256Hex p (b64_decode (exResultBytesBase64 x)) = exResultHashHex x \<and>
     is_decimal (exRewardAmount x) \<and>
     canonical_iso p (exExecutedAt x)"

definition wf_submission :: "platform \<Rightarrow> submission_intent \<Rightarrow> bool" where
  "wf_submission p x \<longleftrightarrow>
     siTransactionSignature x \<noteq> Some [] \<and>
     siResultUri x \<noteq> [] \<and>
     is_hash_hex (siResultHashHex x) \<and>
     is_decimal (siRewardAmount x) \<and>
     canonical_iso p (siPreparedAt x) \<and>
     (\<forall>t. siLastBroadcastAt x = Some t \<longrightarrow> canonical_iso p t)"

definition wf_claim :: "platform \<Rightarrow> open_claim \<Rightarrow> bool" where
  "wf_claim p c \<longleftrightarrow>
     (\<forall>x. ocExecution c = Some x \<longrightarrow> wf_execution p x) \<and>
     (\<forall>x. ocSubmission c = Some x \<longrightarrow> wf_submission p x) \<and>
     (ocPhase c = Executed \<or> ocPhase c = Uploading \<longleftrightarrow> ocExecution c \<noteq> None) \<and>
     (ocPhase c = Submitting \<longleftrightarrow> ocSubmission c \<noteq> None) \<and>
     ocClaimTransactionSignature c \<noteq> Some [] \<and>
     (\<forall>n. ocRevisionSubmissionCount c = Some n \<longrightarrow> 1 \<le> n \<and> n \<le> 65535) \<and>
     ocTask c \<noteq> [] \<and> valid_address p (ocTask c) \<and>
     canonical_iso p (ocClaimedAt c)"

definition wf_record :: "platform \<Rightarrow> submission_record \<Rightarrow> bool" where
  "wf_record p r \<longleftrightarrow>
     (srSettled r \<longrightarrow> srOutcome r \<noteq> None \<and> srSettledAt r \<noteq> None \<and>
        srEarnedLamports r \<noteq> None \<and> srSettlementSignature r \<noteq> None) \<and>
     (\<not> srSettled r \<longrightarrow> srOutcome r = None \<and> srSettledAt r = None \<and>
        srEarnedLamports r = None \<and> srSettlementSignature r = None) \<and>
     (\<forall>e. srEarnedLamports r = Some (Some e) \<longrightarrow> is_decimal e) \<and>
     srSettlementSignature r \<noteq> Some (Some []) \<and>
     srTask r \<noteq> [] \<and> valid_address p (srTask r) \<and>
     srSubmissionSignature r \<noteq> Some [] \<and>
     srResultUri r \<noteq> [] \<and>
     is_hash_hex (srResultHashHex r) \<and>
     is_decimal (srRewardAmount r) \<and>
     canonical_iso p (srSubmittedAt r) \<and>
     (\<forall>t. srSettledAt r = Some t \<longrightarrow> canonical_iso p t)"

definition ledger_tasks :: "worker_state \<Rightarrow> string list" where
  "ledger_tasks s = map srTask (wsSubmissions s)"

definition valid_state :: "platform \<Rightarrow> worker_state \<Rightarrow> bool" where
  "valid_state p s \<longleftrightarrow>
     (\<forall>a. wsAgentIdHex s = Some a \<longrightarrow> is_hash_hex a) \<and>
     length (wsSubmissions s) \<le> MAX_PARSED_SUBMISSIONS \<and>
     list_all (wf_record p) (wsSubmissions s) \<and>
     unsettled_count (wsSubmissions s) \<le> MAX_UNSETTLED_SUBMISSIONS \<and>
     distinct (ledger_tasks s) \<and>
     (\<forall>c. wsOpenClaim s = Some c \<longrightarrow> wf_claim p c \<and> ocTask c \<notin> set (ledger_tasks s)) \<and>
     is_decimal (wsTotalEarnedBaseline s)"

section \<open>Field lemmas\<close>

definition keys_ok :: "fields \<Rightarrow> string list \<Rightarrow> string list \<Rightarrow> bool" where
  "keys_ok fs required optional \<longleftrightarrow>
     set (map fst fs) \<subseteq> set required \<union> set optional \<and> set required \<subseteq> set (map fst fs)"

lemma exactKeys_iff [res_simps]:
  "exactKeys fs label required optional = Inr u \<longleftrightarrow> keys_ok fs required optional"
  unfolding exactKeys_def find_case_Inr by (auto simp: has_prop_def keys_ok_def)

lemma js_string_iff [res_simps]: "js_string v label = Inr s \<longleftrightarrow> v = Some (JStr s)"
  by (auto simp: js_string_def split: option.splits json.splits)

lemma nonempty_iff [res_simps]: "nonempty v label = Inr s \<longleftrightarrow> v = Some (JStr s) \<and> s \<noteq> []"
  by (auto simp: nonempty_def res_simps)

lemma iso_iff [res_simps]: "iso p v label = Inr s \<longleftrightarrow> v = Some (JStr s) \<and> canonical_iso p s"
  by (auto simp: iso_def res_simps)

lemma decimal_iff [res_simps]: "decimal v label = Inr s \<longleftrightarrow> v = Some (JStr s) \<and> is_decimal s"
  by (auto simp: decimal_def res_simps)

lemma hash_hex_iff [res_simps]: "hash_hex v label = Inr s \<longleftrightarrow> v = Some (JStr s) \<and> is_hash_hex s"
  by (auto simp: hash_hex_def res_simps)

lemma taskAddress_iff [res_simps]:
  "taskAddress p v label = Inr s \<longleftrightarrow> v = Some (JStr s) \<and> s \<noteq> [] \<and> valid_address p s"
  by (auto simp: taskAddress_def res_simps)

lemma as_record_iff [res_simps]: "as_record v label = Inr fs \<longleftrightarrow> v = JObj fs"
  by (auto simp: as_record_def split: json.splits)

lemma optionalSignature_iff [res_simps]:
  "optionalSignature v label = Inr x \<longleftrightarrow>
     v = map_option JStr x \<and> x \<noteq> Some []"
  by (cases v; cases x) (auto simp: optionalSignature_def res_simps)

lemma optional_field_iff [res_simps]:
  "optional_field v f = Inr x \<longleftrightarrow>
     (v = None \<and> x = None) \<or> (\<exists>j a. v = Some j \<and> x = Some a \<and> f j = Inr a)"
  by (cases v) (auto simp: optional_field_def res_simps)

lemma nullable_string_iff [res_simps]:
  "nullable_string v q e = Inr x \<longleftrightarrow>
     v = map_option encode_nullable x \<and> (\<forall>s. x = Some (Some s) \<longrightarrow> q s)"
  by (cases x) (auto simp: nullable_string_def encode_nullable_def res_simps
      split: option.splits json.splits)

lemma claim_phase_of_iff: "claim_phase_of v = Some ph \<longleftrightarrow> v = Some (JStr (phase_name ph))"
  by (cases ph) (auto simp: claim_phase_of_def)

lemma outcome_field_iff [res_simps]:
  "outcome_field v label = Inr x \<longleftrightarrow> v = map_option (\<lambda>x. JStr (outcome_name x)) x"
proof (cases x)
  case None
  then show ?thesis by (auto simp: outcome_field_def)
next
  case (Some oc)
  then show ?thesis by (cases oc) (auto simp: outcome_field_def)
qed

lemma evidence_field_iff [res_simps]:
  "evidence_field v label = Inr x \<longleftrightarrow> v = map_option (\<lambda>_. JStr ''collaborative-straggler'') x"
proof (cases x)
  case None
  then show ?thesis by (auto simp: evidence_field_def)
next
  case (Some e)
  then show ?thesis by (cases e) (auto simp: evidence_field_def)
qed

lemma revision_count_iff [res_simps]:
  "revision_count v label = Inr x \<longleftrightarrow>
     v = map_option (\<lambda>n. JInt (int n)) x \<and> (\<forall>n. x = Some n \<longrightarrow> 1 \<le> n \<and> n \<le> 65535)"
  by (cases x) (auto simp: revision_count_def res_simps split: option.splits json.splits)

section \<open>Round trips\<close>

lemma executionIntent_iff:
  "executionIntent p v label = Inr x \<longleftrightarrow>
     (\<exists>fs. v = JObj fs \<and>
       keys_ok fs [''resultBytesBase64'', ''resultHashHex'', ''rewardAmount'', ''executedAt''] [] \<and>
       field fs ''resultBytesBase64'' = Some (JStr (exResultBytesBase64 x)) \<and>
       field fs ''resultHashHex'' = Some (JStr (exResultHashHex x)) \<and>
       field fs ''rewardAmount'' = Some (JStr (exRewardAmount x)) \<and>
       field fs ''executedAt'' = Some (JStr (exExecutedAt x)) \<and>
       wf_execution p x)"
  by (cases x) (auto simp: executionIntent_def wf_execution_def res_simps)

lemma submissionIntent_iff:
  "submissionIntent p v label = Inr x \<longleftrightarrow>
     (\<exists>fs. v = JObj fs \<and>
       keys_ok fs [''resultUri'', ''resultHashHex'', ''rewardAmount'', ''preparedAt'']
         [''lastBroadcastAt'', ''transactionSignature''] \<and>
       field fs ''resultUri'' = Some (JStr (siResultUri x)) \<and>
       field fs ''resultHashHex'' = Some (JStr (siResultHashHex x)) \<and>
       field fs ''rewardAmount'' = Some (JStr (siRewardAmount x)) \<and>
       field fs ''preparedAt'' = Some (JStr (siPreparedAt x)) \<and>
       field fs ''lastBroadcastAt'' = map_option JStr (siLastBroadcastAt x) \<and>
       field fs ''transactionSignature'' = map_option JStr (siTransactionSignature x) \<and>
       wf_submission p x)"
  by (cases x; cases "siLastBroadcastAt x")
    (auto simp: submissionIntent_def wf_submission_def res_simps)

interpretation execution: validating_codec encode_execution
  "\<lambda>v. executionIntent p v label" "wf_execution p" for p label
  by unfold_locales (auto simp: executionIntent_iff encode_execution.simps keys_ok_def)

lemma JStr_map_eq [simp]: "Some (JStr x) = map_option JStr y \<longleftrightarrow> y = Some x"
  by (cases y) auto

interpretation intent: validating_codec encode_submission_intent
  "\<lambda>v. submissionIntent p v label" "wf_submission p" for p label
  by unfold_locales
    (auto simp: submissionIntent_iff encode_submission_intent.simps keys_ok_def opt_prop_def
      split: option.splits)

lemma openClaim_iff:
  "openClaim p v label = Inr c \<longleftrightarrow>
     (\<exists>fs. v = JObj fs \<and>
       keys_ok fs [''task'', ''claimedAt'', ''phase'']
         [''claimTransactionSignature'', ''revisionSubmissionCount'', ''execution'', ''submission''] \<and>
       field fs ''phase'' = Some (JStr (phase_name (ocPhase c))) \<and>
       optional_field (field fs ''execution'') (\<lambda>j. executionIntent p j (label @ ''.execution''))
         = Inr (ocExecution c) \<and>
       optional_field (field fs ''submission'') (\<lambda>j. submissionIntent p j (label @ ''.submission''))
         = Inr (ocSubmission c) \<and>
       ((ocPhase c = Executed \<or> ocPhase c = Uploading) = (ocExecution c \<noteq> None)) \<and>
       ((ocPhase c = Submitting) = (ocSubmission c \<noteq> None)) \<and>
       optionalSignature (field fs ''claimTransactionSignature'') (label @ ''.claimTransactionSignature'')
         = Inr (ocClaimTransactionSignature c) \<and>
       revision_count (field fs ''revisionSubmissionCount'') label = Inr (ocRevisionSubmissionCount c) \<and>
       taskAddress p (field fs ''task'') (label @ ''.task'') = Inr (ocTask c) \<and>
       iso p (field fs ''claimedAt'') (label @ ''.claimedAt'') = Inr (ocClaimedAt c))"
  unfolding openClaim_def bind_res_Inr_iff guard_res_Inr_iff as_record_iff exactKeys_iff
    case_option_Inr_iff claim_phase_of_iff
  by (cases c) simp

lemma optional_execution_ok:
  "optional_field v (\<lambda>j. executionIntent p j label) = Inr x \<Longrightarrow> x = Some y \<Longrightarrow> wf_execution p y"
  by (auto simp: optional_field_iff dest: execution.dec_ok)

lemma optional_intent_ok:
  "optional_field v (\<lambda>j. submissionIntent p j label) = Inr x \<Longrightarrow> x = Some y \<Longrightarrow> wf_submission p y"
  by (auto simp: optional_field_iff dest: intent.dec_ok)

lemma openClaim_ok: "openClaim p v label = Inr c \<Longrightarrow> wf_claim p c"
  unfolding openClaim_iff wf_claim_def taskAddress_iff iso_iff optionalSignature_iff revision_count_iff
  by (blast dest: optional_execution_ok optional_intent_ok)

lemma openClaim_encode: "wf_claim p c \<Longrightarrow> openClaim p (encode_open_claim c) label = Inr c"
  unfolding openClaim_iff encode_open_claim.simps wf_claim_def
  by (intro exI conjI, rule refl)
    (auto simp: keys_ok_def res_simps opt_prop_def execution.dec_enc intent.dec_enc
      split: option.splits)

lemma phase_name_inj [simp]: "phase_name a = phase_name b \<longleftrightarrow> a = b"
  by (cases a; cases b) auto

lemma outcome_name_inj [simp]: "outcome_name a = outcome_name b \<longleftrightarrow> a = b"
  by (cases a; cases b) auto

lemma encode_nullable_inj [simp]: "encode_nullable a = encode_nullable b \<longleftrightarrow> a = b"
  by (auto simp: encode_nullable_def split: option.splits)

lemma map_option_inj: "(\<And>a b. f a = f b \<Longrightarrow> a = b) \<Longrightarrow> map_option f x = map_option f y \<Longrightarrow> x = y"
  by (cases x; cases y) auto

lemma optional_field_det:
  "optional_field (map_option enc x) f = Inr y \<Longrightarrow> (\<And>a b. f (enc a) = Inr b \<Longrightarrow> b = a) \<Longrightarrow> y = x"
  by (cases x) (auto simp: optional_field_iff)

lemma claim_fields:
  "encode_open_claim c = JObj fs \<Longrightarrow>
   field fs ''phase'' = Some (JStr (phase_name (ocPhase c))) \<and>
   field fs ''execution'' = map_option encode_execution (ocExecution c) \<and>
   field fs ''submission'' = map_option encode_submission_intent (ocSubmission c) \<and>
   field fs ''claimTransactionSignature'' = map_option JStr (ocClaimTransactionSignature c) \<and>
   field fs ''revisionSubmissionCount'' = map_option (\<lambda>n. JInt (int n)) (ocRevisionSubmissionCount c) \<and>
   field fs ''task'' = Some (JStr (ocTask c)) \<and> field fs ''claimedAt'' = Some (JStr (ocClaimedAt c))"
  by (auto simp: encode_open_claim.simps simp del: map_of_append)

lemma openClaim_det:
  assumes "openClaim p (encode_open_claim a) label = Inr b"
  shows "b = a"
proof -
  obtain fs where fs: "encode_open_claim a = JObj fs" by (simp add: encode_open_claim.simps)
  note f = claim_fields [OF fs]
  have "ocExecution b = ocExecution a" "ocSubmission b = ocSubmission a"
    using assms f unfolding openClaim_iff fs json.inject
    by (auto dest!: optional_field_det intro: execution.enc_det intent.enc_det)
  moreover have "ocClaimTransactionSignature b = ocClaimTransactionSignature a"
    "ocRevisionSubmissionCount b = ocRevisionSubmissionCount a"
    using assms f unfolding openClaim_iff fs json.inject optionalSignature_iff revision_count_iff
    by (auto dest!: map_option_inj [rotated])
  ultimately show ?thesis
    using assms f unfolding openClaim_iff fs json.inject taskAddress_iff iso_iff
    by (cases a; cases b) auto
qed

interpretation claim: validating_codec encode_open_claim
  "\<lambda>v. openClaim p v label" "wf_claim p" for p label
  by unfold_locales (rule openClaim_encode, assumption, rule openClaim_ok, assumption, rule openClaim_det)

lemma opt_prop_own [simp]:
  "(if v \<noteq> None then v else None) = v" "(if v = None then None else v) = v"
  by simp_all

lemma bool_field_iff:
  "(case v of Some (JBool b) \<Rightarrow> Inr b | _ \<Rightarrow> Inl e) = Inr b \<longleftrightarrow> v = Some (JBool b)"
  by (auto split: option.splits json.splits)

lemma signature_field_iff:
  "(if sig = Some None then Inr None
    else bind_res (nonempty v label) (\<lambda>x. Inr (Some x))) = Inr y \<longleftrightarrow>
     (if sig = Some None then y = None else \<exists>x. y = Some x \<and> v = Some (JStr x) \<and> x \<noteq> [])"
  by (auto simp: bind_res_Inr_iff nonempty_iff)

lemma submissionRecord_iff:
  "submissionRecord p v label = Inr r \<longleftrightarrow>
     (\<exists>fs sig. v = JObj fs \<and>
       keys_ok fs [''task'', ''submissionSignature'', ''resultUri'', ''resultHashHex'', ''rewardAmount'',
          ''submittedAt'', ''settled'']
         [''outcome'', ''terminalEvidence'', ''earnedLamports'', ''settlementSignature'', ''settledAt''] \<and>
       field fs ''submissionSignature'' = map_option encode_nullable sig \<and>
       field fs ''settled'' = Some (JBool (srSettled r)) \<and>
       field fs ''outcome'' = map_option (\<lambda>x. JStr (outcome_name x)) (srOutcome r) \<and>
       field fs ''terminalEvidence''
         = map_option (\<lambda>_. JStr ''collaborative-straggler'') (srTerminalEvidence r) \<and>
       \<not> (srSettled r \<and> (srOutcome r = None \<or> field fs ''settledAt'' = None)) \<and>
       \<not> (\<not> srSettled r \<and> (srOutcome r \<noteq> None \<or> field fs ''earnedLamports'' \<noteq> None
          \<or> field fs ''settlementSignature'' \<noteq> None \<or> field fs ''settledAt'' \<noteq> None)) \<and>
       \<not> (srSettled r \<and> (field fs ''earnedLamports'' = None \<or> field fs ''settlementSignature'' = None)) \<and>
       field fs ''earnedLamports'' = map_option encode_nullable (srEarnedLamports r) \<and>
       (\<forall>e. srEarnedLamports r = Some (Some e) \<longrightarrow> is_decimal e) \<and>
       field fs ''settlementSignature'' = map_option encode_nullable (srSettlementSignature r) \<and>
       (\<forall>e. srSettlementSignature r = Some (Some e) \<longrightarrow> e \<noteq> []) \<and>
       taskAddress p (field fs ''task'') (label @ ''.task'') = Inr (srTask r) \<and>
       (if sig = Some None then srSubmissionSignature r = None
        else \<exists>x. srSubmissionSignature r = Some x \<and>
          field fs ''submissionSignature'' = Some (JStr x) \<and> x \<noteq> []) \<and>
       nonempty (field fs ''resultUri'') (label @ ''.resultUri'') = Inr (srResultUri r) \<and>
       hash_hex (field fs ''resultHashHex'') (label @ ''.resultHashHex'') = Inr (srResultHashHex r) \<and>
       decimal (field fs ''rewardAmount'') (label @ ''.rewardAmount'') = Inr (srRewardAmount r) \<and>
       iso p (field fs ''submittedAt'') (label @ ''.submittedAt'') = Inr (srSubmittedAt r) \<and>
       optional_field (field fs ''settledAt'') (\<lambda>j. iso p (Some j) (label @ ''.settledAt''))
         = Inr (srSettledAt r))"
  unfolding submissionRecord_def bind_res_Inr_iff guard_res_Inr_iff as_record_iff exactKeys_iff
    nullable_string_iff bool_field_iff outcome_field_iff evidence_field_iff has_prop_iff
    signature_field_iff [unfolded bind_res_Inr_iff]
  by (cases r) simp

lemma submissionRecord_ok: "submissionRecord p v label = Inr r \<Longrightarrow> wf_record p r"
  unfolding submissionRecord_iff wf_record_def taskAddress_iff nonempty_iff hash_hex_iff decimal_iff
    iso_iff optional_field_iff
  by (elim exE conjE, cases "srSettled r"; cases "srSettledAt r"; cases "srEarnedLamports r";
      cases "srSettlementSignature r")
    (simp_all split: if_splits, auto)

lemma record_fields:
  "field (record_entries r) ''submissionSignature'' = Some (encode_nullable (srSubmissionSignature r))"
  "field (record_entries r) ''settled'' = Some (JBool (srSettled r))"
  "field (record_entries r) ''outcome'' = map_option (\<lambda>x. JStr (outcome_name x)) (srOutcome r)"
  "field (record_entries r) ''terminalEvidence''
     = map_option (\<lambda>_. JStr ''collaborative-straggler'') (srTerminalEvidence r)"
  "field (record_entries r) ''earnedLamports'' = map_option encode_nullable (srEarnedLamports r)"
  "field (record_entries r) ''settlementSignature''
     = map_option encode_nullable (srSettlementSignature r)"
  "field (record_entries r) ''task'' = Some (JStr (srTask r))"
  "field (record_entries r) ''resultUri'' = Some (JStr (srResultUri r))"
  "field (record_entries r) ''resultHashHex'' = Some (JStr (srResultHashHex r))"
  "field (record_entries r) ''rewardAmount'' = Some (JStr (srRewardAmount r))"
  "field (record_entries r) ''submittedAt'' = Some (JStr (srSubmittedAt r))"
  "field (record_entries r) ''settledAt'' = map_option JStr (srSettledAt r)"
  by (simp_all add: record_entries_def del: map_of_append)

lemma record_keys:
  "keys_ok (record_entries r) [''task'', ''submissionSignature'', ''resultUri'', ''resultHashHex'',
      ''rewardAmount'', ''submittedAt'', ''settled'']
     [''outcome'', ''terminalEvidence'', ''earnedLamports'', ''settlementSignature'', ''settledAt'']"
  unfolding keys_ok_def record_entries_def map_append set_append keys_opt_prop by simp

lemma submissionRecord_encode:
  assumes "wf_record p r"
  shows "submissionRecord p (encode_record r) label = Inr r"
  using assms
  unfolding submissionRecord_iff encode_record.simps json.inject wf_record_def
  by (intro exI [of _ "record_entries r"] exI [of _ "Some (srSubmissionSignature r)"])
    (cases "srSettled r"; cases "srSubmissionSignature r"; cases "srSettledAt r";
     auto simp: record_fields record_keys taskAddress_iff nonempty_iff
          hash_hex_iff decimal_iff iso_iff optional_field_iff encode_nullable_def)

lemma submissionRecord_fields:
  assumes "submissionRecord p (JObj fs) label = Inr r"
  shows "field fs ''settled'' = Some (JBool (srSettled r))"
    "field fs ''outcome'' = map_option (\<lambda>x. JStr (outcome_name x)) (srOutcome r)"
    "field fs ''terminalEvidence'' = map_option (\<lambda>_. JStr ''collaborative-straggler'') (srTerminalEvidence r)"
    "field fs ''earnedLamports'' = map_option encode_nullable (srEarnedLamports r)"
    "field fs ''settlementSignature'' = map_option encode_nullable (srSettlementSignature r)"
    "taskAddress p (field fs ''task'') (label @ ''.task'') = Inr (srTask r)"
    "nonempty (field fs ''resultUri'') (label @ ''.resultUri'') = Inr (srResultUri r)"
    "hash_hex (field fs ''resultHashHex'') (label @ ''.resultHashHex'') = Inr (srResultHashHex r)"
    "decimal (field fs ''rewardAmount'') (label @ ''.rewardAmount'') = Inr (srRewardAmount r)"
    "iso p (field fs ''submittedAt'') (label @ ''.submittedAt'') = Inr (srSubmittedAt r)"
    "optional_field (field fs ''settledAt'') (\<lambda>j. iso p (Some j) (label @ ''.settledAt'')) = Inr (srSettledAt r)"
    "\<exists>sig. field fs ''submissionSignature'' = map_option encode_nullable sig \<and>
       (if sig = Some None then srSubmissionSignature r = None
        else \<exists>x. srSubmissionSignature r = Some x \<and> field fs ''submissionSignature'' = Some (JStr x) \<and> x \<noteq> [])"
  using assms unfolding submissionRecord_iff json.inject by blast+

lemma submissionRecord_det:
  assumes "submissionRecord p (encode_record a) label = Inr b"
  shows "b = a"
proof -
  note r = submissionRecord_fields [OF assms [unfolded encode_record.simps],
      unfolded record_fields taskAddress_iff nonempty_iff hash_hex_iff decimal_iff iso_iff option.inject json.inject]
  have "srOutcome a = srOutcome b" using r(2) by (rule map_option_inj [rotated]) simp
  moreover have "srTerminalEvidence a = srTerminalEvidence b"
    using r(3) by (rule map_option_inj [rotated]) (metis (full_types) terminal_evidence.exhaust)
  moreover have "srEarnedLamports a = srEarnedLamports b" using r(4) by (rule map_option_inj [rotated]) simp
  moreover have "srSettlementSignature a = srSettlementSignature b" using r(5) by (rule map_option_inj [rotated]) simp
  moreover have "srSettledAt b = srSettledAt a" using r(11) by (rule optional_field_det) (auto simp: iso_iff)
  moreover have "srSubmissionSignature b = srSubmissionSignature a"
    using r(12) by (cases "srSubmissionSignature a") (auto simp: encode_nullable_def split: if_splits)
  ultimately show ?thesis using r(1, 6-10) by (cases a; cases b) simp
qed

interpretation ledger_record: validating_codec encode_record
  "\<lambda>v. submissionRecord p v label" "wf_record p" for p label
  by unfold_locales
    (rule submissionRecord_encode, assumption, rule submissionRecord_ok, assumption, rule submissionRecord_det)

section \<open>The whole state\<close>

lemma ledger_ok:
  "list_all2 (\<lambda>x r. (case x of (i, j) \<Rightarrow> submissionRecord p j (submission_label i)) = Inr r) ijs rs \<Longrightarrow>
   list_all (wf_record p) rs"
  by (induction rule: list_all2_induct) (auto dest: ledger_record.dec_ok split: prod.splits)

lemma ledger_encode:
  "list_all (wf_record p) rs \<Longrightarrow>
   map_res (\<lambda>(i, j). submissionRecord p j (submission_label i))
     (List.enumerate n (map encode_record rs)) = Inr rs"
  by (induction rs arbitrary: n) (auto simp: ledger_record.dec_enc)

lemma distinct_card_iff: "card (set xs) = length xs \<longleftrightarrow> distinct xs"
  using card_distinct distinct_card by blast

lemma submissions_array_iff:
  "(case v of Some (JArr js) \<Rightarrow> Inr js | _ \<Rightarrow> Inl e) = Inr js \<longleftrightarrow> v = Some (JArr js)"
  by (auto split: option.splits json.splits)

lemma open_claim_field_iff:
  "(case v of Some JNull \<Rightarrow> Inr None | None \<Rightarrow> Inr None
     | Some j \<Rightarrow> bind_res (openClaim p j label) (\<lambda>c. Inr (Some c))) = Inr x \<longleftrightarrow>
   (x = None \<and> (v = None \<or> v = Some JNull)) \<or>
   (\<exists>j c. v = Some j \<and> j \<noteq> JNull \<and> x = Some c \<and> openClaim p j label = Inr c)"
  by (cases x) (auto simp: bind_res_Inr_iff split: option.splits json.splits)

lemma card_tasks_iff: "card (set (map srTask rs)) = length rs \<longleftrightarrow> distinct (map srTask rs)"
  using distinct_card_iff [of "map srTask rs"] by simp

lemma claim_not_in_ledger_iff:
  "\<not> (case c of None \<Rightarrow> False | Some c \<Rightarrow> list_ex (\<lambda>r. srTask r = ocTask c) rs) \<longleftrightarrow>
     (\<forall>x. c = Some x \<longrightarrow> ocTask x \<notin> set (map srTask rs))"
  by (cases c) (auto simp: list_ex_iff image_iff)

lemmas currentState_unfold = currentState_def bind_res_Inr_iff guard_res_Inr_iff as_record_iff
  exactKeys_iff nullable_string_iff submissions_array_iff open_claim_field_iff [unfolded bind_res_Inr_iff]
  map_res_Inr_iff card_tasks_iff claim_not_in_ledger_iff decimal_iff not_less

lemma currentState_ok: "currentState p v = Inr s \<Longrightarrow> valid_state p s"
  unfolding currentState_unfold valid_state_def ledger_tasks_def
  by (elim exE conjE, frule ledger_ok, drule list_all2_lengthD)
    (auto split: option.splits dest: openClaim_ok)

lemma encode_claim_not_null: "encode_open_claim c \<noteq> JNull"
  by (simp add: encode_open_claim.simps)

lemma exactKeys_Inr: "keys_ok fs required optional \<Longrightarrow> exactKeys fs label required optional = Inr ()"
  by (simp add: exactKeys_iff)

lemma nullable_string_encode:
  "nullable_string (Some (encode_nullable x)) (\<lambda>_. True) e = Inr (Some x)"
  by (simp add: nullable_string_iff)

lemma nat_not_less: "(n::nat) \<le> m \<Longrightarrow> \<not> m < n" by simp

lemma currentState_encode:
  assumes "valid_state p s"
  shows "currentState p (encode_state s) = Inr s"
proof -
  note v = assms [unfolded valid_state_def ledger_tasks_def]
  have agent: "case wsAgentIdHex s of None \<Rightarrow> True | Some a \<Rightarrow> is_hash_hex a"
    using v by (auto split: option.splits)
  have claim: "(case case wsOpenClaim s of None \<Rightarrow> JNull | Some x \<Rightarrow> encode_open_claim x of
        JNull \<Rightarrow> Inr None
      | j \<Rightarrow> bind_res (openClaim p j ''root.openClaim'') (\<lambda>c. Inr (Some c))) = Inr (wsOpenClaim s)"
  proof (cases "wsOpenClaim s")
    case (Some c)
    moreover obtain fs where "encode_open_claim c = JObj fs" by (simp add: encode_open_claim.simps)
    ultimately show ?thesis using v claim.dec_enc [of p c "''root.openClaim''"] by simp
  qed simp
  have fresh: "\<not> (case wsOpenClaim s of None \<Rightarrow> False
      | Some c \<Rightarrow> list_ex (\<lambda>r. srTask r = ocTask c) (wsSubmissions s))"
    using v unfolding claim_not_in_ledger_iff by auto
  show ?thesis
    using v agent fresh
    by (simp add: currentState_def encode_state.simps as_record_def exactKeys_Inr keys_ok_def
        nullable_string_encode ledger_encode claim nat_not_less decimal_def js_string_def
        card_tasks_iff [unfolded set_map] guard_res_def)
qed

lemma option_map_nullable_iff: "Some (encode_nullable x) = map_option encode_nullable y \<longleftrightarrow> y = Some x"
  by (cases y) auto

lemma ledger_det:
  "map_res (\<lambda>(i, j). submissionRecord p j (submission_label i)) (List.enumerate n (map encode_record rs))
     = Inr rs' \<Longrightarrow> rs' = rs"
  by (induction rs arbitrary: n rs') (auto simp: bind_res_Inr_iff dest: ledger_record.enc_det)

lemma currentState_det:
  assumes "currentState p (encode_state s) = Inr s'"
  shows "s' = s"
proof -
  have claim: "c' = c"
    if "(case case c of None \<Rightarrow> JNull | Some x \<Rightarrow> encode_open_claim x of
        JNull \<Rightarrow> Inr None
      | j \<Rightarrow> bind_res (openClaim p j ''root.openClaim'') (\<lambda>c. Inr (Some c))) = Inr c'" for c c'
  proof (cases c)
    case (Some x)
    moreover obtain fs where "encode_open_claim x = JObj fs" by (simp add: encode_open_claim.simps)
    ultimately show ?thesis using that claim.enc_det [of p x "''root.openClaim''"]
      by (auto simp: bind_res_Inr_iff)
  qed (use that in simp)
  show ?thesis
    using assms
    by (cases s; cases s')
      (auto simp: currentState_def encode_state.simps as_record_def bind_res_Inr_iff guard_res_Inr_iff
        nullable_string_iff decimal_iff option_map_nullable_iff dest!: claim ledger_det)
qed

interpretation state: validating_codec encode_state "currentState p" "valid_state p" for p
  by unfold_locales (rule currentState_encode, assumption, rule currentState_ok, assumption, rule currentState_det)

lemma emptyState_valid: "valid_state p emptyState"
  by (simp add: valid_state_def emptyState_def ledger_tasks_def unsettled_count_def count_if_def
      is_decimal_def is_digit_def)

section \<open>What the validator guarantees\<close>

text \<open>Reading back what was written gives the same state, and exactly the states that satisfy the
  structural invariant can be read back.\<close>

lemma state_reader_exact:
  "currentState p (encode_state s) = Inr s' \<longleftrightarrow> s' = s \<and> valid_state p s"
  by (rule state.dec_enc_cases)

text \<open>C11: whatever JSON value \<open>currentState\<close> accepts, the state it returns is well formed (intents match their
  phases and digests, tasks are unique, the claim is not in the ledger, the counters are bounded) and
  survives being written and read again.\<close>

theorem currentState_type:
  assumes "currentState p v = Inr s"
  shows "valid_state p s \<and> currentState p (encode_state s) = Inr s"
  using state.dec_ok [OF assms] state.reread [OF assms] by simp

theorem currentState_type_witness:
  "valid_state sample_platform emptyState \<and>
   currentState sample_platform (encode_state emptyState) = Inr emptyState"
  by (rule currentState_type [OF currentState_encode [OF emptyState_valid]])

end
