(* ===== verification/Pruning.thy ===== *)
theory Pruning
  imports StateCodec "HOL-Library.Sublist"
begin

text \<open>
  Pruning the settled part of the submission ledger (\<open>pruneSettledSubmissions\<close> of
  \<open>packages/agenc-worker/src/state.ts\<close>), which runs at every load and before every save:
  what it keeps, that it keeps the state invariant, and that it is idempotent.
\<close>

abbreviation unsettled :: "submission_record list \<Rightarrow> submission_record list" where
  "unsettled rs \<equiv> List.filter (\<lambda>r. \<not> srSettled r) rs"

abbreviation settled :: "submission_record list \<Rightarrow> submission_record list" where
  "settled rs \<equiv> List.filter srSettled rs"

section \<open>The filter\<close>

lemma subseq_subset: "subseq xs ys \<Longrightarrow> set xs \<subseteq> set ys"
  by (auto simp: subseq_conv_nths dest: in_set_nthsD)

lemma distinct_subseq: "subseq xs ys \<Longrightarrow> distinct ys \<Longrightarrow> distinct xs"
  by (auto simp: subseq_conv_nths)

lemma drop_settled_0 [simp]: "drop_settled 0 rs = rs"
  by (induction rs) auto

lemma drop_settled_unsettled [simp]: "unsettled (drop_settled k rs) = unsettled rs"
  by (induction k rs rule: drop_settled.induct) auto

lemma drop_settled_settled: "settled (drop_settled k rs) = drop k (settled rs)"
proof (induction k rs rule: drop_settled.induct)
  case (2 k r rs)
  then show ?case by (cases k) auto
qed simp

lemma drop_settled_subseq: "subseq (drop_settled k rs) rs"
  by (induction k rs rule: drop_settled.induct) auto

lemma drop_settled_set: "set (drop_settled k rs) \<subseteq> set rs"
  using drop_settled_subseq [of k rs] by (rule subseq_subset)

lemma drop_settled_distinct:
  "distinct (map f rs) \<Longrightarrow> distinct (map f (drop_settled k rs))"
  by (rule distinct_subseq [OF subseq_map [OF drop_settled_subseq]])

lemma drop_settled_unsettled_mem:
  "r \<in> set rs \<Longrightarrow> \<not> srSettled r \<Longrightarrow> r \<in> set (drop_settled k rs)"
  by (induction k rs rule: drop_settled.induct) auto

lemma count_unsettled: "unsettled_count rs = length (unsettled rs)"
  by (simp add: unsettled_count_def count_if_filter)

section \<open>The state\<close>

lemma pruned_unfold:
  "pruned s = s\<lparr>wsSubmissions :=
     drop_settled (length (settled (wsSubmissions s)) - SETTLED_SUBMISSION_RETENTION) (wsSubmissions s)\<rparr>"
  by (simp add: pruned_def pruneSettledSubmissions_def SETTLED_SUBMISSION_RETENTION_def Let_def
      count_if_filter nat_diff_distrib' guard_res_def bind_res_def)

lemma pruned_fields [simp]:
  "wsAgentIdHex (pruned s) = wsAgentIdHex s"
  "wsOpenClaim (pruned s) = wsOpenClaim s"
  "wsTotalEarnedBaseline (pruned s) = wsTotalEarnedBaseline s"
  "unsettled (wsSubmissions (pruned s)) = unsettled (wsSubmissions s)"
  by (simp_all add: pruned_unfold)

lemma pruned_subseq: "subseq (wsSubmissions (pruned s)) (wsSubmissions s)"
  by (simp add: pruned_unfold drop_settled_subseq)

lemma pruned_tasks: "set (ledger_tasks (pruned s)) \<subseteq> set (ledger_tasks s)"
  using subseq_subset [OF pruned_subseq [of s]] by (auto simp: ledger_tasks_def)

lemma pruned_settled:
  "settled (wsSubmissions (pruned s)) =
     drop (length (settled (wsSubmissions s)) - SETTLED_SUBMISSION_RETENTION) (settled (wsSubmissions s))"
  by (simp add: pruned_unfold drop_settled_settled)

lemma pruned_bound: "length (settled (wsSubmissions (pruned s))) \<le> SETTLED_SUBMISSION_RETENTION"
  by (simp add: pruned_settled)

lemma pruned_small:
  "length (settled (wsSubmissions s)) \<le> SETTLED_SUBMISSION_RETENTION \<Longrightarrow> pruned s = s"
  by (simp add: pruned_unfold)

lemma pruned_idem [simp]: "pruned (pruned s) = pruned s"
  by (rule pruned_small [OF pruned_bound])

lemma pruned_valid [intro]:
  assumes "valid_state p s"
  shows "valid_state p (pruned s)"
proof -
  have "length (wsSubmissions (pruned s)) \<le> length (wsSubmissions s)"
    by (rule list_emb_length [OF pruned_subseq])
  moreover have "list_all (wf_record p) (wsSubmissions (pruned s))"
    using assms subseq_subset [OF pruned_subseq [of s]] by (auto simp: valid_state_def list_all_iff)
  moreover have "distinct (ledger_tasks (pruned s))"
    using assms by (simp add: valid_state_def ledger_tasks_def pruned_unfold drop_settled_distinct)
  ultimately show ?thesis
    using assms pruned_tasks [of s] by (auto simp: valid_state_def count_unsettled)
qed

lemma pruned_unsettled_mem:
  "r \<in> set (wsSubmissions s) \<Longrightarrow> \<not> srSettled r \<Longrightarrow> r \<in> set (wsSubmissions (pruned s))"
  by (simp add: pruned_unfold drop_settled_unsettled_mem)

lemma prune_retention:
  assumes "0 \<le> n" "n \<le> 9007199254740991"
  shows "pruneSettledSubmissions s n =
     Inr (s\<lparr>wsSubmissions := drop_settled (length (settled (wsSubmissions s)) - nat n) (wsSubmissions s)\<rparr>,
          length (settled (wsSubmissions s)) - nat n)"
proof -
  let ?rs = "wsSubmissions s"
  let ?k = "length (settled ?rs) - nat n"
  have k: "nat (max 0 (int (count_if srSettled ?rs) - n)) = ?k"
    using assms by (simp add: count_if_filter max_def nat_diff_distrib')
  have split: "length rs = length (unsettled rs) + length (settled rs)"
    for rs :: "submission_record list"
    using sum_length_filter_compl [of srSettled rs] by simp
  have "length ?rs - length (drop_settled ?k ?rs) = ?k"
    using split [of ?rs] split [of "drop_settled ?k ?rs"] by (simp add: drop_settled_settled)
  then show ?thesis
    using assms by (simp add: pruneSettledSubmissions_def Let_def k)
qed

section \<open>Pruning as a whole\<close>

text \<open>C12: pruning keeps every unsettled record and the newest thousand settled ones, in their order, touches
  nothing else, preserves the invariant, and pruning again changes nothing.\<close>

theorem prune_ledger:
  assumes "valid_state p s"
  shows "valid_state p (pruned s) \<and> unsettled (wsSubmissions (pruned s)) = unsettled (wsSubmissions s) \<and>
    settled (wsSubmissions (pruned s)) =
      drop (length (settled (wsSubmissions s)) - SETTLED_SUBMISSION_RETENTION) (settled (wsSubmissions s)) \<and>
    subseq (wsSubmissions (pruned s)) (wsSubmissions s) \<and> wsOpenClaim (pruned s) = wsOpenClaim s \<and>
    wsTotalEarnedBaseline (pruned s) = wsTotalEarnedBaseline s \<and> pruned (pruned s) = pruned s"
  using pruned_valid [OF assms] by (simp add: pruned_settled pruned_subseq)

theorem prune_ledger_witness: "valid_state sample_platform (pruned emptyState)"
  using prune_ledger [OF emptyState_valid [of sample_platform]] by simp

text \<open>Pruning fails exactly for a retention that is negative or not a safe integer; otherwise it reports
  how many settled records it removed, the oldest ones.\<close>

lemma prune_count:
  "pruneSettledSubmissions s n =
     (if 0 \<le> n \<and> n \<le> 9007199254740991
      then Inr (s\<lparr>wsSubmissions := drop_settled (length (settled (wsSubmissions s)) - nat n) (wsSubmissions s)\<rparr>,
                length (settled (wsSubmissions s)) - nat n)
      else Inl (WorkerStateError ''settled submission retention must be a non-negative safe integer''))"
  by (simp add: prune_retention) (auto simp: pruneSettledSubmissions_def guard_res_def bind_res_def)

end
