(* ===== verification/WorkerEnv.thy ===== *)
theory WorkerEnv
  imports WorkerPolicy JobSpec ResultDelivery Pruning
begin

text \<open>
  The world the worker runtime (\<open>packages/agenc-worker/src/runtime.ts\<close>) acts on and the
  actions it is built from.  Every effect is one tick; an oracle of the environment answers for
  each tick what the outside gives: chain reads, transactions, the executor, the clock, faults of
  the file system, and whether the process dies there.  The durable part is the state file; the
  trace records the effects others can observe.
\<close>

section \<open>World\<close>

text \<open>The state file: missing, not JSON, or a JSON value with its size in bytes.\<close>

datatype disk = Absent | Unparsable | Stored json nat

datatype event =
    Saved worker_state
  | RegisterSent bytes
  | ClaimSent string bytes
  | ExecutorRun string string
  | UploadSent string string
  | SubmitSent string string

record world =
  w_disk :: disk
  w_tick :: nat
  w_trace :: "event list"

text \<open>An action ends by returning, by a thrown value, or with the death of the process.\<close>

datatype exn = Crash | Thrown worker_error

type_synonym 'a act = "world \<Rightarrow> (exn + 'a) \<times> world"

section \<open>Environment\<close>

datatype save_outcome = SaveOk | SaveFailBefore | SaveFailAfter

text \<open>A change-request envelope: task, role, and its canonical JSON.\<close>

record thread_envelope =
  teTaskPda :: string
  teRole :: string
  teCanonicalJson :: string

record env =
  e_platform :: platform
  e_chain :: chain
  e_config :: runtime_config
  e_signer :: string
  e_dry_run :: bool
  e_api_key :: string
  e_getBalance :: "(nat \<Rightarrow> int option res) option"
  e_getRent :: "(nat \<Rightarrow> nat \<Rightarrow> int option res) option"
  e_transport :: "(nat \<Rightarrow> string \<Rightarrow> bytes \<Rightarrow> thread_envelope res) option"
  e_findSettlement :: "(nat \<Rightarrow> string \<Rightarrow> string option res) option"
  e_locate :: "string \<Rightarrow> string option"
  e_help :: help_check
  o_crash :: "nat \<Rightarrow> bool"
  o_now :: "nat \<Rightarrow> int"
  o_load_fault :: "nat \<Rightarrow> bool"
  o_save :: "nat \<Rightarrow> save_outcome"
  o_agent_id :: "nat \<Rightarrow> bytes"
  o_agent :: "nat \<Rightarrow> string \<Rightarrow> agent_account option res"
  o_min_stake :: "nat \<Rightarrow> nat res"
  o_open_tasks :: "nat \<Rightarrow> (string \<times> task_account) list res"
  o_job_specs :: "nat \<Rightarrow> (string \<times> bytes \<times> string) list res"
  o_task :: "nat \<Rightarrow> string \<Rightarrow> task_account option res"
  o_claim :: "nat \<Rightarrow> string \<Rightarrow> claim_account option res"
  o_submission :: "nat \<Rightarrow> string \<Rightarrow> submission_account option res"
  o_hire :: "nat \<Rightarrow> string \<Rightarrow> hire_read res"
  o_job_spec :: "nat \<Rightarrow> string \<Rightarrow> task_job_spec option res"
  o_fetchers :: "nat \<Rightarrow> fetchers"
  o_register :: "nat \<Rightarrow> bytes \<Rightarrow> string res"
  o_claim_tx :: "nat \<Rightarrow> string \<Rightarrow> bytes \<Rightarrow> string res"
  o_submit_tx :: "nat \<Rightarrow> string \<Rightarrow> string \<Rightarrow> string res"
  o_spawn :: "nat \<Rightarrow> string \<Rightarrow> string list \<Rightarrow> child_event list"
  o_post :: "nat \<Rightarrow> string \<Rightarrow> bytes \<Rightarrow> string \<Rightarrow> upload_response res"

section \<open>Actions\<close>

definition returning :: "'a \<Rightarrow> 'a act" where
  "returning a = (\<lambda>w. (Inr a, w))"

definition throwing :: "worker_error \<Rightarrow> 'a act" where
  "throwing e = (\<lambda>w. (Inl (Thrown e), w))"

definition seq :: "'a act \<Rightarrow> ('a \<Rightarrow> 'b act) \<Rightarrow> 'b act" where
  "seq m f = (\<lambda>w. case m w of (Inl x, w') \<Rightarrow> (Inl x, w') | (Inr a, w') \<Rightarrow> f a w')"

text \<open>\<open>try { m } catch (e) { h(e) }\<close>: process death is not caught.\<close>

definition catching :: "'a act \<Rightarrow> (worker_error \<Rightarrow> 'a act) \<Rightarrow> 'a act" where
  "catching m h = (\<lambda>w. case m w of (Inl (Thrown e), w') \<Rightarrow> h e w' | r \<Rightarrow> r)"

text \<open>A block whose failure is turned into a value: \<open>try { x = m } catch (e) { .. return .. }\<close>.\<close>

definition attempt :: "'a act \<Rightarrow> 'a res act" where
  "attempt m = catching (seq m (\<lambda>a. returning (Inr a))) (\<lambda>e. returning (Inl e))"

definition lift_res :: "'a res \<Rightarrow> 'a act" where
  "lift_res r = (case r of Inl e \<Rightarrow> throwing e | Inr a \<Rightarrow> returning a)"

text \<open>One call to the outside: the process may die there, else the answer of that tick is used.\<close>

definition call :: "env \<Rightarrow> (nat \<Rightarrow> 'a res) \<Rightarrow> 'a act" where
  "call E f = (\<lambda>w. let t = w_tick w; w' = w\<lparr>w_tick := Suc t\<rparr> in
     if o_crash E t then (Inl Crash, w')
     else case f t of Inl e \<Rightarrow> (Inl (Thrown e), w') | Inr a \<Rightarrow> (Inr a, w'))"

definition emit :: "event \<Rightarrow> unit act" where
  "emit ev = (\<lambda>w. (Inr (), w\<lparr>w_trace := w_trace w @ [ev]\<rparr>))"

text \<open>
  An observable effect: the process may die before it, or after it and before its answer arrives.
\<close>

definition effect :: "env \<Rightarrow> event \<Rightarrow> (nat \<Rightarrow> 'a res) \<Rightarrow> 'a act" where
  "effect E ev f = seq (call E (\<lambda>_. Inr ())) (\<lambda>_. seq (emit ev) (\<lambda>_. call E f))"

definition now_ms :: "env \<Rightarrow> int act" where
  "now_ms E = call E (\<lambda>t. Inr (o_now E t))"

text \<open>\<open>new Date().toISOString()\<close>.\<close>

definition now_iso :: "env \<Rightarrow> string act" where
  "now_iso E = seq (now_ms E) (\<lambda>t. returning (to_iso (e_platform E) t))"

section \<open>The state file\<close>

definition too_large :: worker_error where
  "too_large = WorkerStateError ''worker state exceeds the byte limit''"

text \<open>What \<open>loadState\<close> reads from a directory that passes the ownership and link checks.\<close>

definition load_disk :: "platform \<Rightarrow> disk \<Rightarrow> worker_state res" where
  "load_disk p d = (case d of
      Absent \<Rightarrow> Inr emptyState
    | Unparsable \<Rightarrow> Inl (WorkerStateError ''invalid worker state JSON'')
    | Stored v n \<Rightarrow>
        bind_res (guard_res (\<not> n > MAX_WORKER_STATE_BYTES) too_large) (\<lambda>_.
        bind_res (as_record v ''root'') (\<lambda>fs.
        bind_res (if has_prop fs ''version'' then currentState p (JObj fs) else migrateLegacyState p (JObj fs))
          (\<lambda>s. Inr (pruned s)))))"

definition loadState :: "env \<Rightarrow> worker_state act" where
  "loadState E = (\<lambda>w. call E (\<lambda>t.
     if o_load_fault E t then Inl (WorkerStateError ''worker state directory is unsafe'')
     else load_disk (e_platform E) (w_disk w)) w)"

definition serialized_size :: "worker_state \<Rightarrow> nat" where
  "serialized_size s = length (json_print 0 (encode_state s)) + 1"

text \<open>
  The rename is the commit point: a fault before it leaves the old file, a fault after it (the
  directory \<open>fsync\<close>) is thrown although the new file is in place.
\<close>

definition saveState :: "env \<Rightarrow> worker_state \<Rightarrow> unit act" where
  "saveState E s =
     seq (lift_res (currentState (e_platform E) (encode_state s))) (\<lambda>validated.
     let kept = pruned validated in
     seq (lift_res (guard_res (\<not> serialized_size kept > MAX_WORKER_STATE_BYTES) too_large)) (\<lambda>_.
     seq (call E (\<lambda>t. Inr (o_save E t))) (\<lambda>outcome.
     (\<lambda>w. case outcome of
        SaveFailBefore \<Rightarrow> (Inl (Thrown (PlainError ''write failed'')), w)
      | SaveFailAfter \<Rightarrow> (Inl (Thrown (PlainError ''fsync failed'')),
          w\<lparr>w_disk := Stored (encode_state kept) (serialized_size kept), w_trace := w_trace w @ [Saved kept]\<rparr>)
      | SaveOk \<Rightarrow> (Inr (),
          w\<lparr>w_disk := Stored (encode_state kept) (serialized_size kept), w_trace := w_trace w @ [Saved kept]\<rparr>)))))"

definition durable :: "env \<Rightarrow> world \<Rightarrow> worker_state res" where
  "durable E w = load_disk (e_platform E) (w_disk w)"

section \<open>The interface of the durable store\<close>

text \<open>
  What the runtime relies on: a load gives the durable state, which is well formed, and changes
  nothing; a save either changes nothing and throws or crashes, or makes the pruned state durable.
\<close>

locale durable_store =
  fixes view :: "world \<Rightarrow> worker_state res"
    and load :: "worker_state act"
    and save :: "worker_state \<Rightarrow> unit act"
    and good :: "worker_state \<Rightarrow> bool"
  assumes load_law: "load w = (r, w') \<Longrightarrow> view w' = view w \<and> w_trace w' = w_trace w \<and>
      (\<forall>s. r = Inr s \<longrightarrow> view w = Inr s \<and> good s)"
    and save_law: "save new v = (ended, v') \<Longrightarrow>
      (view v' = view v \<and> w_trace v' = w_trace v \<and> ended \<noteq> Inr ()) \<or>
      (good new \<and> view v' = Inr (pruned new) \<and> w_trace v' = w_trace v @ [Saved (pruned new)] \<and>
       ended \<noteq> Inl Crash)"
begin

lemma load_good: "load w = (Inr s, w') \<Longrightarrow> good s"
  using load_law by blast

text \<open>Reading back a completed save.\<close>

lemma save_then_load:
  assumes "seq (save s) (\<lambda>_. load) w = (Inr s', w')"
  shows "s' = pruned s"
proof -
  obtain r w1 where s1: "save s w = (r, w1)" by fastforce
  with assms have r: "r = Inr ()" and l: "load w1 = (Inr s', w')"
    by (auto simp: seq_def split: sum.splits)
  have "view w1 = Inr (pruned s)" using save_law [OF s1] r by simp
  with load_law [OF l] show ?thesis by auto
qed

text \<open>Two loads with no save between them agree.\<close>

lemma load_twice:
  assumes "load w = (Inr a, w1)" "load w1 = (Inr b, w2)"
  shows "a = b"
  using load_law [OF assms(1)] load_law [OF assms(2)] by auto

end

lemma load_disk_valid: "load_disk p d = Inr s \<Longrightarrow> valid_state p s"
proof (cases d)
  case (Stored v n)
  assume "load_disk p d = Inr s"
  then obtain fs s0 where "(if has_prop fs ''version'' then currentState p (JObj fs)
      else migrateLegacyState p (JObj fs)) = Inr s0" "s = pruned s0"
    using Stored by (auto simp: load_disk_def bind_res_Inr_iff)
  moreover have "valid_state p s0" if "migrateLegacyState p j = Inr s0" for j
    using that by (auto simp: migrateLegacyState_def bind_res_Inr_iff dest: currentState_ok)
  ultimately show ?thesis by (auto dest: currentState_ok split: if_splits)
qed (auto simp: load_disk_def emptyState_valid)

lemma load_disk_stored:
  assumes "valid_state p s" "serialized_size (pruned s) \<le> MAX_WORKER_STATE_BYTES"
  shows "load_disk p (Stored (encode_state (pruned s)) (serialized_size (pruned s))) = Inr (pruned s)"
proof -
  obtain fs where fs: "encode_state (pruned s) = JObj fs" "has_prop fs ''version''"
    by (simp add: encode_state.simps has_prop_def)
  have "currentState p (JObj fs) = Inr (pruned s)"
    using currentState_encode [OF pruned_valid [OF assms(1)]] fs(1) by simp
  with fs assms(2) show ?thesis by (simp add: load_disk_def as_record_def)
qed

lemma loadState_law:
  assumes "loadState E w = (r, w')"
  shows "durable E w' = durable E w \<and> w_trace w' = w_trace w \<and>
    (\<forall>s. r = Inr s \<longrightarrow> durable E w = Inr s \<and> valid_state (e_platform E) s)"
  using assms
  by (auto simp: loadState_def call_def Let_def durable_def split: if_splits sum.splits dest: load_disk_valid)

lemma saveState_law:
  assumes "saveState E s w = (r, w')"
  shows "(durable E w' = durable E w \<and> w_trace w' = w_trace w \<and> r \<noteq> Inr ()) \<or>
    (valid_state (e_platform E) s \<and> durable E w' = Inr (pruned s) \<and>
     w_trace w' = w_trace w @ [Saved (pruned s)] \<and> r \<noteq> Inl Crash)"
proof (cases "currentState (e_platform E) (encode_state s)")
  case (Inl e)
  with assms show ?thesis by (auto simp: saveState_def lift_res_def seq_def throwing_def)
next
  case (Inr v)
  then have v: "v = s" "valid_state (e_platform E) s"
    using state.enc_det state.dec_ok by blast+
  show ?thesis
  proof (cases "serialized_size (pruned s) \<le> MAX_WORKER_STATE_BYTES")
    case False
    with assms Inr v show ?thesis by (auto simp: saveState_def lift_res_def seq_def throwing_def returning_def Let_def)
  next
    case True
    then have stored: "durable E (w\<lparr>w_disk := Stored (encode_state (pruned s)) (serialized_size (pruned s)),
        w_trace := t, w_tick := n\<rparr>) = Inr (pruned s)" for w t n
      using load_disk_stored [OF v(2)] by (simp add: durable_def)
    have "durable E (w\<lparr>w_tick := n\<rparr>) = durable E w" for n by (simp add: durable_def)
    with assms Inr v True load_disk_stored [OF v(2) True] show ?thesis
      by (auto simp: saveState_def lift_res_def seq_def throwing_def returning_def Let_def call_def durable_def
          split: if_splits save_outcome.splits)
  qed
qed

interpretation store: durable_store "durable E" "loadState E" "saveState E" "valid_state (e_platform E)" for E
  by unfold_locales (blast dest: loadState_law, blast dest: saveState_law)

end
