(* ===== verification/Guarantee.thy ===== *)
theory Guarantee
  imports WorkerEnv
begin

text \<open>
  Reasoning about actions.  A triple says that from a durable state satisfying \<open>P\<close> an action
  leaves a trace each of whose events is allowed by the step relation \<open>G\<close> at the durable state it
  was emitted in, and ends in a durable state satisfying \<open>Q\<close> when it returns and \<open>X\<close> when it throws;
  process death leaves the trace allowed so far.  The rules for \<open>load\<close> and \<open>save\<close> rest on the laws
  of the durable store only.
\<close>

section \<open>Allowed traces\<close>

inductive path :: "('s \<Rightarrow> 'e \<Rightarrow> 's \<Rightarrow> bool) \<Rightarrow> 's \<Rightarrow> 'e list \<Rightarrow> 's \<Rightarrow> bool" for G where
  nil: "path G s [] s"
| cons: "G s ev s' \<Longrightarrow> path G s' evs s'' \<Longrightarrow> path G s (ev # evs) s''"

inductive_cases path_NilE: "path G s [] s'"
inductive_cases path_ConsE: "path G s (ev # evs) s'"

inductive_simps path_Nil [simp]: "path G s [] s'"
inductive_simps path_Cons: "path G s (ev # evs) s'"

lemma path_append: "path G s xs s' \<Longrightarrow> path G s' ys s'' \<Longrightarrow> path G s (xs @ ys) s''"
  by (induction rule: path.induct) (auto intro: path.cons)

lemma path_split:
  "path G s (xs @ ys) s'' \<Longrightarrow> \<exists>s'. path G s xs s' \<and> path G s' ys s''"
  by (induction xs arbitrary: s) (auto simp: path_Cons, blast)

lemma path_snoc: "path G s xs s' \<Longrightarrow> G s' ev s'' \<Longrightarrow> path G s (xs @ [ev]) s''"
  using path_append [of G s xs s' "[ev]" s''] by (auto intro: path.intros)

lemma path_mono: "path G s xs s' \<Longrightarrow> (\<And>a ev b. G a ev b \<Longrightarrow> H a ev b) \<Longrightarrow> path H s xs s'"
  by (induction rule: path.induct) (auto intro: path.intros)

text \<open>A property every step keeps holds at the end, and at each event.\<close>

lemma path_invariant:
  assumes "path G s xs s'" "J s" "\<And>a ev b. G a ev b \<Longrightarrow> J a \<Longrightarrow> J b"
  shows "J s'"
  using assms by (induction rule: path.induct) auto

lemma path_events:
  assumes "path G s xs s'" "J s" "\<And>a ev b. G a ev b \<Longrightarrow> J a \<Longrightarrow> J b \<and> K ev"
  shows "list_all K xs"
  using assms by (induction rule: path.induct) auto

lemma path_at:
  assumes "path G s xs s'" "ev \<in> set xs"
  shows "\<exists>ys zs a b. xs = ys @ ev # zs \<and> path G s ys a \<and> G a ev b \<and> path G b zs s'"
proof -
  obtain ys zs where xs: "xs = ys @ ev # zs" using assms(2) by (metis split_list)
  then obtain a where "path G s ys a" "path G a (ev # zs) s'"
    using assms(1) path_split [of G s ys "ev # zs" s'] by auto
  with xs show ?thesis by (auto simp: path_Cons)
qed

section \<open>Triples\<close>

definition ended :: "('a \<Rightarrow> 's \<Rightarrow> bool) \<Rightarrow> (worker_error \<Rightarrow> 's \<Rightarrow> bool) \<Rightarrow> exn + 'a \<Rightarrow> 's \<Rightarrow> bool" where
  "ended Q X r s = (case r of Inr a \<Rightarrow> Q a s | Inl Crash \<Rightarrow> True | Inl (Thrown e) \<Rightarrow> X e s)"

lemma ended_simps [simp]:
  "ended Q X (Inr a) s = Q a s"
  "ended Q X (Inl Crash) s"
  "ended Q X (Inl (Thrown e)) s = X e s"
  by (simp_all add: ended_def)

definition triple ::
  "(world \<Rightarrow> worker_state res) \<Rightarrow> (worker_state \<Rightarrow> event \<Rightarrow> worker_state \<Rightarrow> bool) \<Rightarrow>
   (worker_state \<Rightarrow> bool) \<Rightarrow> 'a act \<Rightarrow> ('a \<Rightarrow> worker_state \<Rightarrow> bool) \<Rightarrow>
   (worker_error \<Rightarrow> worker_state \<Rightarrow> bool) \<Rightarrow> bool" where
  "triple view G P m Q X \<longleftrightarrow> (\<forall>w s r w'. view w = Inr s \<and> P s \<and> m w = (r, w') \<longrightarrow>
     (\<exists>evs s'. view w' = Inr s' \<and> w_trace w' = w_trace w @ evs \<and> path G s evs s' \<and> ended Q X r s'))"

lemma tripleI:
  assumes "\<And>w s r w'. view w = Inr s \<Longrightarrow> P s \<Longrightarrow> m w = (r, w') \<Longrightarrow>
     \<exists>evs s'. view w' = Inr s' \<and> w_trace w' = w_trace w @ evs \<and> path G s evs s' \<and> ended Q X r s'"
  shows "triple view G P m Q X"
  using assms unfolding triple_def by blast

lemma tripleD:
  assumes "triple view G P m Q X" "view w = Inr s" "P s" "m w = (r, w')"
  obtains evs s' where "view w' = Inr s'" "w_trace w' = w_trace w @ evs" "path G s evs s'" "ended Q X r s'"
  using assms unfolding triple_def by blast

lemma triple_conseq:
  assumes "triple view G P' m Q' X'" "\<And>s. P s \<Longrightarrow> P' s" "\<And>a s. Q' a s \<Longrightarrow> Q a s" "\<And>e s. X' e s \<Longrightarrow> X e s"
  shows "triple view G P m Q X"
proof (rule tripleI)
  fix w s r w'
  assume "view w = Inr s" "P s" "m w = (r, w')"
  then obtain evs s' where "view w' = Inr s'" "w_trace w' = w_trace w @ evs" "path G s evs s'"
    "ended Q' X' r s'"
    using assms(2) by (blast intro: tripleD [OF assms(1)])
  moreover from this(4) have "ended Q X r s'"
    using assms(3, 4) by (auto simp: ended_def split: sum.splits exn.splits)
  ultimately show "\<exists>evs s'. view w' = Inr s' \<and> w_trace w' = w_trace w @ evs \<and> path G s evs s' \<and> ended Q X r s'"
    by blast
qed

lemma triple_pre: "triple view G P' m Q X \<Longrightarrow> (\<And>s. P s \<Longrightarrow> P' s) \<Longrightarrow> triple view G P m Q X"
  by (rule triple_conseq)

lemma triple_post:
  "triple view G P m Q' X' \<Longrightarrow> (\<And>a s. Q' a s \<Longrightarrow> Q a s) \<Longrightarrow> (\<And>e s. X' e s \<Longrightarrow> X e s) \<Longrightarrow>
   triple view G P m Q X"
  by (rule triple_conseq)

lemma triple_fix: "(\<And>s. P s \<Longrightarrow> triple view G (\<lambda>s'. s' = s) m Q X) \<Longrightarrow> triple view G P m Q X"
  unfolding triple_def by blast

lemma triple_returning: "(\<And>s. P s \<Longrightarrow> Q a s) \<Longrightarrow> triple view G P (returning a) Q X"
  by (rule tripleI) (auto simp: returning_def)

lemma triple_throwing: "(\<And>s. P s \<Longrightarrow> X e s) \<Longrightarrow> triple view G P (throwing e) Q X"
  by (rule tripleI) (auto simp: throwing_def)

lemma triple_dying: "triple view G P (\<lambda>w. (Inl Crash, w)) Q X"
  by (rule tripleI) auto

lemma triple_if:
  "(b \<Longrightarrow> triple view G P m Q X) \<Longrightarrow> (\<not> b \<Longrightarrow> triple view G P m' Q X) \<Longrightarrow>
   triple view G P (if b then m else m') Q X"
  by simp

lemma triple_lift_res:
  "(\<And>a s. r = Inr a \<Longrightarrow> P s \<Longrightarrow> Q a s) \<Longrightarrow> (\<And>e s. r = Inl e \<Longrightarrow> P s \<Longrightarrow> X e s) \<Longrightarrow>
   triple view G P (lift_res r) Q X"
  by (auto simp: lift_res_def intro: triple_returning triple_throwing split: sum.splits)

lemma triple_seq:
  assumes m: "triple view G P m R X" and f: "\<And>a. triple view G (R a) (f a) Q X"
  shows "triple view G P (seq m f) Q X"
proof (rule tripleI)
  fix w s r w'
  assume w: "view w = Inr s" "P s" "seq m f w = (r, w')"
  obtain r1 w1 where m1: "m w = (r1, w1)" by fastforce
  obtain evs s1 where s1: "view w1 = Inr s1" "w_trace w1 = w_trace w @ evs" "path G s evs s1" "ended R X r1 s1"
    by (rule tripleD [OF m w(1, 2) m1])
  show "\<exists>evs s'. view w' = Inr s' \<and> w_trace w' = w_trace w @ evs \<and> path G s evs s' \<and> ended Q X r s'"
  proof (cases r1)
    case (Inl x)
    then have "r = Inl x" "w' = w1" using w(3) m1 by (simp_all add: seq_def)
    with s1 Inl show ?thesis by (cases x) auto
  next
    case (Inr a)
    then have "f a w1 = (r, w')" "R a s1" using w(3) m1 s1(4) by (simp_all add: seq_def)
    then obtain evs' s' where "view w' = Inr s'" "w_trace w' = w_trace w1 @ evs'" "path G s1 evs' s'"
      "ended Q X r s'"
      by (blast intro: tripleD [OF f s1(1)])
    with s1 show ?thesis by (auto intro: path_append)
  qed
qed

lemma triple_catching:
  assumes m: "triple view G P m Q Y" and h: "\<And>e. triple view G (Y e) (h e) Q X"
  shows "triple view G P (catching m h) Q X"
proof (rule tripleI)
  fix w s r w'
  assume w: "view w = Inr s" "P s" "catching m h w = (r, w')"
  obtain r1 w1 where m1: "m w = (r1, w1)" by fastforce
  obtain evs s1 where s1: "view w1 = Inr s1" "w_trace w1 = w_trace w @ evs" "path G s evs s1" "ended Q Y r1 s1"
    by (rule tripleD [OF m w(1, 2) m1])
  show "\<exists>evs s'. view w' = Inr s' \<and> w_trace w' = w_trace w @ evs \<and> path G s evs s' \<and> ended Q X r s'"
  proof (cases "\<exists>e. r1 = Inl (Thrown e)")
    case True
    then obtain e where e: "r1 = Inl (Thrown e)" ..
    then have "h e w1 = (r, w')" "Y e s1" using w(3) m1 s1(4) by (simp_all add: catching_def)
    then obtain evs' s' where "view w' = Inr s'" "w_trace w' = w_trace w1 @ evs'" "path G s1 evs' s'"
      "ended Q X r s'"
      by (blast intro: tripleD [OF h s1(1)])
    with s1 show ?thesis by (auto intro: path_append)
  next
    case False
    then have "r = r1" "w' = w1"
      using w(3) m1 by (auto simp: catching_def split: sum.splits exn.splits)
    moreover have "ended Q X r1 s1"
      using False s1(4) by (auto simp: ended_def split: sum.splits exn.splits)
    ultimately show ?thesis using s1 by auto
  qed
qed

lemma triple_attempt:
  assumes "triple view G P m (\<lambda>a. Q (Inr a)) (\<lambda>e. Q (Inl e))"
  shows "triple view G P (attempt m) Q X"
  unfolding attempt_def
  by (rule triple_catching [where Y = "\<lambda>e. Q (Inl e)"], rule triple_seq [OF assms])
    (auto intro: triple_returning)

section \<open>Rules of the store\<close>

text \<open>A store whose view changes only by its own operations.\<close>

locale guarded_store = durable_store +
  assumes view_tick [simp]: "view (w\<lparr>w_tick := n\<rparr>) = view w"
    and view_trace [simp]: "view (w\<lparr>w_trace := tr\<rparr>) = view w"
begin

lemma triple_call:
  assumes "\<And>t a s. f t = Inr a \<Longrightarrow> P s \<Longrightarrow> Q a s" "\<And>e s. P s \<Longrightarrow> X e s"
  shows "triple view G P (call E f) Q X"
  by (rule tripleI) (use assms in \<open>auto simp: call_def Let_def split: if_splits sum.splits\<close>)

lemma triple_emit:
  assumes "\<And>s. P s \<Longrightarrow> G s ev s"
  shows "triple view G P (emit ev) (\<lambda>_. P) X"
  by (rule tripleI) (use assms in \<open>auto simp: emit_def intro!: path.intros\<close>)

lemma triple_effect:
  assumes "\<And>s. P s \<Longrightarrow> G s ev s" "\<And>t a s. f t = Inr a \<Longrightarrow> P s \<Longrightarrow> Q a s" "\<And>e s. P s \<Longrightarrow> X e s"
  shows "triple view G P (effect E ev f) Q X"
  unfolding effect_def
  by (intro triple_seq [where R = "\<lambda>_. P"] triple_call triple_emit) (use assms in auto)

lemma triple_load_seq:
  assumes "\<And>s. P s \<Longrightarrow> good s \<Longrightarrow> triple view G (\<lambda>s'. s' = s) (f s) Q X" "\<And>e s. P s \<Longrightarrow> X e s"
  shows "triple view G P (seq load f) Q X"
proof (rule triple_fix)
  fix s assume P: "P s"
  have "triple view G (\<lambda>s'. s' = s) load (\<lambda>a s'. s' = s \<and> a = s \<and> good s) X"
    by (rule tripleI, frule load_law) (use assms(2) P in \<open>auto simp: ended_def split: sum.splits exn.splits\<close>)
  moreover have "triple view G (\<lambda>s'. s' = s \<and> a = s \<and> good s) (f a) Q X" for a
    by (rule triple_fix) (use assms(1) P in auto)
  ultimately show "triple view G (\<lambda>s'. s' = s) (seq load f) Q X" by (rule triple_seq)
qed

lemma triple_save:
  assumes "\<And>s. P s \<Longrightarrow> good new \<Longrightarrow> G s (Saved (pruned new)) (pruned new)"
    "good new \<Longrightarrow> Q () (pruned new)" "\<And>e s. P s \<Longrightarrow> X e s" "\<And>e. good new \<Longrightarrow> X e (pruned new)"
  shows "triple view G P (save new) Q X"
proof (rule tripleI)
  fix w s r w'
  assume w: "view w = Inr s" "P s" "save new w = (r, w')"
  from save_law [OF w(3)]
  show "\<exists>evs s'. view w' = Inr s' \<and> w_trace w' = w_trace w @ evs \<and> path G s evs s' \<and> ended Q X r s'"
  proof
    assume "view w' = view w \<and> w_trace w' = w_trace w \<and> r \<noteq> Inr ()"
    moreover from this have "ended Q X r s"
      using assms(3) w(2) by (auto simp: ended_def split: sum.splits exn.splits)
    ultimately show ?thesis using w(1) by (intro exI [of _ "[]"] exI [of _ s]) simp
  next
    assume saved: "good new \<and> view w' = Inr (pruned new) \<and> w_trace w' = w_trace w @ [Saved (pruned new)] \<and>
       r \<noteq> Inl Crash"
    then have "ended Q X r (pruned new)"
      using assms(2, 4) by (auto simp: ended_def split: sum.splits exn.splits)
    moreover have "path G s [Saved (pruned new)] (pruned new)"
      using assms(1) w(2) saved by (auto simp: path_Cons)
    ultimately show ?thesis using saved by blast
  qed
qed

lemma triple_save_seq:
  assumes "\<And>s. P s \<Longrightarrow> good new \<Longrightarrow> G s (Saved (pruned new)) (pruned new)"
    "good new \<Longrightarrow> triple view G (\<lambda>s. s = pruned new) (f ()) Q X"
    "\<And>e s. P s \<Longrightarrow> X e s" "\<And>e. good new \<Longrightarrow> X e (pruned new)"
  shows "triple view G P (seq (save new) f) Q X"
proof (cases "good new")
  case True
  have "triple view G P (save new) (\<lambda>_ s. s = pruned new) X"
    by (rule triple_save) (use assms in auto)
  then show ?thesis by (rule triple_seq) (use assms(2) True in simp)
next
  case False
  have "triple view G P (save new) (\<lambda>_ _. False) X"
    by (rule triple_save) (use False assms in auto)
  then show ?thesis by (rule triple_seq) (simp add: triple_def)
qed

lemma triple_call_seq:
  assumes "\<And>t a. f t = Inr a \<Longrightarrow> triple view G P (g a) Q X" "\<And>e s. P s \<Longrightarrow> X e s"
  shows "triple view G P (seq (call E f) g) Q X"
proof (rule triple_seq)
  show "triple view G P (call E f) (\<lambda>a s. P s \<and> (\<exists>t. f t = Inr a)) X"
    by (rule triple_call) (use assms in auto)
  show "triple view G (\<lambda>s. P s \<and> (\<exists>t. f t = Inr a)) (g a) Q X" for a
    by (rule triple_fix) (use assms(1) in \<open>auto intro: triple_pre\<close>)
qed

end

interpretation guarded: guarded_store "durable E" "loadState E" "saveState E" "valid_state (e_platform E)" for E
  by unfold_locales (simp_all add: durable_def)

end
