(* ===== verification/Redact.thy ===== *)
theory Redact
  imports Web
begin

text \<open>
  Secret-safe error formatting (\<open>packages/agenc-worker/src/redact.ts\<close>): everything from the
  first URL-shaped scheme of a diagnostic to its end is replaced by a URL without
  credentials, path, query and fragment, or by a constant.
\<close>

definition MAX_DIAGNOSTIC_URL_CHARS :: nat where "MAX_DIAGNOSTIC_URL_CHARS = 8192"
definition UNPARSEABLE_URL_REDACTION :: string where "UNPARSEABLE_URL_REDACTION = ''[REDACTED_URL]''"

definition WHATWG_SPECIAL_SCHEMES :: "string list" where
  "WHATWG_SPECIAL_SCHEMES = [''file'', ''ftp'', ''http'', ''https'', ''ws'', ''wss'']"

definition isAsciiLetter :: "char \<Rightarrow> bool" where
  "isAsciiLetter c \<longleftrightarrow> (let code = of_char c :: nat in
     (65 \<le> code \<and> code \<le> 90) \<or> (97 \<le> code \<and> code \<le> 122))"

definition isSchemeCharacter :: "char \<Rightarrow> bool" where
  "isSchemeCharacter c \<longleftrightarrow> (let code = of_char c :: nat in
     (65 \<le> code \<and> code \<le> 90) \<or> (97 \<le> code \<and> code \<le> 122) \<or> (48 \<le> code \<and> code \<le> 57) \<or>
     code = 43 \<or> code = 45 \<or> code = 46)"

definition to_lower :: "string \<Rightarrow> string" where
  "to_lower s = map (\<lambda>c. if 65 \<le> (of_char c :: nat) \<and> (of_char c :: nat) \<le> 90
     then char_of ((of_char c :: nat) + 32) else c) s"

definition redact_segment :: "string \<Rightarrow> string" where
  "redact_segment segment = (if segment = [] then [] else ''REDACTED'')"

definition redact_fields :: "url \<Rightarrow> url" where
  "redact_fields u =
     (let u1 = (if u_username u \<noteq> [] \<or> u_password u \<noteq> []
                then u\<lparr>u_username := ''REDACTED'', u_password := ''REDACTED''\<rparr> else u);
          u2 = (if u_pathname u1 \<noteq> ''/'' \<and> u_pathname u1 \<noteq> []
                then u1\<lparr>u_pathname := join_with ''/'' (map redact_segment (split_on (CHR ''/'') (u_pathname u1)))\<rparr>
                else u1);
          u3 = (if u_search u2 \<noteq> [] then u2\<lparr>u_search := ''?REDACTED''\<rparr> else u2)
      in (if u_hash u3 \<noteq> [] then u3\<lparr>u_hash := ''#REDACTED''\<rparr> else u3))"

definition redactUrl :: "(string \<Rightarrow> url option) \<Rightarrow> string \<Rightarrow> string" where
  "redactUrl parse raw =
     (if utf16_length raw > MAX_DIAGNOSTIC_URL_CHARS then UNPARSEABLE_URL_REDACTION
      else case parse raw of None \<Rightarrow> UNPARSEABLE_URL_REDACTION | Some u \<Rightarrow> url_href (redact_fields u))"

text \<open>\<open>msg.indexOf(":", from)\<close>.\<close>

definition indexOf :: "char \<Rightarrow> string \<Rightarrow> nat \<Rightarrow> nat option" where
  "indexOf c msg from = List.find (\<lambda>i. msg ! i = c) [from..<length msg]"

text \<open>The two inner loops that place the start of the scheme.\<close>

fun scheme_back :: "string \<Rightarrow> nat \<Rightarrow> nat \<Rightarrow> nat" where
  "scheme_back msg copiedUntil start =
     (if start > copiedUntil \<and> isSchemeCharacter (msg ! (start - 1))
      then scheme_back msg copiedUntil (start - 1) else start)"

function scheme_forward :: "string \<Rightarrow> nat \<Rightarrow> nat \<Rightarrow> nat" where
  "scheme_forward msg start separator =
     (if start < separator \<and> \<not> isAsciiLetter (msg ! start)
      then scheme_forward msg (start + 1) separator else start)"
  by auto
termination by (relation "measure (\<lambda>(_, start, separator). separator - start)") auto

declare scheme_back.simps [simp del] scheme_forward.simps [simp del]

definition scheme_start :: "string \<Rightarrow> nat \<Rightarrow> nat \<Rightarrow> nat" where
  "scheme_start msg copiedUntil separator =
     scheme_forward msg (scheme_back msg copiedUntil separator) separator"

definition scheme_at :: "string \<Rightarrow> nat \<Rightarrow> nat \<Rightarrow> string" where
  "scheme_at msg start separator = to_lower (take (separator - start) (drop start msg))"

definition is_url_marker :: "string \<Rightarrow> nat \<Rightarrow> nat \<Rightarrow> bool" where
  "is_url_marker msg start separator \<longleftrightarrow>
     take 2 (drop (separator + 1) msg) = ''//'' \<or>
     scheme_at msg start separator \<in> set WHATWG_SPECIAL_SCHEMES"

lemma indexOf_Some:
  assumes "indexOf c msg n = Some i"
  shows "n \<le> i \<and> i < length msg \<and> msg ! i = c \<and> (\<forall>j. n \<le> j \<and> j < i \<longrightarrow> msg ! j \<noteq> c)"
proof -
  obtain k where k: "k < length msg - n" "i = n + k" "msg ! (n + k) = c" "\<forall>j<k. msg ! (n + j) \<noteq> c"
    using assms unfolding indexOf_def find_Some_iff by auto
  have "msg ! j \<noteq> c" if "n \<le> j" "j < i" for j
    using k(2) k(4) [rule_format, of "j - n"] that by simp
  with k show ?thesis by auto
qed

lemma indexOf_None: "indexOf c msg n = None \<longleftrightarrow> (\<forall>j. n \<le> j \<and> j < length msg \<longrightarrow> msg ! j \<noteq> c)"
  by (auto simp: indexOf_def find_None_iff)

text \<open>The main loop: its state is \<open>pieces\<close>, \<open>copiedUntil\<close> and \<open>searchFrom\<close>.\<close>

function redact_loop ::
  "(string \<Rightarrow> url option) \<Rightarrow> string \<Rightarrow> string list \<Rightarrow> nat \<Rightarrow> nat \<Rightarrow> string list \<times> nat" where
  "redact_loop parse msg pieces copiedUntil searchFrom =
     (if searchFrom < length msg then
        (case indexOf (CHR '':'') msg searchFrom of
           None \<Rightarrow> (pieces, copiedUntil)
         | Some separator \<Rightarrow>
             (let start = scheme_start msg copiedUntil separator in
              if start = separator \<or> \<not> is_url_marker msg start separator
              then redact_loop parse msg pieces copiedUntil (separator + 1)
              else redact_loop parse msg
                (pieces @ [take (start - copiedUntil) (drop copiedUntil msg), redactUrl parse (drop start msg)])
                (length msg) (length msg)))
      else (pieces, copiedUntil))"
  by pat_completeness auto
termination
  by (relation "measure (\<lambda>(_, msg, _, _, searchFrom). length msg - searchFrom)")
    (auto dest!: indexOf_Some)

declare redact_loop.simps [simp del]

definition redactSensitiveText :: "(string \<Rightarrow> url option) \<Rightarrow> string \<Rightarrow> string" where
  "redactSensitiveText parse msg =
     (case redact_loop parse msg [] 0 0 of (pieces, copiedUntil) \<Rightarrow>
        if pieces = [] then msg else concat (pieces @ [drop copiedUntil msg]))"

text \<open>The msg of an \<open>Error\<close>, or of a value that is none.\<close>

fun error_message :: "worker_error \<Rightarrow> string" where
  "error_message (WorkerStateError m) = m"
| "error_message (ConfigError m) = m"
| "error_message (JobSpecError m) = m"
| "error_message (ExecutorError m) = m"
| "error_message (ResultUploadError m) = m"
| "error_message (WalletFileError m) = m"
| "error_message (AgencError _ _ _ m) = m"
| "error_message (PlainError m) = m"

definition formatDiagnosticError :: "(string \<Rightarrow> url option) \<Rightarrow> worker_error \<Rightarrow> string" where
  "formatDiagnosticError parse error = redactSensitiveText parse (error_message error)"

section \<open>What is left of a URL\<close>

definition redacted_url :: "url \<Rightarrow> bool" where
  "redacted_url u \<longleftrightarrow>
     u_username u \<in> {[], ''REDACTED''} \<and> u_password u \<in> {[], ''REDACTED''} \<and>
     set (split_on (CHR ''/'') (u_pathname u)) \<subseteq> {[], ''REDACTED''} \<and>
     u_search u \<in> {[], ''?REDACTED''} \<and> u_hash u \<in> {[], ''#REDACTED''}"

lemma redact_path:
  "set (split_on (CHR ''/'') (join_with ''/'' (map redact_segment (split_on (CHR ''/'') s))))
     \<subseteq> {[], ''REDACTED''}"
  by (subst split_join) (auto simp: list_all_iff redact_segment_def)

lemma redact_fields_ok: "redacted_url (redact_fields u)"
  using redact_path [of "u_pathname u"] by (auto simp: redacted_url_def redact_fields_def Let_def)

lemma redact_fields_keeps [simp]:
  "u_protocol (redact_fields u) = u_protocol u"
  "u_hostname (redact_fields u) = u_hostname u"
  "u_port (redact_fields u) = u_port u"
  by (simp_all add: redact_fields_def Let_def)

lemma redactUrl_cases:
  "redactUrl parse raw = UNPARSEABLE_URL_REDACTION \<or>
   (\<exists>u. parse raw = Some u \<and> redactUrl parse raw = url_href (redact_fields u))"
  by (auto simp: redactUrl_def split: option.splits)

section \<open>The loop\<close>

lemma scheme_forward_le: "start \<le> separator \<Longrightarrow> scheme_forward msg start separator \<le> separator"
  by (induction msg start separator rule: scheme_forward.induct)
    (subst scheme_forward.simps, auto)

lemma scheme_back_le: "scheme_back msg lo start \<le> start"
  by (induction msg lo start rule: scheme_back.induct)
    (subst scheme_back.simps, simp, metis Suc_pred le_SucI not_less_zero gr_zeroI)

lemma scheme_start_le: "scheme_start msg lo separator \<le> separator"
  by (simp add: scheme_start_def scheme_forward_le scheme_back_le)

text \<open>A separator at which a URL starts, with copying begun at \<open>0\<close>.\<close>

definition url_at :: "string \<Rightarrow> nat \<Rightarrow> bool" where
  "url_at msg separator \<longleftrightarrow>
     separator < length msg \<and> msg ! separator = CHR '':'' \<and>
     scheme_start msg 0 separator < separator \<and>
     is_url_marker msg (scheme_start msg 0 separator) separator"

lemma redact_loop_none:
  assumes "redact_loop parse msg [] 0 n = ([], c)"
  shows "c = 0 \<and> (\<forall>k \<ge> n. \<not> url_at msg k)"
  using assms
proof (induction "length msg - n" arbitrary: n rule: less_induct)
  case less
  show ?case
  proof (cases "n < length msg")
    case False
    then show ?thesis using less.prems by (auto simp: redact_loop.simps url_at_def)
  next
    case True
    show ?thesis
    proof (cases "indexOf (CHR '':'') msg n")
      case None
      then have "c = 0" using less.prems True by (simp add: redact_loop.simps)
      with None show ?thesis by (auto simp: url_at_def indexOf_None)
    next
      case (Some i)
      note i = indexOf_Some [OF Some]
      have grow: "fst (redact_loop parse msg ps a b) \<noteq> []" if "ps \<noteq> []" for ps a b
        using that
        by (induction parse msg ps a b rule: redact_loop.induct)
          (subst redact_loop.simps, auto simp: Let_def split: option.splits)
      let ?s = "scheme_start msg 0 i"
      have skip: "?s = i \<or> \<not> is_url_marker msg ?s i"
      proof (rule ccontr)
        assume "\<not> ?thesis"
        then have "fst (redact_loop parse msg [] 0 n) \<noteq> []"
          using True Some by (subst redact_loop.simps) (simp add: Let_def grow)
        with less.prems show False by simp
      qed
      then have "redact_loop parse msg [] 0 (i + 1) = ([], c)"
        using less.prems True Some by (subst (asm) redact_loop.simps) (auto simp: Let_def)
      then have rest: "c = 0 \<and> (\<forall>k \<ge> i + 1. \<not> url_at msg k)"
        using i True by (intro less.hyps) auto
      have "\<not> url_at msg k" if "n \<le> k" "k < i + 1" for k
        using that i skip by (cases "k = i") (auto simp: url_at_def)
      then show ?thesis using rest by (metis not_le)
    qed
  qed
qed

lemma redact_loop_stop:
  "redact_loop parse msg ps (length msg) (length msg) = (ps, length msg)"
  by (simp add: redact_loop.simps)

lemma redact_loop_some:
  assumes "redact_loop parse msg [] 0 n = (ps, c)" "ps \<noteq> []"
  shows "\<exists>k. url_at msg k \<and> c = length msg \<and>
    ps = [take (scheme_start msg 0 k) msg, redactUrl parse (drop (scheme_start msg 0 k) msg)] \<and>
    (\<forall>j. n \<le> j \<and> j < k \<longrightarrow> \<not> url_at msg j)"
  using assms
proof (induction "length msg - n" arbitrary: n rule: less_induct)
  case less
  show ?case
  proof (cases "n < length msg")
    case False
    then show ?thesis using less.prems by (auto simp: redact_loop.simps)
  next
    case True
    show ?thesis
    proof (cases "indexOf (CHR '':'') msg n")
      case None
      then show ?thesis using less.prems True by (auto simp: redact_loop.simps)
    next
      case (Some i)
      note i = indexOf_Some [OF Some]
      let ?s = "scheme_start msg 0 i"
      have before: "\<not> url_at msg j" if "n \<le> j" "j < i" for j
        using that i by (auto simp: url_at_def)
      show ?thesis
      proof (cases "?s = i \<or> \<not> is_url_marker msg ?s i")
        case skip: True
        then have "redact_loop parse msg [] 0 (i + 1) = (ps, c)"
          using less.prems True Some by (subst (asm) redact_loop.simps) (auto simp: Let_def)
        then obtain k where k: "url_at msg k" "c = length msg"
          "ps = [take (scheme_start msg 0 k) msg, redactUrl parse (drop (scheme_start msg 0 k) msg)]"
          "\<forall>j. i + 1 \<le> j \<and> j < k \<longrightarrow> \<not> url_at msg j"
          using less.hyps [of "i + 1"] i True less.prems(2) by (metis Suc_eq_plus1 diff_less_mono2 le_imp_less_Suc)
        have "\<not> url_at msg i" using skip by (auto simp: url_at_def)
        then have "\<forall>j. n \<le> j \<and> j < k \<longrightarrow> \<not> url_at msg j"
          using k(4) before by (metis Suc_eq_plus1 Suc_leI linorder_neqE_nat)
        with k show ?thesis by blast
      next
        case False
        then have "url_at msg i"
          using i scheme_start_le [of msg 0 i] by (auto simp: url_at_def)
        moreover have "ps = [take ?s msg, redactUrl parse (drop ?s msg)] \<and> c = length msg"
          using less.prems True Some False
          by (subst (asm) redact_loop.simps) (auto simp: Let_def redact_loop_stop)
        ultimately show ?thesis using before by blast
      qed
    qed
  qed
qed

section \<open>Redacted diagnostics\<close>

text \<open>A diagnostic without a URL is unchanged; otherwise the text before the first URL is kept and the
  whole rest is replaced, either by a fixed marker or by a URL of the same scheme, host and port whose
  credentials, path segments, query and fragment are only present as \<open>REDACTED\<close>.\<close>

lemma redaction_total:
  "(redactSensitiveText parse msg = msg \<and> (\<forall>k. \<not> url_at msg k)) \<or>
   (\<exists>k tail. url_at msg k \<and> (\<forall>j < k. \<not> url_at msg j) \<and>
      redactSensitiveText parse msg = take (scheme_start msg 0 k) msg @ tail \<and>
      (tail = UNPARSEABLE_URL_REDACTION \<or>
       (\<exists>u. parse (drop (scheme_start msg 0 k) msg) = Some u \<and> tail = url_href (redact_fields u) \<and>
            redacted_url (redact_fields u) \<and> u_protocol (redact_fields u) = u_protocol u \<and>
            u_hostname (redact_fields u) = u_hostname u \<and> u_port (redact_fields u) = u_port u)))"
proof -
  obtain ps c where loop: "redact_loop parse msg [] 0 0 = (ps, c)" by fastforce
  show ?thesis
  proof (cases "ps = []")
    case True
    then show ?thesis
      using loop redact_loop_none [of parse msg 0 c] by (simp add: redactSensitiveText_def)
  next
    case False
    then obtain k where k: "url_at msg k" "c = length msg"
      "ps = [take (scheme_start msg 0 k) msg, redactUrl parse (drop (scheme_start msg 0 k) msg)]"
      "\<forall>j. 0 \<le> j \<and> j < k \<longrightarrow> \<not> url_at msg j"
      using redact_loop_some [OF loop] by blast
    then have "redactSensitiveText parse msg =
        take (scheme_start msg 0 k) msg @ redactUrl parse (drop (scheme_start msg 0 k) msg)"
      using loop by (simp add: redactSensitiveText_def)
    with k show ?thesis
      using redactUrl_cases [of parse "drop (scheme_start msg 0 k) msg"] redact_fields_ok by auto
  qed
qed

lemma redaction_total_witness: "redactSensitiveText (\<lambda>_. None) ''no address'' = ''no address''"
proof -
  have "\<not> url_at ''no address'' k" for k
    by (auto simp: url_at_def nth_Cons less_Suc_eq split: nat.splits)
  then show ?thesis using redaction_total [of "\<lambda>_. None" "''no address''"] by blast
qed

end
