(* ===== verification/WorkerSubmit.thy ===== *)
theory WorkerSubmit
  imports WorkerEnv Redact
begin

text \<open>
  The write path of \<open>packages/agenc-worker/src/runtime.ts\<close> from a held claim to a ledger record:
  \<open>readClaim\<close>, \<open>readSubmission\<close>, \<open>commitSubmission\<close>, \<open>submitPreparedResult\<close>,
  \<open>continueExecutedResult\<close>, \<open>executeAndSubmit\<close>.  Every step that must survive a crash is saved before
  the effect it announces.  Logging is left out.
\<close>

section \<open>Helpers\<close>

record worker_agent =
  waAgentId :: bytes
  waAgentPda :: string
  waRegistered :: bool

datatype process_outcome =
    Submitted string submission_record
  | DryRun string
  | Skipped string string
  | ClaimFailed string string
  | ExecutionFailed string string

definition diagnose :: "env \<Rightarrow> worker_error \<Rightarrow> string" where
  "diagnose E e = formatDiagnosticError (url_parse (e_platform E)) e"

definition readTask :: "env \<Rightarrow> string \<Rightarrow> task_account option act" where
  "readTask E task = call E (\<lambda>t. o_task E t task)"

definition readClaim :: "env \<Rightarrow> worker_agent \<Rightarrow> string \<Rightarrow> claim_account option act" where
  "readClaim E agent task = call E (\<lambda>t. bind_res (o_claim E t task) (checkClaim (waAgentPda agent) task))"

definition readSubmission :: "env \<Rightarrow> worker_agent \<Rightarrow> string \<Rightarrow> submission_account option act" where
  "readSubmission E agent task =
     call E (\<lambda>t. bind_res (o_submission E t task) (checkSubmission (e_chain E) (waAgentPda agent) task))"

definition verifyJobSpec :: "env \<Rightarrow> string \<Rightarrow> verified_job_spec act" where
  "verifyJobSpec E task = call E (\<lambda>t.
     fetchAndVerifyJobSpec (e_platform E) (o_fetchers E t) DEFAULT_MAX_JOB_SPEC_BYTES (o_job_spec E t task))"

text \<open>The marker of a phase, keeping claim time, claim signature and revision count.\<close>

definition advance :: "open_claim \<Rightarrow> string \<Rightarrow> claim_phase \<Rightarrow> execution_intent option \<Rightarrow>
    submission_intent option \<Rightarrow> open_claim" where
  "advance marker task phase execution submission =
     \<lparr>ocTask = task, ocClaimedAt = ocClaimedAt marker, ocPhase = phase,
      ocClaimTransactionSignature = ocClaimTransactionSignature marker,
      ocRevisionSubmissionCount = ocRevisionSubmissionCount marker,
      ocExecution = execution, ocSubmission = submission\<rparr>"

definition matchingIntent ::
  "platform \<Rightarrow> open_claim \<Rightarrow> submission_account \<Rightarrow> string \<Rightarrow> submission_intent res" where
  "matchingIntent p marker submission rewardAmount =
     (let resultHashHex = bytesToHex (suProofHash submission);
          fresh = bind_res (resultPlaceholderUri resultHashHex) (\<lambda>uri. Inr
            \<lparr>siResultUri = uri, siResultHashHex = resultHashHex, siRewardAmount = rewardAmount,
             siPreparedAt = submissionTimestamp p (suSubmittedAt submission) (ocClaimedAt marker),
             siLastBroadcastAt = None, siTransactionSignature = None\<rparr>)
      in case ocSubmission marker of
           Some intent \<Rightarrow> if siResultHashHex intent = resultHashHex then Inr intent else fresh
         | None \<Rightarrow> fresh)"

section \<open>Committing to the ledger\<close>

definition commitSubmission ::
  "env \<Rightarrow> string \<Rightarrow> submission_intent \<Rightarrow> string option \<Rightarrow> string option \<Rightarrow> submission_record act" where
  "commitSubmission E task intent signature submittedAt =
     seq (loadState E) (\<lambda>state.
     case List.find (\<lambda>r. srTask r = task) (wsSubmissions state) of
       Some existing \<Rightarrow>
         seq (saveState E (state\<lparr>wsOpenClaim := None\<rparr>)) (\<lambda>_. returning existing)
     | None \<Rightarrow>
         if unsettled_count (wsSubmissions state) \<ge> MAX_UNSETTLED_SUBMISSIONS
         then throwing (WorkerStateError
           ''cannot commit another submission: unsettled records require operator reconciliation'')
         else
           seq (case submittedAt of Some t \<Rightarrow> returning t | None \<Rightarrow> now_iso E) (\<lambda>at.
           let record = \<lparr>srTask = task, srSubmissionSignature = signature, srResultUri = siResultUri intent,
                 srResultHashHex = siResultHashHex intent, srRewardAmount = siRewardAmount intent,
                 srSubmittedAt = at, srSettled = False, srOutcome = None, srTerminalEvidence = None,
                 srEarnedLamports = None, srSettlementSignature = None, srSettledAt = None\<rparr>
           in seq (saveState E (state\<lparr>wsOpenClaim := None, wsSubmissions := wsSubmissions state @ [record]\<rparr>))
                (\<lambda>_. returning record)))"

section \<open>Submitting\<close>

definition error_signature :: "worker_error \<Rightarrow> string option" where
  "error_signature e = (case e of AgencError _ _ s _ \<Rightarrow> s | _ \<Rightarrow> None)"

text \<open>After a failed broadcast: keep the signature, then look for the submission on chain.\<close>

definition recordSubmitSignature :: "env \<Rightarrow> string \<Rightarrow> worker_error \<Rightarrow> unit act" where
  "recordSubmitSignature E task e =
     (case error_signature e of
        None \<Rightarrow> returning ()
      | Some sig \<Rightarrow>
          seq (loadState E) (\<lambda>pending.
          case wsOpenClaim pending of
            None \<Rightarrow> returning ()
          | Some c \<Rightarrow>
              (case ocSubmission c of
                 Some su \<Rightarrow>
                   if ocTask c = task \<and> ocPhase c = Submitting
                   then saveState E (pending\<lparr>wsOpenClaim := Some (c\<lparr>ocSubmission :=
                     Some (su\<lparr>siTransactionSignature := Some sig\<rparr>)\<rparr>)\<rparr>)
                   else returning ()
               | None \<Rightarrow> returning ())))"

definition reconcileSubmit ::
  "env \<Rightarrow> worker_agent \<Rightarrow> string \<Rightarrow> submission_intent \<Rightarrow> submission_record option act" where
  "reconcileSubmit E agent task intent =
     seq (readSubmission E agent task) (\<lambda>landed.
     seq (loadState E) (\<lambda>state.
     case (landed, wsOpenClaim state) of
       (Some account, Some marker) \<Rightarrow>
         if isMatchingLandedSubmission account intent (ocRevisionSubmissionCount marker) then
           seq (lift_res (matchingIntent (e_platform E) marker account (siRewardAmount intent))) (\<lambda>onChain.
           seq (commitSubmission E task onChain (siTransactionSignature onChain)
                 (Some (submissionTimestamp (e_platform E) (suSubmittedAt account) (siPreparedAt intent))))
             (\<lambda>record. returning (Some record)))
         else returning None
     | _ \<Rightarrow> returning None))"

definition submitPreparedResult ::
  "env \<Rightarrow> worker_agent \<Rightarrow> string \<Rightarrow> submission_intent \<Rightarrow> process_outcome act" where
  "submitPreparedResult E agent task prepared =
     seq (loadState E) (\<lambda>state.
     case wsOpenClaim state of
       None \<Rightarrow> throwing (PlainError ''cannot broadcast result for untracked task'')
     | Some marker \<Rightarrow>
     (case ocSubmission marker of
        None \<Rightarrow> throwing (PlainError ''cannot broadcast result for untracked task'')
      | Some stored \<Rightarrow>
      if ocTask marker \<noteq> task \<or> ocPhase marker \<noteq> Submitting
        \<or> siResultHashHex stored \<noteq> siResultHashHex prepared
      then throwing (PlainError ''cannot broadcast result for untracked task'')
      else
        seq (now_iso E) (\<lambda>at.
        let intent = stored\<lparr>siLastBroadcastAt := Some at\<rparr> in
        seq (saveState E (state\<lparr>wsOpenClaim := Some (marker\<lparr>ocSubmission := Some intent\<rparr>)\<rparr>)) (\<lambda>_.
        catching
          (seq (lift_res (hexToBytes (siResultHashHex intent))) (\<lambda>_.
           seq (lift_res (resultDataFromHashHex (siResultHashHex intent))) (\<lambda>_.
           seq (effect E (SubmitSent task (siResultHashHex intent))
                 (\<lambda>t. o_submit_tx E t task (siResultHashHex intent))) (\<lambda>signature.
           seq (commitSubmission E task intent (Some signature) None) (\<lambda>record.
           returning (Submitted task record))))))
          (\<lambda>error.
           seq (recordSubmitSignature E task error) (\<lambda>_.
           catching
             (seq (reconcileSubmit E agent task intent) (\<lambda>landed.
              case landed of
                Some record \<Rightarrow> returning (Submitted task record)
              | None \<Rightarrow> returning (ExecutionFailed task (diagnose E error))))
             (\<lambda>reconcileError. returning (ExecutionFailed task
               (diagnose E error @ ''; reconciliation failed: '' @ diagnose E reconcileError))))))))) "

section \<open>Uploading and executing\<close>

definition saveMarker :: "env \<Rightarrow> string \<Rightarrow> string \<Rightarrow> (open_claim \<Rightarrow> open_claim) \<Rightarrow> unit act" where
  "saveMarker E task message f =
     seq (loadState E) (\<lambda>state.
     case wsOpenClaim state of
       None \<Rightarrow> throwing (PlainError message)
     | Some marker \<Rightarrow>
         if ocTask marker \<noteq> task then throwing (PlainError message)
         else saveState E (state\<lparr>wsOpenClaim := Some (f marker)\<rparr>))"

definition submitExecuted ::
  "env \<Rightarrow> worker_agent \<Rightarrow> string \<Rightarrow> execution_intent \<Rightarrow> string \<Rightarrow> process_outcome act" where
  "submitExecuted E agent task execution resultUri =
     seq (now_iso E) (\<lambda>at.
     let intent = \<lparr>siResultUri = resultUri, siResultHashHex = exResultHashHex execution,
           siRewardAmount = exRewardAmount execution, siPreparedAt = at,
           siLastBroadcastAt = None, siTransactionSignature = None\<rparr> in
     seq (saveMarker E task ''cannot submit result for untracked task''
           (\<lambda>marker. advance marker task Submitting None (Some intent))) (\<lambda>_.
     submitPreparedResult E agent task intent))"

definition continueExecutedResult ::
  "env \<Rightarrow> worker_agent \<Rightarrow> string \<Rightarrow> execution_intent \<Rightarrow> process_outcome act" where
  "continueExecutedResult E agent task execution =
     (let resultBytes = b64_decode (exResultBytesBase64 execution) in
      case rcResultUploader (e_config E) of
        Some uploaderUrl \<Rightarrow>
          seq (saveMarker E task ''cannot upload result for untracked task''
                (\<lambda>marker. advance marker task Uploading (Some execution) None)) (\<lambda>_.
          seq (attempt (effect E (UploadSent task (exResultHashHex execution))
                 (\<lambda>t. uploadResult (e_platform E) (o_post E t) uploaderUrl resultBytes
                        DEFAULT_MAX_RESULT_UPLOAD_RESPONSE_BYTES))) (\<lambda>uploaded.
          case uploaded of
            Inl error \<Rightarrow> returning (ExecutionFailed task (diagnose E error))
          | Inr resultUri \<Rightarrow> submitExecuted E agent task execution resultUri))
      | None \<Rightarrow>
          seq (lift_res (resultPlaceholderUri (exResultHashHex execution))) (\<lambda>resultUri.
          submitExecuted E agent task execution resultUri))"

text \<open>
  A child that never ends blocks the worker for good: only the death of the process follows.
\<close>

definition runExecutorCall :: "env \<Rightarrow> string \<Rightarrow> string \<Rightarrow> bytes act" where
  "runExecutorCall E task prompt =
     seq (effect E (ExecutorRun task prompt) (\<lambda>t. Inr
       (runExecutor (e_locate E) (o_spawn E t) DEFAULT_MAX_STDOUT_BYTES DEFAULT_MAX_STDERR_BYTES
         (rcExecutorMode (e_config E) = Unsafe) (rcExecutor (e_config E)) prompt))) (\<lambda>result.
     case result of
       None \<Rightarrow> (\<lambda>w. (Inl Crash, w))
     | Some r \<Rightarrow> lift_res r)"

definition executeAndSubmit ::
  "env \<Rightarrow> worker_agent \<Rightarrow> string \<Rightarrow> task_account \<Rightarrow> string \<Rightarrow> process_outcome act" where
  "executeAndSubmit E agent task decodedTask prompt =
     seq (attempt (runExecutorCall E task prompt)) (\<lambda>executed.
     case executed of
       Inl error \<Rightarrow> returning (ExecutionFailed task (diagnose E error))
     | Inr resultBytes \<Rightarrow>
         seq (now_iso E) (\<lambda>at.
         let execution = \<lparr>exResultBytesBase64 = b64_encode resultBytes,
               exResultHashHex = sha256Hex (e_platform E) resultBytes,
               exRewardAmount = dec_print (tkRewardAmount decodedTask), exExecutedAt = at\<rparr> in
         seq (saveMarker E task ''cannot persist result for untracked task''
               (\<lambda>marker. advance marker task Executed (Some execution) None)) (\<lambda>_.
         continueExecutedResult E agent task execution)))"

end
