(* ===== verification/WorkerProcess.thy ===== *)
theory WorkerProcess
  imports WorkerSubmit
begin

text \<open>
  Starting work (\<open>processCandidate\<close> of \<open>packages/agenc-worker/src/runtime.ts\<close>): the candidate is
  re-read and re-filtered, its hire binding, job spec, commitment, prompt and the funding are
  checked, the claim marker is saved, and only then the claim is broadcast.
\<close>

section \<open>Funding\<close>

definition readRent :: "env \<Rightarrow> (nat \<Rightarrow> nat \<Rightarrow> int option res) \<Rightarrow> nat \<Rightarrow> int act" where
  "readRent E f space = call E (\<lambda>t. bind_res (f t space) validateRentMinimum)"

definition assertFreshClaimFunding :: "env \<Rightarrow> unit act" where
  "assertFreshClaimFunding E =
     (case (e_getBalance E, e_getRent E) of
        (Some getBalance, Some getRent) \<Rightarrow>
          seq (readRent E getRent CLAIM_ACCOUNT_SIZE) (\<lambda>claimRent.
          seq (readRent E getRent SUBMISSION_ACCOUNT_SIZE) (\<lambda>submissionRent.
          call E (\<lambda>t. bind_res (getBalance t) (checkClaimBalance claimRent submissionRent))))
      | _ \<Rightarrow> throwing (PlainError ''fresh-claim funding gate requires live getBalance and getMinimumBalanceForRentExemption hooks''))"

section \<open>Claiming\<close>

definition fresh_marker :: "string \<Rightarrow> string \<Rightarrow> claim_phase \<Rightarrow> string option \<Rightarrow> open_claim" where
  "fresh_marker task claimedAt phase signature =
     \<lparr>ocTask = task, ocClaimedAt = claimedAt, ocPhase = phase, ocClaimTransactionSignature = signature,
      ocRevisionSubmissionCount = None, ocExecution = None, ocSubmission = None\<rparr>"

definition setMarker :: "env \<Rightarrow> open_claim \<Rightarrow> unit act" where
  "setMarker E marker =
     seq (loadState E) (\<lambda>state. saveState E (state\<lparr>wsOpenClaim := Some marker\<rparr>))"

definition clearMarker :: "env \<Rightarrow> string \<Rightarrow> unit act" where
  "clearMarker E task =
     seq (loadState E) (\<lambda>state.
     saveState E (case wsOpenClaim state of
         None \<Rightarrow> state
       | Some c \<Rightarrow> if ocTask c = task then state\<lparr>wsOpenClaim := None\<rparr> else state))"

definition recordClaimSignature :: "env \<Rightarrow> string \<Rightarrow> string option \<Rightarrow> unit act" where
  "recordClaimSignature E task signature =
     (case signature of
        None \<Rightarrow> returning ()
      | Some sig \<Rightarrow>
          seq (loadState E) (\<lambda>pending.
          case wsOpenClaim pending of
            None \<Rightarrow> returning ()
          | Some c \<Rightarrow>
              if ocTask c = task
              then saveState E (pending\<lparr>wsOpenClaim := Some (c\<lparr>ocClaimTransactionSignature := Some sig\<rparr>)\<rparr>)
              else returning ()))"

text \<open>Only these outcomes prove that no claim transaction can still land.\<close>

definition definite_failure :: "worker_error \<Rightarrow> bool" where
  "definite_failure e = (case e of AgencError _ code sig _ \<Rightarrow> sig = None \<or> code \<noteq> None | _ \<Rightarrow> False)"

definition claim_reason :: "env \<Rightarrow> worker_error \<Rightarrow> string" where
  "claim_reason E e = redactSensitiveText (url_parse (e_platform E))
     (case e of
        AgencError name _ _ m \<Rightarrow> (case name of Some n \<Rightarrow> n | None \<Rightarrow> ''AgencError'') @ '': '' @ m
      | _ \<Rightarrow> diagnose E e)"

text \<open>\<open>None\<close>: the claim is held and execution goes on.\<close>

definition recoverClaim ::
  "env \<Rightarrow> worker_agent \<Rightarrow> string \<Rightarrow> string \<Rightarrow> worker_error \<Rightarrow> process_outcome option act" where
  "recoverClaim E agent task startedAt error =
     seq (recordClaimSignature E task (error_signature error)) (\<lambda>_.
     catching
       (seq (readClaim E agent task) (\<lambda>claim.
        if claim \<noteq> None then
          seq (setMarker E (fresh_marker task startedAt Claimed (error_signature error))) (\<lambda>_. returning None)
        else if definite_failure error then
          seq (clearMarker E task) (\<lambda>_. returning (Some (ClaimFailed task (claim_reason E error))))
        else returning (Some (ExecutionFailed task (claim_reason E error)))))
       (\<lambda>reconcileError. returning (Some (ExecutionFailed task
          (claim_reason E error @ ''; reconciliation failed: '' @ diagnose E reconcileError)))))"

definition claimTask ::
  "env \<Rightarrow> worker_agent \<Rightarrow> string \<Rightarrow> bytes \<Rightarrow> string \<Rightarrow> process_outcome option act" where
  "claimTask E agent task jobSpecHash startedAt =
     catching
       (seq (effect E (ClaimSent task jobSpecHash) (\<lambda>t. o_claim_tx E t task jobSpecHash)) (\<lambda>_.
        seq (setMarker E (fresh_marker task startedAt Claimed None)) (\<lambda>_. returning None)))
       (\<lambda>error. recoverClaim E agent task startedAt error)"

text \<open>From the funding gate on: the marker is durable before the broadcast.\<close>

definition claimAndExecute ::
  "env \<Rightarrow> worker_agent \<Rightarrow> string \<Rightarrow> task_account \<Rightarrow> bytes \<Rightarrow> string \<Rightarrow> process_outcome act" where
  "claimAndExecute E agent task decodedTask jobSpecHash prompt =
     seq (assertFreshClaimFunding E) (\<lambda>_.
     seq (now_iso E) (\<lambda>startedAt.
     seq (setMarker E (fresh_marker task startedAt Claiming None)) (\<lambda>_.
     seq (claimTask E agent task jobSpecHash startedAt) (\<lambda>stop.
     case stop of
       Some outcome \<Rightarrow> returning outcome
     | None \<Rightarrow> executeAndSubmit E agent task decodedTask prompt))))"

definition job_spec_reason :: "env \<Rightarrow> worker_error \<Rightarrow> string" where
  "job_spec_reason E e = (if is_job_spec_error e then diagnose E e else ''job-spec error: '' @ diagnose E e)"

definition processVerified ::
  "env \<Rightarrow> worker_agent \<Rightarrow> string \<Rightarrow> task_account \<Rightarrow> hire_binding \<Rightarrow> verified_job_spec \<Rightarrow> process_outcome act" where
  "processVerified E agent task decodedTask binding verified =
     (case hiredCommitmentClaimRejection (tkDescription decodedTask) (vjsJobSpecHash verified) (hbIsHire binding) of
        Some reason \<Rightarrow> returning (Skipped task reason)
      | None \<Rightarrow>
          (case prepare_prompt (e_platform E) (tkDescription decodedTask) (vjsContent verified) None of
             Inl error \<Rightarrow> returning (Skipped task (diagnose E error))
           | Inr prompt \<Rightarrow>
               if e_dry_run E then returning (DryRun task)
               else claimAndExecute E agent task decodedTask (vjsJobSpecHash verified) prompt))"

definition processRebound ::
  "env \<Rightarrow> worker_agent \<Rightarrow> string \<Rightarrow> task_account \<Rightarrow> process_outcome act" where
  "processRebound E agent task decodedTask =
     seq (attempt (call E (\<lambda>t. bind_res (o_hire E t task) (\<lambda>account.
            hireBindingForClaim (e_chain E) account task (waAgentPda agent))))) (\<lambda>binding.
     case binding of
       Inl error \<Rightarrow> returning (Skipped task (''hire binding error: '' @ diagnose E error))
     | Inr hire \<Rightarrow>
         (case hbRejection hire of
            Some reason \<Rightarrow> returning (Skipped task reason)
          | None \<Rightarrow>
              seq (attempt (verifyJobSpec E task)) (\<lambda>spec.
              case spec of
                Inl error \<Rightarrow> returning (Skipped task (job_spec_reason E error))
              | Inr verified \<Rightarrow> processVerified E agent task decodedTask hire verified)))"

definition processCandidate :: "env \<Rightarrow> worker_agent \<Rightarrow> claim_candidate \<Rightarrow> process_outcome act" where
  "processCandidate E agent candidate =
     (let task = ccTask candidate in
      seq (loadState E) (\<lambda>state.
      case passesLocalFilters (e_config E) state candidate of
        Some reason \<Rightarrow> returning (Skipped task reason)
      | None \<Rightarrow>
          seq (readTask E task) (\<lambda>read.
          case read of
            None \<Rightarrow> returning (Skipped task ''no-longer-open'')
          | Some decodedTask \<Rightarrow>
              if tkStatus decodedTask \<noteq> TOpen then returning (Skipped task ''no-longer-open'')
              else (case passesLocalFilters (e_config E) state (candidate_of task decodedTask) of
                  Some reason \<Rightarrow> returning (Skipped task reason)
                | None \<Rightarrow> processRebound E agent task decodedTask))))"

end
