(* ===== verification/WorkerResume.thy ===== *)
theory WorkerResume
  imports WorkerProcess
begin

text \<open>
  Crash recovery (\<open>resumeOpenClaim\<close> of \<open>packages/agenc-worker/src/runtime.ts\<close>): the durable marker is
  reconciled with the canonical accounts before anything is executed, uploaded or sent again.
  The definitions follow the function's early returns.
\<close>

definition TRANSACTION_RECONCILIATION_GRACE_MS :: int where
  "TRANSACTION_RECONCILIATION_GRACE_MS = 120000"

text \<open>\<open>Number.isFinite(at) && Date.now() - at < GRACE\<close>.\<close>

definition inside_grace :: "platform \<Rightarrow> int \<Rightarrow> string \<Rightarrow> bool" where
  "inside_grace p now at = (case date_parse p at of None \<Rightarrow> False
     | Some t \<Rightarrow> now - t < TRANSACTION_RECONCILIATION_GRACE_MS)"

definition resolveRevisionRequest :: "env \<Rightarrow> string \<Rightarrow> bytes \<Rightarrow> thread_envelope act" where
  "resolveRevisionRequest E task rejectionHash =
     (case e_transport E of
        None \<Rightarrow> throwing (PlainError ''task-thread transport is required to resolve the anchored request_changes envelope'')
      | Some transport \<Rightarrow>
          if list_all (\<lambda>b. b = 0) rejectionHash
          then throwing (PlainError ''request_changes rejectionHash is empty'')
          else seq (call E (\<lambda>t. transport t task rejectionHash)) (\<lambda>envelope.
            if teTaskPda envelope \<noteq> task
            then throwing (PlainError ''resolved change-request envelope targets another task'')
            else if teRole envelope \<noteq> ''buyer''
            then throwing (PlainError ''resolved change-request envelope has another role, expected buyer'')
            else returning envelope))"

definition restoreRevisionRound ::
  "env \<Rightarrow> string \<Rightarrow> claim_account \<Rightarrow> submission_account \<Rightarrow> string \<Rightarrow> unit act" where
  "restoreRevisionRound E task claim submission fallbackClaimedAt =
     seq (loadState E) (\<lambda>state.
     let priorSignature = (case wsOpenClaim state of None \<Rightarrow> None
           | Some c \<Rightarrow> if ocTask c = task then ocClaimTransactionSignature c else None)
     in saveState E (state\<lparr>
          wsSubmissions := List.filter (\<lambda>r. srTask r \<noteq> task) (wsSubmissions state),
          wsOpenClaim := Some \<lparr>ocTask = task,
            ocClaimedAt = claimTimestamp (e_platform E) claim fallbackClaimedAt, ocPhase = Claimed,
            ocClaimTransactionSignature = priorSignature,
            ocRevisionSubmissionCount = Some (suSubmissionCount submission),
            ocExecution = None, ocSubmission = None\<rparr>\<rparr>))"

section \<open>Executing or continuing\<close>

definition resumeClaimed ::
  "env \<Rightarrow> worker_agent \<Rightarrow> string \<Rightarrow> task_account \<Rightarrow> submission_account option \<Rightarrow> bool \<Rightarrow> process_outcome option act" where
  "resumeClaimed E agent task decodedTask submission revisionRound =
     seq (case (revisionRound, submission) of
         (True, Some s) \<Rightarrow> attempt (seq (resolveRevisionRequest E task (suRejectionHash s))
           (\<lambda>envelope. returning (Some (teCanonicalJson envelope))))
       | _ \<Rightarrow> returning (Inr None)) (\<lambda>changes.
     case changes of
       Inl error \<Rightarrow> returning (Some (ExecutionFailed task (diagnose E error)))
     | Inr changesRequest \<Rightarrow>
         seq (attempt (verifyJobSpec E task)) (\<lambda>spec.
         case spec of
           Inl error \<Rightarrow> returning (Some (ExecutionFailed task (diagnose E error)))
         | Inr verified \<Rightarrow>
             (case prepare_prompt (e_platform E) (tkDescription decodedTask) (vjsContent verified) changesRequest of
                Inl error \<Rightarrow> returning (Some (ExecutionFailed task (diagnose E error)))
              | Inr prompt \<Rightarrow>
                  seq (executeAndSubmit E agent task decodedTask prompt) (\<lambda>outcome. returning (Some outcome)))))"

definition resumeDispatch ::
  "env \<Rightarrow> worker_agent \<Rightarrow> string \<Rightarrow> open_claim \<Rightarrow> task_account \<Rightarrow> submission_account option \<Rightarrow> bool
   \<Rightarrow> process_outcome option act" where
  "resumeDispatch E agent task marker decodedTask submission revisionRound =
     (if e_dry_run E then returning (Some (DryRun task))
      else if ocRevisionSubmissionCount marker \<noteq> None \<and> \<not> revisionRound
        \<and> (ocPhase marker = Claiming \<or> ocPhase marker = Claimed)
      then returning (Some (ExecutionFailed task
        ''revision marker is present but its canonical Rejected submission is unavailable''))
      else if tkStatus decodedTask \<noteq> TInProgress
        \<and> \<not> (revisionRound \<and> tkStatus decodedTask = TPendingValidation)
      then returning (Some (ExecutionFailed task
        ''task status is not executable but its canonical submission is unavailable''))
      else
        (case (ocPhase marker, ocSubmission marker, ocExecution marker) of
           (Submitting, Some intent, _) \<Rightarrow>
             seq (submitPreparedResult E agent task intent) (\<lambda>outcome. returning (Some outcome))
         | (Executed, _, Some execution) \<Rightarrow>
             seq (continueExecutedResult E agent task execution) (\<lambda>outcome. returning (Some outcome))
         | (Uploading, _, Some execution) \<Rightarrow>
             seq (continueExecutedResult E agent task execution) (\<lambda>outcome. returning (Some outcome))
         | (Claiming, _, _) \<Rightarrow>
             seq (setMarker E (marker\<lparr>ocPhase := Claimed\<rparr>)) (\<lambda>_.
             resumeClaimed E agent task decodedTask submission revisionRound)
         | _ \<Rightarrow> resumeClaimed E agent task decodedTask submission revisionRound))"

section \<open>Reconciling with the chain\<close>

definition reopened_or_terminal :: "task_account option \<Rightarrow> bool" where
  "reopened_or_terminal tk = (case tk of None \<Rightarrow> False
     | Some t \<Rightarrow> tkStatus t = TOpen \<or> tkStatus t = TCompleted \<or> tkStatus t = TCancelled)"

text \<open>From the coherent-closure checks on.\<close>

definition resumeClosure ::
  "env \<Rightarrow> worker_agent \<Rightarrow> string \<Rightarrow> open_claim \<Rightarrow> claim_account option \<Rightarrow> task_account option
   \<Rightarrow> submission_account option \<Rightarrow> bool \<Rightarrow> process_outcome option act" where
  "resumeClosure E agent task marker claim decodedTask submission revisionRound =
     (case (reopened_or_terminal decodedTask \<and> claim = None \<and> submission = None \<and> ocPhase marker = Submitting,
            ocSubmission marker) of
        (True, Some intent) \<Rightarrow>
          seq (commitSubmission E task intent (siTransactionSignature intent)
                (Some (case siLastBroadcastAt intent of Some t \<Rightarrow> t | None \<Rightarrow> siPreparedAt intent))) (\<lambda>record.
          returning (Some (Submitted task record)))
      | _ \<Rightarrow>
          if claim = None \<and> submission = None \<and> (reopened_or_terminal decodedTask \<or> decodedTask = None)
          then seq (clearMarker E task) (\<lambda>_. returning None)
          else (case (claim, decodedTask) of
              (Some _, Some t) \<Rightarrow> resumeDispatch E agent task marker t submission revisionRound
            | _ \<Rightarrow> returning (Some (ExecutionFailed task ''incoherent canonical reads''))))"

definition terminal_rejection ::
  "int \<Rightarrow> claim_account option \<Rightarrow> task_account option \<Rightarrow> submission_account option \<Rightarrow> bool \<Rightarrow> bool" where
  "terminal_rejection now claim decodedTask submission revisionRound =
     (\<not> revisionRound \<and>
      (case (submission, decodedTask) of
         (Some s, Some t) \<Rightarrow> suStatus s = SRejected \<and>
           ((tkStatus t = TOpen \<and> (case claim of None \<Rightarrow> True | Some c \<Rightarrow> \<not> claimLooksLive now c)) \<or>
            tkStatus t = TCompleted \<or> tkStatus t = TCancelled)
       | _ \<Rightarrow> False))"

definition resumeTerminal ::
  "env \<Rightarrow> worker_agent \<Rightarrow> string \<Rightarrow> open_claim \<Rightarrow> claim_account option \<Rightarrow> task_account option
   \<Rightarrow> submission_account option \<Rightarrow> bool \<Rightarrow> process_outcome option act" where
  "resumeTerminal E agent task marker claim decodedTask submission revisionRound =
     seq (now_ms E) (\<lambda>now.
     case (terminal_rejection now claim decodedTask submission revisionRound, submission, decodedTask) of
       (True, Some s, Some t) \<Rightarrow>
         seq (lift_res (matchingIntent (e_platform E) marker s
               (case ocSubmission marker of Some i \<Rightarrow> siRewardAmount i | None \<Rightarrow> dec_print (tkRewardAmount t)))) (\<lambda>intent.
         seq (commitSubmission E task intent
               (case ocSubmission marker of Some i \<Rightarrow> siTransactionSignature i | None \<Rightarrow> None)
               (Some (submissionTimestamp (e_platform E) (suSubmittedAt s) (siPreparedAt intent)))) (\<lambda>record.
         returning (Some (Submitted task record))))
     | _ \<Rightarrow>
         if claim = None \<and> ocPhase marker = Claiming \<and> inside_grace (e_platform E) now (ocClaimedAt marker)
         then returning (Some (ExecutionFailed task
           ''claim broadcast outcome is still inside the reconciliation grace period''))
         else resumeClosure E agent task marker claim decodedTask submission revisionRound)"

definition resumeGrace ::
  "env \<Rightarrow> worker_agent \<Rightarrow> string \<Rightarrow> open_claim \<Rightarrow> claim_account option \<Rightarrow> task_account option
   \<Rightarrow> submission_account option \<Rightarrow> bool \<Rightarrow> process_outcome option act" where
  "resumeGrace E agent task marker claim decodedTask submission revisionRound =
     seq (now_ms E) (\<lambda>now.
     case (ocPhase marker, ocSubmission marker) of
       (Submitting, Some intent) \<Rightarrow>
         if (case submission of None \<Rightarrow> False
             | Some s \<Rightarrow> isMatchingLandedSubmission s intent (ocRevisionSubmissionCount marker))
         then resumeTerminal E agent task marker claim decodedTask submission revisionRound
         else if inside_grace (e_platform E) now
           (case siLastBroadcastAt intent of Some t \<Rightarrow> t | None \<Rightarrow> siPreparedAt intent)
         then returning (Some (ExecutionFailed task
           ''submission broadcast outcome is still inside the reconciliation grace period''))
         else if (case submission of None \<Rightarrow> False | Some s \<Rightarrow> isLandedSubmission s)
         then returning (Some (ExecutionFailed task
           ''canonical landed submission does not match the current durable result intent''))
         else resumeTerminal E agent task marker claim decodedTask submission revisionRound
     | _ \<Rightarrow> resumeTerminal E agent task marker claim decodedTask submission revisionRound)"

text \<open>Whether the landed submission is the marker's own.\<close>

definition landed_for :: "open_claim \<Rightarrow> submission_account \<Rightarrow> bool" where
  "landed_for marker s =
     (isLandedSubmission s \<and>
      (case (if ocPhase marker = Submitting then ocSubmission marker else None) of
         None \<Rightarrow> ocRevisionSubmissionCount marker = None
       | Some intent \<Rightarrow> submissionMatchesIntent s intent (ocRevisionSubmissionCount marker)))"

definition resumeReconciled ::
  "env \<Rightarrow> worker_agent \<Rightarrow> string \<Rightarrow> open_claim \<Rightarrow> claim_account option \<Rightarrow> task_account option
   \<Rightarrow> submission_account option \<Rightarrow> bool \<Rightarrow> process_outcome option act" where
  "resumeReconciled E agent task marker claim decodedTask submission revisionRound =
     (case submission of
        Some s \<Rightarrow>
          if \<not> revisionRound \<and> landed_for marker s then
            seq (lift_res (matchingIntent (e_platform E) marker s
                  (case ocSubmission marker of Some i \<Rightarrow> siRewardAmount i
                   | None \<Rightarrow> (case decodedTask of Some t \<Rightarrow> dec_print (tkRewardAmount t) | None \<Rightarrow> ''0'')))) (\<lambda>intent.
            seq (commitSubmission E task intent None
                  (Some (submissionTimestamp (e_platform E) (suSubmittedAt s) (siPreparedAt intent)))) (\<lambda>record.
            returning (Some (Submitted task record))))
          else resumeGrace E agent task marker claim decodedTask submission revisionRound
      | None \<Rightarrow> resumeGrace E agent task marker claim decodedTask submission revisionRound)"

text \<open>\<open>loadState(..).openClaim!\<close>: a missing marker fails at its first use.\<close>

definition reloadMarker :: "env \<Rightarrow> open_claim act" where
  "reloadMarker E = seq (loadState E) (\<lambda>state.
     case wsOpenClaim state of None \<Rightarrow> throwing (PlainError ''Cannot read properties of null'') | Some m \<Rightarrow> returning m)"

definition resumeOpenClaim :: "env \<Rightarrow> worker_agent \<Rightarrow> process_outcome option act" where
  "resumeOpenClaim E agent =
     seq (loadState E) (\<lambda>state.
     case wsOpenClaim state of
       None \<Rightarrow> returning None
     | Some stored \<Rightarrow>
         let task = ocTask stored in
         seq (readClaim E agent task) (\<lambda>claim.
         seq (readTask E task) (\<lambda>decodedTask.
         seq (readSubmission E agent task) (\<lambda>submission.
         seq (now_ms E) (\<lambda>now.
         case (submission, claim, decodedTask) of
           (Some s, Some c, Some t) \<Rightarrow>
             if isRevisionRequested now t c s then
               seq (if ocRevisionSubmissionCount stored \<noteq> Some (suSubmissionCount s)
                    then seq (restoreRevisionRound E task c s (ocClaimedAt stored)) (\<lambda>_. reloadMarker E)
                    else returning stored) (\<lambda>marker.
               resumeReconciled E agent task marker claim decodedTask submission True)
             else resumeReconciled E agent task stored claim decodedTask submission False
         | _ \<Rightarrow> resumeReconciled E agent task stored claim decodedTask submission False)))))"

end
