(* ===== verification/WorkerSettle.thy ===== *)
theory WorkerSettle
  imports WorkerResume
begin

text \<open>
  Settlement reconciliation (\<open>checkSettlements\<close> of \<open>packages/agenc-worker/src/runtime.ts\<close>): each
  unsettled record is classified from canonical reads, paid SOL outcomes are confirmed by the
  growth of the agent's \<open>totalEarned\<close>, and the ledger is saved once.  The loop works on one
  in-memory state; a record is identified by its task, which is unique in a loaded state.
\<close>

section \<open>Classification\<close>

text \<open>What a pass decides for one record: settle it, note that it straggles, or leave it.\<close>

datatype verdict = Settle outcome bool | MarkStraggler | Keep

definition classifyCompleted ::
  "task_account \<Rightarrow> claim_account option \<Rightarrow> submission_account option \<Rightarrow> submission_record \<Rightarrow> verdict" where
  "classifyCompleted t claim submission record =
     (let sol = (tkRewardMint t = None) in
      case map_option suStatus submission of
        Some SAccepted \<Rightarrow> Settle OAccepted sol
      | Some SRejected \<Rightarrow> Settle ORejected False
      | Some SSubmitted \<Rightarrow>
          if tkType t = TTCollaborative
          then (if srTerminalEvidence record \<noteq> Some CollaborativeStraggler then MarkStraggler else Keep)
          else Keep
      | _ \<Rightarrow>
          if (case claim of None \<Rightarrow> False | Some c \<Rightarrow> clIsCompleted c \<and> clIsValidated c \<and> clRewardPaid c > 0)
          then Settle OAccepted sol
          else if claim = None \<and> srTerminalEvidence record = Some CollaborativeStraggler
          then Settle OStraggler False
          else if claim = None \<and> sol then Settle OAccepted True
          else Keep)"

text \<open>Whether the branch taken deletes the straggler note.\<close>

definition clearsEvidence :: "claim_account option \<Rightarrow> submission_account option \<Rightarrow> bool" where
  "clearsEvidence claim submission =
     (case map_option suStatus submission of
        Some SAccepted \<Rightarrow> True
      | Some SRejected \<Rightarrow> True
      | Some SSubmitted \<Rightarrow> False
      | _ \<Rightarrow> (case claim of None \<Rightarrow> False | Some c \<Rightarrow> clIsCompleted c \<and> clIsValidated c \<and> clRewardPaid c > 0))"

definition rejected_and_over :: "int \<Rightarrow> claim_account option \<Rightarrow> submission_account option \<Rightarrow> bool" where
  "rejected_and_over now claim submission =
     ((case submission of None \<Rightarrow> False | Some s \<Rightarrow> suStatus s = SRejected) \<and>
      (case claim of None \<Rightarrow> True | Some c \<Rightarrow> \<not> claimLooksLive now c))"

section \<open>The pass over the pending records\<close>

record resolution =
  rsTask :: string
  rsOutcome :: outcome
  rsSol :: bool

record settle_state =
  ssState :: worker_state
  ssResolved :: "resolution list"
  ssRestored :: bool
  ssChanged :: bool

definition update_record :: "string \<Rightarrow> (submission_record \<Rightarrow> submission_record) \<Rightarrow> worker_state \<Rightarrow> worker_state" where
  "update_record task f s =
     s\<lparr>wsSubmissions := map (\<lambda>r. if srTask r = task then f r else r) (wsSubmissions s)\<rparr>"

definition resolve :: "submission_record \<Rightarrow> outcome \<Rightarrow> bool \<Rightarrow> settle_state \<Rightarrow> settle_state" where
  "resolve record oc sol st =
     st\<lparr>ssResolved := ssResolved st @ [\<lparr>rsTask = srTask record, rsOutcome = oc, rsSol = sol\<rparr>]\<rparr>"

definition apply_completed ::
  "task_account \<Rightarrow> claim_account option \<Rightarrow> submission_account option \<Rightarrow> submission_record \<Rightarrow> settle_state \<Rightarrow> settle_state" where
  "apply_completed t claim submission record st =
     (let st1 = (if clearsEvidence claim submission
                 then st\<lparr>ssState := update_record (srTask record) (\<lambda>r. r\<lparr>srTerminalEvidence := None\<rparr>) (ssState st)\<rparr>
                 else st)
      in case classifyCompleted t claim submission record of
           Settle oc sol \<Rightarrow> resolve record oc sol st1
         | MarkStraggler \<Rightarrow> st1\<lparr>ssState := update_record (srTask record)
               (\<lambda>r. r\<lparr>srTerminalEvidence := Some CollaborativeStraggler\<rparr>) (ssState st1), ssChanged := True\<rparr>
         | Keep \<Rightarrow> st1)"

definition apply_revision ::
  "platform \<Rightarrow> claim_account \<Rightarrow> submission_account \<Rightarrow> submission_record \<Rightarrow> settle_state \<Rightarrow> settle_state" where
  "apply_revision p claim submission record st =
     st\<lparr>ssState := (ssState st)\<lparr>
          wsSubmissions := List.filter (\<lambda>r. srTask r \<noteq> srTask record) (wsSubmissions (ssState st)),
          wsOpenClaim := Some \<lparr>ocTask = srTask record,
            ocClaimedAt = claimTimestamp p claim (srSubmittedAt record), ocPhase = Claimed,
            ocClaimTransactionSignature = None, ocRevisionSubmissionCount = Some (suSubmissionCount submission),
            ocExecution = None, ocSubmission = None\<rparr>\<rparr>,
        ssRestored := True, ssChanged := True\<rparr>"

definition settleRecord ::
  "env \<Rightarrow> worker_agent \<Rightarrow> submission_record \<Rightarrow> settle_state \<Rightarrow> settle_state act" where
  "settleRecord E agent record st =
     (let task = srTask record in
      seq (readTask E task) (\<lambda>decodedTask.
      seq (now_ms E) (\<lambda>now.
      let insideGrace = inside_grace (e_platform E) now (srSubmittedAt record) in
      case decodedTask of
        None \<Rightarrow>
          if insideGrace then returning st
          else seq (readClaim E agent task) (\<lambda>claim.
            seq (readSubmission E agent task) (\<lambda>submission.
            seq (now_ms E) (\<lambda>later.
            returning (if rejected_and_over later claim submission then resolve record ORejected False st else st))))
      | Some t \<Rightarrow>
          if \<not> insideGrace \<and> \<not> ssRestored st \<and> wsOpenClaim (ssState st) = None
            \<and> (tkStatus t = TInProgress \<or> tkStatus t = TPendingValidation)
          then seq (readClaim E agent task) (\<lambda>claim.
            seq (readSubmission E agent task) (\<lambda>submission.
            seq (now_ms E) (\<lambda>later.
            returning (case (claim, submission) of
                (Some c, Some s) \<Rightarrow>
                  if isRevisionRequested later t c s then apply_revision (e_platform E) c s record st else st
              | _ \<Rightarrow> st))))
          else if tkStatus t = TCompleted
          then seq (readClaim E agent task) (\<lambda>claim.
            seq (readSubmission E agent task) (\<lambda>submission.
            returning (apply_completed t claim submission record st)))
          else if tkStatus t = TOpen
          then (if insideGrace then returning st
            else seq (readClaim E agent task) (\<lambda>claim.
              seq (readSubmission E agent task) (\<lambda>submission.
              seq (now_ms E) (\<lambda>later.
              returning (if tkCurrentWorkers t = 0 \<and> rejected_and_over later claim submission
                         then resolve record ORejected False st else st)))))
          else if tkStatus t = TCancelled then returning (resolve record OCancelled False st)
          else returning st)))"

fun settleRecords ::
  "env \<Rightarrow> worker_agent \<Rightarrow> submission_record list \<Rightarrow> settle_state \<Rightarrow> settle_state act" where
  "settleRecords E agent [] st = returning st"
| "settleRecords E agent (r # rs) st = seq (settleRecord E agent r st) (settleRecords E agent rs)"

section \<open>Earnings\<close>

definition is_paid :: "outcome \<Rightarrow> bool" where
  "is_paid oc \<longleftrightarrow> oc = OAccepted \<or> oc = OClosed"

definition is_paid_sol :: "resolution \<Rightarrow> bool" where
  "is_paid_sol r \<longleftrightarrow> rsSol r \<and> is_paid (rsOutcome r)"

text \<open>
  The confirmed resolutions and the new \<open>totalEarned\<close>: without a readable agent account that
  advanced beyond the baseline, paid SOL outcomes are deferred.
\<close>

definition confirmPaid :: "nat \<Rightarrow> resolution list \<Rightarrow> agent_account option \<Rightarrow> resolution list \<times> nat option" where
  "confirmPaid baseline resolved agentData =
     (case agentData of
        None \<Rightarrow> (List.filter (\<lambda>r. \<not> is_paid_sol r) resolved, None)
      | Some a \<Rightarrow>
          if agTotalEarned a \<le> baseline then (List.filter (\<lambda>r. \<not> is_paid_sol r) resolved, None)
          else (resolved, Some (agTotalEarned a)))"

definition earned_of :: "nat \<Rightarrow> nat \<Rightarrow> resolution \<Rightarrow> nat option" where
  "earned_of paidCount delta r =
     (if \<not> is_paid (rsOutcome r) then Some 0
      else if \<not> rsSol r then None
      else if paidCount = 1 then Some delta else None)"

record settlement_report =
  rpTask :: string
  rpOutcome :: outcome
  rpEarnedLamports :: "nat option"
  rpSettlementSignature :: "string option"
  rpReceiptUrl :: "string option"

text \<open>\<open>settlementReceiptUrl\<close> of the SDK with its default base.\<close>

definition settlementReceiptUrl :: "string \<Rightarrow> string res" where
  "settlementReceiptUrl signature =
     (if is_trimmed signature \<and> 64 \<le> length signature \<and> length signature \<le> 120 \<and> list_all is_base58 signature
      then Inr (''https://agenc.ag/receipt/'' @ signature)
      else Inl (PlainError ''settlementReceiptUrl requires a base58 transaction signature''))"

definition findSettlement :: "env \<Rightarrow> resolution \<Rightarrow> string option act" where
  "findSettlement E r =
     (case (is_paid (rsOutcome r), e_findSettlement E) of
        (True, Some look) \<Rightarrow>
          catching (call E (\<lambda>t. look t (rsTask r))) (\<lambda>_. returning None)
      | _ \<Rightarrow> returning None)"

definition settled_record ::
  "outcome \<Rightarrow> nat option \<Rightarrow> string option \<Rightarrow> string \<Rightarrow> submission_record \<Rightarrow> submission_record" where
  "settled_record oc earned signature at r =
     r\<lparr>srSettled := True, srOutcome := Some oc, srEarnedLamports := Some (map_option dec_print earned),
       srSettlementSignature := Some signature, srSettledAt := Some at\<rparr>"

fun reportSettlements ::
  "env \<Rightarrow> nat \<Rightarrow> nat \<Rightarrow> resolution list \<Rightarrow> worker_state \<Rightarrow> (worker_state \<times> settlement_report list) act" where
  "reportSettlements E paidCount delta [] state = returning (state, [])"
| "reportSettlements E paidCount delta (r # rs) state =
     seq (findSettlement E r) (\<lambda>signature.
     seq (case signature of None \<Rightarrow> returning None
          | Some s \<Rightarrow> seq (lift_res (settlementReceiptUrl s)) (\<lambda>u. returning (Some u))) (\<lambda>receipt.
     seq (now_iso E) (\<lambda>at.
     let earned = earned_of paidCount delta r in
     seq (reportSettlements E paidCount delta rs
           (update_record (rsTask r) (settled_record (rsOutcome r) earned signature at) state))
       (\<lambda>(state', reports). returning (state', \<lparr>rpTask = rsTask r, rpOutcome = rsOutcome r,
          rpEarnedLamports = earned, rpSettlementSignature = signature, rpReceiptUrl = receipt\<rparr> # reports)))))"

definition saveIfChanged :: "env \<Rightarrow> settle_state \<Rightarrow> settlement_report list act" where
  "saveIfChanged E st =
     (if ssChanged st then seq (saveState E (ssState st)) (\<lambda>_. returning []) else returning [])"

definition finishSettlements ::
  "env \<Rightarrow> settle_state \<Rightarrow> resolution list \<Rightarrow> nat option \<Rightarrow> settlement_report list act" where
  "finishSettlements E st resolved totalEarned =
     (if resolved = [] then saveIfChanged E st
      else
        let baseline = dec_value (wsTotalEarnedBaseline (ssState st));
            paidCount = (if totalEarned = None then 0 else length (List.filter is_paid_sol resolved));
            delta = (case totalEarned of None \<Rightarrow> 0 | Some n \<Rightarrow> n - baseline)
        in seq (reportSettlements E paidCount delta resolved (ssState st)) (\<lambda>(state, reports).
           seq (saveState E (case totalEarned of None \<Rightarrow> state
                 | Some n \<Rightarrow> state\<lparr>wsTotalEarnedBaseline := dec_print n\<rparr>)) (\<lambda>_.
           returning reports)))"

definition checkSettlements :: "env \<Rightarrow> worker_agent \<Rightarrow> settlement_report list act" where
  "checkSettlements E agent =
     seq (loadState E) (\<lambda>state.
     let pending = List.filter (\<lambda>r. \<not> srSettled r) (wsSubmissions state) in
     if pending = [] then returning []
     else
       seq (settleRecords E agent pending
             \<lparr>ssState = state, ssResolved = [], ssRestored = False, ssChanged = False\<rparr>) (\<lambda>st.
       if list_ex is_paid_sol (ssResolved st)
       then seq (call E (\<lambda>t. o_agent E t (waAgentPda agent))) (\<lambda>agentData.
         case confirmPaid (dec_value (wsTotalEarnedBaseline (ssState st))) (ssResolved st) agentData of
           (resolved, totalEarned) \<Rightarrow> finishSettlements E st resolved totalEarned)
       else finishSettlements E st (ssResolved st) None))"

end
