(* ===== verification/WorkerLoop.thy ===== *)
theory WorkerLoop
  imports WorkerSettle
begin

text \<open>
  Registration and the two modes of \<open>packages/agenc-worker/src/runtime.ts\<close>: \<open>ensureRegistered\<close>,
  one tick (\<open>runTickOnce\<close> under the state lock), and the steps of \<open>runUp\<close>, which its promise
  chain runs one at a time.
\<close>

section \<open>Registration\<close>

definition registrationFunding :: "env \<Rightarrow> nat \<Rightarrow> unit act" where
  "registrationFunding E minAgentStake =
     (case (e_getBalance E, e_getRent E) of
        (None, None) \<Rightarrow> returning ()
      | (Some getBalance, Some getRent) \<Rightarrow>
          seq (readRent E getRent AGENT_ACCOUNT_SIZE) (\<lambda>agentRent.
          seq (readRent E getRent CLAIM_ACCOUNT_SIZE) (\<lambda>claimRent.
          seq (readRent E getRent SUBMISSION_ACCOUNT_SIZE) (\<lambda>submissionRent.
          seq (call E getBalance) (\<lambda>balance.
          lift_res (case balance of
              None \<Rightarrow> Inl (PlainError ''Cannot mix BigInt and other types'')
            | Some b \<Rightarrow>
                guard_res (\<not> b < registrationFundingRequirement (int minAgentStake) agentRent claimRent submissionRent)
                  (PlainError ''insufficient funds for registering and working one task''))))))
      | _ \<Rightarrow> throwing (PlainError ''funding preflight requires both getBalance and getMinimumBalanceForRentExemption''))"

text \<open>The id is read from the state, or made and saved before anything is sent.\<close>

definition loadAgentId :: "env \<Rightarrow> bytes act" where
  "loadAgentId E =
     seq (loadState E) (\<lambda>state.
     case wsAgentIdHex state of
       Some h \<Rightarrow> lift_res (hexToBytes h)
     | None \<Rightarrow>
         seq (call E (\<lambda>t. Inr (o_agent_id E t))) (\<lambda>agentId.
         seq (saveState E (state\<lparr>wsAgentIdHex := Some (bytesToHex agentId)\<rparr>)) (\<lambda>_.
         returning agentId)))"

definition ensureRegistered :: "env \<Rightarrow> worker_agent act" where
  "ensureRegistered E =
     seq (loadAgentId E) (\<lambda>agentId.
     let agentPda = pda_agent (e_chain E) agentId in
     seq (call E (\<lambda>t. o_agent E t agentPda)) (\<lambda>existing.
     case existing of
       Some registration \<Rightarrow>
         if agAuthority registration \<noteq> e_signer E
         then throwing (PlainError ''agent exists with another authority: refusing to operate a foreign agent'')
         else returning \<lparr>waAgentId = agentId, waAgentPda = agentPda, waRegistered = True\<rparr>
     | None \<Rightarrow>
         if e_dry_run E
         then returning \<lparr>waAgentId = agentId, waAgentPda = agentPda, waRegistered = False\<rparr>
         else
           seq (call E (o_min_stake E)) (\<lambda>minAgentStake.
           seq (registrationFunding E minAgentStake) (\<lambda>_.
           seq (effect E (RegisterSent agentId) (\<lambda>t. o_register E t agentId)) (\<lambda>_.
           returning \<lparr>waAgentId = agentId, waAgentPda = agentPda, waRegistered = True\<rparr>)))))"

section \<open>One tick\<close>

record tick_result =
  trOutcome :: "process_outcome option"
  trSettlements :: "settlement_report list"
  trCandidateCount :: nat

text \<open>Anything that claimed, dry-ran, or executed ends the sweep.\<close>

fun ends_sweep :: "process_outcome \<Rightarrow> bool" where
  "ends_sweep (Submitted _ _) = True"
| "ends_sweep (ExecutionFailed _ _) = True"
| "ends_sweep (DryRun _) = True"
| "ends_sweep _ = False"

fun sweepCandidates ::
  "env \<Rightarrow> worker_agent \<Rightarrow> claim_candidate list \<Rightarrow> process_outcome option \<Rightarrow> process_outcome option act" where
  "sweepCandidates E agent [] outcome = returning outcome"
| "sweepCandidates E agent (c # cs) outcome =
     seq (processCandidate E agent c) (\<lambda>result.
     if ends_sweep result then returning (Some result) else sweepCandidates E agent cs (Some result))"

definition sweep :: "env \<Rightarrow> worker_agent \<Rightarrow> (process_outcome option \<times> nat) act" where
  "sweep E agent =
     seq (loadState E) (\<lambda>state.
     seq (call E (o_open_tasks E)) (\<lambda>fetched.
     seq (call E (o_job_specs E)) (\<lambda>specs.
     let candidates = listClaimCandidates (e_config E) state fetched specs in
     seq (sweepCandidates E agent candidates None) (\<lambda>outcome.
     returning (outcome, length candidates)))))"

definition settleIfRegistered :: "env \<Rightarrow> worker_agent \<Rightarrow> settlement_report list act" where
  "settleIfRegistered E agent = (if waRegistered agent then checkSettlements E agent else returning [])"

definition preflight :: "env \<Rightarrow> unit act" where
  "preflight E =
     seq (lift_res (assertActiveWorkerConfig (e_api_key E) (e_config E))) (\<lambda>_.
     lift_res (preflightExecutor (e_locate E) (e_help E) (rcExecutor (e_config E))
       (rcExecutorMode (e_config E) = Safe)))"

definition runTickOnceLocked :: "env \<Rightarrow> tick_result act" where
  "runTickOnceLocked E =
     seq (preflight E) (\<lambda>_.
     seq (ensureRegistered E) (\<lambda>agent.
     seq (settleIfRegistered E agent) (\<lambda>initialSettlements.
     seq (resumeOpenClaim E agent) (\<lambda>resumed.
     seq (case resumed of Some outcome \<Rightarrow> returning (Some outcome, 0) | None \<Rightarrow> sweep E agent) (\<lambda>(outcome, count).
     seq (settleIfRegistered E agent) (\<lambda>finalSettlements.
     returning \<lparr>trOutcome = outcome, trSettlements = initialSettlements @ finalSettlements,
         trCandidateCount = count\<rparr>))))))"

section \<open>Long-running mode\<close>

text \<open>
  A step of the chain: the settlement timer, or a task the watcher delivered.  Steps swallow their
  errors, and the chain runs them in the order they were enqueued.
\<close>

datatype up_step = TimerStep | TaskStep claim_candidate

definition swallow :: "unit act \<Rightarrow> unit act" where
  "swallow m = catching m (\<lambda>_. returning ())"

definition runStep :: "env \<Rightarrow> worker_agent \<Rightarrow> up_step \<Rightarrow> unit act" where
  "runStep E agent step = swallow (case step of
      TimerStep \<Rightarrow>
        seq (checkSettlements E agent) (\<lambda>_. seq (resumeOpenClaim E agent) (\<lambda>_. returning ()))
    | TaskStep c \<Rightarrow>
        seq (checkSettlements E agent) (\<lambda>_.
        seq (resumeOpenClaim E agent) (\<lambda>resumed.
        if resumed \<noteq> None then returning ()
        else seq (processCandidate E agent c) (\<lambda>_.
          seq (checkSettlements E agent) (\<lambda>_. returning ())))))"

fun runSteps :: "env \<Rightarrow> worker_agent \<Rightarrow> up_step list \<Rightarrow> unit act" where
  "runSteps E agent [] = returning ()"
| "runSteps E agent (s # ss) = seq (runStep E agent s) (\<lambda>_. runSteps E agent ss)"

definition runUpLocked :: "env \<Rightarrow> up_step list \<Rightarrow> unit act" where
  "runUpLocked E steps =
     seq (preflight E) (\<lambda>_.
     seq (ensureRegistered E) (\<lambda>agent.
     seq (checkSettlements E agent) (\<lambda>_.
     seq (resumeOpenClaim E agent) (\<lambda>_.
     runSteps E agent steps))))"

section \<open>Status\<close>

record worker_status =
  stWallet :: string
  stAgentPda :: "string option"
  stAgentIdHex :: "string option"
  stRegistered :: bool
  stBalanceLamports :: "int option"
  stOpenClaim :: "open_claim option"
  stSubmissions :: "submission_record list"

definition statusAgent :: "env \<Rightarrow> string option \<Rightarrow> (string option \<times> bool) act" where
  "statusAgent E agentIdHex = (case agentIdHex of
      None \<Rightarrow> returning (None, False)
    | Some h \<Rightarrow>
        seq (lift_res (hexToBytes h)) (\<lambda>agentId.
        let agentPda = pda_agent (e_chain E) agentId in
        seq (call E (\<lambda>t. o_agent E t agentPda)) (\<lambda>existing. returning (Some agentPda, existing \<noteq> None))))"

definition workerStatus :: "env \<Rightarrow> worker_status act" where
  "workerStatus E =
     seq (loadState E) (\<lambda>state.
     seq (statusAgent E (wsAgentIdHex state)) (\<lambda>(agentPda, registered).
     seq (case e_getBalance E of None \<Rightarrow> returning None
          | Some getBalance \<Rightarrow> catching (call E getBalance) (\<lambda>_. returning None)) (\<lambda>balance.
     returning \<lparr>stWallet = e_signer E, stAgentPda = agentPda, stAgentIdHex = wsAgentIdHex state,
       stRegistered = registered, stBalanceLamports = balance, stOpenClaim = wsOpenClaim state,
       stSubmissions = wsSubmissions state\<rparr>)))"

end
