(* ===== verification/WalSpec.thy ===== *)
theory WalSpec
  imports Guarantee WorkerLoop
begin

text \<open>
  The abstract specification of the worker: which changes of the durable state a save may make
  (\<open>change\<close>), and which effects may happen in which durable state (\<open>wal\<close>).  It is a state machine on
  the open claim (none, claiming, claimed, executed, uploading, submitting, committed) together with
  the evidence, read from the chain, that each step rests on.  The evidence is a fact about the
  environment: some read of the run gave it.
\<close>

section \<open>Evidence\<close>

text \<open>The worker's own agent account: the address derived from the agent id of the durable state.  Every read of
  a claim, a submission or earnings below is a read for this agent \<open>A\<close>.\<close>

definition agent_of :: "env \<Rightarrow> worker_state \<Rightarrow> string option" where
  "agent_of E s = (case wsAgentIdHex s of None \<Rightarrow> None
     | Some h \<Rightarrow> (case hexToBytes h of Inl e \<Rightarrow> None | Inr agentId \<Rightarrow> Some (pda_agent (e_chain E) agentId)))"

definition task_read :: "env \<Rightarrow> string \<Rightarrow> task_account option \<Rightarrow> bool" where
  "task_read E task x \<longleftrightarrow> (\<exists>t. o_task E t task = Inr x)"

definition claim_read :: "env \<Rightarrow> string option \<Rightarrow> string \<Rightarrow> claim_account option \<Rightarrow> bool" where
  "claim_read E A task x \<longleftrightarrow> (\<exists>t pda. A = Some pda \<and> o_claim E t task = Inr x \<and>
     (\<forall>c. x = Some c \<longrightarrow> clTask c = task \<and> clWorker c = pda))"

definition submission_read :: "env \<Rightarrow> string option \<Rightarrow> string \<Rightarrow> submission_account option \<Rightarrow> bool" where
  "submission_read E A task x \<longleftrightarrow> (\<exists>t pda. A = Some pda \<and> o_submission E t task = Inr x \<and>
     (\<forall>s. x = Some s \<longrightarrow> suTask s = task \<and> suWorker s = pda \<and> suClaim s = pda_claim (e_chain E) task pda))"

definition spec_verified :: "env \<Rightarrow> string \<Rightarrow> verified_job_spec \<Rightarrow> bool" where
  "spec_verified E task v \<longleftrightarrow> (\<exists>t. fetchAndVerifyJobSpec (e_platform E) (o_fetchers E t)
     DEFAULT_MAX_JOB_SPEC_BYTES (o_job_spec E t task) = Inr v)"

definition funded :: "env \<Rightarrow> bool" where
  "funded E \<longleftrightarrow> (\<exists>getBalance getRent t1 t2 t3 claimRent submissionRent balance.
     e_getBalance E = Some getBalance \<and> e_getRent E = Some getRent \<and>
     getRent t1 CLAIM_ACCOUNT_SIZE = Inr (Some claimRent) \<and>
     getRent t2 SUBMISSION_ACCOUNT_SIZE = Inr (Some submissionRent) \<and>
     getBalance t3 = Inr (Some balance) \<and> claimFundingRequirement claimRent submissionRent \<le> balance)"

text \<open>The operator's policy, on the task account: open, paid in SOL within the limits, no capability missing, by an
  allowed creator.\<close>

definition within_policy :: "runtime_config \<Rightarrow> task_account \<Rightarrow> bool" where
  "within_policy config t \<longleftrightarrow> tkStatus t = TOpen \<and> tkRewardMint t = None \<and>
     (\<forall>n. bit (tkRequiredCapabilities t) n \<longrightarrow> bit (rcCapabilities config) n) \<and>
     rcMinRewardLamports config \<le> tkRewardAmount t \<and>
     (\<forall>m. rcMaxRewardLamports config = Some m \<longrightarrow> tkRewardAmount t \<le> m) \<and>
     (\<forall>cs. rcCreatorAllowlist config = Some cs \<longrightarrow> tkCreator t \<in> set cs)"

text \<open>The bytes of a task's hire record, if it has one, and whether the account may hold one.\<close>

fun hire_bytes :: "hire_read \<Rightarrow> bytes option" where
  "hire_bytes (HireBytes d) = (if d = Some [] then None else d)"
| "hire_bytes (HireInfo i) = (case i of None \<Rightarrow> None
     | Some a \<Rightarrow> if asOwner a = Some DEFAULT_ADDRESS then None else asData a)"

fun hire_owned :: "hire_read \<Rightarrow> bool" where
  "hire_owned (HireBytes d) = True"
| "hire_owned (HireInfo i) = (case i of None \<Rightarrow> True
     | Some a \<Rightarrow> asExecutable a = Some False \<and>
         (asOwner a = Some AGENC_COORDINATION_PROGRAM_ADDRESS \<or> asOwner a = Some DEFAULT_ADDRESS \<and> asData a = Some []))"

text \<open>The hire allows the agent \<open>pda\<close> to work on the job spec with digest \<open>h\<close>: there is no hire, or it is for this
  task, designates this agent or nobody, and the task commits to \<open>h\<close>.\<close>

definition hire_allows :: "chain \<Rightarrow> string \<Rightarrow> hire_read \<Rightarrow> string \<Rightarrow> bytes \<Rightarrow> bytes \<Rightarrow> bool" where
  "hire_allows ch pda read task description h \<longleftrightarrow> hire_owned read \<and> (case hire_bytes read of None \<Rightarrow> True
     | Some data \<Rightarrow> \<exists>hr. decode_hire ch data = Inr hr \<and> hrTask hr = task \<and>
         hrDesignatedProvider hr \<in> {pda, DEFAULT_ADDRESS} \<and>
         length description = 64 \<and> drop 32 description = h \<and> h \<noteq> replicate 32 0)"

text \<open>What the worker has established on the chain when it broadcasts a claim, and in its own state: no submission
  for the task in the ledger, and no claim held but the marker of this one.\<close>

definition claim_grounds :: "env \<Rightarrow> string option \<Rightarrow> string \<Rightarrow> bytes \<Rightarrow> bool" where
  "claim_grounds E A task h \<longleftrightarrow> \<not> e_dry_run E \<and> funded E \<and>
     (\<exists>pda account read t v prompt. A = Some pda \<and>
        task_read E task (Some account) \<and> within_policy (e_config E) account \<and>
        o_hire E t task = Inr read \<and> hire_allows (e_chain E) pda read task (tkDescription account) h \<and>
        spec_verified E task v \<and> vjsJobSpecHash v = h \<and>
        prepare_prompt (e_platform E) (tkDescription account) (vjsContent v) None = Inr prompt)"

definition unworked :: "worker_state \<Rightarrow> string \<Rightarrow> bool" where
  "unworked s task \<longleftrightarrow> task \<notin> set (ledger_tasks s) \<and>
     (\<forall>c. wsOpenClaim s = Some c \<longrightarrow> ocTask c = task \<and> ocPhase c = Claiming)"

definition claim_policy :: "env \<Rightarrow> string option \<Rightarrow> worker_state \<Rightarrow> string \<Rightarrow> bytes \<Rightarrow> bool" where
  "claim_policy E A s task h \<longleftrightarrow> claim_grounds E A task h \<and> unworked s task"

text \<open>The worker's agent account reported these total earnings.\<close>

definition earnings_read :: "env \<Rightarrow> string option \<Rightarrow> nat \<Rightarrow> bool" where
  "earnings_read E A n \<longleftrightarrow> (\<exists>t pda a. A = Some pda \<and> o_agent E t pda = Inr (Some a) \<and> agTotalEarned a = n)"

text \<open>The buyer's request for changes that the submission account names, as the transport resolves it.\<close>

definition change_request :: "env \<Rightarrow> string option \<Rightarrow> string \<Rightarrow> string \<Rightarrow> bool" where
  "change_request E A task changes \<longleftrightarrow> (\<exists>transport t s envelope. e_transport E = Some transport \<and>
     submission_read E A task (Some s) \<and> suRejectionHash s \<noteq> replicate (length (suRejectionHash s)) 0 \<and>
     transport t task (suRejectionHash s) = Inr envelope \<and> teTaskPda envelope = task \<and>
     teRole envelope = ''buyer'' \<and> teCanonicalJson envelope = changes)"

text \<open>A prompt made from a task description and verified content, within the limits; in a revision round \<open>n\<close>, and
  only there, with the change request.\<close>

definition prompt_policy :: "env \<Rightarrow> string option \<Rightarrow> nat option \<Rightarrow> string \<Rightarrow> string \<Rightarrow> bool" where
  "prompt_policy E A n task prompt \<longleftrightarrow> (\<exists>account v changes. task_read E task (Some account) \<and>
     spec_verified E task v \<and>
     prepare_prompt (e_platform E) (tkDescription account) (vjsContent v) changes = Inr prompt \<and>
     (case changes of None \<Rightarrow> n = None | Some text \<Rightarrow> change_request E A task text))"

text \<open>The lifecycle of a claim is over on chain, or no claim exists and no result was produced.\<close>

definition claim_gone :: "env \<Rightarrow> string option \<Rightarrow> open_claim \<Rightarrow> bool" where
  "claim_gone E A c \<longleftrightarrow> claim_read E A (ocTask c) None \<and>
     ((ocExecution c = None \<and> ocSubmission c = None) \<or>
      (submission_read E A (ocTask c) None \<and>
       (\<exists>t. task_read E (ocTask c) t \<and> (t = None \<or> reopened_or_terminal t))))"

text \<open>A ledger record is our own broadcast intent, or what the chain holds.\<close>

definition commit_evidence :: "env \<Rightarrow> string option \<Rightarrow> open_claim \<Rightarrow> submission_record \<Rightarrow> bool" where
  "commit_evidence E A c r \<longleftrightarrow>
     (\<exists>su. ocSubmission c = Some su \<and> srResultHashHex r = siResultHashHex su \<and>
        srResultUri r = siResultUri su \<and> srRewardAmount r = siRewardAmount su) \<or>
     (\<exists>a. submission_read E A (ocTask c) (Some a) \<and> suStatus a \<noteq> SIdle \<and>
        srResultHashHex r = bytesToHex (suProofHash a))"

text \<open>On a completed task, a submission is accepted when the chain says so: its own status, or a claim that was
  validated and paid, or, with both accounts closed and a reward in SOL, unless it was seen to straggle.  It
  straggles when another worker's result completed the collaborative task while it was still waiting, and its
  claim is closed without it.\<close>

definition accepted_on_chain :: "task_account \<Rightarrow> claim_account option \<Rightarrow> submission_account option \<Rightarrow> bool \<Rightarrow> bool" where
  "accepted_on_chain t claim submission straggling \<longleftrightarrow>
     (case submission of Some s \<Rightarrow> suStatus s = SAccepted | None \<Rightarrow> False) \<or>
     ((case submission of Some s \<Rightarrow> suStatus s = SIdle | None \<Rightarrow> True) \<and>
      (case claim of Some c \<Rightarrow> clIsCompleted c \<and> clIsValidated c \<and> clRewardPaid c > 0
         | None \<Rightarrow> tkRewardMint t = None \<and> \<not> straggling))"

definition straggles :: "env \<Rightarrow> string option \<Rightarrow> string \<Rightarrow> bool" where
  "straggles E A task \<longleftrightarrow> (\<exists>t s. task_read E task (Some t) \<and> tkStatus t = TCompleted \<and> tkType t = TTCollaborative \<and>
     submission_read E A task (Some s) \<and> suStatus s = SSubmitted)"

definition outcome_evidence :: "env \<Rightarrow> string option \<Rightarrow> submission_record \<Rightarrow> outcome \<Rightarrow> bool" where
  "outcome_evidence E A r oc = (case oc of
      OAccepted \<Rightarrow> (\<exists>t claim submission. task_read E (srTask r) (Some t) \<and> tkStatus t = TCompleted \<and>
        claim_read E A (srTask r) claim \<and> submission_read E A (srTask r) submission \<and>
        accepted_on_chain t claim submission (srTerminalEvidence r = Some CollaborativeStraggler))
    | ORejected \<Rightarrow> (\<exists>s. submission_read E A (srTask r) (Some s) \<and> suStatus s = SRejected)
    | OCancelled \<Rightarrow> (\<exists>t. task_read E (srTask r) (Some t) \<and> tkStatus t = TCancelled)
    | OStraggler \<Rightarrow> (\<exists>t submission. task_read E (srTask r) (Some t) \<and> tkStatus t = TCompleted \<and>
        claim_read E A (srTask r) None \<and> submission_read E A (srTask r) submission \<and>
        (case submission of Some s \<Rightarrow> suStatus s = SIdle | None \<Rightarrow> True) \<and>
        srTerminalEvidence r = Some CollaborativeStraggler)
    | OClosed \<Rightarrow> False)"

definition revision_evidence :: "env \<Rightarrow> string option \<Rightarrow> string \<Rightarrow> nat \<Rightarrow> bool" where
  "revision_evidence E A task n \<longleftrightarrow> (\<exists>s t c. submission_read E A task (Some s) \<and> suStatus s = SRejected \<and>
     suSubmissionCount s = n \<and> claim_read E A task (Some c) \<and> task_read E task (Some t) \<and>
     tkCurrentWorkers t \<noteq> 0 \<and> (tkStatus t = TInProgress \<or> tkStatus t = TPendingValidation))"

section \<open>Records\<close>

definition same_submission :: "submission_record \<Rightarrow> submission_record \<Rightarrow> bool" where
  "same_submission r r' \<longleftrightarrow> srTask r' = srTask r \<and> srSubmissionSignature r' = srSubmissionSignature r \<and>
     srResultUri r' = srResultUri r \<and> srResultHashHex r' = srResultHashHex r \<and>
     srRewardAmount r' = srRewardAmount r \<and> srSubmittedAt r' = srSubmittedAt r"

definition record_step :: "env \<Rightarrow> string option \<Rightarrow> submission_record \<Rightarrow> submission_record \<Rightarrow> bool" where
  "record_step E A r r' \<longleftrightarrow> same_submission r r' \<and> (srSettled r \<longrightarrow> r' = r) \<and>
     (srTerminalEvidence r' = srTerminalEvidence r \<or> srTerminalEvidence r' = None \<or> straggles E A (srTask r)) \<and>
     (srSettled r' \<and> \<not> srSettled r \<longrightarrow>
        (\<exists>oc. srOutcome r' = Some oc \<and> outcome_evidence E A r oc))"

text \<open>The lamports a record is credited with, and what a save credits: the records it settles.\<close>

definition earned_amount :: "submission_record \<Rightarrow> nat" where
  "earned_amount r = (if srSettled r
     then (case srEarnedLamports r of Some (Some e) \<Rightarrow> dec_value e | _ \<Rightarrow> 0) else 0)"

definition settled_tasks :: "worker_state \<Rightarrow> string set" where
  "settled_tasks s = srTask ` set (List.filter srSettled (wsSubmissions s))"

definition credit :: "worker_state \<Rightarrow> worker_state \<Rightarrow> nat" where
  "credit s n = sum_list (map earned_amount (List.filter (\<lambda>r. srTask r \<notin> settled_tasks s) (wsSubmissions n)))"

abbreviation baseline :: "worker_state \<Rightarrow> nat" where
  "baseline s \<equiv> dec_value (wsTotalEarnedBaseline s)"

section \<open>Changes of the durable state\<close>

definition revision_marker :: "string \<Rightarrow> nat \<Rightarrow> open_claim \<Rightarrow> bool" where
  "revision_marker task n c \<longleftrightarrow> ocTask c = task \<and> ocPhase c = Claimed \<and>
     ocRevisionSubmissionCount c = Some n \<and> ocExecution c = None \<and> ocSubmission c = None"

inductive change :: "env \<Rightarrow> string option \<Rightarrow> worker_state \<Rightarrow> worker_state \<Rightarrow> bool" for E A where
  unchanged: "change E A s s"
| agent_id: "wsAgentIdHex s = None \<Longrightarrow> change E A s (s\<lparr>wsAgentIdHex := Some h\<rparr>)"
| claiming: "wsOpenClaim s = None \<Longrightarrow> claim_policy E A s task h \<Longrightarrow>
    change E A s (s\<lparr>wsOpenClaim := Some (fresh_marker task at Claiming None)\<rparr>)"
| claimed: "wsOpenClaim s = Some c \<Longrightarrow> ocPhase c = Claiming \<or> ocPhase c = Claimed \<Longrightarrow>
    ocTask c' = ocTask c \<Longrightarrow> ocPhase c' = Claimed \<Longrightarrow>
    ocRevisionSubmissionCount c' = ocRevisionSubmissionCount c \<Longrightarrow>
    ocExecution c' = None \<Longrightarrow> ocSubmission c' = None \<Longrightarrow>
    change E A s (s\<lparr>wsOpenClaim := Some c'\<rparr>)"
| claim_signature: "wsOpenClaim s = Some c \<Longrightarrow>
    change E A s (s\<lparr>wsOpenClaim := Some (c\<lparr>ocClaimTransactionSignature := sig\<rparr>)\<rparr>)"
| executed: "wsOpenClaim s = Some c \<Longrightarrow> ocPhase c = Claimed \<Longrightarrow>
    change E A s (s\<lparr>wsOpenClaim := Some (advance c (ocTask c) Executed (Some x) None)\<rparr>)"
| uploading: "wsOpenClaim s = Some c \<Longrightarrow> ocExecution c = Some x \<Longrightarrow>
    change E A s (s\<lparr>wsOpenClaim := Some (advance c (ocTask c) Uploading (Some x) None)\<rparr>)"
| submitting: "wsOpenClaim s = Some c \<Longrightarrow> ocExecution c = Some x \<Longrightarrow>
    siResultHashHex su = exResultHashHex x \<Longrightarrow> siRewardAmount su = exRewardAmount x \<Longrightarrow>
    change E A s (s\<lparr>wsOpenClaim := Some (advance c (ocTask c) Submitting None (Some su))\<rparr>)"
| broadcasting: "wsOpenClaim s = Some c \<Longrightarrow> ocPhase c = Submitting \<Longrightarrow> ocSubmission c = Some su \<Longrightarrow>
    change E A s (s\<lparr>wsOpenClaim := Some (c\<lparr>ocSubmission := Some (su\<lparr>siLastBroadcastAt := Some at\<rparr>)\<rparr>)\<rparr>)"
| submit_signature: "wsOpenClaim s = Some c \<Longrightarrow> ocPhase c = Submitting \<Longrightarrow> ocSubmission c = Some su \<Longrightarrow>
    change E A s (s\<lparr>wsOpenClaim := Some (c\<lparr>ocSubmission := Some (su\<lparr>siTransactionSignature := sig\<rparr>)\<rparr>)\<rparr>)"
| committed: "wsOpenClaim s = Some c \<Longrightarrow> srTask r = ocTask c \<Longrightarrow> \<not> srSettled r \<Longrightarrow>
    commit_evidence E A c r \<Longrightarrow>
    length (unsettled (wsSubmissions s)) < MAX_UNSETTLED_SUBMISSIONS \<Longrightarrow>
    change E A s (s\<lparr>wsOpenClaim := None, wsSubmissions := wsSubmissions s @ [r]\<rparr>)"
| released: "wsOpenClaim s = Some c \<Longrightarrow> claim_gone E A c \<Longrightarrow> change E A s (s\<lparr>wsOpenClaim := None\<rparr>)"
| revised: "wsOpenClaim s = Some c \<Longrightarrow> revision_marker (ocTask c) n c' \<Longrightarrow>
    ocRevisionSubmissionCount c \<noteq> Some n \<Longrightarrow> revision_evidence E A (ocTask c) n \<Longrightarrow>
    change E A s (s\<lparr>wsOpenClaim := Some c'\<rparr>)"
| settling: "wsAgentIdHex n = wsAgentIdHex s \<Longrightarrow>
    (taken = None \<and> wsOpenClaim n = wsOpenClaim s) \<or>
    (\<exists>r \<in> set (unsettled (wsSubmissions s)). \<exists>c k. taken = Some (srTask r) \<and> wsOpenClaim s = None \<and>
       wsOpenClaim n = Some c \<and> revision_marker (srTask r) k c \<and> revision_evidence E A (srTask r) k) \<Longrightarrow>
    wsSubmissions n = map f (List.filter (\<lambda>r. Some (srTask r) \<noteq> taken) (wsSubmissions s)) \<Longrightarrow>
    (\<And>r. r \<in> set (wsSubmissions s) \<Longrightarrow> record_step E A r (f r)) \<Longrightarrow>
    baseline n = baseline s \<or> (baseline s < baseline n \<and> earnings_read E A (baseline n)) \<Longrightarrow>
    credit s n \<le> baseline n - baseline s \<Longrightarrow>
    change E A s n"

section \<open>Effects\<close>

inductive wal :: "env \<Rightarrow> string option \<Rightarrow> worker_state \<Rightarrow> event \<Rightarrow> worker_state \<Rightarrow> bool" for E A where
  saved: "change E A s n \<Longrightarrow> valid_state (e_platform E) n \<Longrightarrow> wal E A s (Saved (pruned n)) (pruned n)"
| registered: "\<not> e_dry_run E \<Longrightarrow> wsAgentIdHex s = Some h \<Longrightarrow> hexToBytes h = Inr agentId \<Longrightarrow>
    wal E A s (RegisterSent agentId) s"
| claim_sent: "wsOpenClaim s = Some c \<Longrightarrow> ocTask c = task \<Longrightarrow> ocPhase c = Claiming \<Longrightarrow>
    claim_policy E A s task h \<Longrightarrow> wal E A s (ClaimSent task h) s"
| ran: "\<not> e_dry_run E \<Longrightarrow> wsOpenClaim s = Some c \<Longrightarrow> ocTask c = task \<Longrightarrow> ocPhase c = Claimed \<Longrightarrow>
    prompt_policy E A (ocRevisionSubmissionCount c) task prompt \<Longrightarrow> wal E A s (ExecutorRun task prompt) s"
| uploaded: "\<not> e_dry_run E \<Longrightarrow> wsOpenClaim s = Some c \<Longrightarrow> ocTask c = task \<Longrightarrow> ocPhase c = Uploading \<Longrightarrow>
    ocExecution c = Some x \<Longrightarrow> exResultHashHex x = h \<Longrightarrow> wal E A s (UploadSent task h) s"
| submitted: "\<not> e_dry_run E \<Longrightarrow> wsOpenClaim s = Some c \<Longrightarrow> ocTask c = task \<Longrightarrow> ocPhase c = Submitting \<Longrightarrow>
    ocSubmission c = Some su \<Longrightarrow> siResultHashHex su = h \<Longrightarrow> siLastBroadcastAt su \<noteq> None \<Longrightarrow>
    wal E A s (SubmitSent task h) s"

text \<open>The triples of the runtime, over the durable state of \<open>E\<close>, and the agent in whose name a handler runs.\<close>

abbreviation me :: "worker_agent \<Rightarrow> string option" where "me agent \<equiv> Some (waAgentPda agent)"

abbreviation wal_triple ::
  "env \<Rightarrow> string option \<Rightarrow> (worker_state \<Rightarrow> bool) \<Rightarrow> 'a act \<Rightarrow> ('a \<Rightarrow> worker_state \<Rightarrow> bool) \<Rightarrow>
   (worker_error \<Rightarrow> worker_state \<Rightarrow> bool) \<Rightarrow> bool" where
  "wal_triple E A \<equiv> triple (durable E) (wal E A)"

text \<open>Any end.\<close>

abbreviation any :: "'a \<Rightarrow> worker_state \<Rightarrow> bool" where "any \<equiv> \<lambda>_ _. True"

abbreviation anywhere :: "worker_state \<Rightarrow> bool" where "anywhere \<equiv> \<lambda>_. True"

lemma any_of: "wal_triple E A P m Q X \<Longrightarrow> wal_triple E A P m any any"
  by (erule triple_post) simp_all

end
