(* ===== verification/WalSubmit.thy ===== *)
theory WalSubmit
  imports WalSpec
begin

text \<open>
  The submission path keeps the write-ahead discipline: from any durable state
  \<open>submitPreparedResult\<close>, \<open>continueExecutedResult\<close> and \<open>executeAndSubmit\<close> only take steps of \<open>wal\<close>,
  whatever fails and wherever the process dies.
\<close>

section \<open>Reads\<close>

lemma checkClaim_own:
  "checkClaim pda task x = Inr y \<Longrightarrow> y = x \<and> (\<forall>c. x = Some c \<longrightarrow> clTask c = task \<and> clWorker c = pda)"
  by (auto simp: checkClaim_def split: option.splits if_splits)

lemma checkSubmission_own:
  "checkSubmission ch pda task x = Inr y \<Longrightarrow>
   y = x \<and> (\<forall>s. x = Some s \<longrightarrow> suTask s = task \<and> suWorker s = pda \<and> suClaim s = pda_claim ch task pda)"
  by (auto simp: checkSubmission_def split: option.splits if_splits)

lemma readTask_seq:
  assumes "\<And>a. task_read E task a \<Longrightarrow> wal_triple E A P (g a) Q X" "\<And>e s. P s \<Longrightarrow> X e s"
  shows "wal_triple E A P (seq (readTask E task) g) Q X"
  unfolding readTask_def by (rule guarded.triple_call_seq) (use assms in \<open>auto simp: task_read_def\<close>)

lemma readClaim_seq:
  assumes "\<And>a. claim_read E (me agent) task a \<Longrightarrow> wal_triple E (me agent) P (g a) Q X" "\<And>e s. P s \<Longrightarrow> X e s"
  shows "wal_triple E (me agent) P (seq (readClaim E agent task) g) Q X"
  unfolding readClaim_def
  by (rule guarded.triple_call_seq)
    (use assms in \<open>auto simp: claim_read_def bind_res_Inr_iff dest!: checkClaim_own\<close>)

lemma readSubmission_seq:
  assumes "\<And>a. submission_read E (me agent) task a \<Longrightarrow> wal_triple E (me agent) P (g a) Q X" "\<And>e s. P s \<Longrightarrow> X e s"
  shows "wal_triple E (me agent) P (seq (readSubmission E agent task) g) Q X"
  unfolding readSubmission_def
  by (rule guarded.triple_call_seq)
    (use assms in \<open>auto simp: submission_read_def bind_res_Inr_iff dest!: checkSubmission_own\<close>)

lemma now_ms_seq:
  assumes "\<And>a. wal_triple E A P (g a) Q X" "\<And>e s. P s \<Longrightarrow> X e s"
  shows "wal_triple E A P (seq (now_ms E) g) Q X"
  unfolding now_ms_def by (rule guarded.triple_call_seq) (use assms in auto)

lemma triple_now_iso:
  assumes "\<And>e s. P s \<Longrightarrow> X e s"
  shows "wal_triple E A P (now_iso E) (\<lambda>_. P) X"
  unfolding now_iso_def by (intro now_ms_seq triple_returning assms)

lemma now_iso_seq:
  assumes "\<And>a. wal_triple E A P (g a) Q X" "\<And>e s. P s \<Longrightarrow> X e s"
  shows "wal_triple E A P (seq (now_iso E) g) Q X"
  by (rule triple_seq [OF triple_now_iso]) (use assms in auto)

lemma attempt_verify_seq:
  assumes "\<And>e. wal_triple E A P (g (Inl e)) Q X" "\<And>v. spec_verified E task v \<Longrightarrow> wal_triple E A P (g (Inr v)) Q X"
  shows "wal_triple E A P (seq (attempt (verifyJobSpec E task)) g) Q X"
proof (rule triple_seq)
  show "wal_triple E A P (attempt (verifyJobSpec E task))
      (\<lambda>r s. P s \<and> (case r of Inl _ \<Rightarrow> True | Inr v \<Rightarrow> spec_verified E task v)) X"
    unfolding verifyJobSpec_def
    by (rule triple_attempt, rule guarded.triple_call) (auto simp: spec_verified_def)
  show "wal_triple E A (\<lambda>s. P s \<and> (case r of Inl _ \<Rightarrow> True | Inr v \<Rightarrow> spec_verified E task v)) (g r) Q X" for r
    by (cases r; rule triple_fix) (use assms in \<open>auto intro: triple_pre\<close>)
qed

lemma wal_save_seq:
  assumes "\<And>s. P s \<Longrightarrow> valid_state (e_platform E) new \<Longrightarrow> change E A s new"
    "valid_state (e_platform E) new \<Longrightarrow> wal_triple E A (\<lambda>s. s = pruned new) (f ()) Q X"
    "\<And>e s. P s \<Longrightarrow> X e s" "\<And>e. valid_state (e_platform E) new \<Longrightarrow> X e (pruned new)"
  shows "wal_triple E A P (seq (saveState E new) f) Q X"
  by (rule guarded.triple_save_seq) (use assms in \<open>auto intro: wal.saved\<close>)

lemma wal_save:
  assumes "\<And>s. P s \<Longrightarrow> valid_state (e_platform E) new \<Longrightarrow> change E A s new"
    "valid_state (e_platform E) new \<Longrightarrow> Q () (pruned new)"
    "\<And>e s. P s \<Longrightarrow> X e s" "\<And>e. valid_state (e_platform E) new \<Longrightarrow> X e (pruned new)"
  shows "wal_triple E A P (saveState E new) Q X"
  by (rule guarded.triple_save) (use assms in \<open>auto intro: wal.saved\<close>)

lemma wal_save_return:
  assumes "\<And>s. P s \<Longrightarrow> valid_state (e_platform E) new \<Longrightarrow> change E A s new"
    "valid_state (e_platform E) new \<Longrightarrow> Q a (pruned new)"
    "\<And>e s. P s \<Longrightarrow> X e s" "\<And>e. valid_state (e_platform E) new \<Longrightarrow> X e (pruned new)"
  shows "wal_triple E A P (seq (saveState E new) (\<lambda>_. returning a)) Q X"
  by (rule wal_save_seq) (use assms in \<open>auto intro: triple_returning\<close>)

section \<open>Committing\<close>

definition intent_evidence :: "env \<Rightarrow> string option \<Rightarrow> open_claim \<Rightarrow> submission_intent \<Rightarrow> bool" where
  "intent_evidence E A c i \<longleftrightarrow>
     (\<exists>su. ocSubmission c = Some su \<and> siResultHashHex i = siResultHashHex su \<and>
        siResultUri i = siResultUri su \<and> siRewardAmount i = siRewardAmount su) \<or>
     (\<exists>a. submission_read E A (ocTask c) (Some a) \<and> suStatus a \<noteq> SIdle \<and>
        siResultHashHex i = bytesToHex (suProofHash a))"

lemma matchingIntent_hash:
  "matchingIntent p m s rw = Inr i \<Longrightarrow> siResultHashHex i = bytesToHex (suProofHash s)"
  by (auto simp: matchingIntent_def Let_def bind_res_Inr_iff split: option.splits if_splits)

lemma matchingIntent_evidence:
  "matchingIntent p m s rw = Inr i \<Longrightarrow> submission_read E A (ocTask c) (Some s) \<Longrightarrow> suStatus s \<noteq> SIdle \<Longrightarrow>
   intent_evidence E A c i"
  by (auto simp: intent_evidence_def dest: matchingIntent_hash)

lemma find_task_None:
  assumes "valid_state p s" "wsOpenClaim s = Some c"
  shows "List.find (\<lambda>r. srTask r = ocTask c) (wsSubmissions s) = None"
  using assms by (force simp: find_None_iff valid_state_def ledger_tasks_def)

lemma commit_triple:
  assumes P: "\<And>s. P s \<Longrightarrow> \<exists>c. wsOpenClaim s = Some c \<and> ocTask c = task \<and> intent_evidence E A c intent"
    and Q: "\<And>r s. wsOpenClaim s = None \<Longrightarrow> Q r s"
    and X: "\<And>e s. P s \<Longrightarrow> X e s" "\<And>e s. wsOpenClaim s = None \<Longrightarrow> X e s"
  shows "wal_triple E A P (commitSubmission E task intent signature submittedAt) Q X"
  unfolding commitSubmission_def
proof (rule guarded.triple_load_seq, goal_cases)
  case (1 s)
  then obtain c where c: "wsOpenClaim s = Some c" "ocTask c = task" "intent_evidence E A c intent"
    using P by blast
  have none: "List.find (\<lambda>r. srTask r = task) (wsSubmissions s) = None"
    using find_task_None [OF 1(2) c(1)] c(2) by simp
  have change: "change E A s (s\<lparr>wsOpenClaim := None, wsSubmissions := wsSubmissions s @ [r]\<rparr>)"
    if "\<not> MAX_UNSETTLED_SUBMISSIONS \<le> unsettled_count (wsSubmissions s)" "srTask r = task" "\<not> srSettled r"
      "srResultHashHex r = siResultHashHex intent" "srResultUri r = siResultUri intent"
      "srRewardAmount r = siRewardAmount intent" for r
    using c that by (intro change.committed [of _ c])
      (auto simp: intent_evidence_def commit_evidence_def count_unsettled not_le)
  have time: "wal_triple E A (\<lambda>s'. s' = s) (case submittedAt of Some t \<Rightarrow> returning t | None \<Rightarrow> now_iso E)
      (\<lambda>_ s'. s' = s) X"
    using 1 X(1) by (auto intro: triple_returning triple_now_iso split: option.split)
  show ?case
    unfolding none option.case Let_def
    using 1(1) X Q
    by (auto intro!: triple_throwing triple_seq [OF time] wal_save_return change)
qed (use X in auto)

text \<open>An intent computed from a canonical submission, then its commit.\<close>

lemma lift_commit_seq:
  assumes "\<And>i s. m = Inr i \<Longrightarrow> P s \<Longrightarrow>
     \<exists>c. wsOpenClaim s = Some c \<and> ocTask c = task \<and> intent_evidence E A c i"
  shows "wal_triple E A P (seq (lift_res m) (\<lambda>i.
     seq (commitSubmission E task i (signature i) (submittedAt i)) (\<lambda>r. returning (f r)))) any any"
proof (rule triple_seq [where R = "\<lambda>i s. m = Inr i \<and> P s"])
  show "wal_triple E A P (lift_res m) (\<lambda>i s. m = Inr i \<and> P s) any"
    by (rule triple_lift_res) auto
  show "wal_triple E A (\<lambda>s. m = Inr i \<and> P s)
     (seq (commitSubmission E task i (signature i) (submittedAt i)) (\<lambda>r. returning (f r))) any any" for i
    by (rule triple_seq [where R = any, OF commit_triple])
      (use assms in \<open>auto intro: triple_returning\<close>)
qed

section \<open>Submitting\<close>

text \<open>Where the handler of a failed broadcast starts: the claim is still submitting, or was committed.\<close>

definition submitting_or_done :: "string \<Rightarrow> worker_state \<Rightarrow> bool" where
  "submitting_or_done task s \<longleftrightarrow> wsOpenClaim s = None \<or>
     (\<exists>c. wsOpenClaim s = Some c \<and> ocTask c = task \<and> ocPhase c = Submitting)"

lemma submitting_or_done_pruned [simp]: "submitting_or_done task (pruned s) = submitting_or_done task s"
  by (simp add: submitting_or_done_def)

lemma recordSubmitSignature_triple:
  "wal_triple E A (submitting_or_done task) (recordSubmitSignature E task e) (\<lambda>_. submitting_or_done task) any"
  unfolding recordSubmitSignature_def
  by (auto simp: submitting_or_done_def intro!: triple_returning guarded.triple_load_seq wal_save
      change.submit_signature split: option.split)

lemma reconcileSubmit_triple:
  "wal_triple E (me agent) (submitting_or_done task) (reconcileSubmit E agent task intent) any any"
  unfolding reconcileSubmit_def
proof (rule readSubmission_seq, rule guarded.triple_load_seq, goal_cases)
  case (1 landed s)
  show ?case
  proof (cases "\<exists>a c. landed = Some a \<and> wsOpenClaim s = Some c")
    case True
    then obtain a c where ac: "landed = Some a" "wsOpenClaim s = Some c" "ocTask c = task"
      using 1 by (auto simp: submitting_or_done_def)
    have ev: "intent_evidence E (me agent) c i"
      if "isMatchingLandedSubmission a intent k" "matchingIntent p m a rw = Inr i" for k p m rw i
      using that 1(1) ac
      by (intro matchingIntent_evidence [OF that(2)])
        (auto simp: isMatchingLandedSubmission_def isLandedSubmission_def)
    show ?thesis
      unfolding ac(1, 2) prod.case option.case
      by (intro triple_if triple_returning lift_commit_seq) (use ac ev in auto)
  qed (auto intro!: triple_returning split: option.splits)
qed auto

lemma submitPreparedResult_triple:
  assumes live: "\<not> e_dry_run E"
  shows "wal_triple E (me agent) anywhere (submitPreparedResult E agent task prepared) any any"
  unfolding submitPreparedResult_def
proof (rule guarded.triple_load_seq, goal_cases)
  case (1 s)
  show ?case
  proof (cases "\<exists>marker stored. wsOpenClaim s = Some marker \<and> ocSubmission marker = Some stored \<and>
      ocTask marker = task \<and> ocPhase marker = Submitting")
    case False
    then show ?thesis by (auto intro!: triple_throwing split: option.splits)
  next
    case True
    then obtain marker stored where m: "wsOpenClaim s = Some marker" "ocSubmission marker = Some stored"
      "ocTask marker = task" "ocPhase marker = Submitting" by blast
    define intent where "intent at = stored\<lparr>siLastBroadcastAt := Some at\<rparr>" for at
    define new where "new at = s\<lparr>wsOpenClaim := Some (marker\<lparr>ocSubmission := Some (intent at)\<rparr>)\<rparr>" for at
    have change: "change E (me agent) s (new at)" for at
      unfolding new_def intent_def using m by (intro change.broadcasting)
    have pend: "submitting_or_done task (pruned (new at))" for at
      using m by (simp add: submitting_or_done_def new_def)
    have sent: "wal E (me agent) (pruned (new at)) (SubmitSent task (siResultHashHex (intent at))) (pruned (new at))" for at
      using m live
      by (intro wal.submitted [where c = "marker\<lparr>ocSubmission := Some (intent at)\<rparr>" and su = "intent at"])
        (simp_all add: new_def intent_def)
    have commit: "wal_triple E (me agent) (\<lambda>s'. s' = pruned (new at)) (commitSubmission E task (intent at) sig t) any
        (\<lambda>_. submitting_or_done task)" for at sig t
      by (rule commit_triple)
        (use m pend [of at] in \<open>auto simp: new_def intent_evidence_def submitting_or_done_def\<close>)
    have body: "wal_triple E (me agent) (\<lambda>s'. s' = pruned (new at))
          (seq (lift_res (hexToBytes (siResultHashHex (intent at)))) (\<lambda>_.
           seq (lift_res (resultDataFromHashHex (siResultHashHex (intent at)))) (\<lambda>_.
           seq (effect E (SubmitSent task (siResultHashHex (intent at)))
                 (\<lambda>t. o_submit_tx E t task (siResultHashHex (intent at)))) (\<lambda>signature.
           seq (commitSubmission E task (intent at) (Some signature) None) (\<lambda>record.
           returning (Submitted task record)))))) any (\<lambda>_. submitting_or_done task)" for at
      using pend [of at] sent [of at]
      by (intro triple_seq [where R = "\<lambda>_ s'. s' = pruned (new at)"] triple_lift_res
          guarded.triple_effect triple_seq [OF commit] triple_returning) auto
    have handler: "wal_triple E (me agent) (submitting_or_done task)
          (seq (recordSubmitSignature E task error) (\<lambda>_.
           catching
             (seq (reconcileSubmit E agent task (intent at)) (\<lambda>landed.
              case landed of
                Some record \<Rightarrow> returning (Submitted task record)
              | None \<Rightarrow> returning (ExecutionFailed task (diagnose E error))))
             (\<lambda>reconcileError. returning (ExecutionFailed task
               (diagnose E error @ ''; reconciliation failed: '' @ diagnose E reconcileError))))) any any"
      for error at
      by (rule triple_seq [OF recordSubmitSignature_triple])
        (auto intro!: triple_catching triple_seq [OF reconcileSubmit_triple] triple_returning
          split: option.splits)
    show ?thesis
      unfolding m option.case Let_def intent_def [symmetric] new_def [symmetric]
      by (intro triple_if triple_throwing now_iso_seq wal_save_seq triple_catching [OF body handler])
        (simp_all add: change)
  qed
qed simp

section \<open>Uploading and executing\<close>

lemma saveMarker_seq:
  assumes change: "\<And>s c. P s \<Longrightarrow> wsOpenClaim s = Some c \<Longrightarrow> ocTask c = task \<Longrightarrow>
      change E A s (s\<lparr>wsOpenClaim := Some (f c)\<rparr>)"
    and g: "\<And>c. ocTask c = task \<Longrightarrow>
      wal_triple E A (\<lambda>s'. \<exists>s. P s \<and> wsOpenClaim s = Some c \<and> wsOpenClaim s' = Some (f c)) (g ()) Q any"
  shows "wal_triple E A P (seq (saveMarker E task message f) g) Q any"
proof (rule triple_seq)
  show "wal_triple E A P (saveMarker E task message f)
      (\<lambda>_ s'. \<exists>s c. P s \<and> wsOpenClaim s = Some c \<and> ocTask c = task \<and> wsOpenClaim s' = Some (f c)) any"
    unfolding saveMarker_def
    using change
    by (auto intro!: guarded.triple_load_seq triple_throwing wal_save split: option.split) blast
  show "wal_triple E A
      (\<lambda>s'. \<exists>s c. P s \<and> wsOpenClaim s = Some c \<and> ocTask c = task \<and> wsOpenClaim s' = Some (f c)) (g a) Q any" for a
    by (rule triple_fix) (auto intro: triple_pre [OF g])
qed

text \<open>The claim holds the execution \<open>x\<close>; the claim may be executed, in revision round \<open>n\<close>.\<close>

definition holding :: "string \<Rightarrow> execution_intent \<Rightarrow> worker_state \<Rightarrow> bool" where
  "holding task x s \<longleftrightarrow> (\<exists>c. wsOpenClaim s = Some c \<and> ocTask c = task \<and> ocExecution c = Some x)"

definition executable :: "nat option \<Rightarrow> string \<Rightarrow> worker_state \<Rightarrow> bool" where
  "executable n task s \<longleftrightarrow> (\<exists>c. wsOpenClaim s = Some c \<and> ocTask c = task \<and> ocPhase c = Claimed \<and>
     ocRevisionSubmissionCount c = n)"

lemma submitExecuted_triple:
  assumes "\<not> e_dry_run E"
  shows "wal_triple E (me agent) (holding task x) (submitExecuted E agent task x uri) any any"
  unfolding submitExecuted_def Let_def
proof (rule now_iso_seq, rule saveMarker_seq, goal_cases)
  case (1 at s c)
  then show ?case by (auto simp: holding_def intro!: change.submitting)
next
  case 2
  show ?case by (rule triple_pre [OF submitPreparedResult_triple [OF assms]]) simp
qed simp

lemma continueExecutedResult_triple:
  assumes live: "\<not> e_dry_run E"
  shows "wal_triple E (me agent) (holding task x) (continueExecutedResult E agent task x) any any"
proof (cases "rcResultUploader (e_config E)")
  case None
  show ?thesis
    unfolding continueExecutedResult_def Let_def None option.case
    by (rule triple_seq [where R = "\<lambda>_. holding task x"], rule triple_lift_res)
      (simp_all add: submitExecuted_triple [OF live])
next
  case (Some url)
  show ?thesis
    unfolding continueExecutedResult_def Let_def Some option.case
  proof (rule saveMarker_seq, goal_cases)
    case (1 s c)
    then show ?case by (auto simp: holding_def intro!: change.uploading)
  next
    case (2 c)
    let ?P = "\<lambda>s. \<exists>c. wsOpenClaim s = Some c \<and> ocTask c = task \<and> ocPhase c = Uploading \<and> ocExecution c = Some x"
    have up: "wal_triple E (me agent) ?P (attempt (effect E (UploadSent task (exResultHashHex x)) post)) (\<lambda>_. ?P) any" for post
      by (rule triple_attempt, rule guarded.triple_effect) (auto intro: wal.uploaded [OF live])
    have rest: "wal_triple E (me agent) ?P (case r of
        Inl error \<Rightarrow> returning (ExecutionFailed task (diagnose E error))
      | Inr resultUri \<Rightarrow> submitExecuted E agent task x resultUri) any any" for r
      by (cases r) (auto intro: triple_returning triple_pre [OF submitExecuted_triple [OF live]] simp: holding_def)
    show ?case
      by (rule triple_pre [OF triple_seq [OF up rest]]) (auto simp: advance_def)
  qed
qed

lemma runExecutorCall_triple:
  assumes "\<not> e_dry_run E" "prompt_policy E A n task prompt"
  shows "wal_triple E A (executable n task) (attempt (runExecutorCall E task prompt)) (\<lambda>_. executable n task) any"
  unfolding runExecutorCall_def
proof (rule triple_attempt, rule triple_seq [where R = "\<lambda>_. executable n task"], rule guarded.triple_effect)
  fix s assume "executable n task s"
  then show "wal E A s (ExecutorRun task prompt) s"
    using assms by (auto simp: executable_def intro: wal.ran)
next
  show "wal_triple E A (executable n task) (case r of None \<Rightarrow> (\<lambda>w. (Inl Crash, w)) | Some r \<Rightarrow> lift_res r)
     (\<lambda>_. executable n task) (\<lambda>_. executable n task)" for r
    by (cases r) (auto intro: triple_dying triple_lift_res)
qed auto

lemma executeAndSubmit_triple:
  assumes live: "\<not> e_dry_run E" and prompt: "prompt_policy E (me agent) n task prompt"
  shows "wal_triple E (me agent) (executable n task) (executeAndSubmit E agent task account prompt) any any"
  unfolding executeAndSubmit_def
proof (rule triple_seq [OF runExecutorCall_triple [OF assms]])
  show "wal_triple E (me agent) (executable n task)
    (case executed of
       Inl error \<Rightarrow> returning (ExecutionFailed task (diagnose E error))
     | Inr resultBytes \<Rightarrow>
         seq (now_iso E) (\<lambda>at.
         let execution = \<lparr>exResultBytesBase64 = b64_encode resultBytes,
               exResultHashHex = sha256Hex (e_platform E) resultBytes,
               exRewardAmount = dec_print (tkRewardAmount account), exExecutedAt = at\<rparr> in
         seq (saveMarker E task ''cannot persist result for untracked task''
               (\<lambda>marker. advance marker task Executed (Some execution) None)) (\<lambda>_.
         continueExecutedResult E agent task execution))) any any" for executed
  proof (cases executed)
    case (Inr bytes)
    show ?thesis
      unfolding Inr sum.case Let_def
    proof (rule now_iso_seq, rule saveMarker_seq, goal_cases)
      case (1 at s c)
      then show ?case by (auto simp: executable_def intro!: change.executed)
    next
      case 2
      show ?case
        by (rule triple_pre [OF continueExecutedResult_triple [OF live]]) (auto simp: holding_def advance_def)
    qed simp
  qed (simp add: triple_returning)
qed

end
