(* ===== verification/WalProcess.thy ===== *)
theory WalProcess
  imports WalSubmit
begin

text \<open>
  Starting work keeps the write-ahead discipline: \<open>processCandidate\<close> broadcasts a claim only with a
  durable marker for it, and only after every check of the policy passed on fresh reads.
\<close>

section \<open>Markers\<close>

text \<open>The durable marker \<open>m\<close>, for a task that is not in the ledger.\<close>

definition marking :: "open_claim \<Rightarrow> worker_state \<Rightarrow> bool" where
  "marking m s \<longleftrightarrow> wsOpenClaim s = Some m \<and> ocTask m \<notin> set (ledger_tasks s)"

lemma marking_saved: "valid_state p (s\<lparr>wsOpenClaim := Some m\<rparr>) \<Longrightarrow> marking m (pruned (s\<lparr>wsOpenClaim := Some m\<rparr>))"
  using pruned_valid [of p "s\<lparr>wsOpenClaim := Some m\<rparr>"] by (auto simp: marking_def valid_state_def)

lemma setMarker_seq:
  assumes "\<And>s. P s \<Longrightarrow> change E A s (s\<lparr>wsOpenClaim := Some m\<rparr>)"
    "wal_triple E A (marking m) (g ()) Q X"
    "\<And>e s. P s \<Longrightarrow> X e s" "\<And>e s. wsOpenClaim s = Some m \<Longrightarrow> X e s"
  shows "wal_triple E A P (seq (setMarker E m) g) Q X"
proof (rule triple_seq [where R = "\<lambda>_. marking m"])
  show "wal_triple E A P (setMarker E m) (\<lambda>_. marking m) X"
    unfolding setMarker_def by (rule guarded.triple_load_seq, rule wal_save) (use assms in \<open>auto intro: marking_saved\<close>)
qed (use assms(2) in simp)

lemma clearMarker_seq:
  assumes "\<And>s c. P s \<Longrightarrow> wsOpenClaim s = Some c \<Longrightarrow> ocTask c = task \<Longrightarrow> claim_gone E A c"
    "wal_triple E A anywhere (g ()) Q any"
  shows "wal_triple E A P (seq (clearMarker E task) g) Q any"
proof (rule triple_seq [where R = any])
  show "wal_triple E A P (clearMarker E task) any any"
    unfolding clearMarker_def
  proof (rule guarded.triple_load_seq, rule wal_save, goal_cases)
    case (1 s s')
    then show ?case
      using assms(1) [of s] by (cases "wsOpenClaim s") (auto intro: change.intros)
  qed simp_all
qed (use assms(2) in simp)

section \<open>Claiming\<close>

text \<open>A claim of this task that has produced nothing yet.\<close>

definition fresh :: "claim_phase set \<Rightarrow> string \<Rightarrow> worker_state \<Rightarrow> bool" where
  "fresh phases task s \<longleftrightarrow> (\<exists>c. wsOpenClaim s = Some c \<and> ocTask c = task \<and> ocPhase c \<in> phases \<and>
     ocRevisionSubmissionCount c = None \<and> ocExecution c = None \<and> ocSubmission c = None)"

lemma fresh_mono: "fresh A task s \<Longrightarrow> A \<subseteq> B \<Longrightarrow> fresh B task s"
  by (auto simp: fresh_def)

lemma fresh_pruned [simp]: "fresh A task (pruned s) = fresh A task s"
  by (simp add: fresh_def)

lemma fresh_marker_fields [simp]:
  "ocTask (fresh_marker task at phase sig) = task"
  "ocPhase (fresh_marker task at phase sig) = phase"
  "ocRevisionSubmissionCount (fresh_marker task at phase sig) = None"
  "ocExecution (fresh_marker task at phase sig) = None"
  "ocSubmission (fresh_marker task at phase sig) = None"
  by (simp_all add: fresh_marker_def)

abbreviation started :: "claim_phase set" where "started \<equiv> {Claiming, Claimed}"

lemma fresh_claimed_change:
  "fresh started task s \<Longrightarrow> change E A s (s\<lparr>wsOpenClaim := Some (fresh_marker task at Claimed sig)\<rparr>)"
  by (auto simp: fresh_def intro: change.claimed)

lemma recordClaimSignature_triple:
  "wal_triple E A (fresh started task) (recordClaimSignature E task sig) (\<lambda>_. fresh started task) any"
  unfolding recordClaimSignature_def
  by (auto simp: fresh_def intro!: triple_returning guarded.triple_load_seq wal_save change.claim_signature
      split: option.split)

text \<open>What a claim attempt leaves: execution goes on only with the claim durably held.\<close>

abbreviation go_on :: "string \<Rightarrow> process_outcome option \<Rightarrow> worker_state \<Rightarrow> bool" where
  "go_on task stop s \<equiv> (stop = None \<longrightarrow> executable None task s)"

lemma recoverClaim_triple:
  "wal_triple E (me agent) (fresh started task) (recoverClaim E agent task startedAt error) (go_on task) any"
  unfolding recoverClaim_def
proof (rule triple_seq [OF recordClaimSignature_triple], rule triple_catching [where Y = any],
    rule readClaim_seq, intro triple_if)
  show "wal_triple E (me agent) (fresh started task)
     (seq (setMarker E (fresh_marker task startedAt Claimed (error_signature error))) (\<lambda>_. returning None))
     (go_on task) any"
    by (rule setMarker_seq) (auto intro: fresh_claimed_change triple_returning simp: executable_def marking_def)
next
  fix claim assume "claim_read E (me agent) task claim" "\<not> claim \<noteq> None"
  then show "wal_triple E (me agent) (fresh started task)
     (seq (clearMarker E task) (\<lambda>_. returning (Some (ClaimFailed task (claim_reason E error))))) (go_on task) any"
    by (intro clearMarker_seq triple_returning) (auto simp: fresh_def claim_gone_def)
qed (auto intro: triple_returning)

text \<open>Just before the broadcast: the fresh claiming marker, and no submission for the task.\<close>

definition claiming_marker :: "string \<Rightarrow> worker_state \<Rightarrow> bool" where
  "claiming_marker task s \<longleftrightarrow> fresh {Claiming} task s \<and> task \<notin> set (ledger_tasks s)"

lemma claiming_unworked: "claiming_marker task s \<Longrightarrow> unworked s task"
  by (auto simp: claiming_marker_def fresh_def unworked_def)

lemma claimTask_triple:
  assumes "claim_grounds E (me agent) task h"
  shows "wal_triple E (me agent) (claiming_marker task) (claimTask E agent task h startedAt) (go_on task) any"
  unfolding claimTask_def
proof (rule triple_catching [where Y = "\<lambda>_. fresh started task"],
    rule triple_seq [where R = "\<lambda>_. claiming_marker task"], rule guarded.triple_effect)
  fix s assume marker: "claiming_marker task s"
  then have "claim_policy E (me agent) s task h" using assms by (simp add: claim_policy_def claiming_unworked)
  then show "wal E (me agent) s (ClaimSent task h) s"
    using marker by (auto simp: claiming_marker_def fresh_def intro: wal.claim_sent)
next
  show "wal_triple E (me agent) (claiming_marker task) (seq (setMarker E (fresh_marker task startedAt Claimed None))
      (\<lambda>_. returning None)) (go_on task) (\<lambda>_. fresh started task)"
    by (rule setMarker_seq)
      (auto intro: change.claimed triple_returning simp: executable_def fresh_def claiming_marker_def marking_def)
qed (auto intro: recoverClaim_triple fresh_mono simp: claiming_marker_def)

lemma checkClaimBalance_ok:
  "checkClaimBalance cr sr b = Inr u \<Longrightarrow> \<exists>v. b = Some v \<and> claimFundingRequirement cr sr \<le> v"
  by (auto simp: checkClaimBalance_def guard_res_def bind_res_def split: option.splits if_splits)

lemma validateRentMinimum_ok: "validateRentMinimum x = Inr v \<Longrightarrow> x = Some v"
  by (auto simp: validateRentMinimum_def split: option.splits if_splits)

lemma assertFreshClaimFunding_seq:
  assumes "funded E \<Longrightarrow> wal_triple E A P (g ()) Q any"
  shows "wal_triple E A P (seq (assertFreshClaimFunding E) g) Q any"
proof (rule triple_seq [where R = "\<lambda>_ s. P s \<and> funded E"])
  show "wal_triple E A P (assertFreshClaimFunding E) (\<lambda>_ s. P s \<and> funded E) any"
    unfolding assertFreshClaimFunding_def readRent_def
    by (auto intro!: triple_throwing guarded.triple_call_seq guarded.triple_call split: option.split)
      (auto simp: bind_res_Inr_iff funded_def dest!: checkClaimBalance_ok validateRentMinimum_ok; blast)
  show "wal_triple E A (\<lambda>s. P s \<and> funded E) (g u) Q any" for u
    by (cases "funded E") (use assms in \<open>auto intro: triple_pre simp: triple_def\<close>)
qed

lemma claimAndExecute_triple:
  assumes policy: "funded E \<Longrightarrow> claim_grounds E (me agent) task h" and live: "\<not> e_dry_run E"
    and prompt: "prompt_policy E (me agent) None task prompt"
    and s: "wsOpenClaim s = None" "task \<notin> set (ledger_tasks s)"
  shows "wal_triple E (me agent) (\<lambda>s'. s' = s) (claimAndExecute E agent task account h prompt) any any"
  unfolding claimAndExecute_def
proof (rule assertFreshClaimFunding_seq, rule now_iso_seq, rule setMarker_seq, goal_cases)
  case (1 at s')
  then have "claim_policy E (me agent) s' task h" using s policy by (simp add: claim_policy_def unworked_def)
  with s 1 show ?case by (auto intro: change.claiming)
next
  case (2 at)
  have "wal_triple E (me agent) (go_on task stop) (case stop of
       Some outcome \<Rightarrow> returning outcome
     | None \<Rightarrow> executeAndSubmit E agent task account prompt) any any" for stop
    using executeAndSubmit_triple [OF live prompt]
    by (cases stop) (auto intro: triple_returning)
  then show ?case
    by (intro triple_seq [OF triple_pre [OF claimTask_triple [OF policy [OF 2]]]])
      (auto simp: claiming_marker_def fresh_def marking_def)
qed simp_all

section \<open>Candidates\<close>

lemma local_filters_policy:
  assumes "tkStatus t = TOpen" "passesLocalFilters config s (candidate_of task t) = None"
  shows "within_policy config t" "wsOpenClaim s = None" "task \<notin> set (ledger_tasks s)"
  using assms by (auto simp: local_filters within_policy_def candidate_of_def ledger_tasks_def)

lemma decoded_hire_allows:
  assumes "decodeHireBinding ch task pda data = Inr b" "hbRejection b = None"
    "hiredCommitmentClaimRejection d h (hbIsHire b) = None"
  shows "\<exists>hr. decode_hire ch data = Inr hr \<and> hrTask hr = task \<and> hrDesignatedProvider hr \<in> {pda, DEFAULT_ADDRESS} \<and>
    length d = 64 \<and> drop 32 d = h \<and> h \<noteq> replicate 32 0"
  using decodeHireBinding_provider [OF assms(1, 2)] assms(3) by (auto simp: hiredCommitment_None_iff)

lemma hire_checked:
  assumes "hireBindingForClaim ch read task pda = Inr b" "hbRejection b = None"
    "hiredCommitmentClaimRejection d h (hbIsHire b) = None"
  shows "hire_allows ch pda read task d h"
proof (cases read)
  case (HireBytes data)
  show ?thesis
    using assms(1) HireBytes decoded_hire_allows [OF _ assms(2, 3)]
    by (auto simp: hireBindingForClaim_def hire_allows_def split: option.splits if_splits)
next
  case (HireInfo i)
  show ?thesis
    using assms(1) HireInfo decoded_hire_allows [OF _ assms(2, 3)]
    by (auto simp: hireBindingForClaim_def hire_allows_def split: option.splits if_splits)
qed

lemma processVerified_triple:
  assumes account: "task_read E task (Some account)" "tkStatus account = TOpen"
      "passesLocalFilters (e_config E) s (candidate_of task account) = None"
    and hire: "o_hire E t task = Inr read" "hireBindingForClaim (e_chain E) read task (waAgentPda agent) = Inr hire"
      "hbRejection hire = None"
    and v: "spec_verified E task v"
  shows "wal_triple E (me agent) (\<lambda>s'. s' = s) (processVerified E agent task account hire v) any any"
proof (cases "hiredCommitmentClaimRejection (tkDescription account) (vjsJobSpecHash v) (hbIsHire hire)")
  case (Some reason)
  then show ?thesis by (simp add: processVerified_def triple_returning)
next
  case commit: None
  show ?thesis
  proof (cases "prepare_prompt (e_platform E) (tkDescription account) (vjsContent v) None")
    case (Inl e)
    then show ?thesis using commit by (simp add: processVerified_def triple_returning)
  next
    case prompt: (Inr prompt)
    note local = local_filters_policy [OF account(2, 3)]
    have "claim_grounds E (me agent) task (vjsJobSpecHash v)" if "\<not> e_dry_run E" "funded E"
      using that account(1) local(1) hire(1) hire_checked [OF hire(2, 3) commit] v prompt
      unfolding claim_grounds_def by blast
    moreover have "prompt_policy E (me agent) None task prompt"
      using account(1) v prompt unfolding prompt_policy_def by fastforce
    ultimately show ?thesis
      using local unfolding processVerified_def commit prompt option.case sum.case
      by (intro triple_if triple_returning claimAndExecute_triple) auto
  qed
qed

definition hire_read_ok :: "env \<Rightarrow> string \<Rightarrow> string \<Rightarrow> hire_binding \<Rightarrow> bool" where
  "hire_read_ok E pda task hire \<longleftrightarrow> (\<exists>t read. o_hire E t task = Inr read \<and>
     hireBindingForClaim (e_chain E) read task pda = Inr hire)"

lemma processRebound_triple:
  assumes account: "task_read E task (Some account)" "tkStatus account = TOpen"
      "passesLocalFilters (e_config E) s (candidate_of task account) = None"
  shows "wal_triple E (me agent) (\<lambda>s'. s' = s) (processRebound E agent task account) any any"
  unfolding processRebound_def
proof (rule triple_seq [where R = "\<lambda>r s'. s' = s \<and> (case r of Inl _ \<Rightarrow> True | Inr h \<Rightarrow> hire_read_ok E (waAgentPda agent) task h)"],
    rule triple_attempt, rule guarded.triple_call, goal_cases)
  case (1 t hire s')
  then show ?case by (auto simp: bind_res_Inr_iff hire_read_ok_def)
next
  case (3 binding)
  show ?case
  proof (cases binding)
    case (Inl e)
    then show ?thesis by (simp add: triple_returning)
  next
    case (Inr hire)
    show ?thesis
    proof (cases "hire_read_ok E (waAgentPda agent) task hire")
      case True
      then have "wal_triple E (me agent) (\<lambda>s'. s' = s) (case hbRejection hire of
           Some reason \<Rightarrow> returning (Skipped task reason)
         | None \<Rightarrow> seq (attempt (verifyJobSpec E task)) (\<lambda>spec. case spec of
               Inl error \<Rightarrow> returning (Skipped task (job_spec_reason E error))
             | Inr verified \<Rightarrow> processVerified E agent task account hire verified)) any any"
        using account
        by (cases "hbRejection hire")
          (auto simp: hire_read_ok_def intro!: triple_returning attempt_verify_seq intro: processVerified_triple)
      then show ?thesis unfolding Inr sum.case by (rule triple_pre) simp
    qed (simp add: Inr triple_def)
  qed
qed simp

lemma processCandidate_triple:
  "wal_triple E (me agent) anywhere (processCandidate E agent candidate) any any"
  unfolding processCandidate_def Let_def
proof (rule guarded.triple_load_seq, goal_cases)
  case (1 s)
  show ?case
    by (cases "passesLocalFilters (e_config E) s candidate")
      (auto intro!: triple_returning readTask_seq processRebound_triple split: option.split)
qed simp

end
