(* ===== verification/WalResume.thy ===== *)
theory WalResume
  imports WalProcess
begin

text \<open>
  Crash recovery keeps the write-ahead discipline: from any durable state, \<open>resumeOpenClaim\<close> commits,
  releases or revises the open claim only on canonical evidence, and executes, uploads or submits
  only what the durable phase allows.
\<close>

section \<open>Continuing\<close>

lemma resolveRevisionRequest_triple:
  assumes "submission_read E A task (Some su)"
  shows "wal_triple E A P (resolveRevisionRequest E task (suRejectionHash su))
     (\<lambda>envelope s. P s \<and> change_request E A task (teCanonicalJson envelope)) (\<lambda>_. P)"
proof -
  have "change_request E A task (teCanonicalJson envelope)"
    if "e_transport E = Some transport" "\<not> list_all (\<lambda>b. b = 0) (suRejectionHash su)"
      "transport t task (suRejectionHash su) = Inr envelope" "teTaskPda envelope = task" "teRole envelope = ''buyer''"
    for transport t envelope
  proof -
    have "suRejectionHash su \<noteq> replicate (length (suRejectionHash su)) 0"
    proof
      assume eq: "suRejectionHash su = replicate (length (suRejectionHash su)) 0"
      have "list_all (\<lambda>b. b = (0 :: byte)) (replicate n 0)" for n by (simp add: list_all_iff)
      then have "list_all (\<lambda>b. b = 0) (suRejectionHash su)" by (subst eq)
      with that(2) show False by contradiction
    qed
    with that assms show ?thesis unfolding change_request_def by blast
  qed
  then show ?thesis
    unfolding resolveRevisionRequest_def
    by (auto intro!: triple_throwing triple_returning guarded.triple_call_seq split: option.split)
qed

text \<open>The changes a prompt of round \<open>n\<close> carries.\<close>

definition round_changes :: "env \<Rightarrow> string option \<Rightarrow> nat option \<Rightarrow> string \<Rightarrow> string option \<Rightarrow> bool" where
  "round_changes E A n task changes \<longleftrightarrow>
     (case changes of None \<Rightarrow> n = None | Some text \<Rightarrow> change_request E A task text)"

lemma resumeClaimed_triple:
  assumes live: "\<not> e_dry_run E" and account: "task_read E task (Some account)"
    and submission: "submission_read E (me agent) task submission"
    and round: "if revisionRound then submission \<noteq> None else n = None"
  shows "wal_triple E (me agent) (executable n task) (resumeClaimed E agent task account submission revisionRound) any any"
proof -
  let ?ok = "\<lambda>r. case r of Inl e \<Rightarrow> True | Inr ch \<Rightarrow> round_changes E (me agent) n task ch"
  have none: "round_changes E (me agent) n task None" if "\<not> revisionRound"
    using that round by (simp add: round_changes_def)
  have request: "wal_triple E (me agent) (executable n task)
      (attempt (seq (resolveRevisionRequest E task (suRejectionHash s)) (\<lambda>envelope. returning (Some (teCanonicalJson envelope)))))
      (\<lambda>r s. executable n task s \<and> ?ok r) any" if "submission = Some s" for s
    using that submission
    by (auto intro!: triple_attempt triple_returning triple_seq [OF resolveRevisionRequest_triple]
        simp: round_changes_def)
  have changes: "wal_triple E (me agent) (executable n task)
      (case (revisionRound, submission) of
         (True, Some s) \<Rightarrow> attempt (seq (resolveRevisionRequest E task (suRejectionHash s))
           (\<lambda>envelope. returning (Some (teCanonicalJson envelope))))
       | _ \<Rightarrow> returning (Inr None)) (\<lambda>r s. executable n task s \<and> ?ok r) any"
    using round none request by (cases revisionRound; cases submission) (auto intro!: triple_returning)
  have run: "wal_triple E (me agent) (executable n task) (case prepare_prompt (e_platform E) (tkDescription account) (vjsContent v) ch of
                Inl error \<Rightarrow> returning (Some (ExecutionFailed task (diagnose E error)))
              | Inr prompt \<Rightarrow>
                  seq (executeAndSubmit E agent task account prompt) (\<lambda>outcome. returning (Some outcome))) any any"
    if v: "spec_verified E task v" and ch: "round_changes E (me agent) n task ch" for v ch
  proof (cases "prepare_prompt (e_platform E) (tkDescription account) (vjsContent v) ch")
    case (Inr prompt)
    then have "prompt_policy E (me agent) n task prompt"
      using account v ch unfolding prompt_policy_def round_changes_def by blast
    then show ?thesis
      using Inr by (auto intro!: triple_returning triple_seq [OF executeAndSubmit_triple [OF live]])
  qed (simp add: triple_returning)
  have rest: "wal_triple E (me agent) (executable n task) (case r of
       Inl error \<Rightarrow> returning (Some (ExecutionFailed task (diagnose E error)))
     | Inr changesRequest \<Rightarrow>
         seq (attempt (verifyJobSpec E task)) (\<lambda>spec.
         case spec of
           Inl error \<Rightarrow> returning (Some (ExecutionFailed task (diagnose E error)))
         | Inr verified \<Rightarrow>
             (case prepare_prompt (e_platform E) (tkDescription account) (vjsContent verified) changesRequest of
                Inl error \<Rightarrow> returning (Some (ExecutionFailed task (diagnose E error)))
              | Inr prompt \<Rightarrow>
                  seq (executeAndSubmit E agent task account prompt) (\<lambda>outcome. returning (Some outcome))))) any any"
    if "?ok r" for r
    using that by (cases r) (auto intro!: triple_returning attempt_verify_seq run)
  show ?thesis
    unfolding resumeClaimed_def
    by (rule triple_seq [OF changes], rule triple_fix) (use rest in \<open>auto intro: triple_pre\<close>)
qed

text \<open>The durable marker, well formed.\<close>

definition marked :: "env \<Rightarrow> open_claim \<Rightarrow> worker_state \<Rightarrow> bool" where
  "marked E c s \<longleftrightarrow> wsOpenClaim s = Some c \<and> wf_claim (e_platform E) c"

lemma marked_phase:
  "wf_claim p c \<Longrightarrow> ocExecution c \<noteq> None \<longleftrightarrow> ocPhase c = Executed \<or> ocPhase c = Uploading"
  "wf_claim p c \<Longrightarrow> ocSubmission c \<noteq> None \<longleftrightarrow> ocPhase c = Submitting"
  by (auto simp: wf_claim_def)

lemma resumeDispatch_triple:
  assumes account: "task_read E (ocTask c) (Some account)"
    and submission: "submission_read E (me agent) (ocTask c) submission" "revisionRound \<Longrightarrow> submission \<noteq> None"
  shows "wal_triple E (me agent) (marked E c) (resumeDispatch E agent (ocTask c) c account submission revisionRound) any any"
proof (cases "e_dry_run E")
  case True
  then show ?thesis by (simp add: resumeDispatch_def triple_returning)
next
  case live: False
  note submit = triple_pre [OF submitPreparedResult_triple [OF live], of "marked E c"]
  have continue: "wal_triple E (me agent) (marked E c)
      (seq (continueExecutedResult E agent (ocTask c) x) (\<lambda>outcome. returning (Some outcome))) any any"
    if "ocExecution c = Some x" for x
    by (rule triple_seq [OF triple_pre [OF continueExecutedResult_triple [OF live]]])
      (use that in \<open>auto simp: marked_def holding_def intro: triple_returning\<close>)
  have claimed: "wal_triple E (me agent) (marked E c) (resumeClaimed E agent (ocTask c) account submission revisionRound) any any"
    if "ocPhase c = Claimed" "revisionRound \<or> ocRevisionSubmissionCount c = None"
    by (rule triple_pre [OF resumeClaimed_triple [OF live account submission(1), of revisionRound "ocRevisionSubmissionCount c"]])
      (use that submission(2) in \<open>auto simp: marked_def executable_def\<close>)
  have claiming: "wal_triple E (me agent) (marked E c) (seq (setMarker E (c\<lparr>ocPhase := Claimed\<rparr>)) (\<lambda>_.
             resumeClaimed E agent (ocTask c) account submission revisionRound)) any any"
    if "ocPhase c = Claiming" "revisionRound \<or> ocRevisionSubmissionCount c = None"
  proof (rule setMarker_seq)
    fix s assume "marked E c s"
    then show "change E (me agent) s (s\<lparr>wsOpenClaim := Some (c\<lparr>ocPhase := Claimed\<rparr>)\<rparr>)"
      using that marked_phase [of "e_platform E" c]
      by (intro change.claimed [of _ c]) (auto simp: marked_def)
  next
    show "wal_triple E (me agent) (marking (c\<lparr>ocPhase := Claimed\<rparr>))
       (resumeClaimed E agent (ocTask c) account submission revisionRound) any any"
      by (rule triple_pre [OF resumeClaimed_triple [OF live account submission(1), of revisionRound "ocRevisionSubmissionCount c"]])
        (use that submission(2) in \<open>auto simp: executable_def marking_def\<close>)
  qed simp_all
  show ?thesis
  proof (cases "wf_claim (e_platform E) c")
    case True
    note ph = marked_phase [OF True]
    show ?thesis
      unfolding resumeDispatch_def
      using live ph continue claimed claiming
      by (cases "ocPhase c"; cases "ocExecution c"; cases "ocSubmission c")
        (auto intro!: triple_returning triple_seq [OF submit])
  qed (simp add: triple_def marked_def)
qed

section \<open>Reconciling\<close>

lemma resumeClosure_triple:
  assumes "claim_read E (me agent) (ocTask c) claim" "task_read E (ocTask c) account"
    "submission_read E (me agent) (ocTask c) submission"
    and round: "revisionRound \<Longrightarrow> submission \<noteq> None"
  shows "wal_triple E (me agent) (marked E c)
     (resumeClosure E agent (ocTask c) c claim account submission revisionRound) any any"
proof -
  have commit: "wal_triple E (me agent) (marked E c) (seq (commitSubmission E (ocTask c) i sig at)
      (\<lambda>record. returning (Some (Submitted (ocTask c) record)))) any any"
    if "ocSubmission c = Some i" for i sig at
    by (rule triple_seq [where R = any, OF commit_triple])
      (use that in \<open>auto simp: marked_def intent_evidence_def intro: triple_returning\<close>)
  have clear: "wal_triple E (me agent) (marked E c) (seq (clearMarker E (ocTask c)) (\<lambda>_. returning None)) any any"
    if "claim = None" "submission = None" "reopened_or_terminal account \<or> account = None"
    using assms that
    by (intro clearMarker_seq triple_returning) (auto simp: marked_def claim_gone_def)
  show ?thesis
  proof (cases "(reopened_or_terminal account \<and> claim = None \<and> submission = None \<and> ocPhase c = Submitting) \<and>
      ocSubmission c \<noteq> None")
    case True
    then show ?thesis using commit by (auto simp: resumeClosure_def)
  next
    case False
    then have "resumeClosure E agent (ocTask c) c claim account submission revisionRound =
        (if claim = None \<and> submission = None \<and> (reopened_or_terminal account \<or> account = None)
          then seq (clearMarker E (ocTask c)) (\<lambda>_. returning None)
          else (case (claim, account) of
              (Some _, Some t) \<Rightarrow> resumeDispatch E agent (ocTask c) c t submission revisionRound
            | _ \<Rightarrow> returning (Some (ExecutionFailed (ocTask c) ''incoherent canonical reads''))))"
      by (auto simp: resumeClosure_def split: option.split bool.split)
    then show ?thesis
      using clear resumeDispatch_triple [OF _ assms(3) round] assms(2)
      by (auto intro!: triple_returning split: option.split)
  qed
qed

lemma canonical_commit:
  assumes "submission_read E A (ocTask c) (Some s)" "suStatus s \<noteq> SIdle"
  shows "wal_triple E A (marked E c) (seq (lift_res (matchingIntent p m s rw)) (\<lambda>intent.
         seq (commitSubmission E (ocTask c) intent sig (at intent)) (\<lambda>record.
         returning (Some (Submitted (ocTask c) record))))) any any"
  by (rule lift_commit_seq)
    (use assms matchingIntent_evidence in \<open>auto simp: marked_def\<close>)

lemma resumeTerminal_triple:
  assumes reads: "claim_read E (me agent) (ocTask c) claim" "task_read E (ocTask c) account"
    "submission_read E (me agent) (ocTask c) submission"
    and round: "revisionRound \<Longrightarrow> submission \<noteq> None"
  shows "wal_triple E (me agent) (marked E c)
     (resumeTerminal E agent (ocTask c) c claim account submission revisionRound) any any"
  unfolding resumeTerminal_def
proof (rule now_ms_seq)
  fix now
  let ?else = "if claim = None \<and> ocPhase c = Claiming \<and> inside_grace (e_platform E) now (ocClaimedAt c)
         then returning (Some (ExecutionFailed (ocTask c)
           ''claim broadcast outcome is still inside the reconciliation grace period''))
         else resumeClosure E agent (ocTask c) c claim account submission revisionRound"
  have other: "wal_triple E (me agent) (marked E c) ?else any any"
    by (intro triple_if triple_returning resumeClosure_triple reads round) simp
  have "suStatus s \<noteq> SIdle" if "terminal_rejection now claim account (Some s) revisionRound" for s
    using that by (auto simp: terminal_rejection_def split: option.splits)
  then show "wal_triple E (me agent) (marked E c)
     (case (terminal_rejection now claim account submission revisionRound, submission, account) of
       (True, Some s, Some t) \<Rightarrow>
         seq (lift_res (matchingIntent (e_platform E) c s
               (case ocSubmission c of Some i \<Rightarrow> siRewardAmount i | None \<Rightarrow> dec_print (tkRewardAmount t)))) (\<lambda>intent.
         seq (commitSubmission E (ocTask c) intent
               (case ocSubmission c of Some i \<Rightarrow> siTransactionSignature i | None \<Rightarrow> None)
               (Some (submissionTimestamp (e_platform E) (suSubmittedAt s) (siPreparedAt intent)))) (\<lambda>record.
         returning (Some (Submitted (ocTask c) record))))
     | _ \<Rightarrow> ?else) any any"
    using other canonical_commit reads(3)
    by (cases "terminal_rejection now claim account submission revisionRound"; cases submission; cases account) auto
qed simp

lemma resumeGrace_triple:
  assumes reads: "claim_read E (me agent) (ocTask c) claim" "task_read E (ocTask c) account"
    "submission_read E (me agent) (ocTask c) submission"
    and round: "revisionRound \<Longrightarrow> submission \<noteq> None"
  shows "wal_triple E (me agent) (marked E c)
     (resumeGrace E agent (ocTask c) c claim account submission revisionRound) any any"
  unfolding resumeGrace_def
  using resumeTerminal_triple [OF reads round]
  by (auto intro!: now_ms_seq triple_if triple_returning split: claim_phase.split option.split)

lemma resumeReconciled_triple:
  assumes reads: "claim_read E (me agent) (ocTask c) claim" "task_read E (ocTask c) account"
    "submission_read E (me agent) (ocTask c) submission"
    and round: "revisionRound \<Longrightarrow> submission \<noteq> None"
  shows "wal_triple E (me agent) (marked E c)
     (resumeReconciled E agent (ocTask c) c claim account submission revisionRound) any any"
proof (cases submission)
  case None
  then show ?thesis using resumeGrace_triple [OF reads round] by (simp add: resumeReconciled_def)
next
  case (Some s)
  have "suStatus s \<noteq> SIdle" if "landed_for c s"
    using that by (auto simp: landed_for_def isLandedSubmission_def)
  then show ?thesis
    using resumeGrace_triple [OF reads round] canonical_commit reads(3) Some
    by (auto simp: resumeReconciled_def)
qed

section \<open>Revision rounds\<close>

lemma isRevisionRequested_evidence:
  assumes "isRevisionRequested now t c s" "submission_read E A task (Some s)" "claim_read E A task (Some c)"
    "task_read E task (Some t)"
  shows "revision_evidence E A task (suSubmissionCount s)"
  using assms by (auto simp: isRevisionRequested_def revision_evidence_def split: if_splits)

lemma valid_claim_not_in_ledger:
  assumes "valid_state p s" "wsOpenClaim s = Some c"
  shows "List.filter (\<lambda>r. srTask r \<noteq> ocTask c) (wsSubmissions s) = wsSubmissions s"
  using assms by (force simp: filter_id_conv valid_state_def ledger_tasks_def)

lemma restoreRevisionRound_triple:
  assumes "isRevisionRequested now t cl su" "submission_read E A (ocTask c) (Some su)"
    "claim_read E A (ocTask c) (Some cl)" "task_read E (ocTask c) (Some t)"
    "ocRevisionSubmissionCount c \<noteq> Some (suSubmissionCount su)"
  shows "wal_triple E A (\<lambda>s. wsOpenClaim s = Some c)
     (seq (restoreRevisionRound E (ocTask c) cl su at) (\<lambda>_. reloadMarker E))
     (\<lambda>m s. marked E m s \<and> ocTask m = ocTask c) any"
proof (rule triple_seq [where R = "\<lambda>_ s. \<exists>m. wsOpenClaim s = Some m \<and> ocTask m = ocTask c"])
  show "wal_triple E A (\<lambda>s. wsOpenClaim s = Some c) (restoreRevisionRound E (ocTask c) cl su at)
     (\<lambda>_ s. \<exists>m. wsOpenClaim s = Some m \<and> ocTask m = ocTask c) any"
    unfolding restoreRevisionRound_def Let_def
  proof (rule guarded.triple_load_seq, rule wal_save, goal_cases)
    case (1 s s')
    then show ?case
      using assms isRevisionRequested_evidence [OF assms(1-4)]
      by (auto simp: valid_claim_not_in_ledger revision_marker_def
          intro!: change.revised [where c = c])
  qed auto
  show "wal_triple E A (\<lambda>s. \<exists>m. wsOpenClaim s = Some m \<and> ocTask m = ocTask c) (reloadMarker E)
     (\<lambda>m s. marked E m s \<and> ocTask m = ocTask c) any"
    unfolding reloadMarker_def
  proof (rule guarded.triple_load_seq, goal_cases)
    case (1 s)
    then show ?case
      by (auto simp: marked_def valid_state_def intro!: triple_returning)
  qed auto
qed

lemma resumeOpenClaim_triple: "wal_triple E (me agent) anywhere (resumeOpenClaim E agent) any any"
  unfolding resumeOpenClaim_def
proof (rule guarded.triple_load_seq, goal_cases)
  case (1 s)
  show ?case
  proof (cases "wsOpenClaim s")
    case None
    then show ?thesis by (simp add: triple_returning)
  next
    case (Some c)
    have m: "marked E c s" using 1(2) Some by (auto simp: marked_def valid_state_def)
    have plain: "wal_triple E (me agent) (\<lambda>s'. s' = s) (resumeReconciled E agent (ocTask c) c claim account submission False) any any"
      if "claim_read E (me agent) (ocTask c) claim" "task_read E (ocTask c) account" "submission_read E (me agent) (ocTask c) submission"
      for claim account submission
      by (rule triple_pre [OF resumeReconciled_triple [OF that]]) (use m in simp_all)
    have round: "wal_triple E (me agent) (\<lambda>s'. s' = s)
        (seq (if ocRevisionSubmissionCount c \<noteq> Some (suSubmissionCount su)
              then seq (restoreRevisionRound E (ocTask c) cl su (ocClaimedAt c)) (\<lambda>_. reloadMarker E)
              else returning c) (\<lambda>marker.
         resumeReconciled E agent (ocTask c) marker (Some cl) (Some t) (Some su) True)) any any"
      if reads: "claim_read E (me agent) (ocTask c) (Some cl)" "task_read E (ocTask c) (Some t)"
        "submission_read E (me agent) (ocTask c) (Some su)" and rev: "isRevisionRequested now t cl su" for cl t su now
    proof (rule triple_seq [where R = "\<lambda>mk s. marked E mk s \<and> ocTask mk = ocTask c"], rule triple_if)
      show "wal_triple E (me agent) (\<lambda>s'. s' = s)
          (seq (restoreRevisionRound E (ocTask c) cl su (ocClaimedAt c)) (\<lambda>_. reloadMarker E))
          (\<lambda>mk s. marked E mk s \<and> ocTask mk = ocTask c) any"
        if "ocRevisionSubmissionCount c \<noteq> Some (suSubmissionCount su)"
        by (rule triple_pre [OF restoreRevisionRound_triple [OF rev reads(3, 1, 2) that]]) (use Some in simp)
      show "wal_triple E (me agent) (\<lambda>s'. s' = s) (returning c) (\<lambda>mk s. marked E mk s \<and> ocTask mk = ocTask c) any"
        by (rule triple_returning) (use m in simp)
      show "wal_triple E (me agent) (\<lambda>s. marked E mk s \<and> ocTask mk = ocTask c)
         (resumeReconciled E agent (ocTask c) mk (Some cl) (Some t) (Some su) True) any any" for mk
      proof (cases "ocTask mk = ocTask c")
        case True
        then show ?thesis
          using resumeReconciled_triple [of E agent mk "Some cl" "Some t" "Some su" True] reads by simp
      qed (simp add: triple_def)
    qed
    show ?thesis
      unfolding Some option.case Let_def
      by (intro readClaim_seq readTask_seq readSubmission_seq now_ms_seq)
        (auto intro!: triple_if plain intro: round split: option.split split del: if_split)
  qed
qed simp

end
