(* ===== verification/WalSettle.thy ===== *)
theory WalSettle
  imports WalResume
begin

text \<open>
  Settlement keeps the discipline: a pass of \<open>checkSettlements\<close> writes once, loses no unsettled record,
  settles a record only with evidence for its outcome, and attributes to the records it settles at
  most the growth of the agent's reported earnings.
\<close>

section \<open>The in-memory pass\<close>

text \<open>A note that may be put on a record: none, or that it straggles.\<close>

definition notable :: "env \<Rightarrow> string option \<Rightarrow> string \<Rightarrow> terminal_evidence option \<Rightarrow> bool" where
  "notable E A task ev \<longleftrightarrow> ev = None \<or> straggles E A task"

definition quiet :: "env \<Rightarrow> string option \<Rightarrow> submission_record \<Rightarrow> submission_record \<Rightarrow> bool" where
  "quiet E A r r' \<longleftrightarrow> r' = r \<or> (\<not> srSettled r \<and> (\<exists>ev. notable E A (srTask r) ev \<and> r' = r\<lparr>srTerminalEvidence := ev\<rparr>))"

lemma quiet_task: "quiet E A r r' \<Longrightarrow> srTask r' = srTask r"
  by (auto simp: quiet_def)

text \<open>The revision round a pass may have opened: none, or the task taken out of the ledger.\<close>

definition round_opened :: "env \<Rightarrow> string option \<Rightarrow> worker_state \<Rightarrow> worker_state \<Rightarrow> string option \<Rightarrow> bool" where
  "round_opened E A s n taken \<longleftrightarrow>
     (taken = None \<and> wsOpenClaim n = wsOpenClaim s) \<or>
     (\<exists>r \<in> set (unsettled (wsSubmissions s)). \<exists>c k. taken = Some (srTask r) \<and> wsOpenClaim s = None \<and>
       wsOpenClaim n = Some c \<and> revision_marker (srTask r) k c \<and> revision_evidence E A (srTask r) k)"

definition pass :: "env \<Rightarrow> string option \<Rightarrow> (submission_record \<Rightarrow> submission_record \<Rightarrow> bool) \<Rightarrow> worker_state \<Rightarrow> worker_state \<Rightarrow> bool" where
  "pass E A step s n \<longleftrightarrow> wsAgentIdHex n = wsAgentIdHex s \<and> wsTotalEarnedBaseline n = wsTotalEarnedBaseline s \<and>
     (\<exists>f taken. round_opened E A s n taken \<and>
        wsSubmissions n = map f (List.filter (\<lambda>r. Some (srTask r) \<noteq> taken) (wsSubmissions s)) \<and>
        (\<forall>r \<in> set (wsSubmissions s). step r (f r)))"

definition resolvable :: "env \<Rightarrow> string option \<Rightarrow> worker_state \<Rightarrow> resolution \<Rightarrow> bool" where
  "resolvable E A s x \<longleftrightarrow>
     (\<exists>r \<in> set (unsettled (wsSubmissions s)). srTask r = rsTask x \<and> outcome_evidence E A r (rsOutcome x))"

definition passing :: "env \<Rightarrow> string option \<Rightarrow> worker_state \<Rightarrow> settle_state \<Rightarrow> bool" where
  "passing E A s st \<longleftrightarrow> pass E A (quiet E A) s (ssState st) \<and> list_all (resolvable E A s) (ssResolved st)"

lemma passing_start: "passing E A s \<lparr>ssState = s, ssResolved = [], ssRestored = False, ssChanged = False\<rparr>"
  unfolding passing_def pass_def
  by (auto intro!: exI [of _ "\<lambda>r. r"] exI [of _ None] simp: round_opened_def quiet_def)

lemma passing_resolve:
  "passing E A s st \<Longrightarrow> r \<in> set (unsettled (wsSubmissions s)) \<Longrightarrow> outcome_evidence E A r oc \<Longrightarrow>
   passing E A s (resolve r oc sol st)"
  by (auto simp: passing_def resolve_def resolvable_def)

text \<open>Changing the records of one task, uniformly.\<close>

lemma pass_update:
  assumes "pass E A step s n" "\<And>r r'. r \<in> set (wsSubmissions s) \<Longrightarrow> step r r' \<Longrightarrow> srTask r' = srTask r"
    "\<And>r r'. r \<in> set (wsSubmissions s) \<Longrightarrow> srTask r = task \<Longrightarrow> step r r' \<Longrightarrow> step r (g r')"
  shows "pass E A step s (update_record task g n)"
proof -
  obtain f taken where f: "round_opened E A s n taken"
    "wsSubmissions n = map f (List.filter (\<lambda>r. Some (srTask r) \<noteq> taken) (wsSubmissions s))"
    "\<forall>r \<in> set (wsSubmissions s). step r (f r)"
    using assms(1) by (auto simp: pass_def)
  let ?f = "\<lambda>r. if srTask (f r) = task then g (f r) else f r"
  have "step r (?f r)" if "r \<in> set (wsSubmissions s)" for r
    using that f(3) assms(2, 3) by (metis (full_types))
  then show ?thesis
    using assms(1) f unfolding pass_def
    by (intro conjI exI [of _ ?f] exI [of _ taken])
      (auto simp: update_record_def round_opened_def)
qed

lemma distinct_task:
  "distinct (ledger_tasks s) \<Longrightarrow> r \<in> set (wsSubmissions s) \<Longrightarrow> r' \<in> set (wsSubmissions s) \<Longrightarrow>
   srTask r = srTask r' \<Longrightarrow> r = r'"
  by (auto simp: ledger_tasks_def distinct_map inj_on_def)

lemma passing_note:
  assumes "passing E A s st" "r \<in> set (unsettled (wsSubmissions s))" "distinct (ledger_tasks s)"
    "notable E A (srTask r) ev"
  shows "passing E A s (st\<lparr>ssState := update_record (srTask r) (\<lambda>r. r\<lparr>srTerminalEvidence := ev\<rparr>) (ssState st)\<rparr>)"
proof -
  have "quiet E A x (x'\<lparr>srTerminalEvidence := ev\<rparr>)"
    if "x \<in> set (wsSubmissions s)" "srTask x = srTask r" "quiet E A x x'" for x x'
  proof -
    have "x = r" using distinct_task [OF assms(3) that(1) _ that(2)] assms(2) by simp
    then have "\<not> srSettled x" using assms(2) by simp
    then show ?thesis using that(3) assms(4) \<open>x = r\<close> by (auto simp: quiet_def)
  qed
  then show ?thesis
    using assms(1) unfolding passing_def
    by (auto intro!: pass_update simp: quiet_task)
qed

lemma passing_changed [simp]: "passing E A s (st\<lparr>ssChanged := b\<rparr>) = passing E A s st"
  by (simp add: passing_def)

lemma classify_evidence:
  assumes "classifyCompleted t claim submission r = Settle oc sol" "task_read E (srTask r) (Some t)"
    "tkStatus t = TCompleted" "claim_read E A (srTask r) claim" "submission_read E A (srTask r) submission"
  shows "outcome_evidence E A r oc"
proof (cases oc)
  case OAccepted
  then have "accepted_on_chain t claim submission (srTerminalEvidence r = Some CollaborativeStraggler)"
    using assms(1) unfolding classifyCompleted_def Let_def accepted_on_chain_def
    by (cases submission) (auto split: option.splits submission_status.splits if_splits)
  with assms OAccepted show ?thesis by (auto simp: outcome_evidence_def)
next
  case OStraggler
  then have "claim = None" "case submission of Some s \<Rightarrow> suStatus s = SIdle | None \<Rightarrow> True"
    "srTerminalEvidence r = Some CollaborativeStraggler"
    using assms(1) unfolding classifyCompleted_def Let_def
    by (cases submission; auto split: option.splits submission_status.splits if_splits)+
  with assms OStraggler show ?thesis by (auto simp: outcome_evidence_def)
qed (use assms in \<open>auto simp: classifyCompleted_def Let_def outcome_evidence_def
    split: option.splits submission_status.splits if_splits\<close>)

lemma straggler_evidence:
  assumes "classifyCompleted t claim submission r = MarkStraggler" "task_read E task (Some t)"
    "tkStatus t = TCompleted" "submission_read E A task submission"
  shows "straggles E A task"
proof -
  obtain su where "submission = Some su" "suStatus su = SSubmitted" "tkType t = TTCollaborative"
    using assms(1) by (auto simp: classifyCompleted_def Let_def split: option.splits submission_status.splits if_splits)
  with assms(2-4) show ?thesis unfolding straggles_def by blast
qed

lemma passing_completed:
  assumes "passing E A s st" "r \<in> set (unsettled (wsSubmissions s))" "distinct (ledger_tasks s)"
    "task_read E (srTask r) (Some t)" "tkStatus t = TCompleted" "claim_read E A (srTask r) claim"
    "submission_read E A (srTask r) submission"
  shows "passing E A s (apply_completed t claim submission r st)"
proof -
  have step: "passing E A s (case classifyCompleted t claim submission r of
           Settle oc sol \<Rightarrow> resolve r oc sol st1
         | MarkStraggler \<Rightarrow> st1\<lparr>ssState := update_record (srTask r)
               (\<lambda>r. r\<lparr>srTerminalEvidence := Some CollaborativeStraggler\<rparr>) (ssState st1), ssChanged := True\<rparr>
         | Keep \<Rightarrow> st1)" if "passing E A s st1" for st1
  proof (cases "classifyCompleted t claim submission r")
    case (Settle oc sol)
    then show ?thesis
      using passing_resolve [OF that assms(2) classify_evidence [OF Settle assms(4-7)]] by simp
  next
    case MarkStraggler
    have "notable E A (srTask r) (Some CollaborativeStraggler)"
      using straggler_evidence [OF MarkStraggler assms(4, 5, 7)] by (simp add: notable_def)
    then show ?thesis
      using passing_note [OF that assms(2, 3), of "Some CollaborativeStraggler"] MarkStraggler by (simp add: passing_def)
  next
    case Keep
    then show ?thesis using that by simp
  qed
  have "notable E A (srTask r) None" by (simp add: notable_def)
  then show ?thesis
    using step [OF assms(1)] step [OF passing_note [OF assms(1-3)]]
    by (simp add: apply_completed_def Let_def)
qed

lemma passing_revision:
  assumes "passing E A s st" "r \<in> set (unsettled (wsSubmissions s))" "wsOpenClaim (ssState st) = None"
    "revision_evidence E A (srTask r) (suSubmissionCount su)"
  shows "passing E A s (apply_revision p cl su r st)"
proof -
  obtain f taken where f: "round_opened E A s (ssState st) taken"
    "wsSubmissions (ssState st) = map f (List.filter (\<lambda>r. Some (srTask r) \<noteq> taken) (wsSubmissions s))"
    "\<forall>r \<in> set (wsSubmissions s). quiet E A r (f r)"
    "wsAgentIdHex (ssState st) = wsAgentIdHex s" "wsTotalEarnedBaseline (ssState st) = wsTotalEarnedBaseline s"
    using assms(1) by (auto simp: passing_def pass_def)
  have none: "taken = None" "wsOpenClaim s = None" using f(1) assms(3) by (auto simp: round_opened_def)
  have subs: "wsSubmissions (ssState st) = map f (wsSubmissions s)" using f(2) none by simp
  have "List.filter (\<lambda>x. srTask x \<noteq> srTask r) (map f (wsSubmissions s)) =
      map f (List.filter (\<lambda>x. Some (srTask x) \<noteq> Some (srTask r)) (wsSubmissions s))"
    unfolding filter_map comp_def
    by (intro arg_cong [where f = "map f"] filter_cong) (simp_all add: quiet_task [OF bspec [OF f(3)]])
  then have "pass E A (quiet E A) s (ssState (apply_revision p cl su r st))"
    using f assms none subs unfolding pass_def
    by (intro conjI exI [of _ f] exI [of _ "Some (srTask r)"])
      (auto simp: apply_revision_def round_opened_def revision_marker_def intro!: bexI [of _ r])
  then show ?thesis using assms(1) by (simp add: passing_def apply_revision_def)
qed

lemma rejected_evidence:
  "rejected_and_over now claim submission \<Longrightarrow> submission_read E A (srTask r) submission \<Longrightarrow>
   outcome_evidence E A r ORejected"
  by (auto simp: rejected_and_over_def outcome_evidence_def split: option.splits)

lemma cancelled_evidence:
  "task_read E (srTask r) (Some t) \<Longrightarrow> tkStatus t = TCancelled \<Longrightarrow> outcome_evidence E A r OCancelled"
  by (auto simp: outcome_evidence_def)

lemma settleRecord_triple:
  assumes r: "r \<in> set (unsettled (wsSubmissions s))" and d: "distinct (ledger_tasks s)"
    and st: "passing E (me agent) s st"
  shows "wal_triple E (me agent) (\<lambda>s'. s' = s) (settleRecord E agent r st) (\<lambda>st' s'. s' = s \<and> passing E (me agent) s st') any"
proof -
  have keep: "wal_triple E (me agent) (\<lambda>s'. s' = s) (returning st') (\<lambda>st' s'. s' = s \<and> passing E (me agent) s st') any"
    if "passing E (me agent) s st'" for st' by (rule triple_returning) (use that in simp)
  show ?thesis
    unfolding settleRecord_def Let_def
  proof (rule readTask_seq, rule now_ms_seq, goal_cases)
    case (1 account now)
    show ?case
    proof (cases account)
      case None
      show ?thesis
        unfolding None option.case
        by (intro triple_if keep st readClaim_seq readSubmission_seq now_ms_seq)
          (use r st in \<open>auto intro: passing_resolve rejected_evidence\<close>)
    next
      case (Some t)
      show ?thesis
        unfolding Some option.case
        by (intro triple_if keep st readClaim_seq readSubmission_seq now_ms_seq)
          (use r d st 1 Some in \<open>auto intro: passing_resolve rejected_evidence passing_completed
              passing_revision isRevisionRequested_evidence cancelled_evidence split: option.split\<close>)
    qed
  qed simp_all
qed

lemma settleRecords_triple:
  assumes "set rs \<subseteq> set (unsettled (wsSubmissions s))" "distinct (ledger_tasks s)" "passing E (me agent) s st"
  shows "wal_triple E (me agent) (\<lambda>s'. s' = s) (settleRecords E agent rs st) (\<lambda>st' s'. s' = s \<and> passing E (me agent) s st') any"
  using assms
proof (induction rs arbitrary: st)
  case Nil
  then show ?case by (simp add: triple_returning)
next
  case (Cons r rs)
  have "wal_triple E (me agent) (\<lambda>s'. s' = s) (settleRecord E agent r st) (\<lambda>st' s'. s' = s \<and> passing E (me agent) s st') any"
    using Cons.prems by (intro settleRecord_triple) auto
  moreover have "wal_triple E (me agent) (\<lambda>s'. s' = s \<and> passing E (me agent) s st') (settleRecords E agent rs st')
      (\<lambda>st' s'. s' = s \<and> passing E (me agent) s st') any" for st'
    by (rule triple_fix, elim conjE, hypsubst) (use Cons in auto)
  ultimately show ?case by (simp add: triple_seq)
qed

section \<open>Attributed earnings\<close>

lemma pass_mono:
  "pass E A step s n \<Longrightarrow> (\<And>r r'. step r r' \<Longrightarrow> step' r r') \<Longrightarrow> pass E A step' s n"
  unfolding pass_def by blast

lemma quiet_record_step: "quiet E A r r' \<Longrightarrow> record_step E A r r'"
  by (auto simp: quiet_def notable_def record_step_def same_submission_def)

lemma record_step_task: "record_step E A r r' \<Longrightarrow> srTask r' = srTask r"
  by (simp add: record_step_def same_submission_def)

lemma pass_distinct:
  assumes "pass E A (record_step E A) s n" "distinct (ledger_tasks s)"
  shows "distinct (ledger_tasks n)"
proof -
  obtain f taken where f: "wsSubmissions n = map f (List.filter (\<lambda>r. Some (srTask r) \<noteq> taken) (wsSubmissions s))"
    "\<forall>r \<in> set (wsSubmissions s). record_step E A r (f r)"
    using assms(1) by (auto simp: pass_def)
  have "ledger_tasks n = map srTask (List.filter (\<lambda>r. Some (srTask r) \<noteq> taken) (wsSubmissions s))"
    unfolding ledger_tasks_def f(1) using f(2) by (auto dest: record_step_task)
  then show ?thesis using assms(2) by (simp add: ledger_tasks_def distinct_map_filter)
qed

lemma sum_list_filter_le: "sum_list (map (g :: 'a \<Rightarrow> nat) (List.filter P xs)) \<le> sum_list (map g xs)"
  by (induction xs) auto

lemma unsettled_credit: "(\<And>r. r \<in> set (wsSubmissions n) \<Longrightarrow> srTask r \<notin> settled_tasks s \<Longrightarrow> earned_amount r = 0) \<Longrightarrow> credit s n = 0"
  by (simp add: credit_def sum_list_eq_0_iff)

lemma quiet_credit:
  assumes "pass E A (quiet E A) s n"
  shows "credit s n = 0"
proof (rule unsettled_credit)
  fix r'
  assume r': "r' \<in> set (wsSubmissions n)" "srTask r' \<notin> settled_tasks s"
  then obtain r where r: "r \<in> set (wsSubmissions s)" "quiet E A r r'" using assms by (auto simp: pass_def)
  then have "\<not> srSettled r'"
    using r'(2) by (auto simp: settled_tasks_def quiet_def)
  then show "earned_amount r' = 0" by (simp add: earned_amount_def)
qed

lemma attributed_update:
  assumes "distinct (map srTask rs)" "\<And>r. earned_amount (g r) \<le> e"
  shows "sum_list (map (\<lambda>r. earned_amount (if srTask r = task then g r else r)) rs)
     \<le> sum_list (map earned_amount rs) + e"
  using assms(1)
proof (induction rs)
  case (Cons r rs)
  show ?case
  proof (cases "srTask r = task")
    case True
    then have "srTask x \<noteq> task" if "x \<in> set rs" for x
      using Cons.prems that by (metis distinct.simps(2) image_eqI list.set_map list.simps(9))
    then have rest: "map (\<lambda>r. earned_amount (if srTask r = task then g r else r)) rs = map earned_amount rs"
      by simp
    show ?thesis
      unfolding list.map sum_list.Cons rest using True assms(2) [of r] by simp
  qed (use Cons in simp)
qed simp

lemma credit_update:
  assumes "distinct (ledger_tasks n)" "\<And>r. earned_amount (g r) \<le> e" "\<And>r. srTask (g r) = srTask r"
  shows "credit s (update_record task g n) \<le> credit s n + e"
proof -
  let ?rs = "List.filter (\<lambda>r. srTask r \<notin> settled_tasks s) (wsSubmissions n)"
  have "List.filter (\<lambda>r. srTask r \<notin> settled_tasks s) (wsSubmissions (update_record task g n)) =
      map (\<lambda>r. if srTask r = task then g r else r) ?rs"
    by (auto simp: update_record_def filter_map comp_def assms(3) intro!: arg_cong [where f = "map _"] filter_cong)
  moreover have "distinct (map srTask ?rs)"
    using assms(1) by (simp add: ledger_tasks_def distinct_map_filter)
  ultimately show ?thesis
    using attributed_update [of ?rs g e task] assms(2) by (simp add: credit_def comp_def)
qed

text \<open>What a resolution adds.\<close>

definition earned_value :: "nat \<Rightarrow> nat \<Rightarrow> resolution \<Rightarrow> nat" where
  "earned_value paidCount delta x = (case earned_of paidCount delta x of Some v \<Rightarrow> v | None \<Rightarrow> 0)"

lemma settled_record_earned:
  "earned_amount (settled_record oc (earned_of k d x) sig at r) \<le> earned_value k d x"
  by (auto simp: earned_amount_def settled_record_def earned_value_def split: option.split)

lemma sum_earned:
  "sum_list (map (earned_value (length (List.filter is_paid_sol rs)) d) rs) \<le> d"
proof -
  have each: "earned_value k d x = (if is_paid_sol x \<and> k = 1 then d else 0)" for k x
    by (simp add: earned_value_def earned_of_def is_paid_sol_def)
  have "sum_list (map (\<lambda>x. if is_paid_sol x then d else 0) xs) = d * length (List.filter is_paid_sol xs)" for xs
    by (induction xs) auto
  then show ?thesis
    unfolding each by (cases "length (List.filter is_paid_sol rs) = 1") (simp_all add: sum_list_0)
qed

lemma sum_earned_none: "sum_list (map (earned_value 0 d) rs) = 0"
  by (induction rs) (auto simp: earned_value_def earned_of_def)

definition reporting :: "env \<Rightarrow> string option \<Rightarrow> worker_state \<Rightarrow> nat \<Rightarrow> worker_state \<Rightarrow> bool" where
  "reporting E A s k n \<longleftrightarrow> pass E A (record_step E A) s n \<and> credit s n \<le> k"

lemma reporting_start: "passing E A s st \<Longrightarrow> reporting E A s 0 (ssState st)"
  by (auto simp: reporting_def passing_def intro: pass_mono quiet_record_step dest: quiet_credit)

lemma reporting_settled:
  assumes "reporting E A s k n" "resolvable E A s x" "distinct (ledger_tasks s)"
  shows "reporting E A s (k + earned_value pc d x)
     (update_record (rsTask x) (settled_record (rsOutcome x) (earned_of pc d x) sig at) n)"
proof -
  let ?g = "settled_record (rsOutcome x) (earned_of pc d x) sig at"
  have p: "pass E A (record_step E A) s n" and a: "credit s n \<le> k"
    using assms(1) by (simp_all add: reporting_def)
  have "record_step E A r (?g r')"
    if "r \<in> set (wsSubmissions s)" "srTask r = rsTask x" "record_step E A r r'" for r r'
  proof -
    obtain u where u: "u \<in> set (unsettled (wsSubmissions s))" "srTask u = rsTask x" "outcome_evidence E A u (rsOutcome x)"
      using assms(2) by (auto simp: resolvable_def)
    then have "r = u" using distinct_task [OF assms(3) that(1), of u] that(2) by auto
    then have "\<not> srSettled r" "outcome_evidence E A r (rsOutcome x)" using u by auto
    then show ?thesis
      using that(3) by (auto simp: record_step_def same_submission_def settled_record_def)
  qed
  then have "pass E A (record_step E A) s (update_record (rsTask x) ?g n)"
    by (intro pass_update p) (auto intro: record_step_task)
  moreover have "credit s (update_record (rsTask x) ?g n) \<le> credit s n + earned_value pc d x"
    using pass_distinct [OF p assms(3)] by (intro credit_update settled_record_earned) (simp_all add: settled_record_def)
  ultimately show ?thesis using a by (simp add: reporting_def)
qed

section \<open>The report\<close>

lemma findSettlement_triple: "wal_triple E A (\<lambda>s'. s' = s) (findSettlement E x) (\<lambda>_ s'. s' = s) any"
  unfolding findSettlement_def
  by (auto intro!: triple_returning triple_catching [where Y = "\<lambda>_ s'. s' = s"] guarded.triple_call
      split: bool.split option.split)

lemma reportSettlements_triple:
  assumes "reporting E A s k n" "list_all (resolvable E A s) rs" "distinct (ledger_tasks s)"
  shows "wal_triple E A (\<lambda>s'. s' = s) (reportSettlements E pc d rs n)
     (\<lambda>(n', _) s'. s' = s \<and> reporting E A s (k + sum_list (map (earned_value pc d) rs)) n') any"
  using assms
proof (induction rs arbitrary: k n)
  case Nil
  then show ?case by (simp add: triple_returning)
next
  case (Cons x rs)
  have receipt: "wal_triple E A (\<lambda>s'. s' = s) (case sig of None \<Rightarrow> returning None
      | Some v \<Rightarrow> seq (lift_res (settlementReceiptUrl v)) (\<lambda>u. returning (Some u))) (\<lambda>_ s'. s' = s) any" for sig
    by (cases sig) (auto intro!: triple_returning triple_seq [where R = "\<lambda>_ s'. s' = s"] triple_lift_res)
  have rest: "wal_triple E A (\<lambda>s'. s' = s)
     (reportSettlements E pc d rs (update_record (rsTask x) (settled_record (rsOutcome x) (earned_of pc d x) sig at) n))
     (\<lambda>(n', _) s'. s' = s \<and> reporting E A s (k + sum_list (map (earned_value pc d) (x # rs))) n') any" for sig at
    using Cons.IH [OF reporting_settled [OF Cons.prems(1)]] Cons.prems(2, 3) by (simp add: add.assoc)
  show ?case
    unfolding reportSettlements.simps Let_def
    by (intro triple_seq [OF findSettlement_triple] triple_seq [OF receipt] now_iso_seq triple_seq [OF rest])
      (auto intro!: triple_returning split: prod.split)
qed

lemma settling_change:
  assumes "reporting E A s k n"
    "wsAgentIdHex n' = wsAgentIdHex n" "wsOpenClaim n' = wsOpenClaim n" "wsSubmissions n' = wsSubmissions n"
    "baseline n' = baseline s \<and> k = 0 \<or>
     baseline s < baseline n' \<and> earnings_read E A (baseline n') \<and> k \<le> baseline n' - baseline s"
  shows "change E A s n'"
proof -
  obtain f taken where f: "round_opened E A s n taken"
    "wsSubmissions n = map f (List.filter (\<lambda>r. Some (srTask r) \<noteq> taken) (wsSubmissions s))"
    "\<forall>r \<in> set (wsSubmissions s). record_step E A r (f r)" "wsAgentIdHex n = wsAgentIdHex s"
    using assms(1) by (auto simp: reporting_def pass_def)
  have "credit s n' \<le> baseline n' - baseline s"
    using assms(1, 4, 5) by (auto simp: reporting_def credit_def)
  then show ?thesis
    using f assms(2-5) by (intro change.settling [where taken = taken and f = f]) (auto simp: round_opened_def)
qed

lemma saveIfChanged_triple:
  assumes "passing E A s st"
  shows "wal_triple E A (\<lambda>s'. s' = s) (saveIfChanged E st) any any"
  unfolding saveIfChanged_def
  using assms
  by (intro triple_if wal_save_return triple_returning settling_change [OF reporting_start])
    (auto simp: passing_def pass_def)

lemma finishSettlements_triple:
  assumes st: "passing E A s st" and rs: "list_all (resolvable E A s) resolved" and d: "distinct (ledger_tasks s)"
    and total: "\<And>n. totalEarned = Some n \<Longrightarrow> baseline s < n \<and> earnings_read E A n"
  shows "wal_triple E A (\<lambda>s'. s' = s) (finishSettlements E st resolved totalEarned) any any"
proof (cases "resolved = []")
  case True
  then show ?thesis using saveIfChanged_triple [OF st] by (simp add: finishSettlements_def)
next
  case False
  let ?pc = "if totalEarned = None then 0 else length (List.filter is_paid_sol resolved)"
  let ?d = "case totalEarned of None \<Rightarrow> 0 | Some n \<Rightarrow> n - baseline s"
  let ?k = "sum_list (map (earned_value ?pc ?d) resolved)"
  let ?new = "\<lambda>n. case totalEarned of None \<Rightarrow> n | Some t \<Rightarrow> n\<lparr>wsTotalEarnedBaseline := dec_print t\<rparr>"
  have base: "baseline (ssState st) = baseline s" using st by (simp add: passing_def pass_def)
  have k: "?k \<le> ?d"
    using sum_earned [of resolved ?d] sum_earned_none [of ?d resolved] by (cases totalEarned) simp_all
  have change: "change E A s (?new n)" if "reporting E A s ?k n" for n
  proof (rule settling_change [OF that])
    have "baseline n = baseline s" using that by (simp add: reporting_def pass_def)
    then show "baseline (?new n) = baseline s \<and> ?k = 0 \<or>
       baseline s < baseline (?new n) \<and> earnings_read E A (baseline (?new n)) \<and> ?k \<le> baseline (?new n) - baseline s"
      using k total by (cases totalEarned) auto
  qed (auto split: option.split)
  have save: "wal_triple E A (\<lambda>s'. s' = s \<and> reporting E A s ?k n)
      (seq (saveState E (?new n)) (\<lambda>_. returning reports)) any any" for n reports
    by (rule wal_save_return) (auto intro: change)
  have report: "wal_triple E A (\<lambda>s'. s' = s) (reportSettlements E ?pc ?d resolved (ssState st))
     (\<lambda>(n, _) s'. s' = s \<and> reporting E A s ?k n) any"
    using reportSettlements_triple [OF reporting_start [OF st] rs d, of ?pc ?d] by simp
  have "wal_triple E A (\<lambda>s'. s' = s)
     (seq (reportSettlements E ?pc ?d resolved (ssState st)) (\<lambda>(state, reports).
        seq (saveState E (?new state)) (\<lambda>_. returning reports))) any any"
    by (rule triple_seq [OF report]) (use save in \<open>auto split: prod.split\<close>)
  then show ?thesis using False base by (simp add: finishSettlements_def Let_def)
qed

lemma confirmPaid_ok:
  assumes "confirmPaid b rs a = (rs', earned)" "list_all Q rs"
  shows "list_all Q rs'" "earned = Some n \<Longrightarrow> \<exists>x. a = Some x \<and> n = agTotalEarned x \<and> b < n"
  using assms by (auto simp: confirmPaid_def list_all_iff split: option.splits if_splits)

lemma checkSettlements_triple: "wal_triple E (me agent) anywhere (checkSettlements E agent) any any"
  unfolding checkSettlements_def Let_def
proof (rule guarded.triple_load_seq, rule triple_if, goal_cases)
  case (2 s)
  have d: "distinct (ledger_tasks s)" using 2(2) by (simp add: valid_state_def)
  have after: "wal_triple E (me agent) (\<lambda>s'. s' = s \<and> passing E (me agent) s st)
     (if list_ex is_paid_sol (ssResolved st)
       then seq (call E (\<lambda>t. o_agent E t (waAgentPda agent))) (\<lambda>agentData.
         case confirmPaid (baseline (ssState st)) (ssResolved st) agentData of
           (resolved, totalEarned) \<Rightarrow> finishSettlements E st resolved totalEarned)
       else finishSettlements E st (ssResolved st) None) any any" for st
  proof (cases "passing E (me agent) s st")
    case True
    then have rs: "list_all (resolvable E (me agent) s) (ssResolved st)" and base: "baseline (ssState st) = baseline s"
      by (simp_all add: passing_def pass_def)
    have paid: "wal_triple E (me agent) (\<lambda>s'. s' = s) (case confirmPaid (baseline s) (ssResolved st) a of
           (resolved, totalEarned) \<Rightarrow> finishSettlements E st resolved totalEarned) any any"
      if "o_agent E t (waAgentPda agent) = Inr a" for t a
    proof (cases "confirmPaid (baseline s) (ssResolved st) a")
      case (Pair resolved earned)
      have "baseline s < n \<and> earnings_read E (me agent) n" if "earned = Some n" for n
        using confirmPaid_ok(2) [OF Pair rs that] \<open>o_agent E t (waAgentPda agent) = Inr a\<close>
        by (auto simp: earnings_read_def)
      then show ?thesis
        unfolding Pair prod.case by (intro finishSettlements_triple True confirmPaid_ok(1) [OF Pair rs] d) simp_all
    qed
    have plain: "wal_triple E (me agent) (\<lambda>s'. s' = s) (finishSettlements E st (ssResolved st) None) any any"
      by (rule finishSettlements_triple [OF True rs d]) simp
    show ?thesis
      unfolding base
      by (rule triple_pre [where P' = "\<lambda>s'. s' = s"], intro triple_if plain guarded.triple_call_seq paid) auto
  qed (simp add: triple_def)
  show ?case
    by (rule triple_seq [OF settleRecords_triple [OF _ d passing_start] after]) auto
qed (simp_all add: triple_returning)

end
