(* ===== verification/WalTick.thy ===== *)
theory WalTick
  imports WalSettle
begin

text \<open>
  The entry points refine the specification: a tick and the step chain of the watch loop take only
  steps of \<open>wal\<close>, from any readable durable state; so does any sequence of runs, each of which may
  be cut off anywhere by the death of its process.
\<close>

section \<open>Registration\<close>

definition identified :: "bytes \<Rightarrow> worker_state \<Rightarrow> bool" where
  "identified agentId s \<longleftrightarrow> (\<exists>h. wsAgentIdHex s = Some h \<and> hexToBytes h = Inr agentId)"

lemma bytesToHex_identified:
  assumes "valid_state p s" "wsAgentIdHex s = Some (bytesToHex b)"
  shows "hexToBytes (bytesToHex b) = Inr b"
proof -
  have "is_hash_hex (bytesToHex b)" using assms by (auto simp: valid_state_def)
  then have "b \<noteq> []" by (auto simp: is_hash_hex_def)
  then show ?thesis by (rule hex.dec_enc)
qed

text \<open>Registration needs no evidence about the agent: its steps are allowed in any name.\<close>

abbreviation nameless :: "env \<Rightarrow> worker_state \<Rightarrow> event \<Rightarrow> worker_state \<Rightarrow> bool" where
  "nameless E a ev b \<equiv> \<forall>A. wal E A a ev b"

lemma loadAgentId_triple: "triple (durable E) (nameless E) anywhere (loadAgentId E) identified any"
  unfolding loadAgentId_def
proof (rule guarded.triple_load_seq, goal_cases)
  case (1 s)
  show ?case
  proof (cases "wsAgentIdHex s")
    case (Some h)
    then show ?thesis by (auto simp: identified_def intro!: triple_lift_res)
  next
    case None
    have "identified b (pruned (s\<lparr>wsAgentIdHex := Some (bytesToHex b)\<rparr>))"
      if "valid_state (e_platform E) (s\<lparr>wsAgentIdHex := Some (bytesToHex b)\<rparr>)" for b
      using bytesToHex_identified [OF that] by (simp add: identified_def)
    then show ?thesis
      unfolding None option.case
      by (intro guarded.triple_call_seq guarded.triple_save_seq triple_returning)
        (use None in \<open>auto intro: wal.saved change.agent_id\<close>)
  qed
qed simp

lemma readRent_seq:
  assumes "\<And>a. triple (durable E) G P (g a) Q any"
  shows "triple (durable E) G P (seq (readRent E f space) g) Q any"
  unfolding readRent_def by (rule guarded.triple_call_seq) (use assms in auto)

lemma registrationFunding_triple: "triple (durable E) G P (registrationFunding E stake) (\<lambda>_. P) any"
  unfolding registrationFunding_def
  by (auto intro!: triple_returning triple_throwing readRent_seq guarded.triple_call_seq triple_lift_res
      split: option.split)

text \<open>The agent of a run is the one whose id is in the state file.\<close>

lemma identified_agent: "identified agentId s \<Longrightarrow> agent_of E s = Some (pda_agent (e_chain E) agentId)"
  by (auto simp: identified_def agent_of_def)

lemma ensureRegistered_triple:
  "triple (durable E) (nameless E) anywhere (ensureRegistered E) (\<lambda>agent s. agent_of E s = me agent) any"
  unfolding ensureRegistered_def Let_def
proof (rule triple_seq [OF loadAgentId_triple], rule guarded.triple_call_seq, goal_cases)
  case (1 agentId t existing)
  have register: "triple (durable E) (nameless E) (identified agentId) (effect E (RegisterSent agentId) f)
      (\<lambda>_. identified agentId) any" if "\<not> e_dry_run E" for f
    using that by (intro guarded.triple_effect) (auto simp: identified_def intro: wal.registered)
  show ?case
    by (cases existing)
      (auto intro!: triple_throwing triple_returning guarded.triple_call_seq triple_seq [OF registrationFunding_triple]
        triple_seq [OF register] simp: identified_agent)
qed simp

section \<open>Steps in the worker's own name\<close>

text \<open>A step of the worker is a step of the specification for the agent of the durable state it starts in.\<close>

definition worker_step :: "env \<Rightarrow> worker_state \<Rightarrow> event \<Rightarrow> worker_state \<Rightarrow> bool" where
  "worker_step E a ev b \<longleftrightarrow> wal E (agent_of E a) a ev b"

lemma change_identity: "change E A a n \<Longrightarrow> wsAgentIdHex a = Some h \<Longrightarrow> wsAgentIdHex n = Some h"
  by (erule change.cases) auto

lemma wal_agent:
  assumes "wal E A a ev b" "agent_of E a = Some pda"
  shows "agent_of E b = Some pda"
proof -
  obtain h where h: "wsAgentIdHex a = Some h" using assms(2) by (auto simp: agent_of_def split: option.splits)
  have "wsAgentIdHex b = Some h"
    using assms(1) by cases (use h in \<open>auto dest: change_identity\<close>)
  then show ?thesis using assms(2) h by (simp add: agent_of_def)
qed

lemma path_named:
  assumes "path (wal E (Some pda)) s evs s'" "agent_of E s = Some pda"
  shows "path (worker_step E) s evs s'"
  using assms by (induction rule: path.induct) (auto intro!: path.cons simp: worker_step_def dest: wal_agent)

lemma triple_named:
  assumes "wal_triple E (me agent) anywhere m any any"
  shows "triple (durable E) (worker_step E) (\<lambda>s. agent_of E s = me agent) m any any"
proof (rule tripleI)
  fix w s r w'
  assume "durable E w = Inr s" "agent_of E s = me agent" "m w = (r, w')"
  then obtain evs s' where "durable E w' = Inr s'" "w_trace w' = w_trace w @ evs"
    "path (wal E (me agent)) s evs s'" "ended any any r s'"
    using tripleD [OF assms] by blast
  moreover from this(3) have "path (worker_step E) s evs s'"
    by (rule path_named) fact
  ultimately show "\<exists>evs s'. durable E w' = Inr s' \<and> w_trace w' = w_trace w @ evs \<and> path (worker_step E) s evs s' \<and> ended any any r s'"
    by blast
qed

lemma triple_weaken: "triple v G P m Q X \<Longrightarrow> (\<And>a ev b. G a ev b \<Longrightarrow> H a ev b) \<Longrightarrow> triple v H P m Q X"
  by (rule tripleI, erule (3) tripleD) (metis path_mono)

lemma registered_seq:
  assumes "\<And>agent. wal_triple E (me agent) anywhere (k agent) any any"
  shows "triple (durable E) (worker_step E) anywhere (seq (ensureRegistered E) k) any any"
  by (rule triple_seq [OF triple_weaken [OF ensureRegistered_triple] triple_named [OF assms]]) (simp add: worker_step_def)

section \<open>Ticks\<close>

lemma triple_any_seq:
  "wal_triple E A anywhere m any any \<Longrightarrow> (\<And>a. wal_triple E A anywhere (f a) any any) \<Longrightarrow>
   wal_triple E A anywhere (seq m f) any any"
  by (rule triple_seq)

lemma sweepCandidates_triple: "wal_triple E (me agent) anywhere (sweepCandidates E agent cs outcome) any any"
  by (induction cs arbitrary: outcome)
    (auto intro!: triple_returning triple_any_seq processCandidate_triple)

lemma sweep_triple: "wal_triple E (me agent) anywhere (sweep E agent) any any"
  unfolding sweep_def Let_def
  by (rule guarded.triple_load_seq)
    (auto intro!: guarded.triple_call_seq triple_seq [OF triple_pre [OF sweepCandidates_triple]] triple_returning)

lemma settleIfRegistered_triple: "wal_triple E (me agent) anywhere (settleIfRegistered E agent) any any"
  by (simp add: settleIfRegistered_def checkSettlements_triple triple_returning)

lemma preflight_triple: "triple (durable E) G anywhere (preflight E) any any"
  unfolding preflight_def by (intro triple_seq [where R = any] triple_lift_res) simp_all

lemma tick_triple: "triple (durable E) (worker_step E) anywhere (runTickOnceLocked E) any any"
  unfolding runTickOnceLocked_def
  by (intro triple_seq [OF preflight_triple] registered_seq triple_any_seq settleIfRegistered_triple
      resumeOpenClaim_triple)
    (auto intro!: triple_any_seq settleIfRegistered_triple triple_returning sweep_triple split: option.split prod.split)

lemma runStep_triple: "wal_triple E (me agent) anywhere (runStep E agent step) any any"
  unfolding runStep_def swallow_def
  by (rule triple_catching [where Y = any], cases step)
    (auto intro!: triple_any_seq checkSettlements_triple resumeOpenClaim_triple processCandidate_triple
      triple_returning)

lemma runSteps_triple: "wal_triple E (me agent) anywhere (runSteps E agent steps) any any"
  by (induction steps) (auto intro!: triple_returning triple_any_seq runStep_triple)

lemma up_triple: "triple (durable E) (worker_step E) anywhere (runUpLocked E steps) any any"
  unfolding runUpLocked_def
  by (intro triple_seq [OF preflight_triple] registered_seq triple_any_seq checkSettlements_triple
      resumeOpenClaim_triple runSteps_triple)

section \<open>The life of a worker\<close>

text \<open>
  A run of the process in one of its modes, in its own environment; the state file survives it.
\<close>

datatype run = Tick env | Up env "up_step list"

fun run_env :: "run \<Rightarrow> env" where
  "run_env (Tick E) = E"
| "run_env (Up E steps) = E"

fun perform :: "run \<Rightarrow> world \<Rightarrow> world" where
  "perform (Tick E) w = snd (runTickOnceLocked E w)"
| "perform (Up E steps) w = snd (runUpLocked E steps w)"

definition lifetime :: "run list \<Rightarrow> world \<Rightarrow> world" where
  "lifetime rs w = fold perform rs w"

definition wal_of :: "env set \<Rightarrow> worker_state \<Rightarrow> event \<Rightarrow> worker_state \<Rightarrow> bool" where
  "wal_of Es a ev b \<longleftrightarrow> (\<exists>E \<in> Es. worker_step E a ev b)"

lemma perform_path:
  assumes "durable (run_env r) w = Inr s"
  obtains evs s' where "durable (run_env r) (perform r w) = Inr s'" "w_trace (perform r w) = w_trace w @ evs"
    "path (worker_step (run_env r)) s evs s'"
proof (cases r)
  case (Tick E)
  obtain x w' where x: "runTickOnceLocked E w = (x, w')" by fastforce
  show ?thesis
    using tripleD [OF tick_triple, of E w s x w'] assms x that Tick by auto
next
  case (Up E steps)
  obtain x w' where x: "runUpLocked E steps w = (x, w')" by fastforce
  show ?thesis
    using tripleD [OF up_triple, of E w s steps x w'] assms x that Up by auto
qed

lemma durable_platform: "e_platform E = p \<Longrightarrow> durable E w = load_disk p (w_disk w)"
  by (simp add: durable_def)

lemma lifetime_path:
  assumes "load_disk p (w_disk w) = Inr s" "\<forall>r \<in> set rs. e_platform (run_env r) = p"
  shows "\<exists>evs s'. load_disk p (w_disk (lifetime rs w)) = Inr s' \<and>
     w_trace (lifetime rs w) = w_trace w @ evs \<and> path (wal_of (run_env ` set rs)) s evs s'"
  using assms
proof (induction rs arbitrary: w s)
  case Nil
  then show ?case by (simp add: lifetime_def)
next
  case (Cons r rs)
  then have p: "e_platform (run_env r) = p" by simp
  obtain evs s1 where 1: "load_disk p (w_disk (perform r w)) = Inr s1" "w_trace (perform r w) = w_trace w @ evs"
    "path (worker_step (run_env r)) s evs s1"
    using perform_path [of r w s] Cons.prems(1) durable_platform [OF p] by metis
  obtain evs' s' where 2: "load_disk p (w_disk (lifetime rs (perform r w))) = Inr s'"
    "w_trace (lifetime rs (perform r w)) = w_trace (perform r w) @ evs'" "path (wal_of (run_env ` set rs)) s1 evs' s'"
    using Cons.IH [OF 1(1)] Cons.prems(2) by auto
  have "path (wal_of (run_env ` set (r # rs))) s evs s1" "path (wal_of (run_env ` set (r # rs))) s1 evs' s'"
    using 1(3) 2(3) by (auto elim!: path_mono simp: wal_of_def)
  then show ?case
    using 1 2 by (auto simp: lifetime_def intro: path_append)
qed

end
