(* ===== verification/SampleRun.thy ===== *)
theory SampleRun
  imports WalTick
begin

text \<open>
  A worker, a chain with one open task, and the tick in which the worker claims, executes and submits
  it: the concrete run on which the theorems about runs are applied.
\<close>

definition sample_account :: task_account where
  "sample_account = \<lparr>tkStatus = TOpen, tkType = TTExclusive, tkCreator = ''buyer'', tkRewardAmount = 50,
     tkRewardMint = None, tkRequiredCapabilities = 1, tkDependsOn = None,
     tkDescription = replicate 64 0, tkCurrentWorkers = 0\<rparr>"

definition sample_chain :: chain where
  "sample_chain = \<lparr>pda_agent = (\<lambda>_. ''agent''), pda_claim = (\<lambda>t a. t @ a), pda_submission = (\<lambda>c. c),
     pda_hire = (\<lambda>t. (t, 0)), hire_size = 1, hire_discriminator = [],
     decode_hire = (\<lambda>_. Inl (PlainError ''no hire''))\<rparr>"

definition sample_env :: env where
  "sample_env = \<lparr>e_platform = sample_platform, e_chain = sample_chain, e_config = sample_config,
     e_signer = ''wallet'', e_dry_run = False, e_api_key = [],
     e_getBalance = Some (\<lambda>_. Inr (Some 99000000)), e_getRent = Some (\<lambda>_ _. Inr (Some 1000000)),
     e_transport = None, e_findSettlement = None,
     e_locate = (\<lambda>c. Some c), e_help = \<lparr>hc_error = False, hc_status = Some 0, hc_output = []\<rparr>,
     o_crash = (\<lambda>_. False), o_now = (\<lambda>_. 0), o_load_fault = (\<lambda>_. False), o_save = (\<lambda>_. SaveOk),
     o_agent_id = (\<lambda>_. replicate 32 1),
     o_agent = (\<lambda>_ _. Inr (Some \<lparr>agAuthority = ''wallet'', agCapabilities = 3, agTotalEarned = 0\<rparr>)),
     o_min_stake = (\<lambda>_. Inr 0),
     o_open_tasks = (\<lambda>_. Inr [(''task'', sample_account)]),
     o_job_specs = (\<lambda>_. Inr [(''task'', sample_hash, ''https://a'')]),
     o_task = (\<lambda>_ _. Inr (Some sample_account)), o_claim = (\<lambda>_ _. Inr None), o_submission = (\<lambda>_ _. Inr None),
     o_hire = (\<lambda>_ _. Inr (HireBytes None)), o_job_spec = (\<lambda>_ _. Inr (Some sample_job_spec)),
     o_fetchers = (\<lambda>_. sample_fetchers),
     o_register = (\<lambda>_ _. Inr ''sig''), o_claim_tx = (\<lambda>_ _ _. Inr ''sig''), o_submit_tx = (\<lambda>_ _ _. Inr ''sig''),
     o_spawn = (\<lambda>_ _ _. [StdoutData [1, 2, 3], ChildClose (Some 0) None]),
     o_post = (\<lambda>_ _ _ _. Inl (PlainError ''unused''))\<rparr>"

definition blank_world :: world where
  "blank_world = \<lparr>w_disk = Absent, w_tick = 0, w_trace = []\<rparr>"

end
