(* ===== verification/WalTheorems.thy ===== *)
theory WalTheorems
  imports SampleRun
begin

text \<open>
  What the refinement of the specification gives for the runs of the worker: statements about the
  trace of effects that a sequence of runs leaves, each event taken with the durable state it
  happened in.  The runs may end at any effect, by a throw or by the death of the process.
\<close>

section \<open>Traces\<close>

text \<open>The events between two worlds, and the durable state after an event.\<close>

definition emitted :: "world \<Rightarrow> world \<Rightarrow> event list" where
  "emitted w w' = drop (length (w_trace w)) (w_trace w')"

fun after :: "event \<Rightarrow> worker_state \<Rightarrow> worker_state" where
  "after (Saved n) s = n"
| "after _ s = s"

fun annotated :: "worker_state \<Rightarrow> event list \<Rightarrow> (worker_state \<times> event) list" where
  "annotated s [] = []"
| "annotated s (ev # evs) = (s, ev) # annotated (after ev s) evs"

lemma wal_after: "wal E A a ev b \<Longrightarrow> b = after ev a"
  by (erule wal.cases) auto

lemma wal_valid: "wal E A a ev b \<Longrightarrow> valid_state (e_platform E) a \<Longrightarrow> valid_state (e_platform E) b"
  by (erule wal.cases) auto

lemma path_annotated:
  assumes "path G s evs s'" "\<And>a ev b. G a ev b \<Longrightarrow> b = after ev a" "J s"
    "\<And>a ev b. G a ev b \<Longrightarrow> J a \<Longrightarrow> J b \<and> K a ev"
  shows "list_all (\<lambda>(a, ev). K a ev) (annotated s evs) \<and> s' = fold after evs s \<and> J s'"
  using assms by (induction rule: path.induct) fastforce+

text \<open>The two forms in which the theorems below use it: one run, and a life of runs.\<close>

lemma step_after: "worker_step E a ev b \<Longrightarrow> b = after ev a"
  unfolding worker_step_def by (rule wal_after)

lemma step_valid: "worker_step E a ev b \<Longrightarrow> valid_state (e_platform E) a \<Longrightarrow> valid_state (e_platform E) b"
  unfolding worker_step_def by (rule wal_valid)

lemma run_annotated:
  assumes "durable (run_env r) w = Inr s"
    "\<And>a ev b. worker_step (run_env r) a ev b \<Longrightarrow> valid_state (e_platform (run_env r)) a \<Longrightarrow> K a ev"
  shows "list_all (\<lambda>(a, ev). K a ev) (annotated s (emitted w (perform r w)))"
proof -
  let ?J = "valid_state (e_platform (run_env r))"
  obtain evs s' where p: "w_trace (perform r w) = w_trace w @ evs" "path (worker_step (run_env r)) s evs s'"
    using perform_path [OF assms(1)] by metis
  have s: "?J s" using assms(1) load_disk_valid by (simp add: durable_def)
  have step: "?J b \<and> K a ev" if "worker_step (run_env r) a ev b" "?J a" for a ev b
    using assms(2) [OF that] step_valid [OF that] by simp
  show ?thesis
    using path_annotated [OF p(2) step_after, where J = ?J and K = K, OF _ s step] p(1)
    by (simp add: emitted_def)
qed

lemma life_annotated:
  assumes "load_disk p (w_disk w) = Inr s" "\<forall>r \<in> set rs. e_platform (run_env r) = p"
    "\<And>E a ev b. E \<in> run_env ` set rs \<Longrightarrow> worker_step E a ev b \<Longrightarrow> valid_state p a \<Longrightarrow> K a ev"
  shows "list_all (\<lambda>(a, ev). K a ev) (annotated s (emitted w (lifetime rs w))) \<and>
    load_disk p (w_disk (lifetime rs w)) = Inr (fold after (emitted w (lifetime rs w)) s) \<and>
    valid_state p (fold after (emitted w (lifetime rs w)) s)"
proof -
  let ?G = "wal_of (run_env ` set rs)"
  obtain evs s' where p: "load_disk p (w_disk (lifetime rs w)) = Inr s'"
    "w_trace (lifetime rs w) = w_trace w @ evs" "path ?G s evs s'"
    using lifetime_path [OF assms(1, 2)] by blast
  have 1: "b = after ev a" if "?G a ev b" for a ev b
    using that step_after by (auto simp: wal_of_def)
  have 2: "valid_state p b \<and> K a ev" if G: "?G a ev b" and a: "valid_state p a" for a ev b
  proof -
    obtain E where E: "E \<in> run_env ` set rs" "worker_step E a ev b"
      using G by (auto simp: wal_of_def)
    moreover from this have "e_platform E = p" using assms(2) by auto
    ultimately show ?thesis using a assms(3) step_valid by blast
  qed
  have "list_all (\<lambda>(a, ev). K a ev) (annotated s evs) \<and> s' = fold after evs s \<and> valid_state p s'"
    using p(3) 1 load_disk_valid [OF assms(1)] 2 by (rule path_annotated)
  with p show ?thesis by (auto simp: emitted_def)
qed

lemma annotated_events: "list_all (\<lambda>(a, ev). K ev) (annotated s evs) = list_all K evs"
  by (induction evs arbitrary: s) simp_all

text \<open>A life of one tick of the sample worker, from a missing state file.\<close>

definition sample_life :: "run list" where
  "sample_life = [Tick sample_env, Up sample_env [TimerStep]]"

lemma sample_life_env: "\<forall>r \<in> set sample_life. e_platform (run_env r) = sample_platform"
  by (simp add: sample_life_def sample_env_def)

lemma sample_disk: "load_disk sample_platform (w_disk blank_world) = Inr emptyState"
  by (simp add: load_disk_def blank_world_def)

lemma sample_durable: "durable (run_env (Tick sample_env)) blank_world = Inr emptyState"
  by (simp add: durable_def sample_env_def sample_disk)

lemmas sample_start = sample_disk sample_life_env

section \<open>The protocol\<close>

text \<open>C1: write-ahead refinement.  From a readable state file, every sequence of ticks and watch loops, each of
  which may be cut off by process death at any effect, leaves a readable state file and a trace all
  of whose events are steps of the specification \<open>wal\<close> of one of the environments: a save is an allowed
  change of the durable state, and every other effect happens in a durable state that announces it.\<close>

theorem lifetime_refines_wal:
  assumes "load_disk p (w_disk w) = Inr s" "\<forall>r \<in> set rs. e_platform (run_env r) = p"
  shows "\<exists>evs s'. load_disk p (w_disk (lifetime rs w)) = Inr s' \<and>
     w_trace (lifetime rs w) = w_trace w @ evs \<and> path (wal_of (run_env ` set rs)) s evs s'"
  by (rule lifetime_path [OF assms])

theorem lifetime_refines_wal_witness:
  "\<exists>evs s'. load_disk sample_platform (w_disk (lifetime sample_life blank_world)) = Inr s' \<and>
     w_trace (lifetime sample_life blank_world) = evs \<and>
     path (wal_of (run_env ` set sample_life)) emptyState evs s'"
  using lifetime_refines_wal [OF sample_start] by (simp add: blank_world_def)

text \<open>The durable state announces an effect.\<close>

fun announced :: "worker_state \<Rightarrow> event \<Rightarrow> bool" where
  "announced s (Saved n) = True"
| "announced s (RegisterSent agentId) =
     (case wsAgentIdHex s of None \<Rightarrow> False | Some h \<Rightarrow> hexToBytes h = Inr agentId)"
| "announced s (ClaimSent task h) =
     (case wsOpenClaim s of None \<Rightarrow> False | Some c \<Rightarrow> ocTask c = task \<and> ocPhase c = Claiming)"
| "announced s (ExecutorRun task prompt) =
     (case wsOpenClaim s of None \<Rightarrow> False | Some c \<Rightarrow> ocTask c = task \<and> ocPhase c = Claimed)"
| "announced s (UploadSent task h) =
     (case wsOpenClaim s of None \<Rightarrow> False | Some c \<Rightarrow> ocTask c = task \<and> ocPhase c = Uploading \<and>
        (case ocExecution c of None \<Rightarrow> False | Some x \<Rightarrow> exResultHashHex x = h))"
| "announced s (SubmitSent task h) =
     (case wsOpenClaim s of None \<Rightarrow> False | Some c \<Rightarrow> ocTask c = task \<and> ocPhase c = Submitting \<and>
        (case ocSubmission c of None \<Rightarrow> False
         | Some su \<Rightarrow> siResultHashHex su = h \<and> siLastBroadcastAt su \<noteq> None))"

lemma wal_announced: "wal E A a ev b \<Longrightarrow> announced a ev"
  by (erule wal.cases) auto

text \<open>C2: nothing is sent that the state file does not announce.  Whenever a registration, a claim, an
  executor run, an upload or a submission happens, the state file at that moment already holds the
  agent id, or the open claim of that task in the phase of that effect with the hash that is sent.\<close>

theorem effects_announced:
  assumes "load_disk p (w_disk w) = Inr s" "\<forall>r \<in> set rs. e_platform (run_env r) = p"
  shows "list_all (\<lambda>(a, ev). announced a ev) (annotated s (emitted w (lifetime rs w)))"
  using life_annotated [OF assms, of announced] wal_announced unfolding worker_step_def by blast

theorem effects_announced_witness:
  "list_all (\<lambda>(a, ev). announced a ev) (annotated emptyState (emitted blank_world (lifetime sample_life blank_world)))"
  by (rule effects_announced [OF sample_start])

text \<open>The open claim as a round of work, and the result that is durable for it.\<close>

definition round_of :: "worker_state \<Rightarrow> (string \<times> nat option) option" where
  "round_of s = map_option (\<lambda>c. (ocTask c, ocRevisionSubmissionCount c)) (wsOpenClaim s)"

definition result_of :: "worker_state \<Rightarrow> string option" where
  "result_of s = (case wsOpenClaim s of None \<Rightarrow> None
     | Some c \<Rightarrow> (case ocExecution c of Some x \<Rightarrow> Some (exResultHashHex x)
        | None \<Rightarrow> map_option siResultHashHex (ocSubmission c)))"

fun uses_result :: "worker_state \<Rightarrow> event \<Rightarrow> bool" where
  "uses_result s (ClaimSent task h) = (result_of s = None)"
| "uses_result s (ExecutorRun task prompt) = (result_of s = None)"
| "uses_result s (UploadSent task h) = (result_of s = Some h)"
| "uses_result s (SubmitSent task h) = (result_of s = Some h)"
| "uses_result s _ = True"

definition result_kept :: "worker_state \<Rightarrow> worker_state \<Rightarrow> bool" where
  "result_kept a b \<longleftrightarrow> (result_of a \<noteq> None \<and> round_of b = round_of a \<longrightarrow> result_of b = result_of a)"

lemma open_claim_wf:
  "valid_state p s \<Longrightarrow> wsOpenClaim s = Some c \<Longrightarrow> wf_claim p c \<and> ocTask c \<notin> set (ledger_tasks s)"
  by (simp add: valid_state_def)

lemma no_result:
  assumes "valid_state p s" "wsOpenClaim s = Some c" "ocPhase c = Claiming \<or> ocPhase c = Claimed"
  shows "result_of s = None"
  using open_claim_wf [OF assms(1, 2)] assms(2, 3)
  by (auto simp: result_of_def wf_claim_def split: option.splits)

lemma change_result_kept:
  assumes "change E A a n" "valid_state p a"
  shows "result_kept a n"
  using assms(1)
proof cases
  case (claimed c c')
  then show ?thesis using no_result [OF assms(2)] by (auto simp: result_kept_def)
next
  case (executed c x)
  then show ?thesis using no_result [OF assms(2)] by (auto simp: result_kept_def)
next
  case (submitting c x su)
  then show ?thesis by (auto simp: result_kept_def result_of_def advance_def)
next
  case (revised c k c')
  then show ?thesis by (auto simp: result_kept_def round_of_def revision_marker_def)
next
  case (settling taken f)
  then show ?thesis by (auto simp: result_kept_def result_of_def)
qed (auto simp: result_kept_def result_of_def round_of_def advance_def split: option.splits)

lemma pruned_result: "result_kept a (pruned n) = result_kept a n"
  by (simp add: result_kept_def result_of_def round_of_def)

lemma wal_result_kept:
  assumes "wal E A a ev b" "valid_state p a"
  shows "uses_result a ev \<and> result_kept a (after ev a)"
  using assms(1)
proof cases
  case (saved n)
  then show ?thesis using change_result_kept [OF _ assms(2)] by (simp add: pruned_result)
next
  case (claim_sent c task h)
  then show ?thesis using no_result [OF assms(2), of c] by (simp add: result_kept_def)
next
  case (ran c task prompt)
  then show ?thesis using no_result [OF assms(2), of c] by (simp add: result_kept_def)
next
  case (uploaded c task x h)
  then show ?thesis by (simp add: result_kept_def result_of_def)
next
  case (submitted c task su h)
  then have "ocExecution c = None"
    using open_claim_wf [OF assms(2), of c] by (auto simp: wf_claim_def)
  with submitted show ?thesis by (simp add: result_kept_def result_of_def)
qed (simp_all add: result_kept_def)

text \<open>C3: one result per round of work.  Once a result is durable for the open claim, it stays the result of that
  claim and revision round through every crash and restart: the claim is not sent and the executor is
  not run again while it is, and whatever is uploaded or submitted is that result's hash.\<close>

theorem one_result_per_round:
  assumes "load_disk p (w_disk w) = Inr s" "\<forall>r \<in> set rs. e_platform (run_env r) = p"
  shows "list_all (\<lambda>(a, ev). uses_result a ev \<and> result_kept a (after ev a))
     (annotated s (emitted w (lifetime rs w)))"
  using life_annotated [OF assms, of "\<lambda>a ev. uses_result a ev \<and> result_kept a (after ev a)"] wal_result_kept
  unfolding worker_step_def by blast

theorem one_result_per_round_witness:
  "list_all (\<lambda>(a, ev). uses_result a ev \<and> result_kept a (after ev a))
     (annotated emptyState (emitted blank_world (lifetime sample_life blank_world)))"
  by (rule one_result_per_round [OF sample_start])

text \<open>Work on a task: the claim slot holds one task until it is free, and never a task of the ledger.\<close>

fun works_on :: "event \<Rightarrow> string option" where
  "works_on (ClaimSent task h) = Some task"
| "works_on (ExecutorRun task prompt) = Some task"
| "works_on (UploadSent task h) = Some task"
| "works_on (SubmitSent task h) = Some task"
| "works_on _ = None"

definition exclusive :: "worker_state \<Rightarrow> event \<Rightarrow> bool" where
  "exclusive s ev \<longleftrightarrow> (case works_on ev of None \<Rightarrow> True
     | Some task \<Rightarrow> map_option ocTask (wsOpenClaim s) = Some task \<and> task \<notin> set (ledger_tasks s))"

definition slot_kept :: "worker_state \<Rightarrow> worker_state \<Rightarrow> bool" where
  "slot_kept a b \<longleftrightarrow> (wsOpenClaim a \<noteq> None \<longrightarrow> wsOpenClaim b = None \<or>
     map_option ocTask (wsOpenClaim b) = map_option ocTask (wsOpenClaim a))"

lemma change_slot: "change E A a n \<Longrightarrow> slot_kept a n"
  by (erule change.cases) (auto simp: slot_kept_def advance_def revision_marker_def)

lemma wal_exclusive:
  assumes "wal E A a ev b" "valid_state p a"
  shows "exclusive a ev \<and> slot_kept a (after ev a)"
  using assms(1)
proof cases
  case (saved n)
  then show ?thesis using change_slot by (fastforce simp: exclusive_def slot_kept_def)
qed (use open_claim_wf [OF assms(2)] in \<open>auto simp: exclusive_def slot_kept_def\<close>)

text \<open>One task at a time, and no task twice.  Claims, executor runs, uploads and submissions are only for the
  task of the open claim, which has no submission in the ledger; and the open claim changes its task only
  by becoming empty first.\<close>

lemma one_task_at_a_time:
  assumes "load_disk p (w_disk w) = Inr s" "\<forall>r \<in> set rs. e_platform (run_env r) = p"
  shows "list_all (\<lambda>(a, ev). exclusive a ev \<and> slot_kept a (after ev a))
     (annotated s (emitted w (lifetime rs w)))"
  using life_annotated [OF assms, of "\<lambda>a ev. exclusive a ev \<and> slot_kept a (after ev a)"] wal_exclusive
  unfolding worker_step_def by blast

lemma one_task_at_a_time_witness:
  "list_all (\<lambda>(a, ev). exclusive a ev \<and> slot_kept a (after ev a))
     (annotated emptyState (emitted blank_world (lifetime sample_life blank_world)))"
  by (rule one_task_at_a_time [OF sample_start])

section \<open>Evidence\<close>

text \<open>What an effect rests on in the environment of its run and in the durable state it happens in: a claim and the
  marker that opens it, on the policy for the worker's own agent and state.\<close>

fun justified :: "env \<Rightarrow> worker_state \<Rightarrow> event \<Rightarrow> bool" where
  "justified E s (Saved n) = (valid_state (e_platform E) n \<and>
     (case (wsOpenClaim s, wsOpenClaim n) of
        (None, Some c) \<Rightarrow> ocPhase c = Claimed \<or> (\<exists>h. claim_policy E (agent_of E s) s (ocTask c) h)
      | _ \<Rightarrow> True))"
| "justified E s (RegisterSent agentId) = (\<not> e_dry_run E)"
| "justified E s (ClaimSent task h) = claim_policy E (agent_of E s) s task h"
| "justified E s (ExecutorRun task prompt) = (\<not> e_dry_run E \<and>
     (\<exists>c. wsOpenClaim s = Some c \<and> prompt_policy E (agent_of E s) (ocRevisionSubmissionCount c) task prompt))"
| "justified E s (UploadSent task h) = (\<not> e_dry_run E)"
| "justified E s (SubmitSent task h) = (\<not> e_dry_run E)"

lemma change_justified:
  "change E A a n \<Longrightarrow> wsOpenClaim a = None \<Longrightarrow> wsOpenClaim n = Some c \<Longrightarrow>
   ocPhase c = Claimed \<or> (\<exists>h. claim_policy E A a (ocTask c) h)"
  by (erule change.cases) (auto simp: revision_marker_def)

lemma wal_justified:
  assumes "worker_step E a ev b"
  shows "justified E a ev"
  using assms unfolding worker_step_def
proof cases
  case (saved n)
  then show ?thesis using change_justified [OF saved(3)] pruned_valid by (auto split: option.splits)
qed auto

text \<open>C6: what a claim and an executor run rest on.  A claim is broadcast, and the marker that announces it written,
  only outside dry-run mode, by a wallet whose balance covers the rents it may need, for a task that is read as
  open, pays in SOL within the operator's limits, asks for no capability the worker lacks and comes from an allowed
  creator; that has no submission in the worker's ledger, while no other claim is held; whose hire record, if it
  has one, is for this task, designates the worker's own agent or nobody and commits to the job spec; and with the
  digest of a job spec that was downloaded and verified and whose prompt fits.  The executor gets only a prompt made
  from the task and verified content, in a revision round always with the change request that the worker's own
  submission account names, and otherwise without one.\<close>

theorem effects_justified:
  assumes "durable (run_env r) w = Inr s"
  shows "list_all (\<lambda>(a, ev). justified (run_env r) a ev) (annotated s (emitted w (perform r w)))"
  using run_annotated [OF assms, of "justified (run_env r)"] wal_justified by blast

theorem effects_justified_witness:
  "list_all (\<lambda>(a, ev). justified sample_env a ev)
     (annotated emptyState (emitted blank_world (perform (Tick sample_env) blank_world)))"
  using effects_justified [of "Tick sample_env", OF sample_durable] by simp

text \<open>A dry run sends nothing.  All its effects are saves of the state file.\<close>

lemma dry_run_only_saves:
  assumes "durable (run_env r) w = Inr s" "e_dry_run (run_env r)"
  shows "list_all (\<lambda>ev. case ev of Saved n \<Rightarrow> True | _ \<Rightarrow> False) (emitted w (perform r w))"
proof -
  have "list_all (\<lambda>(a, ev). case ev of Saved n \<Rightarrow> True | _ \<Rightarrow> False) (annotated s (emitted w (perform r w)))"
    by (rule run_annotated [OF assms(1)])
      (use assms(2) in \<open>auto elim!: wal.cases simp: claim_policy_def claim_grounds_def worker_step_def\<close>)
  then show ?thesis by (simp add: annotated_events)
qed

lemma dry_run_only_saves_witness:
  "list_all (\<lambda>ev. case ev of Saved n \<Rightarrow> True | _ \<Rightarrow> False)
     (emitted blank_world (perform (Tick (sample_env\<lparr>e_dry_run := True\<rparr>)) blank_world))"
  by (rule dry_run_only_saves [where s = emptyState]) (simp_all add: durable_def sample_env_def sample_disk)

section \<open>The ledger\<close>

text \<open>What becomes of a record, where a record comes from, and a save as a whole.\<close>

definition record_kept :: "env \<Rightarrow> string option \<Rightarrow> worker_state \<Rightarrow> submission_record \<Rightarrow> bool" where
  "record_kept E A n r \<longleftrightarrow> (\<exists>r' \<in> set (wsSubmissions n). record_step E A r r') \<or>
     (\<exists>c k. wsOpenClaim n = Some c \<and> revision_marker (srTask r) k c \<and> revision_evidence E A (srTask r) k)"

definition record_justified :: "env \<Rightarrow> string option \<Rightarrow> worker_state \<Rightarrow> submission_record \<Rightarrow> bool" where
  "record_justified E A s r' \<longleftrightarrow> (\<exists>r \<in> set (wsSubmissions s). record_step E A r r') \<or>
     (\<exists>c. wsOpenClaim s = Some c \<and> srTask r' = ocTask c \<and> \<not> srSettled r' \<and> commit_evidence E A c r')"

fun ledger_step :: "env \<Rightarrow> worker_state \<Rightarrow> event \<Rightarrow> bool" where
  "ledger_step E s (Saved b) = (\<exists>n. b = pruned n \<and> list_all (record_kept E (agent_of E s) n) (wsSubmissions s) \<and>
     list_all (record_justified E (agent_of E s) s) (wsSubmissions n))"
| "ledger_step E s _ = True"

lemma record_step_refl: "record_step E A r r"
  by (simp add: record_step_def same_submission_def)

lemma change_ledger:
  assumes "change E A s n"
  shows "list_all (record_kept E A n) (wsSubmissions s) \<and> list_all (record_justified E A s) (wsSubmissions n)"
  using assms
proof cases
  case (settling taken f)
  have "record_kept E A n r" if r: "r \<in> set (wsSubmissions s)" for r
  proof (cases "taken = Some (srTask r)")
    case True
    with settling(2) show ?thesis by (auto simp: record_kept_def)
  next
    case False
    with r settling(3) have "f r \<in> set (wsSubmissions n)" by auto
    with settling(4) [OF r] show ?thesis by (auto simp: record_kept_def)
  qed
  moreover have "record_justified E A s r'" if "r' \<in> set (wsSubmissions n)" for r'
    using that settling(3, 4) by (auto simp: record_justified_def)
  ultimately show ?thesis by (simp add: list_all_iff)
qed (auto simp: list_all_iff record_kept_def record_justified_def intro: record_step_refl)

lemma wal_ledger: "worker_step E a ev b \<Longrightarrow> ledger_step E a ev"
  unfolding worker_step_def using change_ledger by (fastforce elim!: wal.cases)

text \<open>C4: the ledger loses nothing and invents nothing.  In every save, each record of the ledger is kept unchanged,
  or settled once, with an outcome that accounts of the worker's own agent show (a submission left behind on a
  completed collaborative task is no acceptance), or becomes the open claim of a revision round the
  chain shows; and each record of the new ledger comes from an old one this way, or is the committed
  open claim, backed by its own broadcast intent or by the submission account on chain.  Only then is the
  retention limit for settled records applied.\<close>

theorem ledger_accounted:
  assumes "durable (run_env r) w = Inr s"
  shows "list_all (\<lambda>(a, ev). ledger_step (run_env r) a ev) (annotated s (emitted w (perform r w)))"
  using run_annotated [OF assms, of "ledger_step (run_env r)"] wal_ledger by blast

theorem ledger_accounted_witness:
  "list_all (\<lambda>(a, ev). ledger_step sample_env a ev)
     (annotated emptyState (emitted blank_world (perform (Tick sample_env) blank_world)))"
  using ledger_accounted [of "Tick sample_env", OF sample_durable] by simp

section \<open>Earnings\<close>

text \<open>What the saves of a trace credit, each record in the save that settles it; a record that is dropped by the
  retention limit later still counts, and would count again if its task were credited again.\<close>

fun credits :: "worker_state \<Rightarrow> event list \<Rightarrow> nat" where
  "credits s [] = 0"
| "credits s (ev # evs) = credit s (after ev s) + credits (after ev s) evs"

text \<open>The recorded total moves only to a larger total that the worker's own agent account was read to report, and a
  save credits nothing else.\<close>

definition earnings_backed :: "env set \<Rightarrow> worker_state \<Rightarrow> worker_state \<Rightarrow> bool" where
  "earnings_backed Es a b \<longleftrightarrow>
     baseline b = baseline a \<and> credit a b = 0 \<or>
     baseline a < baseline b \<and> credit a b \<le> baseline b - baseline a \<and>
       (\<exists>E \<in> Es. earnings_read E (agent_of E a) (baseline b))"

lemma subseq_credit: "subseq xs ys \<Longrightarrow> sum_list (map f xs) \<le> sum_list (map (f :: 'a \<Rightarrow> nat) ys)"
  by (induction rule: list_emb.induct) auto

lemma credit_pruned: "credit s (pruned n) \<le> credit s n"
  unfolding credit_def by (intro subseq_credit subseq_filter pruned_subseq)

lemma credit_kept: "wsSubmissions n = wsSubmissions s \<Longrightarrow> credit s n = 0"
  by (rule unsettled_credit) (auto simp: settled_tasks_def earned_amount_def)

lemma credit_committed: "\<not> srSettled r \<Longrightarrow> wsSubmissions n = wsSubmissions s @ [r] \<Longrightarrow> credit s n = 0"
  by (rule unsettled_credit) (auto simp: settled_tasks_def earned_amount_def)

lemma change_backed:
  assumes "change E A a n"
  shows "(baseline n = baseline a \<and> credit a n = 0) \<or>
    (baseline a < baseline n \<and> credit a n \<le> baseline n - baseline a \<and> earnings_read E A (baseline n))"
  using assms
proof cases
  case (committed c r)
  then show ?thesis using credit_committed [of r n a] by simp
next
  case (settling taken f)
  then show ?thesis by auto
qed (auto simp: credit_kept)

lemma step_backed:
  assumes "worker_step E a ev b" "E \<in> Es"
  shows "earnings_backed Es a b"
  using assms(1) unfolding worker_step_def
proof cases
  case (saved n)
  then show ?thesis
    using change_backed [OF saved(3)] credit_pruned [of a n] assms(2)
    by (auto simp: earnings_backed_def)
qed (simp_all add: earnings_backed_def credit_kept)

lemma credits_bounded:
  "list_all (\<lambda>(a, ev). earnings_backed Es a (after ev a)) (annotated s evs) \<Longrightarrow>
   baseline s + credits s evs \<le> baseline (fold after evs s)"
  by (induction evs arbitrary: s) (fastforce simp: earnings_backed_def)+

text \<open>C5: credits are backed by the chain.  Over any sequence of runs, the recorded total of earnings changes only to a
  larger total that a read of the worker's own agent account reported, each save credits to the records it
  settles at most the growth it records, and so everything credited over the life of the worker is at most the
  growth of the total, however often records were dropped by the retention limit in between.\<close>

theorem credits_backed_by_chain:
  assumes "load_disk p (w_disk w) = Inr s" "\<forall>r \<in> set rs. e_platform (run_env r) = p"
  shows "list_all (\<lambda>(a, ev). earnings_backed (run_env ` set rs) a (after ev a)) (annotated s (emitted w (lifetime rs w))) \<and>
     baseline s + credits s (emitted w (lifetime rs w)) \<le> baseline (fold after (emitted w (lifetime rs w)) s)"
proof -
  have "list_all (\<lambda>(a, ev). earnings_backed (run_env ` set rs) a (after ev a)) (annotated s (emitted w (lifetime rs w)))"
    using life_annotated [OF assms, of "\<lambda>a ev. earnings_backed (run_env ` set rs) a (after ev a)"]
      step_backed step_after by blast
  then show ?thesis using credits_bounded by blast
qed

theorem credits_backed_by_chain_witness:
  "credits emptyState (emitted blank_world (lifetime sample_life blank_world)) \<le>
     baseline (fold after (emitted blank_world (lifetime sample_life blank_world)) emptyState)"
  using credits_backed_by_chain [OF sample_start] by simp

section \<open>The state file\<close>

text \<open>C9: the state file survives.  After any sequence of runs, cut off anywhere, the state file is readable again,
  it is well formed, within its size limits and without a task twice, and it holds exactly what the last
  completed save wrote, or what was there if there was none.\<close>

theorem state_survives:
  assumes "load_disk p (w_disk w) = Inr s" "\<forall>r \<in> set rs. e_platform (run_env r) = p"
  shows "load_disk p (w_disk (lifetime rs w)) = Inr (fold after (emitted w (lifetime rs w)) s) \<and>
     valid_state p (fold after (emitted w (lifetime rs w)) s)"
  using life_annotated [OF assms, of "\<lambda>_ _. True"] by blast

theorem state_survives_witness:
  "valid_state sample_platform (fold after (emitted blank_world (lifetime sample_life blank_world)) emptyState)"
  using state_survives [OF sample_start] by simp

text \<open>A state file that cannot be read is left alone.\<close>

lemma lift_res_world: "lift_res r w = (x, w') \<Longrightarrow> w' = w"
  by (auto simp: lift_res_def returning_def throwing_def split: sum.splits)

lemma preflight_world: "preflight E w = (x, w') \<Longrightarrow> w' = w"
  by (auto simp: preflight_def seq_def dest: lift_res_world split: prod.splits sum.splits)

lemma loadState_unreadable:
  assumes "durable E w = Inl e" "loadState E w = (r, w')"
  shows "(\<exists>x. r = Inl x) \<and> w_disk w' = w_disk w \<and> w_trace w' = w_trace w"
  using assms by (auto simp: loadState_def call_def Let_def durable_def split: if_splits sum.splits)

lemma ensureRegistered_unreadable:
  assumes "durable E w = Inl e" "ensureRegistered E w = (r, w')"
  shows "(\<exists>x. r = Inl x) \<and> w_disk w' = w_disk w \<and> w_trace w' = w_trace w"
proof -
  obtain r1 w1 where l: "loadState E w = (r1, w1)" by fastforce
  obtain x where "r1 = Inl x" using loadState_unreadable [OF assms(1) l] by blast
  then have "ensureRegistered E w = (Inl x, w1)"
    using l by (simp add: ensureRegistered_def loadAgentId_def seq_def)
  with assms(2) loadState_unreadable [OF assms(1) l] show ?thesis by auto
qed

text \<open>C10: an unreadable state file stops the worker.  When the file is corrupt, of an unknown version or too
  large, neither mode changes it or sends anything: the run ends without an event.\<close>

theorem unreadable_state_untouched:
  assumes "durable (run_env r) w = Inl e"
  shows "w_disk (perform r w) = w_disk w \<and> w_trace (perform r w) = w_trace w"
proof -
  let ?E = "run_env r"
  have step: "w_disk (snd (seq (preflight ?E) (\<lambda>_. seq (ensureRegistered ?E) k) w)) = w_disk w \<and>
      w_trace (snd (seq (preflight ?E) (\<lambda>_. seq (ensureRegistered ?E) k) w)) = w_trace w"
    for k :: "worker_agent \<Rightarrow> 'b act"
  proof -
    obtain x w1 where p: "preflight ?E w = (x, w1)" by fastforce
    obtain y w2 where q: "ensureRegistered ?E w = (y, w2)" by fastforce
    show ?thesis
      using p preflight_world [OF p] q ensureRegistered_unreadable [OF assms q]
      by (auto simp: seq_def split: sum.split)
  qed
  show ?thesis
    by (cases r) (use step in \<open>auto simp: runTickOnceLocked_def runUpLocked_def\<close>)
qed

theorem unreadable_state_untouched_witness:
  "w_disk (perform (Tick sample_env) (blank_world\<lparr>w_disk := Unparsable\<rparr>)) = Unparsable"
  using unreadable_state_untouched [of "Tick sample_env" "blank_world\<lparr>w_disk := Unparsable\<rparr>"]
  by (simp add: durable_def load_disk_def)

text \<open>A save is atomic.  Whatever a save does, the durable state afterwards is either the one before, and then
  the save has thrown or the process died, or the new state after retention, well formed and
  announced in the trace.\<close>

lemma save_atomic:
  "(durable E (snd (saveState E s w)) = durable E w \<and> w_trace (snd (saveState E s w)) = w_trace w \<and>
      fst (saveState E s w) \<noteq> Inr ()) \<or>
   (valid_state (e_platform E) s \<and> durable E (snd (saveState E s w)) = Inr (pruned s) \<and>
      w_trace (snd (saveState E s w)) = w_trace w @ [Saved (pruned s)] \<and> fst (saveState E s w) \<noteq> Inl Crash)"
  using store.save_law [of E s w "fst (saveState E s w)" "snd (saveState E s w)"] by simp

end
