(* ===== verification/CalmRuns.thy ===== *)
theory CalmRuns
  imports SampleRun "HOL-Library.Code_Target_Nat"
begin

text \<open>
  Progress.  In a calm environment, where the process does not die, the state file can be read and
  written and what is to be saved fits, the worker gets its work done: from each durable phase of a
  claim it reaches the ledger, and the theorems say with which effects.  \<open>achieves\<close> is total: the
  action ends, with a result, a trace and a durable state as stated.
\<close>

section \<open>Calm environments\<close>

definition calm :: "env \<Rightarrow> bool" where
  "calm E \<longleftrightarrow> (\<forall>t. \<not> o_crash E t \<and> \<not> o_load_fault E t \<and> o_save E t = SaveOk)"

definition storable :: "platform \<Rightarrow> worker_state \<Rightarrow> bool" where
  "storable p s \<longleftrightarrow> valid_state p s \<and> serialized_size (pruned s) \<le> MAX_WORKER_STATE_BYTES"

type_synonym 'a ending = "exn + 'a \<Rightarrow> event list \<Rightarrow> worker_state \<Rightarrow> bool"

definition achieves :: "env \<Rightarrow> worker_state \<Rightarrow> 'a act \<Rightarrow> 'a ending \<Rightarrow> bool" where
  "achieves E s m Q \<longleftrightarrow> (\<forall>w. durable E w = Inr s \<longrightarrow>
     (\<exists>r w' evs s'. m w = (r, w') \<and> durable E w' = Inr s' \<and> w_trace w' = w_trace w @ evs \<and> Q r evs s'))"

lemma achievesI:
  assumes "\<And>w. durable E w = Inr s \<Longrightarrow>
     \<exists>r w' evs s'. m w = (r, w') \<and> durable E w' = Inr s' \<and> w_trace w' = w_trace w @ evs \<and> Q r evs s'"
  shows "achieves E s m Q"
  using assms by (simp add: achieves_def)

lemma achievesE:
  assumes "achieves E s m Q" "durable E w = Inr s"
  obtains r w' evs s' where "m w = (r, w')" "durable E w' = Inr s'" "w_trace w' = w_trace w @ evs" "Q r evs s'"
  using assms unfolding achieves_def by blast

lemma achieves_mono: "achieves E s m Q \<Longrightarrow> (\<And>r evs s'. Q r evs s' \<Longrightarrow> R r evs s') \<Longrightarrow> achieves E s m R"
  unfolding achieves_def by blast

text \<open>The ending after the events so far.\<close>

abbreviation having :: "event list \<Rightarrow> 'a ending \<Rightarrow> 'a ending" where
  "having evs Q \<equiv> \<lambda>r evs' s. Q r (evs @ evs') s"

lemma achieves_returning: "Q (Inr a) [] s \<Longrightarrow> achieves E s (returning a) Q"
  by (rule achievesI) (auto simp: returning_def)

lemma seq_lift_res [simp]: "seq (lift_res (Inr a)) f = f a"
  by (simp add: seq_def lift_res_def returning_def)

lemma achieves_seq:
  assumes "achieves E s m (\<lambda>r evs s'. \<exists>a. r = Inr a \<and> achieves E s' (f a) (having evs Q))"
  shows "achieves E s (seq m f) Q"
proof (rule achievesI)
  fix w assume "durable E w = Inr s"
  then obtain a w1 evs s1 where 1: "m w = (Inr a, w1)" "durable E w1 = Inr s1" "w_trace w1 = w_trace w @ evs"
    "achieves E s1 (f a) (having evs Q)"
    by (rule achievesE [OF assms]) auto
  obtain r w' evs' s' where "f a w1 = (r, w')" "durable E w' = Inr s'" "w_trace w' = w_trace w1 @ evs'"
    "Q r (evs @ evs') s'"
    by (rule achievesE [OF 1(4, 2)])
  with 1 show "\<exists>r w' evs s'. seq m f w = (r, w') \<and> durable E w' = Inr s' \<and> w_trace w' = w_trace w @ evs \<and> Q r evs s'"
    by (auto simp: seq_def)
qed

lemma achieves_catching:
  assumes "achieves E s m (\<lambda>r evs s'. (\<exists>a. r = Inr a) \<and> Q r evs s')"
  shows "achieves E s (catching m h) Q"
  using assms unfolding achieves_def catching_def by fastforce

lemma achieves_attempt:
  assumes "achieves E s m (\<lambda>r evs s'. \<exists>a. r = Inr a \<and> Q (Inr (Inr a)) evs s')"
  shows "achieves E s (attempt m) Q"
  unfolding attempt_def
  by (rule achieves_catching, rule achieves_seq, rule achieves_mono [OF assms])
    (auto intro!: achieves_returning)

text \<open>The operations of the store.\<close>

lemma achieves_call:
  assumes calm: "calm E" and "\<And>t. \<exists>a. f t = Inr a \<and> Q (Inr a) [] s"
  shows "achieves E s (call E f) Q"
proof (rule achievesI)
  fix w assume "durable E w = Inr s"
  moreover obtain a where "f (w_tick w) = Inr a" "Q (Inr a) [] s" using assms by blast
  ultimately show "\<exists>r w' evs s'. call E f w = (r, w') \<and> durable E w' = Inr s' \<and>
      w_trace w' = w_trace w @ evs \<and> Q r evs s'"
    using calm by (auto simp: call_def Let_def calm_def durable_def)
qed

lemma achieves_call_seq:
  assumes calm: "calm E" and "\<And>t. \<exists>a. f t = Inr a \<and> achieves E s (g a) Q"
  shows "achieves E s (seq (call E f) g) Q"
  by (rule achieves_seq, rule achieves_call [OF calm]) (use assms in auto)

lemma achieves_now_iso:
  assumes calm: "calm E" and "\<And>t. achieves E s (g (to_iso (e_platform E) (o_now E t))) Q"
  shows "achieves E s (seq (now_iso E) g) Q"
  unfolding now_iso_def now_ms_def
  by (intro achieves_seq achieves_call_seq [OF calm]) (use assms in \<open>auto intro!: achieves_returning\<close>)

lemma achieves_load_seq:
  assumes calm: "calm E" and "achieves E s (g s) Q"
  shows "achieves E s (seq (loadState E) g) Q"
proof (rule achieves_seq, rule achievesI)
  fix w assume "durable E w = Inr s"
  then show "\<exists>r w' evs s'. loadState E w = (r, w') \<and> durable E w' = Inr s' \<and> w_trace w' = w_trace w @ evs \<and>
      (\<exists>a. r = Inr a \<and> achieves E s' (g a) (having evs Q))"
    using assms by (auto simp: loadState_def call_def Let_def calm_def durable_def)
qed

lemma achieves_save_seq:
  assumes calm: "calm E" and "storable (e_platform E) n" "achieves E (pruned n) (g ()) (having [Saved (pruned n)] Q)"
  shows "achieves E s (seq (saveState E n) g) Q"
proof (rule achieves_seq, rule achievesI)
  fix w assume "durable E w = Inr s"
  have n: "valid_state (e_platform E) n" "\<not> serialized_size (pruned n) > MAX_WORKER_STATE_BYTES"
    using assms(2) by (auto simp: storable_def)
  then show "\<exists>r w' evs s'. saveState E n w = (r, w') \<and> durable E w' = Inr s' \<and> w_trace w' = w_trace w @ evs \<and>
      (\<exists>a. r = Inr a \<and> achieves E s' (g a) (having evs Q))"
    using calm assms(3) load_disk_stored [OF n(1)] currentState_encode [OF n(1)]
    by (auto simp: saveState_def lift_res_def seq_def returning_def Let_def call_def calm_def durable_def)
qed

lemma achieves_effect:
  assumes calm: "calm E" and "\<And>t. \<exists>a. f t = Inr a \<and> Q (Inr a) [ev] s"
  shows "achieves E s (effect E ev f) Q"
  unfolding effect_def
proof (rule achieves_call_seq [OF calm], intro exI conjI, rule refl, rule achieves_seq, rule achievesI)
  fix w assume "durable E w = Inr s"
  moreover have "achieves E s (call E f) (having [ev] Q)"
    by (rule achieves_call [OF calm]) (use assms in auto)
  ultimately show "\<exists>r w' evs s'. emit ev w = (r, w') \<and> durable E w' = Inr s' \<and> w_trace w' = w_trace w @ evs \<and>
      (\<exists>a. r = Inr a \<and> achieves E s' (call E f) (having evs Q))"
    by (auto simp: emit_def durable_def)
qed

section \<open>Reaching the ledger\<close>

definition new_record :: "string \<Rightarrow> submission_intent \<Rightarrow> string option \<Rightarrow> string \<Rightarrow> submission_record" where
  "new_record task intent signature at =
     \<lparr>srTask = task, srSubmissionSignature = signature, srResultUri = siResultUri intent,
      srResultHashHex = siResultHashHex intent, srRewardAmount = siRewardAmount intent,
      srSubmittedAt = at, srSettled = False, srOutcome = None, srTerminalEvidence = None,
      srEarnedLamports = None, srSettlementSignature = None, srSettledAt = None\<rparr>"

definition ledger_with :: "worker_state \<Rightarrow> submission_record \<Rightarrow> worker_state" where
  "ledger_with s r = s\<lparr>wsOpenClaim := None, wsSubmissions := wsSubmissions s @ [r]\<rparr>"

text \<open>There is room for one more record, and the task has none.\<close>

definition free_for :: "worker_state \<Rightarrow> string \<Rightarrow> bool" where
  "free_for s task \<longleftrightarrow> task \<notin> set (ledger_tasks s) \<and> unsettled_count (wsSubmissions s) < MAX_UNSETTLED_SUBMISSIONS"

lemma free_for_find: "free_for s task \<Longrightarrow> List.find (\<lambda>r. srTask r = task) (wsSubmissions s) = None"
  by (auto simp: free_for_def ledger_tasks_def find_None_iff)

lemma free_for_claim [simp]: "free_for (s\<lparr>wsOpenClaim := c\<rparr>) task = free_for s task"
  by (simp add: free_for_def ledger_tasks_def)

lemma free_for_pruned: "free_for s task \<Longrightarrow> free_for (pruned s) task"
  using pruned_tasks [of s] by (auto simp: free_for_def count_unsettled)

lemma achieves_commit_at:
  assumes "calm E" "free_for s task" "storable (e_platform E) (ledger_with s (new_record task intent sig at))"
    "Q (Inr (new_record task intent sig at)) [Saved (pruned (ledger_with s (new_record task intent sig at)))]
       (pruned (ledger_with s (new_record task intent sig at)))"
  shows "achieves E s (commitSubmission E task intent sig (Some at)) Q"
  using assms
  by (auto simp: commitSubmission_def free_for_find free_for_def Let_def new_record_def ledger_with_def
      intro!: achieves_load_seq achieves_save_seq achieves_seq [OF achieves_returning] achieves_returning)

lemma achieves_commit_now:
  assumes "calm E" "free_for s task"
    "\<And>t. storable (e_platform E) (ledger_with s (new_record task intent sig (to_iso (e_platform E) (o_now E t))))"
    "\<And>t r. r = new_record task intent sig (to_iso (e_platform E) (o_now E t)) \<Longrightarrow>
       Q (Inr r) [Saved (pruned (ledger_with s r))] (pruned (ledger_with s r))"
  shows "achieves E s (commitSubmission E task intent sig None) Q"
  using assms
  by (auto simp: commitSubmission_def free_for_find free_for_def Let_def new_record_def ledger_with_def
      intro!: achieves_load_seq achieves_now_iso achieves_save_seq achieves_returning)

text \<open>An unsettled record of that hash is durable and the claim is closed.\<close>

definition recorded :: "string \<Rightarrow> string \<Rightarrow> submission_record \<Rightarrow> worker_state \<Rightarrow> bool" where
  "recorded task h r s \<longleftrightarrow> r \<in> set (wsSubmissions s) \<and> srTask r = task \<and> srResultHashHex r = h \<and>
     \<not> srSettled r \<and> wsOpenClaim s = None"

lemma recorded_new: "recorded task (siResultHashHex intent) (new_record task intent sig at)
    (pruned (ledger_with s (new_record task intent sig at)))"
  using pruned_unsettled_mem [of "new_record task intent sig at" "ledger_with s (new_record task intent sig at)"]
  by (simp add: recorded_def ledger_with_def new_record_def)

text \<open>A state in the middle of a submission, to apply the theorems to.\<close>

definition sample_intent :: submission_intent where
  "sample_intent = \<lparr>siResultUri = ''ar://a'', siResultHashHex = bytesToHex sample_hash, siRewardAmount = ''50'',
     siPreparedAt = ''-300000'', siLastBroadcastAt = None, siTransactionSignature = None\<rparr>"

definition sample_claim :: open_claim where
  "sample_claim = \<lparr>ocTask = ''task'', ocClaimedAt = ''+0'', ocPhase = Submitting, ocClaimTransactionSignature = None,
     ocRevisionSubmissionCount = None, ocExecution = None, ocSubmission = Some sample_intent\<rparr>"

definition sample_pending :: worker_state where
  "sample_pending = emptyState\<lparr>wsOpenClaim := Some sample_claim\<rparr>"

definition sample_landed :: submission_account where
  "sample_landed = \<lparr>suTask = ''task'', suClaim = ''taskagent'', suWorker = ''agent'', suStatus = SSubmitted,
     suProofHash = sample_hash, suSubmissionCount = 1, suSubmittedAt = 5, suRejectionHash = []\<rparr>"

definition sample_agent :: worker_agent where
  "sample_agent = \<lparr>waAgentId = replicate 32 1, waAgentPda = ''agent'', waRegistered = True\<rparr>"

section \<open>Recovery of a submission\<close>

text \<open>The accounts the chain shows for a task, at any time of the run.\<close>

definition chain_shows ::
  "env \<Rightarrow> worker_agent \<Rightarrow> string \<Rightarrow> claim_account option \<Rightarrow> task_account option \<Rightarrow> submission_account option \<Rightarrow> bool" where
  "chain_shows E agent task cl tk su \<longleftrightarrow> (\<forall>t. o_claim E t task = Inr cl \<and> o_task E t task = Inr tk \<and>
     o_submission E t task = Inr su) \<and> checkClaim (waAgentPda agent) task cl = Inr cl \<and>
     checkSubmission (e_chain E) (waAgentPda agent) task su = Inr su"

lemma achieves_reads:
  assumes "calm E" "chain_shows E agent task cl tk su" "\<And>t. achieves E s (g cl tk su (o_now E t)) Q"
  shows "achieves E s (seq (readClaim E agent task) (\<lambda>a. seq (readTask E task) (\<lambda>b.
     seq (readSubmission E agent task) (\<lambda>c. seq (now_ms E) (\<lambda>d. g a b c d))))) Q"
  using assms unfolding readClaim_def readTask_def readSubmission_def now_ms_def
  by (auto simp: chain_shows_def intro!: achieves_call_seq)

lemma achieves_now:
  assumes "calm E" "\<And>t. achieves E s (g (o_now E t)) Q"
  shows "achieves E s (seq (now_ms E) g) Q"
  unfolding now_ms_def using assms by (intro achieves_call_seq) auto

text \<open>C7: a lost reply is not sent again.  The process died after broadcasting a submission, and the submission is
  on chain: the next run finds it, records it in the ledger with its own hash and closes the claim, with
  one save and no effect.\<close>

theorem landed_submission_recovered:
  assumes "calm E" "wsOpenClaim s = Some c" "ocPhase c = Submitting" "ocSubmission c = Some su"
    "chain_shows E agent (ocTask c) cl tk (Some a)"
    "isMatchingLandedSubmission a su (ocRevisionSubmissionCount c)" "free_for s (ocTask c)"
    "storable (e_platform E) (ledger_with s (new_record (ocTask c) su None
       (submissionTimestamp (e_platform E) (suSubmittedAt a) (siPreparedAt su))))"
  shows "achieves E s (resumeOpenClaim E agent) (\<lambda>r evs n. \<exists>rec. r = Inr (Some (Submitted (ocTask c) rec)) \<and>
     evs = [Saved n] \<and> recorded (ocTask c) (siResultHashHex su) rec n)"
proof -
  let ?Q = "\<lambda>r evs n. \<exists>rec. r = Inr (Some (Submitted (ocTask c) rec)) \<and>
     evs = [Saved n] \<and> recorded (ocTask c) (siResultHashHex su) rec n"
  have landed: "landed_for c a" and hash: "bytesToHex (suProofHash a) = siResultHashHex su"
    and status: "suStatus a \<noteq> SRejected"
    using assms(3, 4, 6)
    by (auto simp: landed_for_def isMatchingLandedSubmission_def submissionMatchesIntent_def isLandedSubmission_def)
  have "achieves E s (resumeReconciled E agent (ocTask c) c cl tk (Some a) False) ?Q"
    using landed hash assms
    by (auto simp: resumeReconciled_def matchingIntent_def Let_def recorded_new
        intro!: achieves_seq achieves_commit_at achieves_returning)
  then have "achieves E s (case (Some a, cl, tk) of
        (Some s', Some c', Some t') \<Rightarrow> if isRevisionRequested now t' c' s' then k s' c' t'
          else resumeReconciled E agent (ocTask c) c cl tk (Some a) False
      | _ \<Rightarrow> resumeReconciled E agent (ocTask c) c cl tk (Some a) False) ?Q" for now k
    using status by (auto simp: isRevisionRequested_def split: option.split)
  then show ?thesis
    using assms(2) unfolding resumeOpenClaim_def Let_def
    by (auto intro!: achieves_load_seq achieves_reads [OF assms(1, 5)] assms(1))
qed

lemma sample_times:
  "canonical_iso sample_platform ''+5000''" "canonical_iso sample_platform ''+0''"
  "canonical_iso sample_platform ''-300000''"
  by code_simp+

lemma sample_hash_hex: "is_hash_hex (bytesToHex sample_hash)"
  by (simp add: bytesToHex_hash_hex sample_hash_def)

lemmas sample_valid = valid_state_def wf_claim_def wf_record_def wf_submission_def ledger_with_def new_record_def
  sample_pending_def sample_claim_def sample_intent_def emptyState_def ledger_tasks_def unsettled_count_def
  count_if_filter MAX_PARSED_SUBMISSIONS_def MAX_UNSETTLED_SUBMISSIONS_def sample_times sample_hash_hex

lemma sample_address: "valid_address sample_platform x \<longleftrightarrow> x \<noteq> []"
  by (simp add: sample_platform_def)

lemma sample_recorded_storable:
  "storable sample_platform (ledger_with sample_pending (new_record ''task'' sample_intent None ''+5000''))"
proof -
  have "serialized_size (pruned (ledger_with sample_pending (new_record ''task'' sample_intent None ''+5000'')))
      \<le> MAX_WORKER_STATE_BYTES"
    by code_simp
  then show ?thesis
    by (simp add: storable_def sample_valid sample_address is_decimal_def is_digit_def)
qed

theorem landed_submission_recovered_witness:
  "achieves (sample_env\<lparr>o_submission := \<lambda>_ _. Inr (Some sample_landed)\<rparr>) sample_pending
     (resumeOpenClaim (sample_env\<lparr>o_submission := \<lambda>_ _. Inr (Some sample_landed)\<rparr>) sample_agent)
     (\<lambda>r evs n. \<exists>rec. r = Inr (Some (Submitted ''task'' rec)) \<and> evs = [Saved n] \<and>
        recorded ''task'' (bytesToHex sample_hash) rec n)"
proof -
  have "submissionTimestamp sample_platform 5 (siPreparedAt sample_intent) = ''+5000''" by code_simp
  then show ?thesis
    using landed_submission_recovered [of "sample_env\<lparr>o_submission := \<lambda>_ _. Inr (Some sample_landed)\<rparr>"
        sample_pending sample_claim sample_intent sample_agent None "Some sample_account" sample_landed]
      sample_recorded_storable
    by (simp add: calm_def chain_shows_def sample_env_def sample_pending_def sample_claim_def sample_intent_def
        sample_landed_def sample_agent_def sample_chain_def checkClaim_def checkSubmission_def free_for_def
        isMatchingLandedSubmission_def isLandedSubmission_def submissionMatchesIntent_def
        ledger_tasks_def emptyState_def unsettled_count_def count_if_filter MAX_UNSETTLED_SUBMISSIONS_def)
qed

text \<open>The state with the broadcast of the open submission announced.\<close>

definition broadcasting_at :: "worker_state \<Rightarrow> open_claim \<Rightarrow> submission_intent \<Rightarrow> string \<Rightarrow> worker_state" where
  "broadcasting_at s c su at = s\<lparr>wsOpenClaim := Some (c\<lparr>ocSubmission := Some (su\<lparr>siLastBroadcastAt := Some at\<rparr>)\<rparr>)\<rparr>"

text \<open>What the broadcast and its record need: transactions succeed and both states can be stored.\<close>

definition can_submit :: "env \<Rightarrow> worker_state \<Rightarrow> open_claim \<Rightarrow> submission_intent \<Rightarrow> bool" where
  "can_submit E s c su \<longleftrightarrow> is_hash_hex (siResultHashHex su) \<and> free_for s (ocTask c) \<and>
     (\<forall>t. \<exists>sig. o_submit_tx E t (ocTask c) (siResultHashHex su) = Inr sig) \<and>
     (\<forall>t. storable (e_platform E) (broadcasting_at s c su (to_iso (e_platform E) (o_now E t)))) \<and>
     (\<forall>t t' u sig. let at = to_iso (e_platform E) (o_now E t) in
        o_submit_tx E u (ocTask c) (siResultHashHex su) = Inr sig \<longrightarrow> storable (e_platform E) (ledger_with (pruned (broadcasting_at s c su at))
          (new_record (ocTask c) (su\<lparr>siLastBroadcastAt := Some at\<rparr>) (Some sig) (to_iso (e_platform E) (o_now E t')))))"

lemma lower_hex_pairs: "list_all is_lower_hex s \<Longrightarrow> even (length s) \<Longrightarrow> \<exists>bs. hex_pairs s = Some bs"
proof (induction s rule: hex_pairs.induct)
  case (3 c d cs)
  then obtain bs where "hex_pairs cs = Some bs" by auto
  moreover have "hex_value x \<noteq> None" if "is_lower_hex x" for x
    using that by (auto simp: is_lower_hex_def hex_value_def Let_def)
  then obtain m n where "hex_value c = Some m" "hex_value d = Some n"
    using 3(2) by fastforce
  ultimately show ?case by simp
qed simp_all

lemma hash_hex_bytes: "is_hash_hex h \<Longrightarrow> \<exists>b. hexToBytes h = Inr b"
  using lower_hex_pairs [of h] by (auto simp: is_hash_hex_def hexToBytes_def)

lemma hash_hex_resultData: "is_hash_hex h \<Longrightarrow> resultDataFromHashHex h = Inr (utf8_encode h)"
  by (simp add: resultDataFromHashHex_def is_hash_hex_def utf8_encode_def)

lemma achieves_submit:
  assumes "calm E" "wsOpenClaim s = Some c" "ocPhase c = Submitting" "ocSubmission c = Some su"
    "can_submit E s c su" "siResultHashHex prepared = siResultHashHex su"
    "\<And>b r n. recorded (ocTask c) (siResultHashHex su) r n \<Longrightarrow> Q (Inr (Submitted (ocTask c) r))
       [Saved b, SubmitSent (ocTask c) (siResultHashHex su), Saved n] n"
  shows "achieves E s (submitPreparedResult E agent (ocTask c) prepared) Q"
proof -
  let ?p = "e_platform E" and ?h = "siResultHashHex su" and ?task = "ocTask c"
  obtain b where b: "hexToBytes ?h = Inr b"
    using assms(5) hash_hex_bytes [of ?h] by (auto simp: can_submit_def)
  let ?intent = "\<lambda>t. su\<lparr>siLastBroadcastAt := Some (to_iso ?p (o_now E t))\<rparr>"
  let ?b = "\<lambda>t. pruned (broadcasting_at s c su (to_iso ?p (o_now E t)))"
  have commit: "achieves E (?b t) (seq (commitSubmission E ?task (?intent t) (Some sig) None)
      (\<lambda>record. returning (Submitted ?task record)))
      (\<lambda>r evs n. (\<exists>a. r = Inr a) \<and> Q r (Saved (?b t) # SubmitSent ?task ?h # evs) n)"
    if "o_submit_tx E u ?task ?h = Inr sig" for t u sig
  proof -
    have "free_for (?b t) ?task" "recorded ?task ?h (new_record ?task (?intent t) (Some sig) at)
        (pruned (ledger_with (?b t) (new_record ?task (?intent t) (Some sig) at)))" for at
      using assms(5) recorded_new [of ?task "?intent t"]
      by (simp_all add: can_submit_def broadcasting_at_def free_for_pruned)
    then show ?thesis
      using assms(5, 7) that
      by (auto simp: can_submit_def Let_def intro!: achieves_seq achieves_commit_now assms(1) achieves_returning)
  qed
  have send: "achieves E (?b t) (seq (lift_res (hexToBytes ?h)) (\<lambda>_. seq (lift_res (resultDataFromHashHex ?h)) (\<lambda>_.
       seq (effect E (SubmitSent ?task ?h) (\<lambda>t. o_submit_tx E t ?task ?h)) (\<lambda>sig.
       seq (commitSubmission E ?task (?intent t) (Some sig) None) (\<lambda>record. returning (Submitted ?task record))))))
      (\<lambda>r evs n. (\<exists>a. r = Inr a) \<and> Q r (Saved (?b t) # evs) n)" for t
  proof -
    obtain sg where tx: "o_submit_tx E u ?task ?h = Inr (sg u)" for u
      using assms(5) unfolding can_submit_def by metis
    show ?thesis
      using assms(5) b hash_hex_resultData [of ?h] commit [OF tx]
      by (auto simp: can_submit_def tx intro!: achieves_seq [OF achieves_effect [OF assms(1)]])
  qed
  have announce: "achieves E s (seq (now_iso E) (\<lambda>at. seq (saveState E (broadcasting_at s c su at)) (k at))) Q"
    if "\<And>t. achieves E (?b t) (k (to_iso ?p (o_now E t)) ()) (having [Saved (?b t)] Q)" for k
    using that assms(1, 5) by (auto simp: can_submit_def intro!: achieves_now_iso achieves_save_seq)
  show ?thesis
    using assms(2-4, 6)
    unfolding submitPreparedResult_def Let_def
    by (auto simp: broadcasting_at_def [symmetric]
        intro!: achieves_load_seq announce achieves_catching send assms(1))
qed

text \<open>C8: a submission that never landed is sent.  The process died before or during the broadcast, the grace period is
  over, the claim still stands and the chain has no submission: the next run announces the broadcast,
  submits the durable hash, and records it.\<close>

theorem pending_submission_sent:
  assumes "calm E" "wsOpenClaim s = Some c" "ocPhase c = Submitting" "ocSubmission c = Some su"
    "chain_shows E agent (ocTask c) (Some cl) (Some tk) None" "tkStatus tk = TInProgress" "\<not> e_dry_run E"
    "\<forall>t. \<not> inside_grace (e_platform E) (o_now E t)
       (case siLastBroadcastAt su of Some at \<Rightarrow> at | None \<Rightarrow> siPreparedAt su)"
    "can_submit E s c su"
  shows "achieves E s (resumeOpenClaim E agent) (\<lambda>r evs n. \<exists>rec b. r = Inr (Some (Submitted (ocTask c) rec)) \<and>
     evs = [Saved b, SubmitSent (ocTask c) (siResultHashHex su), Saved n] \<and>
     recorded (ocTask c) (siResultHashHex su) rec n)"
proof -
  have dispatch: "achieves E s (resumeDispatch E agent (ocTask c) c tk None False)
     (\<lambda>r evs n. \<exists>rec b. r = Inr (Some (Submitted (ocTask c) rec)) \<and>
       evs = [Saved b, SubmitSent (ocTask c) (siResultHashHex su), Saved n] \<and>
       recorded (ocTask c) (siResultHashHex su) rec n)"
    using assms(3, 4, 6, 7)
    by (auto simp: resumeDispatch_def intro!: achieves_seq achieves_submit assms(1, 2, 3, 4, 9) achieves_returning)
  show ?thesis
    using assms(2, 3, 4, 6, 8) dispatch
    unfolding resumeOpenClaim_def Let_def
    by (auto simp: resumeReconciled_def resumeGrace_def resumeTerminal_def terminal_rejection_def resumeClosure_def
        intro!: achieves_load_seq achieves_reads [OF assms(1, 5)] achieves_now assms(1))
qed

definition sample_standing_claim :: claim_account where
  "sample_standing_claim = \<lparr>clTask = ''task'', clWorker = ''agent'', clClaimedAt = 1, clCompletedAt = 0,
     clExpiresAt = 99, clIsCompleted = False, clIsValidated = False, clRewardPaid = 0\<rparr>"

definition sample_running :: env where
  "sample_running = sample_env\<lparr>o_claim := \<lambda>_ _. Inr (Some sample_standing_claim),
     o_task := \<lambda>_ _. Inr (Some (sample_account\<lparr>tkStatus := TInProgress\<rparr>))\<rparr>"

lemma sample_fields: "ocTask sample_claim = ''task''" "siResultHashHex sample_intent = bytesToHex sample_hash"
  by (simp_all add: sample_claim_def sample_intent_def)

lemma sample_can_submit: "can_submit sample_running sample_pending sample_claim sample_intent"
proof -
  have size: "serialized_size (broadcasting_at sample_pending sample_claim sample_intent ''+0'') \<le> MAX_WORKER_STATE_BYTES"
    "serialized_size (ledger_with sample_pending
      (new_record ''task'' (sample_intent\<lparr>siLastBroadcastAt := Some ''+0''\<rparr>) (Some ''sig'') ''+0'')) \<le> MAX_WORKER_STATE_BYTES"
    by code_simp+
  have iso: "to_iso sample_platform 0 = ''+0''" by code_simp
  have keep: "pruned (broadcasting_at sample_pending sample_claim sample_intent x) =
      broadcasting_at sample_pending sample_claim sample_intent x" for x
    by (rule pruned_small) (simp add: broadcasting_at_def sample_pending_def emptyState_def)
  have ledger: "ledger_with (broadcasting_at sample_pending sample_claim sample_intent x) r = ledger_with sample_pending r"
    "pruned (ledger_with sample_pending r) = ledger_with sample_pending r" if "\<not> srSettled r" for x r
    using that by (simp add: ledger_with_def broadcasting_at_def, intro pruned_small)
      (simp add: ledger_with_def sample_pending_def emptyState_def)
  have unsettled: "\<not> srSettled (new_record t i g a)" for t i g a
    by (simp add: new_record_def)
  have "free_for sample_pending ''task''"
    by (simp add: free_for_def sample_valid)
  moreover have "e_platform sample_running = sample_platform" "o_now sample_running t = 0"
    "o_submit_tx sample_running t task h = Inr ''sig''" for t task h
    by (simp_all add: sample_running_def sample_env_def)
  moreover have "valid_state sample_platform (broadcasting_at sample_pending sample_claim sample_intent ''+0'')"
    by (simp add: broadcasting_at_def sample_valid sample_address is_decimal_def is_digit_def)
  moreover have "valid_state sample_platform (ledger_with sample_pending
      (new_record ''task'' (sample_intent\<lparr>siLastBroadcastAt := Some ''+0''\<rparr>) (Some ''sig'') ''+0''))"
    by (simp add: sample_valid sample_address is_decimal_def is_digit_def)
  ultimately show ?thesis
    using size iso keep
    by (simp add: can_submit_def storable_def ledger unsettled sample_fields sample_hash_hex Let_def)
qed

theorem pending_submission_sent_witness:
  "achieves sample_running sample_pending (resumeOpenClaim sample_running sample_agent)
     (\<lambda>r evs n. \<exists>rec b. r = Inr (Some (Submitted ''task'' rec)) \<and>
       evs = [Saved b, SubmitSent ''task'' (bytesToHex sample_hash), Saved n] \<and>
       recorded ''task'' (bytesToHex sample_hash) rec n)"
proof -
  have "\<not> inside_grace sample_platform 0 ''-300000''" by code_simp
  then show ?thesis
    using pending_submission_sent [of sample_running sample_pending sample_claim sample_intent sample_agent
        sample_standing_claim "sample_account\<lparr>tkStatus := TInProgress\<rparr>", OF _ _ _ _ _ _ _ _ sample_can_submit]
    by (simp add: calm_def chain_shows_def sample_running_def sample_env_def sample_pending_def sample_claim_def
        sample_intent_def sample_standing_claim_def sample_agent_def checkClaim_def checkSubmission_def)
qed

end
