(* ===== verification/Config.thy ===== *)
theory Config
  imports WorkerPolicy StableJson JsText Samples
begin

text \<open>
  Worker configuration (\<open>packages/agenc-worker/src/config.ts\<close>): the validation of a configuration
  file, the parsers of the fields, the environment variables, and \<open>resolveWorkerConfig\<close>, which
  merges flags, environment and file in this order and checks every field.  Home directory, path
  resolution and the two existence tests are parameters.
\<close>

section \<open>Values\<close>

text \<open>A field of a source: a JSON value, or a \<open>bigint\<close> of a programmatic caller.\<close>

datatype config_value = CJson json | CBig int

text \<open>The entries of a source in order; \<open>None\<close> is \<open>undefined\<close>.\<close>

type_synonym config_input = "(string \<times> config_value option) list"

record worker_config = runtime_config +
  wcRpcUrl :: string
  wcWalletPath :: string
  wcStateDir :: string
  wcTaskThreadBaseUrl :: string
  wcPollIntervalMs :: int
  wcExecutorTimeoutMs :: int

definition U64_MAX :: int where "U64_MAX = 18446744073709551615"
definition MAX_TIMER_MS :: int where "MAX_TIMER_MS = 2147483647"
definition MAX_SAFE_INTEGER :: int where "MAX_SAFE_INTEGER = 9007199254740991"
definition DEFAULT_CAPABILITIES :: nat where "DEFAULT_CAPABILITIES = 1"
definition DEFAULT_POLL_INTERVAL_MS :: int where "DEFAULT_POLL_INTERVAL_MS = 15000"
definition DEFAULT_EXECUTOR_TIMEOUT_MS :: int where "DEFAULT_EXECUTOR_TIMEOUT_MS = 15 * 60000"
definition DEFAULT_ENDPOINT :: string where "DEFAULT_ENDPOINT = ''https://agenc.ag/worker''"
definition DEFAULT_TASK_THREAD_BASE_URL :: string where "DEFAULT_TASK_THREAD_BASE_URL = ''https://agenc.ag''"

definition CONFIG_FILE_KEYS :: "string list" where
  "CONFIG_FILE_KEYS = [''rpcUrl'', ''walletPath'', ''capabilities'', ''minRewardLamports'',
     ''maxRewardLamports'', ''allowUnboundedReward'', ''executor'', ''executorMode'',
     ''executorEnvAllowlist'', ''resultUploader'', ''stateDir'', ''creatorAllowlist'',
     ''allowAnyCreator'', ''endpoint'', ''taskThreadBaseUrl'', ''pollIntervalMs'', ''executorTimeoutMs'']"

text \<open>\<open>/^(0|[1-9]\d*)$/u\<close> and \<open>/^[A-Za-z_][A-Za-z0-9_]*$/\<close>.\<close>

definition is_canonical_decimal :: "string \<Rightarrow> bool" where
  "is_canonical_decimal s \<longleftrightarrow> is_decimal s \<and> (s = ''0'' \<or> hd s \<noteq> CHR ''0'')"

definition is_env_name :: "string \<Rightarrow> bool" where
  "is_env_name s \<longleftrightarrow> s \<noteq> [] \<and> list_all (\<lambda>c. is_alnum c \<or> c = CHR ''_'') s \<and> \<not> is_digit (hd s)"

definition int_value :: "string \<Rightarrow> int" where
  "int_value s = int (dec_value s)"

fun js_elem_string :: "json \<Rightarrow> string option" where
  "js_elem_string (JStr s) = Some s"
| "js_elem_string _ = None"

text \<open>An array whose elements are strings satisfying \<open>q\<close>.\<close>

definition string_array :: "(string \<Rightarrow> bool) \<Rightarrow> json \<Rightarrow> string list option" where
  "string_array q v = (case v of
      JArr xs \<Rightarrow> if list_all (\<lambda>x. case js_elem_string x of None \<Rightarrow> False | Some s \<Rightarrow> q s) xs
        then Some (map (\<lambda>x. case js_elem_string x of None \<Rightarrow> [] | Some s \<Rightarrow> s) xs) else None
    | _ \<Rightarrow> None)"

section \<open>URLs\<close>

text \<open>The condition on the parsed URL that the file validator and the resolver share.\<close>

definition acceptable_url :: "string list \<Rightarrow> bool \<Rightarrow> url \<Rightarrow> bool" where
  "acceptable_url protocols allowQuery u \<longleftrightarrow>
     u_protocol u \<in> set protocols \<and> u_hostname u \<noteq> [] \<and> u_username u = [] \<and> u_password u = [] \<and>
     (allowQuery \<or> (u_search u = [] \<and> u_hash u = []))"

definition plain_text :: "string \<Rightarrow> bool" where
  "plain_text s \<longleftrightarrow> js_trim s \<noteq> [] \<and> js_trim s = s \<and> \<not> has_control s"

definition within_bytes :: "nat option \<Rightarrow> string \<Rightarrow> bool" where
  "within_bytes maxBytes s \<longleftrightarrow> (case maxBytes of None \<Rightarrow> True | Some n \<Rightarrow> length (utf8_encode s) \<le> n)"

definition field_error :: "string \<Rightarrow> string \<Rightarrow> worker_error" where
  "field_error key expectation = ConfigError (''\"'' @ key @ ''\" must be '' @ expectation)"

definition configFileUrl ::
  "platform \<Rightarrow> string \<Rightarrow> json \<Rightarrow> string list \<Rightarrow> bool \<Rightarrow> nat option \<Rightarrow> url res" where
  "configFileUrl p key v protocols allowQuery maxBytes = (case v of
      JStr s \<Rightarrow>
        if \<not> plain_text s then Inl (field_error key ''a non-empty absolute URL string'')
        else if \<not> within_bytes maxBytes s then Inl (field_error key ''an absolute URL within the byte limit'')
        else (case url_parse p s of
            None \<Rightarrow> Inl (field_error key ''a valid absolute URL'')
          | Some u \<Rightarrow>
              if acceptable_url protocols allowQuery u then Inr u
              else Inl (field_error key ''a credential-free URL''))
    | _ \<Rightarrow> Inl (field_error key ''a non-empty absolute URL string''))"

definition parseHttpUrl ::
  "platform \<Rightarrow> string \<Rightarrow> config_value \<Rightarrow> string list \<Rightarrow> bool \<Rightarrow> nat option \<Rightarrow> string res" where
  "parseHttpUrl p key v protocols allowQuery maxBytes = (case v of
      CJson (JStr s) \<Rightarrow>
        if \<not> plain_text s then Inl (ConfigError (key @ '': expected an absolute URL string''))
        else if \<not> within_bytes maxBytes s then Inl (ConfigError (key @ '': URL must be within the byte limit''))
        else (case url_parse p s of
            None \<Rightarrow> Inl (ConfigError (key @ '': not a valid absolute URL''))
          | Some u \<Rightarrow>
              if acceptable_url protocols allowQuery u then Inr s
              else Inl (ConfigError (key @ '': must be a URL without credentials'')))
    | _ \<Rightarrow> Inl (ConfigError (key @ '': expected an absolute URL string'')))"

section \<open>The configuration file\<close>

definition positive_timer :: "int \<Rightarrow> bool" where
  "positive_timer i \<longleftrightarrow> \<bar>i\<bar> \<le> MAX_SAFE_INTEGER \<and> 0 < i \<and> i \<le> MAX_TIMER_MS"

definition checkConfigField :: "platform \<Rightarrow> string \<Rightarrow> json \<Rightarrow> unit res" where
  "checkConfigField p key v =
     (if key = ''rpcUrl'' then
        bind_res (configFileUrl p key v [''http:'', ''https:''] True None) (\<lambda>_. Inr ())
      else if key = ''walletPath'' \<or> key = ''stateDir'' then
        guard_res (case v of JStr s \<Rightarrow> js_trim s \<noteq> [] \<and> \<not> has_control s | _ \<Rightarrow> False)
          (field_error key ''a non-empty path without control characters'')
      else if key = ''capabilities'' \<or> key = ''minRewardLamports'' \<or> key = ''maxRewardLamports'' then
        guard_res (key = ''maxRewardLamports'' \<and> v = JNull \<or>
          (case v of JStr s \<Rightarrow> is_canonical_decimal s \<and> int_value s \<le> U64_MAX \<and>
             \<not> (key = ''capabilities'' \<and> s = ''0'') | _ \<Rightarrow> False))
          (field_error key ''a canonical decimal string in the u64 range'')
      else if key = ''allowUnboundedReward'' \<or> key = ''allowAnyCreator'' then
        guard_res (case v of JBool b \<Rightarrow> True | _ \<Rightarrow> False) (field_error key ''a JSON boolean'')
      else if key = ''executor'' then
        guard_res (case string_array (\<lambda>s. s \<noteq> []) v of None \<Rightarrow> False | Some xs \<Rightarrow> xs \<noteq> [])
          (field_error key ''a non-empty array of non-empty strings'')
      else if key = ''executorMode'' then
        guard_res (v = JStr ''safe'' \<or> v = JStr ''sandboxed'' \<or> v = JStr ''unsafe'')
          (field_error key ''safe, sandboxed, or unsafe'')
      else if key = ''executorEnvAllowlist'' then
        guard_res (string_array is_env_name v \<noteq> None) (field_error key ''an array of environment variable names'')
      else if key = ''resultUploader'' then
        (if v = JNull then Inr ()
         else bind_res (configFileUrl p key v [''https:''] True None) (\<lambda>_. Inr ()))
      else if key = ''creatorAllowlist'' then
        guard_res (v = JNull \<or> string_array (\<lambda>s. js_trim s \<noteq> [] \<and> valid_address p s) v \<noteq> None)
          (field_error key ''null or an array of valid base58 address strings'')
      else if key = ''endpoint'' then
        bind_res (configFileUrl p key v [''http:'', ''https:''] True (Some 128)) (\<lambda>_. Inr ())
      else if key = ''taskThreadBaseUrl'' then
        bind_res (configFileUrl p key v [''https:''] False None) (\<lambda>_. Inr ())
      else if key = ''pollIntervalMs'' \<or> key = ''executorTimeoutMs'' then
        guard_res (case v of JInt i \<Rightarrow> positive_timer i | _ \<Rightarrow> False) (field_error key ''a positive JSON integer'')
      else Inr ())"

text \<open>\<open>BigInt(max) < BigInt(min)\<close> when both are strings; both have passed their checks.\<close>

definition rewards_inverted :: "fields \<Rightarrow> bool" where
  "rewards_inverted fs = (case (field fs ''minRewardLamports'', field fs ''maxRewardLamports'') of
      (Some (JStr a), Some (JStr b)) \<Rightarrow> int_value b < int_value a
    | _ \<Rightarrow> False)"

definition validateConfigFileObject :: "platform \<Rightarrow> fields \<Rightarrow> config_input res" where
  "validateConfigFileObject p fs =
     bind_res (guard_res (list_all (\<lambda>k. k \<in> set CONFIG_FILE_KEYS) (map fst fs)) (ConfigError ''unknown property'')) (\<lambda>_.
     bind_res (map_res (\<lambda>(k, v). checkConfigField p k v) fs) (\<lambda>_.
     bind_res (guard_res (\<not> rewards_inverted fs)
       (field_error ''maxRewardLamports'' ''greater than or equal to minRewardLamports'')) (\<lambda>_.
     Inr (map (\<lambda>(k, v). (k, Some (CJson v))) fs))))"

section \<open>Parsers of the fields\<close>

definition no_bigint_json :: worker_error where
  "no_bigint_json = PlainError ''Do not know how to serialize a BigInt''"

definition parseBigint :: "string \<Rightarrow> config_value \<Rightarrow> nat res" where
  "parseBigint key v = (case v of
      CBig i \<Rightarrow> if 0 \<le> i \<and> i \<le> U64_MAX then Inr (nat i) else Inl (ConfigError (key @ '': expected a u64 integer''))
    | CJson (JStr s) \<Rightarrow>
        if js_trim s \<noteq> s \<or> \<not> is_canonical_decimal s
        then Inl (ConfigError (key @ '': expected a canonical decimal u64 string''))
        else if int_value s > U64_MAX then Inl (ConfigError (key @ '': must be no greater than U64_MAX''))
        else Inr (dec_value s)
    | _ \<Rightarrow> Inl (ConfigError (key @ '': expected a canonical decimal u64 string'')))"

definition parseNumber :: "string \<Rightarrow> config_value \<Rightarrow> int res" where
  "parseNumber key v =
     bind_res (case v of
         CJson (JInt i) \<Rightarrow> Inr (Some i)
       | CJson (JNonInt _) \<Rightarrow> Inr None
       | CJson (JStr s) \<Rightarrow>
           if js_trim s = s \<and> is_canonical_decimal s then Inr (Some (int_value s))
           else Inl (ConfigError (key @ '': expected a canonical positive integer''))
       | CBig _ \<Rightarrow> Inl no_bigint_json
       | _ \<Rightarrow> Inl (ConfigError (key @ '': expected a canonical positive integer''))) (\<lambda>parsed.
     case parsed of
       Some i \<Rightarrow> if positive_timer i then Inr i
         else Inl (ConfigError (key @ '': expected a positive integer no greater than MAX_TIMER_MS''))
     | None \<Rightarrow> Inl (ConfigError (key @ '': expected a positive integer no greater than MAX_TIMER_MS'')))"

definition parseBoolean :: "string \<Rightarrow> config_value \<Rightarrow> bool res" where
  "parseBoolean key v = (case v of
      CJson (JBool b) \<Rightarrow> Inr b
    | CJson (JStr s) \<Rightarrow>
        (let t = lower_ascii (js_trim s) in
         if t \<in> {''1'', ''true'', ''yes'', ''on''} then Inr True
         else if t \<in> {''0'', ''false'', ''no'', ''off''} then Inr False
         else Inl (ConfigError (key @ '': expected true or false'')))
    | CBig _ \<Rightarrow> Inl no_bigint_json
    | _ \<Rightarrow> Inl (ConfigError (key @ '': expected true or false'')))"

definition parseExecutor :: "platform \<Rightarrow> string \<Rightarrow> config_value \<Rightarrow> string list res" where
  "parseExecutor p key v =
     bind_res (case v of
         CJson (JStr s) \<Rightarrow> (case json_parse p s of
             None \<Rightarrow> Inl (ConfigError (key @ '': expected a JSON argv array'')) | Some j \<Rightarrow> Inr (Some j))
       | CJson j \<Rightarrow> Inr (Some j)
       | CBig _ \<Rightarrow> Inr None) (\<lambda>argv.
     case (case argv of None \<Rightarrow> None | Some j \<Rightarrow> string_array (\<lambda>s. s \<noteq> []) j) of
       Some xs \<Rightarrow> if xs = [] then Inl (ConfigError (key @ '': expected a non-empty array of non-empty strings'')) else Inr xs
     | None \<Rightarrow> Inl (ConfigError (key @ '': expected a non-empty array of non-empty strings'')))"

text \<open>\<open>s.split(",").map(trim).filter(nonempty)\<close>.\<close>

definition comma_list :: "string \<Rightarrow> string list" where
  "comma_list s = List.filter (\<lambda>x. x \<noteq> []) (map js_trim (split_on (CHR '','') s))"

definition parseAllowlist :: "platform \<Rightarrow> string \<Rightarrow> config_value \<Rightarrow> string list option res" where
  "parseAllowlist p key v =
     (if v = CJson JNull then Inr None
      else
        bind_res (case v of
            CJson (JStr s) \<Rightarrow> Inr (comma_list s)
          | CJson j \<Rightarrow> (case string_array (\<lambda>s. js_trim s \<noteq> []) j of
              Some xs \<Rightarrow> Inr xs
            | None \<Rightarrow> Inl (ConfigError (key @ '': expected an array of base58 addresses'')))
          | CBig _ \<Rightarrow> Inl (ConfigError (key @ '': expected an array of base58 addresses''))) (\<lambda>list.
        bind_res (guard_res (list_all (valid_address p) list) (ConfigError (key @ '': invalid Solana address''))) (\<lambda>_.
        Inr (if list = [] then None else Some (js_unique list)))))"

definition parseStringList :: "platform \<Rightarrow> string \<Rightarrow> config_value \<Rightarrow> string list res" where
  "parseStringList p key v =
     bind_res (case v of
         CJson (JStr s) \<Rightarrow>
           (let trimmed = js_trim s in
            if take 1 trimmed = ''['' then (case json_parse p trimmed of
                None \<Rightarrow> Inl (ConfigError (key @ '': expected a JSON array or comma-separated names''))
              | Some j \<Rightarrow> Inr (string_array is_env_name j))
            else Inr (if list_all is_env_name (comma_list trimmed) then Some (comma_list trimmed) else None))
       | CJson j \<Rightarrow> Inr (string_array is_env_name j)
       | CBig _ \<Rightarrow> Inr None) (\<lambda>list.
     case list of
       Some xs \<Rightarrow> Inr (js_unique xs)
     | None \<Rightarrow> Inl (ConfigError (key @ '': expected environment variable names'')))"

definition parseExecutorMode :: "config_value \<Rightarrow> executor_mode res" where
  "parseExecutorMode v =
     (if v = CJson (JStr ''safe'') then Inr Safe
      else if v = CJson (JStr ''sandboxed'') then Inr Sandboxed
      else if v = CJson (JStr ''unsafe'') then Inr Unsafe
      else case v of CBig _ \<Rightarrow> Inl no_bigint_json
        | CJson _ \<Rightarrow> Inl (ConfigError ''executorMode: expected safe, sandboxed, or unsafe''))"

definition parsePathString :: "string \<Rightarrow> config_value \<Rightarrow> string res" where
  "parsePathString key v = (case v of
      CJson (JStr s) \<Rightarrow>
        if js_trim s = [] \<or> has_control s
        then Inl (ConfigError (key @ '': expected a non-empty path without control characters'')) else Inr s
    | _ \<Rightarrow> Inl (ConfigError (key @ '': expected a non-empty path without control characters'')))"

section \<open>Sources\<close>

definition env_keys :: "(string \<times> string) list" where
  "env_keys =
     [(''AGENC_WORKER_RPC_URL'', ''rpcUrl''), (''AGENC_WORKER_WALLET'', ''walletPath''),
      (''AGENC_WORKER_CAPABILITIES'', ''capabilities''),
      (''AGENC_WORKER_MIN_REWARD_LAMPORTS'', ''minRewardLamports''),
      (''AGENC_WORKER_MAX_REWARD_LAMPORTS'', ''maxRewardLamports''),
      (''AGENC_WORKER_ALLOW_UNBOUNDED_REWARD'', ''allowUnboundedReward''),
      (''AGENC_WORKER_EXECUTOR'', ''executor''), (''AGENC_WORKER_EXECUTOR_MODE'', ''executorMode''),
      (''AGENC_WORKER_EXECUTOR_ENV_ALLOWLIST'', ''executorEnvAllowlist''),
      (''AGENC_WORKER_RESULT_UPLOADER'', ''resultUploader''), (''AGENC_WORKER_STATE_DIR'', ''stateDir''),
      (''AGENC_WORKER_CREATOR_ALLOWLIST'', ''creatorAllowlist''),
      (''AGENC_WORKER_ALLOW_ANY_CREATOR'', ''allowAnyCreator''), (''AGENC_WORKER_ENDPOINT'', ''endpoint''),
      (''AGENC_WORKER_TASK_THREAD_BASE_URL'', ''taskThreadBaseUrl''),
      (''AGENC_WORKER_POLL_INTERVAL_MS'', ''pollIntervalMs''),
      (''AGENC_WORKER_EXECUTOR_TIMEOUT_MS'', ''executorTimeoutMs'')]"

definition configFromEnv :: "process_env \<Rightarrow> config_input" where
  "configFromEnv env = concat (map (\<lambda>(name, key). case env name of
      None \<Rightarrow> [] | Some s \<Rightarrow> [(key, Some (CJson (JStr s)))]) env_keys)"

text \<open>The first source that defines a field wins.\<close>

fun merge_source :: "(string \<rightharpoonup> config_value) \<Rightarrow> config_input \<Rightarrow> (string \<rightharpoonup> config_value) res" where
  "merge_source merged [] = Inr merged"
| "merge_source merged ((key, v) # es) =
     (if key \<notin> set CONFIG_FILE_KEYS then Inl (ConfigError ''unknown configuration property'')
      else merge_source (case v of None \<Rightarrow> merged
        | Some x \<Rightarrow> if merged key = None then merged(key \<mapsto> x) else merged) es)"

fun merge_sources :: "(string \<rightharpoonup> config_value) \<Rightarrow> config_input list \<Rightarrow> (string \<rightharpoonup> config_value) res" where
  "merge_sources merged [] = Inr merged"
| "merge_sources merged (source # sources) =
     bind_res (merge_source merged source) (\<lambda>m. merge_sources m sources)"

section \<open>Resolution\<close>

text \<open>The state root under the home directory, \<open>path.resolve\<close>, and whether \<open>lstat\<close> finds a file.\<close>

record config_platform =
  cp_state_root :: string
  cp_resolve :: "string \<Rightarrow> string"
  cp_exists :: "string \<Rightarrow> bool res"

definition defaultStateDir :: "platform \<Rightarrow> config_platform \<Rightarrow> string \<Rightarrow> string \<Rightarrow> string res" where
  "defaultStateDir p cp rpcUrl walletPath = (case url_parse p rpcUrl of
      None \<Rightarrow> Inl (ConfigError ''defaultStateDir requires a valid absolute rpcUrl'')
    | Some u \<Rightarrow> Inr (cp_state_root cp @ ''/'' @ take 24 (sha256Hex p (utf8_encode (json_compact (JObj
        [(''rpcUrl'', JStr (url_href u)), (''walletPath'', JStr (cp_resolve cp walletPath))]))))))"

text \<open>A field with a default when undefined; \<open>nullish\<close> also when null (\<open>??\<close>).\<close>

definition with_default :: "config_value option \<Rightarrow> 'a \<Rightarrow> (config_value \<Rightarrow> 'a res) \<Rightarrow> 'a res" where
  "with_default v d f = (case v of None \<Rightarrow> Inr d | Some x \<Rightarrow> f x)"

definition nullish :: "config_value option \<Rightarrow> bool" where
  "nullish v \<longleftrightarrow> v = None \<or> v = Some (CJson JNull)"

definition coalesce :: "config_value option \<Rightarrow> string \<Rightarrow> config_value" where
  "coalesce v d = (if nullish v then CJson (JStr d) else the v)"

definition strip_slashes :: "string \<Rightarrow> string" where
  "strip_slashes s = rev (dropWhile (\<lambda>c. c = CHR ''/'') (rev s))"

definition resolveExecution ::
  "platform \<Rightarrow> (string \<rightharpoonup> config_value) \<Rightarrow> (string list \<times> executor_mode \<times> string list) res" where
  "resolveExecution p m =
     bind_res (with_default (m ''executor'') DEFAULT_EXECUTOR (parseExecutor p ''executor'')) (\<lambda>executor.
     bind_res (with_default (m ''executorMode'') Safe parseExecutorMode) (\<lambda>mode.
     bind_res (guard_res (\<not> (mode = Safe \<and> executor \<noteq> DEFAULT_EXECUTOR))
       (ConfigError ''executor: custom argv is not permitted in safe mode'')) (\<lambda>_.
     bind_res (with_default (m ''executorEnvAllowlist'') (if mode = Safe then DEFAULT_EXECUTOR_ENV_ALLOWLIST else [])
       (parseStringList p ''executorEnvAllowlist'')) (\<lambda>allow.
     bind_res (guard_res (\<not> (mode = Safe \<and> list_ex (\<lambda>n. n \<notin> set DEFAULT_EXECUTOR_ENV_ALLOWLIST) allow))
       (ConfigError ''executorEnvAllowlist: safe mode may inherit only ANTHROPIC_API_KEY'')) (\<lambda>_.
     Inr (executor, mode, allow))))))"

definition resolveStateDir ::
  "platform \<Rightarrow> config_platform \<Rightarrow> (string \<rightharpoonup> config_value) \<Rightarrow> string \<Rightarrow> string \<Rightarrow> string res" where
  "resolveStateDir p cp m rpcUrl walletPath =
     bind_res (if nullish (m ''stateDir'')
         then bind_res (defaultStateDir p cp rpcUrl walletPath) (\<lambda>d. Inr (CJson (JStr d)))
         else Inr (the (m ''stateDir''))) (\<lambda>v.
     bind_res (parsePathString ''stateDir'' v) (\<lambda>stateDir.
     if m ''stateDir'' \<noteq> None then Inr stateDir
     else
       bind_res (cp_exists cp (cp_state_root cp @ ''/state.json'')) (\<lambda>legacy.
       bind_res (cp_exists cp (stateDir @ ''/state.json'')) (\<lambda>namespaced.
       bind_res (guard_res (\<not> (legacy \<and> \<not> namespaced))
         (ConfigError ''legacy unnamespaced worker state detected'')) (\<lambda>_.
       Inr stateDir)))))"

definition resolveWorkerConfig ::
  "platform \<Rightarrow> config_platform \<Rightarrow> config_input list \<Rightarrow> worker_config res" where
  "resolveWorkerConfig p cp sources =
     bind_res (merge_sources Map.empty sources) (\<lambda>m.
     bind_res (case m ''rpcUrl'' of None \<Rightarrow> Inl (ConfigError ''rpcUrl is required'') | Some v \<Rightarrow> Inr v) (\<lambda>rpc.
     bind_res (case m ''walletPath'' of None \<Rightarrow> Inl (ConfigError ''walletPath is required'') | Some v \<Rightarrow> Inr v) (\<lambda>wallet.
     bind_res (parseHttpUrl p ''rpcUrl'' rpc [''http:'', ''https:''] True None) (\<lambda>rpcUrl.
     bind_res (parsePathString ''walletPath'' wallet) (\<lambda>walletPath.
     bind_res (with_default (m ''capabilities'') DEFAULT_CAPABILITIES (parseBigint ''capabilities'')) (\<lambda>capabilities.
     bind_res (guard_res (capabilities \<noteq> 0) (ConfigError ''capabilities: must be non-zero'')) (\<lambda>_.
     bind_res (with_default (m ''minRewardLamports'') 0 (parseBigint ''minRewardLamports'')) (\<lambda>minReward.
     bind_res (if nullish (m ''maxRewardLamports'') then Inr None
       else bind_res (parseBigint ''maxRewardLamports'' (the (m ''maxRewardLamports''))) (\<lambda>n. Inr (Some n))) (\<lambda>maxReward.
     bind_res (with_default (m ''allowUnboundedReward'') False (parseBoolean ''allowUnboundedReward'')) (\<lambda>unbounded.
     bind_res (guard_res (case maxReward of None \<Rightarrow> True | Some n \<Rightarrow> \<not> n < minReward)
       (ConfigError ''maxRewardLamports must be >= minRewardLamports'')) (\<lambda>_.
     bind_res (resolveExecution p m) (\<lambda>(executor, mode, allow).
     bind_res (if nullish (m ''resultUploader'') then Inr None
       else bind_res (parseHttpUrl p ''resultUploader'' (the (m ''resultUploader'')) [''https:''] True None)
         (\<lambda>u. Inr (Some u))) (\<lambda>uploader.
     bind_res (parseHttpUrl p ''endpoint'' (coalesce (m ''endpoint'') DEFAULT_ENDPOINT)
       [''http:'', ''https:''] True (Some 128)) (\<lambda>endpoint.
     bind_res (parseHttpUrl p ''taskThreadBaseUrl'' (coalesce (m ''taskThreadBaseUrl'') DEFAULT_TASK_THREAD_BASE_URL)
       [''https:''] False None) (\<lambda>taskThread.
     bind_res (with_default (m ''creatorAllowlist'') None (parseAllowlist p ''creatorAllowlist'')) (\<lambda>creators.
     bind_res (with_default (m ''allowAnyCreator'') False (parseBoolean ''allowAnyCreator'')) (\<lambda>anyCreator.
     bind_res (resolveStateDir p cp m rpcUrl walletPath) (\<lambda>stateDir.
     bind_res (with_default (m ''pollIntervalMs'') DEFAULT_POLL_INTERVAL_MS (parseNumber ''pollIntervalMs'')) (\<lambda>poll.
     bind_res (with_default (m ''executorTimeoutMs'') DEFAULT_EXECUTOR_TIMEOUT_MS (parseNumber ''executorTimeoutMs'')) (\<lambda>timeout.
     Inr \<lparr>rcCapabilities = capabilities, rcMinRewardLamports = minReward, rcMaxRewardLamports = maxReward,
         rcAllowUnboundedReward = unbounded, rcExecutor = executor, rcExecutorMode = mode,
         rcExecutorEnvAllowlist = allow, rcResultUploader = uploader, rcCreatorAllowlist = creators,
         rcAllowAnyCreator = anyCreator, rcEndpoint = endpoint, wcRpcUrl = rpcUrl, wcWalletPath = walletPath,
         wcStateDir = stateDir, wcTaskThreadBaseUrl = strip_slashes taskThread, wcPollIntervalMs = poll,
         wcExecutorTimeoutMs = timeout\<rparr>))))))))))))))))))))"

section \<open>What a resolved configuration guarantees\<close>

definition url_ok :: "platform \<Rightarrow> string list \<Rightarrow> bool \<Rightarrow> string \<Rightarrow> bool" where
  "url_ok p protocols allowQuery s \<longleftrightarrow> plain_text s \<and>
     (\<exists>u. url_parse p s = Some u \<and> acceptable_url protocols allowQuery u)"

definition limits_ok :: "worker_config \<Rightarrow> bool" where
  "limits_ok c \<longleftrightarrow> 1 \<le> rcCapabilities c \<and> int (rcCapabilities c) \<le> U64_MAX \<and>
     int (rcMinRewardLamports c) \<le> U64_MAX \<and>
     (\<forall>n. rcMaxRewardLamports c = Some n \<longrightarrow> rcMinRewardLamports c \<le> n \<and> int n \<le> U64_MAX) \<and>
     positive_timer (wcPollIntervalMs c) \<and> positive_timer (wcExecutorTimeoutMs c)"

definition execution_ok :: "worker_config \<Rightarrow> bool" where
  "execution_ok c \<longleftrightarrow> rcExecutor c \<noteq> [] \<and> list_all is_env_name (rcExecutorEnvAllowlist c) \<and>
     (rcExecutorMode c = Safe \<longrightarrow> rcExecutor c = DEFAULT_EXECUTOR \<and>
        set (rcExecutorEnvAllowlist c) \<subseteq> set DEFAULT_EXECUTOR_ENV_ALLOWLIST)"

definition endpoints_ok :: "platform \<Rightarrow> worker_config \<Rightarrow> bool" where
  "endpoints_ok p c \<longleftrightarrow> url_ok p [''http:'', ''https:''] True (wcRpcUrl c) \<and>
     (\<forall>u. rcResultUploader c = Some u \<longrightarrow> url_ok p [''https:''] True u) \<and>
     url_ok p [''http:'', ''https:''] True (rcEndpoint c) \<and> length (rcEndpoint c) \<le> 128 \<and>
     (\<exists>t. url_ok p [''https:''] False t \<and> wcTaskThreadBaseUrl c = strip_slashes t)"

definition creators_ok :: "platform \<Rightarrow> worker_config \<Rightarrow> bool" where
  "creators_ok p c \<longleftrightarrow> (\<forall>xs. rcCreatorAllowlist c = Some xs \<longrightarrow>
     xs \<noteq> [] \<and> distinct xs \<and> list_all (valid_address p) xs)"

lemma js_unique_Nil_iff [simp]: "js_unique xs = [] \<longleftrightarrow> xs = []"
  by (cases xs) auto

lemma parseHttpUrl_ok:
  "parseHttpUrl p key v ps q b = Inr s \<longleftrightarrow> v = CJson (JStr s) \<and> url_ok p ps q s \<and> within_bytes b s"
  by (auto simp: parseHttpUrl_def url_ok_def split: config_value.splits json.splits option.splits if_splits)

lemma parseBigint_ok: "parseBigint key v = Inr n \<Longrightarrow> int n \<le> U64_MAX"
  by (auto simp: parseBigint_def int_value_def split: config_value.splits json.splits if_splits)

lemma parseNumber_ok: "parseNumber key v = Inr i \<Longrightarrow> positive_timer i"
  by (auto simp: parseNumber_def bind_res_Inr_iff split: config_value.splits json.splits option.splits if_splits)

lemma parseExecutor_ok: "parseExecutor p key v = Inr xs \<Longrightarrow> xs \<noteq> []"
  by (auto simp: parseExecutor_def bind_res_Inr_iff split: option.splits if_splits)

lemma string_array_all: "string_array q j = Some xs \<Longrightarrow> list_all q xs"
  by (cases j) (auto simp: string_array_def list_all_iff split: if_splits option.splits)

lemma parseStringList_ok: "parseStringList p key v = Inr xs \<Longrightarrow> list_all is_env_name xs"
  by (auto simp: parseStringList_def bind_res_Inr_iff Let_def list_all_iff
      dest!: string_array_all split: config_value.splits json.splits option.splits if_splits)

lemma parseAllowlist_ok:
  "parseAllowlist p key v = Inr (Some xs) \<Longrightarrow> xs \<noteq> [] \<and> distinct xs \<and> list_all (valid_address p) xs"
  by (auto simp: parseAllowlist_def bind_res_Inr_iff res_simps list_all_iff split: if_splits)

lemma with_default_Inr: "with_default v d f = Inr x \<longleftrightarrow> (v = None \<and> x = d) \<or> (\<exists>y. v = Some y \<and> f y = Inr x)"
  by (auto simp: with_default_def split: option.split)

lemma resolveExecution_ok:
  assumes "resolveExecution p m = Inr (executor, mode, allow)"
  shows "executor \<noteq> [] \<and> list_all is_env_name allow \<and>
    (mode = Safe \<longrightarrow> executor = DEFAULT_EXECUTOR \<and> set allow \<subseteq> set DEFAULT_EXECUTOR_ENV_ALLOWLIST)"
proof -
  have "is_env_name ''ANTHROPIC_API_KEY''" by code_simp
  then have "list_all is_env_name DEFAULT_EXECUTOR_ENV_ALLOWLIST" by (simp add: DEFAULT_EXECUTOR_ENV_ALLOWLIST_def)
  then show ?thesis
    using assms
    by (auto simp: resolveExecution_def bind_res_Inr_iff res_simps with_default_Inr DEFAULT_EXECUTOR_def list_ex_iff
        dest: parseExecutor_ok parseStringList_ok split: if_splits)
qed

lemma resolve_fields:
  assumes "resolveWorkerConfig p cp sources = Inr c"
  obtains m rpc where
    "merge_sources Map.empty sources = Inr m"
    "parseHttpUrl p ''rpcUrl'' rpc [''http:'', ''https:''] True None = Inr (wcRpcUrl c)"
    "with_default (m ''capabilities'') DEFAULT_CAPABILITIES (parseBigint ''capabilities'') = Inr (rcCapabilities c)"
    "rcCapabilities c \<noteq> 0"
    "with_default (m ''minRewardLamports'') 0 (parseBigint ''minRewardLamports'') = Inr (rcMinRewardLamports c)"
    "(if nullish (m ''maxRewardLamports'') then Inr None
       else bind_res (parseBigint ''maxRewardLamports'' (the (m ''maxRewardLamports''))) (\<lambda>n. Inr (Some n))) =
       Inr (rcMaxRewardLamports c)"
    "case rcMaxRewardLamports c of None \<Rightarrow> True | Some n \<Rightarrow> \<not> n < rcMinRewardLamports c"
    "resolveExecution p m = Inr (rcExecutor c, rcExecutorMode c, rcExecutorEnvAllowlist c)"
    "(if nullish (m ''resultUploader'') then Inr None
       else bind_res (parseHttpUrl p ''resultUploader'' (the (m ''resultUploader'')) [''https:''] True None)
         (\<lambda>u. Inr (Some u))) = Inr (rcResultUploader c)"
    "parseHttpUrl p ''endpoint'' (coalesce (m ''endpoint'') DEFAULT_ENDPOINT) [''http:'', ''https:''] True (Some 128) =
       Inr (rcEndpoint c)"
    "\<exists>t. parseHttpUrl p ''taskThreadBaseUrl'' (coalesce (m ''taskThreadBaseUrl'') DEFAULT_TASK_THREAD_BASE_URL)
       [''https:''] False None = Inr t \<and> wcTaskThreadBaseUrl c = strip_slashes t"
    "with_default (m ''creatorAllowlist'') None (parseAllowlist p ''creatorAllowlist'') = Inr (rcCreatorAllowlist c)"
    "with_default (m ''pollIntervalMs'') DEFAULT_POLL_INTERVAL_MS (parseNumber ''pollIntervalMs'') =
       Inr (wcPollIntervalMs c)"
    "with_default (m ''executorTimeoutMs'') DEFAULT_EXECUTOR_TIMEOUT_MS (parseNumber ''executorTimeoutMs'') =
       Inr (wcExecutorTimeoutMs c)"
proof -
  note inverted = assms [unfolded resolveWorkerConfig_def]
  then show ?thesis
    apply (simp only: bind_res_Inr_iff guard_res_Inr_iff case_option_Inr_iff split_paired_Ex case_prod_conv sum.inject)
    apply (elim exE conjE, hypsubst)
    apply (rule that, assumption)
    apply (simp_all only: runtime_config.select_convs worker_config.select_convs)
    by simp_all
qed

text \<open>A configuration file, and a machine without earlier state.\<close>

definition sample_file :: fields where
  "sample_file = [(''rpcUrl'', JStr ''https://r''), (''walletPath'', JStr ''/w''), (''stateDir'', JStr ''/s''),
     (''executorMode'', JStr ''sandboxed''), (''capabilities'', JStr ''3''), (''minRewardLamports'', JStr ''1''),
     (''maxRewardLamports'', JStr ''5''), (''allowAnyCreator'', JBool True)]"

definition sample_machine :: config_platform where
  "sample_machine = \<lparr>cp_state_root = ''/root'', cp_resolve = (\<lambda>s. s), cp_exists = (\<lambda>_. Inr False)\<rparr>"

lemma sample_file_valid:
  "validateConfigFileObject sample_platform sample_file = Inr (map (\<lambda>(k, v). (k, Some (CJson v))) sample_file)"
  by code_simp

lemma sample_file_resolves:
  "is_ok (resolveWorkerConfig sample_platform sample_machine [map (\<lambda>(k, v). (k, Some (CJson v))) sample_file])"
  by code_simp

text \<open>C31: what a resolved configuration guarantees, whatever the sources hold: non-zero u64 capabilities and ordered
  u64 rewards, timers that fit a timer; in safe mode the built-in argv and at most its one credential;
  credential-free URLs with the right protocol, https for results and task threads; a creator
  list that is absent or made of distinct valid addresses.\<close>

theorem resolved_config_safe:
  assumes "resolveWorkerConfig p cp sources = Inr c"
  shows "limits_ok c \<and> execution_ok c \<and> endpoints_ok p c \<and> creators_ok p c"
proof -
  have timers: "positive_timer DEFAULT_POLL_INTERVAL_MS" "positive_timer DEFAULT_EXECUTOR_TIMEOUT_MS"
    by (simp_all add: positive_timer_def DEFAULT_POLL_INTERVAL_MS_def DEFAULT_EXECUTOR_TIMEOUT_MS_def
        MAX_SAFE_INTEGER_def MAX_TIMER_MS_def)
  have bounds: "int DEFAULT_CAPABILITIES \<le> U64_MAX" "0 \<le> U64_MAX"
    by (simp_all add: DEFAULT_CAPABILITIES_def U64_MAX_def)
  from assms show ?thesis
  proof (cases rule: resolve_fields)
    case (1 m rpc)
    have "limits_ok c"
      using 1(3-7, 13, 14) timers bounds
      by (auto simp: limits_ok_def with_default_Inr bind_res_Inr_iff dest: parseBigint_ok parseNumber_ok split: if_splits)
    moreover have "execution_ok c"
      using resolveExecution_ok [OF 1(8)] by (simp add: execution_ok_def)
    moreover have "endpoints_ok p c"
      using 1(2, 9-11) by (auto simp: endpoints_ok_def parseHttpUrl_ok bind_res_Inr_iff within_bytes_def split: if_splits)
    moreover have "creators_ok p c"
      using 1(12) by (auto simp: creators_ok_def with_default_Inr dest: parseAllowlist_ok)
    ultimately show ?thesis by blast
  qed
qed

theorem resolved_config_safe_witness:
  "\<exists>c. limits_ok c \<and> execution_ok c \<and> endpoints_ok sample_platform c \<and> creators_ok sample_platform c"
proof -
  obtain c where "resolveWorkerConfig sample_platform sample_machine
      [map (\<lambda>(k, v). (k, Some (CJson v))) sample_file] = Inr c"
    using sample_file_resolves
    by (cases "resolveWorkerConfig sample_platform sample_machine [map (\<lambda>(k, v). (k, Some (CJson v))) sample_file]")
      simp_all
  from resolved_config_safe [OF this] show ?thesis by blast
qed

section \<open>Precedence\<close>

text \<open>The first defined entry for a key.\<close>

definition first_defined :: "config_input \<Rightarrow> string \<Rightarrow> config_value option" where
  "first_defined es key = (case List.find (\<lambda>(k, v). k = key \<and> v \<noteq> None) es of None \<Rightarrow> None | Some (_, v) \<Rightarrow> v)"

lemma merge_source_iff:
  "merge_source m es = (if list_all (\<lambda>(k, _). k \<in> set CONFIG_FILE_KEYS) es
     then Inr (\<lambda>k. case m k of None \<Rightarrow> first_defined es k | Some v \<Rightarrow> Some v)
     else Inl (ConfigError ''unknown configuration property''))"
proof (induction m es rule: merge_source.induct)
  case (1 m)
  then show ?case by (auto simp: first_defined_def split: option.split)
next
  case (2 m key v es)
  then show ?case by (auto simp: first_defined_def fun_eq_iff split: option.splits)
qed

lemma first_defined_append:
  "first_defined (xs @ ys) k = (case first_defined xs k of None \<Rightarrow> first_defined ys k | Some v \<Rightarrow> Some v)"
  by (induction xs) (auto simp: first_defined_def split: option.splits)

lemma merge_sources_iff:
  "merge_sources m sources = (if list_all (\<lambda>(k, _). k \<in> set CONFIG_FILE_KEYS) (concat sources)
     then Inr (\<lambda>k. case m k of None \<Rightarrow> first_defined (concat sources) k | Some v \<Rightarrow> Some v)
     else Inl (ConfigError ''unknown configuration property''))"
proof (induction m sources rule: merge_sources.induct)
  case (1 m)
  then show ?case by (auto simp: first_defined_def split: option.split)
next
  case (2 m source sources)
  then show ?case
    by (auto simp: merge_source_iff first_defined_append fun_eq_iff split: option.splits)
qed

text \<open>Precedence of the sources.  Merging fails exactly when some source has an unknown property; otherwise
  each field has the value of the first source that defines it, in the order flags, environment, file.\<close>

lemma sources_precedence:
  "merge_sources Map.empty sources = (if list_all (\<lambda>(k, _). k \<in> set CONFIG_FILE_KEYS) (concat sources)
     then Inr (first_defined (concat sources)) else Inl (ConfigError ''unknown configuration property''))"
  by (simp add: merge_sources_iff)

section \<open>A validated file resolves\<close>

lemma decimal_trimmed: "is_decimal s \<Longrightarrow> js_trim s = s"
  using digits_plain [of s] plain_trimmed [of s] by (simp add: is_decimal_def)

lemma field_checked:
  assumes "validateConfigFileObject p fs = Inr input" "field fs key = Some v"
  shows "checkConfigField p key v = Inr ()"
  using assms map_of_SomeD [OF assms(2)]
  by (fastforce simp: validateConfigFileObject_def res_simps list_all2_conv_all_nth in_set_conv_nth split: prod.splits)

lemma file_url_parses:
  "configFileUrl p k v ps q b = Inr u \<Longrightarrow> \<exists>s. parseHttpUrl p k (CJson v) ps q b = Inr s"
  by (auto simp: configFileUrl_def parseHttpUrl_def split: json.splits option.splits if_splits)

lemma digit_value_0: "is_digit c \<Longrightarrow> digit_value c = 0 \<Longrightarrow> c = CHR ''0''"
  unfolding is_digit_def by (simp only: list.set insert_iff empty_iff) (elim disjE, simp_all add: digit_value_def)

lemma dec_value_positive: "is_digit d \<Longrightarrow> d \<noteq> CHR ''0'' \<Longrightarrow> dec_value (d # ds) \<noteq> 0"
proof (induction ds rule: rev_induct)
  case Nil
  then show ?case using digit_value_0 [of d] by (auto simp: dec_value_def)
next
  case (snoc c ds)
  then show ?case using dec_value_snoc [of "d # ds" c] by simp
qed

lemma file_decimal_parses:
  assumes "checkConfigField p key v = Inr ()" "key \<in> {''capabilities'', ''minRewardLamports'', ''maxRewardLamports''}"
    "v \<noteq> JNull"
  shows "\<exists>s. v = JStr s \<and> parseBigint key (CJson v) = Inr (dec_value s) \<and> (key = ''capabilities'' \<longrightarrow> dec_value s \<noteq> 0)"
proof -
  obtain s where s: "v = JStr s" "is_canonical_decimal s" "int_value s \<le> U64_MAX" "key = ''capabilities'' \<longrightarrow> s \<noteq> ''0''"
    using assms by (auto simp: checkConfigField_def res_simps split: json.splits)
  moreover have "js_trim s = s" using s(2) decimal_trimmed by (simp add: is_canonical_decimal_def)
  moreover have "dec_value s \<noteq> 0" if "s \<noteq> ''0''"
  proof -
    have "is_decimal s" "hd s \<noteq> CHR ''0''"
      using s(2) that by (simp_all add: is_canonical_decimal_def)
    then obtain d ds where ds: "s = d # ds" "is_digit d" "d \<noteq> CHR ''0''"
      by (cases s) (simp_all add: is_decimal_def)
    then show ?thesis using dec_value_positive [of d ds] by simp
  qed
  ultimately show ?thesis by (auto simp: parseBigint_def)
qed

lemma first_defined_file: "first_defined (map (\<lambda>(k, v). (k, Some (CJson v))) fs) key = map_option CJson (field fs key)"
  by (induction fs) (auto simp: first_defined_def split: option.splits)

lemma file_merged:
  assumes "validateConfigFileObject p fs = Inr input"
  shows "merge_sources Map.empty [input] = Inr (\<lambda>k. map_option CJson (field fs k))"
proof -
  have "list_all (\<lambda>(k, _). k \<in> set CONFIG_FILE_KEYS) input" "input = map (\<lambda>(k, v). (k, Some (CJson v))) fs"
    using assms by (force simp: validateConfigFileObject_def res_simps list_all_iff)+
  then show ?thesis by (simp add: merge_sources_iff first_defined_file)
qed

text \<open>How each field of a validated file is read by the resolver.\<close>

lemma file_fields_parse:
  assumes "validateConfigFileObject p fs = Inr input"
  defines "m \<equiv> \<lambda>k. map_option CJson (field fs k)"
  shows "\<exists>n. with_default (m ''capabilities'') DEFAULT_CAPABILITIES (parseBigint ''capabilities'') = Inr n \<and> n \<noteq> 0"
    "\<exists>b. with_default (m ''allowUnboundedReward'') False (parseBoolean ''allowUnboundedReward'') = Inr b"
    "\<exists>b. with_default (m ''allowAnyCreator'') False (parseBoolean ''allowAnyCreator'') = Inr b"
    "\<exists>c. with_default (m ''creatorAllowlist'') None (parseAllowlist p ''creatorAllowlist'') = Inr c"
    "\<exists>i. with_default (m ''pollIntervalMs'') DEFAULT_POLL_INTERVAL_MS (parseNumber ''pollIntervalMs'') = Inr i"
    "\<exists>i. with_default (m ''executorTimeoutMs'') DEFAULT_EXECUTOR_TIMEOUT_MS (parseNumber ''executorTimeoutMs'') = Inr i"
proof -
  note checked = field_checked [OF assms(1)]
  show "\<exists>n. with_default (m ''capabilities'') DEFAULT_CAPABILITIES (parseBigint ''capabilities'') = Inr n \<and> n \<noteq> 0"
  proof (cases "field fs ''capabilities''")
    case (Some v)
    with checked have ok: "checkConfigField p ''capabilities'' v = Inr ()" by blast
    then have "v \<noteq> JNull" by (auto simp: checkConfigField_def res_simps)
    with file_decimal_parses [OF ok] Some show ?thesis by (auto simp: m_def with_default_def)
  qed (simp add: m_def with_default_def DEFAULT_CAPABILITIES_def)
  have bool: "\<exists>b. with_default (m k) False (parseBoolean k) = Inr b"
    if "k \<in> {''allowUnboundedReward'', ''allowAnyCreator''}" for k
    using that checked [of k]
    by (cases "field fs k") (auto simp: m_def with_default_def checkConfigField_def res_simps parseBoolean_def
        split: json.splits)
  from bool show "\<exists>b. with_default (m ''allowUnboundedReward'') False (parseBoolean ''allowUnboundedReward'') = Inr b"
    "\<exists>b. with_default (m ''allowAnyCreator'') False (parseBoolean ''allowAnyCreator'') = Inr b" by simp_all
  have timer: "\<exists>i. with_default (m k) d (parseNumber k) = Inr i"
    if "k \<in> {''pollIntervalMs'', ''executorTimeoutMs''}" for k d
    using that checked [of k]
    by (cases "field fs k") (auto simp: m_def with_default_def checkConfigField_def res_simps parseNumber_def
        split: json.splits)
  from timer show "\<exists>i. with_default (m ''pollIntervalMs'') DEFAULT_POLL_INTERVAL_MS (parseNumber ''pollIntervalMs'') = Inr i"
    "\<exists>i. with_default (m ''executorTimeoutMs'') DEFAULT_EXECUTOR_TIMEOUT_MS (parseNumber ''executorTimeoutMs'') = Inr i"
    by simp_all
  show "\<exists>c. with_default (m ''creatorAllowlist'') None (parseAllowlist p ''creatorAllowlist'') = Inr c"
  proof (cases "field fs ''creatorAllowlist''")
    case (Some v)
    with checked have ok: "checkConfigField p ''creatorAllowlist'' v = Inr ()" by blast
    have weaken: "string_array q v = Some xs \<and> list_all r xs"
      if "string_array (\<lambda>s. q s \<and> r s) v = Some xs" for q r xs
      using that by (auto simp: string_array_def list_all_iff split: json.splits option.splits if_splits)
    have "v = JNull \<or> (\<exists>xs. string_array (\<lambda>s. js_trim s \<noteq> []) v = Some xs \<and> list_all (valid_address p) xs)"
      using ok weaken [of "\<lambda>s. js_trim s \<noteq> []" "valid_address p"]
      by (auto simp: checkConfigField_def res_simps)
    moreover have "v \<noteq> JStr s" if "string_array q v = Some xs" for q xs s
      using that by (auto simp: string_array_def)
    ultimately show ?thesis using Some
      by (auto simp: m_def with_default_def parseAllowlist_def split: json.splits)
  qed (simp add: m_def with_default_def)
qed

lemma file_rewards_parse:
  assumes "validateConfigFileObject p fs = Inr input"
  defines "m \<equiv> \<lambda>k. map_option CJson (field fs k)"
  shows "\<exists>a b. with_default (m ''minRewardLamports'') 0 (parseBigint ''minRewardLamports'') = Inr a \<and>
    (if nullish (m ''maxRewardLamports'') then Inr None
       else bind_res (parseBigint ''maxRewardLamports'' (the (m ''maxRewardLamports''))) (\<lambda>n. Inr (Some n))) = Inr b \<and>
    (case b of None \<Rightarrow> True | Some n \<Rightarrow> \<not> n < a)"
proof -
  have ordered: "\<not> rewards_inverted fs" using assms(1) by (simp add: validateConfigFileObject_def res_simps)
  have low: "\<exists>a. with_default (m ''minRewardLamports'') 0 (parseBigint ''minRewardLamports'') = Inr a \<and>
      (a = 0 \<or> (\<exists>s. field fs ''minRewardLamports'' = Some (JStr s) \<and> a = dec_value s))"
  proof (cases "field fs ''minRewardLamports''")
    case (Some v)
    with field_checked [OF assms(1)] have ok: "checkConfigField p ''minRewardLamports'' v = Inr ()" by blast
    then have "v \<noteq> JNull" by (auto simp: checkConfigField_def res_simps)
    with file_decimal_parses [OF ok] Some show ?thesis by (auto simp: m_def with_default_def)
  qed (simp add: m_def with_default_def)
  then obtain a where a: "with_default (m ''minRewardLamports'') 0 (parseBigint ''minRewardLamports'') = Inr a"
    "a = 0 \<or> (\<exists>s. field fs ''minRewardLamports'' = Some (JStr s) \<and> a = dec_value s)" by blast
  show ?thesis
  proof (cases "nullish (m ''maxRewardLamports'')")
    case True
    with a show ?thesis by auto
  next
    case False
    then obtain v where v: "field fs ''maxRewardLamports'' = Some v" "v \<noteq> JNull"
      by (auto simp: nullish_def m_def)
    with field_checked [OF assms(1)] have "checkConfigField p ''maxRewardLamports'' v = Inr ()" by blast
    from file_decimal_parses [OF this] v obtain s where
      s: "v = JStr s" "parseBigint ''maxRewardLamports'' (CJson v) = Inr (dec_value s)" by auto
    have "\<not> dec_value s < a"
      using a(2) ordered v(1) s(1) by (auto simp: rewards_inverted_def int_value_def)
    with False v s a show ?thesis by (auto simp: m_def)
  qed
qed

lemma file_urls_parse:
  assumes "validateConfigFileObject p fs = Inr input" "url_ok p [''http:'', ''https:''] True DEFAULT_ENDPOINT"
    "url_ok p [''https:''] False DEFAULT_TASK_THREAD_BASE_URL"
  defines "m \<equiv> \<lambda>k. map_option CJson (field fs k)"
  shows "\<exists>u. (if nullish (m ''resultUploader'') then Inr None
       else bind_res (parseHttpUrl p ''resultUploader'' (the (m ''resultUploader'')) [''https:''] True None)
         (\<lambda>u. Inr (Some u))) = Inr u"
    "\<exists>u. parseHttpUrl p ''endpoint'' (coalesce (m ''endpoint'') DEFAULT_ENDPOINT) [''http:'', ''https:''] True (Some 128) = Inr u"
    "\<exists>u. parseHttpUrl p ''taskThreadBaseUrl'' (coalesce (m ''taskThreadBaseUrl'') DEFAULT_TASK_THREAD_BASE_URL)
       [''https:''] False None = Inr u"
proof -
  have parses: "\<exists>s. parseHttpUrl p k (CJson v) ps q b = Inr s"
    if "checkConfigField p k v = bind_res (configFileUrl p k v ps q b) (\<lambda>_. Inr ())" "field fs k = Some v" for k v ps q b
    using field_checked [OF assms(1) that(2)] that(1) file_url_parses by (auto simp: bind_res_Inr_iff)
  show "\<exists>u. (if nullish (m ''resultUploader'') then Inr None
       else bind_res (parseHttpUrl p ''resultUploader'' (the (m ''resultUploader'')) [''https:''] True None)
         (\<lambda>u. Inr (Some u))) = Inr u"
  proof (cases "nullish (m ''resultUploader'')")
    case False
    then obtain v where v: "field fs ''resultUploader'' = Some v" "v \<noteq> JNull" by (auto simp: nullish_def m_def)
    then have "\<exists>s. parseHttpUrl p ''resultUploader'' (CJson v) [''https:''] True None = Inr s"
      by (intro parses) (simp_all add: checkConfigField_def)
    with False v show ?thesis by (auto simp: m_def)
  qed simp
  have url: "\<exists>u. parseHttpUrl p k (coalesce (m k) d) ps q b = Inr u"
    if d: "url_ok p ps q d" "within_bytes b d"
      and checked: "\<And>v. checkConfigField p k v = bind_res (configFileUrl p k v ps q b) (\<lambda>_. Inr ())" for k d ps q b
  proof (cases "field fs k")
    case None
    then have "coalesce (m k) d = CJson (JStr d)" by (simp add: coalesce_def nullish_def m_def)
    then show ?thesis using d by (simp add: parseHttpUrl_ok)
  next
    case (Some v)
    then obtain s where s: "parseHttpUrl p k (CJson v) ps q b = Inr s" using parses checked by blast
    then have "v \<noteq> JNull" by (auto simp: parseHttpUrl_ok)
    with Some s show ?thesis by (auto simp: coalesce_def nullish_def m_def)
  qed
  show "\<exists>u. parseHttpUrl p ''endpoint'' (coalesce (m ''endpoint'') DEFAULT_ENDPOINT) [''http:'', ''https:''] True (Some 128) = Inr u"
    by (rule url [OF assms(2)]) (simp_all add: within_bytes_def DEFAULT_ENDPOINT_def checkConfigField_def)
  show "\<exists>u. parseHttpUrl p ''taskThreadBaseUrl'' (coalesce (m ''taskThreadBaseUrl'') DEFAULT_TASK_THREAD_BASE_URL)
       [''https:''] False None = Inr u"
    by (rule url [OF assms(3)]) (simp_all add: within_bytes_def checkConfigField_def)
qed

lemma string_array_simps [simp]:
  "string_array q JNull = None" "string_array q (JBool b) = None" "string_array q (JInt i) = None"
  "string_array q (JNonInt s) = None" "string_array q (JStr s) = None" "string_array q (JObj fs) = None"
  by (simp_all add: string_array_def)

lemma file_execution_parses:
  assumes "validateConfigFileObject p fs = Inr input"
    "field fs ''executorMode'' = Some (JStr ''sandboxed'') \<or> field fs ''executorMode'' = Some (JStr ''unsafe'')"
  shows "\<exists>x. resolveExecution p (\<lambda>k. map_option CJson (field fs k)) = Inr x"
proof -
  have argv: "\<exists>xs. with_default (map_option CJson (field fs ''executor'')) DEFAULT_EXECUTOR (parseExecutor p ''executor'') = Inr xs"
    using field_checked [OF assms(1), of "''executor''"]
    by (cases "field fs ''executor''")
      (auto simp: with_default_def checkConfigField_def res_simps parseExecutor_def
        split: json.splits option.splits if_splits)
  have names: "\<exists>xs. with_default (map_option CJson (field fs ''executorEnvAllowlist'')) [] (parseStringList p ''executorEnvAllowlist'') = Inr xs"
    using field_checked [OF assms(1), of "''executorEnvAllowlist''"]
    by (cases "field fs ''executorEnvAllowlist''")
      (auto simp: with_default_def checkConfigField_def res_simps parseStringList_def
        split: json.splits option.splits if_splits)
  have "with_default (map_option CJson (field fs ''executorMode'')) Safe parseExecutorMode \<in> {Inr Sandboxed, Inr Unsafe}"
    using assms(2) by (auto simp: with_default_def parseExecutorMode_def)
  with argv names show ?thesis by (auto simp: resolveExecution_def)
qed

text \<open>A file the validator accepts can be used.  If it names the RPC endpoint, the wallet and the state directory
  and picks an executor mode with its own sandbox, or none, resolving it alone succeeds: no value that
  passed the check of the file is refused later.\<close>

lemma validated_file_resolves:
  assumes "validateConfigFileObject p fs = Inr input"
    "list_all (has_prop fs) [''rpcUrl'', ''walletPath'', ''stateDir'']"
    "field fs ''executorMode'' = Some (JStr ''sandboxed'') \<or> field fs ''executorMode'' = Some (JStr ''unsafe'')"
    "url_ok p [''http:'', ''https:''] True DEFAULT_ENDPOINT" "url_ok p [''https:''] False DEFAULT_TASK_THREAD_BASE_URL"
  shows "\<exists>c. resolveWorkerConfig p cp [input] = Inr c"
proof -
  let ?m = "\<lambda>k. map_option CJson (field fs k)"
  obtain rpc wallet dir where fields: "field fs ''rpcUrl'' = Some rpc" "field fs ''walletPath'' = Some wallet"
    "field fs ''stateDir'' = Some dir"
    using assms(2) by (auto simp: has_prop_iff)
  note checked = field_checked [OF assms(1)]
  obtain rpcUrl where rpc: "parseHttpUrl p ''rpcUrl'' (CJson rpc) [''http:'', ''https:''] True None = Inr rpcUrl"
    using checked [OF fields(1)] file_url_parses by (fastforce simp: checkConfigField_def bind_res_Inr_iff)
  have path: "\<exists>x. parsePathString k (CJson v) = Inr x"
    if "field fs k = Some v" "k \<in> {''walletPath'', ''stateDir''}" for k v
    using checked [OF that(1)] that(2)
    by (auto simp: checkConfigField_def parsePathString_def res_simps split: json.splits)
  obtain walletPath stateDir where paths: "parsePathString ''walletPath'' (CJson wallet) = Inr walletPath"
    "parsePathString ''stateDir'' (CJson dir) = Inr stateDir"
    using path fields(2, 3) by blast
  then have state: "resolveStateDir p cp ?m rpcUrl walletPath = Inr stateDir"
    using fields(3) by (auto simp: resolveStateDir_def nullish_def parsePathString_def)
  note rest = file_fields_parse [OF assms(1)] file_rewards_parse [OF assms(1)]
    file_urls_parse [OF assms(1, 4, 5)] file_execution_parses [OF assms(1, 3)]
  show ?thesis
    using rest rpc paths state fields
    unfolding resolveWorkerConfig_def file_merged [OF assms(1)]
    by (elim exE conjE) (simp split: prod.split)
qed

lemma validated_file_resolves_witness:
  "\<exists>c. resolveWorkerConfig sample_platform sample_machine
     [map (\<lambda>(k, v). (k, Some (CJson v))) sample_file] = Inr c"
proof -
  have plain: "plain_text DEFAULT_ENDPOINT" "plain_text DEFAULT_TASK_THREAD_BASE_URL" by code_simp+
  have "url_ok sample_platform [''http:'', ''https:''] True DEFAULT_ENDPOINT"
    "url_ok sample_platform [''https:''] False DEFAULT_TASK_THREAD_BASE_URL"
    using plain by (simp_all add: url_ok_def sample_platform_def sample_url_def acceptable_url_def
        DEFAULT_ENDPOINT_def DEFAULT_TASK_THREAD_BASE_URL_def)
  moreover have "list_all (has_prop sample_file) [''rpcUrl'', ''walletPath'', ''stateDir'']"
    "field sample_file ''executorMode'' = Some (JStr ''sandboxed'')"
    by code_simp+
  ultimately show ?thesis
    using validated_file_resolves [OF sample_file_valid] by blast
qed

end
