(* ===== verification/PrivateFiles.thy ===== *)
theory PrivateFiles
  imports Config
begin

text \<open>
  Reading private files: the state directory and file (\<open>state.ts\<close>), the configuration file
  (\<open>config.ts\<close>) and the wallet (\<open>wallet.ts\<close>).  Each reader asks the operating system in turn for
  \<open>lstat\<close> of the path, \<open>open\<close> without following a link, \<open>fstat\<close> of the descriptor and its text; the
  answers are parameters, so another process may have replaced the file between any two of them.
\<close>

section \<open>Answers of the operating system\<close>

datatype errno = ENOENT | ENOTDIR | ELOOP | OTHER_ERRNO string

record file_stat =
  st_symlink :: bool
  st_regular :: bool
  st_directory :: bool
  st_dev :: nat
  st_ino :: nat
  st_uid :: nat
  st_mode :: nat
  st_size :: nat

text \<open>What one reader gets to see: \<open>lstat\<close>, whether \<open>open\<close> fails, \<open>fstat\<close>, and the text read.\<close>

record file_view =
  fv_lstat :: "errno + file_stat"
  fv_open :: "errno option"
  fv_fstat :: "errno + file_stat"
  fv_text :: "errno + string"

text \<open>\<open>process.getuid()\<close> where it exists, and whether the platform is not Windows.\<close>

record os =
  os_uid :: "nat option"
  os_posix :: bool

definition owned :: "os \<Rightarrow> file_stat \<Rightarrow> bool" where
  "owned os m \<longleftrightarrow> (case os_uid os of None \<Rightarrow> True | Some u \<Rightarrow> st_uid m = u)"

text \<open>\<open>(mode & 0o077) === 0\<close>.\<close>

definition private_mode :: "os \<Rightarrow> file_stat \<Rightarrow> bool" where
  "private_mode os m \<longleftrightarrow> (os_posix os \<longrightarrow> and (st_mode m) 63 = 0)"

definition same_inode :: "file_stat \<Rightarrow> file_stat \<Rightarrow> bool" where
  "same_inode a b \<longleftrightarrow> st_dev a = st_dev b \<and> st_ino a = st_ino b"

section \<open>The worker state\<close>

definition assertPrivateOwner :: "os \<Rightarrow> file_stat \<Rightarrow> string \<Rightarrow> unit res" where
  "assertPrivateOwner os m kind =
     bind_res (guard_res (owned os m) (WorkerStateError (''worker state '' @ kind @ '' must be owned by the current user''))) (\<lambda>_.
     guard_res (private_mode os m) (WorkerStateError (''worker state '' @ kind @ '' must have private permissions'')))"

definition too_large_file :: worker_error where
  "too_large_file = WorkerStateError ''worker state exceeds the byte limit''"

definition assertPrivateStateFile :: "os \<Rightarrow> file_stat \<Rightarrow> unit res" where
  "assertPrivateStateFile os m =
     bind_res (guard_res (\<not> st_symlink m \<and> st_regular m)
       (WorkerStateError ''worker state file must be a regular file and not a symbolic link'')) (\<lambda>_.
     bind_res (assertPrivateOwner os m ''file'') (\<lambda>_.
     guard_res (\<not> st_size m > MAX_WORKER_STATE_BYTES) too_large_file))"

text \<open>
  \<open>None\<close> is a missing directory; \<open>Some ()\<close> an open descriptor.  \<open>mkdir\<close> is the errno of creating the
  directory, when that was asked for and failed.
\<close>

definition unsafe_directory :: worker_error where
  "unsafe_directory = WorkerStateError ''worker state directory is unsafe''"

definition openPrivateStateDirectory :: "os \<Rightarrow> errno option \<Rightarrow> bool \<Rightarrow> file_view \<Rightarrow> unit option res" where
  "openPrivateStateDirectory os mkdir missingOk v =
     (if mkdir \<noteq> None then Inl (PlainError ''cannot create the worker state directory'')
      else case fv_lstat v of
      Inl e \<Rightarrow> if missingOk \<and> e = ENOENT then Inr None
        else Inl (WorkerStateError ''worker state directory is unavailable'')
    | Inr before \<Rightarrow>
        bind_res (guard_res (\<not> st_symlink before \<and> st_directory before)
          (WorkerStateError ''worker state directory must be a real directory, not a symbolic link'')) (\<lambda>_.
        bind_res (assertPrivateOwner os before ''directory'') (\<lambda>_.
        case (fv_open v, fv_fstat v) of
          (Some _, _) \<Rightarrow> Inl unsafe_directory
        | (None, Inl _) \<Rightarrow> Inl unsafe_directory
        | (None, Inr opened) \<Rightarrow>
            if \<not> st_directory opened \<or> \<not> same_inode opened before then Inl unsafe_directory
            else (case assertPrivateOwner os opened ''directory'' of
                Inl _ \<Rightarrow> Inl unsafe_directory
              | Inr _ \<Rightarrow> Inr (Some ())))))"

text \<open>
  The reading part of \<open>loadState\<close>: \<open>None\<close> when there is no directory or no file.  An errno that is
  not \<open>ENOENT\<close> is thrown as it is.
\<close>

definition missing_or :: "errno \<Rightarrow> string option res" where
  "missing_or e = (if e = ENOENT then Inr None else Inl (PlainError ''file system error''))"

definition readStateFile :: "os \<Rightarrow> file_view \<Rightarrow> file_view \<Rightarrow> string option res" where
  "readStateFile os directory file =
     bind_res (openPrivateStateDirectory os None True directory) (\<lambda>fd.
     if fd = None then Inr None
     else (case fv_lstat file of
        Inl e \<Rightarrow> missing_or e
      | Inr before \<Rightarrow>
          bind_res (assertPrivateStateFile os before) (\<lambda>_.
          case fv_open file of
            Some e \<Rightarrow> missing_or e
          | None \<Rightarrow>
              (case fv_fstat file of
                 Inl e \<Rightarrow> missing_or e
               | Inr opened \<Rightarrow>
                   bind_res (guard_res (st_regular opened \<and> same_inode opened before)
                     (WorkerStateError ''worker state file changed while it was being opened'')) (\<lambda>_.
                   bind_res (assertPrivateStateFile os opened) (\<lambda>_.
                   case fv_text file of
                     Inl e \<Rightarrow> missing_or e
                   | Inr s \<Rightarrow>
                       bind_res (guard_res (\<not> length (utf8_encode s) > MAX_WORKER_STATE_BYTES) too_large_file) (\<lambda>_.
                       Inr (Some s))))))))"

section \<open>The configuration file\<close>

definition MAX_CONFIG_FILE_BYTES :: nat where "MAX_CONFIG_FILE_BYTES = 64 * 1024"

definition config_error :: "string \<Rightarrow> worker_error" where
  "config_error m = ConfigError (''config file: '' @ m)"

text \<open>Everything thrown between \<open>open\<close> and the end of reading is wrapped.\<close>

definition readConfigText :: "os \<Rightarrow> file_view \<Rightarrow> file_stat \<Rightarrow> string res" where
  "readConfigText os v pathStat = (case (fv_open v, fv_fstat v) of
      (Some _, _) \<Rightarrow> Inl (config_error ''cannot open'')
    | (None, Inl _) \<Rightarrow> Inl (config_error ''cannot inspect'')
    | (None, Inr opened) \<Rightarrow>
        if \<not> st_regular opened \<or> \<not> same_inode opened pathStat
        then Inl (config_error ''file changed while it was being opened'')
        else if \<not> owned os opened then Inl (config_error ''file must be owned by the current user'')
        else if \<not> private_mode os opened then Inl (config_error ''file must have private permissions (chmod 600)'')
        else if st_size opened > MAX_CONFIG_FILE_BYTES then Inl (config_error ''file exceeds the byte limit'')
        else (case fv_text v of Inl _ \<Rightarrow> Inl (config_error ''cannot read'') | Inr s \<Rightarrow> Inr s))"

definition loadConfigFile :: "platform \<Rightarrow> os \<Rightarrow> bool \<Rightarrow> file_view \<Rightarrow> config_input res" where
  "loadConfigFile p os explicit v = (case fv_lstat v of
      Inl e \<Rightarrow> if \<not> explicit \<and> (e = ENOENT \<or> e = ENOTDIR) then Inr [] else Inl (config_error ''unavailable'')
    | Inr pathStat \<Rightarrow>
        if st_symlink pathStat \<or> \<not> st_regular pathStat
        then Inl (config_error ''must be a regular file and not a symbolic link'')
        else if st_size pathStat > MAX_CONFIG_FILE_BYTES then Inl (config_error ''exceeds the byte limit'')
        else
          bind_res (readConfigText os v pathStat) (\<lambda>raw.
          case json_parse p raw of
            None \<Rightarrow> Inl (config_error ''invalid JSON'')
          | Some (JObj fs) \<Rightarrow> validateConfigFileObject p fs
          | Some _ \<Rightarrow> Inl (config_error ''expected a JSON object'')))"

section \<open>The wallet\<close>

definition KEYPAIR_BYTES :: nat where "KEYPAIR_BYTES = 64"
definition MAX_WALLET_FILE_BYTES :: nat where "MAX_WALLET_FILE_BYTES = 4 * 1024"

fun keypair_byte :: "json \<Rightarrow> byte option" where
  "keypair_byte (JInt i) = (if 0 \<le> i \<and> i \<le> 255 then Some (word_of_int i) else None)"
| "keypair_byte _ = None"

definition parseSolanaKeypairJson :: "platform \<Rightarrow> string \<Rightarrow> bytes res" where
  "parseSolanaKeypairJson p body = (case json_parse p body of
      None \<Rightarrow> Inl (WalletFileError ''invalid JSON'')
    | Some (JArr xs) \<Rightarrow>
        if length xs \<noteq> KEYPAIR_BYTES then Inl (WalletFileError ''expected exactly 64 keypair bytes'')
        else map_res (\<lambda>x. case keypair_byte x of
            None \<Rightarrow> Inl (WalletFileError ''byte must be a finite safe integer in 0..255'') | Some b \<Rightarrow> Inr b) xs
    | Some _ \<Rightarrow> Inl (WalletFileError ''expected exactly 64 keypair bytes''))"

definition loadSolanaKeypairFile :: "platform \<Rightarrow> os \<Rightarrow> file_view \<Rightarrow> bytes res" where
  "loadSolanaKeypairFile p os v = (case fv_lstat v of
      Inl _ \<Rightarrow> Inl (WalletFileError ''cannot inspect file'')
    | Inr pathMetadata \<Rightarrow>
        if st_symlink pathMetadata then Inl (WalletFileError ''symbolic links are not allowed'')
        else (case (fv_open v, fv_fstat v) of
            (Some e, _) \<Rightarrow> Inl (WalletFileError (''cannot open safely''
              @ (if e = ELOOP then '' (symbolic links are not allowed)'' else [])))
          | (None, Inl _) \<Rightarrow> Inl (PlainError ''fstat failed'')
          | (None, Inr metadata) \<Rightarrow>
              if \<not> same_inode metadata pathMetadata
              then Inl (WalletFileError ''file changed while it was being opened'')
              else if \<not> st_regular metadata then Inl (WalletFileError ''expected a regular file'')
              else if st_size metadata > MAX_WALLET_FILE_BYTES then Inl (WalletFileError ''file exceeds the byte limit'')
              else if \<not> owned os metadata then Inl (WalletFileError ''file must be owned by the current user'')
              else if \<not> private_mode os metadata
              then Inl (WalletFileError ''permissions must not grant group or other access (use chmod 600)'')
              else (case fv_text v of
                  Inl _ \<Rightarrow> Inl (PlainError ''read failed'')
                | Inr s \<Rightarrow> parseSolanaKeypairJson p s)))"

section \<open>What was read\<close>

text \<open>The descriptor read from is the regular file \<open>lstat\<close> saw, the user's own, private and bounded.\<close>

definition trusted :: "os \<Rightarrow> nat \<Rightarrow> file_view \<Rightarrow> bool" where
  "trusted os limit v \<longleftrightarrow> (\<exists>a b. fv_lstat v = Inr a \<and> fv_open v = None \<and> fv_fstat v = Inr b \<and>
     \<not> st_symlink a \<and> same_inode b a \<and> st_regular b \<and> owned os b \<and> private_mode os b \<and> st_size b \<le> limit)"

definition trusted_directory :: "os \<Rightarrow> file_view \<Rightarrow> bool" where
  "trusted_directory os v \<longleftrightarrow> (\<exists>a b. fv_lstat v = Inr a \<and> fv_open v = None \<and> fv_fstat v = Inr b \<and>
     \<not> st_symlink a \<and> st_directory a \<and> st_directory b \<and> same_inode b a \<and>
     owned os a \<and> private_mode os a \<and> owned os b \<and> private_mode os b)"

definition checked_path :: "(file_stat \<Rightarrow> bool) \<Rightarrow> file_view \<Rightarrow> bool" where
  "checked_path q v \<longleftrightarrow> (\<exists>a. fv_lstat v = Inr a \<and> st_regular a \<and> q a)"

text \<open>\<open>fstat\<close> follows links, so this always holds; the state reader checks it.\<close>

definition opened_no_link :: "file_view \<Rightarrow> bool" where
  "opened_no_link v \<longleftrightarrow> (case fv_fstat v of Inr b \<Rightarrow> \<not> st_symlink b | Inl _ \<Rightarrow> True)"

lemma assertPrivateOwner_iff [res_simps]: "assertPrivateOwner os m k = Inr u \<longleftrightarrow> owned os m \<and> private_mode os m"
  by (auto simp: assertPrivateOwner_def res_simps)

lemma assertPrivateStateFile_iff [res_simps]:
  "assertPrivateStateFile os m = Inr u \<longleftrightarrow> \<not> st_symlink m \<and> st_regular m \<and> owned os m \<and> private_mode os m \<and>
     st_size m \<le> MAX_WORKER_STATE_BYTES"
  by (auto simp: assertPrivateStateFile_def res_simps)

lemma assertPrivateOwner_Inl: "assertPrivateOwner os m k = Inl e \<Longrightarrow> \<not> (owned os m \<and> private_mode os m)"
  by (auto simp: assertPrivateOwner_def)

lemma trusted_directory_iff:
  "trusted_directory os v \<longleftrightarrow> openPrivateStateDirectory os None True v = Inr (Some ())"
  by (auto simp: openPrivateStateDirectory_def trusted_directory_def res_simps
      dest: assertPrivateOwner_Inl split: sum.splits option.splits)

lemma missing_or_iff: "missing_or e = Inr x \<longleftrightarrow> e = ENOENT \<and> x = None"
  by (auto simp: missing_or_def)

lemma wallet_read_exactly:
  "loadSolanaKeypairFile p os v = Inr k \<longleftrightarrow> trusted os MAX_WALLET_FILE_BYTES v \<and>
     (\<exists>s. fv_text v = Inr s \<and> parseSolanaKeypairJson p s = Inr k)"
  by (auto simp: loadSolanaKeypairFile_def trusted_def split: sum.splits option.splits if_splits)

lemma state_read_exactly:
  "readStateFile os d v = Inr (Some s) \<longleftrightarrow> trusted_directory os d \<and> trusted os MAX_WORKER_STATE_BYTES v \<and>
     checked_path (\<lambda>a. owned os a \<and> private_mode os a \<and> st_size a \<le> MAX_WORKER_STATE_BYTES) v \<and>
     opened_no_link v \<and> fv_text v = Inr s \<and> length s \<le> MAX_WORKER_STATE_BYTES"
  unfolding readStateFile_def bind_res_Inr_iff
  by (cases "openPrivateStateDirectory os None True d")
    (auto simp: trusted_directory_iff trusted_def checked_path_def opened_no_link_def res_simps missing_or_iff
      split: sum.splits option.splits if_splits)

lemma config_read_exactly:
  "loadConfigFile p os explicit v = Inr c \<longleftrightarrow>
     \<not> explicit \<and> (fv_lstat v = Inl ENOENT \<or> fv_lstat v = Inl ENOTDIR) \<and> c = [] \<or>
     trusted os MAX_CONFIG_FILE_BYTES v \<and> checked_path (\<lambda>a. st_size a \<le> MAX_CONFIG_FILE_BYTES) v \<and>
     (\<exists>s fs. fv_text v = Inr s \<and> json_parse p s = Some (JObj fs) \<and> validateConfigFileObject p fs = Inr c)"
  by (auto simp: loadConfigFile_def readConfigText_def trusted_def checked_path_def bind_res_Inr_iff
      split: sum.splits option.splits if_splits json.splits)

text \<open>C32: which file is read.  The wallet, the state file and the configuration file are read exactly from a
  descriptor of the same regular file \<open>lstat\<close> saw, not a symbolic link, owned by the user, private
  and within its size limit; the state file only inside a directory with the same guarantees; and a
  missing configuration file counts as empty only when it was not asked for.\<close>

theorem private_files_only:
  "(loadSolanaKeypairFile p os v = Inr k \<longleftrightarrow> trusted os MAX_WALLET_FILE_BYTES v \<and>
     (\<exists>s. fv_text v = Inr s \<and> parseSolanaKeypairJson p s = Inr k)) \<and>
   (readStateFile os d v = Inr (Some s) \<longleftrightarrow> trusted_directory os d \<and> trusted os MAX_WORKER_STATE_BYTES v \<and>
     checked_path (\<lambda>a. owned os a \<and> private_mode os a \<and> st_size a \<le> MAX_WORKER_STATE_BYTES) v \<and>
     opened_no_link v \<and> fv_text v = Inr s \<and> length s \<le> MAX_WORKER_STATE_BYTES) \<and>
   (loadConfigFile p os explicit v = Inr c \<longleftrightarrow>
     \<not> explicit \<and> (fv_lstat v = Inl ENOENT \<or> fv_lstat v = Inl ENOTDIR) \<and> c = [] \<or>
     trusted os MAX_CONFIG_FILE_BYTES v \<and> checked_path (\<lambda>a. st_size a \<le> MAX_CONFIG_FILE_BYTES) v \<and>
     (\<exists>s fs. fv_text v = Inr s \<and> json_parse p s = Some (JObj fs) \<and> validateConfigFileObject p fs = Inr c))"
  by (intro conjI wallet_read_exactly state_read_exactly config_read_exactly)

lemma keypair_byte_iff: "keypair_byte x = Some b \<longleftrightarrow> x = JInt (uint b)"
proof (cases x)
  case (JInt i)
  have "uint b < 256" using uint_lt2p [of b] by simp
  then show ?thesis using JInt by (auto simp: uint_word_of_int_eq take_bit_int_eq_self)
qed simp_all

text \<open>The keypair format.  A wallet text parses to a key exactly when its JSON is the array of that key's 64
  bytes as integers.\<close>

lemma keypair_parsed_exactly:
  "parseSolanaKeypairJson p body = Inr k \<longleftrightarrow>
     json_parse p body = Some (JArr (map (\<lambda>b. JInt (uint b)) k)) \<and> length k = 64"
proof -
  have step: "(case keypair_byte x of None \<Rightarrow> Inl e | Some b \<Rightarrow> Inr b) = Inr b \<longleftrightarrow> x = JInt (uint b)"
    for x b and e :: worker_error
    using keypair_byte_iff [of x b] by (cases "keypair_byte x") auto
  have "map_res (\<lambda>x. case keypair_byte x of None \<Rightarrow> Inl e | Some b \<Rightarrow> Inr b) xs = Inr k \<longleftrightarrow>
      xs = map (\<lambda>b. JInt (uint b)) k" for xs and e :: worker_error
  proof -
    have "list_all2 (\<lambda>x y. x = JInt (uint y)) xs k \<longleftrightarrow> xs = map (\<lambda>b. JInt (uint b)) k"
      by (induction xs arbitrary: k) (auto simp: list_all2_Cons1)
    then show ?thesis unfolding map_res_Inr_iff step .
  qed
  then show ?thesis
    by (auto simp: parseSolanaKeypairJson_def KEYPAIR_BYTES_def split: option.splits json.splits)
qed

end
