(* ===== verification/RpcReaders.thy ===== *)
theory RpcReaders
  imports ChainTypes JsText Samples
begin

text \<open>
  Reading JSON-RPC answers: account snapshots (\<open>account-reader.ts\<close>), and the search for the finalized
  transaction that settled a task (\<open>settlement.ts\<close>).  Answers are JSON values of any shape; the
  base58 decoder of \<open>@solana/kit\<close> and the RPC calls are parameters.
\<close>

section \<open>Account snapshots\<close>

definition is_b64_char :: "char \<Rightarrow> bool" where
  "is_b64_char c \<longleftrightarrow> is_alnum c \<or> c = CHR ''+'' \<or> c = CHR ''/''"

text \<open>\<open>/^(?:[A-Za-z0-9+/]{4})*(?:[A-Za-z0-9+/]{2}==|[A-Za-z0-9+/]{3}=)?$/\<close>.\<close>

fun b64_shape :: "string \<Rightarrow> bool" where
  "b64_shape [] = True"
| "b64_shape (a # b # c # d # cs) =
     (is_b64_char a \<and> is_b64_char b \<and>
      ((is_b64_char c \<and> is_b64_char d \<and> b64_shape cs) \<or>
       (cs = [] \<and> d = CHR ''='' \<and> (c = CHR ''='' \<or> is_b64_char c))))"
| "b64_shape _ = False"

definition not_canonical :: worker_error where
  "not_canonical = PlainError ''RPC account data is not canonical base64''"

definition decodeCanonicalBase64 :: "string \<Rightarrow> bytes res" where
  "decodeCanonicalBase64 v =
     (if length v mod 4 \<noteq> 0 \<or> \<not> b64_shape v then Inl not_canonical
      else let b = b64_decode v in if b64_encode b \<noteq> v then Inl not_canonical else Inr b)"

record full_snapshot =
  fsData :: bytes
  fsOwner :: string
  fsExecutable :: bool

definition malformed :: worker_error where
  "malformed = PlainError ''RPC account info is malformed''"

definition decodeBase64AccountInfo :: "platform \<Rightarrow> json \<Rightarrow> full_snapshot option res" where
  "decodeBase64AccountInfo p v = (case v of
      JNull \<Rightarrow> Inr None
    | JObj fs \<Rightarrow>
        (case (field fs ''data'', field fs ''owner'', field fs ''executable'') of
           (Some (JArr [JStr encodedData, encoding]), Some (JStr owner), Some (JBool executable)) \<Rightarrow>
             if encoding \<noteq> JStr ''base64'' then Inl malformed
             else
               bind_res (decodeCanonicalBase64 encodedData) (\<lambda>b.
               bind_res (guard_res (valid_address p owner) (PlainError ''invalid address'')) (\<lambda>_.
               Inr (Some \<lparr>fsData = b, fsOwner = owner, fsExecutable = executable\<rparr>)))
         | _ \<Rightarrow> Inl malformed)
    | _ \<Rightarrow> Inl malformed)"

text \<open>The two readers over one fetcher.\<close>

definition readAccountInfo :: "platform \<Rightarrow> (string \<Rightarrow> json res) \<Rightarrow> string \<Rightarrow> full_snapshot option res" where
  "readAccountInfo p fetch account = bind_res (fetch account) (decodeBase64AccountInfo p)"

definition readAccount :: "platform \<Rightarrow> (string \<Rightarrow> json res) \<Rightarrow> string \<Rightarrow> bytes option res" where
  "readAccount p fetch account =
     bind_res (readAccountInfo p fetch account) (\<lambda>snapshot. Inr (map_option fsData snapshot))"

text \<open>The answer of the RPC for an account.\<close>

definition account_json :: "full_snapshot \<Rightarrow> json" where
  "account_json s = JObj [(''data'', JArr [JStr (b64_encode (fsData s)), JStr ''base64'']),
     (''owner'', JStr (fsOwner s)), (''executable'', JBool (fsExecutable s))]"

section \<open>Settlement transactions\<close>

definition DEFAULT_SETTLEMENT_SIGNATURE_SCAN_LIMIT :: int where
  "DEFAULT_SETTLEMENT_SIGNATURE_SCAN_LIMIT = 20"

text \<open>Discriminator and index of the task account, in the order of the code.\<close>

definition SETTLEMENT_INSTRUCTIONS :: "(string \<times> bytes \<times> nat) list" where
  "SETTLEMENT_INSTRUCTIONS =
     [(''accept_task_result'', [89, 230, 51, 25, 0, 219, 5, 137], 0),
      (''auto_accept_task_result'', [217, 200, 76, 0, 144, 80, 23, 241], 0),
      (''complete_task'', [109, 167, 192, 41, 129, 108, 220, 196], 0),
      (''resolve_dispute'', [231, 6, 202, 6, 96, 103, 12, 230], 1)]"

definition addressString :: "json option \<Rightarrow> string option" where
  "addressString v = (case v of
      Some (JStr s) \<Rightarrow> Some s
    | Some (JObj fs) \<Rightarrow> (case field fs ''pubkey'' of Some (JStr s) \<Rightarrow> Some s | _ \<Rightarrow> None)
    | _ \<Rightarrow> None)"

definition instructionData :: "(string \<Rightarrow> bytes option) \<Rightarrow> json option \<Rightarrow> bytes option" where
  "instructionData base58 v = (case v of Some (JStr s) \<Rightarrow> if s = [] then None else base58 s | _ \<Rightarrow> None)"

text \<open>\<open>keys[i]\<close>: \<open>undefined\<close> outside the array, and \<open>null\<close> elements are no address either.\<close>

definition key_at :: "string option list \<Rightarrow> int \<Rightarrow> string option" where
  "key_at keys i = (if 0 \<le> i \<and> nat i < length keys then keys ! nat i else None)"

definition max_safe :: int where "max_safe = 9007199254740991"

definition settles :: "string \<Rightarrow> string option list \<Rightarrow> bytes \<Rightarrow> bool" where
  "settles task accounts data \<longleftrightarrow> list_ex (\<lambda>(name, discriminator, taskIndex).
     key_at accounts (int taskIndex) = Some task \<and> take 8 data = discriminator) SETTLEMENT_INSTRUCTIONS"

definition verified_instruction ::
  "(string \<Rightarrow> bytes option) \<Rightarrow> string option list \<Rightarrow> string \<Rightarrow> json \<Rightarrow> bool" where
  "verified_instruction base58 messageKeys task raw = (case raw of
      JObj fs \<Rightarrow>
        (let programId = (case addressString (field fs ''programId'') of
               Some s \<Rightarrow> Some s
             | None \<Rightarrow> (case field fs ''programIdIndex'' of
                 Some (JInt i) \<Rightarrow> if \<bar>i\<bar> \<le> max_safe then key_at messageKeys i else None
               | _ \<Rightarrow> None))
         in case field fs ''accounts'' of
           Some (JArr accs) \<Rightarrow>
             if programId \<noteq> Some AGENC_COORDINATION_PROGRAM_ADDRESS then False
             else
               (let accounts = map (\<lambda>a. case a of JInt i \<Rightarrow> key_at messageKeys i | JNonInt _ \<Rightarrow> None
                      | _ \<Rightarrow> addressString (Some a)) accs
                in case instructionData base58 (field fs ''data'') of
                     None \<Rightarrow> False
                   | Some d \<Rightarrow> if length d < 8 then False else settles task accounts d)
         | _ \<Rightarrow> False)
    | _ \<Rightarrow> False)"

text \<open>Reading a property that must be an object or an array.\<close>

definition obj_prop :: "fields \<Rightarrow> string \<Rightarrow> fields option" where
  "obj_prop fs k = (case field fs k of Some (JObj x) \<Rightarrow> Some x | _ \<Rightarrow> None)"

definition arr_prop :: "fields \<Rightarrow> string \<Rightarrow> json list option" where
  "arr_prop fs k = (case field fs k of Some (JArr x) \<Rightarrow> Some x | _ \<Rightarrow> None)"

lemma obj_prop_Some [simp]: "obj_prop fs k = Some x \<longleftrightarrow> field fs k = Some (JObj x)"
  by (auto simp: obj_prop_def split: option.splits json.splits)

lemma arr_prop_Some [simp]: "arr_prop fs k = Some x \<longleftrightarrow> field fs k = Some (JArr x)"
  by (auto simp: arr_prop_def split: option.splits json.splits)

definition isVerifiedSettlementTransaction :: "(string \<Rightarrow> bytes option) \<Rightarrow> json \<Rightarrow> string \<Rightarrow> string \<Rightarrow> bool" where
  "isVerifiedSettlementTransaction base58 v task signature = (case v of
      JObj root \<Rightarrow>
        (case (obj_prop root ''meta'', obj_prop root ''transaction'') of
           (Some meta, Some tx) \<Rightarrow>
             if field meta ''err'' \<noteq> Some JNull then False
             else (case (arr_prop tx ''signatures'', obj_prop tx ''message'') of
                 (Some (first # _), Some message) \<Rightarrow>
                   if first \<noteq> JStr signature then False
                   else (case arr_prop message ''instructions'' of
                       Some instructions \<Rightarrow>
                         (let messageKeys = (case arr_prop message ''accountKeys'' of
                                Some ks \<Rightarrow> map (\<lambda>k. addressString (Some k)) ks | None \<Rightarrow> [])
                          in list_ex (verified_instruction base58 messageKeys task) instructions)
                     | None \<Rightarrow> False)
               | _ \<Rightarrow> False)
         | _ \<Rightarrow> False)
    | _ \<Rightarrow> False)"

text \<open>The signature records are objects; \<open>scan_signatures\<close> is the loop over them.\<close>

definition finalized_signature :: "fields \<Rightarrow> string option" where
  "finalized_signature fs = (case field fs ''signature'' of
      Some (JStr s) \<Rightarrow>
        if field fs ''err'' = Some JNull \<and> field fs ''confirmationStatus'' = Some (JStr ''finalized'')
        then Some s else None
    | _ \<Rightarrow> None)"

fun scan_signatures ::
  "(string \<Rightarrow> bytes option) \<Rightarrow> (string \<Rightarrow> json res) \<Rightarrow> string \<Rightarrow> fields list \<Rightarrow> string option res" where
  "scan_signatures base58 getTransaction task [] = Inr None"
| "scan_signatures base58 getTransaction task (c # cs) = (case finalized_signature c of
      None \<Rightarrow> scan_signatures base58 getTransaction task cs
    | Some s \<Rightarrow> bind_res (getTransaction s) (\<lambda>tx.
        if isVerifiedSettlementTransaction base58 tx task s then Inr (Some s)
        else scan_signatures base58 getTransaction task cs))"

definition findVerifiedSettlementSignature ::
  "(string \<Rightarrow> bytes option) \<Rightarrow> (string \<Rightarrow> int \<Rightarrow> fields list res) \<Rightarrow> (string \<Rightarrow> json res) \<Rightarrow> string \<Rightarrow> int
   \<Rightarrow> string option res" where
  "findVerifiedSettlementSignature base58 getSignatures getTransaction task limit =
     bind_res (guard_res (\<not> (limit < 1 \<or> limit > 100))
       (PlainError ''settlement signature scan limit must be in 1..100'')) (\<lambda>_.
     bind_res (getSignatures task limit) (\<lambda>candidates.
     scan_signatures base58 getTransaction task candidates))"

section \<open>Snapshots are read exactly\<close>

lemma char_of_codes: "char_of (43 :: nat) = CHR ''+''" "char_of (47 :: nat) = CHR ''/''"
  by code_simp+

lemma b64_char_ok: "n < 64 \<Longrightarrow> is_b64_char (b64_char n)"
  by (auto simp: is_b64_char_def is_alnum_def b64_char_def Let_def char_of_codes)

lemma b64_shape_sextets:
  "list_all (\<lambda>n. n < 256) ns \<Longrightarrow> b64_shape (map b64_char (b64_sextets ns) @ b64_padding (length ns)) \<and>
     length (map b64_char (b64_sextets ns) @ b64_padding (length ns)) mod 4 = 0"
proof (induction ns rule: b64_sextets.induct)
  case (4 a b c r)
  have "b64_padding (length (a # b # c # r)) = b64_padding (length r)"
    by (simp add: b64_padding_def)
  with 4 show ?case by (simp add: b64_char_ok)
qed (simp_all add: b64_padding_def b64_char_ok)

lemma decodeCanonicalBase64_iff: "decodeCanonicalBase64 v = Inr b \<longleftrightarrow> v = b64_encode b"
proof -
  have "b64_shape (b64_encode b) \<and> length (b64_encode b) mod 4 = 0" for b
    using b64_shape_sextets [OF bytes_as_nats [of b]] by (simp add: b64_encode_def)
  then show ?thesis by (auto simp: decodeCanonicalBase64_def Let_def b64_decode_encode)
qed

text \<open>Account snapshots.  The reader accepts exactly null, and objects whose data is the canonical base64 text of
  some bytes, tagged as such, with a valid owner address and a boolean flag; it returns those bytes, and
  the bytes-only reader returns the same ones.\<close>

lemma snapshot_read_exactly:
  "(decodeBase64AccountInfo p v = Inr (Some s) \<longleftrightarrow>
     (\<exists>fs. v = JObj fs \<and> field fs ''data'' = Some (JArr [JStr (b64_encode (fsData s)), JStr ''base64'']) \<and>
        field fs ''owner'' = Some (JStr (fsOwner s)) \<and> field fs ''executable'' = Some (JBool (fsExecutable s)) \<and>
        valid_address p (fsOwner s))) \<and>
   (decodeBase64AccountInfo p v = Inr None \<longleftrightarrow> v = JNull) \<and>
   (readAccount p fetch account = Inr b \<longleftrightarrow>
     (\<exists>x. readAccountInfo p fetch account = Inr x \<and> b = map_option fsData x))"
proof (intro conjI)
  show "decodeBase64AccountInfo p v = Inr (Some s) \<longleftrightarrow>
     (\<exists>fs. v = JObj fs \<and> field fs ''data'' = Some (JArr [JStr (b64_encode (fsData s)), JStr ''base64'']) \<and>
        field fs ''owner'' = Some (JStr (fsOwner s)) \<and> field fs ''executable'' = Some (JBool (fsExecutable s)) \<and>
        valid_address p (fsOwner s))"
    by (cases s) (auto simp: decodeBase64AccountInfo_def res_simps decodeCanonicalBase64_iff
        split: json.splits option.splits list.splits)
  show "decodeBase64AccountInfo p v = Inr None \<longleftrightarrow> v = JNull"
    by (auto simp: decodeBase64AccountInfo_def res_simps split: json.splits option.splits list.splits if_splits)
  show "readAccount p fetch account = Inr b \<longleftrightarrow>
     (\<exists>x. readAccountInfo p fetch account = Inr x \<and> b = map_option fsData x)"
    by (auto simp: readAccount_def res_simps)
qed

section \<open>Settlement signatures are verified\<close>

text \<open>The transaction really invokes the program's settlement of this task.\<close>

definition settlement_instruction :: "(string \<Rightarrow> bytes option) \<Rightarrow> string option list \<Rightarrow> string \<Rightarrow> fields \<Rightarrow> bool" where
  "settlement_instruction base58 keys task fs \<longleftrightarrow>
     (addressString (field fs ''programId'') = Some AGENC_COORDINATION_PROGRAM_ADDRESS \<or>
      addressString (field fs ''programId'') = None \<and>
      (\<exists>i. field fs ''programIdIndex'' = Some (JInt i) \<and>
         key_at keys i = Some AGENC_COORDINATION_PROGRAM_ADDRESS)) \<and>
     (\<exists>accs t data. field fs ''accounts'' = Some (JArr accs) \<and> field fs ''data'' = Some (JStr t) \<and>
        base58 t = Some data \<and>
        (\<exists>(name, discriminator, k) \<in> set SETTLEMENT_INSTRUCTIONS.
           take 8 data = discriminator \<and> k < length accs \<and>
           (accs ! k = JStr task \<or>
            (\<exists>i. accs ! k = JInt i \<and> key_at keys i = Some task) \<or>
            (\<exists>a. accs ! k = JObj a \<and> field a ''pubkey'' = Some (JStr task)))))"

definition account_of :: "string option list \<Rightarrow> json \<Rightarrow> string option" where
  "account_of keys a = (case a of JInt i \<Rightarrow> key_at keys i | JNonInt _ \<Rightarrow> None | _ \<Rightarrow> addressString (Some a))"

lemma account_of_Some:
  "account_of keys a = Some t \<Longrightarrow> a = JStr t \<or> (\<exists>i. a = JInt i \<and> key_at keys i = Some t) \<or>
     (\<exists>fs. a = JObj fs \<and> field fs ''pubkey'' = Some (JStr t))"
  by (auto simp: account_of_def addressString_def split: json.splits option.splits)

lemma settles_at:
  assumes "settles task (map f accs) data"
  shows "\<exists>(name, discriminator, k) \<in> set SETTLEMENT_INSTRUCTIONS.
    take 8 data = discriminator \<and> k < length accs \<and> f (accs ! k) = Some task"
  using assms by (fastforce simp: settles_def list_ex_iff key_at_def split: if_splits)

lemma verified_instruction_settles:
  assumes "verified_instruction base58 keys task raw"
  shows "\<exists>fs. raw = JObj fs \<and> settlement_instruction base58 keys task fs"
proof -
  obtain fs where raw: "raw = JObj fs"
    using assms by (cases raw) (auto simp: verified_instruction_def)
  obtain accs t data where a: "field fs ''accounts'' = Some (JArr accs)"
      "field fs ''data'' = Some (JStr t)" "base58 t = Some data"
      "settles task (map (account_of keys) accs) data"
    using assms
    by (auto simp: raw verified_instruction_def instructionData_def account_of_def [abs_def] Let_def
        split: option.splits json.splits if_splits)
  have program: "addressString (field fs ''programId'') = Some AGENC_COORDINATION_PROGRAM_ADDRESS \<or>
      addressString (field fs ''programId'') = None \<and>
      (\<exists>i. field fs ''programIdIndex'' = Some (JInt i) \<and>
         key_at keys i = Some AGENC_COORDINATION_PROGRAM_ADDRESS)"
    using assms a(1)
    by (auto simp: raw verified_instruction_def Let_def split: option.splits json.splits if_splits)
  obtain name discriminator k where "(name, discriminator, k) \<in> set SETTLEMENT_INSTRUCTIONS"
      "take 8 data = discriminator" "k < length accs" "account_of keys (accs ! k) = Some task"
    using settles_at [OF a(4)] by auto
  with account_of_Some [OF this(4)] program a(1-3) show ?thesis
    by (auto simp: raw settlement_instruction_def intro!: exI [of _ accs] bexI [of _ "(name, discriminator, k)"])
qed

text \<open>Root, metadata, transaction and message of an answer that passes the check.\<close>

definition settlement_evidence :: "(string \<Rightarrow> bytes option) \<Rightarrow> json \<Rightarrow> string \<Rightarrow> string \<Rightarrow> bool" where
  "settlement_evidence base58 v task s \<longleftrightarrow>
     (\<exists>root meta tx rest message instructions keys fs.
        v = JObj root \<and> field root ''meta'' = Some (JObj meta) \<and> field meta ''err'' = Some JNull \<and>
        field root ''transaction'' = Some (JObj tx) \<and>
        field tx ''signatures'' = Some (JArr (JStr s # rest)) \<and>
        field tx ''message'' = Some (JObj message) \<and>
        field message ''instructions'' = Some (JArr instructions) \<and> JObj fs \<in> set instructions \<and>
        (keys = [] \<or> (\<exists>ks. field message ''accountKeys'' = Some (JArr ks) \<and>
           keys = map (\<lambda>k. addressString (Some k)) ks)) \<and>
        settlement_instruction base58 keys task fs)"

lemma verified_transaction_evidence:
  assumes "isVerifiedSettlementTransaction base58 v task s"
  shows "settlement_evidence base58 v task s"
proof -
  note d = isVerifiedSettlementTransaction_def
  obtain root where v: "v = JObj root"
    using assms by (cases v) (auto simp: d)
  obtain meta tx where m: "obj_prop root ''meta'' = Some meta" "obj_prop root ''transaction'' = Some tx"
    using assms by (cases "obj_prop root ''meta''"; cases "obj_prop root ''transaction''") (auto simp: d v)
  obtain first rest message where x: "arr_prop tx ''signatures'' = Some (first # rest)"
      "obj_prop tx ''message'' = Some message"
    using assms by (auto simp: d v m simp del: obj_prop_Some arr_prop_Some split: option.splits list.splits if_splits)
  obtain instructions where y: "first = JStr s" "field meta ''err'' = Some JNull"
      "arr_prop message ''instructions'' = Some instructions"
    using assms by (auto simp: d v m x simp del: obj_prop_Some arr_prop_Some split: option.splits if_splits)
  note r = v m [simplified] x [unfolded y(1), simplified] y(2) y(3) [simplified]
  define keys where "keys = (case arr_prop message ''accountKeys'' of
     Some ks \<Rightarrow> map (\<lambda>k. addressString (Some k)) ks | None \<Rightarrow> [])"
  have "list_ex (verified_instruction base58 keys task) instructions"
    using assms by (simp add: d v m x y keys_def del: obj_prop_Some arr_prop_Some)
  then obtain fs where fs: "JObj fs \<in> set instructions" "settlement_instruction base58 keys task fs"
    using verified_instruction_settles by (fastforce simp: list_ex_iff)
  have "keys = [] \<or> (\<exists>ks. field message ''accountKeys'' = Some (JArr ks) \<and>
      keys = map (\<lambda>k. addressString (Some k)) ks)"
    by (auto simp: keys_def split: option.splits)
  with r fs show ?thesis unfolding settlement_evidence_def by blast
qed

lemma scan_signatures_found:
  "scan_signatures base58 getTransaction task cs = Inr (Some s) \<Longrightarrow>
     \<exists>c \<in> set cs. finalized_signature c = Some s \<and>
       (\<exists>tx. getTransaction s = Inr tx \<and> isVerifiedSettlementTransaction base58 tx task s)"
  by (induction cs) (auto simp: res_simps split: option.splits if_splits)

text \<open>C30: settlement signatures.  A signature the search returns is one the RPC listed for the task as finalized
  and without error, within a limit of 1 to 100; its transaction was fetched, succeeded, carries that
  very signature first, and has an instruction of the AgenC program with one of the four terminal
  discriminators and the task's account at the position that instruction names.\<close>

theorem settlement_signature_verified:
  assumes "findVerifiedSettlementSignature base58 getSignatures getTransaction task limit = Inr (Some s)"
  shows "1 \<le> limit \<and> limit \<le> 100 \<and>
    (\<exists>candidates c tx. getSignatures task limit = Inr candidates \<and> c \<in> set candidates \<and>
       field c ''signature'' = Some (JStr s) \<and> field c ''err'' = Some JNull \<and>
       field c ''confirmationStatus'' = Some (JStr ''finalized'') \<and>
       getTransaction s = Inr tx \<and> settlement_evidence base58 tx task s)"
proof -
  obtain candidates where c: "1 \<le> limit" "limit \<le> 100" "getSignatures task limit = Inr candidates"
      "scan_signatures base58 getTransaction task candidates = Inr (Some s)"
    using assms by (auto simp: findVerifiedSettlementSignature_def res_simps)
  obtain c tx where "c \<in> set candidates" "finalized_signature c = Some s" "getTransaction s = Inr tx"
      "isVerifiedSettlementTransaction base58 tx task s"
    using scan_signatures_found [OF c(4)] by auto
  moreover from this(2) have "field c ''signature'' = Some (JStr s)" "field c ''err'' = Some JNull"
      "field c ''confirmationStatus'' = Some (JStr ''finalized'')"
    by (auto simp: finalized_signature_def split: option.splits json.splits if_splits)
  ultimately show ?thesis using c verified_transaction_evidence by blast
qed

text \<open>A settlement of task \<open>t\<close> by signature \<open>s\<close>, after a failed transaction in the history.\<close>

definition sample_settlement :: json where
  "sample_settlement = JObj
     [(''meta'', JObj [(''err'', JNull)]),
      (''transaction'', JObj
        [(''signatures'', JArr [JStr ''s'']),
         (''message'', JObj
           [(''accountKeys'', JArr [JStr ''payer'', JObj [(''pubkey'', JStr ''t'')], JStr AGENC_COORDINATION_PROGRAM_ADDRESS]),
            (''instructions'', JArr [JObj
              [(''programIdIndex'', JInt 2), (''accounts'', JArr [JInt 1]), (''data'', JStr ''d'')]])])])]"

theorem settlement_signature_verified_witness:
  "settlement_evidence (\<lambda>_. Some [89, 230, 51, 25, 0, 219, 5, 137]) sample_settlement ''t'' ''s''"
proof -
  let ?base58 = "\<lambda>_ :: string. Some [89, 230, 51, 25, 0, 219, 5, 137 :: byte]"
  let ?candidates = "[[(''signature'', JStr ''r''), (''err'', JStr ''x'')],
     [(''signature'', JStr ''s''), (''err'', JNull), (''confirmationStatus'', JStr ''finalized'')]]"
  have "findVerifiedSettlementSignature ?base58 (\<lambda>_ _. Inr ?candidates) (\<lambda>_. Inr sample_settlement) ''t'' 20 =
      Inr (Some ''s'')"
    by code_simp
  from settlement_signature_verified [OF this] show ?thesis by auto
qed

end
