(* ===== verification/StateLock.thy ===== *)
theory StateLock
  imports StateCodec JsText
begin

text \<open>
  The lock of a state directory (\<open>state.ts\<close>): what the lock file and the reaper marker hold, how they
  are parsed, and how a process is recognised across reuse of its number.  A file is \<open>None\<close> when its
  text is not JSON.  The protocol over these files is in \<open>LockProtocol\<close>.
\<close>

section \<open>Process identity\<close>

record process_identity =
  piBootId :: string
  piStartTime :: string

definition is_boot_id :: "string \<Rightarrow> bool" where
  "is_boot_id s \<longleftrightarrow> 16 \<le> length s \<and> length s \<le> 64 \<and>
     list_all (\<lambda>c. hex_value (hd (lower_ascii [c])) \<noteq> None \<or> c = CHR ''-'') s"

definition is_digits :: "string \<Rightarrow> bool" where
  "is_digits s \<longleftrightarrow> s \<noteq> [] \<and> list_all is_digit s"

text \<open>The words of a text, \<open>s.trim().split(/\s+/)\<close>; a text of spaces has none.\<close>

function pieces :: "string \<Rightarrow> string \<Rightarrow> string list" where
  "pieces cur s = (if s = [] then [rev cur] else (case leading_space s of
      Some w \<Rightarrow> rev cur # pieces [] (drop (length w) s)
    | None \<Rightarrow> pieces (hd s # cur) (tl s)))"
  by auto
termination
  by (relation "measure (length \<circ> snd)") (auto simp: leading_space_def find_Some_iff)

declare pieces.simps [simp del]

definition js_words :: "string \<Rightarrow> string list" where
  "js_words s = List.filter (\<lambda>w. w \<noteq> []) (pieces [] s)"

definition after_last :: "char \<Rightarrow> string \<Rightarrow> string option" where
  "after_last c s = (if c \<in> set s then Some (rev (takeWhile (\<lambda>x. x \<noteq> c) (rev s))) else None)"

text \<open>What the operating system answers: \<open>process.platform\<close>, \<open>kill(pid, 0)\<close> (none, or the errno) and the
  two files under \<open>/proc\<close>, \<open>None\<close> when they cannot be read.\<close>

record os_view =
  ov_linux :: bool
  ov_kill :: "int \<Rightarrow> string option"
  ov_boot_id :: "string option"
  ov_stat :: "int \<Rightarrow> string option"

definition processIsAlive :: "os_view \<Rightarrow> int \<Rightarrow> bool" where
  "processIsAlive v pid = (case ov_kill v pid of None \<Rightarrow> True | Some code \<Rightarrow> code = ''EPERM'')"

definition readProcessIdentity :: "os_view \<Rightarrow> int \<Rightarrow> process_identity option" where
  "readProcessIdentity v pid =
     (if \<not> ov_linux v \<or> pid \<le> 0 then None
      else (case (ov_boot_id v, ov_stat v pid) of
          (Some boot, Some stat) \<Rightarrow>
            (let bootId = js_trim boot in
             case after_last (CHR '')'') (js_trim stat) of
               None \<Rightarrow> None
             | Some suffix \<Rightarrow>
                 (let fs = js_words suffix in
                  if \<not> is_boot_id bootId \<or> length fs \<le> 19 \<or> \<not> is_digits (fs ! 19) then None
                  else Some \<lparr>piBootId = bootId, piStartTime = fs ! 19\<rparr>))
        | _ \<Rightarrow> None))"

section \<open>Owners\<close>

record lock_owner =
  loPid :: int
  loNonce :: string
  loAcquiredAt :: string
  loIdentity :: "process_identity option"

record reaper_owner = lock_owner +
  roTargetNonce :: string

definition is_nonce :: "string \<Rightarrow> bool" where
  "is_nonce s \<longleftrightarrow> length s = 32 \<and> list_all is_lower_hex s"

text \<open>\<open>lockIdentity\<close> is the field \<open>loIdentity\<close>: both properties are present or neither is.\<close>

definition processStillOwnsLock :: "os_view \<Rightarrow> ('a lock_owner_scheme) \<Rightarrow> bool" where
  "processStillOwnsLock v owner =
     (if \<not> processIsAlive v (loPid owner) then False
      else (case loIdentity owner of
          None \<Rightarrow> True
        | Some expected \<Rightarrow>
            (case readProcessIdentity v (loPid owner) of
               None \<Rightarrow> True
             | Some observed \<Rightarrow> piBootId observed = piBootId expected \<and>
                 piStartTime observed = piStartTime expected)))"

section \<open>Reading the lock and the marker\<close>

definition lock_error :: "string \<Rightarrow> worker_error" where
  "lock_error m = WorkerStateError (''worker state lock '' @ m @ ''; refusing to remove it'')"

definition parseOptionalProcessIdentity :: "fields \<Rightarrow> process_identity option res" where
  "parseOptionalProcessIdentity parsed =
     (let hasBoot = has_prop parsed ''bootId''; hasStart = has_prop parsed ''processStartTime'' in
      if hasBoot \<noteq> hasStart then Inl (lock_error ''has incomplete process identity'')
      else if \<not> hasBoot then Inr None
      else (case (field parsed ''bootId'', field parsed ''processStartTime'') of
          (Some (JStr b), Some (JStr t)) \<Rightarrow>
            if is_boot_id b \<and> is_digits t then Inr (Some \<lparr>piBootId = b, piStartTime = t\<rparr>)
            else Inl (lock_error ''has invalid process identity'')
        | _ \<Rightarrow> Inl (lock_error ''has invalid process identity'')))"

definition pid_field :: "json option \<Rightarrow> int res" where
  "pid_field v = (case v of
      Some (JInt n) \<Rightarrow> if n \<le> 0 \<or> n > 2147483647 then Inl (lock_error ''has an invalid pid'') else Inr n
    | _ \<Rightarrow> Inl (lock_error ''has an invalid pid''))"

definition nonce_field :: "json option \<Rightarrow> string res" where
  "nonce_field v = (case v of
      Some (JStr s) \<Rightarrow> if is_nonce s then Inr s else Inl (lock_error ''has an invalid nonce'')
    | _ \<Rightarrow> Inl (lock_error ''has an invalid nonce''))"

definition identity_keys :: "string list" where
  "identity_keys = [''bootId'', ''processStartTime'']"

definition readLockOwner :: "platform \<Rightarrow> json option \<Rightarrow> lock_owner res" where
  "readLockOwner p file = (case file of
      None \<Rightarrow> Inl (lock_error ''is unreadable'')
    | Some value \<Rightarrow>
        bind_res (as_record value ''worker state lock'') (\<lambda>parsed.
        bind_res (exactKeys parsed ''worker state lock'' [''pid'', ''nonce'', ''acquiredAt''] identity_keys) (\<lambda>_.
        bind_res (pid_field (field parsed ''pid'')) (\<lambda>pid.
        bind_res (nonce_field (field parsed ''nonce'')) (\<lambda>nonce.
        bind_res (map_error (\<lambda>_. lock_error ''has an invalid timestamp'')
          (iso p (field parsed ''acquiredAt'') ''worker state lock.acquiredAt'')) (\<lambda>acquiredAt.
        bind_res (parseOptionalProcessIdentity parsed) (\<lambda>identity.
        Inr \<lparr>loPid = pid, loNonce = nonce, loAcquiredAt = acquiredAt, loIdentity = identity\<rparr>)))))))"

text \<open>A marker without \<open>targetNonce\<close> is a hard link to the stale lock, and targets its own nonce.\<close>

definition readReaperOwner :: "platform \<Rightarrow> json option \<Rightarrow> reaper_owner res" where
  "readReaperOwner p file = (case file of
      None \<Rightarrow> Inl (lock_error ''reaper is unreadable'')
    | Some value \<Rightarrow>
        bind_res (as_record value ''worker state reaper'') (\<lambda>parsed.
        let legacyHardLink = \<not> has_prop parsed ''targetNonce'' in
        bind_res (exactKeys parsed ''worker state reaper''
          (if legacyHardLink then [''pid'', ''nonce'', ''acquiredAt'']
           else [''pid'', ''nonce'', ''targetNonce'', ''acquiredAt'']) identity_keys) (\<lambda>_.
        bind_res (pid_field (field parsed ''pid'')) (\<lambda>pid.
        bind_res (nonce_field (field parsed ''nonce'')) (\<lambda>nonce.
        bind_res (if legacyHardLink then Inr nonce else nonce_field (field parsed ''targetNonce'')) (\<lambda>target.
        bind_res (map_error (\<lambda>_. lock_error ''reaper has an invalid timestamp'')
          (iso p (field parsed ''acquiredAt'') ''worker state reaper.acquiredAt'')) (\<lambda>acquiredAt.
        bind_res (parseOptionalProcessIdentity parsed) (\<lambda>identity.
        Inr \<lparr>loPid = pid, loNonce = nonce, loAcquiredAt = acquiredAt, loIdentity = identity,
            roTargetNonce = target\<rparr>))))))))"

section \<open>Writing them\<close>

definition identity_json :: "process_identity option \<Rightarrow> fields" where
  "identity_json i = (case i of
      None \<Rightarrow> []
    | Some x \<Rightarrow> [(''bootId'', JStr (piBootId x)), (''processStartTime'', JStr (piStartTime x))])"

definition lock_body :: "lock_owner \<Rightarrow> json" where
  "lock_body w = JObj ([(''pid'', JInt (loPid w)), (''nonce'', JStr (loNonce w)),
     (''acquiredAt'', JStr (loAcquiredAt w))] @ identity_json (loIdentity w))"

definition reaper_body :: "string \<Rightarrow> lock_owner \<Rightarrow> json" where
  "reaper_body targetNonce w = JObj ([(''pid'', JInt (loPid w)), (''nonce'', JStr (loNonce w)),
     (''targetNonce'', JStr targetNonce), (''acquiredAt'', JStr (loAcquiredAt w))]
     @ identity_json (loIdentity w))"

section \<open>What is written is read back\<close>

definition wf_identity :: "process_identity option \<Rightarrow> bool" where
  "wf_identity i \<longleftrightarrow> (case i of None \<Rightarrow> True | Some x \<Rightarrow> is_boot_id (piBootId x) \<and> is_digits (piStartTime x))"

definition wf_owner :: "platform \<Rightarrow> ('a lock_owner_scheme) \<Rightarrow> bool" where
  "wf_owner p w \<longleftrightarrow> 0 < loPid w \<and> loPid w \<le> 2147483647 \<and> is_nonce (loNonce w) \<and>
     canonical_iso p (loAcquiredAt w) \<and> wf_identity (loIdentity w)"

lemma identity_read_wf: "readProcessIdentity v pid = i \<Longrightarrow> wf_identity i"
  by (auto simp: readProcessIdentity_def wf_identity_def Let_def split: if_splits option.splits)

lemma pid_field_iff [res_simps]: "pid_field v = Inr n \<longleftrightarrow> v = Some (JInt n) \<and> 0 < n \<and> n \<le> 2147483647"
  by (auto simp: pid_field_def split: option.splits json.splits)

lemma nonce_field_iff [res_simps]: "nonce_field v = Inr s \<longleftrightarrow> v = Some (JStr s) \<and> is_nonce s"
  by (auto simp: nonce_field_def split: option.splits json.splits)

definition identity_fields :: "fields \<Rightarrow> process_identity option \<Rightarrow> bool" where
  "identity_fields fs i \<longleftrightarrow>
     field fs ''bootId'' = map_option (\<lambda>x. JStr (piBootId x)) i \<and>
     field fs ''processStartTime'' = map_option (\<lambda>x. JStr (piStartTime x)) i"

lemma parseOptionalProcessIdentity_iff [res_simps]:
  "parseOptionalProcessIdentity fs = Inr i \<longleftrightarrow> wf_identity i \<and> identity_fields fs i"
proof (cases i)
  case None
  then show ?thesis
    by (auto simp: parseOptionalProcessIdentity_def wf_identity_def identity_fields_def has_prop_iff Let_def
        split: option.splits json.splits if_splits)
next
  case (Some x)
  then show ?thesis
    by (cases x) (auto simp: parseOptionalProcessIdentity_def wf_identity_def identity_fields_def has_prop_iff
        Let_def split: option.splits json.splits if_splits)
qed

lemma readLockOwner_iff:
  "readLockOwner p (Some v) = Inr w \<longleftrightarrow> (\<exists>fs. v = JObj fs \<and>
     keys_ok fs [''pid'', ''nonce'', ''acquiredAt''] identity_keys \<and> wf_owner p w \<and>
     field fs ''pid'' = Some (JInt (loPid w)) \<and> field fs ''nonce'' = Some (JStr (loNonce w)) \<and>
     field fs ''acquiredAt'' = Some (JStr (loAcquiredAt w)) \<and> identity_fields fs (loIdentity w))"
  by (cases w) (auto simp: readLockOwner_def res_simps wf_owner_def)

definition with_target :: "lock_owner \<Rightarrow> string \<Rightarrow> reaper_owner" where
  "with_target w target = \<lparr>loPid = loPid w, loNonce = loNonce w, loAcquiredAt = loAcquiredAt w,
     loIdentity = loIdentity w, roTargetNonce = target\<rparr>"

lemma with_target_fields [simp]:
  "loPid (with_target w t) = loPid w" "loNonce (with_target w t) = loNonce w"
  "loAcquiredAt (with_target w t) = loAcquiredAt w" "loIdentity (with_target w t) = loIdentity w"
  "roTargetNonce (with_target w t) = t"
  by (simp_all add: with_target_def)

lemma readReaperOwner_iff:
  "readReaperOwner p (Some v) = Inr r \<longleftrightarrow> (\<exists>fs. v = JObj fs \<and> wf_owner p r \<and>
     field fs ''pid'' = Some (JInt (loPid r)) \<and> field fs ''nonce'' = Some (JStr (loNonce r)) \<and>
     field fs ''acquiredAt'' = Some (JStr (loAcquiredAt r)) \<and> identity_fields fs (loIdentity r) \<and>
     (if has_prop fs ''targetNonce''
      then keys_ok fs [''pid'', ''nonce'', ''targetNonce'', ''acquiredAt''] identity_keys \<and>
        field fs ''targetNonce'' = Some (JStr (roTargetNonce r)) \<and> is_nonce (roTargetNonce r)
      else keys_ok fs [''pid'', ''nonce'', ''acquiredAt''] identity_keys \<and> roTargetNonce r = loNonce r))"
  by (cases r) (auto simp: readReaperOwner_def Let_def res_simps wf_owner_def)

lemma identity_json_fields:
  "k \<noteq> ''bootId'' \<Longrightarrow> k \<noteq> ''processStartTime'' \<Longrightarrow> field (identity_json i) k = None"
  "field (identity_json i) ''bootId'' = map_option (\<lambda>x. JStr (piBootId x)) i"
  "field (identity_json i) ''processStartTime'' = map_option (\<lambda>x. JStr (piStartTime x)) i"
  by (simp_all add: identity_json_def split: option.split)

lemma identity_json_keys: "fst ` set (identity_json i) \<subseteq> set identity_keys"
  by (auto simp: identity_json_def identity_keys_def split: option.splits)

lemma lock_body_read: "readLockOwner p (Some (lock_body w)) = Inr w \<longleftrightarrow> wf_owner p w"
  using identity_json_keys [of "loIdentity w"]
  by (auto simp: readLockOwner_iff lock_body_def keys_ok_def has_prop_iff identity_fields_def
      identity_json_fields wf_owner_def)

lemma reaper_body_read:
  "readReaperOwner p (Some (reaper_body t w)) = Inr (with_target w t) \<longleftrightarrow> wf_owner p w \<and> is_nonce t"
  using identity_json_keys [of "loIdentity w"]
  by (auto simp: readReaperOwner_iff reaper_body_def keys_ok_def has_prop_iff identity_fields_def
      identity_json_fields wf_owner_def)

lemma legacy_marker_read:
  "readReaperOwner p (Some (lock_body w)) = Inr (with_target w (loNonce w)) \<longleftrightarrow> wf_owner p w"
  using identity_json_keys [of "loIdentity w"]
  by (auto simp: readReaperOwner_iff lock_body_def keys_ok_def has_prop_iff identity_fields_def
      identity_json_fields wf_owner_def)

text \<open>Lock files are read as they were written.  The body a process writes into its lock reads back as exactly
  that owner, and as nothing at all unless its number, nonce, time and identity are well formed; so does
  the body of a reaper marker, with the generation it targets; and a marker that is a hard link to the
  stale lock itself is read as targeting that lock.\<close>

lemma lock_files_roundtrip:
  "(readLockOwner p (Some (lock_body w)) = Inr w \<longleftrightarrow> wf_owner p w) \<and>
   (readReaperOwner p (Some (reaper_body t w)) = Inr (with_target w t) \<longleftrightarrow> wf_owner p w \<and> is_nonce t) \<and>
   (readReaperOwner p (Some (lock_body w)) = Inr (with_target w (loNonce w)) \<longleftrightarrow> wf_owner p w)"
  by (intro conjI lock_body_read reaper_body_read legacy_marker_read)

lemma lock_nonce: "readLockOwner p v = Inr w \<Longrightarrow> is_nonce (loNonce w)"
  by (cases v) (auto simp: readLockOwner_def res_simps)

section \<open>The start time of a process\<close>

definition plain_word :: "string \<Rightarrow> bool" where
  "plain_word w \<longleftrightarrow> w \<noteq> [] \<and> list_all plain_char w"

lemma pieces_plain: "list_all plain_char w \<Longrightarrow> pieces cur (w @ s) = pieces (rev w @ cur) s"
  by (induction w arbitrary: cur) (simp_all add: pieces.simps [of _ "_ # _"] leading_space_plain)

lemma pieces_words:
  "list_all plain_word ws \<Longrightarrow> pieces cur (concat (map (\<lambda>w. CHR '' '' # w) ws)) = rev cur # ws"
proof (induction ws arbitrary: cur)
  case Nil
  show ?case by (simp add: pieces.simps)
next
  case (Cons w ws)
  have "pieces cur (CHR '' '' # w @ concat (map (\<lambda>w. CHR '' '' # w) ws)) =
      rev cur # pieces [] (w @ concat (map (\<lambda>w. CHR '' '' # w) ws))"
    by (simp add: pieces.simps [of cur] leading_space_blank)
  also have "\<dots> = rev cur # pieces (rev w) (concat (map (\<lambda>w. CHR '' '' # w) ws))"
    using Cons.prems by (simp add: plain_word_def pieces_plain)
  finally show ?case using Cons by simp
qed

lemma js_words_of: "list_all plain_word ws \<Longrightarrow> js_words (concat (map (\<lambda>w. CHR '' '' # w) ws)) = ws"
proof -
  assume ws: "list_all plain_word ws"
  then have "List.filter (\<lambda>w. w \<noteq> []) ws = ws"
    by (simp add: filter_id_conv list_all_iff plain_word_def)
  with ws show ?thesis by (simp add: js_words_def pieces_words)
qed

lemma after_last_append: "c \<notin> set t \<Longrightarrow> after_last c (s @ c # t) = Some t"
proof -
  assume c: "c \<notin> set t"
  then have "takeWhile (\<lambda>x. x \<noteq> c) (rev t @ c # rev s) = rev t"
    by (subst takeWhile_append2) auto
  then show ?thesis by (simp add: after_last_def)
qed

lemma words_no_paren: "list_all plain_word ws \<Longrightarrow> CHR '')'' \<notin> set (concat (map (\<lambda>w. CHR '' '' # w) ws))"
  by (induction ws) (auto simp: plain_word_def plain_char_def list_all_iff)

text \<open>The identity of a process does not depend on its command name.  Field 22 of the process status is
  found as the twentieth word after the last closing parenthesis, whatever the name between the
  parentheses holds, and the identity is that start time with the boot identifier.\<close>

lemma process_identity_read:
  assumes "ov_linux v" "0 < pid" "ov_boot_id v = Some boot" "is_boot_id (js_trim boot)" "ov_stat v pid = Some stat"
    and stat: "js_trim stat = before @ CHR '')'' # concat (map (\<lambda>w. CHR '' '' # w) fs)"
    and fs: "list_all plain_word fs" "20 \<le> length fs" "is_digits (fs ! 19)"
  shows "readProcessIdentity v pid = Some \<lparr>piBootId = js_trim boot, piStartTime = fs ! 19\<rparr>"
proof -
  have "after_last (CHR '')'') (js_trim stat) = Some (concat (map (\<lambda>w. CHR '' '' # w) fs))"
    unfolding stat by (rule after_last_append [OF words_no_paren [OF fs(1)]])
  with assms js_words_of [OF fs(1)] show ?thesis by (simp add: readProcessIdentity_def)
qed

definition sample_stat :: string where
  "sample_stat = ''7 (a) b) S'' @ concat (replicate 18 '' 0'') @ '' 42 9''"

definition sample_view :: os_view where
  "sample_view = \<lparr>ov_linux = True, ov_kill = (\<lambda>_. None), ov_boot_id = Some ''0123456789abcdef'',
     ov_stat = (\<lambda>_. Some sample_stat)\<rparr>"

lemma process_identity_read_witness:
  "readProcessIdentity sample_view 7 = Some \<lparr>piBootId = ''0123456789abcdef'', piStartTime = ''42''\<rparr>"
proof -
  let ?fs = "''S'' # replicate 18 ''0'' @ [''42'', ''9'']"
  have trims: "js_trim ''0123456789abcdef'' = ''0123456789abcdef''" "js_trim sample_stat = sample_stat"
    by code_simp+
  have "is_boot_id ''0123456789abcdef''"
    by (simp add: is_boot_id_def lower_ascii_def hex_value_def)
  moreover have "list_all plain_word ?fs"
    by (simp add: list_all_iff plain_word_def plain_char_def)
  moreover have "is_digits (?fs ! 19)"
    by (simp add: nth_append is_digits_def is_digit_def)
  moreover have "sample_stat = ''7 (a) b'' @ CHR '')'' # concat (map (\<lambda>w. CHR '' '' # w) ?fs)"
    by code_simp
  ultimately show ?thesis
    using process_identity_read [of sample_view 7 "''0123456789abcdef''" sample_stat "''7 (a) b''" ?fs]
    by (simp add: trims sample_view_def nth_append)
qed

end
