(* ===== verification/LockProtocol.thy ===== *)
theory LockProtocol
  imports StateLock
begin

text \<open>
  \<open>acquireStateLock\<close>, \<open>acquireReaperMarker\<close> and \<open>releaseReaperMarker\<close> (\<open>state.ts\<close>) as a machine: any number
  of contenders, each advancing by one call on the directory that another process can observe, in any
  order, any of them failing with an I/O error, and any contender dying at any point.  A file is its
  inode and its content; a hard link to it has the same inode, and keeps the inode from being reused.
  Names with the contender's own number and nonce (publications, observations) are private to it and
  are part of its local state.
\<close>

section \<open>Files and contenders\<close>

datatype inode_file = File (ino: nat) (content: "json option")

text \<open>The lock, the reaper marker of each lock generation (by its nonce), and the next free inode.\<close>

record lock_dir =
  ld_lock :: "inode_file option"
  ld_marker :: "string \<Rightarrow> inode_file option"
  ld_next :: nat

text \<open>What one call of \<open>acquireStateLock\<close> writes: its lock body, and a marker body for each attempt.\<close>

record contender =
  ct_owner :: lock_owner
  ct_reaper :: "nat \<Rightarrow> lock_owner"

text \<open>Where a contender is: about to do the named call.  \<open>Judge f\<close> has linked the lock's inode \<open>f\<close>;
  from \<open>MarkerLink f n\<close> on the lock was judged stale and has nonce \<open>n\<close>.\<close>

datatype lock_pc =
    TryLink
  | Published
  | UndoRead
  | UndoUnlink
  | Observe
  | Judge inode_file
  | MarkerLink inode_file string
  | MarkerSync inode_file string
  | MarkerObserve string
  | MarkerJudge string inode_file
  | MarkerSame string inode_file
  | MarkerUnlink string
  | MarkerClean
  | ReapCheck inode_file string
  | ReapUnlink inode_file string
  | ReleaseRead string "worker_error option"
  | ReleaseUnlink string "worker_error option"
  | ReapClean
  | Holding
  | FreeRead
  | FreeUnlink
  | FreeClean
  | Freed "worker_error option"
  | Failed worker_error

definition MAX_LOCK_ATTEMPTS :: nat where "MAX_LOCK_ATTEMPTS = 8"

definition io_error :: worker_error where "io_error = PlainError ''input/output error''"
definition enoent :: worker_error where "enoent = PlainError ''ENOENT''"

text \<open>\<open>continue\<close>, and the error after the last attempt.\<close>

definition retry :: "nat \<Rightarrow> nat \<times> lock_pc" where
  "retry k = (if Suc k < MAX_LOCK_ATTEMPTS then (Suc k, TryLink)
     else (k, Failed (WorkerStateError ''could not acquire worker state lock'')))"

definition publish_lock :: "contender \<Rightarrow> lock_dir \<Rightarrow> lock_dir" where
  "publish_lock c d = d\<lparr>ld_lock := Some (File (ld_next d) (Some (lock_body (ct_owner c)))), ld_next := Suc (ld_next d)\<rparr>"

definition publish_marker :: "contender \<Rightarrow> nat \<Rightarrow> string \<Rightarrow> lock_dir \<Rightarrow> lock_dir" where
  "publish_marker c k n d = d\<lparr>ld_marker := (ld_marker d)(n \<mapsto> File (ld_next d) (Some (reaper_body n (ct_reaper c k)))),
     ld_next := Suc (ld_next d)\<rparr>"

definition unlink_lock :: "lock_dir \<Rightarrow> lock_dir" where
  "unlink_lock d = d\<lparr>ld_lock := None\<rparr>"

definition unlink_marker :: "string \<Rightarrow> lock_dir \<Rightarrow> lock_dir" where
  "unlink_marker n d = d\<lparr>ld_marker := (ld_marker d)(n := None)\<rparr>"

text \<open>A publication that could not be linked was written and is removed again.\<close>

definition waste :: "lock_dir \<Rightarrow> lock_dir" where
  "waste d = d\<lparr>ld_next := Suc (ld_next d)\<rparr>"

section \<open>The marker\<close>

text \<open>\<open>acquireReaperMarker\<close>: \<open>fault\<close> makes the call of this step fail with an error other than the
  ones the code expects.\<close>

definition marker_step ::
  "platform \<Rightarrow> contender \<Rightarrow> os_view \<Rightarrow> bool \<Rightarrow> lock_dir \<Rightarrow> nat \<Rightarrow> lock_pc \<Rightarrow> lock_dir \<times> nat \<times> lock_pc" where
  "marker_step p c v fault d k pc = (case pc of
      MarkerLink f n \<Rightarrow>
        if fault then (d, k, Failed io_error)
        else (case ld_marker d n of
            None \<Rightarrow> (publish_marker c k n d, k, MarkerSync f n)
          | Some _ \<Rightarrow> (waste d, k, MarkerObserve n))
    | MarkerSync f n \<Rightarrow> if fault then (d, k, ReleaseRead n (Some io_error)) else (d, k, ReapCheck f n)
    | MarkerObserve n \<Rightarrow>
        if fault then (d, k, Failed io_error)
        else (case ld_marker d n of None \<Rightarrow> (d, retry k) | Some m \<Rightarrow> (d, k, MarkerJudge n m))
    | MarkerJudge n m \<Rightarrow>
        (case (if fault then Inl (lock_error ''reaper is unreadable'') else readReaperOwner p (content m)) of
            Inl e \<Rightarrow> (d, k, Failed e)
          | Inr incumbent \<Rightarrow>
              if roTargetNonce incumbent \<noteq> n
              then (d, k, Failed (WorkerStateError ''worker state reaper targets a different lock generation''))
              else if processStillOwnsLock v incumbent
              then (d, k, Failed (WorkerStateError ''worker state lock is being reclaimed by another process''))
              else (d, k, MarkerSame n m))
    | MarkerSame n m \<Rightarrow>
        if fault then (d, k, Failed io_error)
        else (case ld_marker d n of
            None \<Rightarrow> (d, k, Failed enoent)
          | Some m' \<Rightarrow> if ino m' = ino m then (d, k, MarkerUnlink n) else (d, retry k))
    | MarkerUnlink n \<Rightarrow>
        if fault then (d, k, Failed io_error)
        else (case ld_marker d n of None \<Rightarrow> (d, k, Failed enoent) | Some _ \<Rightarrow> (unlink_marker n d, k, MarkerClean))
    | MarkerClean \<Rightarrow> if fault then (d, k, Failed io_error) else (d, retry k)
    | _ \<Rightarrow> (d, k, pc))"

text \<open>\<open>releaseReaperMarker\<close>, and what follows it: the error to rethrow, or the next attempt.  A marker
  that is gone is unreadable, which is an error.\<close>

definition released :: "worker_error option \<Rightarrow> lock_pc" where
  "released after = (case after of None \<Rightarrow> ReapClean | Some e \<Rightarrow> Failed e)"

definition release_step ::
  "platform \<Rightarrow> contender \<Rightarrow> bool \<Rightarrow> lock_dir \<Rightarrow> nat \<Rightarrow> lock_pc \<Rightarrow> lock_dir \<times> nat \<times> lock_pc" where
  "release_step p c fault d k pc = (case pc of
      ReleaseRead n after \<Rightarrow>
        (case (if fault then None else ld_marker d n) of
            None \<Rightarrow> (d, k, Failed (lock_error ''reaper is unreadable''))
          | Some m \<Rightarrow>
              (case readReaperOwner p (content m) of
                 Inl e \<Rightarrow> (d, k, Failed e)
               | Inr current \<Rightarrow>
                   if loNonce current = loNonce (ct_reaper c k) then (d, k, ReleaseUnlink n after)
                   else (d, k, released after)))
    | ReleaseUnlink n after \<Rightarrow>
        if fault then (d, k, Failed io_error) else (unlink_marker n d, k, released after)
    | ReapClean \<Rightarrow> if fault then (d, k, Failed io_error) else (d, retry k)
    | _ \<Rightarrow> (d, k, pc))"

section \<open>The lock\<close>

text \<open>One call of a contender.  \<open>Holding\<close> is left by calling the function it was given.\<close>

definition advance ::
  "platform \<Rightarrow> contender \<Rightarrow> os_view \<Rightarrow> bool \<Rightarrow> lock_dir \<Rightarrow> nat \<Rightarrow> lock_pc \<Rightarrow> lock_dir \<times> nat \<times> lock_pc" where
  "advance p c v fault d k pc = (case pc of
      TryLink \<Rightarrow>
        if fault then (d, k, Failed io_error)
        else (case ld_lock d of
            None \<Rightarrow> (publish_lock c d, k, Published)
          | Some _ \<Rightarrow> (waste d, k, Observe))
    | Published \<Rightarrow> if fault then (d, k, UndoRead) else (d, k, Holding)
    | UndoRead \<Rightarrow>
        (case (if fault then None else ld_lock d) of
            None \<Rightarrow> (d, k, Failed io_error)
          | Some f \<Rightarrow>
              (case readLockOwner p (content f) of
                 Inl _ \<Rightarrow> (d, k, Failed io_error)
               | Inr current \<Rightarrow>
                   if loNonce current = loNonce (ct_owner c) then (d, k, UndoUnlink) else (d, k, Failed io_error)))
    | UndoUnlink \<Rightarrow> if fault then (d, k, Failed io_error) else (unlink_lock d, k, Failed io_error)
    | Observe \<Rightarrow>
        if fault then (d, k, Failed io_error)
        else (case ld_lock d of None \<Rightarrow> (d, retry k) | Some f \<Rightarrow> (d, k, Judge f))
    | Judge f \<Rightarrow>
        (case (if fault then Inl (lock_error ''is unreadable'') else readLockOwner p (content f)) of
            Inl e \<Rightarrow> (d, k, Failed e)
          | Inr existing \<Rightarrow>
              if processStillOwnsLock v existing
              then (d, k, Failed (WorkerStateError ''worker state directory is already active in another process''))
              else (d, k, MarkerLink f (loNonce existing)))
    | ReapCheck f n \<Rightarrow>
        if fault then (d, k, ReleaseRead n (Some io_error))
        else (case ld_lock d of
            None \<Rightarrow> (d, k, ReleaseRead n None)
          | Some g \<Rightarrow> if ino g = ino f then (d, k, ReapUnlink f n) else (d, k, ReleaseRead n None))
    | ReapUnlink f n \<Rightarrow>
        if fault then (d, k, ReleaseRead n (Some io_error)) else (unlink_lock d, k, ReleaseRead n None)
    | ReleaseRead n after \<Rightarrow> release_step p c fault d k pc
    | ReleaseUnlink n after \<Rightarrow> release_step p c fault d k pc
    | ReapClean \<Rightarrow> release_step p c fault d k pc
    | Holding \<Rightarrow> (d, k, FreeRead)
    | FreeRead \<Rightarrow>
        (case (if fault then None else ld_lock d) of
            None \<Rightarrow> (d, k, Freed (Some (lock_error ''is unreadable'')))
          | Some f \<Rightarrow>
              (case readLockOwner p (content f) of
                 Inl e \<Rightarrow> (d, k, Freed (Some e))
               | Inr current \<Rightarrow>
                   if loNonce current = loNonce (ct_owner c) then (d, k, FreeUnlink) else (d, k, Freed None)))
    | FreeUnlink \<Rightarrow> if fault then (d, k, Freed (Some io_error)) else (unlink_lock d, k, FreeClean)
    | FreeClean \<Rightarrow> (d, k, Freed (if fault then Some io_error else None))
    | Freed e \<Rightarrow> (d, k, pc)
    | Failed e \<Rightarrow> (d, k, pc)
    | _ \<Rightarrow> marker_step p c v fault d k pc)"

section \<open>The system\<close>

text \<open>A contender that has not started or has died has no local state.\<close>

record lock_system =
  ls_dir :: lock_dir
  ls_local :: "nat \<Rightarrow> (nat \<times> lock_pc) option"
  ls_spawned :: "nat \<Rightarrow> bool"

datatype lock_event = Spawn nat | Act nat os_view bool | Crash nat

fun apply_event :: "platform \<Rightarrow> (nat \<Rightarrow> contender) \<Rightarrow> lock_event \<Rightarrow> lock_system \<Rightarrow> lock_system" where
  "apply_event p cast (Spawn c) s =
     (if ls_spawned s c then s
      else s\<lparr>ls_local := (ls_local s)(c \<mapsto> (0, TryLink)), ls_spawned := (ls_spawned s)(c := True)\<rparr>)"
| "apply_event p cast (Crash c) s = s\<lparr>ls_local := (ls_local s)(c := None)\<rparr>"
| "apply_event p cast (Act c v fault) s = (case ls_local s c of
      None \<Rightarrow> s
    | Some (k, pc) \<Rightarrow>
        (case advance p (cast c) v fault (ls_dir s) k pc of
           (d, k', pc') \<Rightarrow> s\<lparr>ls_dir := d, ls_local := (ls_local s)(c \<mapsto> (k', pc'))\<rparr>))"

definition apply_events :: "platform \<Rightarrow> (nat \<Rightarrow> contender) \<Rightarrow> lock_event list \<Rightarrow> lock_system \<Rightarrow> lock_system" where
  "apply_events p cast es s = fold (apply_event p cast) es s"

definition holding :: "lock_system \<Rightarrow> nat \<Rightarrow> bool" where
  "holding s c \<longleftrightarrow> (case ls_local s c of Some (_, Holding) \<Rightarrow> True | _ \<Rightarrow> False)"

text \<open>\<open>releaseReaperMarker\<close> and the release function mean to pass over a file that is gone, but the reader
  wraps that error, so that a missing file is an error like any other.\<close>

lemma missing_file_is_error:
  "ld_marker d n = None \<Longrightarrow>
     advance p c v False d k (ReleaseRead n after) = (d, k, Failed (lock_error ''reaper is unreadable''))"
  "ld_lock d = None \<Longrightarrow> advance p c v False d k FreeRead = (d, k, Freed (Some (lock_error ''is unreadable'')))"
  by (simp_all add: advance_def release_step_def)

section \<open>A reaper that died\<close>

text \<open>Two contenders, numbers from 100 on running, and the lock of a dead process.\<close>

definition sample_nonce :: "nat \<Rightarrow> string" where
  "sample_nonce n = replicate 32 (hex_digit n)"

definition sample_owner :: "int \<Rightarrow> nat \<Rightarrow> lock_owner" where
  "sample_owner pid n = \<lparr>loPid = pid, loNonce = sample_nonce n, loAcquiredAt = ''+0'', loIdentity = None\<rparr>"

definition sample_cast :: "nat \<Rightarrow> contender" where
  "sample_cast c = (let n = c mod 16 in
     \<lparr>ct_owner = sample_owner (100 + int n) n, ct_reaper = (\<lambda>k. sample_owner (100 + int n) n)\<rparr>)"

text \<open>Numbers from 100 on are running.\<close>

definition sample_os :: os_view where
  "sample_os = \<lparr>ov_linux = False, ov_kill = (\<lambda>pid. if pid < 100 then Some ''ESRCH'' else None),
     ov_boot_id = None, ov_stat = (\<lambda>_. None)\<rparr>"

definition stale_lock_dir :: lock_dir where
  "stale_lock_dir = \<lparr>ld_lock = Some (File 0 (Some (lock_body (sample_owner 1 14)))), ld_marker = Map.empty, ld_next = 2\<rparr>"

definition orphaned_marker_dir :: lock_dir where
  "orphaned_marker_dir = stale_lock_dir\<lparr>ld_marker :=
     [sample_nonce 14 \<mapsto> File 1 (Some (reaper_body (sample_nonce 14) (sample_owner 2 15)))]\<rparr>"

definition idle_system :: "lock_dir \<Rightarrow> lock_system" where
  "idle_system d = \<lparr>ls_dir = d, ls_local = Map.empty, ls_spawned = (\<lambda>_. False)\<rparr>"

definition acts :: "nat \<Rightarrow> nat \<Rightarrow> lock_event list" where
  "acts n c = replicate n (Act c sample_os False)"

definition orphaned_marker_schedule :: "lock_event list" where
  "orphaned_marker_schedule = [Spawn 0, Spawn 1] @ acts 7 0 @ acts 7 1 @ acts 8 0 @ acts 8 1 @ acts 5 0 @ acts 6 1"

text \<open>The race that shows why exclusion needs reapers that do not die.  Two contenders meet the lock of a dead process and the marker of
  a dead reaper.  The second one removes the marker it judged stale after the first one has already
  replaced it, so that both reap, and the second one unlinks the lock the first one has just taken: in
  the end both hold it.\<close>

lemma orphaned_marker_race:
  "let s = apply_events sample_platform sample_cast orphaned_marker_schedule (idle_system orphaned_marker_dir)
   in holding s 0 \<and> holding s 1"
  by code_simp

end
