(* ===== verification/LockSafety.thy ===== *)
theory LockSafety
  imports LockProtocol
begin

text \<open>
  Mutual exclusion of the state lock.  \<open>lock_reachable\<close> are the states any schedule can reach in which
  the operating system recognises live processes and no contender dies leaving a marker of its own;
  \<open>lock_inv\<close> is their invariant.  The second condition is needed: \<open>orphaned_marker_race\<close>.
\<close>

section \<open>Schedules\<close>

definition cast_ok :: "platform \<Rightarrow> (nat \<Rightarrow> contender) \<Rightarrow> bool" where
  "cast_ok p cast \<longleftrightarrow> (\<forall>c. wf_owner p (ct_owner (cast c)) \<and> (\<forall>k. wf_owner p (ct_reaper (cast c) k)))"

text \<open>A running process can be signalled, and \<open>/proc\<close> shows the identity it recorded or none.\<close>

definition recognised :: "os_view \<Rightarrow> lock_owner \<Rightarrow> bool" where
  "recognised v w \<longleftrightarrow> processIsAlive v (loPid w) \<and>
     (loIdentity w = None \<or> readProcessIdentity v (loPid w) = None \<or>
      readProcessIdentity v (loPid w) = loIdentity w)"

definition view_ok :: "(nat \<Rightarrow> contender) \<Rightarrow> lock_system \<Rightarrow> os_view \<Rightarrow> bool" where
  "view_ok cast s v \<longleftrightarrow> (\<forall>c. ls_local s c \<noteq> None \<longrightarrow>
     recognised v (ct_owner (cast c)) \<and> (\<forall>k. recognised v (ct_reaper (cast c) k)))"

definition left_marker :: "(nat \<Rightarrow> contender) \<Rightarrow> lock_system \<Rightarrow> nat \<Rightarrow> bool" where
  "left_marker cast s c \<longleftrightarrow>
     (\<exists>n i k. ld_marker (ls_dir s) n = Some (File i (Some (reaper_body n (ct_reaper (cast c) k)))))"

fun admissible :: "(nat \<Rightarrow> contender) \<Rightarrow> lock_event \<Rightarrow> lock_system \<Rightarrow> bool" where
  "admissible cast (Spawn c) s \<longleftrightarrow> True"
| "admissible cast (Act c v fault) s \<longleftrightarrow> view_ok cast s v"
| "admissible cast (Crash c) s \<longleftrightarrow> \<not> left_marker cast s c"

text \<open>A directory without markers; its lock, if there is one, can be anybody's.\<close>

definition fresh_dir :: "lock_dir \<Rightarrow> bool" where
  "fresh_dir d \<longleftrightarrow> ld_marker d = Map.empty \<and> (\<forall>f. ld_lock d = Some f \<longrightarrow> ino f < ld_next d)"

inductive lock_reachable :: "platform \<Rightarrow> (nat \<Rightarrow> contender) \<Rightarrow> lock_system \<Rightarrow> bool" for p cast where
  start: "fresh_dir d \<Longrightarrow> lock_reachable p cast (idle_system d)"
| step: "lock_reachable p cast s \<Longrightarrow> admissible cast e s \<Longrightarrow> lock_reachable p cast (apply_event p cast e s)"

section \<open>The invariant\<close>

text \<open>The contender's own lock is published.\<close>

fun owns :: "lock_pc \<Rightarrow> bool" where
  "owns Published = True"
| "owns UndoRead = True"
| "owns UndoUnlink = True"
| "owns Holding = True"
| "owns FreeRead = True"
| "owns FreeUnlink = True"
| "owns _ = False"

text \<open>Its marker for generation \<open>n\<close> is.\<close>

fun claims :: "lock_pc \<Rightarrow> string option" where
  "claims (MarkerSync f n) = Some n"
| "claims (ReapCheck f n) = Some n"
| "claims (ReapUnlink f n) = Some n"
| "claims (ReleaseRead n e) = Some n"
| "claims (ReleaseUnlink n e) = Some n"
| "claims _ = None"

text \<open>The lock it judged stale.\<close>

fun target :: "lock_pc \<Rightarrow> (inode_file \<times> string) option" where
  "target (MarkerLink f n) = Some (f, n)"
| "target (MarkerSync f n) = Some (f, n)"
| "target (ReapCheck f n) = Some (f, n)"
| "target (ReapUnlink f n) = Some (f, n)"
| "target _ = None"

fun observed :: "lock_pc \<Rightarrow> inode_file option" where
  "observed (Judge f) = Some f"
| "observed pc = map_option fst (target pc)"

fun seen :: "lock_pc \<Rightarrow> (string \<times> inode_file) option" where
  "seen (MarkerJudge n m) = Some (n, m)"
| "seen (MarkerSame n m) = Some (n, m)"
| "seen _ = None"

text \<open>An inode keeps its content.\<close>

definition keeps :: "inode_file \<Rightarrow> inode_file option \<Rightarrow> bool" where
  "keeps f now \<longleftrightarrow> (\<forall>g. now = Some g \<longrightarrow> ino g = ino f \<longrightarrow> g = f)"

definition absent :: "inode_file \<Rightarrow> inode_file option \<Rightarrow> bool" where
  "absent f now \<longleftrightarrow> (\<forall>g. now = Some g \<longrightarrow> ino g \<noteq> ino f)"

definition local_ok :: "platform \<Rightarrow> contender \<Rightarrow> lock_dir \<Rightarrow> nat \<Rightarrow> lock_pc \<Rightarrow> bool" where
  "local_ok p c d k pc \<longleftrightarrow>
     (owns pc \<longrightarrow> (\<exists>i. ld_lock d = Some (File i (Some (lock_body (ct_owner c)))))) \<and>
     (\<forall>n. claims pc = Some n \<longrightarrow> (\<exists>i. ld_marker d n = Some (File i (Some (reaper_body n (ct_reaper c k)))))) \<and>
     (\<forall>f. observed pc = Some f \<longrightarrow> ino f < ld_next d \<and> keeps f (ld_lock d)) \<and>
     (\<forall>f n. target pc = Some (f, n) \<longrightarrow> (\<exists>w. readLockOwner p (content f) = Inr w \<and> loNonce w = n)) \<and>
     (\<forall>f n. pc = ReapUnlink f n \<longrightarrow> ld_lock d = Some f) \<and>
     (\<forall>n m. seen pc = Some (n, m) \<longrightarrow> ino m < ld_next d \<and> keeps m (ld_marker d n)) \<and>
     (\<forall>n m. pc = MarkerSame n m \<longrightarrow> absent m (ld_marker d n)) \<and>
     (\<forall>n. pc \<noteq> MarkerUnlink n)"

text \<open>Two contenders: one lock, one reaper per generation, and a lock that is owned is nobody's target.\<close>

definition clear :: "lock_dir \<Rightarrow> lock_pc \<Rightarrow> bool" where
  "clear d pc \<longleftrightarrow> (\<forall>f n. target pc = Some (f, n) \<longrightarrow> absent f (ld_lock d))"

definition apart :: "lock_dir \<Rightarrow> lock_pc \<Rightarrow> lock_pc \<Rightarrow> bool" where
  "apart d pc pc' \<longleftrightarrow> \<not> (owns pc \<and> owns pc') \<and> (claims pc = None \<or> claims pc \<noteq> claims pc') \<and>
     (owns pc \<longrightarrow> clear d pc') \<and> (owns pc' \<longrightarrow> clear d pc)"

definition at :: "lock_system \<Rightarrow> nat \<Rightarrow> nat \<Rightarrow> lock_pc \<Rightarrow> bool" where
  "at s c k pc \<longleftrightarrow> ls_local s c = Some (k, pc)"

definition numbered :: "lock_dir \<Rightarrow> bool" where
  "numbered d \<longleftrightarrow> (\<forall>f. ld_lock d = Some f \<longrightarrow> ino f < ld_next d) \<and>
     (\<forall>n m. ld_marker d n = Some m \<longrightarrow> ino m < ld_next d)"

text \<open>Every marker is the one of a live contender.\<close>

definition attended :: "(nat \<Rightarrow> contender) \<Rightarrow> lock_system \<Rightarrow> string \<Rightarrow> inode_file \<Rightarrow> bool" where
  "attended cast s n m \<longleftrightarrow>
     (\<exists>c k. ls_local s c \<noteq> None \<and> content m = Some (reaper_body n (ct_reaper (cast c) k)))"

definition lock_inv :: "platform \<Rightarrow> (nat \<Rightarrow> contender) \<Rightarrow> lock_system \<Rightarrow> bool" where
  "lock_inv p cast s \<longleftrightarrow> numbered (ls_dir s) \<and>
     (\<forall>c k pc. at s c k pc \<longrightarrow> local_ok p (cast c) (ls_dir s) k pc) \<and>
     (\<forall>c k pc c' k' pc'. at s c k pc \<longrightarrow> at s c' k' pc' \<longrightarrow> c \<noteq> c' \<longrightarrow> apart (ls_dir s) pc pc') \<and>
     (\<forall>n m. ld_marker (ls_dir s) n = Some m \<longrightarrow> attended cast s n m)"

text \<open>The result of a step of contender \<open>c\<close>.\<close>

definition moved :: "lock_system \<Rightarrow> nat \<Rightarrow> lock_dir \<times> nat \<times> lock_pc \<Rightarrow> lock_system" where
  "moved s c r = s\<lparr>ls_dir := fst r, ls_local := (ls_local s)(c \<mapsto> snd r)\<rparr>"

lemma moved_simps [simp]:
  "ls_dir (moved s c r) = fst r"
  "at (moved s c (d, k, pc)) c' k' pc' \<longleftrightarrow> (if c' = c then k' = k \<and> pc' = pc else at s c' k' pc')"
  by (auto simp: moved_def at_def)

lemma owns_not_target: "owns pc \<Longrightarrow> target pc = None"
  by (cases pc) auto

lemma apart_sym: "apart d pc pc' \<Longrightarrow> apart d pc' pc"
  by (auto simp: apart_def)

lemma inv_numbered: "lock_inv p cast s \<Longrightarrow> numbered (ls_dir s)"
  by (simp add: lock_inv_def)

lemma inv_local: "lock_inv p cast s \<Longrightarrow> at s c k pc \<Longrightarrow> local_ok p (cast c) (ls_dir s) k pc"
  by (simp add: lock_inv_def)

lemma inv_apart: "lock_inv p cast s \<Longrightarrow> at s c k pc \<Longrightarrow> at s c' k' pc' \<Longrightarrow> c \<noteq> c' \<Longrightarrow> apart (ls_dir s) pc pc'"
  unfolding lock_inv_def by blast

lemma inv_attended: "lock_inv p cast s \<Longrightarrow> ld_marker (ls_dir s) n = Some m \<Longrightarrow> attended cast s n m"
  by (simp add: lock_inv_def)

lemma attended_moved: "attended cast s n m \<Longrightarrow> attended cast (moved s c r) n m"
  by (auto simp: attended_def moved_def)

lemma inv_moved:
  assumes inv: "lock_inv p cast s"
    and "numbered d'" "local_ok p (cast c) d' k' pc'"
    and others: "\<And>c2 k2 pc2. c2 \<noteq> c \<Longrightarrow> at s c2 k2 pc2 \<Longrightarrow> local_ok p (cast c2) d' k2 pc2 \<and> apart d' pc' pc2"
    and clear: "\<And>c2 k2 pc2. at s c2 k2 pc2 \<Longrightarrow> clear (ls_dir s) pc2 \<Longrightarrow> clear d' pc2"
    and markers: "\<And>n m. ld_marker d' n = Some m \<Longrightarrow> ld_marker (ls_dir s) n = Some m \<or>
      content m = Some (reaper_body n (ct_reaper (cast c) k'))"
  shows "lock_inv p cast (moved s c (d', k', pc'))"
  unfolding lock_inv_def moved_simps fst_conv
proof (intro conjI allI impI)
  show "numbered d'" by fact
next
  fix c2 k2 pc2
  assume "if c2 = c then k2 = k' \<and> pc2 = pc' else at s c2 k2 pc2"
  then show "local_ok p (cast c2) d' k2 pc2" using assms(3) others by (auto split: if_splits)
next
  fix c2 k2 pc2 c3 k3 pc3
  assume a: "if c2 = c then k2 = k' \<and> pc2 = pc' else at s c2 k2 pc2"
    "if c3 = c then k3 = k' \<and> pc3 = pc' else at s c3 k3 pc3" "c2 \<noteq> c3"
  then consider "c2 = c" "pc2 = pc'" "c3 \<noteq> c" "at s c3 k3 pc3" | "c3 = c" "pc3 = pc'" "c2 \<noteq> c" "at s c2 k2 pc2"
    | "at s c2 k2 pc2" "at s c3 k3 pc3" by (auto split: if_splits)
  then show "apart d' pc2 pc3"
  proof cases
    case 3
    then show ?thesis using inv_apart [OF inv 3 a(3)] clear unfolding apart_def by blast
  qed (use others apart_sym in blast)+
next
  fix n m
  assume "ld_marker d' n = Some m"
  from markers [OF this] show "attended cast (moved s c (d', k', pc')) n m"
  proof
    assume m: "content m = Some (reaper_body n (ct_reaper (cast c) k'))"
    show ?thesis
      unfolding attended_def by (rule exI [of _ c], rule exI [of _ k']) (simp add: m moved_def)
  qed (rule attended_moved [OF inv_attended [OF inv]])
qed

section \<open>What the others see of a step\<close>

lemma local_ok_dir:
  "local_ok p c d k pc \<Longrightarrow> ld_lock d' = ld_lock d \<Longrightarrow> ld_marker d' = ld_marker d \<Longrightarrow> ld_next d \<le> ld_next d' \<Longrightarrow>
     local_ok p c d' k pc"
  by (auto simp: local_ok_def intro: order_less_le_trans)

lemma inv_same_dir:
  assumes inv: "lock_inv p cast s" and here: "at s c k pc"
    and dir: "ld_lock d' = ld_lock (ls_dir s)" "ld_marker d' = ld_marker (ls_dir s)" "ld_next (ls_dir s) \<le> ld_next d'"
    and ok: "local_ok p (cast c) d' k' pc'"
    and "owns pc' \<Longrightarrow> owns pc"
    and "claims pc' = None \<or> claims pc' = claims pc"
    and "target pc' = None \<or> target pc' = target pc \<or>
      (\<forall>c2 k2 pc2. at s c2 k2 pc2 \<longrightarrow> owns pc2 \<longrightarrow> clear (ls_dir s) pc')"
  shows "lock_inv p cast (moved s c (d', k', pc'))"
proof (rule inv_moved [OF inv _ ok])
  show "numbered d'"
    using inv_numbered [OF inv] dir by (auto simp: numbered_def intro: order_less_le_trans)
  have clear: "clear d' = clear (ls_dir s)"
    using dir(1) by (simp add: clear_def fun_eq_iff)
  fix c2 k2 pc2
  assume a: "c2 \<noteq> c" "at s c2 k2 pc2"
  have "apart (ls_dir s) pc pc2" using inv_apart [OF inv here a(2)] a(1) by blast
  moreover have "target pc' = None \<Longrightarrow> clear (ls_dir s) pc'" "target pc' = target pc \<Longrightarrow> clear (ls_dir s) pc' = clear (ls_dir s) pc"
    by (simp_all add: clear_def)
  ultimately have "apart d' pc' pc2"
    using assms(7-9) a(2) unfolding apart_def clear by metis
  with local_ok_dir [OF inv_local [OF inv a(2)] dir]
  show "local_ok p (cast c2) d' k2 pc2 \<and> apart d' pc' pc2" by simp
qed (use dir in \<open>auto simp: clear_def\<close>)

lemma keeps_fresh: "ino f < i \<Longrightarrow> keeps f (Some (File i x))"
  by (auto simp: keeps_def)

lemma absent_fresh: "ino f < i \<Longrightarrow> absent f (Some (File i x))"
  by (auto simp: absent_def)

lemma local_bounds:
  assumes "local_ok p c d k pc"
  shows "observed pc = Some f \<Longrightarrow> ino f < ld_next d" "seen pc = Some (n, m) \<Longrightarrow> ino m < ld_next d"
    "target pc = Some (f, n) \<Longrightarrow> ino f < ld_next d"
  using assms by (cases pc; auto simp: local_ok_def)+

lemma inv_publish_lock:
  assumes inv: "lock_inv p cast s" and here: "at s c k TryLink" and none: "ld_lock (ls_dir s) = None"
  shows "lock_inv p cast (moved s c (publish_lock (cast c) (ls_dir s), k, Published))"
proof (rule inv_moved [OF inv])
  let ?d = "publish_lock (cast c) (ls_dir s)"
  show "numbered ?d"
    using inv_numbered [OF inv] by (auto simp: numbered_def publish_lock_def less_Suc_eq)
  show "local_ok p (cast c) ?d k Published"
    by (simp add: local_ok_def publish_lock_def)
  show clear: "clear ?d pc2" if "at s c2 k2 pc2" for c2 k2 pc2
    using local_bounds(3) [OF inv_local [OF inv that]] by (auto simp: clear_def publish_lock_def intro: absent_fresh)
  fix c2 k2 pc2
  assume a: "c2 \<noteq> c" "at s c2 k2 pc2"
  note l = inv_local [OF inv a(2)]
  have "local_ok p (cast c2) ?d k2 pc2"
    using l none by (auto simp: local_ok_def publish_lock_def keeps_fresh less_Suc_eq)
  moreover have "\<not> owns pc2" using l none by (auto simp: local_ok_def)
  ultimately show "local_ok p (cast c2) ?d k2 pc2 \<and> apart ?d Published pc2"
    using clear [OF a(2)] by (simp add: apart_def)
qed (simp add: publish_lock_def)

lemma unlinked_lock_ok:
  assumes "local_ok p c d k pc" "\<not> owns pc" "\<And>f n. pc \<noteq> ReapUnlink f n"
  shows "local_ok p c (unlink_lock d) k pc"
  using assms by (auto simp: local_ok_def unlink_lock_def keeps_def)

lemma inv_unlink_lock:
  assumes inv: "lock_inv p cast s" and here: "at s c k pc"
    and pc: "owns pc \<or> (\<exists>f n. pc = ReapUnlink f n)"
    and pc': "local_ok p (cast c) (unlink_lock (ls_dir s)) k pc'" "\<not> owns pc'" "target pc' = None"
      "claims pc' = None \<or> claims pc' = claims pc"
  shows "lock_inv p cast (moved s c (unlink_lock (ls_dir s), k, pc'))"
proof (rule inv_moved [OF inv _ pc'(1)])
  show "numbered (unlink_lock (ls_dir s))"
    using inv_numbered [OF inv] by (simp add: numbered_def unlink_lock_def)
  fix c2 k2 pc2
  assume a: "c2 \<noteq> c" "at s c2 k2 pc2"
  have ap: "apart (ls_dir s) pc pc2" using inv_apart [OF inv here a(2)] a(1) by simp
  note l = inv_local [OF inv a(2)] and l1 = inv_local [OF inv here]
  have "\<not> owns pc2 \<and> (\<forall>f n. pc2 \<noteq> ReapUnlink f n)"
  proof (cases "owns pc")
    case True
    then show ?thesis using ap l by (auto simp: apart_def clear_def local_ok_def absent_def)
  next
    case False
    then obtain f n where f: "pc = ReapUnlink f n" using pc by blast
    then have lock: "ld_lock (ls_dir s) = Some f" and n: "\<exists>w. readLockOwner p (content f) = Inr w \<and> loNonce w = n"
      using l1 by (simp_all add: local_ok_def)
    have "\<not> owns pc2" using ap lock by (auto simp: f apart_def clear_def absent_def)
    moreover have "pc2 \<noteq> ReapUnlink f2 n2" for f2 n2
    proof
      assume b: "pc2 = ReapUnlink f2 n2"
      then have "f2 = f" and "\<exists>w. readLockOwner p (content f2) = Inr w \<and> loNonce w = n2"
        using l lock by (simp_all add: local_ok_def)
      with n have "n2 = n" by auto
      with ap show False by (simp add: apart_def f b)
    qed
    ultimately show ?thesis by blast
  qed
  then have "local_ok p (cast c2) (unlink_lock (ls_dir s)) k2 pc2" "\<not> owns pc2"
    using l by (simp_all add: unlinked_lock_ok)
  moreover have "claims pc' = None \<or> claims pc' \<noteq> claims pc2"
    using pc'(4) ap by (auto simp: apart_def)
  ultimately show "local_ok p (cast c2) (unlink_lock (ls_dir s)) k2 pc2 \<and> apart (unlink_lock (ls_dir s)) pc' pc2"
    using pc'(2) by (simp add: apart_def)
qed (simp_all add: unlink_lock_def clear_def absent_def)

lemma inv_publish_marker:
  assumes inv: "lock_inv p cast s" and here: "at s c k (MarkerLink f n)" and none: "ld_marker (ls_dir s) n = None"
  shows "lock_inv p cast (moved s c (publish_marker (cast c) k n (ls_dir s), k, MarkerSync f n))"
proof (rule inv_moved [OF inv])
  let ?d = "publish_marker (cast c) k n (ls_dir s)"
  show "numbered ?d"
    using inv_numbered [OF inv] by (auto simp: numbered_def publish_marker_def less_Suc_eq)
  show "local_ok p (cast c) ?d k (MarkerSync f n)"
    using inv_local [OF inv here] by (auto simp: local_ok_def publish_marker_def)
  have clear: "clear ?d = clear (ls_dir s)"
    by (simp add: clear_def fun_eq_iff publish_marker_def)
  fix c2 k2 pc2
  assume a: "c2 \<noteq> c" "at s c2 k2 pc2"
  note l = inv_local [OF inv a(2)]
  have "local_ok p (cast c2) ?d k2 pc2"
    using l none by (auto simp: local_ok_def publish_marker_def keeps_fresh absent_fresh less_Suc_eq)
  moreover have "claims pc2 \<noteq> Some n" using l none by (auto simp: local_ok_def)
  ultimately show "local_ok p (cast c2) ?d k2 pc2 \<and> apart ?d (MarkerSync f n) pc2"
    using inv_apart [OF inv here a(2)] a(1) by (auto simp: apart_def clear clear_def)
qed (auto simp: publish_marker_def clear_def split: if_splits)

lemma unlinked_marker_ok:
  "local_ok p c d k pc \<Longrightarrow> claims pc \<noteq> Some n \<Longrightarrow> local_ok p c (unlink_marker n d) k pc"
  by (cases pc) (simp_all add: local_ok_def unlink_marker_def keeps_def absent_def)

lemma inv_unlink_marker:
  assumes inv: "lock_inv p cast s" and here: "at s c k pc" and n: "claims pc = Some n"
    and pc': "local_ok p (cast c) (unlink_marker n (ls_dir s)) k pc'" "\<not> owns pc'" "target pc' = None" "claims pc' = None"
  shows "lock_inv p cast (moved s c (unlink_marker n (ls_dir s), k, pc'))"
proof (rule inv_moved [OF inv _ pc'(1)])
  show "numbered (unlink_marker n (ls_dir s))"
    using inv_numbered [OF inv] by (simp add: numbered_def unlink_marker_def)
  fix c2 k2 pc2
  assume a: "c2 \<noteq> c" "at s c2 k2 pc2"
  have "claims pc2 \<noteq> Some n" using inv_apart [OF inv here a(2)] a(1) n by (auto simp: apart_def)
  then have "local_ok p (cast c2) (unlink_marker n (ls_dir s)) k2 pc2"
    using inv_local [OF inv a(2)] by (simp add: unlinked_marker_ok)
  then show "local_ok p (cast c2) (unlink_marker n (ls_dir s)) k2 pc2 \<and> apart (unlink_marker n (ls_dir s)) pc' pc2"
    using pc' by (simp add: apart_def clear_def)
qed (auto simp: unlink_marker_def clear_def split: if_splits)

section \<open>Every step keeps the invariant\<close>

definition plain :: "lock_pc \<Rightarrow> bool" where
  "plain pc \<longleftrightarrow> \<not> owns pc \<and> claims pc = None \<and> target pc = None \<and> observed pc = None \<and> seen pc = None \<and>
     (\<forall>n. pc \<noteq> MarkerUnlink n)"

lemma plain_ok: "plain pc \<Longrightarrow> local_ok p c d k pc"
  by (auto simp: plain_def local_ok_def)

lemma plain_simps [simp]:
  "plain TryLink" "plain Observe" "plain (MarkerObserve n)" "plain MarkerClean" "plain ReapClean"
  "plain FreeClean" "plain (Freed e)" "plain (Failed e')"
  by (simp_all add: plain_def)

lemma plain_retry [simp]: "plain (snd (retry k))"
  by (simp add: retry_def)

lemma plain_released [simp]: "plain (released after)"
  by (simp add: released_def split: option.split)

lemma inv_plain:
  assumes "lock_inv p cast s" "at s c k pc" "ld_lock d' = ld_lock (ls_dir s)" "ld_marker d' = ld_marker (ls_dir s)"
    "ld_next (ls_dir s) \<le> ld_next d'" "plain pc'"
  shows "lock_inv p cast (moved s c (d', k', pc'))"
  using assms by (intro inv_same_dir [OF assms(1-5) plain_ok]) (simp_all add: plain_def)

lemma inv_stay:
  assumes "lock_inv p cast s" "at s c k pc" "local_ok p (cast c) (ls_dir s) k' pc'" "owns pc' \<Longrightarrow> owns pc"
    "claims pc' = None \<or> claims pc' = claims pc" "target pc' = None \<or> target pc' = target pc"
  shows "lock_inv p cast (moved s c (ls_dir s, k', pc'))"
  by (rule inv_same_dir [OF assms(1,2)]) (use assms(3-) in auto)

lemma recognised_owns: "recognised v w \<Longrightarrow> processStillOwnsLock v w"
  by (auto simp: recognised_def processStillOwnsLock_def split: option.split)

lemma recognised_reaper: "recognised v w \<Longrightarrow> processStillOwnsLock v (with_target w t)"
  by (auto simp: recognised_def processStillOwnsLock_def split: option.split)

lemma own_lock_read:
  assumes "cast_ok p cast" "local_ok p (cast c) d k pc" "owns pc"
  shows "\<exists>i. ld_lock d = Some (File i (Some (lock_body (ct_owner (cast c))))) \<and>
    readLockOwner p (Some (lock_body (ct_owner (cast c)))) = Inr (ct_owner (cast c))"
  using assms by (auto simp: local_ok_def lock_body_read cast_ok_def)

lemma inv_judged:
  assumes inv: "lock_inv p cast s" and ok: "cast_ok p cast" "view_ok cast s v" and here: "at s c k (Judge f)"
    and read: "readLockOwner p (content f) = Inr w" and stale: "\<not> processStillOwnsLock v w"
  shows "lock_inv p cast (moved s c (ls_dir s, k, MarkerLink f (loNonce w)))"
proof (rule inv_same_dir [OF inv here])
  have f: "ino f < ld_next (ls_dir s)" "keeps f (ld_lock (ls_dir s))"
    using inv_local [OF inv here] by (simp_all add: local_ok_def)
  with read show "local_ok p (cast c) (ls_dir s) k (MarkerLink f (loNonce w))"
    by (simp add: local_ok_def)
  have "clear (ls_dir s) (MarkerLink f (loNonce w))" if a: "at s c2 k2 pc2" "owns pc2" for c2 k2 pc2
  proof -
    obtain i where i: "ld_lock (ls_dir s) = Some (File i (Some (lock_body (ct_owner (cast c2)))))"
        "readLockOwner p (Some (lock_body (ct_owner (cast c2)))) = Inr (ct_owner (cast c2))"
      using own_lock_read [OF ok(1) inv_local [OF inv a(1)] a(2)] by blast
    have "recognised v (ct_owner (cast c2))"
      using ok(2) a(1) by (auto simp: view_ok_def at_def)
    then have "w \<noteq> ct_owner (cast c2)" using stale recognised_owns by blast
    then have "i \<noteq> ino f" using f(2) i read by (cases f) (auto simp: keeps_def)
    then show ?thesis by (simp add: clear_def absent_def i(1))
  qed
  then show "target (MarkerLink f (loNonce w)) = None \<or> target (MarkerLink f (loNonce w)) = target (Judge f) \<or>
      (\<forall>c2 k2 pc2. at s c2 k2 pc2 \<longrightarrow> owns pc2 \<longrightarrow> clear (ls_dir s) (MarkerLink f (loNonce w)))" by blast
qed simp_all

lemma reaper_body_target:
  assumes "readReaperOwner p (Some (reaper_body t w)) = Inr r" "wf_owner p w"
  shows "r = with_target w t"
proof -
  have "is_nonce t"
    using assms(1) by (auto simp: readReaperOwner_iff reaper_body_def has_prop_def)
  with reaper_body_read [of p t w] assms show ?thesis by simp
qed

lemma marker_attended:
  assumes "lock_inv p cast s" "cast_ok p cast" "view_ok cast s v" "ld_marker (ls_dir s) n = Some m"
    and read: "readReaperOwner p (content m) = Inr r"
  shows "processStillOwnsLock v r"
proof -
  obtain c k where c: "ls_local s c \<noteq> None" "content m = Some (reaper_body n (ct_reaper (cast c) k))"
    using inv_attended [OF assms(1,4)] by (auto simp: attended_def)
  then have "recognised v (ct_reaper (cast c) k)" using assms(3) by (simp add: view_ok_def)
  moreover have "r = with_target (ct_reaper (cast c) k) n"
    using reaper_body_target read c(2) assms(2) by (simp add: cast_ok_def)
  ultimately show ?thesis using recognised_reaper by simp
qed

lemma inv_marker_judged:
  assumes inv: "lock_inv p cast s" and ok: "cast_ok p cast" "view_ok cast s v" and here: "at s c k (MarkerJudge n m)"
    and read: "readReaperOwner p (content m) = Inr r" and stale: "\<not> processStillOwnsLock v r"
  shows "lock_inv p cast (moved s c (ls_dir s, k, MarkerSame n m))"
proof (rule inv_stay [OF inv here])
  have m: "ino m < ld_next (ls_dir s)" "keeps m (ld_marker (ls_dir s) n)"
    using inv_local [OF inv here] by (simp_all add: local_ok_def)
  moreover have "ld_marker (ls_dir s) n \<noteq> Some m"
    using marker_attended [OF inv ok _ read] stale by blast
  ultimately show "local_ok p (cast c) (ls_dir s) k (MarkerSame n m)"
    by (auto simp: local_ok_def keeps_def absent_def)
qed simp_all

lemma inv_marker_step:
  assumes inv: "lock_inv p cast s" and ok: "cast_ok p cast" "view_ok cast s v" and here: "at s c k pc"
    and pc: "case pc of MarkerLink f n \<Rightarrow> True | MarkerSync f n \<Rightarrow> True | MarkerObserve n \<Rightarrow> True
      | MarkerJudge n m \<Rightarrow> True | MarkerSame n m \<Rightarrow> True | MarkerUnlink n \<Rightarrow> True | MarkerClean \<Rightarrow> True | _ \<Rightarrow> False"
  shows "lock_inv p cast (moved s c (marker_step p (cast c) v fault (ls_dir s) k pc))"
proof -
  note plain = inv_plain [OF inv here] and l = inv_local [OF inv here]
  have retry: "lock_inv p cast (moved s c (ls_dir s, retry k))"
    using plain [of "ls_dir s" "snd (retry k)" "fst (retry k)"] by simp
  show ?thesis
  proof (cases pc)
    case (MarkerLink f n)
    then show ?thesis using plain inv_publish_marker [OF inv] here
      by (auto simp: marker_step_def waste_def split: option.split)
  next
    case (MarkerSync f n)
    have "lock_inv p cast (moved s c (ls_dir s, k, ReleaseRead n (Some io_error)))"
      "lock_inv p cast (moved s c (ls_dir s, k, ReapCheck f n))"
      using l by (intro inv_stay [OF inv here]; auto simp: MarkerSync local_ok_def)+
    then show ?thesis by (simp add: MarkerSync marker_step_def)
  next
    case (MarkerObserve n)
    have "lock_inv p cast (moved s c (ls_dir s, k, MarkerJudge n m))" if "ld_marker (ls_dir s) n = Some m" for m
      using that inv_numbered [OF inv]
      by (intro inv_stay [OF inv here]) (auto simp: local_ok_def keeps_def numbered_def)
    then show ?thesis using plain retry by (auto simp: MarkerObserve marker_step_def split: option.split)
  next
    case (MarkerJudge n m)
    then show ?thesis using plain inv_marker_judged [OF inv ok] here
      by (auto simp: marker_step_def split: sum.split)
  next
    case (MarkerSame n m)
    then show ?thesis using plain retry l
      by (auto simp: marker_step_def local_ok_def absent_def split: option.split)
  next
    case (MarkerUnlink n)
    then show ?thesis using l by (simp add: local_ok_def)
  next
    case MarkerClean
    then show ?thesis using plain retry by (simp add: marker_step_def)
  qed (use pc in auto)
qed

lemma inv_release_step:
  assumes inv: "lock_inv p cast s" and here: "at s c k pc"
    and pc: "case pc of ReleaseRead n e \<Rightarrow> True | ReleaseUnlink n e \<Rightarrow> True | ReapClean \<Rightarrow> True | _ \<Rightarrow> False"
  shows "lock_inv p cast (moved s c (release_step p (cast c) fault (ls_dir s) k pc))"
proof -
  note plain = inv_plain [OF inv here] and l = inv_local [OF inv here]
  have retry: "lock_inv p cast (moved s c (ls_dir s, retry k))"
    using plain [of "ls_dir s" "snd (retry k)" "fst (retry k)"] by simp
  show ?thesis
  proof (cases pc)
    case (ReleaseRead n e)
    have "lock_inv p cast (moved s c (ls_dir s, k, ReleaseUnlink n e))"
      using l by (intro inv_stay [OF inv here]) (auto simp: ReleaseRead local_ok_def)
    then show ?thesis using plain by (auto simp: ReleaseRead release_step_def split: option.split sum.split)
  next
    case (ReleaseUnlink n e)
    have "lock_inv p cast (moved s c (unlink_marker n (ls_dir s), k, released e))"
      using plain_released [of e] by (intro inv_unlink_marker [OF inv here]) (simp_all add: ReleaseUnlink plain_def plain_ok)
    then show ?thesis using plain by (simp add: ReleaseUnlink release_step_def)
  next
    case ReapClean
    then show ?thesis using plain retry by (simp add: release_step_def)
  qed (use pc in auto)
qed

lemma inv_advance:
  assumes inv: "lock_inv p cast s" and ok: "cast_ok p cast" "view_ok cast s v" and here: "at s c k pc"
  shows "lock_inv p cast (moved s c (advance p (cast c) v fault (ls_dir s) k pc))"
proof -
  note plain = inv_plain [OF inv here] and l = inv_local [OF inv here]
  have retry: "lock_inv p cast (moved s c (ls_dir s, retry k))"
    using plain [of "ls_dir s" "snd (retry k)" "fst (retry k)"] by simp
  have owned: "lock_inv p cast (moved s c (ls_dir s, k, pc'))" if "owns pc" "owns pc'" for pc'
    using that l by (intro inv_stay [OF inv here]; cases pc') (auto simp: local_ok_def)
  have unlinked: "lock_inv p cast (moved s c (unlink_lock (ls_dir s), k, pc'))" if "owns pc" "plain pc'" for pc'
    using that by (intro inv_unlink_lock [OF inv here]) (simp_all add: plain_def plain_ok)
  show ?thesis
  proof (cases pc)
    case TryLink
    then show ?thesis using plain inv_publish_lock [OF inv] here
      by (auto simp: advance_def waste_def split: option.split)
  next
    case Published
    then show ?thesis using owned by (simp add: advance_def)
  next
    case UndoRead
    then show ?thesis using owned plain by (auto simp: advance_def split: option.split sum.split)
  next
    case UndoUnlink
    then show ?thesis using unlinked plain by (simp add: advance_def)
  next
    case Observe
    have "lock_inv p cast (moved s c (ls_dir s, k, Judge f))" if "ld_lock (ls_dir s) = Some f" for f
      using that inv_numbered [OF inv]
      by (intro inv_stay [OF inv here]) (auto simp: local_ok_def keeps_def numbered_def)
    then show ?thesis using plain retry by (auto simp: Observe advance_def split: option.split)
  next
    case (Judge f)
    then show ?thesis using plain inv_judged [OF inv ok] here by (auto simp: advance_def split: sum.split)
  next
    case (ReapCheck f n)
    have "lock_inv p cast (moved s c (ls_dir s, k, ReapUnlink f n))"
      if "ld_lock (ls_dir s) = Some g" "ino g = ino f" for g
      using that l by (intro inv_stay [OF inv here]) (auto simp: ReapCheck local_ok_def keeps_def)
    moreover have "lock_inv p cast (moved s c (ls_dir s, k, ReleaseRead n e))" for e
      using l by (intro inv_stay [OF inv here]) (auto simp: ReapCheck local_ok_def)
    ultimately show ?thesis by (auto simp: ReapCheck advance_def split: option.split)
  next
    case (ReapUnlink f n)
    have "lock_inv p cast (moved s c (ls_dir s, k, ReleaseRead n e))" for e
      using l by (intro inv_stay [OF inv here]) (auto simp: ReapUnlink local_ok_def)
    moreover have "lock_inv p cast (moved s c (unlink_lock (ls_dir s), k, ReleaseRead n None))"
      using l by (intro inv_unlink_lock [OF inv here]) (auto simp: ReapUnlink local_ok_def unlink_lock_def)
    ultimately show ?thesis by (simp add: ReapUnlink advance_def)
  next
    case Holding
    then show ?thesis using owned by (simp add: advance_def)
  next
    case FreeRead
    then show ?thesis using owned plain by (auto simp: advance_def split: option.split sum.split)
  next
    case FreeUnlink
    then show ?thesis using unlinked plain by (simp add: advance_def)
  qed (use plain inv_marker_step [OF inv ok here] inv_release_step [OF inv here] in \<open>simp_all add: advance_def\<close>)
qed

lemma apply_act: "apply_event p cast (Act c v fault) s =
    (case ls_local s c of None \<Rightarrow> s | Some (k, pc) \<Rightarrow> moved s c (advance p (cast c) v fault (ls_dir s) k pc))"
  by (simp add: moved_def split: option.split prod.split)

lemma apart_plain: "plain pc \<Longrightarrow> apart d pc pc'" "plain pc' \<Longrightarrow> apart d pc pc'"
  by (auto simp: plain_def apart_def clear_def)

text \<open>A start or a death leaves the directory as it is.\<close>

lemma inv_population:
  assumes inv: "lock_inv p cast s" and dir: "ls_dir s' = ls_dir s"
    and locals: "\<And>c k pc. at s' c k pc \<Longrightarrow> at s c k pc \<or> plain pc"
    and markers: "\<And>n m. ld_marker (ls_dir s) n = Some m \<Longrightarrow> attended cast s' n m"
  shows "lock_inv p cast s'"
  unfolding lock_inv_def dir
proof (intro conjI allI impI)
  show "local_ok p (cast c) (ls_dir s) k pc" if "at s' c k pc" for c k pc
    using locals [OF that] inv_local [OF inv] plain_ok by blast
  show "apart (ls_dir s) pc pc'" if "at s' c k pc" "at s' c' k' pc'" "c \<noteq> c'" for c k pc c' k' pc'
    using locals [OF that(1)] locals [OF that(2)] inv_apart [OF inv _ _ that(3)] apart_plain by blast
qed (use inv_numbered [OF inv] markers in simp_all)

lemma inv_event:
  assumes inv: "lock_inv p cast s" and ok: "cast_ok p cast" and "admissible cast e s"
  shows "lock_inv p cast (apply_event p cast e s)"
proof (cases e)
  case (Spawn c)
  have "attended cast (s\<lparr>ls_local := (ls_local s)(c \<mapsto> x), ls_spawned := y\<rparr>) n m"
    if "ld_marker (ls_dir s) n = Some m" for n m x y
    using inv_attended [OF inv that] by (auto simp: attended_def)
  then show ?thesis
    unfolding Spawn using inv by (auto simp: at_def intro!: inv_population [OF inv] split: if_splits)
next
  case (Act c v fault)
  then show ?thesis
    using inv ok assms(3) inv_advance [OF inv ok]
    by (auto simp: apply_act at_def simp del: apply_event.simps split: option.split)
next
  case (Crash c)
  have "attended cast (s\<lparr>ls_local := (ls_local s)(c := None)\<rparr>) n m"
    if m: "ld_marker (ls_dir s) n = Some m" for n m
  proof -
    obtain c2 k where c2: "ls_local s c2 \<noteq> None" "content m = Some (reaper_body n (ct_reaper (cast c2) k))"
      using inv_attended [OF inv m] by (auto simp: attended_def)
    with m assms(3) have "c2 \<noteq> c" by (cases m) (auto simp: Crash left_marker_def)
    with c2 show ?thesis by (auto simp: attended_def)
  qed
  then show ?thesis
    unfolding Crash by (auto simp: at_def intro!: inv_population [OF inv] split: if_splits)
qed

lemma inv_reachable: "lock_reachable p cast s \<Longrightarrow> cast_ok p cast \<Longrightarrow> lock_inv p cast s"
proof (induction rule: lock_reachable.induct)
  case (start d)
  then show ?case by (simp add: fresh_dir_def idle_system_def lock_inv_def numbered_def at_def)
next
  case (step s e)
  then show ?case by (simp add: inv_event)
qed

section \<open>Mutual exclusion\<close>

text \<open>C33: the state lock is exclusive.  Whatever the order in which contenders advance, whichever of their calls
  fail and wherever they die, as long as the operating system recognises the live ones and none dies
  leaving a reaper marker of its own, at most one holds the lock; while one does, the lock file is its
  own, and a contender that is about to unlink a stale lock will unlink that very inode and not
  another.\<close>

theorem lock_exclusive:
  assumes "cast_ok p cast" "lock_reachable p cast s" "holding s c"
  shows "(\<forall>c'. holding s c' \<longrightarrow> c' = c) \<and>
    (\<exists>i. ld_lock (ls_dir s) = Some (File i (Some (lock_body (ct_owner (cast c)))))) \<and>
    (\<forall>c' k f n. ls_local s c' \<noteq> Some (k, ReapUnlink f n))"
proof -
  note inv = inv_reachable [OF assms(2,1)]
  have held: "\<exists>k. at s x k Holding" if "holding s x" for x
    using that by (auto simp: holding_def at_def split: option.splits prod.splits lock_pc.splits)
  obtain k where c: "at s c k Holding" using held [OF assms(3)] by blast
  have "c' = c" if "holding s c'" for c'
    using held [OF that] inv_apart [OF inv c] by (fastforce simp: apart_def)
  moreover have "\<exists>i. ld_lock (ls_dir s) = Some (File i (Some (lock_body (ct_owner (cast c)))))"
    using inv_local [OF inv c] by (simp add: local_ok_def)
  moreover have "\<not> at s c' k' (ReapUnlink f n)" for c' k' f n
  proof
    assume r: "at s c' k' (ReapUnlink f n)"
    then have "c \<noteq> c'" using c by (auto simp: at_def)
    from inv_apart [OF inv c r this] inv_local [OF inv r] show False
      by (simp add: apart_def clear_def absent_def local_ok_def)
  qed
  ultimately show ?thesis by (auto simp: at_def)
qed

lemma sample_cast_ok: "cast_ok sample_platform sample_cast"
proof -
  have "list_all is_lower_hex (sample_nonce n)" if "n < 16" for n
    using that by (simp add: sample_nonce_def list_all_iff)
  then have "wf_owner sample_platform (sample_owner (100 + int n) n)" if "n < 16" for n
    using that by (simp add: wf_owner_def sample_owner_def is_nonce_def wf_identity_def sample_platform_def
        canonical_iso_def) (simp add: sample_nonce_def, code_simp)
  then show ?thesis by (simp add: cast_ok_def sample_cast_def Let_def)
qed

lemma sample_view_ok: "view_ok sample_cast s sample_os"
  by (simp add: view_ok_def recognised_def sample_cast_def sample_owner_def processIsAlive_def sample_os_def Let_def)

text \<open>A schedule without deaths in the sample system.\<close>

fun untroubled :: "lock_event \<Rightarrow> bool" where
  "untroubled (Act c v fault) \<longleftrightarrow> v = sample_os"
| "untroubled (Spawn c) \<longleftrightarrow> True"
| "untroubled (Crash c) \<longleftrightarrow> False"

lemma sample_reachable:
  "list_all untroubled es \<Longrightarrow> lock_reachable p sample_cast s \<Longrightarrow>
     lock_reachable p sample_cast (apply_events p sample_cast es s)"
proof (induction es arbitrary: s)
  case (Cons e es)
  have "admissible sample_cast e s" using Cons.prems(1) by (cases e) (simp_all add: sample_view_ok)
  then have "lock_reachable p sample_cast (apply_event p sample_cast e s)"
    using Cons.prems(2) by (rule lock_reachable.step [rotated])
  with Cons show ?case by (simp add: apply_events_def)
qed (simp add: apply_events_def)

theorem lock_exclusive_witness:
  "\<not> holding (apply_events sample_platform sample_cast ([Spawn 0, Spawn 1] @ acts 5 0 @ acts 4 1 @ acts 7 0)
     (idle_system stale_lock_dir)) 1"
proof -
  let ?es = "[Spawn 0, Spawn 1] @ acts 5 0 @ acts 4 1 @ acts 7 0"
  let ?s = "apply_events sample_platform sample_cast ?es (idle_system stale_lock_dir)"
  have "lock_reachable sample_platform sample_cast (idle_system stale_lock_dir)"
    by (rule lock_reachable.start) (simp add: fresh_dir_def stale_lock_dir_def)
  moreover have "list_all untroubled ?es" by (simp add: acts_def list_all_iff)
  moreover have "holding ?s 0" by code_simp
  ultimately show ?thesis
    using lock_exclusive [OF sample_cast_ok, of ?s 0] sample_reachable [of ?es sample_platform] by auto
qed

end
