(* ===== verification/LockProgress.thy ===== *)
theory LockProgress
  imports LockProtocol
begin

text \<open>
  That \<open>acquireStateLock\<close> returns: the number of calls an attempt makes is bounded whatever the other
  contenders do, and there are eight attempts.  A contender that runs alone gets a free lock, reclaims
  a stale one, also past the marker of a dead reaper, and leaves a live one alone.
\<close>

section \<open>A bound on the calls\<close>

text \<open>The calls left in this attempt, at most; zero once the function has returned.\<close>

fun rank :: "lock_pc \<Rightarrow> nat" where
  "rank TryLink = 10"
| "rank Observe = 9"
| "rank (Judge f) = 8"
| "rank (MarkerLink f n) = 7"
| "rank (MarkerSync f n) = 6"
| "rank (ReapCheck f n) = 5"
| "rank (ReapUnlink f n) = 4"
| "rank (ReleaseRead n e) = 3"
| "rank (ReleaseUnlink n e) = 2"
| "rank ReapClean = 1"
| "rank (MarkerObserve n) = 6"
| "rank (MarkerJudge n m) = 5"
| "rank (MarkerSame n m) = 4"
| "rank (MarkerUnlink n) = 3"
| "rank MarkerClean = 2"
| "rank Published = 3"
| "rank UndoRead = 2"
| "rank UndoUnlink = 1"
| "rank _ = 0"

fun returned :: "lock_pc \<Rightarrow> bool" where
  "returned Holding = True"
| "returned FreeRead = True"
| "returned FreeUnlink = True"
| "returned FreeClean = True"
| "returned (Freed e) = True"
| "returned (Failed e) = True"
| "returned _ = False"

lemma rank_0_iff: "rank pc = 0 \<longleftrightarrow> returned pc"
  by (cases pc) simp_all

definition budget :: "nat \<Rightarrow> lock_pc \<Rightarrow> nat" where
  "budget k pc = (if returned pc then 0 else (7 - k) * 10 + rank pc)"

lemma budget_retry: "k < 8 \<Longrightarrow> 0 < r \<Longrightarrow> retry k = (k', pc') \<Longrightarrow> k' < 8 \<and> budget k' pc' < (7 - k) * 10 + r"
  by (auto simp: retry_def MAX_LOCK_ATTEMPTS_def budget_def split: if_splits)

lemma advance_budget:
  assumes k: "k < 8" and step: "advance p c v fault d k pc = (d', k', pc')"
  shows "k' < 8 \<and> (if returned pc then returned pc' else budget k' pc' < budget k pc)"
proof -
  have same: ?thesis if "k' = k" "returned pc \<longrightarrow> returned pc'" "returned pc' \<or> rank pc' < rank pc"
    using that k by (auto simp: budget_def rank_0_iff [symmetric])
  have again: ?thesis if "(k', pc') = retry k" "\<not> returned pc"
    using budget_retry [OF k, of "rank pc" k' pc'] that rank_0_iff [of pc] by (auto simp: budget_def)
  show ?thesis
    using step same again
    by (cases pc) (auto simp: advance_def marker_step_def release_step_def released_def
        split: if_splits option.splits sum.splits)
qed

definition acts_of :: "nat \<Rightarrow> lock_event list \<Rightarrow> nat" where
  "acts_of c es = length (List.filter (\<lambda>e. case e of Act c' _ _ \<Rightarrow> c' = c | _ \<Rightarrow> False) es)"

lemma events_budget:
  assumes "ls_local s c = Some (k, pc)" "k < 8" "ls_spawned s c" "Crash c \<notin> set es"
  shows "\<exists>k' pc'. ls_local (apply_events p cast es s) c = Some (k', pc') \<and> budget k' pc' \<le> budget k pc - acts_of c es"
  using assms
proof (induction es arbitrary: s k pc)
  case Nil
  then show ?case by (simp add: apply_events_def acts_of_def)
next
  case (Cons e es)
  let ?s = "apply_event p cast e s"
  have "\<exists>k' pc'. ls_local ?s c = Some (k', pc') \<and> k' < 8 \<and> budget k' pc' \<le> budget k pc - acts_of c [e]"
  proof (cases e)
    case (Act c' v fault)
    show ?thesis
    proof (cases "c' = c")
      case True
      obtain d' k' pc' where a: "advance p (cast c) v fault (ls_dir s) k pc = (d', k', pc')"
        by (cases "advance p (cast c) v fault (ls_dir s) k pc")
      from advance_budget [OF Cons.prems(2) this] have "k' < 8" "budget k' pc' \<le> budget k pc - 1"
        by (auto simp: budget_def split: if_splits)
      then show ?thesis using Cons.prems(1) a by (simp add: Act True acts_of_def)
    qed (use Cons.prems in \<open>simp add: Act acts_of_def split: option.split prod.split\<close>)
  qed (use Cons.prems in \<open>auto simp: acts_of_def\<close>)
  then obtain k1 pc1 where 1: "ls_local ?s c = Some (k1, pc1)" "k1 < 8" "budget k1 pc1 \<le> budget k pc - acts_of c [e]"
    by blast
  have "ls_spawned ?s c" using Cons.prems(3) by (cases e) (auto split: option.split prod.split)
  from Cons.IH [OF 1(1,2) this] Cons.prems(4) obtain k2 pc2 where
    "ls_local (apply_events p cast es ?s) c = Some (k2, pc2)" "budget k2 pc2 \<le> budget k1 pc1 - acts_of c es"
    by auto
  moreover have "acts_of c (e # es) = acts_of c [e] + acts_of c es" by (simp add: acts_of_def)
  ultimately show ?case using 1(3) by (intro exI [of _ k2] exI [of _ pc2]) (auto simp: apply_events_def)
qed

text \<open>C34: acquiring the lock terminates.  Whatever the others do and whichever calls fail, a contender that is not
  killed has the lock or an error after at most eighty of its own calls.\<close>

theorem acquisition_bounded:
  assumes "ls_local s c = Some (0, TryLink)" "ls_spawned s c" "Crash c \<notin> set es" "80 \<le> acts_of c es"
  shows "\<exists>k pc. ls_local (apply_events p cast es s) c = Some (k, pc) \<and> returned pc"
proof -
  obtain k pc where "ls_local (apply_events p cast es s) c = Some (k, pc)" "budget k pc \<le> budget 0 TryLink - acts_of c es"
    using events_budget [OF assms(1) _ assms(2,3), of p cast] by auto
  moreover from this(2) assms(4) have "budget k pc = 0" by (simp add: budget_def)
  then have "returned pc" by (simp add: budget_def rank_0_iff split: if_splits)
  ultimately show ?thesis by blast
qed

text \<open>A contender that finds the lock taken by a live process, with more calls than it needs.\<close>

definition busy_system :: lock_system where
  "busy_system = apply_event sample_platform sample_cast (Spawn 1)
     (apply_events sample_platform sample_cast (Spawn 0 # acts 2 0) (idle_system (stale_lock_dir\<lparr>ld_lock := None\<rparr>)))"

theorem acquisition_bounded_witness:
  "\<exists>k pc. ls_local (apply_events sample_platform sample_cast (acts 80 1) busy_system) 1 = Some (k, pc) \<and> returned pc"
proof -
  have "ls_local busy_system 1 = Some (0, TryLink) \<and> ls_spawned busy_system 1"
    by code_simp
  moreover have "Crash 1 \<notin> set (acts 80 1)" "80 \<le> acts_of 1 (acts 80 1)"
    by (simp_all add: acts_def acts_of_def)
  ultimately show ?thesis using acquisition_bounded by blast
qed

section \<open>Alone\<close>

text \<open>\<open>n\<close> calls of one contender without faults.\<close>

fun solo :: "platform \<Rightarrow> contender \<Rightarrow> os_view \<Rightarrow> nat \<Rightarrow> lock_dir \<times> nat \<times> lock_pc \<Rightarrow> lock_dir \<times> nat \<times> lock_pc" where
  "solo p c v 0 x = x"
| "solo p c v (Suc n) (d, k, pc) = solo p c v n (advance p c v False d k pc)"

lemma solo_add: "solo p c v (m + n) x = solo p c v n (solo p c v m x)"
proof (induction m arbitrary: x)
  case (Suc m)
  then show ?case by (cases x) simp
qed simp

lemma solo_free:
  assumes "ld_lock d = None"
  shows "solo p c v 2 (d, k, TryLink) = (publish_lock c d, k, Holding)"
  using assms by (simp add: numeral_2_eq_2 advance_def)

definition stale_lock :: "platform \<Rightarrow> os_view \<Rightarrow> lock_dir \<Rightarrow> string \<Rightarrow> bool" where
  "stale_lock p v d n \<longleftrightarrow> (\<exists>f w. ld_lock d = Some f \<and> readLockOwner p (content f) = Inr w \<and> loNonce w = n \<and>
     \<not> processStillOwnsLock v w)"

lemma solo_reap:
  assumes stale: "stale_lock p v d n" and free: "ld_marker d n = None" and wf: "wf_owner p (ct_reaper c k)"
    and k: "Suc k < 8"
  shows "\<exists>d'. solo p c v 10 (d, k, TryLink) = (d', Suc k, TryLink) \<and> ld_lock d' = None \<and> ld_marker d' = ld_marker d"
proof -
  obtain f w where f: "ld_lock d = Some f" "readLockOwner p (content f) = Inr w" "loNonce w = n"
      "\<not> processStillOwnsLock v w"
    using stale by (auto simp: stale_lock_def)
  have n: "is_nonce n" using lock_nonce f(2,3) by blast
  have marker: "readReaperOwner p (Some (reaper_body n (ct_reaper c k))) = Inr (with_target (ct_reaper c k) n)"
    using wf n by (simp add: reaper_body_read)
  show ?thesis
    using f free marker k
    by (simp add: eval_nat_numeral advance_def marker_step_def release_step_def released_def waste_def
        publish_marker_def unlink_lock_def unlink_marker_def retry_def MAX_LOCK_ATTEMPTS_def fun_upd_idem)
qed

lemma solo_orphan:
  assumes stale: "stale_lock p v d n" and m: "ld_marker d n = Some m" "readReaperOwner p (content m) = Inr r"
      "roTargetNonce r = n" "\<not> processStillOwnsLock v r"
    and k: "Suc k < 8"
  shows "\<exists>d'. solo p c v 9 (d, k, TryLink) = (d', Suc k, TryLink) \<and> ld_lock d' = ld_lock d \<and>
    ld_marker d' = (ld_marker d)(n := None)"
proof -
  obtain f w where f: "ld_lock d = Some f" "readLockOwner p (content f) = Inr w" "loNonce w = n"
      "\<not> processStillOwnsLock v w"
    using stale by (auto simp: stale_lock_def)
  then show ?thesis
    using m k
    by (simp add: eval_nat_numeral advance_def marker_step_def waste_def unlink_marker_def retry_def
        MAX_LOCK_ATTEMPTS_def)
qed

lemma solo_live:
  assumes "ld_lock d = Some f" "readLockOwner p (content f) = Inr w" "processStillOwnsLock v w"
  shows "solo p c v 3 (d, k, TryLink) =
    (waste d, k, Failed (WorkerStateError ''worker state directory is already active in another process''))"
  using assms by (simp add: eval_nat_numeral advance_def waste_def)

text \<open>What a lone contender should end with.\<close>

definition takes_lock :: "contender \<Rightarrow> lock_dir \<Rightarrow> (string \<rightharpoonup> inode_file) \<Rightarrow> lock_dir \<times> nat \<times> lock_pc \<Rightarrow> bool" where
  "takes_lock c d markers r \<longleftrightarrow> (case r of (d', k, pc) \<Rightarrow> pc = Holding \<and> ld_marker d' = markers \<and>
     (\<exists>i. ld_lock d' = Some (File i (Some (lock_body (ct_owner c))))))"

text \<open>C35: a stale lock is reclaimed.  A contender that runs without disturbance and faults takes the lock of a dead
  process with twelve calls and leaves no marker behind, and with twenty-one calls when a dead reaper had
  left its marker, which it removes.\<close>

theorem stale_lock_reclaimed:
  assumes "stale_lock p v d n" "\<And>k. wf_owner p (ct_reaper c k)"
  shows "(ld_marker d n = None \<longrightarrow> takes_lock c d (ld_marker d) (solo p c v 12 (d, 0, TryLink))) \<and>
    (\<forall>m r. ld_marker d n = Some m \<longrightarrow> readReaperOwner p (content m) = Inr r \<longrightarrow> roTargetNonce r = n \<longrightarrow>
       \<not> processStillOwnsLock v r \<longrightarrow>
       takes_lock c d ((ld_marker d)(n := None)) (solo p c v 21 (d, 0, TryLink)))"
proof -
  have take: "takes_lock c d (ld_marker d1) (solo p c v 12 (d1, k, TryLink))"
    if stale: "stale_lock p v d1 n" and free: "ld_marker d1 n = None" and k: "Suc k < 8" for d1 k
  proof -
    obtain d' where d': "solo p c v 10 (d1, k, TryLink) = (d', Suc k, TryLink)" "ld_lock d' = None"
        "ld_marker d' = ld_marker d1"
      using solo_reap [OF stale free assms(2) k] by blast
    then show ?thesis
      using solo_add [of p c v 10 2 "(d1, k, TryLink)"] solo_free [of d' p c v "Suc k"]
      by (simp add: takes_lock_def publish_lock_def)
  qed
  have "takes_lock c d ((ld_marker d)(n := None)) (solo p c v 21 (d, 0, TryLink))"
    if m: "ld_marker d n = Some m" "readReaperOwner p (content m) = Inr r" "roTargetNonce r = n"
      "\<not> processStillOwnsLock v r" for m r
  proof -
    obtain d' where d': "solo p c v 9 (d, 0, TryLink) = (d', Suc 0, TryLink)" "ld_lock d' = ld_lock d"
        "ld_marker d' = (ld_marker d)(n := None)"
      using solo_orphan [OF assms(1) m, of 0 c] by auto
    moreover have "stale_lock p v d' n" using assms(1) d'(2) by (simp add: stale_lock_def)
    ultimately show ?thesis
      using take [of d' "Suc 0"] solo_add [of p c v 9 12 "(d, 0, TryLink)"] by simp
  qed
  with take [OF assms(1)] show ?thesis by simp
qed

theorem stale_lock_reclaimed_witness:
  "takes_lock (sample_cast 3) orphaned_marker_dir Map.empty
     (solo sample_platform (sample_cast 3) sample_os 21 (orphaned_marker_dir, 0, TryLink))"
proof -
  let ?m = "File 1 (Some (reaper_body (sample_nonce 14) (sample_owner 2 15)))"
  have "stale_lock sample_platform sample_os orphaned_marker_dir (sample_nonce 14)"
    unfolding stale_lock_def
    by (rule exI [of _ "File 0 (Some (lock_body (sample_owner 1 14)))"], rule exI [of _ "sample_owner 1 14"]) code_simp
  moreover have "wf_owner sample_platform (ct_reaper (sample_cast 3) k)" for k
  proof -
    have "wf_owner sample_platform (sample_owner 103 3)" by code_simp
    then show ?thesis by (simp add: sample_cast_def)
  qed
  moreover have "ld_marker orphaned_marker_dir (sample_nonce 14) = Some ?m"
    by (simp add: orphaned_marker_dir_def)
  moreover have "readReaperOwner sample_platform (content ?m) = Inr (with_target (sample_owner 2 15) (sample_nonce 14))"
    "\<not> processStillOwnsLock sample_os (with_target (sample_owner 2 15) (sample_nonce 14))"
    by code_simp+
  moreover have "(ld_marker orphaned_marker_dir)(sample_nonce 14 := None) = Map.empty"
    by (simp add: orphaned_marker_dir_def stale_lock_dir_def)
  ultimately show ?thesis
    using stale_lock_reclaimed [of sample_platform sample_os orphaned_marker_dir "sample_nonce 14" "sample_cast 3"]
    by simp
qed

end
