(* ===== verification/EventLogs.thy ===== *)
theory EventLogs
  imports ChainTypes JsText
begin

text \<open>
  Events in transaction logs (\<open>events/parse.ts\<close>, \<open>events/internal.ts\<close>).  Any program can write a line
  that looks like an event of the AgenC program; the parser follows the invocations the runtime
  announces and reads a data line only while the AgenC program is executing.  The generated event
  decoders are a parameter, by the hexadecimal text of the discriminator.
\<close>

section \<open>Base64, as \<open>atob\<close> reads it\<close>

definition is_b64_std :: "char \<Rightarrow> bool" where
  "is_b64_std c \<longleftrightarrow> b64_value c \<noteq> None \<and> c \<noteq> CHR ''-'' \<and> c \<noteq> CHR ''_''"

definition drop_padding :: "string \<Rightarrow> string" where
  "drop_padding s =
     (if length s mod 4 \<noteq> 0 then s
      else if 2 \<le> length s \<and> drop (length s - 2) s = ''=='' then take (length s - 2) s
      else if s \<noteq> [] \<and> last s = CHR ''='' then butlast s else s)"

definition base64ToBytes :: "string \<Rightarrow> bytes option" where
  "base64ToBytes s =
     (let t = drop_padding (List.filter (\<lambda>c. (of_char c :: nat) \<notin> {9, 10, 12, 13, 32}) s) in
      if length t mod 4 = 1 \<or> \<not> list_all is_b64_std t then None
      else Some (map word_of_nat (b64_octets (List.map_filter b64_value t))))"

section \<open>Lines\<close>

definition PROGRAM_DATA_PREFIX :: string where "PROGRAM_DATA_PREFIX = ''Program data: ''"
definition PROGRAM_LOG_PREFIX :: string where "PROGRAM_LOG_PREFIX = ''Program log: ''"
definition PROGRAM_RETURN_PREFIX :: string where "PROGRAM_RETURN_PREFIX = ''Program return: ''"

datatype log_line =
    LData string
  | LInvoke string nat
  | LEnd string
  | LOther

text \<open>\<open>(\S+)\<close> followed by a space: the text up to the first white space, and the rest.\<close>

fun non_space :: "string \<Rightarrow> string \<times> string" where
  "non_space [] = ([], [])"
| "non_space (c # cs) = (if leading_space (c # cs) \<noteq> None then ([], c # cs)
     else (case non_space cs of (a, b) \<Rightarrow> (c # a, b)))"

definition invoke_depth :: "string \<Rightarrow> string option" where
  "invoke_depth rest = (case strip_prefix '' invoke ['' rest of
      None \<Rightarrow> None
    | Some t \<Rightarrow>
        if t \<noteq> [] \<and> last t = CHR '']'' \<and> butlast t \<noteq> [] \<and> list_all is_digit (butlast t)
        then Some (butlast t) else None)"

definition classify_line :: "string \<Rightarrow> log_line" where
  "classify_line line =
     (if strip_prefix PROGRAM_LOG_PREFIX line \<noteq> None then LOther
      else if strip_prefix PROGRAM_RETURN_PREFIX line \<noteq> None then LOther
      else (case strip_prefix PROGRAM_DATA_PREFIX line of
          Some blob \<Rightarrow> LData blob
        | None \<Rightarrow>
            (case strip_prefix ''Program '' line of
               None \<Rightarrow> LOther
             | Some r \<Rightarrow>
                 (case non_space r of (pid, rest) \<Rightarrow>
                    if pid = [] then LOther
                    else (case invoke_depth rest of
                        Some digits \<Rightarrow> LInvoke pid (dec_value digits)
                      | None \<Rightarrow>
                          if rest = '' success'' \<or> strip_prefix '' failed'' rest \<noteq> None then LEnd pid
                          else LOther)))))"

section \<open>The invocation stack\<close>

text \<open>The top is the head; \<open>None\<close> is a frame whose invocation was not seen.\<close>

type_synonym frames = "string option list"

definition MAX_DEPTH :: nat where "MAX_DEPTH = 9007199254740991"

definition push_invoke :: "string \<Rightarrow> nat \<Rightarrow> frames \<Rightarrow> frames" where
  "push_invoke pid depth stack =
     (if 1 \<le> depth \<and> depth \<le> MAX_DEPTH then
        (let kept = drop (length stack - (depth - 1)) stack
         in Some pid # replicate (depth - 1 - length kept) None @ kept)
      else stack)"

definition pop_end :: "string \<Rightarrow> frames \<Rightarrow> frames" where
  "pop_end pid stack = (if Some pid \<in> set stack then tl (dropWhile (\<lambda>f. f \<noteq> Some pid) stack) else stack)"

type_synonym 'e decoders = "string \<Rightarrow> (bytes \<Rightarrow> 'e option) option"

definition decodeEventBlob :: "'e decoders \<Rightarrow> string \<Rightarrow> 'e option" where
  "decodeEventBlob decoders blob = (case base64ToBytes blob of
      None \<Rightarrow> None
    | Some b \<Rightarrow>
        if length b < 8 then None
        else (case decoders (bytesToHex (take 8 b)) of None \<Rightarrow> None | Some decode \<Rightarrow> decode (drop 8 b)))"

definition executing :: "frames \<Rightarrow> bool" where
  "executing stack \<longleftrightarrow> stack \<noteq> [] \<and> hd stack = Some AGENC_COORDINATION_PROGRAM_ADDRESS"

definition line_event :: "'e decoders \<Rightarrow> frames \<Rightarrow> string \<Rightarrow> 'e option" where
  "line_event decoders stack blob = (if executing stack then decodeEventBlob decoders blob else None)"

fun decodeAttributedEvents :: "'e decoders \<Rightarrow> frames \<Rightarrow> string list \<Rightarrow> 'e list" where
  "decodeAttributedEvents decoders stack [] = []"
| "decodeAttributedEvents decoders stack (line # ls) = (case classify_line line of
      LData blob \<Rightarrow> (case line_event decoders stack blob of
          None \<Rightarrow> decodeAttributedEvents decoders stack ls
        | Some e \<Rightarrow> e # decodeAttributedEvents decoders stack ls)
    | LInvoke pid depth \<Rightarrow> decodeAttributedEvents decoders (push_invoke pid depth stack) ls
    | LEnd pid \<Rightarrow> decodeAttributedEvents decoders (pop_end pid stack) ls
    | LOther \<Rightarrow> decodeAttributedEvents decoders stack ls)"

definition parseAgencCoordinationEvents :: "'e decoders \<Rightarrow> string list \<Rightarrow> 'e list" where
  "parseAgencCoordinationEvents decoders logMessages = decodeAttributedEvents decoders [] logMessages"

definition decodeAgencEvent :: "'e decoders \<Rightarrow> string list \<Rightarrow> 'e option" where
  "decodeAgencEvent decoders logMessages = (case decodeAttributedEvents decoders [] logMessages of
      [] \<Rightarrow> None | e # _ \<Rightarrow> Some e)"

section \<open>What a transaction logs\<close>

text \<open>A run of programs: what each wrote, and which others it invoked.  \<open>Note\<close> is a line of the runtime
  that is not structural; the last field of a call is its error, if it failed.\<close>

datatype entry =
    Data string
  | Text string
  | Return string
  | Note string
  | Call string "entry list" "string option"

definition end_line :: "string \<Rightarrow> string option \<Rightarrow> string" where
  "end_line pid failure = ''Program '' @ pid @ (case failure of None \<Rightarrow> '' success'' | Some e \<Rightarrow> '' failed: '' @ e)"

fun log_of :: "nat \<Rightarrow> entry \<Rightarrow> string list" where
  "log_of depth (Data blob) = [PROGRAM_DATA_PREFIX @ blob]"
| "log_of depth (Text t) = [PROGRAM_LOG_PREFIX @ t]"
| "log_of depth (Return t) = [PROGRAM_RETURN_PREFIX @ t]"
| "log_of depth (Note t) = [t]"
| "log_of depth (Call pid body failure) =
     (''Program '' @ pid @ '' invoke ['' @ dec_print depth @ '']'') #
     concat (map (log_of (Suc depth)) body) @ [end_line pid failure]"

text \<open>The events the AgenC program emitted, in the order of the log.\<close>

fun emitted :: "'e decoders \<Rightarrow> bool \<Rightarrow> entry \<Rightarrow> 'e list" where
  "emitted decoders agenc (Data blob) =
     (if agenc then (case decodeEventBlob decoders blob of None \<Rightarrow> [] | Some e \<Rightarrow> [e]) else [])"
| "emitted decoders agenc (Call pid body failure) =
     concat (map (emitted decoders (pid = AGENC_COORDINATION_PROGRAM_ADDRESS)) body)"
| "emitted decoders agenc _ = []"

fun wf_entry :: "nat \<Rightarrow> entry \<Rightarrow> bool" where
  "wf_entry depth (Note t) \<longleftrightarrow> classify_line t = LOther"
| "wf_entry depth (Call pid body failure) \<longleftrightarrow> pid \<noteq> [] \<and> list_all is_base58 pid \<and> depth \<le> MAX_DEPTH \<and>
     list_all (wf_entry (Suc depth)) body"
| "wf_entry depth _ \<longleftrightarrow> True"

section \<open>Reading the lines back\<close>

lemma strip_prefix_append [simp]: "strip_prefix p (p @ t) = Some t"
  by (simp add: strip_prefix_def)

lemma strip_prefix_Some: "strip_prefix p s = Some t \<longleftrightarrow> s = p @ t"
  by (auto simp: strip_prefix_def) (metis append_take_drop_id)

lemma base58_plain: "is_base58 c \<Longrightarrow> plain_char c"
proof -
  have "list_all plain_char ''123456789ABCDEFGHJKLMNPQRSTUVWXYZabcdefghijkmnopqrstuvwxyz''"
    by (simp add: plain_char_def)
  then show "is_base58 c \<Longrightarrow> plain_char c" unfolding is_base58_def list_all_iff by (rule bspec)
qed

lemma non_space_word: "list_all plain_char w \<Longrightarrow> non_space (w @ CHR '' '' # r) = (w, CHR '' '' # r)"
  by (induction w) (simp_all add: leading_space_plain leading_space_blank)

definition program_id :: "string \<Rightarrow> bool" where
  "program_id pid \<longleftrightarrow> pid \<noteq> [] \<and> list_all is_base58 pid"

lemma program_id_plain: "program_id pid \<Longrightarrow> list_all plain_char pid"
  by (auto simp: program_id_def list_all_iff base58_plain)

text \<open>A line about a program does not look like one a program wrote.\<close>

lemma not_written:
  assumes "program_id pid" "list_all plain_char w" "\<not> list_all is_base58 w"
  shows "strip_prefix (''Program '' @ w @ '' '') (''Program '' @ pid @ CHR '' '' # r) = None"
proof (rule ccontr)
  assume "strip_prefix (''Program '' @ w @ '' '') (''Program '' @ pid @ CHR '' '' # r) \<noteq> None"
  then obtain t where "pid @ CHR '' '' # r = w @ CHR '' '' # t"
    by (auto simp: strip_prefix_Some)
  then have "non_space (pid @ CHR '' '' # r) = non_space (w @ CHR '' '' # t)" by simp
  then have "pid = w" using assms program_id_plain by (simp add: non_space_word)
  with assms show False by (simp add: program_id_def)
qed

lemma written_words: "list_all plain_char ''log:''" "\<not> list_all is_base58 ''log:''"
  "list_all plain_char ''return:''" "\<not> list_all is_base58 ''return:''"
  "list_all plain_char ''data:''" "\<not> list_all is_base58 ''data:''"
  by (simp_all add: plain_char_def is_base58_def)

lemma classify_program:
  assumes "program_id pid"
  shows "classify_line (''Program '' @ pid @ CHR '' '' # r) =
    (case invoke_depth (CHR '' '' # r) of
       Some digits \<Rightarrow> LInvoke pid (dec_value digits)
     | None \<Rightarrow> if CHR '' '' # r = '' success'' \<or> strip_prefix '' failed'' (CHR '' '' # r) \<noteq> None then LEnd pid else LOther)"
  using not_written [OF assms written_words(1,2), of r] not_written [OF assms written_words(3,4), of r]
    not_written [OF assms written_words(5,6), of r] strip_prefix_append [of "''Program ''" "pid @ CHR '' '' # r"]
    non_space_word [OF program_id_plain [OF assms], of r] assms
  by (simp add: classify_line_def program_id_def PROGRAM_LOG_PREFIX_def PROGRAM_RETURN_PREFIX_def
      PROGRAM_DATA_PREFIX_def)

lemma classify_invoke:
  assumes "program_id pid"
  shows "classify_line (''Program '' @ pid @ '' invoke ['' @ dec_print d @ '']'') = LInvoke pid d"
proof -
  have "dec_print d \<noteq> []" by (subst dec_print.simps) simp
  then have "invoke_depth ('' invoke ['' @ dec_print d @ '']'') = Some (dec_print d)"
    using strip_prefix_append [of "'' invoke [''" "dec_print d @ '']''"]
    by (simp add: invoke_depth_def butlast_append)
  then show ?thesis using classify_program [OF assms, of "''invoke ['' @ dec_print d @ '']''"] by simp
qed

lemma classify_end: "program_id pid \<Longrightarrow> classify_line (end_line pid failure) = LEnd pid"
  using classify_program [of pid "''success''"] classify_program [of pid "''failed: '' @ the failure"]
  by (cases failure) (simp_all add: end_line_def invoke_depth_def strip_prefix_def)

lemma classify_written:
  "classify_line (PROGRAM_LOG_PREFIX @ t) = LOther" "classify_line (PROGRAM_RETURN_PREFIX @ t) = LOther"
  "classify_line (PROGRAM_DATA_PREFIX @ t) = LData t"
  by (simp_all add: classify_line_def strip_prefix_def PROGRAM_LOG_PREFIX_def PROGRAM_RETURN_PREFIX_def
      PROGRAM_DATA_PREFIX_def)

section \<open>Only the program's own events\<close>

lemma push_next: "1 \<le> d \<Longrightarrow> d \<le> MAX_DEPTH \<Longrightarrow> length stack = d - 1 \<Longrightarrow> push_invoke pid d stack = Some pid # stack"
  by (simp add: push_invoke_def)

lemma pop_top: "pop_end pid (Some pid # stack) = stack"
  by (simp add: pop_end_def)

lemma executing_top: "executing (Some pid # stack) \<longleftrightarrow> pid = AGENC_COORDINATION_PROGRAM_ADDRESS"
  by (simp add: executing_def)

lemma log_scanned:
  "wf_entry d x \<Longrightarrow> 1 \<le> d \<Longrightarrow> length stack = d - 1 \<Longrightarrow>
     decodeAttributedEvents decoders stack (log_of d x @ ls) =
     emitted decoders (executing stack) x @ decodeAttributedEvents decoders stack ls"
proof (induction x arbitrary: d stack ls)
  case (Call pid body failure)
  have pid: "program_id pid" and d: "d \<le> MAX_DEPTH" and body: "list_all (wf_entry (Suc d)) body"
    using Call.prems(1) by (auto simp: program_id_def)
  have "decodeAttributedEvents decoders (Some pid # stack) (concat (map (log_of (Suc d)) xs) @ ls') =
      concat (map (emitted decoders (pid = AGENC_COORDINATION_PROGRAM_ADDRESS)) xs)
      @ decodeAttributedEvents decoders (Some pid # stack) ls'"
    if "set xs \<subseteq> set body" for xs ls'
    using that
  proof (induction xs)
    case (Cons x xs)
    then show ?case
      using Call.IH [of x "Suc d" "Some pid # stack" "concat (map (log_of (Suc d)) xs) @ ls'"] body Call.prems
      by (simp add: list_all_iff executing_top)
  qed simp
  from this [of body "end_line pid failure # ls"] show ?case
    using Call.prems classify_invoke [OF pid, of d] classify_end [OF pid, of failure] push_next [OF _ d]
    by (simp add: pop_top)
qed (simp_all add: classify_written line_event_def split: option.split)

text \<open>C37: a log yields the program's own events.  For every run of programs, however they invoke each other and
  whatever they write to the log, also text and data that imitate the lines of the runtime or the events
  of another program, the parser returns exactly the decodable events that the AgenC program emitted
  itself, in their order.\<close>

theorem events_attributed:
  assumes "list_all (wf_entry 1) runs"
  shows "parseAgencCoordinationEvents decoders (concat (map (log_of 1) runs)) =
    concat (map (emitted decoders False) runs)"
  using assms
proof (induction runs)
  case (Cons x xs)
  then show ?case
    using log_scanned [of 1 x "[]" decoders "concat (map (log_of 1) xs)"]
    by (simp add: parseAgencCoordinationEvents_def executing_def)
qed (simp add: parseAgencCoordinationEvents_def)

text \<open>A program that invokes the AgenC program, and imitates it before and after.\<close>

definition sample_decoders :: "nat decoders" where
  "sample_decoders hex = (if hex = ''0000000000000000'' then Some (\<lambda>b. Some (length b)) else None)"

definition sample_run :: entry where
  "sample_run = Call ''Attacker1''
     [Text ''x'', Data ''AAAAAAAAAAAAAAA='', Text ''Program HJsZ53Zb27b8QMRbQpuDngE44AdwCGxvEZr61Zmxw1xK invoke [1]'',
      Call AGENC_COORDINATION_PROGRAM_ADDRESS [Data ''AAAAAAAAAAA='', Text ''success''] None,
      Data ''AAAAAAAAAAAAAAA='', Note ''Log truncated''] (Some ''custom'')"

theorem events_attributed_witness:
  "parseAgencCoordinationEvents sample_decoders (log_of 1 sample_run) = [0]"
proof -
  have "list_all is_base58 AGENC_COORDINATION_PROGRAM_ADDRESS" by code_simp
  moreover have "classify_line ''Log truncated'' = LOther"
    by (simp add: classify_line_def strip_prefix_def PROGRAM_LOG_PREFIX_def PROGRAM_RETURN_PREFIX_def
        PROGRAM_DATA_PREFIX_def)
  ultimately have "list_all (wf_entry 1) [sample_run]"
    by (simp add: sample_run_def is_base58_def MAX_DEPTH_def) (simp add: AGENC_COORDINATION_PROGRAM_ADDRESS_def)
  moreover have events: "concat (map (emitted sample_decoders False) [sample_run]) = [0]"
  proof -
    have "decodeEventBlob sample_decoders ''AAAAAAAAAAA='' = Some 0" by code_simp
    moreover have "''Attacker1'' \<noteq> AGENC_COORDINATION_PROGRAM_ADDRESS"
      by (simp add: AGENC_COORDINATION_PROGRAM_ADDRESS_def)
    ultimately show ?thesis by (simp add: sample_run_def)
  qed
  ultimately show ?thesis using events_attributed [of "[sample_run]" sample_decoders] by simp
qed

text \<open>If the log has lost a line, an event can be attributed to the program that another one wrote: here
  the end of the AgenC program's call is missing.\<close>

lemma lost_line:
  assumes "program_id evil" "program_id AGENC_COORDINATION_PROGRAM_ADDRESS" "evil \<noteq> AGENC_COORDINATION_PROGRAM_ADDRESS"
    and "decodeEventBlob decoders blob = Some e"
  defines "lines \<equiv> log_of 1 (Call evil [Call AGENC_COORDINATION_PROGRAM_ADDRESS [] None, Data blob] None)"
  shows "parseAgencCoordinationEvents decoders lines = []"
    and "parseAgencCoordinationEvents decoders (take 2 lines @ drop 3 lines) = [e]"
proof -
  have d: "(1 :: nat) \<le> MAX_DEPTH" "(2 :: nat) \<le> MAX_DEPTH" by (simp_all add: MAX_DEPTH_def)
  have "wf_entry 1 (Call evil [Call AGENC_COORDINATION_PROGRAM_ADDRESS [] None, Data blob] None)"
    using assms(1,2) d by (simp add: program_id_def eval_nat_numeral)
  from log_scanned [OF this, of "[]" decoders "[]"] assms(3)
  show "parseAgencCoordinationEvents decoders lines = []"
    by (simp add: lines_def parseAgencCoordinationEvents_def)
  show "parseAgencCoordinationEvents decoders (take 2 lines @ drop 3 lines) = [e]"
    using classify_invoke [OF assms(1), of 1] classify_invoke [OF assms(2), of 2] classify_end [OF assms(1), of None]
      push_next [OF _ d(1), of "[]" evil] push_next [OF _ d(2), of "[Some evil]" AGENC_COORDINATION_PROGRAM_ADDRESS] assms(4)
    by (simp add: lines_def parseAgencCoordinationEvents_def eval_nat_numeral classify_written line_event_def
        executing_def)
qed

text \<open>Attribution is not fail-closed when a log has lost a line.  A program calls the AgenC program and then
  emits data of its own that reads as an event.  The whole log yields no event; without the line that ends
  the inner call, the foreign data is decoded as an event of the AgenC program.\<close>

lemma lost_line_misattributed:
  assumes "program_id evil" "program_id AGENC_COORDINATION_PROGRAM_ADDRESS" "evil \<noteq> AGENC_COORDINATION_PROGRAM_ADDRESS"
    and "decodeEventBlob decoders blob = Some e"
  shows "\<exists>before lost after.
     log_of 1 (Call evil [Call AGENC_COORDINATION_PROGRAM_ADDRESS [] None, Data blob] None) = before @ lost # after
     \<and> parseAgencCoordinationEvents decoders (before @ lost # after) = []
     \<and> parseAgencCoordinationEvents decoders (before @ after) = [e]"
proof -
  let ?lines = "log_of 1 (Call evil [Call AGENC_COORDINATION_PROGRAM_ADDRESS [] None, Data blob] None)"
  have "?lines = take 2 ?lines @ ?lines ! 2 # drop 3 ?lines" by (simp add: eval_nat_numeral)
  with lost_line [OF assms] show ?thesis by metis
qed

lemma lost_line_misattributed_witness:
  "\<exists>before lost after.
     log_of 1 (Call ''Attacker1'' [Call AGENC_COORDINATION_PROGRAM_ADDRESS [] None, Data ''AAAAAAAAAAA=''] None)
       = before @ lost # after
     \<and> parseAgencCoordinationEvents sample_decoders (before @ lost # after) = []
     \<and> parseAgencCoordinationEvents sample_decoders (before @ after) = [0]"
proof (rule lost_line_misattributed)
  show "program_id AGENC_COORDINATION_PROGRAM_ADDRESS" by code_simp
  show "program_id ''Attacker1''" by code_simp
  show "''Attacker1'' \<noteq> AGENC_COORDINATION_PROGRAM_ADDRESS"
    by (simp add: AGENC_COORDINATION_PROGRAM_ADDRESS_def)
  show "decodeEventBlob sample_decoders ''AAAAAAAAAAA='' = Some 0" by code_simp
qed

end
