(* ===== verification/EventPolling.thy ===== *)
theory EventPolling
  imports EventLogs "HOL-Library.Sublist"
begin

text \<open>
  The polling subscription (\<open>subscribeMarketplaceEventsViaPolling\<close> of \<open>events/subscribe.ts\<close>): each round
  pages the signatures of every watched address back to the high-water mark of the last round, fetches
  the new transactions oldest first and yields their events.  The RPC is a parameter; aborts, which end
  the iteration at any point, and the sleep between rounds are left out.
\<close>

section \<open>Rounds\<close>

record sig_info =
  sgSignature :: string
  sgFailed :: bool

record poll_state =
  psWatermarks :: "string \<rightharpoonup> string"
  psBaselined :: "string list"
  psSeen :: "string list"

text \<open>What a round reads: the signatures of an address, newest first, by page, high-water mark and cursor,
  and the log of a transaction, \<open>None\<close> when there is none.\<close>

record poll_rpc =
  pr_signatures :: "nat \<Rightarrow> string \<Rightarrow> string option \<Rightarrow> string option \<Rightarrow> sig_info list res"
  pr_logs :: "string \<Rightarrow> string list option res"

definition MAX_TRACKED_SIGNATURES :: nat where "MAX_TRACKED_SIGNATURES = 1000"
definition DEFAULT_MAX_PAGES_PER_ROUND :: nat where "DEFAULT_MAX_PAGES_PER_ROUND = 10"

text \<open>The window of remembered signatures; the set of the code has the elements of this list.\<close>

definition remember :: "string list \<Rightarrow> string \<Rightarrow> string list" where
  "remember seen s = (let order = seen @ [s] in if length order > MAX_TRACKED_SIGNATURES then tl order else order)"

fun collect_pages ::
  "(nat \<Rightarrow> string option \<Rightarrow> string option \<Rightarrow> sig_info list res) \<Rightarrow> string option \<Rightarrow> nat \<Rightarrow> nat \<Rightarrow> string option
   \<Rightarrow> sig_info list list res" where
  "collect_pages get until page 0 before = Inr []"
| "collect_pages get until page (Suc left) before =
     bind_res (get page until before) (\<lambda>infos.
     if infos = [] then Inr []
     else
       bind_res (collect_pages get until (Suc page) left (Some (sgSignature (last infos)))) (\<lambda>pages.
       Inr (infos # pages)))"

definition wanted_events :: "'e decoders \<Rightarrow> ('e \<Rightarrow> bool) \<Rightarrow> string list option \<Rightarrow> 'e list" where
  "wanted_events decoders wanted logs = (case logs of
      None \<Rightarrow> [] | Some ls \<Rightarrow> List.filter wanted (parseAgencCoordinationEvents decoders ls))"

text \<open>The infos of a round, oldest first: the events yielded, and the window or the error.\<close>

fun yield_infos ::
  "'e decoders \<Rightarrow> ('e \<Rightarrow> bool) \<Rightarrow> (string \<Rightarrow> string list option res) \<Rightarrow> sig_info list \<Rightarrow> string list
   \<Rightarrow> 'e list \<times> string list res" where
  "yield_infos decoders wanted logs [] seen = ([], Inr seen)"
| "yield_infos decoders wanted logs (i # infos) seen =
     (if sgFailed i \<or> sgSignature i \<in> set seen then yield_infos decoders wanted logs infos seen
      else (case logs (sgSignature i) of
          Inl e \<Rightarrow> ([], Inl e)
        | Inr ls \<Rightarrow>
            (case yield_infos decoders wanted logs infos (remember seen (sgSignature i)) of
               (es, r) \<Rightarrow> (wanted_events decoders wanted ls @ es, r))))"

definition poll_address ::
  "'e decoders \<Rightarrow> ('e \<Rightarrow> bool) \<Rightarrow> poll_rpc \<Rightarrow> nat \<Rightarrow> string \<Rightarrow> poll_state \<Rightarrow> 'e list \<times> poll_state res" where
  "poll_address decoders wanted rpc maxPages a st =
     (if a \<notin> set (psBaselined st) then
        ([], bind_res (pr_signatures rpc 0 a (psWatermarks st a) None) (\<lambda>infos.
          Inr (st\<lparr>psWatermarks := (if infos = [] then psWatermarks st
                 else (psWatermarks st)(a \<mapsto> sgSignature (hd infos))),
               psBaselined := psBaselined st @ [a]\<rparr>)))
      else
        (case collect_pages (\<lambda>page. pr_signatures rpc page a) (psWatermarks st a) 0 maxPages None of
           Inl e \<Rightarrow> ([], Inl e)
         | Inr pages \<Rightarrow>
             if pages = [] then ([], Inr st)
             else
               (case yield_infos decoders wanted (pr_logs rpc) (rev (concat pages)) (psSeen st) of
                  (es, r) \<Rightarrow>
                    (es, bind_res r (\<lambda>seen.
                       Inr (st\<lparr>psWatermarks := (psWatermarks st)(a \<mapsto> sgSignature (hd (hd pages))),
                            psSeen := seen\<rparr>))))))"

fun poll_round ::
  "'e decoders \<Rightarrow> ('e \<Rightarrow> bool) \<Rightarrow> poll_rpc \<Rightarrow> nat \<Rightarrow> string list \<Rightarrow> poll_state \<Rightarrow> 'e list \<times> poll_state res" where
  "poll_round decoders wanted rpc maxPages [] st = ([], Inr st)"
| "poll_round decoders wanted rpc maxPages (a # as) st =
     (case poll_address decoders wanted rpc maxPages a st of
        (es, Inl e) \<Rightarrow> (es, Inl e)
      | (es, Inr st') \<Rightarrow>
          (case poll_round decoders wanted rpc maxPages as st' of (es', r) \<Rightarrow> (es @ es', r)))"

text \<open>Successive rounds, each with the RPC as it answers then.\<close>

fun poll_rounds ::
  "'e decoders \<Rightarrow> ('e \<Rightarrow> bool) \<Rightarrow> nat \<Rightarrow> string list \<Rightarrow> poll_rpc list \<Rightarrow> poll_state \<Rightarrow> 'e list \<times> poll_state res" where
  "poll_rounds decoders wanted maxPages as [] st = ([], Inr st)"
| "poll_rounds decoders wanted maxPages as (rpc # rpcs) st =
     (case poll_round decoders wanted rpc maxPages as st of
        (es, Inl e) \<Rightarrow> (es, Inl e)
      | (es, Inr st') \<Rightarrow>
          (case poll_rounds decoders wanted maxPages as rpcs st' of (es', r) \<Rightarrow> (es @ es', r)))"

definition fresh_poll :: poll_state where
  "fresh_poll = \<lparr>psWatermarks = Map.empty, psBaselined = [], psSeen = []\<rparr>"

definition watched :: "string list option \<Rightarrow> string list" where
  "watched addresses = (case addresses of
      Some (a # as) \<Rightarrow> a # as | _ \<Rightarrow> [AGENC_COORDINATION_PROGRAM_ADDRESS])"

section \<open>A faithful RPC\<close>

text \<open>\<open>getSignaturesForAddress\<close> over a history, newest first, at most \<open>n\<close> per page.\<close>

definition older_than :: "string option \<Rightarrow> sig_info list \<Rightarrow> sig_info list" where
  "older_than before h = (case before of
      None \<Rightarrow> h | Some s \<Rightarrow> tl (dropWhile (\<lambda>i. sgSignature i \<noteq> s) h))"

definition newer_than :: "string option \<Rightarrow> sig_info list \<Rightarrow> sig_info list" where
  "newer_than until h = (case until of
      None \<Rightarrow> h | Some s \<Rightarrow> takeWhile (\<lambda>i. sgSignature i \<noteq> s) h)"

definition history_page :: "nat \<Rightarrow> sig_info list \<Rightarrow> string option \<Rightarrow> string option \<Rightarrow> sig_info list" where
  "history_page n h until before = take n (newer_than until (older_than before h))"

definition signatures :: "sig_info list \<Rightarrow> string list" where
  "signatures h = map sgSignature h"

text \<open>The history only grows, within a round and from one to the next.\<close>

definition chain_ok :: "nat \<Rightarrow> (nat \<Rightarrow> nat \<Rightarrow> sig_info list) \<Rightarrow> bool" where
  "chain_ok n H \<longleftrightarrow> 0 < n \<and> (\<forall>r k. distinct (signatures (H r k)) \<and> suffix (H r k) (H r (Suc k)) \<and>
     suffix (H r k) (H (Suc r) 0))"

definition faithful :: "nat \<Rightarrow> (nat \<Rightarrow> sig_info list) \<Rightarrow> string \<Rightarrow> poll_rpc \<Rightarrow> bool" where
  "faithful n h a rpc \<longleftrightarrow> (\<forall>k u b. pr_signatures rpc k a u b = Inr (history_page n (h k) u b))"

section \<open>Pages\<close>

lemma signatures_apart:
  "distinct (signatures (xs @ ys)) \<Longrightarrow> x \<in> set xs \<Longrightarrow> y \<in> set ys \<Longrightarrow> sgSignature x \<noteq> sgSignature y"
  unfolding signatures_def map_append distinct_append set_map by (metis IntI empty_iff imageI)

lemma older_split:
  assumes "distinct (signatures (xs @ i # ys))"
  shows "older_than (Some (sgSignature i)) (xs @ i # ys) = ys"
proof -
  have "\<forall>x \<in> set xs. sgSignature x \<noteq> sgSignature i"
    using signatures_apart [OF assms] by simp
  then show ?thesis by (simp add: older_than_def dropWhile_append2)
qed

lemma newer_split:
  assumes "distinct (signatures (xs @ i # ys))"
  shows "newer_than (Some (sgSignature i)) (xs @ i # ys) = xs"
proof -
  have "\<forall>x \<in> set xs. sgSignature x \<noteq> sgSignature i"
    using signatures_apart [OF assms] by simp
  then show ?thesis by (simp add: newer_than_def takeWhile_append2)
qed

lemma newer_drop: "k \<le> length (newer_than until h) \<Longrightarrow> newer_than until (drop k h) = drop k (newer_than until h)"
proof (induction k arbitrary: h)
  case (Suc k)
  then show ?case by (cases h) (auto simp: newer_than_def split: option.splits if_splits)
qed simp

lemma newer_prefix: "newer_than until h = take (length (newer_than until h)) h"
  by (cases until) (simp_all add: newer_than_def takeWhile_eq_take [symmetric])

lemma collect_pages_segment:
  assumes n: "0 < n" and get: "\<And>k u b. get k u b = Inr (history_page n (h k) u b)"
    and grow: "\<And>k. suffix (h k) (h (Suc k)) \<and> distinct (signatures (h k))"
  shows "\<exists>tail. h k = tail @ older_than before (h k) \<Longrightarrow> seg = newer_than until (older_than before (h k)) \<Longrightarrow>
    \<exists>pages. collect_pages get until k left before = Inr pages \<and> concat pages = take (left * n) seg \<and> [] \<notin> set pages"
proof (induction left arbitrary: k before seg)
  case (Suc left)
  define infos where "infos = take n seg"
  have page: "get k until before = Inr infos"
    by (simp add: get history_page_def infos_def Suc.prems(2))
  show ?case
  proof (cases "seg = []")
    case True
    then show ?thesis using page by (simp add: infos_def)
  next
    case False
    then have ne: "infos \<noteq> []" using n by (simp add: infos_def)
    obtain tail where tail: "h k = tail @ older_than before (h k)" using Suc.prems(1) by blast
    define rest where "rest = drop (length infos) (older_than before (h k))"
    have "infos = take (length infos) (older_than before (h k))"
    proof -
      define m where "m = length (newer_than until (older_than before (h k)))"
      have m: "newer_than until (older_than before (h k)) = take m (older_than before (h k))"
        unfolding m_def by (rule newer_prefix)
      have "m \<le> length (older_than before (h k))"
        unfolding m_def by (subst newer_prefix) simp
      then show ?thesis by (simp add: infos_def Suc.prems(2) m min_def)
    qed
    then have "older_than before (h k) = infos @ rest"
      unfolding rest_def by (metis append_take_drop_id)
    moreover have "infos @ rest = butlast infos @ last infos # rest"
      using append_butlast_last_id [OF ne] by (metis append.assoc append_Cons append_Nil)
    ultimately have hk: "h k = (tail @ butlast infos) @ last infos # rest"
      using tail by simp
    obtain more where more: "h (Suc k) = more @ h k" using grow [of k] by (auto simp: suffix_def)
    have d: "distinct (signatures (((more @ tail) @ butlast infos) @ last infos # rest))"
      using grow [of "Suc k"] more hk by simp
    have hSuc: "h (Suc k) = ((more @ tail) @ butlast infos) @ last infos # rest"
      using more hk by simp
    have older: "older_than (Some (sgSignature (last infos))) (h (Suc k)) = rest"
      unfolding hSuc by (rule older_split [OF d])
    have "newer_than until rest = drop (length infos) seg"
      unfolding rest_def Suc.prems(2) by (rule newer_drop) (simp add: infos_def Suc.prems(2))
    also have "\<dots> = drop n seg"
      by (cases "n \<le> length seg") (simp_all add: infos_def min_def)
    finally have seg': "drop n seg = newer_than until (older_than (Some (sgSignature (last infos))) (h (Suc k)))"
      by (simp add: older)
    have "\<exists>tail. h (Suc k) = tail @ older_than (Some (sgSignature (last infos))) (h (Suc k))"
      unfolding older by (rule exI [of _ "((more @ tail) @ butlast infos) @ [last infos]"]) (simp add: hSuc)
    from Suc.IH [OF this seg'] obtain pages where
      "collect_pages get until (Suc k) left (Some (sgSignature (last infos))) = Inr pages"
      "concat pages = take (left * n) (drop n seg)" "[] \<notin> set pages" by blast
    then show ?thesis using page ne by (simp add: infos_def take_add [symmetric] add.commute)
  qed
qed simp

section \<open>Nothing is lost and nothing is repeated\<close>

text \<open>What the transaction of a signature should yield.\<close>

definition chain_events ::
  "'e decoders \<Rightarrow> ('e \<Rightarrow> bool) \<Rightarrow> (string \<Rightarrow> string list option) \<Rightarrow> sig_info \<Rightarrow> 'e list" where
  "chain_events decoders wanted logs i =
     (if sgFailed i then [] else wanted_events decoders wanted (logs (sgSignature i)))"

lemma remember_set: "set (remember seen s) \<subseteq> insert s (set seen)"
  by (cases seen) (auto simp: remember_def Let_def)

lemma yield_infos_new:
  "distinct (signatures infos) \<Longrightarrow> set (signatures infos) \<inter> set seen = {} \<Longrightarrow>
   \<exists>seen'. yield_infos decoders wanted (\<lambda>s. Inr (logs s)) infos seen =
       (concat (map (chain_events decoders wanted logs) infos), Inr seen') \<and>
     set seen' \<subseteq> set (signatures infos) \<union> set seen"
proof (induction infos arbitrary: seen)
  case (Cons i infos)
  show ?case
  proof (cases "sgFailed i")
    case True
    then show ?thesis using Cons.IH [of seen] Cons.prems by (auto simp: signatures_def chain_events_def)
  next
    case False
    have "set (signatures infos) \<inter> insert (sgSignature i) (set seen) = {}"
      using Cons.prems by (simp add: signatures_def)
    then have "set (signatures infos) \<inter> set (remember seen (sgSignature i)) = {}"
      using remember_set [of seen "sgSignature i"] by blast
    moreover have "distinct (signatures infos)" using Cons.prems by (simp add: signatures_def)
    ultimately obtain seen' where "yield_infos decoders wanted (\<lambda>s. Inr (logs s)) infos (remember seen (sgSignature i)) =
        (concat (map (chain_events decoders wanted logs) infos), Inr seen')"
        "set seen' \<subseteq> set (signatures infos) \<union> set (remember seen (sgSignature i))"
      using Cons.IH by blast
    moreover have "sgSignature i \<notin> set seen" using Cons.prems by (auto simp: signatures_def)
    moreover have "chain_events decoders wanted logs i = wanted_events decoders wanted (logs (sgSignature i))"
      using False by (simp add: chain_events_def)
    ultimately show ?thesis
      using False remember_set [of seen "sgSignature i"] by (auto simp: signatures_def)
  qed
qed simp

definition newest :: "sig_info list \<Rightarrow> string option" where
  "newest h = (case h of [] \<Rightarrow> None | i # _ \<Rightarrow> Some (sgSignature i))"

text \<open>After a round that began when the history of the address was \<open>h\<close>.\<close>

definition caught_up :: "string \<Rightarrow> sig_info list \<Rightarrow> poll_state \<Rightarrow> bool" where
  "caught_up a h st \<longleftrightarrow> psWatermarks st a = newest h \<and> a \<in> set (psBaselined st) \<and> set (psSeen st) \<subseteq> set (signatures h)"

lemma newer_newest: "distinct (signatures (e @ h)) \<Longrightarrow> newer_than (newest h) (e @ h) = e"
proof (cases h)
  case Nil
  then show ?thesis by (simp add: newest_def newer_than_def)
next
  case (Cons i ys)
  then show "distinct (signatures (e @ h)) \<Longrightarrow> newer_than (newest h) (e @ h) = e"
    using newer_split [of e i ys] by (simp add: newest_def)
qed

lemma poll_baseline:
  assumes "0 < n" "faithful n h a rpc"
  shows "\<exists>st. poll_round decoders wanted rpc maxPages [a] fresh_poll = ([], Inr st) \<and> caught_up a (h 0) st"
  using assms
  by (cases "h 0")
    (auto simp: poll_address_def fresh_poll_def faithful_def history_page_def newer_than_def older_than_def
      caught_up_def newest_def)

lemma poll_next:
  assumes n: "0 < n" and rpc: "faithful n h a rpc" "\<And>s. pr_logs rpc s = Inr (logs s)"
    and grow: "\<And>k. suffix (h k) (h (Suc k)) \<and> distinct (signatures (h k))"
    and st: "caught_up a old st" and new: "h 0 = e @ old" and few: "length e \<le> maxPages * n"
  shows "\<exists>st'. poll_round decoders wanted rpc maxPages [a] st =
      (concat (map (chain_events decoders wanted logs) (rev e)), Inr st') \<and> caught_up a (h 0) st'"
proof -
  let ?get = "\<lambda>page. pr_signatures rpc page a"
  have d: "distinct (signatures (e @ old))" using grow [of 0] new by simp
  have "e = newer_than (psWatermarks st a) (older_than None (h 0))"
    using newer_newest [OF d] st by (simp add: new older_than_def caught_up_def)
  moreover have "\<exists>tail. h 0 = tail @ older_than None (h 0)" by (simp add: older_than_def)
  ultimately obtain pages where pages: "collect_pages ?get (psWatermarks st a) 0 maxPages None = Inr pages"
      "concat pages = take (maxPages * n) e" "[] \<notin> set pages"
    using collect_pages_segment [where get = ?get and h = h, OF n _ grow] rpc(1) unfolding faithful_def by blast
  have base: "a \<in> set (psBaselined st)" using st by (simp add: caught_up_def)
  have all: "concat pages = e" using pages(2) few by simp
  show ?thesis
  proof (cases pages)
    case Nil
    then show ?thesis using base st pages(1) all new by (simp add: poll_address_def)
  next
    case (Cons q qs)
    then have q: "q \<noteq> []" and e: "e = q @ concat qs" using pages(3) all by auto
    have logs: "pr_logs rpc = (\<lambda>s. Inr (logs s))" using rpc(2) by auto
    have "set (signatures (rev e)) \<inter> set (psSeen st) = {}"
      using d st by (auto simp: caught_up_def signatures_def)
    moreover have "distinct (signatures (rev e))" using d by (simp add: signatures_def rev_map [symmetric])
    ultimately obtain seen' where y: "yield_infos decoders wanted (pr_logs rpc) (rev (concat pages)) (psSeen st) =
        (concat (map (chain_events decoders wanted logs) (rev e)), Inr seen')"
        "set seen' \<subseteq> set (signatures (rev e)) \<union> set (psSeen st)"
      unfolding all logs using yield_infos_new by blast
    have "newest (h 0) = Some (sgSignature (hd (hd pages)))"
      using q by (cases q) (simp_all add: new e newest_def Cons)
    moreover have "set seen' \<subseteq> set (signatures (h 0))"
      using y(2) st by (auto simp: new caught_up_def signatures_def)
    ultimately show ?thesis
      using base pages(1) y(1) Cons by (simp add: poll_address_def caught_up_def)
  qed
qed

lemma poll_rounds_caught_up:
  assumes chain: "chain_ok n H" and rpc: "\<And>r. faithful n (H r) a (R r)" "\<And>r s. pr_logs (R r) s = Inr (logs s)"
    and few: "\<And>r. length (H (Suc r) 0) - length (H r 0) \<le> maxPages * n"
  shows "caught_up a (H r 0) st \<Longrightarrow>
    \<exists>st' e. poll_rounds decoders wanted maxPages [a] (map R [Suc r..<Suc r + m]) st =
      (concat (map (chain_events decoders wanted logs) (rev e)), Inr st') \<and> H (r + m) 0 = e @ H r 0"
proof (induction m arbitrary: r st)
  case 0
  then show ?case by simp
next
  case (Suc m)
  obtain e where e: "H (Suc r) 0 = e @ H r 0" using chain by (auto simp: chain_ok_def suffix_def)
  have "0 < n" "\<And>k. suffix (H (Suc r) k) (H (Suc r) (Suc k)) \<and> distinct (signatures (H (Suc r) k))"
    using chain by (auto simp: chain_ok_def)
  moreover have "length e \<le> maxPages * n" using few [of r] e by simp
  ultimately obtain st1 where st1: "poll_round decoders wanted (R (Suc r)) maxPages [a] st =
      (concat (map (chain_events decoders wanted logs) (rev e)), Inr st1)" "caught_up a (H (Suc r) 0) st1"
    using poll_next [OF _ rpc(1) rpc(2) _ Suc.prems e] by blast
  from Suc.IH [OF st1(2)] obtain st' e' where
    "poll_rounds decoders wanted maxPages [a] (map R [Suc (Suc r)..<Suc (Suc r) + m]) st1 =
      (concat (map (chain_events decoders wanted logs) (rev e')), Inr st')" "H (Suc r + m) 0 = e' @ H (Suc r) 0"
    by blast
  moreover have "[Suc r..<Suc r + Suc m] = Suc r # [Suc (Suc r)..<Suc (Suc r) + m]"
    by (simp add: upt_conv_Cons)
  ultimately show ?case
    using st1(1) e by (intro exI [of _ st'] exI [of _ "e' @ e"]) simp
qed

text \<open>C39: polling follows the chain.  If the RPC answers from one growing history and no round has more new
  signatures than its pages hold, the subscription to an address yields, over any number of rounds,
  exactly the events of the successful transactions that came after its first round, each once and in
  the order of the chain.\<close>

theorem polled_exactly:
  assumes "chain_ok n H" "\<And>r. faithful n (H r) a (R r)" "\<And>r s. pr_logs (R r) s = Inr (logs s)"
    and "\<And>r. length (H (Suc r) 0) - length (H r 0) \<le> maxPages * n"
  shows "\<exists>new st. H m 0 = new @ H 0 0 \<and>
    poll_rounds decoders wanted maxPages [a] (map R [0..<Suc m]) fresh_poll =
      (concat (map (chain_events decoders wanted logs) (rev new)), Inr st)"
proof -
  have "0 < n" using assms(1) by (simp add: chain_ok_def)
  then obtain st where st: "poll_round decoders wanted (R 0) maxPages [a] fresh_poll = ([], Inr st)" "caught_up a (H 0 0) st"
    using poll_baseline [OF _ assms(2)] by blast
  from poll_rounds_caught_up [where m = m and decoders = decoders and wanted = wanted, OF assms st(2)] obtain st' e where
    "poll_rounds decoders wanted maxPages [a] (map R [Suc 0..<Suc m]) st =
      (concat (map (chain_events decoders wanted logs) (rev e)), Inr st')" "H m 0 = e @ H 0 0"
    by auto
  moreover have "[0..<Suc m] = 0 # [Suc 0..<Suc m]" by (simp add: upt_conv_Cons)
  ultimately show ?thesis using st(1) by (intro exI [of _ e] exI [of _ st']) simp
qed

text \<open>A chain that gains one transaction after the first round.\<close>

definition sample_history :: "nat \<Rightarrow> nat \<Rightarrow> sig_info list" where
  "sample_history r k = (if r = 0 then [] else [\<lparr>sgSignature = ''s'', sgFailed = False\<rparr>])
     @ [\<lparr>sgSignature = ''old'', sgFailed = False\<rparr>]"

definition sample_poll_rpc :: "nat \<Rightarrow> poll_rpc" where
  "sample_poll_rpc r = \<lparr>pr_signatures = (\<lambda>k a u b. Inr (history_page 1000 (sample_history r k) u b)),
     pr_logs = (\<lambda>s. Inr (Some (log_of 1 sample_run)))\<rparr>"

theorem polled_exactly_witness:
  "fst (poll_rounds sample_decoders (\<lambda>_. True) DEFAULT_MAX_PAGES_PER_ROUND [''a'']
     (map sample_poll_rpc [0..<Suc 2]) fresh_poll) =
   chain_events sample_decoders (\<lambda>_. True) (\<lambda>_. Some (log_of 1 sample_run)) \<lparr>sgSignature = ''s'', sgFailed = False\<rparr>"
proof -
  have "chain_ok 1000 sample_history"
    by (auto simp: chain_ok_def sample_history_def signatures_def suffix_def)
  moreover have "faithful 1000 (sample_history r) ''a'' (sample_poll_rpc r)" for r
    by (simp add: faithful_def sample_poll_rpc_def)
  moreover have "pr_logs (sample_poll_rpc r) s = Inr (Some (log_of 1 sample_run))" for r s
    by (simp add: sample_poll_rpc_def)
  moreover have "length (sample_history (Suc r) 0) - length (sample_history r 0) \<le> DEFAULT_MAX_PAGES_PER_ROUND * 1000" for r
    by (simp add: sample_history_def DEFAULT_MAX_PAGES_PER_ROUND_def)
  ultimately obtain new st where "sample_history 2 0 = new @ sample_history 0 0"
    "poll_rounds sample_decoders (\<lambda>_. True) DEFAULT_MAX_PAGES_PER_ROUND [''a''] (map sample_poll_rpc [0..<Suc 2]) fresh_poll =
      (concat (map (chain_events sample_decoders (\<lambda>_. True) (\<lambda>_. Some (log_of 1 sample_run))) (rev new)), Inr st)"
    using polled_exactly [of 1000 sample_history "''a''" sample_poll_rpc "\<lambda>_. Some (log_of 1 sample_run)"
        DEFAULT_MAX_PAGES_PER_ROUND 2 sample_decoders "\<lambda>_. True"] by blast
  then show ?thesis by (auto simp: sample_history_def)
qed

end
