(* ===== verification/Webhook.thy ===== *)
theory Webhook
  imports JsText WorkerState
begin

unbundle bit_operations_syntax

text \<open>
  Verification of webhook signatures (\<open>webhooks/verify.ts\<close>): the header \<open>t=<millis>,v1=<hex>\<close>, the replay
  window and the comparison.  HMAC-SHA256 (WebCrypto) is a parameter, of the secret and the message; the import of
  a key of no bytes throws, as WebCrypto specifies.
\<close>

section \<open>The header\<close>

text \<open>\<open>part.indexOf("=")\<close>, and the texts on either side.\<close>

fun split_eq :: "string \<Rightarrow> (string \<times> string) option" where
  "split_eq [] = None"
| "split_eq (c # cs) = (if c = CHR ''='' then Some ([], cs)
     else map_option (\<lambda>(a, b). (c # a, b)) (split_eq cs))"

text \<open>The timestamp seen so far, and the signatures.\<close>

fun parse_parts :: "string list \<Rightarrow> string option \<Rightarrow> string list \<Rightarrow> (string option \<times> string list) option" where
  "parse_parts [] timestamp signatures = Some (timestamp, signatures)"
| "parse_parts (part # parts) timestamp signatures = (case split_eq part of
      None \<Rightarrow> None
    | Some (k, v) \<Rightarrow>
        (let key = js_trim k; value = js_trim v in
         if key = ''t'' then
           (if timestamp \<noteq> None then None
            else if value = [] \<or> \<not> list_all is_digit value then None
            else parse_parts parts (Some value) signatures)
         else if key = ''v1'' then
           (if length value = 0 \<or> length value mod 2 \<noteq> 0 then None
            else if \<not> list_all is_lower_hex (lower_ascii value) then None
            else parse_parts parts timestamp (signatures @ [lower_ascii value]))
         else parse_parts parts timestamp signatures))"

definition max_safe_ms :: nat where "max_safe_ms = 9007199254740991"

definition parseSignatureHeader :: "string \<Rightarrow> (nat \<times> string list) option" where
  "parseSignatureHeader header = (case parse_parts (split_on (CHR '','') header) None [] of
      Some (Some timestamp, signatures) \<Rightarrow>
        if signatures = [] then None
        else (let timestampMs = dec_value timestamp in
              if timestampMs \<le> max_safe_ms then Some (timestampMs, signatures) else None)
    | _ \<Rightarrow> None)"

section \<open>The comparison\<close>

definition timingSafeEqualHex :: "string \<Rightarrow> string \<Rightarrow> bool" where
  "timingSafeEqualHex a b =
     (if length a \<noteq> length b then False
      else foldl (\<lambda>diff (x, y). diff OR ((of_char x :: nat) XOR of_char y)) 0 (zip a b) = 0)"

section \<open>Verification\<close>

definition MAX_WEBHOOK_TOLERANCE_MS :: int where "MAX_WEBHOOK_TOLERANCE_MS = 86400000"

definition signed_message :: "nat \<Rightarrow> string \<Rightarrow> bytes" where
  "signed_message timestampMs rawBody = utf8_encode (dec_print timestampMs @ ''.'' @ rawBody)"

text \<open>\<open>crypto.subtle.importKey("raw", .., HMAC)\<close>: a \<open>DataError\<close> for an empty key.\<close>

datatype webcrypto_error = DataError

definition importHmacKey :: "string \<Rightarrow> webcrypto_error + bytes" where
  "importHmacKey secret = (let raw = utf8_encode secret in if raw = [] then Inl DataError else Inr raw)"

definition verifyAgencWebhookSignature ::
  "(bytes \<Rightarrow> bytes \<Rightarrow> bytes) \<Rightarrow> string \<Rightarrow> string \<Rightarrow> string \<Rightarrow> int option \<Rightarrow> int \<Rightarrow> webcrypto_error + bool" where
  "verifyAgencWebhookSignature hmac rawBody signatureHeader secret tolerance nowMs =
     (let toleranceMs = (case tolerance of None \<Rightarrow> 300000 | Some t \<Rightarrow> t) in
      if toleranceMs < 0 \<or> toleranceMs > MAX_WEBHOOK_TOLERANCE_MS then Inr False
      else (case parseSignatureHeader signatureHeader of
          None \<Rightarrow> Inr False
        | Some (timestampMs, signatures) \<Rightarrow>
            if nowMs < 0 \<or> nowMs > int max_safe_ms then Inr False
            else if \<bar>nowMs - int timestampMs\<bar> > toleranceMs then Inr False
            else (case importHmacKey secret of
                Inl e \<Rightarrow> Inl e
              | Inr key \<Rightarrow>
                  let expected = bytesToHex (hmac key (signed_message timestampMs rawBody))
                  in Inr (foldl (\<lambda>anyMatch candidate. if timingSafeEqualHex candidate expected then True else anyMatch)
                       False signatures))))"

section \<open>Exactly the signed deliveries\<close>

lemma or_zero_nat: "(a :: nat) OR b = 0 \<longleftrightarrow> a = 0 \<and> b = 0"
  by (auto simp: bit_eq_iff bit_or_iff)

lemma xor_zero_nat: "(a :: nat) XOR b = 0 \<longleftrightarrow> a = b"
  by (auto simp: bit_eq_iff bit_xor_iff)

lemma diff_fold:
  "length a = length b \<Longrightarrow>
     foldl (\<lambda>diff (x, y). diff OR ((of_char x :: nat) XOR of_char y)) d (zip a b) = 0 \<longleftrightarrow> d = 0 \<and> a = b"
  by (induction a b arbitrary: d rule: list_induct2) (auto simp: or_zero_nat xor_zero_nat)

lemma timingSafeEqualHex_iff: "timingSafeEqualHex a b \<longleftrightarrow> a = b"
  by (auto simp: timingSafeEqualHex_def diff_fold)

lemma any_match:
  "foldl (\<lambda>m c. if timingSafeEqualHex c e then True else m) b xs \<longleftrightarrow> b \<or> e \<in> set xs"
  by (induction xs arbitrary: b) (auto simp: timingSafeEqualHex_iff)

text \<open>The header a sender makes.\<close>

definition signature_header :: "nat \<Rightarrow> string list \<Rightarrow> string" where
  "signature_header t signatures = join_with '','' ((''t='' @ dec_print t) # map (\<lambda>s. ''v1='' @ s) signatures)"

lemma lower_hex_plain: "list_all is_lower_hex s \<Longrightarrow> list_all plain_char s \<and> lower_ascii s = s \<and> CHR '','' \<notin> set s"
  by (induction s) (auto simp: is_lower_hex_def plain_char_def lower_ascii_def)

definition proper_signature :: "string \<Rightarrow> bool" where
  "proper_signature s \<longleftrightarrow> s \<noteq> [] \<and> even (length s) \<and> list_all is_lower_hex s"

lemma parse_signatures:
  "list_all proper_signature sigs \<Longrightarrow>
     parse_parts (map (\<lambda>s. ''v1='' @ s) sigs) t acc = Some (t, acc @ sigs)"
proof (induction sigs arbitrary: acc)
  case (Cons s sigs)
  have "js_trim ''v1'' = ''v1''" by (rule plain_trimmed) (simp add: plain_char_def)
  moreover have "js_trim s = s" "lower_ascii s = s" "list_all is_lower_hex s" "s \<noteq> []" "even (length s)"
    using Cons.prems lower_hex_plain [of s] plain_trimmed [of s] by (simp_all add: proper_signature_def)
  ultimately show ?case using Cons by (simp add: Let_def even_iff_mod_2_eq_zero)
qed simp

lemma header_read:
  assumes "sigs \<noteq> []" "list_all proper_signature sigs" "t \<le> max_safe_ms"
  shows "parseSignatureHeader (signature_header t sigs) = Some (t, sigs)"
proof -
  have t: "js_trim ''t'' = ''t''" "js_trim (dec_print t) = dec_print t" "CHR '','' \<notin> set (dec_print t)"
    using plain_trimmed [of "''t''"] plain_trimmed [of "dec_print t"] digits_plain [of "dec_print t"]
    by (simp_all add: plain_char_def)
  have "list_all (\<lambda>x. CHR '','' \<notin> set x) ((''t='' @ dec_print t) # map (\<lambda>s. ''v1='' @ s) sigs)"
    using t(3) assms(2) lower_hex_plain by (auto simp: list_all_iff proper_signature_def)
  then have "split_on (CHR '','') (signature_header t sigs) = (''t='' @ dec_print t) # map (\<lambda>s. ''v1='' @ s) sigs"
    unfolding signature_header_def by (rule split_join [rotated]) simp
  then show ?thesis
    using assms t parse_signatures [OF assms(2), of "Some (dec_print t)" "[]"]
    by (simp add: parseSignatureHeader_def Let_def)
qed

definition replay_window :: "int option \<Rightarrow> int" where
  "replay_window tolerance = (case tolerance of None \<Rightarrow> 300000 | Some t \<Rightarrow> t)"

text \<open>What a delivery has to satisfy, given the time and the signatures of its header.\<close>

definition fresh_delivery :: "int option \<Rightarrow> int \<Rightarrow> nat \<Rightarrow> bool" where
  "fresh_delivery tolerance nowMs t \<longleftrightarrow>
     0 \<le> replay_window tolerance \<and> replay_window tolerance \<le> MAX_WEBHOOK_TOLERANCE_MS
     \<and> 0 \<le> nowMs \<and> nowMs \<le> int max_safe_ms \<and> \<bar>nowMs - int t\<bar> \<le> replay_window tolerance"

definition matches :: "(bytes \<Rightarrow> bytes \<Rightarrow> bytes) \<Rightarrow> string \<Rightarrow> string \<Rightarrow> nat \<Rightarrow> string list \<Rightarrow> bool" where
  "matches hmac secret rawBody t sigs \<longleftrightarrow> bytesToHex (hmac (utf8_encode secret) (signed_message t rawBody)) \<in> set sigs"

lemma verify_exactly:
  "verifyAgencWebhookSignature hmac rawBody header secret tolerance nowMs =
     (case parseSignatureHeader header of
        None \<Rightarrow> Inr False
      | Some (t, sigs) \<Rightarrow>
          if \<not> fresh_delivery tolerance nowMs t then Inr False
          else if secret = [] then Inl DataError
          else Inr (matches hmac secret rawBody t sigs))"
  unfolding verifyAgencWebhookSignature_def any_match Let_def
  by (auto simp: fresh_delivery_def replay_window_def importHmacKey_def matches_def utf8_encode_def split: option.splits)

text \<open>C40: a delivery is accepted exactly when its header parses to a time within the replay window (which is at
  most a day) of a sane clock, the secret is not empty, and the HMAC of that time and the exact body is among its
  signatures; it throws exactly when such a header meets an empty secret, which WebCrypto refuses as a key.  Every
  header a sender makes, with one or more signatures for secret rotation, parses to its time and its
  signatures: so with a secret, a delivery is accepted as long as it is fresh and one signature is that of the secret.\<close>

theorem webhook_accepted_exactly:
  "(verifyAgencWebhookSignature hmac rawBody header secret tolerance nowMs = Inr True \<longleftrightarrow>
     (\<exists>t sigs. parseSignatureHeader header = Some (t, sigs) \<and> fresh_delivery tolerance nowMs t
        \<and> secret \<noteq> [] \<and> matches hmac secret rawBody t sigs))
   \<and> (verifyAgencWebhookSignature hmac rawBody header secret tolerance nowMs = Inl DataError \<longleftrightarrow>
     (\<exists>t sigs. parseSignatureHeader header = Some (t, sigs) \<and> fresh_delivery tolerance nowMs t \<and> secret = []))
   \<and> (sent_t \<le> max_safe_ms \<and> sent \<noteq> [] \<and> list_all proper_signature sent \<and> secret \<noteq> [] \<longrightarrow>
        verifyAgencWebhookSignature hmac rawBody (signature_header sent_t sent) secret tolerance nowMs =
          Inr (fresh_delivery tolerance nowMs sent_t \<and> matches hmac secret rawBody sent_t sent))"
  unfolding verify_exactly using header_read [of sent sent_t] by (auto split: option.splits)

text \<open>A sample code and a delivery made with it.\<close>

definition sample_hmac :: "bytes \<Rightarrow> bytes \<Rightarrow> bytes" where
  "sample_hmac key message = [of_nat (length key), of_nat (length message)]"

theorem webhook_accepted_exactly_witness:
  "verifyAgencWebhookSignature sample_hmac ''{}'' (signature_header 17 [''ab'', ''0205'']) ''k1'' None 300017 = Inr True
   \<and> verifyAgencWebhookSignature sample_hmac ''{}'' (signature_header 17 [''ab'', ''0205'']) ''k1'' None 300018 = Inr False
   \<and> verifyAgencWebhookSignature sample_hmac ''{ }'' (signature_header 17 [''ab'', ''0205'']) ''k1'' None 300017 = Inr False"
proof -
  have sent: "(17 :: nat) \<le> max_safe_ms \<and> [''ab'', ''0205''] \<noteq> [] \<and> list_all proper_signature [''ab'', ''0205''] \<and> ''k1'' \<noteq> []"
    by (simp add: max_safe_ms_def proper_signature_def is_lower_hex_def)
  note accepted = webhook_accepted_exactly [THEN conjunct2, THEN conjunct2, THEN mp, OF sent]
  have "bytesToHex (sample_hmac (utf8_encode ''k1'') (signed_message 17 ''{}'')) = ''0205''"
    "bytesToHex (sample_hmac (utf8_encode ''k1'') (signed_message 17 ''{ }'')) = ''0206''"
    by (simp_all add: sample_hmac_def signed_message_def utf8_encode_def dec_print.simps hex_digit_def)
  then show ?thesis
    unfolding accepted
    by (simp add: fresh_delivery_def replay_window_def MAX_WEBHOOK_TOLERANCE_MS_def max_safe_ms_def matches_def)
qed

end
