(* ===== verification/BorshString.thy ===== *)
theory BorshString
  imports ChainTypes
begin

text \<open>
  The strings of accounts (\<open>generated/codecs/borshString.ts\<close>): JavaScript strings are sequences of UTF-16 units, and
  what is stored is the UTF-8 text of Rust.  \<open>TextEncoder\<close> and \<open>TextDecoder\<close> are those of the platform: the
  encoder replaces a lone surrogate by U+FFFD, the fatal decoder with \<open>ignoreBOM\<close> refuses every malformed sequence
  and drops nothing.
\<close>

section \<open>Code points\<close>

abbreviation high_surrogate :: "nat \<Rightarrow> bool" where "high_surrogate u \<equiv> 0xD800 \<le> u \<and> u \<le> 0xDBFF"

abbreviation low_surrogate :: "nat \<Rightarrow> bool" where "low_surrogate u \<equiv> 0xDC00 \<le> u \<and> u \<le> 0xDFFF"

fun code_points :: "nat list \<Rightarrow> nat list" where
  "code_points [] = []"
| "code_points (u # us) =
     (if high_surrogate u then
        (case us of
           v # vs \<Rightarrow> if low_surrogate v then (0x10000 + (u - 0xD800) * 0x400 + (v - 0xDC00)) # code_points vs
             else 0xFFFD # code_points us
         | [] \<Rightarrow> [0xFFFD])
      else if low_surrogate u then 0xFFFD # code_points us
      else u # code_points us)"

definition point_units :: "nat \<Rightarrow> nat list" where
  "point_units p = (if p < 0x10000 then [p] else [0xD800 + (p - 0x10000) div 0x400, 0xDC00 + (p - 0x10000) mod 0x400])"

definition point_bytes :: "nat \<Rightarrow> nat list" where
  "point_bytes p =
     (if p < 0x80 then [p]
      else if p < 0x800 then [0xC0 + p div 64, 0x80 + p mod 64]
      else if p < 0x10000 then [0xE0 + p div 4096, 0x80 + p div 64 mod 64, 0x80 + p mod 64]
      else [0xF0 + p div 262144, 0x80 + p div 4096 mod 64, 0x80 + p div 64 mod 64, 0x80 + p mod 64])"

text \<open>The Unicode scalar values: code points that are no surrogates.\<close>

definition scalar :: "nat \<Rightarrow> bool" where
  "scalar p \<longleftrightarrow> p < 0x110000 \<and> \<not> (0xD800 \<le> p \<and> p \<le> 0xDFFF)"

abbreviation continuation :: "nat \<Rightarrow> bool" where "continuation b \<equiv> 0x80 \<le> b \<and> b \<le> 0xBF"

text \<open>The UTF-8 decoder of the Encoding Standard; \<open>None\<close> is its error.\<close>

fun utf8_points :: "nat list \<Rightarrow> nat list option" where
  "utf8_points [] = Some []"
| "utf8_points (a # xs) =
     (if a \<le> 0x7F then map_option (Cons a) (utf8_points xs)
      else if 0xC2 \<le> a \<and> a \<le> 0xDF then
        (case xs of
           b # ys \<Rightarrow> if continuation b then map_option (Cons ((a - 0xC0) * 64 + (b - 0x80))) (utf8_points ys) else None
         | _ \<Rightarrow> None)
      else if 0xE0 \<le> a \<and> a \<le> 0xEF then
        (case xs of
           b # c # ys \<Rightarrow>
             if (if a = 0xE0 then 0xA0 else 0x80) \<le> b \<and> b \<le> (if a = 0xED then 0x9F else 0xBF) \<and> continuation c
             then map_option (Cons ((a - 0xE0) * 4096 + (b - 0x80) * 64 + (c - 0x80))) (utf8_points ys) else None
         | _ \<Rightarrow> None)
      else if 0xF0 \<le> a \<and> a \<le> 0xF4 then
        (case xs of
           b # c # d # ys \<Rightarrow>
             if (if a = 0xF0 then 0x90 else 0x80) \<le> b \<and> b \<le> (if a = 0xF4 then 0x8F else 0xBF)
               \<and> continuation c \<and> continuation d
             then map_option (Cons ((a - 0xF0) * 262144 + (b - 0x80) * 4096 + (c - 0x80) * 64 + (d - 0x80))) (utf8_points ys)
             else None
         | _ \<Rightarrow> None)
      else None)"

text \<open>The decoder that is not fatal puts U+FFFD for the longest prefix that no character begins with.\<close>

fun utf8_replaced :: "nat list \<Rightarrow> nat list" where
  "utf8_replaced [] = []"
| "utf8_replaced (a # xs) =
     (if a \<le> 0x7F then a # utf8_replaced xs
      else if 0xC2 \<le> a \<and> a \<le> 0xDF then
        (case xs of
           b # ys \<Rightarrow> if continuation b then ((a - 0xC0) * 64 + (b - 0x80)) # utf8_replaced ys else 0xFFFD # utf8_replaced xs
         | [] \<Rightarrow> [0xFFFD])
      else if 0xE0 \<le> a \<and> a \<le> 0xEF then
        (case xs of
           b # ys \<Rightarrow>
             if (if a = 0xE0 then 0xA0 else 0x80) \<le> b \<and> b \<le> (if a = 0xED then 0x9F else 0xBF) then
               (case ys of
                  c # zs \<Rightarrow> if continuation c
                    then ((a - 0xE0) * 4096 + (b - 0x80) * 64 + (c - 0x80)) # utf8_replaced zs else 0xFFFD # utf8_replaced ys
                | [] \<Rightarrow> [0xFFFD])
             else 0xFFFD # utf8_replaced xs
         | [] \<Rightarrow> [0xFFFD])
      else if 0xF0 \<le> a \<and> a \<le> 0xF4 then
        (case xs of
           b # ys \<Rightarrow>
             if (if a = 0xF0 then 0x90 else 0x80) \<le> b \<and> b \<le> (if a = 0xF4 then 0x8F else 0xBF) then
               (case ys of
                  c # zs \<Rightarrow> if continuation c then
                      (case zs of
                         d # ds \<Rightarrow> if continuation d
                           then ((a - 0xF0) * 262144 + (b - 0x80) * 4096 + (c - 0x80) * 64 + (d - 0x80)) # utf8_replaced ds
                           else 0xFFFD # utf8_replaced zs
                       | [] \<Rightarrow> [0xFFFD])
                    else 0xFFFD # utf8_replaced ys
                | [] \<Rightarrow> [0xFFFD])
             else 0xFFFD # utf8_replaced xs
         | [] \<Rightarrow> [0xFFFD])
      else 0xFFFD # utf8_replaced xs)"

text \<open>\<open>TextEncoder\<close>, and \<open>TextDecoder\<close> with its options: without \<open>ignoreBOM\<close>, a leading byte order mark is
  dropped.\<close>

definition text_encode :: "nat list \<Rightarrow> bytes" where
  "text_encode units = map of_nat (concat (map point_bytes (code_points units)))"

record text_decoder_options =
  td_fatal :: bool
  td_ignoreBOM :: bool

definition text_decode :: "text_decoder_options \<Rightarrow> bytes \<Rightarrow> nat list option" where
  "text_decode options b =
     (let bs = map unat b;
          text = (if \<not> td_ignoreBOM options \<and> take 3 bs = [0xEF, 0xBB, 0xBF] then drop 3 bs else bs)
      in map_option (\<lambda>ps. concat (map point_units ps))
           (if td_fatal options then utf8_points text else Some (utf8_replaced text)))"

section \<open>The codec\<close>

fun assertWellFormedUnicode :: "nat list \<Rightarrow> bool" where
  "assertWellFormedUnicode [] = True"
| "assertWellFormedUnicode (u # us) =
     (if high_surrogate u then
        (case us of v # vs \<Rightarrow> if low_surrogate v then assertWellFormedUnicode vs else False | [] \<Rightarrow> False)
      else if low_surrogate u then False
      else assertWellFormedUnicode us)"

definition getBorshStringEncoder :: "nat list \<Rightarrow> bytes option" where
  "getBorshStringEncoder units = (if assertWellFormedUnicode units then Some (text_encode units) else None)"

definition getBorshStringDecoder :: "bytes \<Rightarrow> nat list option" where
  "getBorshStringDecoder b = text_decode \<lparr>td_fatal = True, td_ignoreBOM = True\<rparr> b"

section \<open>UTF-8 of scalar values\<close>

lemma div_64: "n div 4096 = n div 64 div (64 :: nat)" "n div 262144 = n div 64 div 64 div (64 :: nat)"
  using div_mult2_eq [of n 64 64] div_mult2_eq [of n 64 4096] div_mult2_eq [of "n div 64" 64 64] by simp_all

lemma digit_64: "z < 64 \<Longrightarrow> (y * 64 + z) div 64 = (y :: nat)" "z < 64 \<Longrightarrow> (y * 64 + z) mod 64 = z"
  by simp_all

lemma digits_64:
  assumes "z < 64" "y < 64" "w < 64"
  shows "(x * 4096 + y * 64 + z) div 4096 = (x :: nat)" "(x * 4096 + y * 64 + z) div 64 mod 64 = y"
      "(x * 4096 + y * 64 + z) mod 64 = z"
    and "(x * 262144 + w * 4096 + y * 64 + z) div 262144 = x" "(x * 262144 + w * 4096 + y * 64 + z) div 4096 mod 64 = w"
      "(x * 262144 + w * 4096 + y * 64 + z) div 64 mod 64 = y" "(x * 262144 + w * 4096 + y * 64 + z) mod 64 = z"
proof -
  have three: "x * 4096 + y * 64 + z = (x * 64 + y) * 64 + z" by simp
  have four: "x * 262144 + w * 4096 + y * 64 + z = ((x * 64 + w) * 64 + y) * 64 + z" by simp
  show "(x * 4096 + y * 64 + z) div 4096 = (x :: nat)" "(x * 4096 + y * 64 + z) div 64 mod 64 = y"
      "(x * 4096 + y * 64 + z) mod 64 = z"
    unfolding three div_64 by (simp_all only: digit_64 assms)
  show "(x * 262144 + w * 4096 + y * 64 + z) div 262144 = x" "(x * 262144 + w * 4096 + y * 64 + z) div 4096 mod 64 = w"
      "(x * 262144 + w * 4096 + y * 64 + z) div 64 mod 64 = y" "(x * 262144 + w * 4096 + y * 64 + z) mod 64 = z"
    unfolding four div_64 by (simp_all only: digit_64 assms)
qed

lemma digits_sum:
  fixes p :: nat
  shows "p div 4096 * 4096 + p div 64 mod 64 * 64 + p mod 64 = p"
    and "p div 262144 * 262144 + p div 4096 mod 64 * 4096 + p div 64 mod 64 * 64 + p mod 64 = p"
proof -
  have 1: "p div 64 * 64 + p mod 64 = p" by (rule div_mult_mod_eq)
  have 2: "p div 64 div 64 * 64 + p div 64 mod 64 = p div 64" by (rule div_mult_mod_eq)
  have 3: "p div 64 div 64 div 64 * 64 + p div 64 div 64 mod 64 = p div 64 div 64" by (rule div_mult_mod_eq)
  show "p div 4096 * 4096 + p div 64 mod 64 * 64 + p mod 64 = p" unfolding div_64 using 1 2 by linarith
  show "p div 262144 * 262144 + p div 4096 mod 64 * 4096 + p div 64 mod 64 * 64 + p mod 64 = p"
    unfolding div_64 using 1 2 3 by linarith
qed

lemma two_bytes:
  assumes "0xC2 \<le> a" "a \<le> 0xDF" "continuation b"
  shows "point_bytes ((a - 0xC0) * 64 + (b - 0x80)) = [a, b]" "scalar ((a - 0xC0) * 64 + (b - 0x80))"
proof -
  define x y where "x = a - 0xC0" and "y = b - 0x80"
  then have a: "a = 0xC0 + x" and b: "b = 0x80 + y" and xy: "2 \<le> x" "x \<le> 31" "y < 64" using assms by auto
  then have "0x80 \<le> x * 64 + y" "x * 64 + y < 0x800" by auto
  then show "point_bytes ((a - 0xC0) * 64 + (b - 0x80)) = [a, b]" "scalar ((a - 0xC0) * 64 + (b - 0x80))"
    using digit_64 [of y x] xy unfolding a b point_bytes_def scalar_def by auto
qed

lemma three_bytes:
  assumes "0xE0 \<le> a" "a \<le> 0xEF" "(if a = 0xE0 then 0xA0 else 0x80) \<le> b" "b \<le> (if a = 0xED then 0x9F else 0xBF)"
    "continuation c"
  shows "point_bytes ((a - 0xE0) * 4096 + (b - 0x80) * 64 + (c - 0x80)) = [a, b, c]"
    "scalar ((a - 0xE0) * 4096 + (b - 0x80) * 64 + (c - 0x80))"
proof -
  define x y z where "x = a - 0xE0" and "y = b - 0x80" and "z = c - 0x80"
  then have abc: "a = 0xE0 + x" "b = 0x80 + y" "c = 0x80 + z"
    and xyz: "x \<le> 15" "y < 64" "z < 64" "x = 0 \<longrightarrow> 32 \<le> y" "x = 13 \<longrightarrow> y < 32"
    using assms by (auto split: if_splits)
  define p where "p = x * 4096 + y * 64 + z"
  have parts: "p div 4096 = x" "p div 64 mod 64 = y" "p mod 64 = z"
    using digits_64(1-3) [of z y 0 x] xyz by (simp_all add: p_def)
  have "0x800 \<le> p" using xyz by (cases "x = 0") (auto simp: p_def)
  moreover have "p < 0x10000" using xyz by (simp add: p_def)
  moreover have "\<not> (0xD800 \<le> p \<and> p \<le> 0xDFFF)"
    using xyz by (cases "x < 13"; cases "x = 13") (auto simp: p_def)
  moreover have "(a - 0xE0) * 4096 + (b - 0x80) * 64 + (c - 0x80) = p" by (simp add: abc p_def)
  ultimately show "point_bytes ((a - 0xE0) * 4096 + (b - 0x80) * 64 + (c - 0x80)) = [a, b, c]"
    "scalar ((a - 0xE0) * 4096 + (b - 0x80) * 64 + (c - 0x80))"
    using parts by (simp_all add: point_bytes_def scalar_def abc)
qed

lemma four_bytes:
  assumes "0xF0 \<le> a" "a \<le> 0xF4" "(if a = 0xF0 then 0x90 else 0x80) \<le> b" "b \<le> (if a = 0xF4 then 0x8F else 0xBF)"
    "continuation c" "continuation d"
  shows "point_bytes ((a - 0xF0) * 262144 + (b - 0x80) * 4096 + (c - 0x80) * 64 + (d - 0x80)) = [a, b, c, d]"
    "scalar ((a - 0xF0) * 262144 + (b - 0x80) * 4096 + (c - 0x80) * 64 + (d - 0x80))"
    "0x10000 \<le> (a - 0xF0) * 262144 + (b - 0x80) * 4096 + (c - 0x80) * 64 + (d - 0x80)"
proof -
  define x w y z where "x = a - 0xF0" and "w = b - 0x80" and "y = c - 0x80" and "z = d - 0x80"
  then have abc: "a = 0xF0 + x" "b = 0x80 + w" "c = 0x80 + y" "d = 0x80 + z"
    and xyz: "x \<le> 4" "w < 64" "y < 64" "z < 64" "x = 0 \<longrightarrow> 16 \<le> w" "x = 4 \<longrightarrow> w < 16"
    using assms by (auto split: if_splits)
  define p where "p = x * 262144 + w * 4096 + y * 64 + z"
  have parts: "p div 262144 = x" "p div 4096 mod 64 = w" "p div 64 mod 64 = y" "p mod 64 = z"
    using digits_64(4-7) [of z y w x] xyz by (simp_all add: p_def)
  have low: "0x10000 \<le> p" using xyz by (cases "x = 0") (auto simp: p_def)
  moreover have "p < 0x110000" using xyz by (cases "x = 4") (auto simp: p_def)
  moreover have eq: "(a - 0xF0) * 262144 + (b - 0x80) * 4096 + (c - 0x80) * 64 + (d - 0x80) = p" by (simp add: abc p_def)
  ultimately show "point_bytes ((a - 0xF0) * 262144 + (b - 0x80) * 4096 + (c - 0x80) * 64 + (d - 0x80)) = [a, b, c, d]"
    "scalar ((a - 0xF0) * 262144 + (b - 0x80) * 4096 + (c - 0x80) * 64 + (d - 0x80))"
    using parts by (simp_all add: point_bytes_def scalar_def abc)
  show "0x10000 \<le> (a - 0xF0) * 262144 + (b - 0x80) * 4096 + (c - 0x80) * 64 + (d - 0x80)"
    unfolding eq by (rule low)
qed

text \<open>The decoder reads one scalar value and goes on, exactly where its bytes are.\<close>

lemma decode_point: "scalar p \<Longrightarrow> utf8_points (point_bytes p @ xs) = map_option (Cons p) (utf8_points xs)"
proof -
  assume p: "scalar p"
  consider "p < 0x80" | "0x80 \<le> p" "p < 0x800" | "0x800 \<le> p" "p < 0x10000" | "0x10000 \<le> p" by linarith
  then show ?thesis
  proof cases
    case 1
    then show ?thesis by (simp add: point_bytes_def)
  next
    case 2
    have "2 \<le> p div 64" "p div 64 \<le> 31" "p mod 64 \<le> 63" using 2 by auto
    then show ?thesis using 2 by (simp add: point_bytes_def)
  next
    case 3
    note sum = digits_sum(1) [of p]
    have b: "p div 4096 \<le> 15" "p div 64 mod 64 \<le> 63" "p mod 64 \<le> 63"
      using 3 mod_less_divisor [of 64 "p div 64"] mod_less_divisor [of 64 p] by auto
    have zero: "32 \<le> p div 64 mod 64" if "p div 4096 = 0" using 3 that sum b by linarith
    have thirteen: "p div 64 mod 64 \<le> 31" if "p div 4096 = 13"
      using p that sum b unfolding scalar_def by linarith
    show ?thesis using 3 b zero thirteen sum by (simp add: point_bytes_def)
  next
    case 4
    note sum = digits_sum(2) [of p]
    have p1: "p < 0x110000" using p by (simp add: scalar_def)
    have b: "p div 262144 \<le> 4" "p div 4096 mod 64 \<le> 63" "p div 64 mod 64 \<le> 63" "p mod 64 \<le> 63"
      using p1 mod_less_divisor [of 64 "p div 64"] mod_less_divisor [of 64 p] mod_less_divisor [of 64 "p div 4096"] by auto
    have zero: "16 \<le> p div 4096 mod 64" if "p div 262144 = 0" using 4 that sum b by linarith
    have four: "p div 4096 mod 64 \<le> 15" if "p div 262144 = 4" using p1 that sum b by linarith
    show ?thesis using 4 b zero four sum by (simp add: point_bytes_def)
  qed
qed

definition scalar_bytes :: "nat list \<Rightarrow> nat list" where
  "scalar_bytes ps = concat (map point_bytes ps)"

definition scalar_units :: "nat list \<Rightarrow> nat list" where
  "scalar_units ps = concat (map point_units ps)"

lemma scalar_text_simps [simp]:
  "scalar_bytes [] = []" "scalar_bytes (p # ps) = point_bytes p @ scalar_bytes ps"
  "scalar_units [] = []" "scalar_units (p # ps) = point_units p @ scalar_units ps"
  by (simp_all add: scalar_bytes_def scalar_units_def)

lemma decode_scalars: "list_all scalar ps \<Longrightarrow> utf8_points (scalar_bytes ps) = Some ps"
  by (induction ps) (simp_all add: decode_point del: utf8_points.simps(2))

lemma decoded_scalars: "utf8_points bs = Some ps \<Longrightarrow> list_all scalar ps \<and> scalar_bytes ps = bs"
proof (induction bs arbitrary: ps rule: utf8_points.induct)
  case 1
  then show ?case by simp
next
  case (2 a xs)
  consider (one) "a \<le> 0x7F" | (two) "0xC2 \<le> a" "a \<le> 0xDF" | (three) "0xE0 \<le> a" "a \<le> 0xEF"
    | (four) "0xF0 \<le> a" "a \<le> 0xF4" | (bad) "a > 0x7F" "a < 0xC2 \<or> a > 0xF4" by linarith
  then show ?case
  proof cases
    case one
    then obtain qs where "utf8_points xs = Some qs" "ps = a # qs" using 2(5) by auto
    then show ?thesis using 2(1) [OF one] one by (simp add: scalar_def point_bytes_def)
  next
    case two
    then obtain b ys qs where ys: "xs = b # ys" "continuation b" "utf8_points ys = Some qs"
      "ps = ((a - 0xC0) * 64 + (b - 0x80)) # qs"
      using 2(5) by (auto split: list.splits if_splits)
    then show ?thesis using 2(2) [of b ys qs] two two_bytes [OF two ys(2)] by simp
  next
    case three
    then obtain b c ys qs where ys: "xs = b # c # ys" "(if a = 0xE0 then 0xA0 else 0x80) \<le> b"
      "b \<le> (if a = 0xED then 0x9F else 0xBF)" "continuation c" "utf8_points ys = Some qs"
      "ps = ((a - 0xE0) * 4096 + (b - 0x80) * 64 + (c - 0x80)) # qs"
      using 2(5) by (auto split: list.splits if_splits)
    then show ?thesis using 2(3) [of b "c # ys" c ys qs] three three_bytes [OF three ys(2-4)] by simp
  next
    case four
    then obtain b c d ys qs where ys: "xs = b # c # d # ys" "(if a = 0xF0 then 0x90 else 0x80) \<le> b"
      "b \<le> (if a = 0xF4 then 0x8F else 0xBF)" "continuation c" "continuation d" "utf8_points ys = Some qs"
      "ps = ((a - 0xF0) * 262144 + (b - 0x80) * 4096 + (c - 0x80) * 64 + (d - 0x80)) # qs"
      using 2(5) by (auto split: list.splits if_splits)
    then show ?thesis using 2(4) [of b "c # d # ys" c "d # ys" d ys qs] four four_bytes [OF four ys(2-5)] by simp
  next
    case bad
    then show ?thesis using 2(5) by auto
  qed
qed

lemma scalar_bytes_bound: "list_all scalar ps \<Longrightarrow> list_all (\<lambda>b. b < 256) (scalar_bytes ps)"
proof (induction ps)
  case (Cons p ps)
  have "p < 0x110000" using Cons.prems by (simp add: scalar_def)
  then have "list_all (\<lambda>b. b < 256) (point_bytes p)"
    using mod_less_divisor [of 64 p] mod_less_divisor [of 64 "p div 64"] mod_less_divisor [of 64 "p div 4096"]
    by (auto simp: point_bytes_def)
  then show ?case using Cons by simp
qed simp

section \<open>UTF-16 of scalar values\<close>

lemma point_units_read:
  assumes "scalar p"
  shows "code_points (point_units p @ us) = p # code_points us"
    and "assertWellFormedUnicode (point_units p @ us) = assertWellFormedUnicode us"
proof -
  have sum: "(p - 0x10000) div 0x400 * 0x400 + (p - 0x10000) mod 0x400 = p - 0x10000" by (rule div_mult_mod_eq)
  have b: "(p - 0x10000) mod 0x400 \<le> 0x3FF" using mod_less_divisor [of "0x400" "p - 0x10000"] by linarith
  have "code_points (point_units p @ us) = p # code_points us \<and>
      assertWellFormedUnicode (point_units p @ us) = assertWellFormedUnicode us"
  proof (cases "p < 0x10000")
    case True
    then show ?thesis using assms by (auto simp: point_units_def scalar_def)
  next
    case False
    have "p < 0x110000" using assms by (simp add: scalar_def)
    then have "(p - 0x10000) div 0x400 < 0x400" by (simp add: div_less_iff_less_mult)
    then show ?thesis using False sum b by (simp add: point_units_def)
  qed
  then show "code_points (point_units p @ us) = p # code_points us"
    "assertWellFormedUnicode (point_units p @ us) = assertWellFormedUnicode us" by simp_all
qed

lemma units_read:
  "list_all scalar ps \<Longrightarrow> code_points (scalar_units ps) = ps \<and> assertWellFormedUnicode (scalar_units ps)"
  by (induction ps) (simp_all add: point_units_read del: code_points.simps(2) assertWellFormedUnicode.simps(2))

lemma well_formed_units:
  "assertWellFormedUnicode us \<Longrightarrow> list_all (\<lambda>u. u < 0x10000) us \<Longrightarrow>
   list_all scalar (code_points us) \<and> scalar_units (code_points us) = us"
proof (induction us rule: assertWellFormedUnicode.induct)
  case (2 u us)
  show ?case
  proof (cases "high_surrogate u")
    case True
    then obtain v vs where vs: "us = v # vs" "low_surrogate v" "assertWellFormedUnicode vs"
      using 2(3) by (auto split: list.splits if_splits)
    have ih: "list_all scalar (code_points vs)" "scalar_units (code_points vs) = vs"
      using 2(1) [OF True vs(1,2)] vs 2(4) by simp_all
    define x y where "x = u - 0xD800" and "y = v - 0xDC00"
    then have xy: "u = 0xD800 + x" "v = 0xDC00 + y" "x < 0x400" "y < 0x400" using True vs(2) by auto
    have "(x * 0x400 + y) div 0x400 = x" "(x * 0x400 + y) mod 0x400 = y" using xy by simp_all
    then have "point_units (0x10000 + x * 0x400 + y) = [u, v]" by (simp add: point_units_def xy)
    moreover have "scalar (0x10000 + x * 0x400 + y)" using xy by (simp add: scalar_def)
    ultimately show ?thesis using True vs ih xy by simp
  next
    case False
    then have "\<not> low_surrogate u" "assertWellFormedUnicode us" using 2(3) by (auto split: if_splits)
    moreover from this have "code_points (u # us) = u # code_points us" using False by auto
    moreover have "scalar u" using False \<open>\<not> low_surrogate u\<close> 2(4) by (auto simp: scalar_def)
    ultimately show ?thesis using False 2(2) [OF False] 2(4) by (simp add: point_units_def del: code_points.simps)
  qed
qed simp

section \<open>Exactness\<close>

lemma unat_of_char: "unat (of_char c :: byte) = of_char c"
proof -
  have "(of_char c :: byte) = of_nat (of_char c)" by (cases c) (simp add: of_char_def horner_sum_simps)
  then show ?thesis by (simp only: unat_of_nat) simp
qed

lemma unat_utf8: "map unat (utf8_encode s) = map of_char s"
  by (induction s) (simp_all add: utf8_encode_def unat_of_char)

lemma unat_text_encode:
  "list_all scalar (code_points us) \<Longrightarrow> map unat (text_encode us) = scalar_bytes (code_points us)"
proof -
  assume "list_all scalar (code_points us)"
  then have "list_all (\<lambda>b. b < 256) (scalar_bytes (code_points us))" by (rule scalar_bytes_bound)
  then show ?thesis
    unfolding text_encode_def scalar_bytes_def [symmetric]
    by (auto simp: list_all_iff unat_of_nat intro!: map_idI)
qed

lemma map_unat_inj: "map unat a = map unat b \<Longrightarrow> a = (b :: bytes)"
  by (rule map_injective [of unat]) (auto intro: injI)

text \<open>C36: the strings of accounts are exact.  A JavaScript string has an encoding exactly when it is the UTF-16 text
  of Unicode scalar values, that is when it has no lone surrogate; bytes decode exactly when they are the UTF-8 text of
  scalar values; and the two are inverse to each other, so that no two strings share an encoding and no byte order
  mark, no zero character and no malformed sequence is dropped or replaced.\<close>

theorem borsh_string_exact:
  assumes "list_all (\<lambda>u. u < 0x10000) units"
  shows "(getBorshStringEncoder units = Some b \<longleftrightarrow> getBorshStringDecoder b = Some units) \<and>
     (getBorshStringEncoder units \<noteq> None \<longleftrightarrow> (\<exists>ps. list_all scalar ps \<and> units = scalar_units ps)) \<and>
     (getBorshStringDecoder b \<noteq> None \<longleftrightarrow> (\<exists>ps. list_all scalar ps \<and> map unat b = scalar_bytes ps))"
proof (intro conjI)
  show "getBorshStringEncoder units = Some b \<longleftrightarrow> getBorshStringDecoder b = Some units"
  proof
    assume enc: "getBorshStringEncoder units = Some b"
    then have "assertWellFormedUnicode units" "b = text_encode units"
      by (auto simp: getBorshStringEncoder_def split: if_splits)
    then show "getBorshStringDecoder b = Some units"
      using well_formed_units [OF _ assms] unat_text_encode [of units]
      by (simp add: getBorshStringDecoder_def text_decode_def decode_scalars flip: scalar_units_def)
  next
    assume "getBorshStringDecoder b = Some units"
    then obtain ps where ps: "utf8_points (map unat b) = Some ps" "units = scalar_units ps"
      by (auto simp: getBorshStringDecoder_def text_decode_def scalar_units_def)
    note scalars = decoded_scalars [OF ps(1)] 
    then have read: "code_points units = ps" "assertWellFormedUnicode units" using units_read ps(2) by simp_all
    then have "map unat (text_encode units) = map unat b" using unat_text_encode scalars by simp
    then show "getBorshStringEncoder units = Some b"
      using read(2) map_unat_inj by (simp add: getBorshStringEncoder_def)
  qed
  show "getBorshStringEncoder units \<noteq> None \<longleftrightarrow> (\<exists>ps. list_all scalar ps \<and> units = scalar_units ps)"
    using well_formed_units [OF _ assms] units_read by (auto simp: getBorshStringEncoder_def)
  show "getBorshStringDecoder b \<noteq> None \<longleftrightarrow> (\<exists>ps. list_all scalar ps \<and> map unat b = scalar_bytes ps)"
    using decoded_scalars decode_scalars by (auto simp: getBorshStringDecoder_def text_decode_def) metis
qed

theorem borsh_string_exact_witness:
  "getBorshStringDecoder [0xEF, 0xBB, 0xBF, 0, 0x61, 0xF0, 0x9F, 0x98, 0x80] = Some [0xFEFF, 0, 0x61, 0xD83D, 0xDE00] \<and>
   getBorshStringEncoder [0x61, 0xD83D] = None"
proof
  have "getBorshStringEncoder [0xFEFF, 0, 0x61, 0xD83D, 0xDE00] = Some [0xEF, 0xBB, 0xBF, 0, 0x61, 0xF0, 0x9F, 0x98, 0x80]"
    by (simp add: getBorshStringEncoder_def text_encode_def point_bytes_def)
  then show "getBorshStringDecoder [0xEF, 0xBB, 0xBF, 0, 0x61, 0xF0, 0x9F, 0x98, 0x80] = Some [0xFEFF, 0, 0x61, 0xD83D, 0xDE00]"
    using borsh_string_exact [of "[0xFEFF, 0, 0x61, 0xD83D, 0xDE00]" "[0xEF, 0xBB, 0xBF, 0, 0x61, 0xF0, 0x9F, 0x98, 0x80]"]
    by simp
qed (simp add: getBorshStringEncoder_def)

end
