(* ===== verification/Accounts.thy ===== *)
theory Accounts
  imports BorshString
begin

text \<open>
  The layouts of the program's accounts that the SDK reads (\<open>generated/accounts\<close>, \<open>generated/types\<close>): which
  fields, in which order and width.  The codecs of numbers, addresses, options and raw bytes are those of
  \<open>@solana/kit\<close>: a parameter with the laws \<open>kit_ok\<close>.  Those of strings and of byte fields of a fixed size are the
  repository's own (\<open>generated/codecs\<close>).
\<close>

section \<open>Field codecs\<close>

datatype 'a field_codec = Field_Codec (put: "'a \<Rightarrow> bytes") (get: "bytes \<Rightarrow> ('a \<times> bytes) option")

text \<open>An encoder and a decoder agree on the values \<open>D\<close>; each of them takes \<open>n\<close> bytes.\<close>

definition reads_back :: "'a field_codec \<Rightarrow> ('a \<Rightarrow> bool) \<Rightarrow> bool" where
  "reads_back c D \<longleftrightarrow> (\<forall>x rest. D x \<longrightarrow> get c (put c x @ rest) = Some (x, rest))"

definition fixed_width :: "'a field_codec \<Rightarrow> nat \<Rightarrow> ('a \<Rightarrow> bool) \<Rightarrow> bool" where
  "fixed_width c n D \<longleftrightarrow> reads_back c D \<and> (\<forall>x. D x \<longrightarrow> length (put c x) = n)"

text \<open>Reading a field, then the rest; \<open>None\<close> is a throw.\<close>

definition then_read :: "'a field_codec \<Rightarrow> ('a \<Rightarrow> bytes \<Rightarrow> 'b option) \<Rightarrow> bytes \<Rightarrow> 'b option" where
  "then_read c f data = (case get c data of None \<Rightarrow> None | Some (x, rest) \<Rightarrow> f x rest)"

record kit =
  kit_is_address :: "string \<Rightarrow> bool"
  kit_address :: "string field_codec"
  kit_bytes :: "nat \<Rightarrow> bytes field_codec"
  kit_u8 :: "nat field_codec"
  kit_u16 :: "nat field_codec"
  kit_u32 :: "nat field_codec"
  kit_u64 :: "nat field_codec"
  kit_i64 :: "int field_codec"
  kit_boolean :: "bool field_codec"
  kit_enum :: "nat \<Rightarrow> nat field_codec"
  kit_option :: "string field_codec \<Rightarrow> string option field_codec"

definition is_u64 :: "nat \<Rightarrow> bool" where "is_u64 n \<longleftrightarrow> n < 2 ^ 64"

definition is_i64 :: "int \<Rightarrow> bool" where "is_i64 i \<longleftrightarrow> - (2 ^ 63) \<le> i \<and> i < 2 ^ 63"

text \<open>An address is 32 bytes, an enumeration a byte; distinct addresses
  and variants have distinct encodings, since they are read back.\<close>

definition kit_ok :: "kit \<Rightarrow> bool" where
  "kit_ok k \<longleftrightarrow>
     fixed_width (kit_address k) 32 (kit_is_address k) \<and>
     (\<forall>n. fixed_width (kit_bytes k n) n (\<lambda>b. length b = n) \<and> (\<forall>b. length b = n \<longrightarrow> put (kit_bytes k n) b = b)) \<and>
     fixed_width (kit_u8 k) 1 (\<lambda>n. n < 256) \<and>
     fixed_width (kit_u16 k) 2 (\<lambda>n. n < 65536) \<and>
     fixed_width (kit_u32 k) 4 (\<lambda>n. n < 4294967296) \<and>
     fixed_width (kit_u64 k) 8 is_u64 \<and>
     fixed_width (kit_i64 k) 8 is_i64 \<and>
     fixed_width (kit_boolean k) 1 (\<lambda>_. True) \<and>
     (\<forall>n. n \<le> 256 \<longrightarrow> fixed_width (kit_enum k n) 1 (\<lambda>i. i < n) \<and> (\<forall>i < n. put (kit_enum k n) i = [of_nat i])) \<and>
     reads_back (kit_option k (kit_address k)) (pred_option (kit_is_address k))"

lemma then_read_put:
  "reads_back c D \<Longrightarrow> D x \<Longrightarrow> then_read c f (put c x @ rest) = f x rest"
  by (simp add: then_read_def reads_back_def)

lemma width_reads:
  "fixed_width c n D \<Longrightarrow> D x \<Longrightarrow> then_read c f (put c x @ rest) = f x rest"
  unfolding fixed_width_def by (blast intro: then_read_put)

section \<open>Byte fields and strings\<close>

text \<open>\<open>getFixedBytesEncoder\<close> (\<open>None\<close> is the \<open>RangeError\<close>): Kit's encoder of that size would pad and cut.\<close>

definition getFixedBytesEncoder :: "kit \<Rightarrow> nat \<Rightarrow> bytes \<Rightarrow> bytes option" where
  "getFixedBytesEncoder k n b = (if length b \<noteq> n then None else Some (put (kit_bytes k n) b))"

lemma fixed_bytes [simp]: "length b = n \<Longrightarrow> getFixedBytesEncoder k n b = Some (put (kit_bytes k n) b)"
  by (simp add: getFixedBytesEncoder_def)

lemma fixed_bytes_Some: "getFixedBytesEncoder k n b = Some d \<longleftrightarrow> length b = n \<and> d = put (kit_bytes k n) b"
  by (auto simp: getFixedBytesEncoder_def)

lemma fixed_bytes_ok: "getFixedBytesEncoder k n b \<noteq> None \<longleftrightarrow> length b = n"
  by (simp add: getFixedBytesEncoder_def)

text \<open>A string of a record is kept as its UTF-8 bytes: its UTF-16 units, and the text of some units.\<close>

definition text_of :: "nat list \<Rightarrow> string" where
  "text_of us = map (\<lambda>b. char_of (unat b)) (text_encode us)"

definition utf8_text :: "string \<Rightarrow> bool" where
  "utf8_text s \<longleftrightarrow> utf8_points (map of_char s) \<noteq> None"

text \<open>\<open>addEncoderSizePrefix(getBorshStringEncoder(), getU32Encoder())\<close> and its decoder.\<close>

definition prefixed_string :: "kit \<Rightarrow> string \<Rightarrow> bytes option" where
  "prefixed_string k s = (case getBorshStringEncoder (utf16 s) of
      None \<Rightarrow> None
    | Some b \<Rightarrow> if length b < 4294967296 then Some (put (kit_u32 k) (length b) @ b) else None)"

definition string_codec :: "kit \<Rightarrow> string field_codec" where
  "string_codec k = Field_Codec (\<lambda>s. the (prefixed_string k s))
     (\<lambda>data. case get (kit_u32 k) data of
        None \<Rightarrow> None
      | Some (n, rest) \<Rightarrow>
          if length rest < n then None
          else map_option (\<lambda>us. (text_of us, drop n rest)) (getBorshStringDecoder (take n rest)))"

text \<open>The units of a UTF-8 text are those of its scalar values.\<close>

lemma utf16_scalars: "utf8_points bs = Some ps \<Longrightarrow> utf16_units bs = scalar_units ps"
proof (induction bs arbitrary: ps rule: utf8_points.induct)
  case 1
  then show ?case by simp
next
  case (2 a xs)
  consider (one) "a \<le> 0x7F" | (two) "0xC2 \<le> a" "a \<le> 0xDF" | (three) "0xE0 \<le> a" "a \<le> 0xEF"
    | (four) "0xF0 \<le> a" "a \<le> 0xF4" | (bad) "a > 0x7F" "a < 0xC2 \<or> a > 0xF4" by linarith
  then show ?case
  proof cases
    case one
    then obtain qs where "utf8_points xs = Some qs" "ps = a # qs" using 2(5) by auto
    then show ?thesis using 2(1) [OF one] one by (simp add: point_units_def)
  next
    case two
    then obtain b ys qs where ys: "xs = b # ys" "continuation b" "utf8_points ys = Some qs"
      "ps = ((a - 0xC0) * 64 + (b - 0x80)) # qs"
      using 2(5) by (auto split: list.splits if_splits)
    have "(a - 0xC0) * 64 + (b - 0x80) < 0x10000" using two ys(2) by auto
    then show ?thesis using 2(2) [of b ys qs] two ys by (simp add: point_units_def)
  next
    case three
    then obtain b c ys qs where ys: "xs = b # c # ys" "(if a = 0xE0 then 0xA0 else 0x80) \<le> b"
      "b \<le> (if a = 0xED then 0x9F else 0xBF)" "continuation c" "utf8_points ys = Some qs"
      "ps = ((a - 0xE0) * 4096 + (b - 0x80) * 64 + (c - 0x80)) # qs"
      using 2(5) by (auto split: list.splits if_splits)
    have "b \<le> 0xBF" using ys(3) by (auto split: if_splits)
    then have "(a - 0xE0) * 4096 + (b - 0x80) * 64 + (c - 0x80) < 0x10000" using three ys(4) by auto
    then show ?thesis using 2(3) [of b "c # ys" c ys qs] three ys by (simp add: point_units_def)
  next
    case four
    then obtain b c d ys qs where ys: "xs = b # c # d # ys" "(if a = 0xF0 then 0x90 else 0x80) \<le> b"
      "b \<le> (if a = 0xF4 then 0x8F else 0xBF)" "continuation c" "continuation d" "utf8_points ys = Some qs"
      "ps = ((a - 0xF0) * 262144 + (b - 0x80) * 4096 + (c - 0x80) * 64 + (d - 0x80)) # qs"
      using 2(5) by (auto split: list.splits if_splits)
    show ?thesis using 2(4) [of b "c # d # ys" c "d # ys" d ys qs] four ys four_bytes(3) [OF four ys(2-5)]
      by (simp add: point_units_def Let_def)
  next
    case bad
    then show ?thesis using 2(5) by auto
  qed
qed

lemma string_encoded:
  assumes "utf8_text s"
  shows "getBorshStringEncoder (utf16 s) = Some (utf8_encode s)" "text_of (utf16 s) = s"
    "getBorshStringDecoder (utf8_encode s) = Some (utf16 s)"
proof -
  obtain ps where ps: "utf8_points (map of_char s) = Some ps" using assms by (auto simp: utf8_text_def)
  then have units: "utf16 s = scalar_units ps" by (simp add: utf16_def utf16_scalars)
  show dec: "getBorshStringDecoder (utf8_encode s) = Some (utf16 s)"
    using ps by (simp add: getBorshStringDecoder_def text_decode_def unat_utf8 units flip: scalar_units_def)
  have read: "code_points (utf16 s) = ps" "assertWellFormedUnicode (utf16 s)"
    using units_read decoded_scalars [OF ps] units by simp_all
  have "map unat (text_encode (utf16 s)) = map unat (utf8_encode s)"
    using unat_text_encode [of "utf16 s"] decoded_scalars [OF ps] read(1) by (simp add: unat_utf8)
  then have enc: "text_encode (utf16 s) = utf8_encode s" by (rule map_unat_inj)
  then show "getBorshStringEncoder (utf16 s) = Some (utf8_encode s)"
    using read(2) by (simp add: getBorshStringEncoder_def)
  show "text_of (utf16 s) = s"
    unfolding text_of_def enc by (simp add: utf8_encode_def comp_def unat_of_char)
qed

lemma prefixed_string_ok:
  "utf8_text s \<Longrightarrow> length s < 4294967296 \<Longrightarrow>
   prefixed_string k s = Some (put (kit_u32 k) (length s) @ utf8_encode s)"
  by (simp add: prefixed_string_def string_encoded(1) utf8_encode_def)

lemma string_codec_reads:
  assumes "fixed_width (kit_u32 k) 4 (\<lambda>n. n < 4294967296)" "utf8_text s" "length s < 4294967296"
  shows "then_read (string_codec k) f (put (kit_u32 k) (length s) @ utf8_encode s @ rest) = f s rest"
proof -
  have "length (utf8_encode s) = length s" by (simp add: utf8_encode_def)
  moreover have "get (kit_u32 k) (put (kit_u32 k) (length s) @ utf8_encode s @ rest) = Some (length s, utf8_encode s @ rest)"
    using assms(1,3) by (simp add: fixed_width_def reads_back_def)
  ultimately show ?thesis
    using string_encoded [OF assms(2)] by (simp add: then_read_def string_codec_def)
qed

text \<open>\<open>getStructEncoder\<close>: the fields in order, or the first error.\<close>

fun encode_fields :: "bytes option list \<Rightarrow> bytes option" where
  "encode_fields [] = Some []"
| "encode_fields (f # fs) = (case f of None \<Rightarrow> None | Some b \<Rightarrow> map_option (append b) (encode_fields fs))"

lemma encode_fields_Some: "encode_fields fs \<noteq> None \<longleftrightarrow> list_all (\<lambda>f. f \<noteq> None) fs"
  by (induction fs) (auto split: option.split)

section \<open>Enumerations\<close>

text \<open>The variants of an enumeration in the order of their numbers, and its codec.\<close>

fun index_of :: "'a list \<Rightarrow> 'a \<Rightarrow> nat" where
  "index_of [] v = 0"
| "index_of (u # us) v = (if u = v then 0 else Suc (index_of us v))"

definition enum_codec :: "kit \<Rightarrow> 'a list \<Rightarrow> 'a field_codec" where
  "enum_codec k variants = Field_Codec
     (\<lambda>v. put (kit_enum k (length variants)) (index_of variants v))
     (\<lambda>data. case get (kit_enum k (length variants)) data of
        None \<Rightarrow> None
      | Some (i, rest) \<Rightarrow> if i < length variants then Some (variants ! i, rest) else None)"

definition TaskStatus :: "task_status list" where
  "TaskStatus = [TOpen, TInProgress, TPendingValidation, TCompleted, TCancelled, TDisputed, TRejectFrozen]"

definition TaskType :: "task_type list" where
  "TaskType = [TTExclusive, TTCollaborative, TTCompetitive, TTBidExclusive]"

datatype dependency_type = DNone | DData | DOrdering | DProof

definition DependencyType :: "dependency_type list" where
  "DependencyType = [DNone, DData, DOrdering, DProof]"

datatype task_bid_state = BActive | BAccepted | BBoundActive

definition TaskBidState :: "task_bid_state list" where
  "TaskBidState = [BActive, BAccepted, BBoundActive]"

datatype listing_state = LActive | LPaused | LRetired

definition ListingState :: "listing_state list" where
  "ListingState = [LActive, LPaused, LRetired]"

lemma index_of_nth: "v \<in> set us \<Longrightarrow> index_of us v < length us \<and> us ! index_of us v = v"
  by (induction us) auto

lemma enum_codec_width:
  assumes "kit_ok k" "length vs \<le> 256"
  shows "fixed_width (enum_codec k vs) 1 (\<lambda>v. v \<in> set vs)"
proof -
  have "fixed_width (kit_enum k (length vs)) 1 (\<lambda>i. i < length vs)" using assms by (simp add: kit_ok_def)
  then show ?thesis by (simp add: fixed_width_def reads_back_def enum_codec_def index_of_nth)
qed

lemma all_variants:
  shows "s \<in> set TaskStatus" and "ty \<in> set TaskType" and "d \<in> set DependencyType"
    and "b \<in> set TaskBidState" and "l \<in> set ListingState"
proof -
  show "s \<in> set TaskStatus" by (cases s) (simp_all add: TaskStatus_def)
  show "ty \<in> set TaskType" by (cases ty) (simp_all add: TaskType_def)
  show "d \<in> set DependencyType" by (cases d) (simp_all add: DependencyType_def)
  show "b \<in> set TaskBidState" by (cases b) (simp_all add: TaskBidState_def)
  show "l \<in> set ListingState" by (cases l) (simp_all add: ListingState_def)
qed

section \<open>Reading one field\<close>

lemma enum_reads:
  assumes "kit_ok k" "v \<in> set vs" "length vs \<le> 256"
  shows "then_read (enum_codec k vs) f (put (enum_codec k vs) v @ rest) = f v rest"
  using width_reads [OF enum_codec_width [OF assms(1,3)] assms(2)] .

lemmas variant_counts = TaskStatus_def TaskType_def DependencyType_def TaskBidState_def ListingState_def

lemma field_reads:
  assumes "kit_ok k"
  shows "length b = n \<Longrightarrow> then_read (kit_bytes k n) fb (put (kit_bytes k n) b @ rest) = fb b rest"
    and "kit_is_address k a \<Longrightarrow> then_read (kit_address k) fa (put (kit_address k) a @ rest) = fa a rest"
    and "m < 256 \<Longrightarrow> then_read (kit_u8 k) fn (put (kit_u8 k) m @ rest) = fn m rest"
    and "m < 65536 \<Longrightarrow> then_read (kit_u16 k) fn (put (kit_u16 k) m @ rest) = fn m rest"
    and "m < 4294967296 \<Longrightarrow> then_read (kit_u32 k) fn (put (kit_u32 k) m @ rest) = fn m rest"
    and "is_u64 m \<Longrightarrow> then_read (kit_u64 k) fn (put (kit_u64 k) m @ rest) = fn m rest"
    and "is_i64 i \<Longrightarrow> then_read (kit_i64 k) fi (put (kit_i64 k) i @ rest) = fi i rest"
    and "then_read (kit_boolean k) fl (put (kit_boolean k) l @ rest) = fl l rest"
    and "utf8_text s \<Longrightarrow> length s < 4294967296 \<Longrightarrow>
      then_read (string_codec k) fa (put (kit_u32 k) (length s) @ utf8_encode s @ rest) = fa s rest"
    and "pred_option (kit_is_address k) oa \<Longrightarrow>
      then_read (kit_option k (kit_address k)) fo (put (kit_option k (kit_address k)) oa @ rest) = fo oa rest"
    and "then_read (enum_codec k TaskStatus) fs (put (enum_codec k TaskStatus) st @ rest) = fs st rest"
    and "then_read (enum_codec k TaskType) ft (put (enum_codec k TaskType) ty @ rest) = ft ty rest"
    and "then_read (enum_codec k DependencyType) fd (put (enum_codec k DependencyType) d @ rest) = fd d rest"
    and "then_read (enum_codec k TaskBidState) fv (put (enum_codec k TaskBidState) bs @ rest) = fv bs rest"
    and "then_read (enum_codec k ListingState) fx (put (enum_codec k ListingState) ls @ rest) = fx ls rest"
proof -
  have kit: "fixed_width (kit_bytes k n) n (\<lambda>b. length b = n)" "fixed_width (kit_address k) 32 (kit_is_address k)"
    "fixed_width (kit_u8 k) 1 (\<lambda>n. n < 256)" "fixed_width (kit_u16 k) 2 (\<lambda>n. n < 65536)"
    "fixed_width (kit_u32 k) 4 (\<lambda>n. n < 4294967296)" "fixed_width (kit_u64 k) 8 is_u64"
    "fixed_width (kit_i64 k) 8 is_i64" "fixed_width (kit_boolean k) 1 (\<lambda>_. True)"
    "reads_back (kit_option k (kit_address k)) (pred_option (kit_is_address k))" for n
    using assms by (simp_all add: kit_ok_def)
  show "length b = n \<Longrightarrow> then_read (kit_bytes k n) fb (put (kit_bytes k n) b @ rest) = fb b rest"
    by (rule width_reads [OF kit(1)])
  show "kit_is_address k a \<Longrightarrow> then_read (kit_address k) fa (put (kit_address k) a @ rest) = fa a rest"
    by (rule width_reads [OF kit(2)])
  show "m < 256 \<Longrightarrow> then_read (kit_u8 k) fn (put (kit_u8 k) m @ rest) = fn m rest"
    by (rule width_reads [OF kit(3)])
  show "m < 65536 \<Longrightarrow> then_read (kit_u16 k) fn (put (kit_u16 k) m @ rest) = fn m rest"
    by (rule width_reads [OF kit(4)])
  show "m < 4294967296 \<Longrightarrow> then_read (kit_u32 k) fn (put (kit_u32 k) m @ rest) = fn m rest"
    by (rule width_reads [OF kit(5)])
  show "is_u64 m \<Longrightarrow> then_read (kit_u64 k) fn (put (kit_u64 k) m @ rest) = fn m rest"
    by (rule width_reads [OF kit(6)])
  show "is_i64 i \<Longrightarrow> then_read (kit_i64 k) fi (put (kit_i64 k) i @ rest) = fi i rest"
    by (rule width_reads [OF kit(7)])
  show "then_read (kit_boolean k) fl (put (kit_boolean k) l @ rest) = fl l rest"
    by (rule width_reads [OF kit(8)]) simp_all
  show "utf8_text s \<Longrightarrow> length s < 4294967296 \<Longrightarrow>
      then_read (string_codec k) fa (put (kit_u32 k) (length s) @ utf8_encode s @ rest) = fa s rest"
    by (rule string_codec_reads [OF kit(5)])
  show "pred_option (kit_is_address k) oa \<Longrightarrow>
      then_read (kit_option k (kit_address k)) fo (put (kit_option k (kit_address k)) oa @ rest) = fo oa rest"
    by (rule then_read_put [OF kit(9)])
  show "then_read (enum_codec k TaskStatus) fs (put (enum_codec k TaskStatus) st @ rest) = fs st rest"
    "then_read (enum_codec k TaskType) ft (put (enum_codec k TaskType) ty @ rest) = ft ty rest"
    "then_read (enum_codec k DependencyType) fd (put (enum_codec k DependencyType) d @ rest) = fd d rest"
    "then_read (enum_codec k TaskBidState) fv (put (enum_codec k TaskBidState) bs @ rest) = fv bs rest"
    "then_read (enum_codec k ListingState) fx (put (enum_codec k ListingState) ls @ rest) = fx ls rest"
    by (rule enum_reads [OF assms]; (rule all_variants | simp add: variant_counts))+
qed

section \<open>Task\<close>

definition TASK_DISCRIMINATOR :: bytes where
  "TASK_DISCRIMINATOR = [79, 34, 229, 55, 88, 90, 55, 84]"

record task =
  t_discriminator :: bytes
  t_taskId :: bytes
  t_creator :: string
  t_requiredCapabilities :: nat
  t_description :: bytes
  t_constraintHash :: bytes
  t_rewardAmount :: nat
  t_maxWorkers :: nat
  t_currentWorkers :: nat
  t_status :: task_status
  t_taskType :: task_type
  t_createdAt :: int
  t_deadline :: int
  t_completedAt :: int
  t_escrow :: string
  t_result :: bytes
  t_completions :: nat
  t_requiredCompletions :: nat
  t_bump :: nat
  t_protocolFeeBps :: nat
  t_dependsOn :: "string option"
  t_dependencyType :: dependency_type
  t_minReputation :: nat
  t_rewardMint :: "string option"
  t_operator :: string
  t_operatorFeeBps :: nat
  t_reserved :: bytes
  t_referrer :: string
  t_referrerFeeBps :: nat

definition getTaskEncoder :: "kit \<Rightarrow> task \<Rightarrow> bytes option" where
  "getTaskEncoder k v = encode_fields [
     getFixedBytesEncoder k 8 TASK_DISCRIMINATOR,
     getFixedBytesEncoder k 32 (t_taskId v),
     Some (put (kit_address k) (t_creator v)),
     Some (put (kit_u64 k) (t_requiredCapabilities v)),
     getFixedBytesEncoder k 64 (t_description v),
     getFixedBytesEncoder k 32 (t_constraintHash v),
     Some (put (kit_u64 k) (t_rewardAmount v)),
     Some (put (kit_u8 k) (t_maxWorkers v)),
     Some (put (kit_u8 k) (t_currentWorkers v)),
     Some (put (enum_codec k TaskStatus) (t_status v)),
     Some (put (enum_codec k TaskType) (t_taskType v)),
     Some (put (kit_i64 k) (t_createdAt v)),
     Some (put (kit_i64 k) (t_deadline v)),
     Some (put (kit_i64 k) (t_completedAt v)),
     Some (put (kit_address k) (t_escrow v)),
     getFixedBytesEncoder k 64 (t_result v),
     Some (put (kit_u8 k) (t_completions v)),
     Some (put (kit_u8 k) (t_requiredCompletions v)),
     Some (put (kit_u8 k) (t_bump v)),
     Some (put (kit_u16 k) (t_protocolFeeBps v)),
     Some (put (kit_option k (kit_address k)) (t_dependsOn v)),
     Some (put (enum_codec k DependencyType) (t_dependencyType v)),
     Some (put (kit_u16 k) (t_minReputation v)),
     Some (put (kit_option k (kit_address k)) (t_rewardMint v)),
     Some (put (kit_address k) (t_operator v)),
     Some (put (kit_u16 k) (t_operatorFeeBps v)),
     getFixedBytesEncoder k 16 (t_reserved v),
     Some (put (kit_address k) (t_referrer v)),
     Some (put (kit_u16 k) (t_referrerFeeBps v))]"

definition getTaskDecoder :: "kit \<Rightarrow> bytes \<Rightarrow> task option" where
  "getTaskDecoder k =
     then_read (kit_bytes k 8) (\<lambda>discriminator.
     then_read (kit_bytes k 32) (\<lambda>taskId.
     then_read (kit_address k) (\<lambda>creator.
     then_read (kit_u64 k) (\<lambda>requiredCapabilities.
     then_read (kit_bytes k 64) (\<lambda>description.
     then_read (kit_bytes k 32) (\<lambda>constraintHash.
     then_read (kit_u64 k) (\<lambda>rewardAmount.
     then_read (kit_u8 k) (\<lambda>maxWorkers.
     then_read (kit_u8 k) (\<lambda>currentWorkers.
     then_read (enum_codec k TaskStatus) (\<lambda>status.
     then_read (enum_codec k TaskType) (\<lambda>taskType.
     then_read (kit_i64 k) (\<lambda>createdAt.
     then_read (kit_i64 k) (\<lambda>deadline.
     then_read (kit_i64 k) (\<lambda>completedAt.
     then_read (kit_address k) (\<lambda>escrow.
     then_read (kit_bytes k 64) (\<lambda>result.
     then_read (kit_u8 k) (\<lambda>completions.
     then_read (kit_u8 k) (\<lambda>requiredCompletions.
     then_read (kit_u8 k) (\<lambda>bump.
     then_read (kit_u16 k) (\<lambda>protocolFeeBps.
     then_read (kit_option k (kit_address k)) (\<lambda>dependsOn.
     then_read (enum_codec k DependencyType) (\<lambda>dependencyType.
     then_read (kit_u16 k) (\<lambda>minReputation.
     then_read (kit_option k (kit_address k)) (\<lambda>rewardMint.
     then_read (kit_address k) (\<lambda>operator1.
     then_read (kit_u16 k) (\<lambda>operatorFeeBps.
     then_read (kit_bytes k 16) (\<lambda>reserved.
     then_read (kit_address k) (\<lambda>referrer.
     then_read (kit_u16 k) (\<lambda>referrerFeeBps.
     (\<lambda>rest. Some \<lparr>t_discriminator = discriminator, t_taskId = taskId, t_creator = creator,
       t_requiredCapabilities = requiredCapabilities, t_description = description,
       t_constraintHash = constraintHash, t_rewardAmount = rewardAmount, t_maxWorkers = maxWorkers,
       t_currentWorkers = currentWorkers, t_status = status, t_taskType = taskType,
       t_createdAt = createdAt, t_deadline = deadline, t_completedAt = completedAt, t_escrow = escrow,
       t_result = result, t_completions = completions, t_requiredCompletions = requiredCompletions,
       t_bump = bump, t_protocolFeeBps = protocolFeeBps, t_dependsOn = dependsOn,
       t_dependencyType = dependencyType, t_minReputation = minReputation, t_rewardMint = rewardMint,
       t_operator = operator1, t_operatorFeeBps = operatorFeeBps, t_reserved = reserved,
       t_referrer = referrer, t_referrerFeeBps = referrerFeeBps\<rparr>))))))))))))))))))))))))))))))"

definition task_ok :: "kit \<Rightarrow> task \<Rightarrow> bool" where
  "task_ok k v \<longleftrightarrow> length (t_taskId v) = 32 \<and> kit_is_address k (t_creator v) \<and> is_u64 (t_requiredCapabilities v)
     \<and> length (t_description v) = 64 \<and> length (t_constraintHash v) = 32 \<and> is_u64 (t_rewardAmount v)
     \<and> t_maxWorkers v < 256 \<and> t_currentWorkers v < 256 \<and> is_i64 (t_createdAt v)
     \<and> is_i64 (t_deadline v) \<and> is_i64 (t_completedAt v) \<and> kit_is_address k (t_escrow v)
     \<and> length (t_result v) = 64 \<and> t_completions v < 256 \<and> t_requiredCompletions v < 256
     \<and> t_bump v < 256 \<and> t_protocolFeeBps v < 65536 \<and> pred_option (kit_is_address k) (t_dependsOn v)
     \<and> t_minReputation v < 65536 \<and> pred_option (kit_is_address k) (t_rewardMint v)
     \<and> kit_is_address k (t_operator v) \<and> t_operatorFeeBps v < 65536 \<and> length (t_reserved v) = 16
     \<and> kit_is_address k (t_referrer v) \<and> t_referrerFeeBps v < 65536"

lemma task_roundtrip:
  assumes "kit_ok k" "task_ok k v"
  shows "\<exists>d. getTaskEncoder k v = Some d \<and> getTaskDecoder k (d @ rest) = Some (v\<lparr>t_discriminator := TASK_DISCRIMINATOR\<rparr>)"
  using assms(2) unfolding task_ok_def getTaskDecoder_def getTaskEncoder_def
  by (simp add: prefixed_string_ok field_reads [OF assms(1)] TASK_DISCRIMINATOR_def)


section \<open>TaskClaim\<close>

definition TASK_CLAIM_DISCRIMINATOR :: bytes where
  "TASK_CLAIM_DISCRIMINATOR = [115, 77, 242, 98, 7, 81, 209, 137]"

record task_claim =
  tc_discriminator :: bytes
  tc_task :: string
  tc_worker :: string
  tc_claimedAt :: int
  tc_expiresAt :: int
  tc_completedAt :: int
  tc_proofHash :: bytes
  tc_resultData :: bytes
  tc_isCompleted :: bool
  tc_isValidated :: bool
  tc_rewardPaid :: nat
  tc_bump :: nat

definition getTaskClaimEncoder :: "kit \<Rightarrow> task_claim \<Rightarrow> bytes option" where
  "getTaskClaimEncoder k v = encode_fields [
     getFixedBytesEncoder k 8 TASK_CLAIM_DISCRIMINATOR,
     Some (put (kit_address k) (tc_task v)),
     Some (put (kit_address k) (tc_worker v)),
     Some (put (kit_i64 k) (tc_claimedAt v)),
     Some (put (kit_i64 k) (tc_expiresAt v)),
     Some (put (kit_i64 k) (tc_completedAt v)),
     getFixedBytesEncoder k 32 (tc_proofHash v),
     getFixedBytesEncoder k 64 (tc_resultData v),
     Some (put (kit_boolean k) (tc_isCompleted v)),
     Some (put (kit_boolean k) (tc_isValidated v)),
     Some (put (kit_u64 k) (tc_rewardPaid v)),
     Some (put (kit_u8 k) (tc_bump v))]"

definition getTaskClaimDecoder :: "kit \<Rightarrow> bytes \<Rightarrow> task_claim option" where
  "getTaskClaimDecoder k =
     then_read (kit_bytes k 8) (\<lambda>discriminator.
     then_read (kit_address k) (\<lambda>task1.
     then_read (kit_address k) (\<lambda>worker.
     then_read (kit_i64 k) (\<lambda>claimedAt.
     then_read (kit_i64 k) (\<lambda>expiresAt.
     then_read (kit_i64 k) (\<lambda>completedAt.
     then_read (kit_bytes k 32) (\<lambda>proofHash.
     then_read (kit_bytes k 64) (\<lambda>resultData.
     then_read (kit_boolean k) (\<lambda>isCompleted.
     then_read (kit_boolean k) (\<lambda>isValidated.
     then_read (kit_u64 k) (\<lambda>rewardPaid.
     then_read (kit_u8 k) (\<lambda>bump.
     (\<lambda>rest. Some \<lparr>tc_discriminator = discriminator, tc_task = task1, tc_worker = worker, tc_claimedAt = claimedAt,
       tc_expiresAt = expiresAt, tc_completedAt = completedAt, tc_proofHash = proofHash,
       tc_resultData = resultData, tc_isCompleted = isCompleted, tc_isValidated = isValidated,
       tc_rewardPaid = rewardPaid, tc_bump = bump\<rparr>)))))))))))))"

definition task_claim_ok :: "kit \<Rightarrow> task_claim \<Rightarrow> bool" where
  "task_claim_ok k v \<longleftrightarrow> kit_is_address k (tc_task v) \<and> kit_is_address k (tc_worker v) \<and> is_i64 (tc_claimedAt v)
     \<and> is_i64 (tc_expiresAt v) \<and> is_i64 (tc_completedAt v) \<and> length (tc_proofHash v) = 32
     \<and> length (tc_resultData v) = 64 \<and> is_u64 (tc_rewardPaid v) \<and> tc_bump v < 256"

lemma task_claim_roundtrip:
  assumes "kit_ok k" "task_claim_ok k v"
  shows "\<exists>d. getTaskClaimEncoder k v = Some d \<and> getTaskClaimDecoder k (d @ rest) = Some (v\<lparr>tc_discriminator := TASK_CLAIM_DISCRIMINATOR\<rparr>)"
  using assms(2) unfolding task_claim_ok_def getTaskClaimDecoder_def getTaskClaimEncoder_def
  by (simp add: prefixed_string_ok field_reads [OF assms(1)] TASK_CLAIM_DISCRIMINATOR_def)


section \<open>TaskBid\<close>

definition TASK_BID_DISCRIMINATOR :: bytes where
  "TASK_BID_DISCRIMINATOR = [173, 104, 90, 231, 189, 239, 133, 142]"

record task_bid =
  tb_discriminator :: bytes
  tb_task :: string
  tb_bidBook :: string
  tb_bidder :: string
  tb_bidderAuthority :: string
  tb_requestedRewardLamports :: nat
  tb_etaSeconds :: nat
  tb_confidenceBps :: nat
  tb_reputationSnapshotBps :: nat
  tb_qualityGuaranteeHash :: bytes
  tb_metadataHash :: bytes
  tb_expiresAt :: int
  tb_createdAt :: int
  tb_updatedAt :: int
  tb_state :: task_bid_state
  tb_bondLamports :: nat
  tb_bump :: nat
  tb_acceptedNoShowSlashBps :: nat

definition getTaskBidEncoder :: "kit \<Rightarrow> task_bid \<Rightarrow> bytes option" where
  "getTaskBidEncoder k v = encode_fields [
     getFixedBytesEncoder k 8 TASK_BID_DISCRIMINATOR,
     Some (put (kit_address k) (tb_task v)),
     Some (put (kit_address k) (tb_bidBook v)),
     Some (put (kit_address k) (tb_bidder v)),
     Some (put (kit_address k) (tb_bidderAuthority v)),
     Some (put (kit_u64 k) (tb_requestedRewardLamports v)),
     Some (put (kit_u32 k) (tb_etaSeconds v)),
     Some (put (kit_u16 k) (tb_confidenceBps v)),
     Some (put (kit_u16 k) (tb_reputationSnapshotBps v)),
     getFixedBytesEncoder k 32 (tb_qualityGuaranteeHash v),
     getFixedBytesEncoder k 32 (tb_metadataHash v),
     Some (put (kit_i64 k) (tb_expiresAt v)),
     Some (put (kit_i64 k) (tb_createdAt v)),
     Some (put (kit_i64 k) (tb_updatedAt v)),
     Some (put (enum_codec k TaskBidState) (tb_state v)),
     Some (put (kit_u64 k) (tb_bondLamports v)),
     Some (put (kit_u8 k) (tb_bump v)),
     Some (put (kit_u16 k) (tb_acceptedNoShowSlashBps v))]"

definition getTaskBidDecoder :: "kit \<Rightarrow> bytes \<Rightarrow> task_bid option" where
  "getTaskBidDecoder k =
     then_read (kit_bytes k 8) (\<lambda>discriminator.
     then_read (kit_address k) (\<lambda>task1.
     then_read (kit_address k) (\<lambda>bidBook.
     then_read (kit_address k) (\<lambda>bidder.
     then_read (kit_address k) (\<lambda>bidderAuthority.
     then_read (kit_u64 k) (\<lambda>requestedRewardLamports.
     then_read (kit_u32 k) (\<lambda>etaSeconds.
     then_read (kit_u16 k) (\<lambda>confidenceBps.
     then_read (kit_u16 k) (\<lambda>reputationSnapshotBps.
     then_read (kit_bytes k 32) (\<lambda>qualityGuaranteeHash.
     then_read (kit_bytes k 32) (\<lambda>metadataHash.
     then_read (kit_i64 k) (\<lambda>expiresAt.
     then_read (kit_i64 k) (\<lambda>createdAt.
     then_read (kit_i64 k) (\<lambda>updatedAt.
     then_read (enum_codec k TaskBidState) (\<lambda>state1.
     then_read (kit_u64 k) (\<lambda>bondLamports.
     then_read (kit_u8 k) (\<lambda>bump.
     then_read (kit_u16 k) (\<lambda>acceptedNoShowSlashBps.
     (\<lambda>rest. Some \<lparr>tb_discriminator = discriminator, tb_task = task1, tb_bidBook = bidBook, tb_bidder = bidder,
       tb_bidderAuthority = bidderAuthority, tb_requestedRewardLamports = requestedRewardLamports,
       tb_etaSeconds = etaSeconds, tb_confidenceBps = confidenceBps,
       tb_reputationSnapshotBps = reputationSnapshotBps, tb_qualityGuaranteeHash = qualityGuaranteeHash,
       tb_metadataHash = metadataHash, tb_expiresAt = expiresAt, tb_createdAt = createdAt,
       tb_updatedAt = updatedAt, tb_state = state1, tb_bondLamports = bondLamports, tb_bump = bump,
       tb_acceptedNoShowSlashBps = acceptedNoShowSlashBps\<rparr>)))))))))))))))))))"

definition task_bid_ok :: "kit \<Rightarrow> task_bid \<Rightarrow> bool" where
  "task_bid_ok k v \<longleftrightarrow> kit_is_address k (tb_task v) \<and> kit_is_address k (tb_bidBook v)
     \<and> kit_is_address k (tb_bidder v) \<and> kit_is_address k (tb_bidderAuthority v)
     \<and> is_u64 (tb_requestedRewardLamports v) \<and> tb_etaSeconds v < 4294967296
     \<and> tb_confidenceBps v < 65536 \<and> tb_reputationSnapshotBps v < 65536
     \<and> length (tb_qualityGuaranteeHash v) = 32 \<and> length (tb_metadataHash v) = 32
     \<and> is_i64 (tb_expiresAt v) \<and> is_i64 (tb_createdAt v) \<and> is_i64 (tb_updatedAt v)
     \<and> is_u64 (tb_bondLamports v) \<and> tb_bump v < 256 \<and> tb_acceptedNoShowSlashBps v < 65536"

lemma task_bid_roundtrip:
  assumes "kit_ok k" "task_bid_ok k v"
  shows "\<exists>d. getTaskBidEncoder k v = Some d \<and> getTaskBidDecoder k (d @ rest) = Some (v\<lparr>tb_discriminator := TASK_BID_DISCRIMINATOR\<rparr>)"
  using assms(2) unfolding task_bid_ok_def getTaskBidDecoder_def getTaskBidEncoder_def
  by (simp add: prefixed_string_ok field_reads [OF assms(1)] TASK_BID_DISCRIMINATOR_def)


section \<open>TaskJobSpec\<close>

definition TASK_JOB_SPEC_DISCRIMINATOR :: bytes where
  "TASK_JOB_SPEC_DISCRIMINATOR = [249, 63, 211, 94, 228, 165, 3, 196]"

record task_job_spec =
  js_discriminator :: bytes
  js_task :: string
  js_creator :: string
  js_jobSpecHash :: bytes
  js_jobSpecUri :: string
  js_createdAt :: int
  js_updatedAt :: int
  js_bump :: nat
  js_reserved :: bytes

definition getTaskJobSpecEncoder :: "kit \<Rightarrow> task_job_spec \<Rightarrow> bytes option" where
  "getTaskJobSpecEncoder k v = encode_fields [
     getFixedBytesEncoder k 8 TASK_JOB_SPEC_DISCRIMINATOR,
     Some (put (kit_address k) (js_task v)),
     Some (put (kit_address k) (js_creator v)),
     getFixedBytesEncoder k 32 (js_jobSpecHash v),
     prefixed_string k (js_jobSpecUri v),
     Some (put (kit_i64 k) (js_createdAt v)),
     Some (put (kit_i64 k) (js_updatedAt v)),
     Some (put (kit_u8 k) (js_bump v)),
     getFixedBytesEncoder k 7 (js_reserved v)]"

definition getTaskJobSpecDecoder :: "kit \<Rightarrow> bytes \<Rightarrow> task_job_spec option" where
  "getTaskJobSpecDecoder k =
     then_read (kit_bytes k 8) (\<lambda>discriminator.
     then_read (kit_address k) (\<lambda>task1.
     then_read (kit_address k) (\<lambda>creator.
     then_read (kit_bytes k 32) (\<lambda>jobSpecHash.
     then_read (string_codec k) (\<lambda>jobSpecUri.
     then_read (kit_i64 k) (\<lambda>createdAt.
     then_read (kit_i64 k) (\<lambda>updatedAt.
     then_read (kit_u8 k) (\<lambda>bump.
     then_read (kit_bytes k 7) (\<lambda>reserved.
     (\<lambda>rest. Some \<lparr>js_discriminator = discriminator, js_task = task1, js_creator = creator,
       js_jobSpecHash = jobSpecHash, js_jobSpecUri = jobSpecUri, js_createdAt = createdAt,
       js_updatedAt = updatedAt, js_bump = bump, js_reserved = reserved\<rparr>))))))))))"

definition task_job_spec_ok :: "kit \<Rightarrow> task_job_spec \<Rightarrow> bool" where
  "task_job_spec_ok k v \<longleftrightarrow> kit_is_address k (js_task v) \<and> kit_is_address k (js_creator v)
     \<and> length (js_jobSpecHash v) = 32 \<and> utf8_text (js_jobSpecUri v) \<and> length (js_jobSpecUri v) < 4294967296
     \<and> is_i64 (js_createdAt v) \<and> is_i64 (js_updatedAt v) \<and> js_bump v < 256
     \<and> length (js_reserved v) = 7"

lemma task_job_spec_roundtrip:
  assumes "kit_ok k" "task_job_spec_ok k v"
  shows "\<exists>d. getTaskJobSpecEncoder k v = Some d \<and> getTaskJobSpecDecoder k (d @ rest) = Some (v\<lparr>js_discriminator := TASK_JOB_SPEC_DISCRIMINATOR\<rparr>)"
  using assms(2) unfolding task_job_spec_ok_def getTaskJobSpecDecoder_def getTaskJobSpecEncoder_def
  by (simp add: prefixed_string_ok field_reads [OF assms(1)] TASK_JOB_SPEC_DISCRIMINATOR_def)


section \<open>HireRecord\<close>

definition HIRE_RECORD_DISCRIMINATOR :: bytes where
  "HIRE_RECORD_DISCRIMINATOR = [104, 101, 55, 188, 219, 31, 76, 113]"

record hire_record_data =
  hi_discriminator :: bytes
  hi_task :: string
  hi_listing :: string
  hi_operator :: string
  hi_operatorFeeBps :: nat
  hi_bump :: nat
  hi_designatedProvider :: string
  hi_referrer :: string
  hi_referrerFeeBps :: nat

definition getHireRecordEncoder :: "kit \<Rightarrow> hire_record_data \<Rightarrow> bytes option" where
  "getHireRecordEncoder k v = encode_fields [
     getFixedBytesEncoder k 8 HIRE_RECORD_DISCRIMINATOR,
     Some (put (kit_address k) (hi_task v)),
     Some (put (kit_address k) (hi_listing v)),
     Some (put (kit_address k) (hi_operator v)),
     Some (put (kit_u16 k) (hi_operatorFeeBps v)),
     Some (put (kit_u8 k) (hi_bump v)),
     Some (put (kit_address k) (hi_designatedProvider v)),
     Some (put (kit_address k) (hi_referrer v)),
     Some (put (kit_u16 k) (hi_referrerFeeBps v))]"

definition getHireRecordDecoder :: "kit \<Rightarrow> bytes \<Rightarrow> hire_record_data option" where
  "getHireRecordDecoder k =
     then_read (kit_bytes k 8) (\<lambda>discriminator.
     then_read (kit_address k) (\<lambda>task1.
     then_read (kit_address k) (\<lambda>listing.
     then_read (kit_address k) (\<lambda>operator1.
     then_read (kit_u16 k) (\<lambda>operatorFeeBps.
     then_read (kit_u8 k) (\<lambda>bump.
     then_read (kit_address k) (\<lambda>designatedProvider.
     then_read (kit_address k) (\<lambda>referrer.
     then_read (kit_u16 k) (\<lambda>referrerFeeBps.
     (\<lambda>rest. Some \<lparr>hi_discriminator = discriminator, hi_task = task1, hi_listing = listing, hi_operator = operator1,
       hi_operatorFeeBps = operatorFeeBps, hi_bump = bump, hi_designatedProvider = designatedProvider,
       hi_referrer = referrer, hi_referrerFeeBps = referrerFeeBps\<rparr>))))))))))"

definition hire_record_data_ok :: "kit \<Rightarrow> hire_record_data \<Rightarrow> bool" where
  "hire_record_data_ok k v \<longleftrightarrow> kit_is_address k (hi_task v) \<and> kit_is_address k (hi_listing v)
     \<and> kit_is_address k (hi_operator v) \<and> hi_operatorFeeBps v < 65536 \<and> hi_bump v < 256
     \<and> kit_is_address k (hi_designatedProvider v) \<and> kit_is_address k (hi_referrer v)
     \<and> hi_referrerFeeBps v < 65536"

lemma hire_record_data_roundtrip:
  assumes "kit_ok k" "hire_record_data_ok k v"
  shows "\<exists>d. getHireRecordEncoder k v = Some d \<and> getHireRecordDecoder k (d @ rest) = Some (v\<lparr>hi_discriminator := HIRE_RECORD_DISCRIMINATOR\<rparr>)"
  using assms(2) unfolding hire_record_data_ok_def getHireRecordDecoder_def getHireRecordEncoder_def
  by (simp add: prefixed_string_ok field_reads [OF assms(1)] HIRE_RECORD_DISCRIMINATOR_def)


section \<open>CompletionBond\<close>

definition COMPLETION_BOND_DISCRIMINATOR :: bytes where
  "COMPLETION_BOND_DISCRIMINATOR = [77, 209, 12, 19, 44, 65, 93, 238]"

record completion_bond =
  cb_discriminator :: bytes
  cb_task :: string
  cb_party :: string
  cb_role :: nat
  cb_amount :: nat
  cb_bondMint :: "string option"
  cb_postedAt :: int
  cb_bump :: nat
  cb_reserved :: bytes

definition getCompletionBondEncoder :: "kit \<Rightarrow> completion_bond \<Rightarrow> bytes option" where
  "getCompletionBondEncoder k v = encode_fields [
     getFixedBytesEncoder k 8 COMPLETION_BOND_DISCRIMINATOR,
     Some (put (kit_address k) (cb_task v)),
     Some (put (kit_address k) (cb_party v)),
     Some (put (kit_u8 k) (cb_role v)),
     Some (put (kit_u64 k) (cb_amount v)),
     Some (put (kit_option k (kit_address k)) (cb_bondMint v)),
     Some (put (kit_i64 k) (cb_postedAt v)),
     Some (put (kit_u8 k) (cb_bump v)),
     getFixedBytesEncoder k 16 (cb_reserved v)]"

definition getCompletionBondDecoder :: "kit \<Rightarrow> bytes \<Rightarrow> completion_bond option" where
  "getCompletionBondDecoder k =
     then_read (kit_bytes k 8) (\<lambda>discriminator.
     then_read (kit_address k) (\<lambda>task1.
     then_read (kit_address k) (\<lambda>party.
     then_read (kit_u8 k) (\<lambda>role.
     then_read (kit_u64 k) (\<lambda>amount.
     then_read (kit_option k (kit_address k)) (\<lambda>bondMint.
     then_read (kit_i64 k) (\<lambda>postedAt.
     then_read (kit_u8 k) (\<lambda>bump.
     then_read (kit_bytes k 16) (\<lambda>reserved.
     (\<lambda>rest. Some \<lparr>cb_discriminator = discriminator, cb_task = task1, cb_party = party, cb_role = role,
       cb_amount = amount, cb_bondMint = bondMint, cb_postedAt = postedAt, cb_bump = bump,
       cb_reserved = reserved\<rparr>))))))))))"

definition completion_bond_ok :: "kit \<Rightarrow> completion_bond \<Rightarrow> bool" where
  "completion_bond_ok k v \<longleftrightarrow> kit_is_address k (cb_task v) \<and> kit_is_address k (cb_party v) \<and> cb_role v < 256
     \<and> is_u64 (cb_amount v) \<and> pred_option (kit_is_address k) (cb_bondMint v)
     \<and> is_i64 (cb_postedAt v) \<and> cb_bump v < 256 \<and> length (cb_reserved v) = 16"

lemma completion_bond_roundtrip:
  assumes "kit_ok k" "completion_bond_ok k v"
  shows "\<exists>d. getCompletionBondEncoder k v = Some d \<and> getCompletionBondDecoder k (d @ rest) = Some (v\<lparr>cb_discriminator := COMPLETION_BOND_DISCRIMINATOR\<rparr>)"
  using assms(2) unfolding completion_bond_ok_def getCompletionBondDecoder_def getCompletionBondEncoder_def
  by (simp add: prefixed_string_ok field_reads [OF assms(1)] COMPLETION_BOND_DISCRIMINATOR_def)


section \<open>ServiceListing\<close>

definition SERVICE_LISTING_DISCRIMINATOR :: bytes where
  "SERVICE_LISTING_DISCRIMINATOR = [117, 173, 54, 52, 146, 147, 124, 211]"

record service_listing =
  sl_discriminator :: bytes
  sl_providerAgent :: string
  sl_authority :: string
  sl_listingId :: bytes
  sl_name :: bytes
  sl_category :: bytes
  sl_tags :: bytes
  sl_specHash :: bytes
  sl_specUri :: string
  sl_price :: nat
  sl_priceMint :: "string option"
  sl_requiredCapabilities :: nat
  sl_defaultDeadlineSecs :: int
  sl_operator :: string
  sl_operatorFeeBps :: nat
  sl_state :: listing_state
  sl_maxOpenJobs :: nat
  sl_openJobs :: nat
  sl_totalHires :: nat
  sl_totalRating :: nat
  sl_ratingCount :: nat
  sl_version :: nat
  sl_createdAt :: int
  sl_updatedAt :: int
  sl_bump :: nat
  sl_reserved :: bytes

definition getServiceListingEncoder :: "kit \<Rightarrow> service_listing \<Rightarrow> bytes option" where
  "getServiceListingEncoder k v = encode_fields [
     getFixedBytesEncoder k 8 SERVICE_LISTING_DISCRIMINATOR,
     Some (put (kit_address k) (sl_providerAgent v)),
     Some (put (kit_address k) (sl_authority v)),
     getFixedBytesEncoder k 32 (sl_listingId v),
     getFixedBytesEncoder k 32 (sl_name v),
     getFixedBytesEncoder k 32 (sl_category v),
     getFixedBytesEncoder k 64 (sl_tags v),
     getFixedBytesEncoder k 32 (sl_specHash v),
     prefixed_string k (sl_specUri v),
     Some (put (kit_u64 k) (sl_price v)),
     Some (put (kit_option k (kit_address k)) (sl_priceMint v)),
     Some (put (kit_u64 k) (sl_requiredCapabilities v)),
     Some (put (kit_i64 k) (sl_defaultDeadlineSecs v)),
     Some (put (kit_address k) (sl_operator v)),
     Some (put (kit_u16 k) (sl_operatorFeeBps v)),
     Some (put (enum_codec k ListingState) (sl_state v)),
     Some (put (kit_u16 k) (sl_maxOpenJobs v)),
     Some (put (kit_u16 k) (sl_openJobs v)),
     Some (put (kit_u64 k) (sl_totalHires v)),
     Some (put (kit_u64 k) (sl_totalRating v)),
     Some (put (kit_u32 k) (sl_ratingCount v)),
     Some (put (kit_u64 k) (sl_version v)),
     Some (put (kit_i64 k) (sl_createdAt v)),
     Some (put (kit_i64 k) (sl_updatedAt v)),
     Some (put (kit_u8 k) (sl_bump v)),
     getFixedBytesEncoder k 32 (sl_reserved v)]"

definition getServiceListingDecoder :: "kit \<Rightarrow> bytes \<Rightarrow> service_listing option" where
  "getServiceListingDecoder k =
     then_read (kit_bytes k 8) (\<lambda>discriminator.
     then_read (kit_address k) (\<lambda>providerAgent.
     then_read (kit_address k) (\<lambda>authority.
     then_read (kit_bytes k 32) (\<lambda>listingId.
     then_read (kit_bytes k 32) (\<lambda>name1.
     then_read (kit_bytes k 32) (\<lambda>category.
     then_read (kit_bytes k 64) (\<lambda>tags.
     then_read (kit_bytes k 32) (\<lambda>specHash.
     then_read (string_codec k) (\<lambda>specUri.
     then_read (kit_u64 k) (\<lambda>price.
     then_read (kit_option k (kit_address k)) (\<lambda>priceMint.
     then_read (kit_u64 k) (\<lambda>requiredCapabilities.
     then_read (kit_i64 k) (\<lambda>defaultDeadlineSecs.
     then_read (kit_address k) (\<lambda>operator1.
     then_read (kit_u16 k) (\<lambda>operatorFeeBps.
     then_read (enum_codec k ListingState) (\<lambda>state1.
     then_read (kit_u16 k) (\<lambda>maxOpenJobs.
     then_read (kit_u16 k) (\<lambda>openJobs.
     then_read (kit_u64 k) (\<lambda>totalHires.
     then_read (kit_u64 k) (\<lambda>totalRating.
     then_read (kit_u32 k) (\<lambda>ratingCount.
     then_read (kit_u64 k) (\<lambda>version1.
     then_read (kit_i64 k) (\<lambda>createdAt.
     then_read (kit_i64 k) (\<lambda>updatedAt.
     then_read (kit_u8 k) (\<lambda>bump.
     then_read (kit_bytes k 32) (\<lambda>reserved.
     (\<lambda>rest. Some \<lparr>sl_discriminator = discriminator, sl_providerAgent = providerAgent, sl_authority = authority,
       sl_listingId = listingId, sl_name = name1, sl_category = category, sl_tags = tags,
       sl_specHash = specHash, sl_specUri = specUri, sl_price = price, sl_priceMint = priceMint,
       sl_requiredCapabilities = requiredCapabilities, sl_defaultDeadlineSecs = defaultDeadlineSecs,
       sl_operator = operator1, sl_operatorFeeBps = operatorFeeBps, sl_state = state1,
       sl_maxOpenJobs = maxOpenJobs, sl_openJobs = openJobs, sl_totalHires = totalHires,
       sl_totalRating = totalRating, sl_ratingCount = ratingCount, sl_version = version1,
       sl_createdAt = createdAt, sl_updatedAt = updatedAt, sl_bump = bump, sl_reserved = reserved\<rparr>)))))))))))))))))))))))))))"

definition service_listing_ok :: "kit \<Rightarrow> service_listing \<Rightarrow> bool" where
  "service_listing_ok k v \<longleftrightarrow> kit_is_address k (sl_providerAgent v) \<and> kit_is_address k (sl_authority v)
     \<and> length (sl_listingId v) = 32 \<and> length (sl_name v) = 32 \<and> length (sl_category v) = 32
     \<and> length (sl_tags v) = 64 \<and> length (sl_specHash v) = 32 \<and> utf8_text (sl_specUri v) \<and> length (sl_specUri v) < 4294967296
     \<and> is_u64 (sl_price v) \<and> pred_option (kit_is_address k) (sl_priceMint v)
     \<and> is_u64 (sl_requiredCapabilities v) \<and> is_i64 (sl_defaultDeadlineSecs v)
     \<and> kit_is_address k (sl_operator v) \<and> sl_operatorFeeBps v < 65536 \<and> sl_maxOpenJobs v < 65536
     \<and> sl_openJobs v < 65536 \<and> is_u64 (sl_totalHires v) \<and> is_u64 (sl_totalRating v)
     \<and> sl_ratingCount v < 4294967296 \<and> is_u64 (sl_version v) \<and> is_i64 (sl_createdAt v)
     \<and> is_i64 (sl_updatedAt v) \<and> sl_bump v < 256 \<and> length (sl_reserved v) = 32"

lemma service_listing_roundtrip:
  assumes "kit_ok k" "service_listing_ok k v"
  shows "\<exists>d. getServiceListingEncoder k v = Some d \<and> getServiceListingDecoder k (d @ rest) = Some (v\<lparr>sl_discriminator := SERVICE_LISTING_DISCRIMINATOR\<rparr>)"
  using assms(2) unfolding service_listing_ok_def getServiceListingDecoder_def getServiceListingEncoder_def
  by (simp add: prefixed_string_ok field_reads [OF assms(1)] SERVICE_LISTING_DISCRIMINATOR_def)


section \<open>Round trips\<close>

text \<open>What an encoder has accepted: it pads, cuts and replaces nothing.\<close>

lemma task_exact:
  "getTaskEncoder k t \<noteq> None \<Longrightarrow> length (t_taskId t) = 32 \<and>
        length (t_description t) = 64 \<and>
        length (t_constraintHash t) = 32 \<and>
        length (t_result t) = 64 \<and>
        length (t_reserved t) = 16"
  by (simp only: getTaskEncoder_def TASK_DISCRIMINATOR_def encode_fields_Some list.pred_inject fixed_bytes_ok option.distinct not_False_eq_True simp_thms)

lemma task_claim_exact:
  "getTaskClaimEncoder k c \<noteq> None \<Longrightarrow> length (tc_proofHash c) = 32 \<and>
        length (tc_resultData c) = 64"
  by (simp only: getTaskClaimEncoder_def TASK_CLAIM_DISCRIMINATOR_def encode_fields_Some list.pred_inject fixed_bytes_ok option.distinct not_False_eq_True simp_thms)

lemma task_bid_exact:
  "getTaskBidEncoder k b \<noteq> None \<Longrightarrow> length (tb_qualityGuaranteeHash b) = 32 \<and>
        length (tb_metadataHash b) = 32"
  by (simp only: getTaskBidEncoder_def TASK_BID_DISCRIMINATOR_def encode_fields_Some list.pred_inject fixed_bytes_ok option.distinct not_False_eq_True simp_thms)

lemma task_job_spec_exact:
  "getTaskJobSpecEncoder k j \<noteq> None \<Longrightarrow> length (js_jobSpecHash j) = 32 \<and>
        length (js_reserved j) = 7 \<and>
        prefixed_string k (js_jobSpecUri j) \<noteq> None"
  by (simp only: getTaskJobSpecEncoder_def TASK_JOB_SPEC_DISCRIMINATOR_def encode_fields_Some list.pred_inject fixed_bytes_ok option.distinct not_False_eq_True simp_thms)

lemma completion_bond_exact:
  "getCompletionBondEncoder k bo \<noteq> None \<Longrightarrow> length (cb_reserved bo) = 16"
  by (simp only: getCompletionBondEncoder_def COMPLETION_BOND_DISCRIMINATOR_def encode_fields_Some list.pred_inject fixed_bytes_ok option.distinct not_False_eq_True simp_thms)

lemma service_listing_exact:
  "getServiceListingEncoder k l \<noteq> None \<Longrightarrow> length (sl_listingId l) = 32 \<and>
        length (sl_name l) = 32 \<and>
        length (sl_category l) = 32 \<and>
        length (sl_tags l) = 64 \<and>
        length (sl_specHash l) = 32 \<and>
        length (sl_reserved l) = 32 \<and>
        prefixed_string k (sl_specUri l) \<noteq> None"
  by (simp only: getServiceListingEncoder_def SERVICE_LISTING_DISCRIMINATOR_def encode_fields_Some list.pred_inject fixed_bytes_ok option.distinct not_False_eq_True simp_thms)


section \<open>A concrete kit\<close>

text \<open>Little-endian integers, addresses as texts of 32 characters, a tag byte before an option.\<close>

fun le_bytes :: "nat \<Rightarrow> nat \<Rightarrow> bytes" where
  "le_bytes 0 n = []"
| "le_bytes (Suc w) n = of_nat (n mod 256) # le_bytes w (n div 256)"

fun le_value :: "bytes \<Rightarrow> nat" where
  "le_value [] = 0"
| "le_value (b # bs) = unat b + 256 * le_value bs"

definition take_bytes :: "nat \<Rightarrow> bytes \<Rightarrow> (bytes \<times> bytes) option" where
  "take_bytes n data = (if length data < n then None else Some (take n data, drop n data))"

definition le_codec :: "nat \<Rightarrow> nat field_codec" where
  "le_codec w = Field_Codec (le_bytes w) (\<lambda>data. map_option (map_prod le_value id) (take_bytes w data))"

definition le_signed_codec :: "int field_codec" where
  "le_signed_codec = Field_Codec (\<lambda>i. le_bytes 8 (nat (i mod 2 ^ 64)))
     (\<lambda>data. map_option (map_prod (\<lambda>b. let n = int (le_value b) in if n \<ge> 2 ^ 63 then n - 2 ^ 64 else n) id)
       (take_bytes 8 data))"

definition text_bytes :: "bytes \<Rightarrow> string" where "text_bytes b = map (\<lambda>w. char_of (unat w)) b"

definition sample_address_codec :: "string field_codec" where
  "sample_address_codec = Field_Codec utf8_encode (\<lambda>data. map_option (map_prod text_bytes id) (take_bytes 32 data))"

definition sample_kit :: kit where
  "sample_kit = \<lparr>
     kit_is_address = (\<lambda>s. length s = 32),
     kit_address = sample_address_codec,
     kit_bytes = (\<lambda>n. Field_Codec id (take_bytes n)),
     kit_u8 = le_codec 1, kit_u16 = le_codec 2, kit_u32 = le_codec 4, kit_u64 = le_codec 8,
     kit_i64 = le_signed_codec,
     kit_boolean = Field_Codec (\<lambda>b. if b then [1] else [0]) (\<lambda>data. map_option (map_prod (\<lambda>b. b = [1]) id) (take_bytes 1 data)),
     kit_enum = (\<lambda>n. le_codec 1),
     kit_option = (\<lambda>c. Field_Codec (\<lambda>v. case v of None \<Rightarrow> [0] | Some x \<Rightarrow> 1 # put c x)
       (\<lambda>data. case data of [] \<Rightarrow> None | b # rest \<Rightarrow>
          if b = 0 then Some (None, rest) else map_option (map_prod Some id) (get c rest)))\<rparr>"

lemma le_bytes_length [simp]: "length (le_bytes w n) = w"
  by (induction w n rule: le_bytes.induct) auto

lemma le_value_bytes: "n < 256 ^ w \<Longrightarrow> le_value (le_bytes w n) = n"
proof (induction w n rule: le_bytes.induct)
  case (2 w n)
  then have "n div 256 < 256 ^ w" by (simp add: less_mult_imp_div_less mult.commute)
  moreover have "unat (of_nat (n mod 256) :: byte) = n mod 256"
    by (simp add: unat_of_nat)
  ultimately show ?case using 2 by simp
qed simp

lemma text_bytes_text [simp]: "text_bytes (utf8_encode s) = s"
  by (induction s) (simp_all add: text_bytes_def utf8_encode_def unat_of_char)

lemma take_bytes_append [simp]: "length b = n \<Longrightarrow> take_bytes n (b @ rest) = Some (b, rest)"
  by (simp add: take_bytes_def)

lemma le_codec_width: "fixed_width (le_codec w) w (\<lambda>n. n < 256 ^ w)"
  by (simp add: fixed_width_def reads_back_def le_codec_def le_value_bytes)

lemma le_signed_width: "fixed_width le_signed_codec 8 is_i64"
proof -
  have "(let n = int (le_value (le_bytes 8 (nat (i mod 2 ^ 64)))) in if n \<ge> 2 ^ 63 then n - 2 ^ 64 else n) = i"
    if "is_i64 i" for i
  proof -
    have m: "0 \<le> i mod 2 ^ 64" "i mod 2 ^ 64 < 2 ^ 64" by simp_all
    then have "nat (i mod 2 ^ 64) < 256 ^ 8" by (simp add: nat_less_iff)
    then have "int (le_value (le_bytes 8 (nat (i mod 2 ^ 64)))) = i mod 2 ^ 64" using m by (simp add: le_value_bytes)
    moreover have "i mod 2 ^ 64 = (if i < 0 then i + 2 ^ 64 else i)"
    proof (cases "i < 0")
      case True
      have "i mod 2 ^ 64 = (i + 2 ^ 64) mod 2 ^ 64" by simp
      also have "\<dots> = i + 2 ^ 64" using True that by (intro mod_pos_pos_trivial) (simp_all add: is_i64_def)
      finally show ?thesis using True by simp
    next
      case False
      then show ?thesis using that by (simp add: is_i64_def)
    qed
    ultimately show ?thesis using that by (simp add: is_i64_def Let_def)
  qed
  then show ?thesis by (simp add: fixed_width_def reads_back_def le_signed_codec_def)
qed

lemma sample_kit_ok: "kit_ok sample_kit"
proof -
  have "fixed_width sample_address_codec 32 (\<lambda>s. length s = 32)"
    by (simp add: fixed_width_def reads_back_def sample_address_codec_def)
  moreover have "fixed_width (Field_Codec id (take_bytes n)) n (\<lambda>b. length b = n)" for n
    by (simp add: fixed_width_def reads_back_def)
  moreover have "fixed_width (le_codec 1) 1 (\<lambda>i. i < n)" if "n \<le> 256" for n
    using le_codec_width [of 1] that by (simp add: fixed_width_def reads_back_def)
  moreover have "fixed_width (le_codec 8) 8 is_u64"
    using le_codec_width [of 8] by (simp add: fixed_width_def reads_back_def is_u64_def)
  moreover have "fixed_width (le_codec 2) 2 (\<lambda>i. i < 65536)" "fixed_width (le_codec 4) 4 (\<lambda>i. i < 4294967296)"
    using le_codec_width [of 2] le_codec_width [of 4] by (simp_all add: fixed_width_def reads_back_def)
  moreover have "put (le_codec 1) i = [of_nat i]" if "i < 256" for i
    using that by (simp add: le_codec_def)
  moreover have "fixed_width (kit_boolean sample_kit) 1 (\<lambda>_. True)"
    by (simp add: fixed_width_def reads_back_def sample_kit_def)
  moreover have "reads_back (kit_option sample_kit sample_address_codec) (pred_option (\<lambda>s. length s = 32))"
    by (simp add: reads_back_def sample_kit_def sample_address_codec_def split: option.split)
  ultimately show ?thesis
    using le_signed_width by (simp add: kit_ok_def sample_kit_def)
qed

definition sample_task :: task where
  "sample_task = \<lparr>t_discriminator = TASK_DISCRIMINATOR, t_taskId = replicate 32 7, t_creator = replicate 32 CHR ''c'',
     t_requiredCapabilities = 3, t_description = replicate 64 0, t_constraintHash = replicate 32 0,
     t_rewardAmount = 1000000, t_maxWorkers = 1, t_currentWorkers = 0, t_status = TOpen, t_taskType = TTExclusive,
     t_createdAt = 1700000000, t_deadline = 1800000000, t_completedAt = 0, t_escrow = replicate 32 CHR ''e'',
     t_result = replicate 64 0, t_completions = 0, t_requiredCompletions = 1, t_bump = 255, t_protocolFeeBps = 100,
     t_dependsOn = None, t_dependencyType = DNone, t_minReputation = 0, t_rewardMint = Some (replicate 32 CHR ''m''),
     t_operator = DEFAULT_ADDRESS, t_operatorFeeBps = 0, t_reserved = replicate 16 0, t_referrer = DEFAULT_ADDRESS,
     t_referrerFeeBps = 0\<rparr>"

definition sample_job_spec :: task_job_spec where
  "sample_job_spec = \<lparr>js_discriminator = TASK_JOB_SPEC_DISCRIMINATOR, js_task = replicate 32 CHR ''t'',
     js_creator = replicate 32 CHR ''c'', js_jobSpecHash = replicate 32 9, js_jobSpecUri = ''https://example.org/j'',
     js_createdAt = -1, js_updatedAt = 0, js_bump = 254, js_reserved = replicate 7 0\<rparr>"

lemma sample_task_ok: "task_ok sample_kit sample_task"
  by (simp add: task_ok_def sample_task_def sample_kit_def is_u64_def is_i64_def DEFAULT_ADDRESS_def)

lemma sample_job_spec_ok: "task_job_spec_ok sample_kit sample_job_spec"
  by (simp add: task_job_spec_ok_def sample_job_spec_def sample_kit_def is_i64_def utf8_text_def)


end
