(* ===== verification/Queries.thy ===== *)
theory Queries
  imports Accounts WorkerPolicy
begin

unbundle bit_operations_syntax

text \<open>
  The read path of the SDK (\<open>queries/helpers.ts\<close>, \<open>queries/transport.ts\<close>, \<open>queries/offsets.ts\<close>): filters on
  account bytes, the transports that evaluate them, and the helpers over them.
\<close>

section \<open>Filters and transports\<close>

datatype gpa_filter = Data_Size nat | Memcmp nat bytes

type_synonym transport = "gpa_filter list \<Rightarrow> (string \<times> bytes) list res"

text \<open>The filters of the RPC, with their bytes in base64, and a \<open>getProgramAccounts\<close> of program and commitment.\<close>

datatype rpc_filter = Rpc_Data_Size nat | Rpc_Memcmp nat string

type_synonym program_rpc = "string \<Rightarrow> string \<Rightarrow> rpc_filter list \<Rightarrow> (string \<times> string) list res"

fun toRpcFilter :: "(bytes \<Rightarrow> string) \<Rightarrow> gpa_filter \<Rightarrow> rpc_filter" where
  "toRpcFilter to64 (Data_Size n) = Rpc_Data_Size n"
| "toRpcFilter to64 (Memcmp offset b) = Rpc_Memcmp offset (to64 b)"

definition createRpcProgramAccountsTransport ::
  "(bytes \<Rightarrow> string) \<Rightarrow> (string \<Rightarrow> bytes) \<Rightarrow> program_rpc \<Rightarrow> string option \<Rightarrow> string option \<Rightarrow> transport" where
  "createRpcProgramAccountsTransport to64 of64 rpc programAddress commitment = (\<lambda>filters.
     bind_res (rpc (case programAddress of None \<Rightarrow> AGENC_COORDINATION_PROGRAM_ADDRESS | Some a \<Rightarrow> a)
         (case commitment of None \<Rightarrow> ''confirmed'' | Some c \<Rightarrow> c) (map (toRpcFilter to64) filters)) (\<lambda>results.
     Inr (map (\<lambda>(a, d). (a, of64 d)) results)))"

text \<open>A source: its \<open>getAccountInfo\<close> tells a kit RPC from a transport.\<close>

datatype source = No_Accounts | Kit_Rpc program_rpc | Custom transport

definition resolveProgramAccountsTransport ::
  "(bytes \<Rightarrow> string) \<Rightarrow> (string \<Rightarrow> bytes) \<Rightarrow> source \<Rightarrow> string option \<Rightarrow> string option \<Rightarrow> transport res" where
  "resolveProgramAccountsTransport to64 of64 src programAddress commitment = (case src of
      No_Accounts \<Rightarrow> Inl (PlainError ''queries: expected a kit Rpc or a ProgramAccountsTransport (missing getProgramAccounts)'')
    | Kit_Rpc rpc \<Rightarrow> Inr (createRpcProgramAccountsTransport to64 of64 rpc programAddress commitment)
    | Custom t \<Rightarrow> Inr t)"

section \<open>Offsets\<close>

definition SERVICE_LISTING_PROVIDER_AGENT_OFFSET :: nat where "SERVICE_LISTING_PROVIDER_AGENT_OFFSET = 8"
definition SERVICE_LISTING_AUTHORITY_OFFSET :: nat where "SERVICE_LISTING_AUTHORITY_OFFSET = 40"
definition SERVICE_LISTING_CATEGORY_OFFSET :: nat where "SERVICE_LISTING_CATEGORY_OFFSET = 136"
definition TASK_CREATOR_OFFSET :: nat where "TASK_CREATOR_OFFSET = 40"
definition TASK_STATUS_OFFSET :: nat where "TASK_STATUS_OFFSET = 186"
definition TASK_CLAIM_TASK_OFFSET :: nat where "TASK_CLAIM_TASK_OFFSET = 8"
definition TASK_CLAIM_WORKER_OFFSET :: nat where "TASK_CLAIM_WORKER_OFFSET = 40"
definition TASK_BID_TASK_OFFSET :: nat where "TASK_BID_TASK_OFFSET = 8"
definition HIRE_RECORD_TASK_OFFSET :: nat where "HIRE_RECORD_TASK_OFFSET = 8"
definition COMPLETION_BOND_TASK_OFFSET :: nat where "COMPLETION_BOND_TASK_OFFSET = 8"
definition TASK_JOB_SPEC_TASK_OFFSET :: nat where "TASK_JOB_SPEC_TASK_OFFSET = 8"
definition TASK_JOB_SPEC_HASH_OFFSET :: nat where "TASK_JOB_SPEC_HASH_OFFSET = 72"

section \<open>Building filters\<close>

definition discriminatorFilter :: "bytes \<Rightarrow> gpa_filter" where
  "discriminatorFilter discriminator = Memcmp 0 discriminator"

definition addressBytes :: "kit \<Rightarrow> string \<Rightarrow> bytes res" where
  "addressBytes k a = (if kit_is_address k a then Inr (put (kit_address k) a) else Inl (PlainError ''address''))"

text \<open>A filter on an address field.\<close>

definition address_filter :: "kit \<Rightarrow> nat \<Rightarrow> string \<Rightarrow> gpa_filter res" where
  "address_filter k offset a = bind_res (addressBytes k a) (\<lambda>b. Inr (Memcmp offset b))"

definition optional_filter :: "('a \<Rightarrow> gpa_filter res) \<Rightarrow> 'a option \<Rightarrow> gpa_filter list res" where
  "optional_filter f v = (case v of None \<Rightarrow> Inr [] | Some x \<Rightarrow> bind_res (f x) (\<lambda>m. Inr [m]))"

datatype category = Raw_Category bytes | Category_Text string

definition is_kebab :: "string \<Rightarrow> bool" where
  "is_kebab s \<longleftrightarrow> list_all (\<lambda>part. part \<noteq> [] \<and>
     list_all (\<lambda>c. let n = of_char c :: nat in (97 \<le> n \<and> n \<le> 122) \<or> (48 \<le> n \<and> n \<le> 57)) part) (split_on (CHR ''-'') s)"

definition toCategoryBytes :: "category \<Rightarrow> bytes res" where
  "toCategoryBytes c = (case c of
      Raw_Category b \<Rightarrow>
        if length b \<noteq> 32 then Inl (PlainError ''queries: a raw category must be exactly 32 bytes'') else Inr b
    | Category_Text s \<Rightarrow>
        if \<not> is_kebab s then Inl (PlainError ''queries: category is not lowercase-kebab'')
        else if length (utf8_encode s) > 32 then Inl (PlainError ''queries: category string too long'')
        else Inr (utf8_encode s @ replicate (32 - length (utf8_encode s)) 0))"

definition fetchDecoded :: "transport \<Rightarrow> gpa_filter list \<Rightarrow> (bytes \<Rightarrow> 'a option) \<Rightarrow> (string \<times> 'a) list res" where
  "fetchDecoded transport filters decode =
     bind_res (transport filters) (\<lambda>raw.
     map_res (\<lambda>(address, data). case decode data of
        None \<Rightarrow> Inl (PlainError ''decode'') | Some account \<Rightarrow> Inr (address, account)) raw)"

section \<open>Listings, claims, bids\<close>

record listing_options =
  lo_provider :: "string option"
  lo_category :: "category option"
  lo_state :: "listing_state option"

definition listActiveListings :: "kit \<Rightarrow> transport \<Rightarrow> listing_options \<Rightarrow> (string \<times> service_listing) list res" where
  "listActiveListings k transport options =
     bind_res (optional_filter (address_filter k SERVICE_LISTING_PROVIDER_AGENT_OFFSET) (lo_provider options)) (\<lambda>provider.
     bind_res (optional_filter (\<lambda>c. bind_res (toCategoryBytes c) (\<lambda>b. Inr (Memcmp SERVICE_LISTING_CATEGORY_OFFSET b)))
         (lo_category options)) (\<lambda>category.
     bind_res (fetchDecoded transport (discriminatorFilter SERVICE_LISTING_DISCRIMINATOR # provider @ category)
         (getServiceListingDecoder k)) (\<lambda>listings.
     let wantState = (case lo_state options of None \<Rightarrow> LActive | Some s \<Rightarrow> s) in
     Inr (List.filter (\<lambda>(_, account). sl_state account = wantState) listings))))"

definition listingsByProvider :: "kit \<Rightarrow> transport \<Rightarrow> string \<Rightarrow> (string \<times> service_listing) list res" where
  "listingsByProvider k transport providerAgent =
     bind_res (address_filter k SERVICE_LISTING_PROVIDER_AGENT_OFFSET providerAgent) (\<lambda>m.
     fetchDecoded transport [discriminatorFilter SERVICE_LISTING_DISCRIMINATOR, m] (getServiceListingDecoder k))"

definition listClaimsForWorker :: "kit \<Rightarrow> transport \<Rightarrow> string \<Rightarrow> (string \<times> task_claim) list res" where
  "listClaimsForWorker k transport workerAgent =
     bind_res (address_filter k TASK_CLAIM_WORKER_OFFSET workerAgent) (\<lambda>m.
     fetchDecoded transport [discriminatorFilter TASK_CLAIM_DISCRIMINATOR, m] (getTaskClaimDecoder k))"

definition bidsByTask :: "kit \<Rightarrow> transport \<Rightarrow> string \<Rightarrow> (string \<times> task_bid) list res" where
  "bidsByTask k transport task =
     bind_res (address_filter k TASK_BID_TASK_OFFSET task) (\<lambda>m.
     fetchDecoded transport [discriminatorFilter TASK_BID_DISCRIMINATOR, m] (getTaskBidDecoder k))"

section \<open>Guarantees and hires\<close>

definition COMPLETION_BOND_ROLE_CREATOR :: nat where "COMPLETION_BOND_ROLE_CREATOR = 0"
definition COMPLETION_BOND_ROLE_WORKER :: nat where "COMPLETION_BOND_ROLE_WORKER = 1"

record task_guarantee =
  tg_guaranteed :: bool
  tg_workerBond :: "(string \<times> completion_bond) option"
  tg_creatorBond :: "(string \<times> completion_bond) option"

definition fetchTaskGuarantee :: "kit \<Rightarrow> transport \<Rightarrow> string \<Rightarrow> task_guarantee res" where
  "fetchTaskGuarantee k transport task =
     bind_res (address_filter k COMPLETION_BOND_TASK_OFFSET task) (\<lambda>m.
     bind_res (fetchDecoded transport [discriminatorFilter COMPLETION_BOND_DISCRIMINATOR, m]
         (getCompletionBondDecoder k)) (\<lambda>bonds.
     let workerBond = List.find (\<lambda>(_, b). cb_role b = COMPLETION_BOND_ROLE_WORKER) bonds;
         creatorBond = List.find (\<lambda>(_, b). cb_role b = COMPLETION_BOND_ROLE_CREATOR) bonds in
     Inr \<lparr>tg_guaranteed = (workerBond \<noteq> None), tg_workerBond = workerBond, tg_creatorBond = creatorBond\<rparr>))"

text \<open>Two reads: of the tasks of a buyer, and of every hire.\<close>

definition listHireRecordsForBuyer ::
  "kit \<Rightarrow> transport \<Rightarrow> transport \<Rightarrow> string \<Rightarrow> (string \<times> hire_record_data) list res" where
  "listHireRecordsForBuyer k transport1 transport2 buyer =
     bind_res (address_filter k TASK_CREATOR_OFFSET buyer) (\<lambda>m.
     bind_res (fetchDecoded transport1 [discriminatorFilter TASK_DISCRIMINATOR, m] (getTaskDecoder k)) (\<lambda>buyerTasks.
     bind_res (fetchDecoded transport2 [discriminatorFilter HIRE_RECORD_DISCRIMINATOR] (getHireRecordDecoder k)) (\<lambda>hires.
     Inr (List.filter (\<lambda>(_, account). hi_task account \<in> set (map fst buyerTasks)) hires))))"

section \<open>Job-spec pins\<close>

definition isNonZeroHash :: "bytes \<Rightarrow> bool" where
  "isNonZeroHash h \<longleftrightarrow> list_ex (\<lambda>b. b \<noteq> 0) h"

definition pin_valid :: "task_job_spec \<Rightarrow> bool" where
  "pin_valid account \<longleftrightarrow> isNonZeroHash (js_jobSpecHash account) \<and> isNonBlankJobSpecUri (js_jobSpecUri account)"

definition fetchTaskJobSpecsForPinValidation :: "kit \<Rightarrow> transport \<Rightarrow> gpa_filter list \<Rightarrow> task_job_spec list res" where
  "fetchTaskJobSpecsForPinValidation k transport filters =
     bind_res (fetchDecoded transport filters (getTaskJobSpecDecoder k)) (\<lambda>rows. Inr (map snd rows))"

definition listPinnedJobSpecTasks :: "kit \<Rightarrow> transport \<Rightarrow> string set res" where
  "listPinnedJobSpecTasks k transport =
     bind_res (fetchTaskJobSpecsForPinValidation k transport [discriminatorFilter TASK_JOB_SPEC_DISCRIMINATOR]) (\<lambda>specs.
     Inr (set (map js_task (List.filter pin_valid specs))))"

definition isTaskJobSpecPinned :: "kit \<Rightarrow> transport \<Rightarrow> string \<Rightarrow> bool res" where
  "isTaskJobSpecPinned k transport task =
     bind_res (address_filter k TASK_JOB_SPEC_TASK_OFFSET task) (\<lambda>m.
     bind_res (fetchTaskJobSpecsForPinValidation k transport
         [discriminatorFilter TASK_JOB_SPEC_DISCRIMINATOR, m]) (\<lambda>specs.
     Inr (list_ex pin_valid specs)))"

section \<open>Tasks\<close>

record task_options =
  to_capabilities :: "int option"
  to_minReward :: "int option"
  to_creator :: "string option"

definition superset_of :: "int \<Rightarrow> nat \<Rightarrow> bool" where
  "superset_of capabilities required \<longleftrightarrow> int required AND capabilities = int required"

definition refine_tasks :: "task_options \<Rightarrow> (string \<times> task) list \<Rightarrow> (string \<times> task) list" where
  "refine_tasks options tasks =
     (let tasks1 = (case to_capabilities options of None \<Rightarrow> tasks
          | Some caps \<Rightarrow> List.filter (\<lambda>(_, account). superset_of caps (t_requiredCapabilities account)) tasks) in
      case to_minReward options of None \<Rightarrow> tasks1
      | Some minReward \<Rightarrow> List.filter (\<lambda>(_, account). minReward \<le> int (t_rewardAmount account)) tasks1)"

definition status_filter :: "task_status \<Rightarrow> gpa_filter" where
  "status_filter s = Memcmp TASK_STATUS_OFFSET [of_nat (index_of TaskStatus s)]"

definition listOpenTasks :: "kit \<Rightarrow> transport \<Rightarrow> task_options \<Rightarrow> (string \<times> task) list res" where
  "listOpenTasks k transport options =
     bind_res (optional_filter (address_filter k TASK_CREATOR_OFFSET) (to_creator options)) (\<lambda>creator.
     bind_res (fetchDecoded transport ([discriminatorFilter TASK_DISCRIMINATOR, status_filter TOpen] @ creator)
         (getTaskDecoder k)) (\<lambda>tasks.
     Inr (refine_tasks options tasks)))"

definition DISPUTE_SAFE_MAX_WORKERS :: nat where "DISPUTE_SAFE_MAX_WORKERS = 4"

definition DEFAULT_DIRECT_CLAIM_DEADLINE_SAFETY_SECONDS :: int where
  "DEFAULT_DIRECT_CLAIM_DEADLINE_SAFETY_SECONDS = 30"

definition MANUAL_VALIDATION_SENTINEL :: string where
  "MANUAL_VALIDATION_SENTINEL = ''agenc-manual-validation-v2-seed!''"

definition isManualValidationTask :: "task \<Rightarrow> bool" where
  "isManualValidationTask t \<longleftrightarrow>
     (if length (t_constraintHash t) \<noteq> length MANUAL_VALIDATION_SENTINEL then False
      else list_all (\<lambda>(b, c). b = of_char c) (zip (t_constraintHash t) MANUAL_VALIDATION_SENTINEL))"

definition isTaskStateDirectlyClaimable :: "task \<Rightarrow> int \<Rightarrow> bool" where
  "isTaskStateDirectlyClaimable t now =
     (if t_taskType t = TTBidExclusive then False
      else
        (let contest = (case t_reserved t of [] \<Rightarrow> 0 | b # _ \<Rightarrow> unat b) \<ge> 1 \<and> t_taskType t = TTCompetitive;
             claimableDuringPendingValidation = t_status t = TPendingValidation \<and>
               (t_taskType t = TTCollaborative \<or> contest) \<and> isManualValidationTask t;
             statusAllowsDirectClaim = t_status t = TOpen \<or> t_status t = TInProgress \<or> claimableDuringPendingValidation in
         if \<not> statusAllowsDirectClaim then False
         else if t_deadline t > 0 \<and> now \<ge> t_deadline t then False
         else t_currentWorkers t < min (t_maxWorkers t) DISPUTE_SAFE_MAX_WORKERS))"

text \<open>\<open>Map.set\<close> on a map in insertion order.\<close>

fun map_set :: "'k \<Rightarrow> 'v \<Rightarrow> ('k \<times> 'v) list \<Rightarrow> ('k \<times> 'v) list" where
  "map_set key v [] = [(key, v)]"
| "map_set key v (e # es) = (if fst e = key then (key, v) # es else e # map_set key v es)"

record direct_options = task_options +
  do_nowUnixTimestamp :: "int option"
  do_deadlineSafetySeconds :: "int option"

text \<open>The three reads, one per status, each of the chain as it is then; \<open>clock\<close> is the time in seconds after
  the last of them.\<close>

definition listDirectClaimableTasks ::
  "kit \<Rightarrow> (task_status \<Rightarrow> transport) \<Rightarrow> int \<Rightarrow> direct_options \<Rightarrow> (string \<times> task) list res" where
  "listDirectClaimableTasks k transport clock options =
     (let deadlineSafetySeconds = (case do_deadlineSafetySeconds options of
           None \<Rightarrow> DEFAULT_DIRECT_CLAIM_DEADLINE_SAFETY_SECONDS | Some s \<Rightarrow> s) in
      if deadlineSafetySeconds < 0 then Inl (PlainError ''deadlineSafetySeconds must be non-negative'')
      else
        bind_res (optional_filter (address_filter k TASK_CREATOR_OFFSET) (to_creator options)) (\<lambda>creator.
        bind_res (map_res (\<lambda>status. fetchDecoded (transport status)
             ([discriminatorFilter TASK_DISCRIMINATOR] @ creator @ [status_filter status]) (getTaskDecoder k))
           [TOpen, TInProgress, TPendingValidation]) (\<lambda>groups.
        let nowUnixTimestamp = (case do_nowUnixTimestamp options of None \<Rightarrow> clock | Some t \<Rightarrow> t);
            conservativeNow = nowUnixTimestamp + deadlineSafetySeconds;
            latestByAddress = fold (\<lambda>(address, account). map_set address account) (concat groups) [] in
        Inr (refine_tasks (task_options.truncate options)
          (List.filter (\<lambda>(_, account). isTaskStateDirectlyClaimable account conservativeNow) latestByAddress)))))"

end
