(* ===== verification/QueryResults.thy ===== *)
theory QueryResults
  imports Queries
begin

text \<open>
  The query helpers against a typed view of the chain: every account is one of the seven kinds or of another
  kind, the transport evaluates the filters on the account bytes, and a helper returns exactly the accounts
  a query on the typed view selects.
\<close>

section \<open>The chain, typed\<close>

datatype program_account =
    A_Task task
  | A_Claim task_claim
  | A_Bid task_bid
  | A_Job_Spec task_job_spec
  | A_Hire hire_record_data
  | A_Bond completion_bond
  | A_Listing service_listing
  | A_Other bytes

type_synonym snapshot = "(string \<times> program_account) list"

text \<open>The bytes of an account are those its encoder gives for its fields (all of them, for a valid account).\<close>

fun account_data :: "kit \<Rightarrow> program_account \<Rightarrow> bytes" where
  "account_data k (A_Task v) = the (getTaskEncoder k v)"
| "account_data k (A_Claim v) = the (getTaskClaimEncoder k v)"
| "account_data k (A_Bid v) = the (getTaskBidEncoder k v)"
| "account_data k (A_Job_Spec v) = the (getTaskJobSpecEncoder k v)"
| "account_data k (A_Hire v) = the (getHireRecordEncoder k v)"
| "account_data k (A_Bond v) = the (getCompletionBondEncoder k v)"
| "account_data k (A_Listing v) = the (getServiceListingEncoder k v)"
| "account_data k (A_Other b) = b"

definition read_discriminators :: "bytes list" where
  "read_discriminators = [TASK_DISCRIMINATOR, TASK_CLAIM_DISCRIMINATOR, TASK_BID_DISCRIMINATOR,
     TASK_JOB_SPEC_DISCRIMINATOR, HIRE_RECORD_DISCRIMINATOR, COMPLETION_BOND_DISCRIMINATOR, SERVICE_LISTING_DISCRIMINATOR]"

fun account_ok :: "kit \<Rightarrow> program_account \<Rightarrow> bool" where
  "account_ok k (A_Task v) = (task_ok k v \<and> t_discriminator v = TASK_DISCRIMINATOR)"
| "account_ok k (A_Claim v) = (task_claim_ok k v \<and> tc_discriminator v = TASK_CLAIM_DISCRIMINATOR)"
| "account_ok k (A_Bid v) = (task_bid_ok k v \<and> tb_discriminator v = TASK_BID_DISCRIMINATOR)"
| "account_ok k (A_Job_Spec v) = (task_job_spec_ok k v \<and> js_discriminator v = TASK_JOB_SPEC_DISCRIMINATOR)"
| "account_ok k (A_Hire v) = (hire_record_data_ok k v \<and> hi_discriminator v = HIRE_RECORD_DISCRIMINATOR)"
| "account_ok k (A_Bond v) = (completion_bond_ok k v \<and> cb_discriminator v = COMPLETION_BOND_DISCRIMINATOR)"
| "account_ok k (A_Listing v) = (service_listing_ok k v \<and> sl_discriminator v = SERVICE_LISTING_DISCRIMINATOR)"
| "account_ok k (A_Other b) = (take 8 b \<notin> set read_discriminators)"

fun the_task where "the_task (A_Task v) = Some v" | "the_task _ = None"
fun the_claim where "the_claim (A_Claim v) = Some v" | "the_claim _ = None"
fun the_bid where "the_bid (A_Bid v) = Some v" | "the_bid _ = None"
fun the_job_spec where "the_job_spec (A_Job_Spec v) = Some v" | "the_job_spec _ = None"
fun the_hire where "the_hire (A_Hire v) = Some v" | "the_hire _ = None"
fun the_bond where "the_bond (A_Bond v) = Some v" | "the_bond _ = None"
fun the_listing where "the_listing (A_Listing v) = Some v" | "the_listing _ = None"

text \<open>The accounts of one kind that satisfy a condition, in the order of the chain.\<close>

fun selected :: "(program_account \<Rightarrow> 'a option) \<Rightarrow> ('a \<Rightarrow> bool) \<Rightarrow> snapshot \<Rightarrow> (string \<times> 'a) list" where
  "selected kind P [] = []"
| "selected kind P ((a, acc) # snap) = (case kind acc of
      None \<Rightarrow> selected kind P snap
    | Some v \<Rightarrow> if P v then (a, v) # selected kind P snap else selected kind P snap)"

text \<open>The filters of a request, all of them, on the bytes of an account.\<close>

fun filter_matches :: "bytes \<Rightarrow> gpa_filter \<Rightarrow> bool" where
  "filter_matches data (Data_Size n) = (length data = n)"
| "filter_matches data (Memcmp offset b) = (take (length b) (drop offset data) = b)"

definition answers :: "kit \<Rightarrow> snapshot \<Rightarrow> transport" where
  "answers k snap filters =
     Inr (List.filter (\<lambda>(a, data). list_all (filter_matches data) filters) (map (\<lambda>(a, acc). (a, account_data k acc)) snap))"

definition snapshot_ok :: "kit \<Rightarrow> snapshot \<Rightarrow> bool" where
  "snapshot_ok k snap \<longleftrightarrow> kit_ok k \<and> list_all (account_ok k \<circ> snd) snap"

section \<open>Discriminators\<close>

lemma kit_bytes_put: "kit_ok k \<Longrightarrow> length b = n \<Longrightarrow> put (kit_bytes k n) b = b"
  by (simp add: kit_ok_def)

lemmas discriminator_defs = TASK_DISCRIMINATOR_def TASK_CLAIM_DISCRIMINATOR_def TASK_BID_DISCRIMINATOR_def
  TASK_JOB_SPEC_DISCRIMINATOR_def HIRE_RECORD_DISCRIMINATOR_def COMPLETION_BOND_DISCRIMINATOR_def
  SERVICE_LISTING_DISCRIMINATOR_def

lemma discriminator_lengths:
  "length TASK_DISCRIMINATOR = 8" "length TASK_CLAIM_DISCRIMINATOR = 8" "length TASK_BID_DISCRIMINATOR = 8"
  "length TASK_JOB_SPEC_DISCRIMINATOR = 8" "length HIRE_RECORD_DISCRIMINATOR = 8"
  "length COMPLETION_BOND_DISCRIMINATOR = 8" "length SERVICE_LISTING_DISCRIMINATOR = 8"
  by (simp_all add: discriminator_defs)

lemma discriminators_distinct: "distinct read_discriminators"
  by (simp add: read_discriminators_def discriminator_defs)

text \<open>The kind of an account, as the position of its discriminator.\<close>

fun kind_discriminator :: "program_account \<Rightarrow> bytes" where
  "kind_discriminator (A_Task v) = TASK_DISCRIMINATOR"
| "kind_discriminator (A_Claim v) = TASK_CLAIM_DISCRIMINATOR"
| "kind_discriminator (A_Bid v) = TASK_BID_DISCRIMINATOR"
| "kind_discriminator (A_Job_Spec v) = TASK_JOB_SPEC_DISCRIMINATOR"
| "kind_discriminator (A_Hire v) = HIRE_RECORD_DISCRIMINATOR"
| "kind_discriminator (A_Bond v) = COMPLETION_BOND_DISCRIMINATOR"
| "kind_discriminator (A_Listing v) = SERVICE_LISTING_DISCRIMINATOR"
| "kind_discriminator (A_Other b) = take 8 b"

lemma leading_discriminator:
  "kit_ok k \<Longrightarrow> account_ok k acc \<Longrightarrow> take 8 (account_data k acc) = kind_discriminator acc"
  by (cases acc) (simp_all add: getTaskEncoder_def getTaskClaimEncoder_def getTaskBidEncoder_def
      getTaskJobSpecEncoder_def getHireRecordEncoder_def getCompletionBondEncoder_def getServiceListingEncoder_def
      task_ok_def task_claim_ok_def task_bid_ok_def task_job_spec_ok_def hire_record_data_ok_def completion_bond_ok_def
      service_listing_ok_def prefixed_string_ok kit_bytes_put discriminator_lengths)

lemma discriminator_matches:
  "kit_ok k \<Longrightarrow> account_ok k acc \<Longrightarrow> length d = 8 \<Longrightarrow>
   filter_matches (account_data k acc) (discriminatorFilter d) \<longleftrightarrow> kind_discriminator acc = d"
  by (simp add: discriminatorFilter_def leading_discriminator)

section \<open>What a fetch by discriminator returns\<close>

text \<open>The contract of a kind of account: its discriminator tells it from the others, and its decoder reads it.\<close>

locale account_kind =
  fixes discriminator :: bytes
    and kind :: "program_account \<Rightarrow> 'a option"
    and decode :: "kit \<Rightarrow> bytes \<Rightarrow> 'a option"
  assumes discriminator_length: "length discriminator = 8"
    and discriminated: "account_ok k acc \<Longrightarrow> kind_discriminator acc = discriminator \<longleftrightarrow> kind acc \<noteq> None"
    and decoded: "kit_ok k \<Longrightarrow> account_ok k acc \<Longrightarrow> kind acc = Some v \<Longrightarrow> decode k (account_data k acc) = Some v"
begin

lemma fetched:
  assumes "snapshot_ok k snap"
    and filters: "\<And>a acc v. (a, acc) \<in> set snap \<Longrightarrow> kind acc = Some v \<Longrightarrow>
      list_all (filter_matches (account_data k acc)) fs \<longleftrightarrow> P v"
  shows "fetchDecoded (answers k snap) (discriminatorFilter discriminator # fs) (decode k) = Inr (selected kind P snap)"
proof -
  let ?match = "\<lambda>(a, data). list_all (filter_matches data) (discriminatorFilter discriminator # fs)"
  let ?decode = "\<lambda>(address, data). case decode k data of
    None \<Rightarrow> Inl (PlainError ''decode'') | Some account \<Rightarrow> Inr (address, account)"
  have k: "kit_ok k" using assms(1) by (simp add: snapshot_ok_def)
  have "map_res ?decode (List.filter ?match (map (\<lambda>(a, acc). (a, account_data k acc)) xs)) = Inr (selected kind P xs)"
    if "set xs \<subseteq> set snap" for xs
    using that
  proof (induction xs)
    case Nil
    then show ?case by simp
  next
    case (Cons x xs)
    obtain a acc where x: "x = (a, acc)" by (cases x)
    with Cons.prems have mem: "(a, acc) \<in> set snap" by simp
    then have ok: "account_ok k acc" using assms(1) by (auto simp: snapshot_ok_def list_all_iff)
    have match: "?match (a, account_data k acc) \<longleftrightarrow> (\<exists>v. kind acc = Some v \<and> P v)"
      using discriminator_matches [OF k ok discriminator_length] discriminated [OF ok] filters [OF mem] by auto
    show ?case
    proof (cases "\<exists>v. kind acc = Some v \<and> P v")
      case True
      then show ?thesis
        using match decoded [OF k ok] Cons by (auto simp: x)
    next
      case False
      then show ?thesis
        using match Cons by (auto simp: x split: option.splits)
    qed
  qed
  from this [OF order_refl] show ?thesis by (simp add: fetchDecoded_def answers_def)
qed

lemma fetched_by:
  assumes "snapshot_ok k snap"
    and "\<And>acc v. kit_ok k \<Longrightarrow> account_ok k acc \<Longrightarrow> kind acc = Some v \<Longrightarrow> filter_matches (account_data k acc) m \<longleftrightarrow> P v"
  shows "fetchDecoded (answers k snap) [discriminatorFilter discriminator, m] (decode k) = Inr (selected kind P snap)"
  using assms by (intro fetched) (auto simp: snapshot_ok_def list_all_iff)

end

lemmas kind_simps = discriminator_defs read_discriminators_def

interpretation task_kind: account_kind TASK_DISCRIMINATOR the_task getTaskDecoder
proof
  fix k acc v
  show "account_ok k acc \<Longrightarrow> kind_discriminator acc = TASK_DISCRIMINATOR \<longleftrightarrow> the_task acc \<noteq> None"
    by (cases acc) (auto simp: kind_simps)
  show "kit_ok k \<Longrightarrow> account_ok k acc \<Longrightarrow> the_task acc = Some v \<Longrightarrow> getTaskDecoder k (account_data k acc) = Some v"
    using task_roundtrip [of k _ "[]"] by (cases acc) fastforce+
qed (rule discriminator_lengths)

interpretation claim_kind: account_kind TASK_CLAIM_DISCRIMINATOR the_claim getTaskClaimDecoder
proof
  fix k acc v
  show "account_ok k acc \<Longrightarrow> kind_discriminator acc = TASK_CLAIM_DISCRIMINATOR \<longleftrightarrow> the_claim acc \<noteq> None"
    by (cases acc) (auto simp: kind_simps)
  show "kit_ok k \<Longrightarrow> account_ok k acc \<Longrightarrow> the_claim acc = Some v \<Longrightarrow> getTaskClaimDecoder k (account_data k acc) = Some v"
    using task_claim_roundtrip [of k _ "[]"] by (cases acc) fastforce+
qed (rule discriminator_lengths)

interpretation bid_kind: account_kind TASK_BID_DISCRIMINATOR the_bid getTaskBidDecoder
proof
  fix k acc v
  show "account_ok k acc \<Longrightarrow> kind_discriminator acc = TASK_BID_DISCRIMINATOR \<longleftrightarrow> the_bid acc \<noteq> None"
    by (cases acc) (auto simp: kind_simps)
  show "kit_ok k \<Longrightarrow> account_ok k acc \<Longrightarrow> the_bid acc = Some v \<Longrightarrow> getTaskBidDecoder k (account_data k acc) = Some v"
    using task_bid_roundtrip [of k _ "[]"] by (cases acc) fastforce+
qed (rule discriminator_lengths)

interpretation job_spec_kind: account_kind TASK_JOB_SPEC_DISCRIMINATOR the_job_spec getTaskJobSpecDecoder
proof
  fix k acc v
  show "account_ok k acc \<Longrightarrow> kind_discriminator acc = TASK_JOB_SPEC_DISCRIMINATOR \<longleftrightarrow> the_job_spec acc \<noteq> None"
    by (cases acc) (auto simp: kind_simps)
  show "kit_ok k \<Longrightarrow> account_ok k acc \<Longrightarrow> the_job_spec acc = Some v \<Longrightarrow> getTaskJobSpecDecoder k (account_data k acc) = Some v"
    using task_job_spec_roundtrip [of k _ "[]"] by (cases acc) fastforce+
qed (rule discriminator_lengths)

interpretation hire_kind: account_kind HIRE_RECORD_DISCRIMINATOR the_hire getHireRecordDecoder
proof
  fix k acc v
  show "account_ok k acc \<Longrightarrow> kind_discriminator acc = HIRE_RECORD_DISCRIMINATOR \<longleftrightarrow> the_hire acc \<noteq> None"
    by (cases acc) (auto simp: kind_simps)
  show "kit_ok k \<Longrightarrow> account_ok k acc \<Longrightarrow> the_hire acc = Some v \<Longrightarrow> getHireRecordDecoder k (account_data k acc) = Some v"
    using hire_record_data_roundtrip [of k _ "[]"] by (cases acc) fastforce+
qed (rule discriminator_lengths)

interpretation bond_kind: account_kind COMPLETION_BOND_DISCRIMINATOR the_bond getCompletionBondDecoder
proof
  fix k acc v
  show "account_ok k acc \<Longrightarrow> kind_discriminator acc = COMPLETION_BOND_DISCRIMINATOR \<longleftrightarrow> the_bond acc \<noteq> None"
    by (cases acc) (auto simp: kind_simps)
  show "kit_ok k \<Longrightarrow> account_ok k acc \<Longrightarrow> the_bond acc = Some v \<Longrightarrow> getCompletionBondDecoder k (account_data k acc) = Some v"
    using completion_bond_roundtrip [of k _ "[]"] by (cases acc) fastforce+
qed (rule discriminator_lengths)

interpretation listing_kind: account_kind SERVICE_LISTING_DISCRIMINATOR the_listing getServiceListingDecoder
proof
  fix k acc v
  show "account_ok k acc \<Longrightarrow> kind_discriminator acc = SERVICE_LISTING_DISCRIMINATOR \<longleftrightarrow> the_listing acc \<noteq> None"
    by (cases acc) (auto simp: kind_simps)
  show "kit_ok k \<Longrightarrow> account_ok k acc \<Longrightarrow> the_listing acc = Some v \<Longrightarrow> getServiceListingDecoder k (account_data k acc) = Some v"
    using service_listing_roundtrip [of k _ "[]"] by (cases acc) fastforce+
qed (rule discriminator_lengths)

declare filter_matches.simps(2) [simp del]

section \<open>Fields at their offsets\<close>

lemma field_widths:
  assumes "kit_ok k"
  shows "length b = n \<Longrightarrow> length (put (kit_bytes k n) b) = n"
    and "kit_is_address k a \<Longrightarrow> length (put (kit_address k) a) = 32"
    and "i < 256 \<Longrightarrow> length (put (kit_u8 k) i) = 1"
    and "is_u64 i \<Longrightarrow> length (put (kit_u64 k) i) = 8"
    and "put (enum_codec k TaskStatus) st = [of_nat (index_of TaskStatus st)]"
  using assms index_of_nth [OF all_variants(1), of st]
  by (simp_all add: kit_ok_def fixed_width_def enum_codec_def) (simp add: variant_counts)

lemma fields_at_offsets:
  assumes k: "kit_ok k"
  shows "task_ok k t \<Longrightarrow> take 32 (drop TASK_CREATOR_OFFSET (the (getTaskEncoder k t))) = put (kit_address k) (t_creator t)"
    and "task_ok k t \<Longrightarrow> take 1 (drop TASK_STATUS_OFFSET (the (getTaskEncoder k t))) = [of_nat (index_of TaskStatus (t_status t))]"
    and "task_claim_ok k c \<Longrightarrow> take 32 (drop TASK_CLAIM_TASK_OFFSET (the (getTaskClaimEncoder k c))) = put (kit_address k) (tc_task c)"
    and "task_claim_ok k c \<Longrightarrow> take 32 (drop TASK_CLAIM_WORKER_OFFSET (the (getTaskClaimEncoder k c))) = put (kit_address k) (tc_worker c)"
    and "task_bid_ok k b \<Longrightarrow> take 32 (drop TASK_BID_TASK_OFFSET (the (getTaskBidEncoder k b))) = put (kit_address k) (tb_task b)"
    and "task_job_spec_ok k j \<Longrightarrow>
      take 32 (drop TASK_JOB_SPEC_TASK_OFFSET (the (getTaskJobSpecEncoder k j))) = put (kit_address k) (js_task j)"
    and "task_job_spec_ok k j \<Longrightarrow> take 32 (drop TASK_JOB_SPEC_HASH_OFFSET (the (getTaskJobSpecEncoder k j))) = js_jobSpecHash j"
    and "hire_record_data_ok k h \<Longrightarrow>
      take 32 (drop HIRE_RECORD_TASK_OFFSET (the (getHireRecordEncoder k h))) = put (kit_address k) (hi_task h)"
    and "completion_bond_ok k bo \<Longrightarrow>
      take 32 (drop COMPLETION_BOND_TASK_OFFSET (the (getCompletionBondEncoder k bo))) = put (kit_address k) (cb_task bo)"
    and "service_listing_ok k l \<Longrightarrow>
      take 32 (drop SERVICE_LISTING_PROVIDER_AGENT_OFFSET (the (getServiceListingEncoder k l))) = put (kit_address k) (sl_providerAgent l)"
    and "service_listing_ok k l \<Longrightarrow>
      take 32 (drop SERVICE_LISTING_AUTHORITY_OFFSET (the (getServiceListingEncoder k l))) = put (kit_address k) (sl_authority l)"
    and "service_listing_ok k l \<Longrightarrow>
      take 32 (drop SERVICE_LISTING_CATEGORY_OFFSET (the (getServiceListingEncoder k l))) = sl_category l"
  by (simp_all add: getTaskEncoder_def getTaskClaimEncoder_def getTaskBidEncoder_def
      getTaskJobSpecEncoder_def getHireRecordEncoder_def getCompletionBondEncoder_def getServiceListingEncoder_def
      task_ok_def task_claim_ok_def task_bid_ok_def task_job_spec_ok_def hire_record_data_ok_def completion_bond_ok_def
      service_listing_ok_def prefixed_string_ok field_widths [OF k] discriminator_lengths kit_bytes_put [OF k]
      TASK_CREATOR_OFFSET_def TASK_STATUS_OFFSET_def TASK_CLAIM_TASK_OFFSET_def TASK_CLAIM_WORKER_OFFSET_def
      TASK_BID_TASK_OFFSET_def TASK_JOB_SPEC_TASK_OFFSET_def TASK_JOB_SPEC_HASH_OFFSET_def HIRE_RECORD_TASK_OFFSET_def
      COMPLETION_BOND_TASK_OFFSET_def SERVICE_LISTING_PROVIDER_AGENT_OFFSET_def SERVICE_LISTING_AUTHORITY_OFFSET_def
      SERVICE_LISTING_CATEGORY_OFFSET_def)

lemma kit_address_reads:
  assumes "kit_ok k" "kit_is_address k a"
  shows "get (kit_address k) (put (kit_address k) a @ rest) = Some (a, rest)"
proof -
  have "fixed_width (kit_address k) 32 (kit_is_address k)" using assms(1) by (simp add: kit_ok_def)
  then show ?thesis using assms(2) by (simp add: fixed_width_def reads_back_def)
qed

lemma address_put_eq:
  assumes "kit_ok k" "kit_is_address k a" "kit_is_address k b"
  shows "put (kit_address k) a = put (kit_address k) b \<longleftrightarrow> a = b"
proof
  assume "put (kit_address k) a = put (kit_address k) b"
  then have "get (kit_address k) (put (kit_address k) b @ []) = Some (a, [])"
    using kit_address_reads [OF assms(1,2), of "[]"] by (simp only:)
  then have "Some (a, [] :: bytes) = Some (b, [])"
    unfolding kit_address_reads [OF assms(1,3)] by (rule sym)
  then show "a = b" by simp
qed simp

text \<open>A filter on an address compares the address.\<close>

lemma address_matches:
  assumes "kit_ok k" "kit_is_address k a" "kit_is_address k b" "take 32 (drop offset data) = put (kit_address k) b"
  shows "filter_matches data (Memcmp offset (put (kit_address k) a)) \<longleftrightarrow> b = a"
  using assms address_put_eq [OF assms(1-3)] by (auto simp: field_widths filter_matches.simps(2))

lemma address_filter_eq:
  "kit_is_address k a \<Longrightarrow> address_filter k offset a = Inr (Memcmp offset (put (kit_address k) a))"
  by (simp add: address_filter_def addressBytes_def)

lemma in_snapshot: "snapshot_ok k snap \<Longrightarrow> (a, acc) \<in> set snap \<Longrightarrow> kit_ok k \<and> account_ok k acc"
  by (auto simp: snapshot_ok_def list_all_iff)

lemma kind_iff [simp]:
  "the_task acc = Some t \<longleftrightarrow> acc = A_Task t" "the_claim acc = Some c \<longleftrightarrow> acc = A_Claim c"
  "the_bid acc = Some b \<longleftrightarrow> acc = A_Bid b" "the_job_spec acc = Some j \<longleftrightarrow> acc = A_Job_Spec j"
  "the_hire acc = Some h \<longleftrightarrow> acc = A_Hire h" "the_bond acc = Some bo \<longleftrightarrow> acc = A_Bond bo"
  "the_listing acc = Some l \<longleftrightarrow> acc = A_Listing l"
  by (cases acc; auto)+

lemma selected_mem: "(a, v) \<in> set (selected kind P snap) \<longleftrightarrow> (\<exists>acc. (a, acc) \<in> set snap \<and> kind acc = Some v \<and> P v)"
  by (induction snap) (auto split: option.splits if_splits)

lemma selected_keys: "a \<in> fst ` set (selected kind P snap) \<longleftrightarrow> (\<exists>acc v. (a, acc) \<in> set snap \<and> kind acc = Some v \<and> P v)"
  using selected_mem [of a _ kind P snap] by force

lemma selected_values: "v \<in> snd ` set (selected kind P snap) \<longleftrightarrow> (\<exists>a acc. (a, acc) \<in> set snap \<and> kind acc = Some v \<and> P v)"
  using selected_mem [of _ v kind P snap] by force

lemma selected_filter: "List.filter (\<lambda>(_, v). Q v) (selected kind P snap) = selected kind (\<lambda>v. P v \<and> Q v) snap"
  by (induction snap) (auto split: option.splits)

text \<open>The address fields of valid accounts match a filter on them exactly when they are that address.\<close>

lemma field_matches:
  assumes k: "kit_ok k" and a: "kit_is_address k a"
  shows "account_ok k (A_Task t) \<Longrightarrow>
      filter_matches (the (getTaskEncoder k t)) (Memcmp TASK_CREATOR_OFFSET (put (kit_address k) a)) \<longleftrightarrow> t_creator t = a"
    and "account_ok k (A_Claim c) \<Longrightarrow>
      filter_matches (the (getTaskClaimEncoder k c)) (Memcmp TASK_CLAIM_WORKER_OFFSET (put (kit_address k) a)) \<longleftrightarrow> tc_worker c = a"
    and "account_ok k (A_Bid b) \<Longrightarrow>
      filter_matches (the (getTaskBidEncoder k b)) (Memcmp TASK_BID_TASK_OFFSET (put (kit_address k) a)) \<longleftrightarrow> tb_task b = a"
    and "account_ok k (A_Job_Spec j) \<Longrightarrow>
      filter_matches (the (getTaskJobSpecEncoder k j)) (Memcmp TASK_JOB_SPEC_TASK_OFFSET (put (kit_address k) a)) \<longleftrightarrow> js_task j = a"
    and "account_ok k (A_Bond bo) \<Longrightarrow>
      filter_matches (the (getCompletionBondEncoder k bo)) (Memcmp COMPLETION_BOND_TASK_OFFSET (put (kit_address k) a)) \<longleftrightarrow> cb_task bo = a"
    and "account_ok k (A_Listing l) \<Longrightarrow> filter_matches (the (getServiceListingEncoder k l))
      (Memcmp SERVICE_LISTING_PROVIDER_AGENT_OFFSET (put (kit_address k) a)) \<longleftrightarrow> sl_providerAgent l = a"
  by (intro address_matches [OF k a]; simp add: fields_at_offsets [OF k];
      simp add: task_ok_def task_claim_ok_def task_bid_ok_def task_job_spec_ok_def completion_bond_ok_def service_listing_ok_def)+

lemma status_matches:
  assumes "kit_ok k" "account_ok k (A_Task t)"
  shows "filter_matches (the (getTaskEncoder k t)) (status_filter s) \<longleftrightarrow> t_status t = s"
  using fields_at_offsets(2) [OF assms(1), of t] assms(2)
  by (cases s; cases "t_status t") (simp_all add: status_filter_def filter_matches.simps(2) TaskStatus_def)

lemma category_matches:
  assumes "kit_ok k" "account_ok k (A_Listing l)" "length b = 32"
  shows "filter_matches (the (getServiceListingEncoder k l)) (Memcmp SERVICE_LISTING_CATEGORY_OFFSET b) \<longleftrightarrow> sl_category l = b"
  using fields_at_offsets(12) [OF assms(1), of l] assms(2,3) by (simp add: filter_matches.simps(2))

lemma toCategoryBytes_length: "toCategoryBytes c = Inr b \<Longrightarrow> length b = 32"
  by (auto simp: toCategoryBytes_def split: category.splits if_splits)

lemma claims_selected:
  "snapshot_ok k snap \<Longrightarrow> kit_is_address k w \<Longrightarrow>
     listClaimsForWorker k (answers k snap) w = Inr (selected the_claim (\<lambda>c. tc_worker c = w) snap)"
  unfolding listClaimsForWorker_def address_filter_eq bind_res_simps
  by (rule claim_kind.fetched_by) (auto simp: field_matches)

lemma bids_selected:
  "snapshot_ok k snap \<Longrightarrow> kit_is_address k task \<Longrightarrow>
     bidsByTask k (answers k snap) task = Inr (selected the_bid (\<lambda>b. tb_task b = task) snap)"
  unfolding bidsByTask_def address_filter_eq bind_res_simps
  by (rule bid_kind.fetched_by) (auto simp: field_matches)

lemma provider_listings_selected:
  "snapshot_ok k snap \<Longrightarrow> kit_is_address k p \<Longrightarrow>
     listingsByProvider k (answers k snap) p = Inr (selected the_listing (\<lambda>l. sl_providerAgent l = p) snap)"
  unfolding listingsByProvider_def address_filter_eq bind_res_simps
  by (rule listing_kind.fetched_by) (auto simp: field_matches)

section \<open>The helpers\<close>

text \<open>What a task query asks for.\<close>

definition task_wanted :: "task_options \<Rightarrow> task \<Rightarrow> bool" where
  "task_wanted options t \<longleftrightarrow>
     (\<forall>c. to_creator options = Some c \<longrightarrow> t_creator t = c) \<and>
     (\<forall>caps. to_capabilities options = Some caps \<longrightarrow> superset_of caps (t_requiredCapabilities t)) \<and>
     (\<forall>m. to_minReward options = Some m \<longrightarrow> m \<le> int (t_rewardAmount t))"

definition options_ok :: "kit \<Rightarrow> task_options \<Rightarrow> bool" where
  "options_ok k options \<longleftrightarrow> pred_option (kit_is_address k) (to_creator options)"

definition listing_wanted :: "listing_options \<Rightarrow> service_listing \<Rightarrow> bool" where
  "listing_wanted options l \<longleftrightarrow>
     (\<forall>p. lo_provider options = Some p \<longrightarrow> sl_providerAgent l = p) \<and>
     (\<forall>c. lo_category options = Some c \<longrightarrow> toCategoryBytes c = Inr (sl_category l)) \<and>
     sl_state l = (case lo_state options of None \<Rightarrow> LActive | Some s \<Rightarrow> s)"

definition listing_options_ok :: "kit \<Rightarrow> listing_options \<Rightarrow> bool" where
  "listing_options_ok k options \<longleftrightarrow> pred_option (kit_is_address k) (lo_provider options) \<and>
     (\<forall>c. lo_category options = Some c \<longrightarrow> (\<exists>b. toCategoryBytes c = Inr b))"

lemma refine_selected:
  "refine_tasks options (selected kind P snap) = selected kind (\<lambda>t. P t \<and>
     (\<forall>caps. to_capabilities options = Some caps \<longrightarrow> superset_of caps (t_requiredCapabilities t)) \<and>
     (\<forall>m. to_minReward options = Some m \<longrightarrow> m \<le> int (t_rewardAmount t))) snap"
  by (cases "to_capabilities options"; cases "to_minReward options")
    (simp_all add: refine_tasks_def selected_filter conj_assoc)

text \<open>Scanning the tasks with the filters of a creator, if any, and a status.\<close>

lemma creator_filters:
  assumes "options_ok k options"
  obtains fs where "optional_filter (address_filter k TASK_CREATOR_OFFSET) (to_creator options) = Inr fs"
    "\<And>t. kit_ok k \<Longrightarrow> account_ok k (A_Task t) \<Longrightarrow>
       list_all (filter_matches (the (getTaskEncoder k t))) fs \<longleftrightarrow> (\<forall>c. to_creator options = Some c \<longrightarrow> t_creator t = c)"
proof (cases "to_creator options")
  case None
  then show thesis by (intro that [of "[]"]) (simp_all add: optional_filter_def)
next
  case (Some c)
  then have c: "kit_is_address k c" using assms by (simp add: options_ok_def)
  show thesis
    using field_matches(1) [OF _ c] Some
    by (intro that [of "[Memcmp TASK_CREATOR_OFFSET (put (kit_address k) c)]"])
      (simp_all add: optional_filter_def address_filter_eq [OF c])
qed

lemma open_tasks_selected:
  assumes snap: "snapshot_ok k snap" and options: "options_ok k options"
  shows "listOpenTasks k (answers k snap) options =
    Inr (selected the_task (\<lambda>t. t_status t = TOpen \<and> task_wanted options t) snap)"
proof -
  obtain fs where fs: "optional_filter (address_filter k TASK_CREATOR_OFFSET) (to_creator options) = Inr fs"
    "\<And>t. kit_ok k \<Longrightarrow> account_ok k (A_Task t) \<Longrightarrow>
       list_all (filter_matches (the (getTaskEncoder k t))) fs \<longleftrightarrow> (\<forall>c. to_creator options = Some c \<longrightarrow> t_creator t = c)"
    using creator_filters [OF options] by blast
  have "fetchDecoded (answers k snap) (discriminatorFilter TASK_DISCRIMINATOR # status_filter TOpen # fs) (getTaskDecoder k)
    = Inr (selected the_task (\<lambda>t. t_status t = TOpen \<and> (\<forall>c. to_creator options = Some c \<longrightarrow> t_creator t = c)) snap)"
  proof (rule task_kind.fetched [OF snap])
    fix a acc v
    assume "(a, acc) \<in> set snap" "the_task acc = Some v"
    with in_snapshot [OF snap, of a acc] have "acc = A_Task v" "kit_ok k" "account_ok k (A_Task v)" by auto
    then show "list_all (filter_matches (account_data k acc)) (status_filter TOpen # fs) \<longleftrightarrow>
        t_status v = TOpen \<and> (\<forall>c. to_creator options = Some c \<longrightarrow> t_creator v = c)"
      using fs(2) by (simp add: status_matches)
  qed
  then show ?thesis
    by (simp add: listOpenTasks_def fs(1) refine_selected task_wanted_def conj_assoc)
qed

lemma listings_selected:
  assumes snap: "snapshot_ok k snap" and options: "listing_options_ok k options"
  shows "listActiveListings k (answers k snap) options = Inr (selected the_listing (listing_wanted options) snap)"
proof -
  obtain ps where ps: "optional_filter (address_filter k SERVICE_LISTING_PROVIDER_AGENT_OFFSET) (lo_provider options) = Inr ps"
    "\<And>l. kit_ok k \<Longrightarrow> account_ok k (A_Listing l) \<Longrightarrow>
       list_all (filter_matches (the (getServiceListingEncoder k l))) ps \<longleftrightarrow> (\<forall>p. lo_provider options = Some p \<longrightarrow> sl_providerAgent l = p)"
  proof (cases "lo_provider options")
    case None
    then show thesis by (intro that [of "[]"]) (simp_all add: optional_filter_def)
  next
    case (Some p)
    then have p: "kit_is_address k p" using options by (simp add: listing_options_ok_def)
    show thesis
      using field_matches(6) [OF _ p] Some
      by (intro that [of "[Memcmp SERVICE_LISTING_PROVIDER_AGENT_OFFSET (put (kit_address k) p)]"])
        (simp_all add: optional_filter_def address_filter_eq [OF p])
  qed
  obtain cs where cs: "optional_filter (\<lambda>c. bind_res (toCategoryBytes c) (\<lambda>b. Inr (Memcmp SERVICE_LISTING_CATEGORY_OFFSET b)))
      (lo_category options) = Inr cs"
    "\<And>l. kit_ok k \<Longrightarrow> account_ok k (A_Listing l) \<Longrightarrow>
       list_all (filter_matches (the (getServiceListingEncoder k l))) cs \<longleftrightarrow>
       (\<forall>c. lo_category options = Some c \<longrightarrow> toCategoryBytes c = Inr (sl_category l))"
  proof (cases "lo_category options")
    case None
    then show thesis by (intro that [of "[]"]) (simp_all add: optional_filter_def)
  next
    case (Some c)
    then obtain b where b: "toCategoryBytes c = Inr b" using options by (auto simp: listing_options_ok_def)
    show thesis
      using category_matches [OF _ _ toCategoryBytes_length [OF b]] Some
      by (intro that [of "[Memcmp SERVICE_LISTING_CATEGORY_OFFSET b]"]) (auto simp: optional_filter_def b)
  qed
  have "fetchDecoded (answers k snap) (discriminatorFilter SERVICE_LISTING_DISCRIMINATOR # ps @ cs) (getServiceListingDecoder k)
    = Inr (selected the_listing (\<lambda>l. (\<forall>p. lo_provider options = Some p \<longrightarrow> sl_providerAgent l = p) \<and>
        (\<forall>c. lo_category options = Some c \<longrightarrow> toCategoryBytes c = Inr (sl_category l))) snap)"
  proof (rule listing_kind.fetched [OF snap])
    fix a acc v
    assume "(a, acc) \<in> set snap" "the_listing acc = Some v"
    with in_snapshot [OF snap, of a acc] have "acc = A_Listing v" "kit_ok k" "account_ok k (A_Listing v)" by auto
    then show "list_all (filter_matches (account_data k acc)) (ps @ cs) \<longleftrightarrow>
        (\<forall>p. lo_provider options = Some p \<longrightarrow> sl_providerAgent v = p) \<and>
        (\<forall>c. lo_category options = Some c \<longrightarrow> toCategoryBytes c = Inr (sl_category v))"
      using ps(2) cs(2) by simp
  qed
  then show ?thesis
    by (simp add: listActiveListings_def ps(1) cs(1) selected_filter listing_wanted_def [abs_def] conj_assoc)
qed

lemma guarantee_selected:
  assumes "snapshot_ok k snap" "kit_is_address k task"
  defines "bonds \<equiv> selected the_bond (\<lambda>b. cb_task b = task) snap"
  shows "fetchTaskGuarantee k (answers k snap) task = Inr
    \<lparr>tg_guaranteed = list_ex (\<lambda>(_, b). cb_role b = COMPLETION_BOND_ROLE_WORKER) bonds,
     tg_workerBond = List.find (\<lambda>(_, b). cb_role b = COMPLETION_BOND_ROLE_WORKER) bonds,
     tg_creatorBond = List.find (\<lambda>(_, b). cb_role b = COMPLETION_BOND_ROLE_CREATOR) bonds\<rparr>"
proof -
  have "fetchDecoded (answers k snap) [discriminatorFilter COMPLETION_BOND_DISCRIMINATOR,
      Memcmp COMPLETION_BOND_TASK_OFFSET (put (kit_address k) task)] (getCompletionBondDecoder k) = Inr bonds"
    unfolding bonds_def by (rule bond_kind.fetched_by [OF assms(1)])
      (auto simp: field_matches(5) [OF _ assms(2)])
  moreover have "(List.find P bonds \<noteq> None) = list_ex P bonds" for P
    by (auto simp: find_None_iff list_ex_iff)
  ultimately show ?thesis
    by (simp add: fetchTaskGuarantee_def address_filter_eq [OF assms(2)])
qed

lemma hires_selected:
  assumes "snapshot_ok k snap1" "snapshot_ok k snap2" "kit_is_address k buyer"
  shows "listHireRecordsForBuyer k (answers k snap1) (answers k snap2) buyer =
    Inr (selected the_hire (\<lambda>h. \<exists>t. (hi_task h, A_Task t) \<in> set snap1 \<and> t_creator t = buyer) snap2)"
proof -
  have "fetchDecoded (answers k snap1) [discriminatorFilter TASK_DISCRIMINATOR,
      Memcmp TASK_CREATOR_OFFSET (put (kit_address k) buyer)] (getTaskDecoder k)
    = Inr (selected the_task (\<lambda>t. t_creator t = buyer) snap1)"
    by (rule task_kind.fetched_by [OF assms(1)]) (auto simp: field_matches(1) [OF _ assms(3)])
  moreover have "fetchDecoded (answers k snap2) [discriminatorFilter HIRE_RECORD_DISCRIMINATOR] (getHireRecordDecoder k)
    = Inr (selected the_hire (\<lambda>_. True) snap2)"
    by (rule hire_kind.fetched [OF assms(2)]) simp
  moreover have "a \<in> set (map fst (selected the_task (\<lambda>t. t_creator t = buyer) snap1)) \<longleftrightarrow>
      (\<exists>t. (a, A_Task t) \<in> set snap1 \<and> t_creator t = buyer)" for a
    by (auto simp: selected_keys)
  ultimately show ?thesis
    by (simp add: listHireRecordsForBuyer_def address_filter_eq [OF assms(3)] selected_filter)
qed

lemma pins_selected:
  assumes "snapshot_ok k snap"
  shows "listPinnedJobSpecTasks k (answers k snap) =
      Inr {js_task j | a j. (a, A_Job_Spec j) \<in> set snap \<and> pin_valid j}"
    and "kit_is_address k task \<Longrightarrow> isTaskJobSpecPinned k (answers k snap) task =
      Inr (\<exists>a j. (a, A_Job_Spec j) \<in> set snap \<and> js_task j = task \<and> pin_valid j)"
proof -
  have "fetchDecoded (answers k snap) [discriminatorFilter TASK_JOB_SPEC_DISCRIMINATOR] (getTaskJobSpecDecoder k)
    = Inr (selected the_job_spec (\<lambda>_. True) snap)"
    by (rule job_spec_kind.fetched [OF assms]) simp
  moreover have "js_task ` {j \<in> snd ` set (selected the_job_spec (\<lambda>_. True) snap). pin_valid j}
    = {js_task j | a j. (a, A_Job_Spec j) \<in> set snap \<and> pin_valid j}"
    unfolding selected_values by auto
  ultimately show "listPinnedJobSpecTasks k (answers k snap) =
      Inr {js_task j | a j. (a, A_Job_Spec j) \<in> set snap \<and> pin_valid j}"
    by (simp add: listPinnedJobSpecTasks_def fetchTaskJobSpecsForPinValidation_def set_map set_filter del: image_Collect)
  assume task: "kit_is_address k task"
  have "fetchDecoded (answers k snap) [discriminatorFilter TASK_JOB_SPEC_DISCRIMINATOR,
      Memcmp TASK_JOB_SPEC_TASK_OFFSET (put (kit_address k) task)] (getTaskJobSpecDecoder k)
    = Inr (selected the_job_spec (\<lambda>j. js_task j = task) snap)"
    by (rule job_spec_kind.fetched_by [OF assms]) (auto simp: field_matches(4) [OF _ task])
  moreover have "list_ex pin_valid (map snd (selected the_job_spec (\<lambda>j. js_task j = task) snap))
    \<longleftrightarrow> (\<exists>j \<in> snd ` set (selected the_job_spec (\<lambda>j. js_task j = task) snap). pin_valid j)"
    by (simp add: list_ex_iff)
  moreover have "\<dots> \<longleftrightarrow> (\<exists>a j. (a, A_Job_Spec j) \<in> set snap \<and> js_task j = task \<and> pin_valid j)"
    unfolding Bex_def selected_values by auto
  ultimately show "isTaskJobSpecPinned k (answers k snap) task =
      Inr (\<exists>a j. (a, A_Job_Spec j) \<in> set snap \<and> js_task j = task \<and> pin_valid j)"
    by (simp add: isTaskJobSpecPinned_def fetchTaskJobSpecsForPinValidation_def address_filter_eq [OF task])
qed

section \<open>Direct claims\<close>

lemma map_of_map_set: "map_of (map_set a v xs) = (map_of xs)(a \<mapsto> v)"
  by (induction xs) (auto simp: fun_eq_iff)

lemma keys_map_set: "distinct (map fst xs) \<Longrightarrow> distinct (map fst (map_set a v xs)) \<and>
    set (map fst (map_set a v xs)) = insert a (set (map fst xs))"
  by (induction xs) auto

lemma fold_map_set:
  "distinct (map fst ys) \<Longrightarrow> map_of (fold (\<lambda>(a, v). map_set a v) ys xs) = map_of xs ++ map_of ys"
proof (induction ys arbitrary: xs)
  case (Cons y ys)
  obtain a v where y: "y = (a, v)" by (cases y)
  with Cons.prems have "a \<notin> dom (map_of ys)" by (simp add: dom_map_of_conv_image_fst)
  then show ?case using Cons by (simp add: y map_of_map_set map_add_upd_left) (simp add: map_add_def fun_eq_iff)
qed simp

lemma fold_map_set_distinct:
  "distinct (map fst xs) \<Longrightarrow> distinct (map fst (fold (\<lambda>(a, v). map_set a v) ys xs))"
  by (induction ys arbitrary: xs) (auto simp: keys_map_set)

lemma selected_distinct: "distinct (map fst snap) \<Longrightarrow> distinct (map fst (selected kind P snap))"
proof (induction snap)
  case (Cons x snap)
  obtain a acc where x: "x = (a, acc)" by (cases x)
  have "a \<notin> fst ` set (selected kind P snap)"
    unfolding selected_keys using Cons.prems by (force simp: x)
  then show ?case using Cons by (simp add: x split: option.splits)
qed simp

text \<open>The tasks of a creator with a status in one scan, and the last scan that saw a task.\<close>

definition seen_with :: "task_options \<Rightarrow> (task_status \<Rightarrow> snapshot) \<Rightarrow> task_status \<Rightarrow> string \<rightharpoonup> task" where
  "seen_with options snaps s = map_of (selected the_task
     (\<lambda>t. t_status t = s \<and> (\<forall>c. to_creator options = Some c \<longrightarrow> t_creator t = c)) (snaps s))"

definition last_seen :: "task_options \<Rightarrow> (task_status \<Rightarrow> snapshot) \<Rightarrow> string \<rightharpoonup> task" where
  "last_seen options snaps =
     seen_with options snaps TOpen ++ seen_with options snaps TInProgress ++ seen_with options snaps TPendingValidation"

lemma status_scan:
  assumes snap: "snapshot_ok k snap" and fs: "\<And>t. kit_ok k \<Longrightarrow> account_ok k (A_Task t) \<Longrightarrow>
       list_all (filter_matches (the (getTaskEncoder k t))) fs \<longleftrightarrow> C t"
  shows "fetchDecoded (answers k snap) (discriminatorFilter TASK_DISCRIMINATOR # fs @ [status_filter s]) (getTaskDecoder k)
    = Inr (selected the_task (\<lambda>t. t_status t = s \<and> C t) snap)"
proof (rule task_kind.fetched [OF snap])
  fix a acc v
  assume "(a, acc) \<in> set snap" "the_task acc = Some v"
  with in_snapshot [OF snap, of a acc] have "acc = A_Task v" "kit_ok k" "account_ok k (A_Task v)" by auto
  then show "list_all (filter_matches (account_data k acc)) (fs @ [status_filter s]) \<longleftrightarrow> t_status v = s \<and> C v"
    using fs by (auto simp: status_matches)
qed

definition direct_safety :: "direct_options \<Rightarrow> int" where
  "direct_safety options = (case do_deadlineSafetySeconds options of
      None \<Rightarrow> DEFAULT_DIRECT_CLAIM_DEADLINE_SAFETY_SECONDS | Some s \<Rightarrow> s)"

text \<open>The time the deadlines are compared with.\<close>

definition direct_now :: "direct_options \<Rightarrow> int \<Rightarrow> int" where
  "direct_now options clock =
     (case do_nowUnixTimestamp options of None \<Rightarrow> clock | Some t \<Rightarrow> t) + direct_safety options"

lemma direct_candidates:
  fixes options :: direct_options
  assumes snaps: "\<And>s. snapshot_ok k (snaps s)" "\<And>s. distinct (map fst (snaps s))"
    and options: "options_ok k (task_options.truncate options)"
    and safety: "0 \<le> direct_safety options"
  shows "\<exists>out. listDirectClaimableTasks k (\<lambda>s. answers k (snaps s)) clock options = Inr out \<and> distinct (map fst out) \<and>
    (\<forall>a t. (a, t) \<in> set out \<longleftrightarrow> last_seen (task_options.truncate options) snaps a = Some t \<and>
       task_wanted (task_options.truncate options) t \<and> isTaskStateDirectlyClaimable t (direct_now options clock))"
proof -
  let ?o = "task_options.truncate options"
  have creator: "to_creator ?o = to_creator options" by (simp add: task_options.truncate_def)
  obtain fs where fs: "optional_filter (address_filter k TASK_CREATOR_OFFSET) (to_creator options) = Inr fs"
    "\<And>t. kit_ok k \<Longrightarrow> account_ok k (A_Task t) \<Longrightarrow>
       list_all (filter_matches (the (getTaskEncoder k t))) fs \<longleftrightarrow> (\<forall>c. to_creator ?o = Some c \<longrightarrow> t_creator t = c)"
    using creator_filters [OF options] creator by metis
  define group where "group s = selected the_task
    (\<lambda>t. t_status t = s \<and> (\<forall>c. to_creator ?o = Some c \<longrightarrow> t_creator t = c)) (snaps s)" for s
  have fetched: "fetchDecoded (answers k (snaps s)) (discriminatorFilter TASK_DISCRIMINATOR # fs @ [status_filter s])
      (getTaskDecoder k) = Inr (group s)" for s
    unfolding group_def by (rule status_scan [OF snaps(1) fs(2)])
  let ?add = "\<lambda>g. fold (\<lambda>(address, account). map_set address account) g"
  define latest where "latest = ?add (group TPendingValidation) (?add (group TInProgress) (?add (group TOpen) []))"
  have distinct: "distinct (map fst (group s))" for s
    unfolding group_def by (rule selected_distinct [OF snaps(2)])
  have "last_seen ?o snaps = map_of (group TOpen) ++ map_of (group TInProgress) ++ map_of (group TPendingValidation)"
    by (simp add: last_seen_def seen_with_def group_def)
  then have map: "map_of latest = last_seen ?o snaps"
    by (simp add: latest_def fold_map_set distinct)
  have latest: "distinct (map fst latest)"
    by (simp add: latest_def fold_map_set_distinct)
  define out where "out = refine_tasks ?o (List.filter (\<lambda>(_, account). isTaskStateDirectlyClaimable account (direct_now options clock)) latest)"
  have "listDirectClaimableTasks k (\<lambda>s. answers k (snaps s)) clock options = Inr out"
    using safety
    by (simp add: listDirectClaimableTasks_def fs(1) fetched out_def latest_def Let_def direct_now_def direct_safety_def)
  moreover have "distinct (map fst out)"
    using latest by (auto simp: out_def refine_tasks_def Let_def distinct_map_filter split: option.splits)
  moreover have "(a, t) \<in> set out \<longleftrightarrow> last_seen ?o snaps a = Some t \<and> task_wanted ?o t \<and> isTaskStateDirectlyClaimable t (direct_now options clock)" for a t
  proof -
    have "t_creator t = c" if "last_seen ?o snaps a = Some t" "to_creator ?o = Some c" for c
      using that by (auto simp: last_seen_def seen_with_def map_add_Some_iff selected_mem dest!: map_of_SomeD)
    moreover have "(a, t) \<in> set latest \<longleftrightarrow> last_seen ?o snaps a = Some t"
      using map_of_eq_Some_iff [OF latest] map by metis
    ultimately show ?thesis
      by (auto simp: out_def refine_tasks_def Let_def task_wanted_def split: option.splits)
  qed
  ultimately show ?thesis by blast
qed

text \<open>If the chain does not change between the scans, they see every task with one of the three statuses.\<close>

lemma last_seen_stable:
  assumes "distinct (map fst snap)"
  shows "last_seen options (\<lambda>_. snap) a = Some t \<longleftrightarrow> (a, A_Task t) \<in> set snap \<and>
     t_status t \<in> {TOpen, TInProgress, TPendingValidation} \<and> (\<forall>c. to_creator options = Some c \<longrightarrow> t_creator t = c)"
proof -
  have one: "seen_with options (\<lambda>_. snap) s a = Some u \<longleftrightarrow> (a, A_Task u) \<in> set snap \<and> t_status u = s \<and>
      (\<forall>c. to_creator options = Some c \<longrightarrow> t_creator u = c)" for s u
    unfolding seen_with_def map_of_eq_Some_iff [OF selected_distinct [OF assms]] selected_mem by auto
  have unique: "u = v" if "(a, A_Task u) \<in> set snap" "(a, A_Task v) \<in> set snap" for u v
    using eq_key_imp_eq_value [OF assms that] by simp
  have none: "seen_with options (\<lambda>_. snap) s a = None" if "(a, A_Task t) \<in> set snap" "t_status t \<noteq> s" for s
    using one [of s] unique [OF that(1)] that(2) by (cases "seen_with options (\<lambda>_. snap) s a") auto
  show ?thesis
  proof
    assume "last_seen options (\<lambda>_. snap) a = Some t"
    then show "(a, A_Task t) \<in> set snap \<and> t_status t \<in> {TOpen, TInProgress, TPendingValidation} \<and>
        (\<forall>c. to_creator options = Some c \<longrightarrow> t_creator t = c)"
      by (auto simp: last_seen_def map_add_Some_iff one)
  next
    assume t: "(a, A_Task t) \<in> set snap \<and> t_status t \<in> {TOpen, TInProgress, TPendingValidation} \<and>
        (\<forall>c. to_creator options = Some c \<longrightarrow> t_creator t = c)"
    then have "seen_with options (\<lambda>_. snap) (t_status t) a = Some t" by (simp add: one)
    then show "last_seen options (\<lambda>_. snap) a = Some t"
      using t none by (auto simp: last_seen_def map_add_Some_iff)
  qed
qed

lemma claimable_status: "isTaskStateDirectlyClaimable t now \<Longrightarrow> t_status t \<in> {TOpen, TInProgress, TPendingValidation}"
  by (auto simp: isTaskStateDirectlyClaimable_def Let_def split: if_splits)

section \<open>The properties\<close>

text \<open>C20: over a transport that evaluates the filters on the account bytes, every query helper returns exactly the
  accounts of its kind that the query asks for, decoded, with their addresses and in the order of the chain:
  the byte offsets it filters on are those of the fields, and no account of another kind is taken for one.\<close>

theorem queries_exact:
  assumes "snapshot_ok k snap" "kit_is_address k x" "options_ok k task_query" "listing_options_ok k listing_query"
  shows "listActiveListings k (answers k snap) listing_query = Inr (selected the_listing (listing_wanted listing_query) snap)
   \<and> listingsByProvider k (answers k snap) x = Inr (selected the_listing (\<lambda>l. sl_providerAgent l = x) snap)
   \<and> listOpenTasks k (answers k snap) task_query =
       Inr (selected the_task (\<lambda>t. t_status t = TOpen \<and> task_wanted task_query t) snap)
   \<and> listClaimsForWorker k (answers k snap) x = Inr (selected the_claim (\<lambda>c. tc_worker c = x) snap)
   \<and> bidsByTask k (answers k snap) x = Inr (selected the_bid (\<lambda>b. tb_task b = x) snap)
   \<and> listHireRecordsForBuyer k (answers k snap) (answers k snap) x =
       Inr (selected the_hire (\<lambda>h. \<exists>t. (hi_task h, A_Task t) \<in> set snap \<and> t_creator t = x) snap)
   \<and> listPinnedJobSpecTasks k (answers k snap) = Inr {js_task j | a j. (a, A_Job_Spec j) \<in> set snap \<and> pin_valid j}
   \<and> isTaskJobSpecPinned k (answers k snap) x = Inr (\<exists>a j. (a, A_Job_Spec j) \<in> set snap \<and> js_task j = x \<and> pin_valid j)
   \<and> (\<exists>g. fetchTaskGuarantee k (answers k snap) x = Inr g \<and> (tg_guaranteed g \<longleftrightarrow>
       (\<exists>a b. (a, A_Bond b) \<in> set snap \<and> cb_task b = x \<and> cb_role b = COMPLETION_BOND_ROLE_WORKER)))"
proof -
  have "list_ex (\<lambda>(_, b). cb_role b = COMPLETION_BOND_ROLE_WORKER) (selected the_bond (\<lambda>b. cb_task b = x) snap) \<longleftrightarrow>
      (\<exists>a b. (a, A_Bond b) \<in> set snap \<and> cb_task b = x \<and> cb_role b = COMPLETION_BOND_ROLE_WORKER)"
    by (auto simp: list_ex_iff Bex_def selected_mem)
  then show ?thesis
    using assms by (simp add: listings_selected provider_listings_selected open_tasks_selected claims_selected
        bids_selected hires_selected pins_selected guarantee_selected)
qed

text \<open>C21: the claim candidates.  Whatever changes between the three scans, \<open>listDirectClaimableTasks\<close> returns each
  task at most once, as the last scan saw it, and exactly those that are wanted and that pass the claim
  predicate at the given time plus the safety margin.  If nothing changes, these are exactly the tasks on the
  chain that are wanted and pass it.\<close>

theorem direct_candidates_exact:
  fixes options :: direct_options
  assumes "\<And>s. snapshot_ok k (snaps s)" "\<And>s. distinct (map fst (snaps s))"
    and "options_ok k (task_options.truncate options)" "0 \<le> direct_safety options"
  shows "\<exists>out. listDirectClaimableTasks k (\<lambda>s. answers k (snaps s)) clock options = Inr out \<and> distinct (map fst out) \<and>
    (\<forall>a t. (a, t) \<in> set out \<longleftrightarrow> last_seen (task_options.truncate options) snaps a = Some t \<and>
       task_wanted (task_options.truncate options) t \<and> isTaskStateDirectlyClaimable t (direct_now options clock)) \<and>
    (\<forall>snap. snaps = (\<lambda>_. snap) \<longrightarrow> (\<forall>a t. (a, t) \<in> set out \<longleftrightarrow> (a, A_Task t) \<in> set snap \<and>
       task_wanted (task_options.truncate options) t \<and> isTaskStateDirectlyClaimable t (direct_now options clock)))"
proof -
  let ?o = "task_options.truncate options" and ?now = "direct_now options clock"
  obtain out where out: "listDirectClaimableTasks k (\<lambda>s. answers k (snaps s)) clock options = Inr out"
    "distinct (map fst out)" "\<And>a t. (a, t) \<in> set out \<longleftrightarrow> last_seen ?o snaps a = Some t \<and> task_wanted ?o t \<and>
       isTaskStateDirectlyClaimable t ?now"
    using direct_candidates [where clock = clock and snaps = snaps and k = k, OF assms] by blast
  have "(a, t) \<in> set out \<longleftrightarrow> (a, A_Task t) \<in> set snap \<and> task_wanted ?o t \<and> isTaskStateDirectlyClaimable t ?now"
    if "snaps = (\<lambda>_. snap)" for snap a t
    using assms(2) claimable_status [of t ?now]
    by (auto simp: out(3) that last_seen_stable task_wanted_def)
  with out show ?thesis by blast
qed

section \<open>A sample chain\<close>

definition sample_snapshot :: snapshot where
  "sample_snapshot = [(replicate 32 CHR ''t'', A_Task sample_task), (replicate 32 CHR ''j'', A_Job_Spec sample_job_spec),
     (replicate 32 CHR ''x'', A_Other [1, 2, 3])]"

lemma sample_snapshot_ok: "snapshot_ok sample_kit sample_snapshot"
  using sample_kit_ok sample_task_ok sample_job_spec_ok
  by (simp add: snapshot_ok_def sample_snapshot_def kind_simps)
    (simp add: sample_task_def sample_job_spec_def kind_simps)

theorem queries_exact_witness:
  "listOpenTasks sample_kit (answers sample_kit sample_snapshot)
     \<lparr>to_capabilities = Some 7, to_minReward = None, to_creator = Some (replicate 32 CHR ''c'')\<rparr>
     = Inr [(replicate 32 CHR ''t'', sample_task)]
   \<and> isTaskJobSpecPinned sample_kit (answers sample_kit sample_snapshot) (replicate 32 CHR ''t'')
     = Inr (pin_valid sample_job_spec)"
proof -
  have addr: "kit_is_address sample_kit (replicate 32 CHR ''t'')" "kit_is_address sample_kit (replicate 32 CHR ''c'')"
    by (simp_all add: sample_kit_def)
  have sample: "t_status sample_task = TOpen" "t_creator sample_task = replicate 32 CHR ''c''"
    "t_requiredCapabilities sample_task = 3" "js_task sample_job_spec = replicate 32 CHR ''t''"
    by (simp_all add: sample_task_def sample_job_spec_def)
  have "options_ok sample_kit \<lparr>to_capabilities = Some 7, to_minReward = None, to_creator = Some (replicate 32 CHR ''c'')\<rparr>"
    "listing_options_ok sample_kit \<lparr>lo_provider = None, lo_category = None, lo_state = None\<rparr>"
    using addr(2) by (simp_all add: options_ok_def listing_options_ok_def)
  note exact = queries_exact [OF sample_snapshot_ok addr(1) this]
  have "task_wanted \<lparr>to_capabilities = Some 7, to_minReward = None, to_creator = Some (replicate 32 CHR ''c'')\<rparr> sample_task"
    by (simp add: task_wanted_def sample superset_of_def)
  then show ?thesis
    using exact by (simp add: sample_snapshot_def sample)
qed

theorem direct_candidates_exact_witness:
  "\<exists>out. listDirectClaimableTasks sample_kit (\<lambda>_. answers sample_kit sample_snapshot) 1700000100
      \<lparr>to_capabilities = None, to_minReward = None, to_creator = None, do_nowUnixTimestamp = None,
        do_deadlineSafetySeconds = None\<rparr> = Inr out \<and> set out = {(replicate 32 CHR ''t'', sample_task)}"
proof -
  let ?options = "\<lparr>to_capabilities = None, to_minReward = None, to_creator = None, do_nowUnixTimestamp = None,
    do_deadlineSafetySeconds = None\<rparr> :: direct_options"
  have options: "options_ok sample_kit (task_options.truncate ?options)" "0 \<le> direct_safety ?options"
    by (simp_all add: options_ok_def task_options.truncate_def direct_safety_def
        DEFAULT_DIRECT_CLAIM_DEADLINE_SAFETY_SECONDS_def)
  have claimable: "isTaskStateDirectlyClaimable sample_task (direct_now ?options 1700000100)"
    by (simp add: isTaskStateDirectlyClaimable_def sample_task_def direct_now_def direct_safety_def
        DEFAULT_DIRECT_CLAIM_DEADLINE_SAFETY_SECONDS_def DISPUTE_SAFE_MAX_WORKERS_def)
  have "distinct (map fst sample_snapshot)" by (simp add: sample_snapshot_def)
  then obtain out where "listDirectClaimableTasks sample_kit (\<lambda>_. answers sample_kit sample_snapshot) 1700000100 ?options = Inr out"
    "\<And>a t. (a, t) \<in> set out \<longleftrightarrow> (a, A_Task t) \<in> set sample_snapshot \<and> task_wanted (task_options.truncate ?options) t \<and>
       isTaskStateDirectlyClaimable t (direct_now ?options 1700000100)"
    using direct_candidates_exact [of sample_kit "\<lambda>_. sample_snapshot" ?options 1700000100, OF sample_snapshot_ok _ options] by auto
  moreover have "task_wanted (task_options.truncate ?options) sample_task"
    by (simp add: task_wanted_def task_options.truncate_def)
  ultimately show ?thesis
    using claimable by (intro exI [of _ out]) (auto simp: sample_snapshot_def)
qed

end
