(* ===== verification/Watch.thy ===== *)
theory Watch
  imports Queries
begin

unbundle bit_operations_syntax

text \<open>
  Watching for claimable tasks (\<open>watch/watch.ts\<close>): the options, the reads, the bounded set of tasks already
  surfaced, and the two producers that feed one stream, an event path and a periodic sweep.
\<close>

section \<open>Options\<close>

definition MAX_TIMER_MS :: int where "MAX_TIMER_MS = 2147483647"
definition MAX_SAFE_INTEGER :: int where "MAX_SAFE_INTEGER = 9007199254740991"

definition is_safe_integer :: "int \<Rightarrow> bool" where
  "is_safe_integer n \<longleftrightarrow> \<bar>n\<bar> \<le> MAX_SAFE_INTEGER"

text \<open>The transports given: an event client, an RPC that may serve account scans, an indexer.\<close>

record watch_options =
  wo_subscriptions :: bool
  wo_rpc :: "bool option"
  wo_indexer :: bool
  wo_pollIntervalMs :: "int option"
  wo_maxSeen :: "int option"
  wo_maxQueue :: "int option"
  wo_maxBackoffMs :: "int option"
  wo_operationTimeoutMs :: "int option"
  wo_deadlineSafetySeconds :: "int option"

record watch_config =
  wc_pollIntervalMs :: int
  wc_maxSeen :: int
  wc_maxQueue :: int
  wc_maxBackoffMs :: int
  wc_operationTimeoutMs :: int
  wc_deadlineSafetySeconds :: int

definition default_to :: "'a \<Rightarrow> 'a option \<Rightarrow> 'a" where
  "default_to d v = (case v of None \<Rightarrow> d | Some x \<Rightarrow> x)"

definition watch_config :: "watch_options \<Rightarrow> watch_config res" where
  "watch_config options =
     (let pollIntervalMs = default_to 5000 (wo_pollIntervalMs options);
          maxSeen = default_to 10000 (wo_maxSeen options);
          maxQueue = default_to 1000 (wo_maxQueue options);
          maxBackoffMs = default_to (max 30000 pollIntervalMs) (wo_maxBackoffMs options);
          operationTimeoutMs = default_to 30000 (wo_operationTimeoutMs options);
          safety = default_to DEFAULT_DIRECT_CLAIM_DEADLINE_SAFETY_SECONDS (wo_deadlineSafetySeconds options) in
      if \<not> wo_subscriptions options \<and> wo_rpc options = None \<and> \<not> wo_indexer options
      then Inl (PlainError ''watchClaimableTasks: provide at least one transport'')
      else if \<not> is_safe_integer maxSeen \<or> maxSeen < 1
      then Inl (PlainError ''watchClaimableTasks: maxSeen must be a positive integer within the safe range'')
      else if \<not> is_safe_integer maxQueue \<or> maxQueue < 1
      then Inl (PlainError ''watchClaimableTasks: maxQueue must be a positive safe integer'')
      else if \<not> is_safe_integer pollIntervalMs \<or> pollIntervalMs < 1 \<or> pollIntervalMs > MAX_TIMER_MS
      then Inl (PlainError ''watchClaimableTasks: pollIntervalMs must be a positive safe timer interval'')
      else if safety < 0
      then Inl (PlainError ''watchClaimableTasks: deadlineSafetySeconds must be a non-negative bigint'')
      else if \<not> is_safe_integer maxBackoffMs \<or> maxBackoffMs < pollIntervalMs \<or> maxBackoffMs > MAX_TIMER_MS - pollIntervalMs
      then Inl (PlainError ''watchClaimableTasks: maxBackoffMs must be a safe timer interval'')
      else if \<not> is_safe_integer operationTimeoutMs \<or> operationTimeoutMs < 1 \<or> operationTimeoutMs > MAX_TIMER_MS
      then Inl (PlainError ''watchClaimableTasks: operationTimeoutMs must be a positive safe timer interval'')
      else if \<not> wo_indexer options \<and> wo_rpc options \<noteq> Some True
      then Inl (PlainError ''watchClaimableTasks: a getProgramAccounts-capable rpc or indexer is required'')
      else Inr \<lparr>wc_pollIntervalMs = pollIntervalMs, wc_maxSeen = maxSeen, wc_maxQueue = maxQueue,
        wc_maxBackoffMs = maxBackoffMs, wc_operationTimeoutMs = operationTimeoutMs,
        wc_deadlineSafetySeconds = safety\<rparr>)"

text \<open>The time added to the interval after consecutive failed sweeps, and the sleep.\<close>

definition next_backoff :: "watch_config \<Rightarrow> bool \<Rightarrow> int \<Rightarrow> int" where
  "next_backoff c sweptOk failBackoffMs =
     (if sweptOk then 0
      else if failBackoffMs = 0 then wc_pollIntervalMs c
      else min (failBackoffMs * 2) (wc_maxBackoffMs c))"

fun backoff_after :: "watch_config \<Rightarrow> bool list \<Rightarrow> int" where
  "backoff_after c [] = 0"
| "backoff_after c (ok # earlier) = next_backoff c ok (backoff_after c earlier)"

definition sleep_ms :: "watch_config \<Rightarrow> bool list \<Rightarrow> int" where
  "sleep_ms c outcomes = wc_pollIntervalMs c + backoff_after c outcomes"

section \<open>Claim state\<close>

text \<open>The little-endian counter in bytes 3 to 10 of \<open>reserved\<close>.\<close>

definition claimGeneration :: "task \<Rightarrow> nat" where
  "claimGeneration t = foldl (\<lambda>generation index.
     push_bit 8 generation OR (if index < length (t_reserved t) then unat (t_reserved t ! index) else 0))
     0 (rev [3..<11])"

definition dedupeKey :: "string \<Rightarrow> nat \<Rightarrow> nat \<Rightarrow> nat \<Rightarrow> string" where
  "dedupeKey task currentWorkers completions generation =
     (if generation = 0 then task @ '':legacy:'' @ dec_print currentWorkers @ '':'' @ dec_print completions
      else task @ '':generation:'' @ dec_print generation)"

record seen_entry =
  se_key :: string
  se_generation :: nat
  se_lastObservedSweep :: nat

type_synonym seen_set = "(string \<times> seen_entry) list"

definition addIfAbsent ::
  "nat \<Rightarrow> seen_set \<Rightarrow> string \<Rightarrow> string \<Rightarrow> nat \<Rightarrow> bool \<Rightarrow> nat \<Rightarrow> seen_set \<times> bool" where
  "addIfAbsent maxSeen keys task key generation isZeroWorkerOpen observedSweep =
     (let observed = (\<lambda>prior. prior\<lparr>se_lastObservedSweep := max (se_lastObservedSweep prior) observedSweep\<rparr>) in
      case map_of keys task of
        Some prior \<Rightarrow>
          if generation < se_generation prior then (map_set task (observed prior) keys, False)
          else if generation > 0 then
            (map_set task \<lparr>se_key = key, se_generation = generation,
                se_lastObservedSweep = max (se_lastObservedSweep prior) observedSweep\<rparr> keys,
              isZeroWorkerOpen \<and> generation > se_generation prior)
          else if se_key prior = key then (map_set task (observed prior) keys, False)
          else (map_set task \<lparr>se_key = key, se_generation = generation, se_lastObservedSweep = observedSweep\<rparr> keys, True)
      | None \<Rightarrow>
          if length keys \<ge> maxSeen then (keys, False)
          else (map_set task \<lparr>se_key = key, se_generation = generation, se_lastObservedSweep = observedSweep\<rparr> keys, True))"

definition retainTasks :: "string set \<Rightarrow> nat \<Rightarrow> seen_set \<Rightarrow> seen_set" where
  "retainTasks tasks sweep keys =
     List.filter (\<lambda>(task, state). \<not> (task \<notin> tasks \<and> se_lastObservedSweep state < sweep)) keys"

definition matchesFilter :: "task_options option \<Rightarrow> string \<Rightarrow> nat \<Rightarrow> nat \<Rightarrow> bool" where
  "matchesFilter flt creator requiredCapabilities rewardAmount = (case flt of
      None \<Rightarrow> True
    | Some f \<Rightarrow>
        if (\<exists>c. to_creator f = Some c \<and> creator \<noteq> c) then False
        else if (case to_capabilities f of None \<Rightarrow> False | Some caps \<Rightarrow> \<not> superset_of caps requiredCapabilities) then False
        else if (case to_minReward f of None \<Rightarrow> False | Some m \<Rightarrow> int rewardAmount < m) then False
        else True)"

section \<open>Reads\<close>

definition read_options :: "task_options option \<Rightarrow> string option \<Rightarrow> int \<Rightarrow> direct_options" where
  "read_options flt creator safety =
     \<lparr>to_capabilities = Option.bind flt to_capabilities, to_minReward = Option.bind flt to_minReward,
      to_creator = (case Option.bind flt to_creator of None \<Rightarrow> creator | Some c \<Rightarrow> Some c),
      do_nowUnixTimestamp = None, do_deadlineSafetySeconds = Some safety\<rparr>"

text \<open>A sweep reads the candidates, then the pins; an event is confirmed by the candidates of its creator and the
  pin of its task.\<close>

definition sweep_read ::
  "kit \<Rightarrow> (task_status \<Rightarrow> transport) \<Rightarrow> transport \<Rightarrow> int \<Rightarrow> task_options option \<Rightarrow> int
   \<Rightarrow> ((string \<times> task) list \<times> string set) res" where
  "sweep_read k scans pins clock flt safety =
     bind_res (listDirectClaimableTasks k scans clock (read_options flt None safety)) (\<lambda>candidates.
     bind_res (Queries.listPinnedJobSpecTasks k pins) (\<lambda>pinned. Inr (candidates, pinned)))"

definition event_read ::
  "kit \<Rightarrow> (task_status \<Rightarrow> transport) \<Rightarrow> transport \<Rightarrow> int \<Rightarrow> task_options option \<Rightarrow> int \<Rightarrow> string \<Rightarrow> string
   \<Rightarrow> task option res" where
  "event_read k scans pins clock flt safety creator task =
     bind_res (listDirectClaimableTasks k scans clock (read_options flt (Some creator) safety)) (\<lambda>candidates.
     case List.find (\<lambda>(address, _). address = task) candidates of
       None \<Rightarrow> Inr None
     | Some (_, account) \<Rightarrow>
         bind_res (isTaskJobSpecPinned k pins task) (\<lambda>pinned. Inr (if pinned then Some account else None)))"

section \<open>The two producers\<close>

text \<open>The tasks of the current sweep still to be offered are \<open>ws_pending\<close>; after an abort nothing happens any more.\<close>

record watch_state =
  ws_seen :: seen_set
  ws_successfulSweep :: nat
  ws_pending :: "(string \<times> task) list"
  ws_running :: bool

definition fresh_watch :: watch_state where
  "fresh_watch = \<lparr>ws_seen = [], ws_successfulSweep = 0, ws_pending = [], ws_running = True\<rparr>"

text \<open>What happens, in the order it happens: a sweep's reads return; its next task is offered; an event has been
  read, with what the reads found; a read fails, possibly by its timeout.  The times (in seconds) are those of the
  check before a task is admitted and of the check before it is delivered, and \<open>threw\<close> says that \<open>onTask\<close> throws.
  An admitted task is delivered in the step that admits it.\<close>

datatype watch_input =
    Swept "(string \<times> task) list" "string set"
  | Offered int int bool
  | Event string nat nat string "task option" int int bool
  | Read_Failed bool

text \<open>What can be observed of it: the candidates of a sweep, and an admitted task, delivered or found stale.\<close>

datatype watch_log =
    Saw "string set"
  | Admitted string task bool

definition isZeroWorkerOpen :: "task \<Rightarrow> bool" where
  "isZeroWorkerOpen t \<longleftrightarrow> t_status t = TOpen \<and> t_currentWorkers t = 0"

definition task_key :: "string \<Rightarrow> task \<Rightarrow> string" where
  "task_key a t = dedupeKey a (t_currentWorkers t) (t_completions t) (claimGeneration t)"

text \<open>Without \<open>onError\<close> an error stops the watch; a timeout always does.\<close>

definition report_error :: "bool \<Rightarrow> bool \<Rightarrow> watch_state \<Rightarrow> watch_state" where
  "report_error onError timeout st = (if onError \<and> \<not> timeout then st else st\<lparr>ws_running := False\<rparr>)"

definition offer_task ::
  "watch_config \<Rightarrow> bool \<Rightarrow> string \<Rightarrow> task \<Rightarrow> nat \<Rightarrow> int \<Rightarrow> int \<Rightarrow> bool \<Rightarrow> watch_state \<Rightarrow> watch_state \<times> watch_log list" where
  "offer_task c onError a account observedSweep now1 now2 threw st =
     (if \<not> isTaskStateDirectlyClaimable account (now1 + wc_deadlineSafetySeconds c) then (st, [])
      else
        (case addIfAbsent (nat (wc_maxSeen c)) (ws_seen st) a (task_key a account) (claimGeneration account)
            (isZeroWorkerOpen account) observedSweep of (seen, admitted) \<Rightarrow>
          let st1 = st\<lparr>ws_seen := seen\<rparr> in
          if \<not> admitted then (st1, [])
          else if \<not> isTaskStateDirectlyClaimable account (now2 + wc_deadlineSafetySeconds c)
          then (st1, [Admitted a account False])
          else (if threw then report_error onError False st1 else st1, [Admitted a account True])))"

definition watch_step ::
  "watch_config \<Rightarrow> task_options option \<Rightarrow> bool \<Rightarrow> watch_input \<Rightarrow> watch_state \<Rightarrow> watch_state \<times> watch_log list" where
  "watch_step c flt onError input st =
     (if \<not> ws_running st then (st, [])
      else (case input of
          Swept candidates pinned \<Rightarrow>
            if ws_pending st \<noteq> [] then (st, [])
            else
              (let sweep = ws_successfulSweep st + 1;
                   addresses = set (map fst candidates) in
               (st\<lparr>ws_successfulSweep := sweep,
                   ws_pending := List.filter (\<lambda>(a, _). a \<in> pinned) candidates,
                   ws_seen := retainTasks addresses sweep (ws_seen st)\<rparr>, [Saw addresses]))
        | Offered now1 now2 threw \<Rightarrow>
            (case ws_pending st of
               [] \<Rightarrow> (st, [])
             | (a, account) # rest \<Rightarrow>
                 offer_task c onError a account (ws_successfulSweep st) now1 now2 threw (st\<lparr>ws_pending := rest\<rparr>))
        | Event creator requiredCapabilities rewardAmount a current now1 now2 threw \<Rightarrow>
            if \<not> matchesFilter flt creator requiredCapabilities rewardAmount then (st, [])
            else (case current of
                None \<Rightarrow> (st, [])
              | Some account \<Rightarrow>
                  offer_task c onError a account (ws_successfulSweep st + 1) now1 now2 threw st)
        | Read_Failed timeout \<Rightarrow> (report_error onError timeout st, [])))"

fun watch_run ::
  "watch_config \<Rightarrow> task_options option \<Rightarrow> bool \<Rightarrow> watch_input list \<Rightarrow> watch_state \<Rightarrow> watch_state \<times> watch_log list" where
  "watch_run c flt onError [] st = (st, [])"
| "watch_run c flt onError (i # is) st =
     (case watch_step c flt onError i st of (st1, l) \<Rightarrow>
        (case watch_run c flt onError is st1 of (st2, l') \<Rightarrow> (st2, l @ l')))"

end
