(* ===== verification/WatchProps.thy ===== *)
theory WatchProps
  imports Watch QueryResults
begin

text \<open>
  What the watch guarantees: the memory of surfaced tasks is bounded, a task is not surfaced twice without a
  reason on the chain, and a task that can be surfaced is.
\<close>

section \<open>The set of surfaced tasks\<close>

text \<open>How an entry may change: its generation grows, and as long as there is none its key tells the counters
  surfaced last.\<close>

definition surfaced_as :: "string \<Rightarrow> nat \<Rightarrow> seen_entry \<Rightarrow> bool" where
  "surfaced_as key g e \<longleftrightarrow> se_key e = key \<and> se_generation e = g"

definition reason_to_surface :: "seen_entry \<Rightarrow> string \<Rightarrow> nat \<Rightarrow> bool \<Rightarrow> bool" where
  "reason_to_surface e key g zeroOpen \<longleftrightarrow>
     (zeroOpen \<and> se_generation e < g) \<or> (se_generation e = 0 \<and> g = 0 \<and> se_key e \<noteq> key)"

definition remembers :: "seen_entry \<Rightarrow> seen_entry \<Rightarrow> bool" where
  "remembers e e' \<longleftrightarrow> se_generation e \<le> se_generation e' \<and> (se_generation e' = 0 \<longrightarrow> se_key e' = se_key e)"

lemma remembers_refl [simp]: "remembers e e" and remembers_trans: "remembers e e' \<Longrightarrow> remembers e' e'' \<Longrightarrow> remembers e e''"
  by (auto simp: remembers_def)

lemma addIfAbsent_other:
  "b \<noteq> a \<Longrightarrow> map_of (fst (addIfAbsent m keys a key g z s)) b = map_of keys b"
  by (auto simp: addIfAbsent_def Let_def map_of_map_set split: option.split)

lemma addIfAbsent_tracked:
  assumes "map_of keys a = Some e"
  shows "\<exists>e'. map_of (fst (addIfAbsent m keys a key g z s)) a = Some e' \<and>
    (if snd (addIfAbsent m keys a key g z s) then surfaced_as key g e' \<and> reason_to_surface e key g z else remembers e e')"
  using assms
  by (auto simp: addIfAbsent_def Let_def map_of_map_set surfaced_as_def reason_to_surface_def remembers_def)

lemma addIfAbsent_new:
  assumes "map_of keys a = None"
  shows "addIfAbsent m keys a key g z s = (if m \<le> length keys then (keys, False)
    else (map_set a \<lparr>se_key = key, se_generation = g, se_lastObservedSweep = s\<rparr> keys, True))"
  using assms by (simp add: addIfAbsent_def Let_def)

lemma addIfAbsent_surfaced:
  assumes "snd (addIfAbsent m keys a key g z s)"
  shows "\<exists>e'. map_of (fst (addIfAbsent m keys a key g z s)) a = Some e' \<and> surfaced_as key g e'"
proof (cases "map_of keys a")
  case None
  then show ?thesis using assms by (auto simp: addIfAbsent_new map_of_map_set surfaced_as_def split: if_splits)
next
  case (Some e)
  then show ?thesis using addIfAbsent_tracked [OF Some, of m key g z s] assms by auto
qed

lemma keys_map_set_any: "fst ` set (map_set a v xs) = insert a (fst ` set xs)"
  by (induction xs) auto

lemma map_set_length: "length (map_set a v xs) = (if a \<in> fst ` set xs then length xs else Suc (length xs))"
  by (induction xs) auto

definition seen_ok :: "nat \<Rightarrow> seen_set \<Rightarrow> bool" where
  "seen_ok m keys \<longleftrightarrow> distinct (map fst keys) \<and> length keys \<le> m"

text \<open>The contract of the bounded set: every operation keeps it within its bound, and only \<open>retain\<close> forgets.\<close>

locale bounded_memory =
  fixes ok :: "nat \<Rightarrow> 's \<Rightarrow> bool"
    and entry_of :: "'s \<Rightarrow> string \<rightharpoonup> seen_entry"
    and add :: "nat \<Rightarrow> 's \<Rightarrow> string \<Rightarrow> string \<Rightarrow> nat \<Rightarrow> bool \<Rightarrow> nat \<Rightarrow> 's \<times> bool"
    and retain :: "string set \<Rightarrow> nat \<Rightarrow> 's \<Rightarrow> 's"
  assumes add_ok: "ok m s \<Longrightarrow> ok m (fst (add m s a key g z n))"
    and retain_ok: "ok m s \<Longrightarrow> ok m (retain C n s)"
    and add_other: "b \<noteq> a \<Longrightarrow> entry_of (fst (add m s a key g z n)) b = entry_of s b"
    and add_tracked: "entry_of s a = Some e \<Longrightarrow> \<exists>e'. entry_of (fst (add m s a key g z n)) a = Some e' \<and>
      (if snd (add m s a key g z n) then surfaced_as key g e' \<and> reason_to_surface e key g z else remembers e e')"
    and add_surfaced: "snd (add m s a key g z n) \<Longrightarrow>
      \<exists>e'. entry_of (fst (add m s a key g z n)) a = Some e' \<and> surfaced_as key g e'"
    and retain_kept: "ok m s \<Longrightarrow> a \<in> C \<Longrightarrow> entry_of (retain C n s) a = entry_of s a"
begin

lemma add_keeps:
  assumes "entry_of s b = Some e" "b = a \<longrightarrow> \<not> snd (add m s a key g z n)"
  shows "\<exists>e'. entry_of (fst (add m s a key g z n)) b = Some e' \<and> remembers e e'"
proof (cases "b = a")
  case True
  then show ?thesis using add_tracked [of s a e m key g z n] assms by auto
next
  case False
  then show ?thesis using assms(1) by (simp add: add_other)
qed

end

lemma addIfAbsent_ok: "seen_ok m keys \<Longrightarrow> seen_ok m (fst (addIfAbsent m keys a key g z s))"
  using keys_map_set [of keys a]
  by (auto simp: seen_ok_def addIfAbsent_def Let_def map_set_length dom_map_of_conv_image_fst [symmetric]
      map_of_eq_None_iff split: option.split)

lemma retainTasks_ok: "seen_ok m keys \<Longrightarrow> seen_ok m (retainTasks C n keys)"
  by (auto simp: seen_ok_def retainTasks_def intro: le_trans [OF length_filter_le])

lemma map_of_filter_key: "distinct (map fst xs) \<Longrightarrow>
    map_of (List.filter P xs) a = (case map_of xs a of None \<Rightarrow> None | Some v \<Rightarrow> if P (a, v) then Some v else None)"
  by (induction xs) (force split: option.split dest: map_of_SomeD simp: image_iff)+

lemma retainTasks_kept: "seen_ok m keys \<Longrightarrow> a \<in> C \<Longrightarrow> map_of (retainTasks C n keys) a = map_of keys a"
  by (simp add: retainTasks_def map_of_filter_key seen_ok_def split: option.split)

interpretation seen: bounded_memory seen_ok map_of addIfAbsent retainTasks
  by unfold_locales (simp_all add: addIfAbsent_ok retainTasks_ok addIfAbsent_other addIfAbsent_tracked
      addIfAbsent_surfaced retainTasks_kept)

section \<open>One step\<close>

lemma offer_seen:
  "ws_seen (fst (offer_task c h a t n now1 now2 th st)) =
     (if isTaskStateDirectlyClaimable t (now1 + wc_deadlineSafetySeconds c)
      then fst (addIfAbsent (nat (wc_maxSeen c)) (ws_seen st) a (task_key a t) (claimGeneration t) (isZeroWorkerOpen t) n)
      else ws_seen st)"
  by (auto simp: offer_task_def Let_def report_error_def split: prod.split)

lemma offer_log:
  "snd (offer_task c h a t n now1 now2 th st) =
     (if isTaskStateDirectlyClaimable t (now1 + wc_deadlineSafetySeconds c) \<and>
        snd (addIfAbsent (nat (wc_maxSeen c)) (ws_seen st) a (task_key a t) (claimGeneration t) (isZeroWorkerOpen t) n)
      then [Admitted a t (isTaskStateDirectlyClaimable t (now2 + wc_deadlineSafetySeconds c))] else [])"
  by (auto simp: offer_task_def Let_def split: prod.split)

text \<open>What a step does to the entry of a task that its log does not show absent.\<close>

definition entry_step :: "string \<Rightarrow> seen_entry \<Rightarrow> watch_log list \<Rightarrow> seen_set \<Rightarrow> bool" where
  "entry_step a e l seen' \<longleftrightarrow> (\<exists>e'. map_of seen' a = Some e' \<and>
     (((\<forall>t d. Admitted a t d \<notin> set l) \<and> remembers e e') \<or>
      (\<exists>t d. l = [Admitted a t d] \<and> surfaced_as (task_key a t) (claimGeneration t) e' \<and>
         reason_to_surface e (task_key a t) (claimGeneration t) (isZeroWorkerOpen t))))"

lemma offer_entry:
  assumes "map_of (ws_seen st) b = Some e"
  shows "entry_step b e (snd (offer_task c h a t n now1 now2 th st)) (ws_seen (fst (offer_task c h a t n now1 now2 th st)))"
proof (cases "isTaskStateDirectlyClaimable t (now1 + wc_deadlineSafetySeconds c)")
  case claimable: True
  show ?thesis
  proof (cases "b = a")
    case True
    then show ?thesis
      using seen.add_tracked [of "ws_seen st" a e "nat (wc_maxSeen c)" "task_key a t" "claimGeneration t" "isZeroWorkerOpen t" n]
        assms claimable
      by (auto simp: entry_step_def offer_seen offer_log split: if_splits)
  next
    case False
    then show ?thesis
      using assms claimable by (auto simp: entry_step_def offer_seen offer_log seen.add_other)
  qed
next
  case False
  then show ?thesis using assms by (simp add: entry_step_def offer_seen offer_log)
qed

lemma entry_step_same: "map_of seen' a = Some e \<Longrightarrow> entry_step a e [] seen'"
  by (simp add: entry_step_def)

lemma step_entry:
  assumes "seen_ok m (ws_seen st)" "map_of (ws_seen st) a = Some e" "\<And>C. Saw C \<in> set (snd (watch_step c flt h i st)) \<Longrightarrow> a \<in> C"
  shows "entry_step a e (snd (watch_step c flt h i st)) (ws_seen (fst (watch_step c flt h i st)))"
proof (cases "ws_running st")
  case running: True
  show ?thesis
  proof (cases i)
    case (Swept candidates pinned)
    show ?thesis
    proof (cases "ws_pending st = []")
      case True
      then have "a \<in> set (map fst candidates)" using assms(3) running Swept by (auto simp: watch_step_def Let_def)
      then show ?thesis
        using assms(1,2) running Swept True
        by (simp add: watch_step_def Let_def entry_step_def seen.retain_kept)
    qed (use assms(2) running Swept in \<open>simp add: watch_step_def entry_step_same\<close>)
  next
    case (Offered now1 now2 th)
    then show ?thesis
      using running assms(2) by (auto simp: watch_step_def entry_step_same offer_entry split: list.split prod.split)
  next
    case (Event creator caps reward b current now1 now2 th)
    then show ?thesis
      using running assms(2) by (auto simp: watch_step_def entry_step_same offer_entry split: option.split)
  next
    case (Read_Failed timeout)
    then show ?thesis using running assms(2) by (simp add: watch_step_def entry_step_same report_error_def)
  qed
qed (use assms(2) in \<open>simp add: watch_step_def entry_step_same\<close>)

lemma step_log_short: "length (snd (watch_step c flt h i st)) \<le> 1"
  by (auto simp: watch_step_def Let_def offer_log split: watch_input.split list.split prod.split option.split)

lemma offer_ok: "seen_ok (nat (wc_maxSeen c)) (ws_seen st) \<Longrightarrow>
    seen_ok (nat (wc_maxSeen c)) (ws_seen (fst (offer_task c h a t n now1 now2 th st)))"
  by (simp add: offer_seen seen.add_ok)

lemma step_ok: "seen_ok (nat (wc_maxSeen c)) (ws_seen st) \<Longrightarrow>
    seen_ok (nat (wc_maxSeen c)) (ws_seen (fst (watch_step c flt h i st)))"
  by (auto simp: watch_step_def Let_def offer_ok seen.retain_ok report_error_def
      split: watch_input.split list.split prod.split option.split)

lemma run_ok: "seen_ok (nat (wc_maxSeen c)) (ws_seen st) \<Longrightarrow>
    seen_ok (nat (wc_maxSeen c)) (ws_seen (fst (watch_run c flt h inputs st)))"
  by (induction inputs arbitrary: st) (simp_all add: step_ok split: prod.split, metis fst_conv step_ok)

text \<open>A task that is admitted is tracked.\<close>

lemma step_admits:
  assumes "snd (watch_step c flt h i st) = [Admitted a t d]"
  shows "\<exists>e'. map_of (ws_seen (fst (watch_step c flt h i st))) a = Some e' \<and> surfaced_as (task_key a t) (claimGeneration t) e'"
  using assms
  by (auto simp: watch_step_def Let_def offer_log offer_seen seen.add_surfaced
      split: watch_input.splits list.splits prod.splits option.splits if_splits)

section \<open>Runs\<close>

lemma run_Cons [simp]: "watch_run c flt h (i # inputs) st =
    (fst (watch_run c flt h inputs (fst (watch_step c flt h i st))),
     snd (watch_step c flt h i st) @ snd (watch_run c flt h inputs (fst (watch_step c flt h i st))))"
  by (simp split: prod.split)

declare watch_run.simps(2) [simp del]

lemma run_split:
  assumes "snd (watch_run c flt h inputs st) = l1 @ x # l2"
  shows "\<exists>is1 i is2. inputs = is1 @ i # is2 \<and> snd (watch_run c flt h is1 st) = l1 \<and>
    snd (watch_step c flt h i (fst (watch_run c flt h is1 st))) = [x] \<and>
    snd (watch_run c flt h is2 (fst (watch_step c flt h i (fst (watch_run c flt h is1 st))))) = l2"
  using assms
proof (induction inputs arbitrary: st l1)
  case (Cons i inputs)
  obtain st1 l where step: "watch_step c flt h i st = (st1, l)" by fastforce
  have log: "l @ snd (watch_run c flt h inputs st1) = l1 @ x # l2"
    using Cons.prems by (simp add: step)
  have "length l \<le> 1" using step_log_short [of c flt h i st] by (simp add: step)
  then consider "l = []" | y where "l = [y]" by (cases l) auto
  then show ?case
  proof cases
    case 1
    with Cons.IH [of st1 l1] log obtain is1 j is2 where "inputs = is1 @ j # is2" "snd (watch_run c flt h is1 st1) = l1"
      "snd (watch_step c flt h j (fst (watch_run c flt h is1 st1))) = [x]"
      "snd (watch_run c flt h is2 (fst (watch_step c flt h j (fst (watch_run c flt h is1 st1))))) = l2"
      by auto
    then show ?thesis
      using step 1 by - (rule exI [of _ "i # is1"], rule exI [of _ j], rule exI [of _ is2], simp)
  next
    case 2
    show ?thesis
    proof (cases l1)
      case Nil
      then show ?thesis
        using step 2 log by - (rule exI [of _ "[]"], rule exI [of _ i], rule exI [of _ inputs], simp)
    next
      case (Cons z l1')
      then have "snd (watch_run c flt h inputs st1) = l1' @ x # l2" and z: "z = y" using log 2 by auto
      from Cons.IH [OF this(1)] obtain is1 j is2 where "inputs = is1 @ j # is2" "snd (watch_run c flt h is1 st1) = l1'"
        "snd (watch_step c flt h j (fst (watch_run c flt h is1 st1))) = [x]"
        "snd (watch_run c flt h is2 (fst (watch_step c flt h j (fst (watch_run c flt h is1 st1))))) = l2"
        by auto
      then show ?thesis
        using step 2 Cons z by - (rule exI [of _ "i # is1"], rule exI [of _ j], rule exI [of _ is2], simp)
    qed
  qed
qed simp

text \<open>How far the entry of a task has moved on since it was surfaced as \<open>t\<close>.\<close>

definition moved_on :: "string \<Rightarrow> task \<Rightarrow> watch_log list \<Rightarrow> seen_entry \<Rightarrow> bool" where
  "moved_on a t l e \<longleftrightarrow> claimGeneration t \<le> se_generation e \<and>
     ((\<forall>u d. Admitted a u d \<notin> set l) \<longrightarrow> se_generation e = 0 \<longrightarrow> se_key e = task_key a t)"

lemma run_entry:
  assumes "seen_ok (nat (wc_maxSeen c)) (ws_seen st)" "map_of (ws_seen st) a = Some e" "moved_on a t l0 e"
    and "\<And>C. Saw C \<in> set (snd (watch_run c flt h inputs st)) \<Longrightarrow> a \<in> C"
  shows "\<exists>e'. map_of (ws_seen (fst (watch_run c flt h inputs st))) a = Some e' \<and>
    moved_on a t (l0 @ snd (watch_run c flt h inputs st)) e'"
  using assms
proof (induction inputs arbitrary: st e l0)
  case (Cons i inputs)
  obtain st1 l where step: "watch_step c flt h i st = (st1, l)" by fastforce
  have "entry_step a e l (ws_seen st1)"
    using step_entry [OF Cons.prems(1,2), of c flt h i] Cons.prems(4) by (simp add: step)
  then obtain e1 where e1: "map_of (ws_seen st1) a = Some e1" "moved_on a t (l0 @ l) e1"
    using Cons.prems(3)
    by (force simp: entry_step_def moved_on_def remembers_def surfaced_as_def reason_to_surface_def)
  have "seen_ok (nat (wc_maxSeen c)) (ws_seen st1)" using step_ok [OF Cons.prems(1), of flt h i] by (simp add: step)
  from Cons.IH [OF this e1] Cons.prems(4) show ?case by (simp add: step)
qed auto

lemma redelivery:
  assumes run: "snd (watch_run c flt h inputs st) = xs @ Admitted a t d # ys @ Admitted a t' d' # zs"
    and ok: "seen_ok (nat (wc_maxSeen c)) (ws_seen st)"
    and present: "\<And>C. Saw C \<in> set ys \<Longrightarrow> a \<in> C"
  shows "\<exists>e. moved_on a t ys e \<and> reason_to_surface e (task_key a t') (claimGeneration t') (isZeroWorkerOpen t')"
proof -
  obtain is1 i is2 where first: "snd (watch_step c flt h i (fst (watch_run c flt h is1 st))) = [Admitted a t d]"
    "snd (watch_run c flt h is2 (fst (watch_step c flt h i (fst (watch_run c flt h is1 st))))) = ys @ Admitted a t' d' # zs"
    using run_split [OF run] by blast
  let ?st1 = "fst (watch_step c flt h i (fst (watch_run c flt h is1 st)))"
  have ok1: "seen_ok (nat (wc_maxSeen c)) (ws_seen ?st1)" by (intro step_ok run_ok ok)
  obtain e1 where e1: "map_of (ws_seen ?st1) a = Some e1" "surfaced_as (task_key a t) (claimGeneration t) e1"
    using step_admits [OF first(1)] by blast
  obtain is3 j is4 where second: "snd (watch_run c flt h is3 ?st1) = ys"
    "snd (watch_step c flt h j (fst (watch_run c flt h is3 ?st1))) = [Admitted a t' d']"
    using run_split [OF first(2)] by blast
  have "moved_on a t [] e1" using e1(2) by (simp add: moved_on_def surfaced_as_def)
  from run_entry [OF ok1 e1(1) this, of flt h is3] present second(1) obtain e where
    e: "map_of (ws_seen (fst (watch_run c flt h is3 ?st1))) a = Some e" "moved_on a t ys e"
    by auto
  have "entry_step a e [Admitted a t' d'] (ws_seen (fst (watch_step c flt h j (fst (watch_run c flt h is3 ?st1)))))"
    using step_entry [OF run_ok [OF ok1] e(1), of c flt h j] second(2) by simp
  then show ?thesis using e(2) by (auto simp: entry_step_def)
qed

section \<open>The properties\<close>

text \<open>C23: a task is not surfaced twice without a reason.  Between two times a task is surfaced, either a complete
  sweep did not list it, or the second time it is open without a worker and has a later claim generation, or it
  has no claim generation at all; in that case, unless it was surfaced in between as well, its counters have
  changed.\<close>

theorem no_needless_redelivery:
  assumes "snd (watch_run c flt onError inputs fresh_watch) = xs @ Admitted a t d # ys @ Admitted a t' d' # zs"
  shows "(\<exists>C. Saw C \<in> set ys \<and> a \<notin> C)
   \<or> (isZeroWorkerOpen t' \<and> claimGeneration t < claimGeneration t')
   \<or> (claimGeneration t = 0 \<and> claimGeneration t' = 0 \<and>
       ((\<exists>u e. Admitted a u e \<in> set ys) \<or>
        (t_currentWorkers t, t_completions t) \<noteq> (t_currentWorkers t', t_completions t')))"
proof (cases "\<exists>C. Saw C \<in> set ys \<and> a \<notin> C")
  case False
  have "seen_ok (nat (wc_maxSeen c)) (ws_seen fresh_watch)" by (simp add: seen_ok_def fresh_watch_def)
  from redelivery [OF assms this] False obtain e where
    "moved_on a t ys e" "reason_to_surface e (task_key a t') (claimGeneration t') (isZeroWorkerOpen t')"
    by blast
  then show ?thesis
    by (auto simp: moved_on_def reason_to_surface_def task_key_def)
qed blast

text \<open>C24: bounds.  The options accepted keep the timers within their range; the watch then never remembers more than
  \<open>maxSeen\<close> tasks, and never sleeps longer than the interval plus the cap of the backoff, after any sequence of
  failed and successful sweeps.\<close>

theorem watch_bounded:
  assumes "watch_config options = Inr c"
  shows "length (ws_seen (fst (watch_run c flt onError inputs fresh_watch))) \<le> nat (wc_maxSeen c)
   \<and> 0 < sleep_ms c outcomes \<and> sleep_ms c outcomes \<le> wc_pollIntervalMs c + wc_maxBackoffMs c
   \<and> wc_pollIntervalMs c + wc_maxBackoffMs c \<le> MAX_TIMER_MS"
proof -
  have c: "1 \<le> wc_pollIntervalMs c" "wc_pollIntervalMs c \<le> wc_maxBackoffMs c"
    "wc_maxBackoffMs c \<le> MAX_TIMER_MS - wc_pollIntervalMs c"
    using assms by (auto simp: watch_config_def Let_def split: if_splits)
  have "0 \<le> backoff_after c os \<and> backoff_after c os \<le> wc_maxBackoffMs c" for os
    using c(1,2) by (induction os) (auto simp: next_backoff_def)
  from this [of outcomes] have "0 \<le> backoff_after c outcomes" "backoff_after c outcomes \<le> wc_maxBackoffMs c" by simp_all
  moreover have "seen_ok (nat (wc_maxSeen c)) (ws_seen (fst (watch_run c flt onError inputs fresh_watch)))"
    by (intro run_ok) (simp add: seen_ok_def fresh_watch_def)
  ultimately show ?thesis using c by (auto simp: seen_ok_def sleep_ms_def)
qed

section \<open>Progress\<close>

text \<open>Offering the pending tasks one after the other, all at the same times.\<close>

definition keys_of :: "seen_set \<Rightarrow> string set" where
  "keys_of seen = set (map fst seen)"

lemma keys_of_add: "keys_of (fst (addIfAbsent m keys a key g z s)) \<subseteq> insert a (keys_of keys)"
  by (auto simp: addIfAbsent_def Let_def keys_of_def keys_map_set_any split: option.split)

lemma keys_of_retain: "keys_of (retainTasks C n keys) \<subseteq> keys_of keys"
  by (auto simp: keys_of_def retainTasks_def)

lemma offer_room:
  assumes "seen_ok m (ws_seen st)" "m = nat (wc_maxSeen c)" "finite U" "card U \<le> m" "insert a (keys_of (ws_seen st)) \<subseteq> U"
    and "a \<notin> keys_of (ws_seen st)"
    and "isTaskStateDirectlyClaimable t (now1 + wc_deadlineSafetySeconds c)"
      "isTaskStateDirectlyClaimable t (now2 + wc_deadlineSafetySeconds c)"
  shows "snd (offer_task c h a t n now1 now2 th st) = [Admitted a t True]"
proof -
  have "length (ws_seen st) = card (keys_of (ws_seen st))"
    using assms(1) distinct_card [of "map fst (ws_seen st)"] by (simp add: seen_ok_def keys_of_def)
  also have "\<dots> < card (insert a (keys_of (ws_seen st)))"
    using assms(6) by (simp add: keys_of_def)
  also have "\<dots> \<le> card U" using assms(3,5) by (rule card_mono)
  finally have room: "length (ws_seen st) < m" using assms(4) by simp
  have new: "map_of (ws_seen st) a = None" using assms(6) by (simp add: keys_of_def map_of_eq_None_iff)
  show ?thesis
    using room assms(7,8) by (simp add: offer_log addIfAbsent_new [OF new] assms(2))
qed

lemma drain_surfaces:
  assumes "ws_running st" "ws_pending st = ps" "seen_ok m (ws_seen st)" "m = nat (wc_maxSeen c)"
    and "distinct (map fst ps)" "finite U" "card U \<le> m" "keys_of (ws_seen st) \<union> fst ` set ps \<subseteq> U"
    and "(a, t) \<in> set ps" "a \<notin> keys_of (ws_seen st)"
    and "isTaskStateDirectlyClaimable t (now1 + wc_deadlineSafetySeconds c)"
      "isTaskStateDirectlyClaimable t (now2 + wc_deadlineSafetySeconds c)"
  shows "Admitted a t True \<in> set (snd (watch_run c flt h (replicate (length ps) (Offered now1 now2 False)) st))"
  using assms
proof (induction ps arbitrary: st)
  case (Cons p ps)
  obtain b u where p: "p = (b, u)" by (cases p)
  let ?st = "st\<lparr>ws_pending := ps\<rparr>"
  let ?r = "offer_task c h b u (ws_successfulSweep st) now1 now2 False ?st"
  have step: "watch_step c flt h (Offered now1 now2 False) st = ?r"
    using Cons.prems(1,2) by (simp add: watch_step_def p)
  show ?case
  proof (cases "b = a")
    case True
    then have "u = t" using Cons.prems(5,9) by (auto simp: p image_iff)
    then have "snd ?r = [Admitted a t True]"
      using offer_room [of m ?st c U a t now1 now2 h "ws_successfulSweep st" False] Cons.prems True by (simp add: p)
    then show ?thesis using step by simp
  next
    case False
    have keys: "keys_of (ws_seen (fst ?r)) \<subseteq> insert b (keys_of (ws_seen st))"
      using keys_of_add by (simp add: offer_seen) blast
    have "Admitted a t True \<in> set (snd (watch_run c flt h (replicate (length ps) (Offered now1 now2 False)) (fst ?r)))"
    proof (rule Cons.IH)
      show "ws_running (fst ?r)" "ws_pending (fst ?r) = ps"
        using Cons.prems(1) by (auto simp: offer_task_def Let_def split: prod.split)
      show "seen_ok m (ws_seen (fst ?r))" using offer_ok [of c ?st] Cons.prems(3,4) by simp
      show "keys_of (ws_seen (fst ?r)) \<union> fst ` set ps \<subseteq> U" using keys Cons.prems(8) by (auto simp: p)
      show "a \<notin> keys_of (ws_seen (fst ?r))" using keys Cons.prems(10) False by auto
    qed (use Cons.prems False in \<open>auto simp: p\<close>)
    then show ?thesis using step by simp
  qed
qed simp

text \<open>The tasks a watch with a filter looks for.\<close>

definition watch_query :: "task_options option \<Rightarrow> task_options" where
  "watch_query flt = (case flt of
      None \<Rightarrow> \<lparr>to_capabilities = None, to_minReward = None, to_creator = None\<rparr> | Some f \<Rightarrow> f)"

lemma read_query: "task_options.truncate (read_options flt None safety) = watch_query flt"
  by (cases flt) (auto simp: read_options_def watch_query_def task_options.truncate_def split: option.split)

text \<open>C22: progress.  Take any run of the watch whose producers have nothing left to offer, and a task on the
  chain that the filter wants, that passes the claim predicate with the margin when it is read, when it is
  offered and when it is delivered, and whose job spec is pinned.  If the watch does not track it and the bound
  leaves room for the tasks of the chain, the next sweep delivers it.\<close>

theorem claimable_task_surfaced:
  assumes chain: "snapshot_ok k snap" "distinct (map fst snap)"
    and query: "options_ok k (watch_query flt)" "0 \<le> wc_deadlineSafetySeconds c"
    and st: "st = fst (watch_run c flt onError inputs fresh_watch)" "ws_running st" "ws_pending st = []"
    and task: "(a, A_Task t) \<in> set snap" "task_wanted (watch_query flt) t"
    and claimable: "\<forall>now \<in> {clock, now1, now2}. isTaskStateDirectlyClaimable t (now + wc_deadlineSafetySeconds c)"
    and pin: "(b, A_Job_Spec j) \<in> set snap" "js_task j = a" "pin_valid j"
    and room: "a \<notin> keys_of (ws_seen st)" "card (keys_of (ws_seen st) \<union> fst ` set snap) \<le> nat (wc_maxSeen c)"
  shows "\<exists>candidates pinned n.
     sweep_read k (\<lambda>_. answers k snap) (answers k snap) clock flt (wc_deadlineSafetySeconds c) = Inr (candidates, pinned) \<and>
     Admitted a t True \<in> set (snd (watch_run c flt onError
       (Swept candidates pinned # replicate n (Offered now1 now2 False)) st))"
proof -
  let ?options = "read_options flt None (wc_deadlineSafetySeconds c)"
  have now: "direct_now ?options clock = clock + wc_deadlineSafetySeconds c"
    by (simp add: direct_now_def direct_safety_def read_options_def)
  have "0 \<le> direct_safety ?options" using query(2) by (simp add: direct_safety_def read_options_def)
  with direct_candidates [where snaps = "\<lambda>_. snap" and options = ?options and clock = clock and k = k] chain query(1)
  obtain candidates where
    cs: "listDirectClaimableTasks k (\<lambda>_. answers k snap) clock ?options = Inr candidates" "distinct (map fst candidates)"
    "\<And>a t. (a, t) \<in> set candidates \<longleftrightarrow> last_seen (watch_query flt) (\<lambda>_. snap) a = Some t \<and>
       task_wanted (watch_query flt) t \<and> isTaskStateDirectlyClaimable t (clock + wc_deadlineSafetySeconds c)"
    by (auto simp: read_query now)
  define pinned where "pinned = {js_task j | a j. (a, A_Job_Spec j) \<in> set snap \<and> pin_valid j}"
  have read: "sweep_read k (\<lambda>_. answers k snap) (answers k snap) clock flt (wc_deadlineSafetySeconds c) = Inr (candidates, pinned)"
    using cs(1) pins_selected(1) [OF chain(1)] by (simp add: sweep_read_def pinned_def)
  have mem: "(a, t) \<in> set candidates"
    using task claimable claimable_status [of t "clock + wc_deadlineSafetySeconds c"]
    by (auto simp: cs(3) last_seen_stable [OF chain(2)] task_wanted_def)
  have on_chain: "fst ` set candidates \<subseteq> fst ` set snap"
  proof
    fix x assume "x \<in> fst ` set candidates"
    then obtain u where "(x, u) \<in> set candidates" by auto
    then have "(x, A_Task u) \<in> set snap" unfolding cs(3) last_seen_stable [OF chain(2)] by simp
    then show "x \<in> fst ` set snap" by (metis fst_conv image_eqI)
  qed
  let ?ps = "List.filter (\<lambda>(a, _). a \<in> pinned) candidates"
  let ?st = "fst (watch_step c flt onError (Swept candidates pinned) st)"
  have swept: "?st = st\<lparr>ws_successfulSweep := ws_successfulSweep st + 1, ws_pending := ?ps,
      ws_seen := retainTasks (set (map fst candidates)) (ws_successfulSweep st + 1) (ws_seen st)\<rparr>"
    using st(2,3) by (simp add: watch_step_def Let_def)
  have "seen_ok (nat (wc_maxSeen c)) (ws_seen st)"
    unfolding st(1) by (intro run_ok) (simp add: seen_ok_def fresh_watch_def)
  then have ok: "seen_ok (nat (wc_maxSeen c)) (ws_seen ?st)" by (rule step_ok)
  have keys: "keys_of (ws_seen ?st) \<subseteq> keys_of (ws_seen st)" using keys_of_retain by (simp add: swept)
  have "Admitted a t True \<in> set (snd (watch_run c flt onError (replicate (length ?ps) (Offered now1 now2 False)) ?st))"
  proof (rule drain_surfaces [where U = "keys_of (ws_seen st) \<union> fst ` set snap" and ps = ?ps, OF _ _ ok refl])
    show "ws_running ?st" "ws_pending ?st = ?ps" using st(2) by (simp_all add: swept)
    show "keys_of (ws_seen ?st) \<union> fst ` set ?ps \<subseteq> keys_of (ws_seen st) \<union> fst ` set snap"
      using keys on_chain by auto
    show "(a, t) \<in> set ?ps" using mem pin by (auto simp: pinned_def)
    show "a \<notin> keys_of (ws_seen ?st)" using keys room(1) by blast
  qed (use cs(2) room(2) claimable in \<open>auto simp: keys_of_def\<close>)
  then show ?thesis
    using read by (intro exI [of _ candidates] exI [of _ pinned] exI [of _ "length ?ps"]) simp
qed

section \<open>Sample runs\<close>

definition sample_watch_options :: watch_options where
  "sample_watch_options = \<lparr>wo_subscriptions = True, wo_rpc = Some True, wo_indexer = False, wo_pollIntervalMs = None,
     wo_maxSeen = None, wo_maxQueue = None, wo_maxBackoffMs = None, wo_operationTimeoutMs = None,
     wo_deadlineSafetySeconds = None\<rparr>"

definition sample_watch_config :: watch_config where
  "sample_watch_config = \<lparr>wc_pollIntervalMs = 5000, wc_maxSeen = 10000, wc_maxQueue = 1000, wc_maxBackoffMs = 30000,
     wc_operationTimeoutMs = 30000, wc_deadlineSafetySeconds = 30\<rparr>"

lemma sample_watch_accepted: "watch_config sample_watch_options = Inr sample_watch_config"
  by (simp add: watch_config_def sample_watch_options_def sample_watch_config_def Let_def default_to_def
      is_safe_integer_def MAX_SAFE_INTEGER_def MAX_TIMER_MS_def DEFAULT_DIRECT_CLAIM_DEADLINE_SAFETY_SECONDS_def)

theorem watch_bounded_witness:
  "length (ws_seen (fst (watch_run sample_watch_config None True [Read_Failed False] fresh_watch))) \<le> 10000
   \<and> sleep_ms sample_watch_config [False, False, True] \<le> 35000"
  using watch_bounded [OF sample_watch_accepted, of None True "[Read_Failed False]" "[False, False, True]"]
  by (simp add: sample_watch_config_def)

text \<open>A task that is surfaced, claimed, released and surfaced again.\<close>

definition reopened_task :: task where
  "reopened_task = sample_task\<lparr>t_reserved := [0, 0, 0, 1] @ replicate 12 0\<rparr>"

lemma sample_claimable: "now < 1700000200 \<Longrightarrow> isTaskStateDirectlyClaimable sample_task (now + 30)"
  "now < 1700000200 \<Longrightarrow> isTaskStateDirectlyClaimable reopened_task (now + 30)"
  by (simp_all add: isTaskStateDirectlyClaimable_def sample_task_def reopened_task_def DISPUTE_SAFE_MAX_WORKERS_def)

lemma generation_bytes: "rev [3..<11] = [10, 9, 8, 7, 6, 5, 4, 3]"
  by (simp add: upt_rec)

lemma sample_reserved: "t_reserved sample_task = replicate 16 0"
  "t_reserved reopened_task = [0, 0, 0, 1] @ replicate 12 0"
  by (simp_all add: sample_task_def reopened_task_def)

lemma sample_generations: "claimGeneration sample_task = 0" "claimGeneration reopened_task = 1"
  by (simp_all add: claimGeneration_def generation_bytes sample_reserved nth_append)

lemma sample_open: "isZeroWorkerOpen sample_task" "isZeroWorkerOpen reopened_task"
  by (simp_all add: isZeroWorkerOpen_def sample_task_def reopened_task_def)

theorem no_needless_redelivery_witness:
  "snd (watch_run sample_watch_config None True
     [Event ''c'' 0 0 ''t'' (Some sample_task) 1700000100 1700000100 False,
      Event ''c'' 0 0 ''t'' (Some reopened_task) 1700000150 1700000150 False] fresh_watch)
     = [] @ Admitted ''t'' sample_task True # [] @ Admitted ''t'' reopened_task True # []
   \<and> isZeroWorkerOpen reopened_task \<and> claimGeneration sample_task < claimGeneration reopened_task"
proof -
  have run: "snd (watch_run sample_watch_config None True
     [Event ''c'' 0 0 ''t'' (Some sample_task) 1700000100 1700000100 False,
      Event ''c'' 0 0 ''t'' (Some reopened_task) 1700000150 1700000150 False] fresh_watch)
     = [] @ Admitted ''t'' sample_task True # [] @ Admitted ''t'' reopened_task True # []"
    using sample_claimable(1) [of 1700000100] sample_claimable(2) [of 1700000150]
    by (simp add: watch_step_def matchesFilter_def offer_task_def sample_watch_config_def fresh_watch_def
        addIfAbsent_def sample_generations sample_open Let_def task_key_def)
  from no_needless_redelivery [OF run] show ?thesis using run sample_generations sample_open by simp
qed

theorem claimable_task_surfaced_witness:
  "\<exists>candidates pinned n.
     sweep_read sample_kit (\<lambda>_. answers sample_kit sample_snapshot) (answers sample_kit sample_snapshot) 1700000100 None 30
       = Inr (candidates, pinned) \<and>
     Admitted (replicate 32 CHR ''t'') sample_task True \<in> set (snd (watch_run sample_watch_config None True
       (Swept candidates pinned # replicate n (Offered 1700000100 1700000101 False)) fresh_watch))"
proof -
  have safety: "wc_deadlineSafetySeconds sample_watch_config = 30" by (simp add: sample_watch_config_def)
  have "pin_valid sample_job_spec" by code_simp
  then show ?thesis
    using sample_claimable(1) [of 1700000100] sample_claimable(1) [of 1700000101]
    by (intro claimable_task_surfaced [where st = fresh_watch and inputs = "[]" and c = sample_watch_config
          and b = "replicate 32 CHR ''j''" and j = sample_job_spec, unfolded safety])
      (simp_all add: sample_snapshot_ok, simp_all add: sample_snapshot_def options_ok_def watch_query_def task_wanted_def
        fresh_watch_def sample_job_spec_def keys_of_def sample_watch_config_def)
qed

end
