(* ===== verification/SdkErrors.thy ===== *)
theory SdkErrors
  imports JsText
begin

text \<open>
  What the SDK makes of a failed transaction (\<open>client/errors.ts\<close>): the custom program error, the logs and the
  signature found along a chain of causes, whether it is a blockhash expiry, and the \<open>AgencError\<close>.
\<close>

section \<open>Thrown values\<close>

text \<open>A thrown value is a string, another primitive, an object (an \<open>Error\<close>) or an \<open>AgencError\<close>.  An object has its own
  properties, a cause, a brand if it is a \<open>SolanaError\<close> of the Solana kit, and may be frozen.\<close>

datatype solana_code =
    BLOCK_HEIGHT_EXCEEDED
  | BLOCKHASH_NOT_FOUND
  | PREFLIGHT_FAILURE
  | INSTRUCTION_CUSTOM

record err_object =
  eo_solana :: "solana_code option"
  eo_frozen :: bool
  eo_fields :: fields

record agenc_error =
  ae_message :: string
  ae_code :: "int option"
  ae_errorName :: "string option"
  ae_logs :: "string list"
  ae_signature :: "string option"

datatype thrown =
    Err_Text string
  | Err_Primitive
  | Err_Object err_object "thrown option"
  | Err_Agenc agenc_error "thrown option"

definition nullable :: "('a \<Rightarrow> json) \<Rightarrow> 'a option \<Rightarrow> json" where
  "nullable f v = (case v of None \<Rightarrow> JNull | Some x \<Rightarrow> f x)"

fun own_fields :: "thrown \<Rightarrow> fields" where
  "own_fields (Err_Object obj c) = eo_fields obj"
| "own_fields (Err_Agenc e c) =
     [(''message'', JStr (ae_message e)), (''code'', nullable JInt (ae_code e)),
      (''errorName'', nullable JStr (ae_errorName e)), (''logs'', JArr (map JStr (ae_logs e))),
      (''signature'', nullable JStr (ae_signature e))]"
| "own_fields _ = []"

fun cause_of :: "thrown \<Rightarrow> thrown option" where
  "cause_of (Err_Object obj c) = c"
| "cause_of (Err_Agenc e c) = c"
| "cause_of _ = None"

text \<open>A property of what may be an object.\<close>

fun prop_of :: "json option \<Rightarrow> string \<Rightarrow> json option" where
  "prop_of (Some (JObj fs)) p = field fs p"
| "prop_of _ p = None"

definition own_prop :: "thrown \<Rightarrow> string \<Rightarrow> json option" where
  "own_prop e p = field (own_fields e) p"

fun isSolanaError :: "thrown \<Rightarrow> solana_code \<Rightarrow> bool" where
  "isSolanaError (Err_Object obj c) code = (eo_solana obj = Some code)"
| "isSolanaError _ code = False"

definition MAX_CAUSE_DEPTH :: nat where "MAX_CAUSE_DEPTH = 16"

fun cause_links :: "nat \<Rightarrow> thrown option \<Rightarrow> thrown list" where
  "cause_links 0 current = []"
| "cause_links (Suc depth) None = []"
| "cause_links (Suc depth) (Some e) = e # cause_links depth (cause_of e)"

definition causeChain :: "thrown \<Rightarrow> thrown list" where
  "causeChain error = cause_links MAX_CAUSE_DEPTH (Some error)"

fun first_some :: "('a \<Rightarrow> 'b option) \<Rightarrow> 'a list \<Rightarrow> 'b option" where
  "first_some f [] = None"
| "first_some f (x # xs) = (case f x of None \<Rightarrow> first_some f xs | r \<Rightarrow> r)"

lemma first_some_None: "first_some f xs = None \<longleftrightarrow> (\<forall>x\<in>set xs. f x = None)"
  by (induction xs) (auto split: option.splits)

lemma causeChain_head: "causeChain e = e # cause_links 15 (cause_of e)"
  by (simp add: causeChain_def MAX_CAUSE_DEPTH_def numeral_eq_Suc)

section \<open>The custom program error\<close>

definition MAX_SAFE :: nat where "MAX_SAFE = 9007199254740991"

definition is_hex_char :: "char \<Rightarrow> bool" where
  "is_hex_char c \<longleftrightarrow> is_digit c \<or> (let n = of_char c :: nat in (65 \<le> n \<and> n \<le> 70) \<or> (97 \<le> n \<and> n \<le> 102))"

definition radix_value :: "nat \<Rightarrow> string \<Rightarrow> nat" where
  "radix_value radix s = foldl (\<lambda>v c. let n = of_char c :: nat in
     v * radix + (if n \<le> 57 then n - 48 else if n \<le> 70 then n - 55 else n - 87)) 0 s"

text \<open>What \<open>/custom program error:\s*(0x[0-9a-f]+|\d+)/i\<close> finds at the start of a text: the digits and their radix.\<close>

definition code_at :: "string \<Rightarrow> (nat \<times> string) option" where
  "code_at s =
     (if lower_ascii (take 21 s) \<noteq> ''custom program error:'' then None
      else
        (let rest = trim_start (drop 21 s);
             hex = takeWhile is_hex_char (drop 2 rest);
             dec = takeWhile is_digit rest in
         if lower_ascii (take 2 rest) = ''0x'' \<and> hex \<noteq> [] then Some (16, hex)
         else if dec \<noteq> [] then Some (10, dec) else None))"

fun first_code :: "string \<Rightarrow> (nat \<times> string) option" where
  "first_code [] = code_at []"
| "first_code (c # s) = (case code_at (c # s) of None \<Rightarrow> first_code s | r \<Rightarrow> r)"

definition codeFromMessage :: "string \<Rightarrow> int option" where
  "codeFromMessage text = (case first_code text of None \<Rightarrow> None
     | Some (radix, digits) \<Rightarrow>
         let parsed = radix_value radix digits in if parsed \<le> MAX_SAFE then Some (int parsed) else None)"

fun codeFromTransactionErrorShape :: "json \<Rightarrow> int option"
  and code_of_items :: "json list \<Rightarrow> int option"
  and code_of_fields :: "(string \<times> json) list \<Rightarrow> int option" where
  "codeFromTransactionErrorShape (JObj fs) = (case field fs ''Custom'' of
      Some (JInt n) \<Rightarrow> Some n
    | _ \<Rightarrow> code_of_fields fs)"
| "codeFromTransactionErrorShape _ = None"
| "code_of_items (_ # x # _) = codeFromTransactionErrorShape x"
| "code_of_items _ = None"
| "code_of_fields [] = None"
| "code_of_fields ((p, v) # fs) =
     (if p = ''InstructionError'' then (case v of JArr xs \<Rightarrow> code_of_items xs | _ \<Rightarrow> None) else code_of_fields fs)"

definition code_of_prop :: "json option \<Rightarrow> int option" where
  "code_of_prop v = (case v of None \<Rightarrow> None | Some j \<Rightarrow> codeFromTransactionErrorShape j)"

definition string_prop :: "thrown \<Rightarrow> string \<Rightarrow> string option" where
  "string_prop e p = (case own_prop e p of Some (JStr s) \<Rightarrow> Some s | _ \<Rightarrow> None)"

definition code_of_link :: "thrown \<Rightarrow> int option" where
  "code_of_link link =
     first_some id
      [if isSolanaError link INSTRUCTION_CUSTOM
         then (case prop_of (own_prop link ''context'') ''code'' of Some (JInt n) \<Rightarrow> Some n | _ \<Rightarrow> None) else None,
       codeFromTransactionErrorShape (JObj (own_fields link)),
       code_of_prop (own_prop link ''transactionError''),
       code_of_prop (own_prop link ''context''),
       case link of Err_Text s \<Rightarrow> codeFromMessage s | _ \<Rightarrow> None,
       Option.bind (string_prop link ''message'') codeFromMessage]"

definition extractCustomProgramErrorCode :: "thrown \<Rightarrow> string list \<Rightarrow> int option" where
  "extractCustomProgramErrorCode error logs =
     (case first_some code_of_link (causeChain error) of
        Some n \<Rightarrow> Some n
      | None \<Rightarrow> first_some codeFromMessage logs)"

section \<open>Logs and signature\<close>

fun string_items :: "json list \<Rightarrow> string list option" where
  "string_items [] = Some []"
| "string_items (JStr s # xs) = map_option (Cons s) (string_items xs)"
| "string_items _ = None"

definition string_array :: "json option \<Rightarrow> string list option" where
  "string_array v = (case v of Some (JArr xs) \<Rightarrow> string_items xs | _ \<Rightarrow> None)"

definition extractLogs :: "thrown \<Rightarrow> string list" where
  "extractLogs error =
     (case first_some (\<lambda>link. first_some string_array [own_prop link ''logs'', prop_of (own_prop link ''context'') ''logs''])
        (causeChain error) of Some logs \<Rightarrow> logs | None \<Rightarrow> [])"

definition nonempty_string :: "json option \<Rightarrow> string option" where
  "nonempty_string v = (case v of Some (JStr s) \<Rightarrow> if s = [] then None else Some s | _ \<Rightarrow> None)"

definition extractSignature :: "thrown \<Rightarrow> string option" where
  "extractSignature error = first_some (\<lambda>link. nonempty_string (own_prop link ''signature'')) (causeChain error)"

section \<open>Blockhash expiry\<close>

fun matches_terms :: "string list \<Rightarrow> string \<Rightarrow> bool" where
  "matches_terms [] s = True"
| "matches_terms (term # terms) s = (case strip_prefix term s of
      None \<Rightarrow> False | Some rest \<Rightarrow> matches_terms terms (trim_start rest))"

fun containsWhitespaceSeparatedTerms :: "string \<Rightarrow> string list \<Rightarrow> bool" where
  "containsWhitespaceSeparatedTerms [] terms = False"
| "containsWhitespaceSeparatedTerms (c # s) terms =
     (matches_terms terms (c # s) \<or> containsWhitespaceSeparatedTerms s terms)"

definition MAX_CLASSIFIED_ERROR_TEXT_CHARS :: nat where "MAX_CLASSIFIED_ERROR_TEXT_CHARS = 32768"

text \<open>\<open>slice(0, n)\<close> counts UTF-16 units: none for a continuation byte, two for a character outside the basic
  plane.\<close>

fun take_units :: "nat \<Rightarrow> string \<Rightarrow> string" where
  "take_units n [] = []"
| "take_units n (c # s) =
     (let b = of_char c :: nat; units = (if 0x80 \<le> b \<and> b < 0xC0 then 0 else if b \<ge> 0xF0 then 2 else 1) in
      if units \<le> n then c # take_units (n - units) s else [])"

text \<open>\<open>toLowerCase\<close>: of the characters outside ASCII only the Kelvin sign and the dotted capital I have a lower
  case with an ASCII letter; the others are left as they are, which no ASCII search can tell.\<close>

fun lower_case :: "string \<Rightarrow> string" where
  "lower_case [] = []"
| "lower_case (c # s) =
     (if take 3 (codes (c # s)) = [0xE2, 0x84, 0xAA] then CHR ''k'' # lower_case (drop 2 s)
      else if take 2 (codes (c # s)) = [0xC4, 0xB0] then [CHR ''i'', CHR 0xCC, CHR 0x87] @ lower_case (drop 1 s)
      else lower_ascii [c] @ lower_case s)"

text \<open>The text after the first occurrence of a word.\<close>

fun after_word :: "string \<Rightarrow> string \<Rightarrow> string option" where
  "after_word w [] = (if w = [] then Some [] else None)"
| "after_word w (c # s) = (case strip_prefix w (c # s) of None \<Rightarrow> after_word w s | r \<Rightarrow> r)"

fun text_lines :: "string \<Rightarrow> string list" where
  "text_lines [] = [[]]"
| "text_lines (c # s) = (case text_lines s of
      [] \<Rightarrow> []
    | l # ls \<Rightarrow> if c = CHR 0x0A then [] # l # ls else (c # l) # ls)"

definition expired_line :: "string \<Rightarrow> bool" where
  "expired_line l = (case after_word ''blockhash'' l of None \<Rightarrow> False | Some rest \<Rightarrow> after_word ''expired'' rest \<noteq> None)"

definition containsBlockhashExpiredText :: "string \<Rightarrow> bool" where
  "containsBlockhashExpiredText v =
     (let text = lower_case (take_units MAX_CLASSIFIED_ERROR_TEXT_CHARS v) in
      containsWhitespaceSeparatedTerms text [''blockhash'', ''not'', ''found''] \<or>
      containsWhitespaceSeparatedTerms text [''block'', ''height'', ''exceeded''] \<or>
      list_ex expired_line (text_lines text))"

definition blockhash_not_found :: json where
  "blockhash_not_found = JStr ''BlockhashNotFound''"

definition expired_link :: "thrown \<Rightarrow> bool" where
  "expired_link link \<longleftrightarrow>
     isSolanaError link BLOCK_HEIGHT_EXCEEDED \<or> isSolanaError link BLOCKHASH_NOT_FOUND \<or>
     own_prop link ''transactionError'' = Some blockhash_not_found \<or>
     prop_of (own_prop link ''context'') ''err'' = Some blockhash_not_found \<or>
     (case link of Err_Text s \<Rightarrow> containsBlockhashExpiredText s | _ \<Rightarrow> False) \<or>
     (case string_prop link ''message'' of Some m \<Rightarrow> containsBlockhashExpiredText m | None \<Rightarrow> False)"

definition isBlockhashExpiredError :: "thrown \<Rightarrow> bool" where
  "isBlockhashExpiredError error = list_ex expired_link (causeChain error)"

section \<open>Hydration\<close>

text \<open>The constants and the message table of the generated client.\<close>

record error_table =
  et_constants :: "(string \<times> json) list"
  et_message :: "int \<Rightarrow> string option"

definition ERROR_CONSTANT_PREFIX :: string where "ERROR_CONSTANT_PREFIX = ''AGENC_COORDINATION_ERROR__''"

definition codeToErrorName :: "error_table \<Rightarrow> int \<Rightarrow> string option" where
  "codeToErrorName table code =
     first_some (\<lambda>(key, v). if strip_prefix ERROR_CONSTANT_PREFIX key \<noteq> None \<and> v = JInt code then Some key else None)
       (et_constants table)"

definition lookupGeneratedMessage :: "error_table \<Rightarrow> int \<Rightarrow> string option" where
  "lookupGeneratedMessage table code =
     (if codeToErrorName table code = None then None
      else case et_message table code of
          None \<Rightarrow> None
        | Some m \<Rightarrow> if m = [] \<or> m = ''Error message not available in production bundles.'' then None else Some m)"

text \<open>The code in decimal and in hexadecimal.\<close>

fun hex_print :: "nat \<Rightarrow> string" where
  "hex_print n = (if n < 16 then [hex_digit n] else hex_print (n div 16) @ [hex_digit (n mod 16)])"

definition code_text :: "int \<Rightarrow> string" where
  "code_text n = json_int n"

definition code_hex :: "int \<Rightarrow> string" where
  "code_hex n = (if n < 0 then ''-'' @ hex_print (nat (- n)) else hex_print (nat n))"

definition agenc_message :: "error_table \<Rightarrow> int option \<Rightarrow> thrown \<Rightarrow> string" where
  "agenc_message table code error = (case code of
      Some n \<Rightarrow>
        (let label = (case codeToErrorName table n of
               Some name \<Rightarrow> name
             | None \<Rightarrow> ''custom program error 0x'' @ code_hex n @ '' ('' @ code_text n @ '')'') in
         case lookupGeneratedMessage table n of
           Some m \<Rightarrow> label @ '': '' @ m
         | None \<Rightarrow> ''AgenC program error '' @ code_text n @ '' (0x'' @ code_hex n @ '')''
             @ (case codeToErrorName table n of Some name \<Rightarrow> '': '' @ name | None \<Rightarrow> []))
    | None \<Rightarrow>
        (case error of
           Err_Object obj c \<Rightarrow>
             (case nonempty_string (own_prop error ''message'') of
                Some m \<Rightarrow> ''Transaction failed: '' @ m
              | None \<Rightarrow> ''Transaction failed'')
         | _ \<Rightarrow> ''Transaction failed''))"

definition toAgencError :: "error_table \<Rightarrow> thrown \<Rightarrow> thrown" where
  "toAgencError table error = (case error of
      Err_Agenc e c \<Rightarrow> error
    | _ \<Rightarrow>
        (let logs = extractLogs error; code = extractCustomProgramErrorCode error logs in
         Err_Agenc \<lparr>ae_message = agenc_message table code error, ae_code = code,
             ae_errorName = Option.bind code (codeToErrorName table), ae_logs = logs,
             ae_signature = extractSignature error\<rparr> (Some error)))"

fun agenc_signature :: "thrown \<Rightarrow> string option" where
  "agenc_signature (Err_Agenc e c) = ae_signature e"
| "agenc_signature _ = None"

lemma toAgencError_is_agenc: "\<exists>e c. toAgencError table error = Err_Agenc e c"
  by (cases error) (simp_all add: toAgencError_def Let_def)

end
