(* ===== verification/SendPipeline.thy ===== *)
theory SendPipeline
  imports SdkErrors StableJson
begin

text \<open>
  The transaction pipeline of the SDK (\<open>client/client.ts\<close>, \<open>client/transport.ts\<close>): assemble, sign, submit,
  confirm, and what may be signed again after a failure.
\<close>

section \<open>Calls to the venue\<close>

datatype commitment = Processed | Confirmed | Finalized

record signed_tx =
  st_signature :: string
  st_lastValidBlockHeight :: nat

record signature_status =
  ss_confirmationStatus :: "string option"
  ss_err :: json

text \<open>What can be seen of a run: a wire transaction handed to the venue, with the rejection that was the answer, and
  a status the venue gave for a signature.\<close>

datatype send_event =
    Handed signed_tx "thrown option"
  | Seen string "signature_status option"

record net =
  n_tick :: nat
  n_log :: "send_event list"

text \<open>An action is still running when its fuel ends; a thrown value may carry the retry capability, the wire
  signature it is branded with.\<close>

datatype 'a outcome = Running | Threw thrown "string option" | Returned 'a

type_synonym 'a net_act = "net \<Rightarrow> 'a outcome \<times> net"

definition nreturn :: "'a \<Rightarrow> 'a net_act" where
  "nreturn a = (\<lambda>n. (Returned a, n))"

definition nthrow :: "thrown \<Rightarrow> string option \<Rightarrow> 'a net_act" where
  "nthrow e brand = (\<lambda>n. (Threw e brand, n))"

definition nbind :: "'a net_act \<Rightarrow> ('a \<Rightarrow> 'b net_act) \<Rightarrow> 'b net_act" where
  "nbind m f = (\<lambda>n. case m n of
      (Running, n') \<Rightarrow> (Running, n')
    | (Threw e brand, n') \<Rightarrow> (Threw e brand, n')
    | (Returned a, n') \<Rightarrow> f a n')"

definition ncatch :: "'a net_act \<Rightarrow> (thrown \<Rightarrow> string option \<Rightarrow> 'a net_act) \<Rightarrow> 'a net_act" where
  "ncatch m h = (\<lambda>n. case m n of (Threw e brand, n') \<Rightarrow> h e brand n' | r \<Rightarrow> r)"

definition ask :: "(nat \<Rightarrow> 'a) \<Rightarrow> 'a net_act" where
  "ask f = (\<lambda>n. (Returned (f (n_tick n)), n\<lparr>n_tick := Suc (n_tick n)\<rparr>))"

definition record_event :: "send_event \<Rightarrow> unit net_act" where
  "record_event ev = (\<lambda>n. (Returned (), n\<lparr>n_log := n_log n @ [ev]\<rparr>))"

definition ask_or_throw :: "(nat \<Rightarrow> thrown + 'a) \<Rightarrow> 'a net_act" where
  "ask_or_throw f = nbind (ask f) (\<lambda>r. case r of Inl e \<Rightarrow> nthrow e None | Inr a \<Rightarrow> nreturn a)"

text \<open>The transport and what answers it, call by call.  \<open>Polling\<close> and \<open>Subscribed\<close> are the two transports of
  \<open>createRpcTransport\<close>; the confirmation of the second is a helper of the Solana kit, which may also fail to build its
  request.\<close>

datatype transport_kind = Polling | Subscribed | Custom

datatype confirm_answer = Not_Built thrown | Not_Confirmed thrown | Confirmed_Ok

record venue =
  v_kind :: transport_kind
  v_commitment :: "commitment option"
  v_has_status :: bool
  v_timeoutMs :: int
  v_errors :: error_table
  o_blockhash :: "nat \<Rightarrow> thrown + nat"
  o_sign :: "nat \<Rightarrow> nat \<Rightarrow> thrown + signed_tx"
  o_build :: "nat \<Rightarrow> signed_tx \<Rightarrow> thrown option"
  o_send :: "nat \<Rightarrow> signed_tx \<Rightarrow> thrown option"
  o_confirm :: "nat \<Rightarrow> signed_tx \<Rightarrow> confirm_answer"
  o_custom :: "nat \<Rightarrow> signed_tx \<Rightarrow> thrown + json"
  o_status :: "nat \<Rightarrow> string \<Rightarrow> thrown + signature_status option"
  o_height :: "nat \<Rightarrow> thrown + nat"
  o_clock :: "nat \<Rightarrow> int"

section \<open>Classification\<close>

fun COMMITMENT_RANK :: "string \<Rightarrow> int" where
  "COMMITMENT_RANK s = (if s = ''processed'' then 0 else if s = ''confirmed'' then 1 else if s = ''finalized'' then 2 else -1)"

fun commitment_rank :: "commitment \<Rightarrow> int" where
  "commitment_rank Processed = 0"
| "commitment_rank Confirmed = 1"
| "commitment_rank Finalized = 2"

definition commitmentReached :: "string option \<Rightarrow> commitment \<Rightarrow> bool" where
  "commitmentReached status target = (case status of
      None \<Rightarrow> False
    | Some s \<Rightarrow> if s = [] then False else COMMITMENT_RANK s \<ge> commitment_rank target)"

definition plain_error :: "string \<Rightarrow> fields \<Rightarrow> thrown option \<Rightarrow> thrown" where
  "plain_error message fs cause =
     Err_Object \<lparr>eo_solana = None, eo_frozen = False, eo_fields = (''message'', JStr message) # fs\<rparr> cause"

definition thrown_message :: "thrown \<Rightarrow> string \<Rightarrow> string" where
  "thrown_message error signature =
     (case nonempty_string (own_prop error ''message'') of
        Some m \<Rightarrow> m
      | None \<Rightarrow>
          (case error of Err_Text s \<Rightarrow> if s = [] then ''Transaction '' @ signature @ '' failed after submission'' else s
           | _ \<Rightarrow> ''Transaction '' @ signature @ '' failed after submission''))"

definition set_field :: "string \<Rightarrow> json \<Rightarrow> fields \<Rightarrow> fields" where
  "set_field p v fs = (p, v) # List.filter (\<lambda>(q, _). q \<noteq> p) fs"

definition withSignature :: "thrown \<Rightarrow> string \<Rightarrow> thrown" where
  "withSignature error signature =
     (let wrapped = plain_error (thrown_message error signature) [(''signature'', JStr signature)] (Some error) in
      case error of
        Err_Object obj c \<Rightarrow>
          if nonempty_string (own_prop error ''signature'') \<noteq> None then error
          else if eo_frozen obj then wrapped
          else Err_Object (obj\<lparr>eo_fields := set_field ''signature'' (JStr signature) (eo_fields obj)\<rparr>) c
      | Err_Agenc e c \<Rightarrow>
          if nonempty_string (own_prop error ''signature'') \<noteq> None then error
          else Err_Agenc (e\<lparr>ae_signature := Some signature\<rparr>) c
      | _ \<Rightarrow> wrapped)"

definition PREFLIGHT_CODE :: int where "PREFLIGHT_CODE = -32002"

definition isTypedSendTransactionPreflightFailure :: "thrown \<Rightarrow> bool" where
  "isTypedSendTransactionPreflightFailure error =
     list_ex (\<lambda>link. isSolanaError link PREFLIGHT_FAILURE \<or> own_prop link ''code'' = Some (JInt PREFLIGHT_CODE) \<or>
       prop_of (own_prop link ''context'') ''__code'' = Some (JInt PREFLIGHT_CODE)) (causeChain error)"

definition isDirectSendPreflightFailure :: "thrown \<Rightarrow> bool" where
  "isDirectSendPreflightFailure error \<longleftrightarrow>
     isTypedSendTransactionPreflightFailure error \<or>
     list_ex (\<lambda>link. prop_of (own_prop link ''context'') ''err'' = Some blockhash_not_found) (causeChain error)"

definition isBlockhashNotFoundPreflightFailure :: "thrown \<Rightarrow> bool" where
  "isBlockhashNotFoundPreflightFailure error =
     list_ex (\<lambda>link. isSolanaError link BLOCKHASH_NOT_FOUND \<or>
       own_prop link ''transactionError'' = Some blockhash_not_found \<or>
       prop_of (own_prop link ''context'') ''err'' = Some blockhash_not_found) (causeChain error)"

section \<open>The transports\<close>

definition truthy :: "json \<Rightarrow> bool" where
  "truthy j \<longleftrightarrow> j \<notin> {JNull, JBool False, JInt 0, JStr []}"

definition send_result :: "string \<Rightarrow> json" where
  "send_result signature = JObj [(''signature'', JStr signature), (''logs'', JArr [])]"

definition pollStatus :: "venue \<Rightarrow> string \<Rightarrow> signature_status option net_act" where
  "pollStatus v signature =
     nbind (ask_or_throw (\<lambda>t. o_status v t signature)) (\<lambda>status.
     nbind (record_event (Seen signature status)) (\<lambda>_. nreturn status))"

definition EXPIRY_STATUS_RECHECKS :: nat where "EXPIRY_STATUS_RECHECKS = 2"

primrec recheck_status :: "venue \<Rightarrow> string \<Rightarrow> nat \<Rightarrow> signature_status option net_act" where
  "recheck_status v signature 0 = nreturn None"
| "recheck_status v signature (Suc i) =
     nbind (pollStatus v signature) (\<lambda>status.
       case status of Some s \<Rightarrow> nreturn (Some s) | None \<Rightarrow> recheck_status v signature i)"

definition block_height_exceeded :: thrown where
  "block_height_exceeded =
     Err_Object \<lparr>eo_solana = Some BLOCK_HEIGHT_EXCEEDED, eo_frozen = False, eo_fields = []\<rparr> None"

text \<open>A round's status: polled, and polled again before an exceeded block height is taken for an expiry.\<close>

definition round_status :: "venue \<Rightarrow> signed_tx \<Rightarrow> signature_status option net_act" where
  "round_status v tx =
     nbind (pollStatus v (st_signature tx)) (\<lambda>status.
       case status of
         Some s \<Rightarrow> nreturn (Some s)
       | None \<Rightarrow>
           nbind (ask_or_throw (o_height v)) (\<lambda>blockHeight.
             if blockHeight > st_lastValidBlockHeight tx then
               nbind (recheck_status v (st_signature tx) EXPIRY_STATUS_RECHECKS) (\<lambda>status.
                 case status of None \<Rightarrow> nthrow block_height_exceeded None | Some s \<Rightarrow> nreturn (Some s))
             else nreturn None))"

definition the_commitment :: "venue \<Rightarrow> commitment" where
  "the_commitment v = (case v_commitment v of None \<Rightarrow> Confirmed | Some c \<Rightarrow> c)"

definition stringifyTransactionError :: "json \<Rightarrow> string" where
  "stringifyTransactionError err = (case err of JStr s \<Rightarrow> s | _ \<Rightarrow> json_compact err)"

definition failed_transaction :: "string \<Rightarrow> string \<Rightarrow> json \<Rightarrow> fields \<Rightarrow> thrown" where
  "failed_transaction signature detail err fs =
     plain_error (''Transaction '' @ signature @ '' failed: '' @ detail) ((''transactionError'', err) # fs) None"

primrec poll_loop :: "venue \<Rightarrow> signed_tx \<Rightarrow> int \<Rightarrow> nat \<Rightarrow> json net_act" where
  "poll_loop v tx deadline 0 = (\<lambda>n. (Running, n))"
| "poll_loop v tx deadline (Suc fuel) =
     nbind (round_status v tx) (\<lambda>status.
       case status of
         Some s \<Rightarrow>
           if truthy (ss_err s) then nthrow (failed_transaction (st_signature tx) (stringifyTransactionError (ss_err s)) (ss_err s) []) None
           else if commitmentReached (ss_confirmationStatus s) (the_commitment v) then nreturn (send_result (st_signature tx))
           else nbind (ask (o_clock v)) (\<lambda>now.
             if now \<ge> deadline then nthrow (plain_error (''Transaction '' @ st_signature tx @ '' was not confirmed'') [] None) None
             else poll_loop v tx deadline fuel)
       | None \<Rightarrow>
           nbind (ask (o_clock v)) (\<lambda>now.
             if now \<ge> deadline then nthrow (plain_error (''Transaction '' @ st_signature tx @ '' was not confirmed'') [] None) None
             else poll_loop v tx deadline fuel))"

definition rejected_send :: "thrown \<Rightarrow> signed_tx \<Rightarrow> (thrown \<Rightarrow> bool) \<Rightarrow> 'a net_act" where
  "rejected_send error tx raw_preflight =
     (if isTypedSendTransactionPreflightFailure error then
        (if isBlockhashNotFoundPreflightFailure error then nthrow error (Some (st_signature tx)) else nthrow error None)
      else if raw_preflight error then nthrow error None
      else nthrow (withSignature error (st_signature tx)) None)"

definition polling_send :: "venue \<Rightarrow> nat \<Rightarrow> signed_tx \<Rightarrow> json net_act" where
  "polling_send v fuel tx =
     nbind (ask (\<lambda>t. o_build v t tx)) (\<lambda>built.
       case built of
         Some error \<Rightarrow> nthrow error None
       | None \<Rightarrow>
           nbind (ask (\<lambda>t. o_send v t tx)) (\<lambda>answer.
           nbind (record_event (Handed tx answer)) (\<lambda>_.
             case answer of
               Some error \<Rightarrow> rejected_send error tx isDirectSendPreflightFailure
             | None \<Rightarrow>
                 nbind (ask (o_clock v)) (\<lambda>now.
                   ncatch (poll_loop v tx (now + v_timeoutMs v) fuel)
                     (\<lambda>error _. nthrow (withSignature error (st_signature tx)) None)))))"

definition subscribed_send :: "venue \<Rightarrow> signed_tx \<Rightarrow> json net_act" where
  "subscribed_send v tx =
     nbind (ask (\<lambda>t. o_confirm v t tx)) (\<lambda>answer.
       case answer of
         Not_Built error \<Rightarrow> nthrow error None
       | Not_Confirmed error \<Rightarrow>
           nbind (record_event (Handed tx (Some error))) (\<lambda>_. rejected_send error tx (\<lambda>_. False))
       | Confirmed_Ok \<Rightarrow>
           nbind (record_event (Handed tx None)) (\<lambda>_. nreturn (send_result (st_signature tx))))"

definition custom_send :: "venue \<Rightarrow> signed_tx \<Rightarrow> json net_act" where
  "custom_send v tx =
     nbind (ask (\<lambda>t. o_custom v t tx)) (\<lambda>answer.
       case answer of
         Inl error \<Rightarrow> nbind (record_event (Handed tx (Some error))) (\<lambda>_. nthrow error None)
       | Inr result \<Rightarrow> nbind (record_event (Handed tx None)) (\<lambda>_. nreturn result))"

definition sendAndConfirm :: "venue \<Rightarrow> nat \<Rightarrow> signed_tx \<Rightarrow> json net_act" where
  "sendAndConfirm v fuel tx = (case v_kind v of
      Polling \<Rightarrow> polling_send v fuel tx
    | Subscribed \<Rightarrow> subscribed_send v tx
    | Custom \<Rightarrow> custom_send v tx)"

section \<open>The client\<close>

definition hydrateAmbiguousTransportFailure :: "venue \<Rightarrow> signed_tx \<Rightarrow> thrown \<Rightarrow> thrown" where
  "hydrateAmbiguousTransportFailure v tx error =
     (let hydrated = toAgencError (v_errors v) error in
      if agenc_signature hydrated = Some (st_signature tx) then hydrated
      else case hydrated of
          Err_Agenc e c \<Rightarrow> Err_Agenc (e\<lparr>ae_message := ae_message e @ ''; the submission outcome is unknown'',
              ae_signature := Some (st_signature tx)\<rparr>) (Some error)
        | _ \<Rightarrow> hydrated)"

definition validateTransportSendResult :: "signed_tx \<Rightarrow> json \<Rightarrow> thrown + json" where
  "validateTransportSendResult tx result =
     (let defect = (\<lambda>s. Inl (plain_error (s @ ''; the local transaction's outcome is unknown'') [] None)) in
      case result of
        JObj fs \<Rightarrow>
          (case nonempty_string (field fs ''signature'') of
             None \<Rightarrow> defect ''the transport returned an empty or non-string success signature''
           | Some s \<Rightarrow>
               if s \<noteq> st_signature tx then defect (''the transport reported success for signature '' @ s)
               else if string_array (field fs ''logs'') = None then defect ''the transport returned malformed success logs''
               else Inr result)
      | JArr xs \<Rightarrow> defect ''the transport returned an empty or non-string success signature''
      | _ \<Rightarrow> defect ''the transport returned a malformed success result'')"

definition status_rank :: "string option \<Rightarrow> int" where
  "status_rank s = (if s = Some ''finalized'' then 2 else if s = Some ''confirmed'' then 1
     else if s = Some ''processed'' then 0 else -1)"

definition unknown_outcome :: "venue \<Rightarrow> signed_tx \<Rightarrow> thrown option \<Rightarrow> string \<Rightarrow> 'a net_act" where
  "unknown_outcome v tx submittedFailure reason =
     nthrow (toAgencError (v_errors v)
       (plain_error (''Transaction '' @ st_signature tx @ '' expired after submission, but '' @ reason)
         [(''signature'', JStr (st_signature tx))]
         (case submittedFailure of None \<Rightarrow> None
          | Some f \<Rightarrow> (case cause_of f of None \<Rightarrow> Some f | c \<Rightarrow> c)))) None"

text \<open>\<open>resolveLandedAttempt\<close>: without a submitted failure the absence of a status is no error.\<close>

definition resolveLandedAttempt :: "venue \<Rightarrow> signed_tx \<Rightarrow> thrown option \<Rightarrow> json option net_act" where
  "resolveLandedAttempt v tx submittedFailure =
     (let signature = st_signature tx;
          unless_submitted = (\<lambda>reason. if submittedFailure \<noteq> None then unknown_outcome v tx submittedFailure reason
            else nreturn None) in
      if (case Option.bind submittedFailure agenc_signature of None \<Rightarrow> False | Some s \<Rightarrow> s \<noteq> signature)
      then unknown_outcome v tx submittedFailure ''the transport reported a different signature''
      else if \<not> v_has_status v then unless_submitted ''the transport cannot look up its status''
      else
        nbind (ask (\<lambda>t. o_status v t signature)) (\<lambda>answer.
          case answer of
            Inl e \<Rightarrow> unless_submitted ''its status lookup failed''
          | Inr status \<Rightarrow>
              nbind (record_event (Seen signature status)) (\<lambda>_.
                case status of
                  None \<Rightarrow> unless_submitted ''its cluster status is still unknown''
                | Some s \<Rightarrow>
                    if ss_err s \<noteq> JNull then
                      nthrow (toAgencError (v_errors v)
                        (failed_transaction signature (json_compact (ss_err s)) (ss_err s) [(''signature'', JStr signature)])) None
                    else if status_rank (ss_confirmationStatus s) < commitment_rank (the_commitment v) then
                      nthrow (toAgencError (v_errors v) (plain_error (''Transaction '' @ signature @ '' is pending'')
                        [(''signature'', JStr signature)] None)) None
                    else nreturn (Some (send_result signature)))))"

definition sign_attempt :: "venue \<Rightarrow> signed_tx net_act" where
  "sign_attempt v =
     ncatch (nbind (ask_or_throw (o_blockhash v)) (\<lambda>lastValidBlockHeight.
         ask_or_throw (\<lambda>t. o_sign v t lastValidBlockHeight)))
       (\<lambda>error _. nthrow (toAgencError (v_errors v) error) None)"

definition one_attempt :: "venue \<Rightarrow> nat \<Rightarrow> json net_act option \<Rightarrow> json net_act" where
  "one_attempt v fuel again =
     nbind (sign_attempt v) (\<lambda>tx.
       ncatch
         (nbind (sendAndConfirm v fuel tx) (\<lambda>result.
            case validateTransportSendResult tx result of Inl e \<Rightarrow> nthrow e None | Inr r \<Rightarrow> nreturn r))
         (\<lambda>error brand.
            let expired = isBlockhashExpiredError error in
            if brand = Some (st_signature tx) then
              (case again of
                 Some retry \<Rightarrow> if expired then retry else nthrow (toAgencError (v_errors v) error) None
               | None \<Rightarrow> nthrow (toAgencError (v_errors v) error) None)
            else
              (let submittedFailure = hydrateAmbiguousTransportFailure v tx error in
               if expired then
                 nbind (resolveLandedAttempt v tx (Some submittedFailure)) (\<lambda>landed.
                   case landed of Some r \<Rightarrow> nreturn r | None \<Rightarrow> nthrow submittedFailure None)
               else nthrow submittedFailure None)))"

text \<open>\<open>send\<close>, with the number of times it may sign again; the second argument bounds each polling loop.\<close>

primrec send_attempts :: "venue \<Rightarrow> nat \<Rightarrow> nat \<Rightarrow> json net_act" where
  "send_attempts v fuel 0 = one_attempt v fuel None"
| "send_attempts v fuel (Suc retries) = one_attempt v fuel (Some (send_attempts v fuel retries))"

end
