(* ===== verification/SendProps.thy ===== *)
theory SendProps
  imports SendPipeline
begin

text \<open>
  What the pipeline guarantees: a transaction is signed again only after a refusal before broadcast, an error names
  the transaction that may have landed, a success is backed by a status, and a send returns.
\<close>

section \<open>Runs of actions\<close>

lemmas net_simps = nbind_def ncatch_def nreturn_def nthrow_def ask_def record_event_def ask_or_throw_def

text \<open>The transactions handed to the venue, with the answers; a refusal before broadcast.\<close>

fun handed :: "send_event list \<Rightarrow> (signed_tx \<times> thrown option) list" where
  "handed [] = []"
| "handed (Handed tx answer # l) = (tx, answer) # handed l"
| "handed (Seen s st # l) = handed l"

lemma handed_append [simp]: "handed (l @ l') = handed l @ handed l'"
  by (induction l rule: handed.induct) simp_all

definition refused :: "venue \<Rightarrow> signed_tx \<times> thrown option \<Rightarrow> bool" where
  "refused v h \<longleftrightarrow> v_kind v \<noteq> Custom \<and>
     (\<exists>e. snd h = Some e \<and> isTypedSendTransactionPreflightFailure e)"

text \<open>An action that only adds to the log, and hands nothing over.\<close>

definition only_reads :: "'a net_act \<Rightarrow> bool" where
  "only_reads m \<longleftrightarrow> (\<forall>n r n'. m n = (r, n') \<longrightarrow> (\<exists>l. n_log n' = n_log n @ l \<and> handed l = []))"

lemma only_reads_basic [simp]: "only_reads (nreturn a)" "only_reads (nthrow e b)" "only_reads (ask f)"
  "only_reads (record_event (Seen s st))"
  by (auto simp: only_reads_def net_simps)

lemma only_reads_bind [intro]:
  assumes "only_reads m" "\<And>a. only_reads (f a)"
  shows "only_reads (nbind m f)"
  unfolding only_reads_def nbind_def
proof (intro allI impI)
  fix n r n'
  assume run: "(case m n of (Running, n') \<Rightarrow> (Running, n') | (Threw e brand, n') \<Rightarrow> (Threw e brand, n')
    | (Returned a, n') \<Rightarrow> f a n') = (r, n')"
  obtain r1 n1 where m: "m n = (r1, n1)" by (cases "m n")
  obtain l where l: "n_log n1 = n_log n @ l" "handed l = []" using assms(1) m unfolding only_reads_def by blast
  show "\<exists>l. n_log n' = n_log n @ l \<and> handed l = []"
  proof (cases r1)
    case (Returned a)
    then have "f a n1 = (r, n')" using run m by simp
    then obtain l' where "n_log n' = n_log n1 @ l'" "handed l' = []" using assms(2) unfolding only_reads_def by blast
    then show ?thesis using l by (intro exI [of _ "l @ l'"]) simp
  qed (use run m l in auto)
qed

lemma only_reads_catch [intro]:
  assumes "only_reads m" "\<And>e b. only_reads (h e b)"
  shows "only_reads (ncatch m h)"
  unfolding only_reads_def ncatch_def
proof (intro allI impI)
  fix n r n'
  assume run: "(case m n of (Running, n') \<Rightarrow> (Running, n') | (Threw e brand, n') \<Rightarrow> h e brand n'
    | (Returned a, n') \<Rightarrow> (Returned a, n')) = (r, n')"
  obtain r1 n1 where m: "m n = (r1, n1)" by (cases "m n")
  obtain l where l: "n_log n1 = n_log n @ l" "handed l = []" using assms(1) m unfolding only_reads_def by blast
  show "\<exists>l. n_log n' = n_log n @ l \<and> handed l = []"
  proof (cases r1)
    case (Threw e b)
    then have "h e b n1 = (r, n')" using run m by simp
    then obtain l' where "n_log n' = n_log n1 @ l'" "handed l' = []" using assms(2) unfolding only_reads_def by blast
    then show ?thesis using l by (intro exI [of _ "l @ l'"]) simp
  qed (use run m l in auto)
qed

lemma only_reads_ask_or_throw [simp]: "only_reads (ask_or_throw f)"
  unfolding ask_or_throw_def by (intro only_reads_bind) (auto split: sum.split)

lemma only_reads_poll [simp]: "only_reads (pollStatus v s)"
  unfolding pollStatus_def by (intro only_reads_bind) auto

lemma only_reads_recheck [simp]: "only_reads (recheck_status v s i)"
  by (induction i) (auto intro!: only_reads_bind split: option.split)

lemma only_reads_round [simp]: "only_reads (round_status v tx)"
  unfolding round_status_def by (intro only_reads_bind only_reads_poll) (auto intro!: only_reads_bind split: option.split)

lemma only_reads_loop [simp]: "only_reads (poll_loop v tx deadline fuel)"
proof (induction fuel)
  case 0
  then show ?case by (auto simp: only_reads_def)
next
  case (Suc fuel)
  then show ?case by (auto intro!: only_reads_bind split: option.split)
qed

lemma only_reads_unknown [simp]: "only_reads (unknown_outcome v tx f reason)"
  by (simp add: unknown_outcome_def)

lemma only_reads_resolve [simp]: "only_reads (resolveLandedAttempt v tx f)"
  unfolding resolveLandedAttempt_def Let_def
  by (auto intro!: only_reads_bind split: option.split sum.split)

lemma only_reads_sign [simp]: "only_reads (sign_attempt v)"
  unfolding sign_attempt_def by (auto intro!: only_reads_bind only_reads_catch)

lemma only_readsD:
  assumes "only_reads m" "m n = (r, n')"
  shows "handed (n_log n') = handed (n_log n)"
  using assms unfolding only_reads_def by fastforce

section \<open>One attempt\<close>

lemma toAgencError_signature:
  assumes "nonempty_string (own_prop e ''signature'') = Some s"
  shows "agenc_signature (toAgencError table e) = Some s"
proof (cases e)
  case (Err_Agenc a c)
  then show ?thesis
    using assms by (auto simp: toAgencError_def own_prop_def nullable_def nonempty_string_def split: option.splits if_splits)
qed (use assms in \<open>simp_all add: toAgencError_def Let_def extractSignature_def causeChain_head\<close>)

lemma hydrated_signature: "agenc_signature (hydrateAmbiguousTransportFailure v tx e) = Some (st_signature tx)"
proof -
  obtain a c where "toAgencError (v_errors v) e = Err_Agenc a c" using toAgencError_is_agenc by blast
  then show ?thesis by (simp add: hydrateAmbiguousTransportFailure_def Let_def)
qed

lemma plain_error_signature: "s \<noteq> [] \<Longrightarrow>
    agenc_signature (toAgencError table (plain_error m [(''signature'', JStr s)] c)) = Some s"
  by (rule toAgencError_signature) (simp_all add: plain_error_def own_prop_def nonempty_string_def)

lemma failed_transaction_signature: "s \<noteq> [] \<Longrightarrow>
    agenc_signature (toAgencError table (failed_transaction s d err [(''signature'', JStr s)])) = Some s"
  by (rule toAgencError_signature) (simp_all add: failed_transaction_def plain_error_def own_prop_def nonempty_string_def)

lemma unknown_outcome_signature:
  "st_signature tx \<noteq> [] \<Longrightarrow> unknown_outcome v tx f reason n = (Threw e b, n') \<Longrightarrow> agenc_signature e = Some (st_signature tx)"
  by (auto simp: unknown_outcome_def nthrow_def plain_error_signature)

definition result_signature :: "json \<Rightarrow> string option" where
  "result_signature r = nonempty_string (prop_of (Some r) ''signature'')"

lemma send_result_signature: "s \<noteq> [] \<Longrightarrow> result_signature (send_result s) = Some s"
  by (simp add: result_signature_def send_result_def nonempty_string_def)

lemma validated_signature: "validateTransportSendResult tx r = Inr r' \<Longrightarrow> r' = r \<and> result_signature r = Some (st_signature tx)"
  by (auto simp: validateTransportSendResult_def result_signature_def Let_def split: json.splits option.splits if_splits)

lemma resolve_result:
  assumes "st_signature tx \<noteq> []" "resolveLandedAttempt v tx (Some f) n = (r, n')"
  shows "r \<noteq> Returned None" "r = Threw e b \<Longrightarrow> agenc_signature e = Some (st_signature tx)"
    "r = Returned (Some res) \<Longrightarrow> res = send_result (st_signature tx)"
proof -
  have "r \<noteq> Returned None \<and> (\<forall>e b. r = Threw e b \<longrightarrow> agenc_signature e = Some (st_signature tx)) \<and>
     (\<forall>res. r = Returned (Some res) \<longrightarrow> res = send_result (st_signature tx))"
    using assms
    by (auto simp: resolveLandedAttempt_def Let_def net_simps unknown_outcome_def plain_error_signature
        failed_transaction_signature split: if_splits sum.splits option.splits)
  then show "r \<noteq> Returned None" "r = Threw e b \<Longrightarrow> agenc_signature e = Some (st_signature tx)"
    "r = Returned (Some res) \<Longrightarrow> res = send_result (st_signature tx)" by auto
qed

text \<open>What the transport may hand over, and when a failure carries the retry capability.\<close>

lemma transport_step:
  assumes "sendAndConfirm v fuel tx n = (r, n')"
  shows "handed (n_log n') = handed (n_log n) \<and> (\<exists>e. r = Threw e None)
    \<or> (\<exists>answer. handed (n_log n') = handed (n_log n) @ [(tx, answer)] \<and>
        (\<forall>e b. r = Threw e (Some b) \<longrightarrow> b = st_signature tx \<and> refused v (tx, answer)))"
proof (cases "v_kind v")
  case Polling
  show ?thesis
  proof (cases "o_build v (n_tick n) tx")
    case (Some e)
    then show ?thesis using assms Polling by (auto simp: sendAndConfirm_def polling_send_def net_simps)
  next
    case None
    let ?answer = "o_send v (Suc (n_tick n)) tx"
    let ?n = "n\<lparr>n_tick := Suc (Suc (n_tick n)), n_log := n_log n @ [Handed tx ?answer]\<rparr>"
    show ?thesis
    proof (cases ?answer)
      case (Some e)
      then show ?thesis
        using assms Polling None
        by (auto simp: sendAndConfirm_def polling_send_def net_simps rejected_send_def refused_def split: if_splits)
    next
      case ok: None
      let ?m = "nbind (ask (o_clock v)) (\<lambda>now. ncatch (poll_loop v tx (now + v_timeoutMs v) fuel)
          (\<lambda>error _. nthrow (withSignature error (st_signature tx)) None))"
      have run: "?m ?n = (r, n')" using assms Polling None ok by (simp add: sendAndConfirm_def polling_send_def net_simps)
      have "only_reads ?m" by (auto intro!: only_reads_bind only_reads_catch)
      from only_readsD [OF this run] have "handed (n_log n') = handed (n_log n) @ [(tx, ?answer)]" by simp
      moreover have "r \<noteq> Threw e (Some b)" for e b
        using run by (auto simp: net_simps split: prod.splits outcome.splits)
      ultimately show ?thesis by blast
    qed
  qed
next
  case Subscribed
  then show ?thesis
    using assms by (auto simp: sendAndConfirm_def subscribed_send_def net_simps rejected_send_def refused_def
        split: confirm_answer.splits if_splits)
next
  case Custom
  then show ?thesis
    using assms by (auto simp: sendAndConfirm_def custom_send_def net_simps split: sum.splits)
qed


text \<open>Every signed transaction has a signature.\<close>

definition signs :: "venue \<Rightarrow> bool" where
  "signs v \<longleftrightarrow> (\<forall>t h tx. o_sign v t h = Inr tx \<longrightarrow> st_signature tx \<noteq> [])"

lemma sign_step:
  assumes "signs v" "sign_attempt v n = (r, n')"
  shows "handed (n_log n') = handed (n_log n)" "(\<exists>e. r = Threw e None) \<or> (\<exists>tx. r = Returned tx \<and> st_signature tx \<noteq> [])"
  using assms(2) only_readsD [OF only_reads_sign assms(2)] assms(1) [unfolded signs_def]
  by (auto simp: sign_attempt_def net_simps split: sum.splits)

section \<open>What a send leaves behind\<close>

fun names :: "json outcome \<Rightarrow> string \<Rightarrow> bool" where
  "names Running s = True"
| "names (Threw e b) s = (agenc_signature e = Some s)"
| "names (Returned r) s = (result_signature r = Some s)"

definition safe_log :: "venue \<Rightarrow> (signed_tx \<times> thrown option) list \<Rightarrow> json outcome \<Rightarrow> bool" where
  "safe_log v hs out \<longleftrightarrow> list_all (refused v) (butlast hs) \<and>
     (hs \<noteq> [] \<and> \<not> refused v (last hs) \<longrightarrow> names out (st_signature (fst (last hs))))"

lemma safe_log_refused: "list_all (refused v) hs \<Longrightarrow> safe_log v hs out"
  by (cases hs rule: rev_cases) (auto simp: safe_log_def)

lemma safe_log_snoc: "list_all (refused v) hs \<Longrightarrow> names out (st_signature tx) \<Longrightarrow> safe_log v (hs @ [(tx, answer)]) out"
  by (simp add: safe_log_def)

text \<open>What the client does with a rejection.\<close>

definition on_failure :: "venue \<Rightarrow> json net_act option \<Rightarrow> signed_tx \<Rightarrow> thrown \<Rightarrow> string option \<Rightarrow> json net_act" where
  "on_failure v again tx error brand =
     (let expired = isBlockhashExpiredError error in
      if brand = Some (st_signature tx) then
        (case again of
           Some retry \<Rightarrow> if expired then retry else nthrow (toAgencError (v_errors v) error) None
         | None \<Rightarrow> nthrow (toAgencError (v_errors v) error) None)
      else
        (let submittedFailure = hydrateAmbiguousTransportFailure v tx error in
         if expired then
           nbind (resolveLandedAttempt v tx (Some submittedFailure)) (\<lambda>landed.
             case landed of Some r \<Rightarrow> nreturn r | None \<Rightarrow> nthrow submittedFailure None)
         else nthrow submittedFailure None))"

definition checked_send :: "venue \<Rightarrow> nat \<Rightarrow> signed_tx \<Rightarrow> json net_act" where
  "checked_send v fuel tx = nbind (sendAndConfirm v fuel tx) (\<lambda>result.
     case validateTransportSendResult tx result of Inl e \<Rightarrow> nthrow e None | Inr r \<Rightarrow> nreturn r)"

lemma one_attempt_alt:
  "one_attempt v fuel again = nbind (sign_attempt v) (\<lambda>tx. ncatch (checked_send v fuel tx) (on_failure v again tx))"
  by (simp add: one_attempt_def checked_send_def on_failure_def [abs_def])

lemma unbranded_failure:
  assumes "st_signature tx \<noteq> []" "on_failure v again tx e b n = (out, n')" "b \<noteq> Some (st_signature tx)"
  shows "handed (n_log n') = handed (n_log n) \<and> names out (st_signature tx)"
proof (cases "isBlockhashExpiredError e")
  case False
  then show ?thesis using assms by (auto simp: on_failure_def nthrow_def hydrated_signature)
next
  case True
  let ?f = "hydrateAmbiguousTransportFailure v tx e"
  obtain r3 n4 where res: "resolveLandedAttempt v tx (Some ?f) n = (r3, n4)"
    by (cases "resolveLandedAttempt v tx (Some ?f) n")
  have "names r3' (st_signature tx)" if "r3 = Returned (Some res)" "r3' = Returned res" for r3' res
    using resolve_result(3) [OF assms(1) res] that by (simp add: send_result_signature [OF assms(1)])
  moreover have "names (Threw e' b') (st_signature tx)" if "r3 = Threw e' b'" for e' b'
    using resolve_result(2) [OF assms(1) res] that by simp
  ultimately show ?thesis
    using assms(2,3) True res only_readsD [OF only_reads_resolve res] resolve_result(1) [OF assms(1) res]
    by (cases r3) (auto simp: on_failure_def Let_def net_simps split: option.splits)
qed

lemma checked_step:
  assumes "checked_send v fuel tx n = (r, n')"
  shows "handed (n_log n') = handed (n_log n) \<and> (\<exists>e. r = Threw e None)
    \<or> (\<exists>answer. handed (n_log n') = handed (n_log n) @ [(tx, answer)] \<and>
        (\<forall>e b. r = Threw e (Some b) \<longrightarrow> b = st_signature tx \<and> refused v (tx, answer)) \<and>
        (\<forall>j. r = Returned j \<longrightarrow> result_signature j = Some (st_signature tx)))"
proof -
  obtain r2 n2 where sent: "sendAndConfirm v fuel tx n = (r2, n2)" by (cases "sendAndConfirm v fuel tx n")
  show ?thesis
    using transport_step [OF sent] assms sent
    by (cases r2) (auto simp: checked_send_def net_simps dest: validated_signature split: sum.splits)
qed

lemma attempt_safe:
  assumes v: "signs v"
    and before: "list_all (refused v) (handed (n_log n))"
    and again: "\<And>retry n1 out n2. again = Some retry \<Longrightarrow> retry n1 = (out, n2) \<Longrightarrow>
      list_all (refused v) (handed (n_log n1)) \<Longrightarrow> safe_log v (handed (n_log n2)) out"
    and run: "one_attempt v fuel again n = (out, n')"
  shows "safe_log v (handed (n_log n')) out"
proof -
  obtain r1 n1 where sign: "sign_attempt v n = (r1, n1)" by (cases "sign_attempt v n")
  note h1 = sign_step(1) [OF v sign]
  from sign_step(2) [OF v sign] consider e where "r1 = Threw e None" | tx where "r1 = Returned tx" "st_signature tx \<noteq> []"
    by blast
  then show ?thesis
  proof cases
    case 1
    then show ?thesis using run sign h1 before by (simp add: one_attempt_alt nbind_def safe_log_refused)
  next
    case (2 tx)
    obtain r2 n2 where sent: "checked_send v fuel tx n1 = (r2, n2)" by (cases "checked_send v fuel tx n1")
    have run': "ncatch (checked_send v fuel tx) (on_failure v again tx) n1 = (out, n')"
      using run sign 2(1) by (simp add: one_attempt_alt nbind_def)
    from checked_step [OF sent] consider
        e where "handed (n_log n2) = handed (n_log n1)" "r2 = Threw e None"
      | answer where "handed (n_log n2) = handed (n_log n1) @ [(tx, answer)]"
          "\<And>e b. r2 = Threw e (Some b) \<Longrightarrow> b = st_signature tx \<and> refused v (tx, answer)"
          "\<And>j. r2 = Returned j \<Longrightarrow> result_signature j = Some (st_signature tx)" by blast
    then show ?thesis
    proof cases
      case 1
      then have "on_failure v again tx e None n2 = (out, n')" using run' sent by (simp add: ncatch_def)
      from unbranded_failure [OF 2(2) this] show ?thesis using 1 h1 before by (simp add: safe_log_refused)
    next
      case (2 answer)
      show ?thesis
      proof (cases r2)
        case (Threw e b)
        then have fail: "on_failure v again tx e b n2 = (out, n')" using run' sent by (simp add: ncatch_def)
        show ?thesis
        proof (cases b)
          case None
          from unbranded_failure [OF \<open>st_signature tx \<noteq> []\<close> fail] None show ?thesis
            using 2(1) h1 before by (simp add: safe_log_snoc)
        next
          case (Some b')
          then have ref: "b = Some (st_signature tx)" "list_all (refused v) (handed (n_log n2))"
            using 2(2) [of e b'] 2(1) h1 before Threw by auto
          show ?thesis
          proof (cases "again \<noteq> None \<and> isBlockhashExpiredError e")
            case True
            then obtain retry where "again = Some retry" "retry n2 = (out, n')"
              using fail ref(1) by (auto simp: on_failure_def)
            then show ?thesis using again ref(2) by blast
          next
            case False
            then have "n' = n2" using fail ref(1) by (auto simp: on_failure_def nthrow_def split: option.splits)
            then show ?thesis using ref(2) by (simp add: safe_log_refused)
          qed
        qed
      qed (use run' sent 2 h1 before in \<open>auto simp: ncatch_def safe_log_snoc\<close>)
    qed
  qed
qed

lemma sends_safe:
  "signs v \<Longrightarrow> list_all (refused v) (handed (n_log n)) \<Longrightarrow> send_attempts v fuel retries n = (out, n') \<Longrightarrow>
    safe_log v (handed (n_log n')) out"
proof (induction retries arbitrary: n out n')
  case 0
  then show ?case by (auto intro: attempt_safe)
next
  case (Suc retries)
  show ?case
    by (rule attempt_safe [OF Suc.prems(1,2) _ Suc.prems(3) [unfolded send_attempts.simps]])
      (use Suc.IH [OF Suc.prems(1)] in auto)
qed

section \<open>Evidence of success\<close>

definition landed_status :: "venue \<Rightarrow> signature_status \<Rightarrow> bool" where
  "landed_status v st \<longleftrightarrow> \<not> truthy (ss_err st) \<and> commitmentReached (ss_confirmationStatus st) (the_commitment v)"

definition evidenced :: "venue \<Rightarrow> send_event list \<Rightarrow> string \<Rightarrow> bool" where
  "evidenced v log s \<longleftrightarrow> (\<exists>st. Seen s (Some st) \<in> set log \<and> landed_status v st) \<or>
     (v_kind v \<noteq> Polling \<and> (\<exists>tx. st_signature tx = s \<and> Handed tx None \<in> set log))"

lemma poll_seen: "pollStatus v s n = (Returned st, n') \<Longrightarrow> Seen s st \<in> set (n_log n')"
  by (auto simp: pollStatus_def net_simps split: sum.splits)

lemma nbind_Returned:
  assumes "nbind m f n = (Returned a, n')"
  obtains b n1 where "m n = (Returned b, n1)" "f b n1 = (Returned a, n')"
  using assms by (auto simp: nbind_def split: prod.splits outcome.splits)

lemma recheck_seen: "recheck_status v s i n = (Returned (Some st), n') \<Longrightarrow> Seen s (Some st) \<in> set (n_log n')"
proof (induction i arbitrary: n)
  case (Suc i)
  then obtain r n1 where "pollStatus v s n = (Returned r, n1)"
    "(case r of Some x \<Rightarrow> nreturn (Some x) | None \<Rightarrow> recheck_status v s i) n1 = (Returned (Some st), n')"
    by (auto elim: nbind_Returned)
  then show ?case using Suc.IH poll_seen [of v s n r n1] by (cases r) (auto simp: nreturn_def)
qed (simp add: nreturn_def)

lemma round_seen:
  assumes "round_status v tx n = (Returned (Some st), n')"
  shows "Seen (st_signature tx) (Some st) \<in> set (n_log n')"
proof -
  from assms obtain r n1 where r: "pollStatus v (st_signature tx) n = (Returned r, n1)"
    "(case r of Some s \<Rightarrow> nreturn (Some s) | None \<Rightarrow> nbind (ask_or_throw (o_height v)) (\<lambda>blockHeight.
        if blockHeight > st_lastValidBlockHeight tx then
          nbind (recheck_status v (st_signature tx) EXPIRY_STATUS_RECHECKS) (\<lambda>status.
            case status of None \<Rightarrow> nthrow block_height_exceeded None | Some s \<Rightarrow> nreturn (Some s))
        else nreturn None)) n1 = (Returned (Some st), n')"
    unfolding round_status_def by (auto elim: nbind_Returned)
  show ?thesis
  proof (cases r)
    case (Some s)
    then show ?thesis using r poll_seen [OF r(1)] by (auto simp: nreturn_def)
  next
    case None
    with r(2) obtain h n2 where
      "(if h > st_lastValidBlockHeight tx then
          nbind (recheck_status v (st_signature tx) EXPIRY_STATUS_RECHECKS) (\<lambda>status.
            case status of None \<Rightarrow> nthrow block_height_exceeded None | Some s \<Rightarrow> nreturn (Some s))
        else nreturn None) n2 = (Returned (Some st), n')"
      by (auto elim: nbind_Returned)
    then obtain r' n3 where "recheck_status v (st_signature tx) EXPIRY_STATUS_RECHECKS n2 = (Returned r', n3)"
      "(case r' of None \<Rightarrow> nthrow block_height_exceeded None | Some s \<Rightarrow> nreturn (Some s)) n3 = (Returned (Some st), n')"
      by (auto elim: nbind_Returned simp: nreturn_def split: if_splits)
    then show ?thesis using recheck_seen by (cases r') (auto simp: nthrow_def nreturn_def)
  qed
qed

lemma loop_evidence:
  "poll_loop v tx deadline fuel n = (Returned r, n') \<Longrightarrow>
    r = send_result (st_signature tx) \<and> (\<exists>st. Seen (st_signature tx) (Some st) \<in> set (n_log n') \<and> landed_status v st)"
proof (induction fuel arbitrary: n)
  case (Suc fuel)
  let ?wait = "nbind (ask (o_clock v)) (\<lambda>now.
     if now \<ge> deadline then nthrow (plain_error (''Transaction '' @ st_signature tx @ '' was not confirmed'') [] None) None
     else poll_loop v tx deadline fuel)"
  have wait: ?case if "?wait n1 = (Returned r, n')" for n1
    using that Suc.IH by (auto elim!: nbind_Returned simp: nthrow_def split: if_splits)
  from Suc.prems obtain st n1 where st: "round_status v tx n = (Returned st, n1)"
    "(case st of Some s \<Rightarrow>
           if truthy (ss_err s) then nthrow (failed_transaction (st_signature tx) (stringifyTransactionError (ss_err s)) (ss_err s) []) None
           else if commitmentReached (ss_confirmationStatus s) (the_commitment v) then nreturn (send_result (st_signature tx))
           else ?wait
       | None \<Rightarrow> ?wait) n1 = (Returned r, n')"
    by (auto elim: nbind_Returned)
  show ?case
  proof (cases st)
    case None
    then show ?thesis using st wait by simp
  next
    case (Some s)
    show ?thesis
    proof (cases "landed_status v s")
      case True
      then show ?thesis using st Some round_seen [of v tx n s n1] by (auto simp: landed_status_def nreturn_def)
    next
      case False
      then show ?thesis using st Some wait by (auto simp: landed_status_def nthrow_def split: if_splits)
    qed
  qed
qed simp

lemma resolve_evidence:
  assumes "resolveLandedAttempt v tx (Some f) n = (Returned (Some r), n')"
  shows "\<exists>st. Seen (st_signature tx) (Some st) \<in> set (n_log n') \<and> landed_status v st"
proof -
  have rank: "commitmentReached c t" if "commitment_rank t \<le> status_rank c" for c t
    using that by (cases t) (auto simp: status_rank_def commitmentReached_def split: if_splits)
  show ?thesis
    using assms
    by (auto simp: resolveLandedAttempt_def Let_def net_simps unknown_outcome_def landed_status_def truthy_def
        intro!: rank split: if_splits sum.splits option.splits)
qed

lemma checked_evidence:
  assumes "checked_send v fuel tx n = (Returned r, n')"
  shows "evidenced v (n_log n') (st_signature tx) \<and> result_signature r = Some (st_signature tx)"
proof -
  from assms obtain j n1 where j: "sendAndConfirm v fuel tx n = (Returned j, n1)"
    "(case validateTransportSendResult tx j of Inl e \<Rightarrow> nthrow e None | Inr r \<Rightarrow> nreturn r) n1 = (Returned r, n')"
    unfolding checked_send_def by (auto elim: nbind_Returned)
  then have r: "n' = n1" "r = j" "result_signature j = Some (st_signature tx)"
    by (auto simp: nthrow_def nreturn_def dest: validated_signature split: sum.splits)
  have "evidenced v (n_log n1) (st_signature tx)"
  proof (cases "v_kind v")
    case Polling
    then have "\<exists>deadline n2. poll_loop v tx deadline fuel n2 = (Returned j, n1)"
      using j(1) by (auto simp: sendAndConfirm_def polling_send_def rejected_send_def net_simps
          split: option.splits if_splits prod.splits outcome.splits)
    then show ?thesis using loop_evidence by (auto simp: evidenced_def)
  qed (use j(1) in \<open>auto simp: sendAndConfirm_def subscribed_send_def custom_send_def rejected_send_def net_simps evidenced_def
        split: confirm_answer.splits sum.splits if_splits\<close>)
  then show ?thesis using r by simp
qed

lemma attempt_evidence:
  assumes v: "signs v" and run: "one_attempt v fuel again n = (Returned r, n')"
    and again: "\<And>retry n1. again = Some retry \<Longrightarrow> retry n1 = (Returned r, n') \<Longrightarrow>
      \<exists>s. result_signature r = Some s \<and> evidenced v (n_log n') s"
  shows "\<exists>s. result_signature r = Some s \<and> evidenced v (n_log n') s"
proof -
  obtain tx n1 where tx: "sign_attempt v n = (Returned tx, n1)" "ncatch (checked_send v fuel tx) (on_failure v again tx) n1 = (Returned r, n')"
    using run unfolding one_attempt_alt by (elim nbind_Returned)
  have named: "st_signature tx \<noteq> []" using sign_step(2) [OF v tx(1)] by simp
  obtain r2 n2 where sent: "checked_send v fuel tx n1 = (r2, n2)" by (cases "checked_send v fuel tx n1")
  show ?thesis
  proof (cases r2)
    case (Returned j)
    then show ?thesis using checked_evidence [of v fuel tx n1 j n2] sent tx(2) by (auto simp: ncatch_def)
  next
    case (Threw e b)
    then have fail: "on_failure v again tx e b n2 = (Returned r, n')" using sent tx(2) by (simp add: ncatch_def)
    show ?thesis
    proof (cases "b = Some (st_signature tx)")
      case True
      then show ?thesis using fail again by (auto simp: on_failure_def nthrow_def split: option.splits if_splits)
    next
      case False
      let ?f = "hydrateAmbiguousTransportFailure v tx e"
      from fail False obtain landed where "resolveLandedAttempt v tx (Some ?f) n2 = (Returned (Some r), n')"
        by (auto simp: on_failure_def Let_def nthrow_def nreturn_def elim!: nbind_Returned split: if_splits option.splits)
      then show ?thesis
        using resolve_evidence resolve_result(3) [OF named] send_result_signature [OF named]
        by (auto simp: evidenced_def)
    qed
  qed (use sent tx(2) in \<open>simp add: ncatch_def\<close>)
qed

lemma sends_evidence:
  "signs v \<Longrightarrow> send_attempts v fuel retries n = (Returned r, n') \<Longrightarrow>
    \<exists>s. result_signature r = Some s \<and> evidenced v (n_log n') s"
proof (induction retries arbitrary: n)
  case (Suc retries)
  show ?case
    by (rule attempt_evidence [OF Suc.prems(1) Suc.prems(2) [unfolded send_attempts.simps]])
      (use Suc.IH [OF Suc.prems(1)] in auto)
qed (auto intro: attempt_evidence)

section \<open>A send returns\<close>

text \<open>An action that ends, and at a later tick.\<close>

definition ends_later :: "nat \<Rightarrow> 'a net_act \<Rightarrow> bool" where
  "ends_later k m \<longleftrightarrow> (\<forall>n r n'. m n = (r, n') \<longrightarrow> r \<noteq> Running \<and> n_tick n + k \<le> n_tick n')"

lemma ends_later_basic: "ends_later 0 (nreturn a)" "ends_later 0 (nthrow e b)" "ends_later 0 (record_event ev)"
  unfolding ends_later_def net_simps by auto

lemma ends_later_ask: "ends_later 1 (ask f)"
  unfolding ends_later_def ask_def by auto

lemma ends_later_bind:
  assumes "ends_later j m" "\<And>a. ends_later 0 (f a)"
  shows "ends_later j (nbind m f)"
  unfolding ends_later_def
proof (intro allI impI)
  fix n r n'
  assume run: "nbind m f n = (r, n')"
  obtain r1 n1 where m: "m n = (r1, n1)" by (cases "m n")
  have "r1 \<noteq> Running" "n_tick n + j \<le> n_tick n1" using assms(1) m unfolding ends_later_def by blast+
  moreover have "r \<noteq> Running \<and> n_tick n1 \<le> n_tick n'" if "r1 = Returned a" for a
    using assms(2) [of a] run m that by (auto simp: ends_later_def nbind_def)
  ultimately show "r \<noteq> Running \<and> n_tick n + j \<le> n_tick n'"
    using run m by (cases r1) (auto simp: nbind_def)
qed

lemma ends_later_0: "ends_later k m \<Longrightarrow> ends_later 0 m"
  by (force simp: ends_later_def)

lemma ends_later_ask_or_throw: "ends_later 1 (ask_or_throw f)"
  unfolding ask_or_throw_def
  by (rule ends_later_bind [OF ends_later_ask]) (auto simp: ends_later_basic split: sum.split)

lemma ends_later_poll: "ends_later 1 (pollStatus v s)"
  unfolding pollStatus_def
  by (intro ends_later_bind ends_later_ask_or_throw ends_later_basic)

lemma ends_later_recheck: "ends_later 0 (recheck_status v s i)"
proof (induction i)
  case (Suc i)
  show ?case unfolding recheck_status.simps
    by (rule ends_later_0 [OF ends_later_bind [OF ends_later_poll]]) (use Suc in \<open>auto simp: ends_later_basic split: option.split\<close>)
qed (simp add: ends_later_basic)

lemma ends_later_round: "ends_later 1 (round_status v tx)"
  unfolding round_status_def
proof (rule ends_later_bind [OF ends_later_poll])
  have "ends_later 0 (nbind (recheck_status v s i) (\<lambda>status.
      case status of None \<Rightarrow> nthrow block_height_exceeded None | Some s \<Rightarrow> nreturn (Some s)))" for s i
    by (rule ends_later_bind [OF ends_later_recheck]) (auto simp: ends_later_basic split: option.split)
  then show "ends_later 0 (case status of Some s \<Rightarrow> nreturn (Some s) | None \<Rightarrow>
      nbind (ask_or_throw (o_height v)) (\<lambda>blockHeight. if st_lastValidBlockHeight tx < blockHeight then
        nbind (recheck_status v (st_signature tx) EXPIRY_STATUS_RECHECKS) (\<lambda>status.
          case status of None \<Rightarrow> nthrow block_height_exceeded None | Some s \<Rightarrow> nreturn (Some s))
        else nreturn None))" for status
    by (cases status) (auto simp: ends_later_basic intro!: ends_later_0 [OF ends_later_bind [OF ends_later_ask_or_throw]])
qed

lemma loop_returns:
  assumes "\<And>t. N \<le> t \<Longrightarrow> deadline \<le> o_clock v t"
  shows "Suc (N - n_tick n) \<le> fuel \<Longrightarrow> fst (poll_loop v tx deadline fuel n) \<noteq> Running"
proof (induction fuel arbitrary: n)
  case (Suc fuel)
  obtain r n1 where st: "round_status v tx n = (r, n1)" by (cases "round_status v tx n")
  then have later: "r \<noteq> Running" "n_tick n < n_tick n1" using ends_later_round [of v tx] unfolding ends_later_def by force+
  have wait: "fst (nbind (ask (o_clock v)) (\<lambda>now.
     if now \<ge> deadline then nthrow (plain_error (''Transaction '' @ st_signature tx @ '' was not confirmed'') [] None) None
     else poll_loop v tx deadline fuel) n1) \<noteq> Running"
  proof (cases "deadline \<le> o_clock v (n_tick n1)")
    case False
    then have "n_tick n1 < N" using assms [of "n_tick n1"] by linarith
    then show ?thesis using False Suc.IH [of "n1\<lparr>n_tick := Suc (n_tick n1)\<rparr>"] Suc.prems later(2) by (simp add: net_simps)
  qed (simp add: net_simps)
  show ?case using st later(1) wait by (cases r) (auto simp: nbind_def nthrow_def nreturn_def split: option.splits)
qed simp

text \<open>Only the polling loop uses fuel, and what it throws is never retried.\<close>

lemma transport_fuel:
  "(\<exists>x. \<forall>fuel. sendAndConfirm v fuel tx n = x \<and> fst x \<noteq> Running) \<or>
   (\<exists>deadline m. \<forall>fuel. sendAndConfirm v fuel tx n =
      ncatch (poll_loop v tx deadline fuel) (\<lambda>error _. nthrow (withSignature error (st_signature tx)) None) m)"
proof (cases "v_kind v")
  case Polling
  then show ?thesis
    by (cases "o_build v (n_tick n) tx"; cases "o_send v (Suc (n_tick n)) tx")
      (auto simp: sendAndConfirm_def polling_send_def rejected_send_def net_simps)
qed (auto simp: sendAndConfirm_def subscribed_send_def custom_send_def rejected_send_def net_simps
      split: confirm_answer.split sum.split)

definition clock_runs :: "venue \<Rightarrow> bool" where
  "clock_runs v \<longleftrightarrow> (\<forall>d. \<exists>N. \<forall>t\<ge>N. d \<le> o_clock v t)"

lemma transport_returns:
  assumes "clock_runs v"
  shows "(\<exists>x. \<forall>fuel. sendAndConfirm v fuel tx n = x \<and> fst x \<noteq> Running) \<or>
    (\<exists>F. \<forall>fuel\<ge>F. fst (sendAndConfirm v fuel tx n) \<noteq> Running \<and>
      (\<forall>e b n'. sendAndConfirm v fuel tx n \<noteq> (Threw e (Some b), n')))"
  using transport_fuel [of v tx n]
proof
  assume "\<exists>deadline m. \<forall>fuel. sendAndConfirm v fuel tx n =
      ncatch (poll_loop v tx deadline fuel) (\<lambda>error _. nthrow (withSignature error (st_signature tx)) None) m"
  then obtain deadline m where run: "\<And>fuel. sendAndConfirm v fuel tx n =
      ncatch (poll_loop v tx deadline fuel) (\<lambda>error _. nthrow (withSignature error (st_signature tx)) None) m" by blast
  obtain N where "\<And>t. N \<le> t \<Longrightarrow> deadline \<le> o_clock v t" using assms unfolding clock_runs_def by meson
  from loop_returns [OF this] have ends: "\<And>fuel. Suc (N - n_tick m) \<le> fuel \<Longrightarrow> fst (poll_loop v tx deadline fuel m) \<noteq> Running" .
  have "fst (sendAndConfirm v fuel tx n) \<noteq> Running" if "Suc (N - n_tick m) \<le> fuel" for fuel
    using ends [OF that] by (auto simp: run ncatch_def nthrow_def split: prod.split outcome.split)
  moreover have "sendAndConfirm v fuel tx n \<noteq> (Threw e (Some b), n')" for fuel e b n'
    by (auto simp: run ncatch_def nthrow_def split: prod.split outcome.split)
  ultimately show ?thesis by blast
qed simp

lemma resolve_ends: "resolveLandedAttempt v tx f n = (r, n') \<Longrightarrow> r \<noteq> Running"
  by (auto simp: resolveLandedAttempt_def Let_def net_simps unknown_outcome_def split: if_splits sum.splits option.splits)

lemma checked_result:
  assumes "sendAndConfirm v fuel tx n = (r, n')" "r \<noteq> Running"
  shows "\<exists>r'. checked_send v fuel tx n = (r', n') \<and> r' \<noteq> Running \<and>
    (\<forall>e b. r' = Threw e (Some b) \<longleftrightarrow> r = Threw e (Some b))"
  using assms by (cases r) (auto simp: checked_send_def net_simps split: sum.split)

lemma failure_ends:
  assumes "\<And>retry. again = Some retry \<Longrightarrow> b = Some (st_signature tx) \<Longrightarrow> fst (retry n) \<noteq> Running"
  shows "fst (on_failure v again tx e b n) \<noteq> Running"
proof -
  have "fst (nbind (resolveLandedAttempt v tx (Some f)) (\<lambda>landed.
      case landed of Some r \<Rightarrow> nreturn r | None \<Rightarrow> nthrow f None) n) \<noteq> Running" for f
    by (cases "resolveLandedAttempt v tx (Some f) n")
      (auto simp: net_simps dest: resolve_ends split: outcome.split option.split)
  moreover have "fst (nthrow e b n) \<noteq> Running" for e b by (simp add: nthrow_def)
  ultimately show ?thesis
    using assms by (auto simp: on_failure_def Let_def simp del: not_None_eq split: option.split)
qed

lemma attempt_returns:
  assumes clock: "clock_runs v"
    and again: "\<And>n. \<exists>F. \<forall>fuel\<ge>F. \<forall>retry. again fuel = Some retry \<longrightarrow> fst (retry n) \<noteq> Running"
  shows "\<exists>F. \<forall>fuel\<ge>F. fst (one_attempt v fuel (again fuel) n) \<noteq> Running"
proof -
  obtain r1 n1 where sign: "sign_attempt v n = (r1, n1)" by (cases "sign_attempt v n")
  have "r1 \<noteq> Running" using sign by (auto simp: sign_attempt_def net_simps split: sum.splits)
  then consider e b where "r1 = Threw e b" | tx where "r1 = Returned tx" by (cases r1) auto
  then show ?thesis
  proof cases
    case 1
    then show ?thesis using sign by (auto simp: one_attempt_alt nbind_def)
  next
    case (2 tx)
    have attempt: "one_attempt v fuel (again fuel) n = ncatch (checked_send v fuel tx) (on_failure v (again fuel) tx) n1" for fuel
      using sign 2 by (simp add: one_attempt_alt nbind_def)
    from transport_returns [OF clock, of tx n1] show ?thesis
    proof
      assume "\<exists>x. \<forall>fuel. sendAndConfirm v fuel tx n1 = x \<and> fst x \<noteq> Running"
      then obtain r2 n2 where x: "\<And>fuel. sendAndConfirm v fuel tx n1 = (r2, n2)" "r2 \<noteq> Running" by force
      obtain F where F: "\<forall>fuel\<ge>F. \<forall>retry. again fuel = Some retry \<longrightarrow> fst (retry n2) \<noteq> Running" using again by blast
      have "fst (one_attempt v fuel (again fuel) n) \<noteq> Running" if "F \<le> fuel" for fuel
      proof -
        obtain r' where c: "checked_send v fuel tx n1 = (r', n2)" "r' \<noteq> Running" using checked_result [OF x(1) x(2)] by blast
        show ?thesis
        proof (cases r')
          case (Threw e b)
          then show ?thesis
            using c F that by (simp add: attempt ncatch_def failure_ends)
        qed (use c in \<open>simp_all add: attempt ncatch_def\<close>)
      qed
      then show ?thesis by blast
    next
      assume "\<exists>F. \<forall>fuel\<ge>F. fst (sendAndConfirm v fuel tx n1) \<noteq> Running \<and>
        (\<forall>e b n'. sendAndConfirm v fuel tx n1 \<noteq> (Threw e (Some b), n'))"
      then obtain F where F: "\<And>fuel. F \<le> fuel \<Longrightarrow> fst (sendAndConfirm v fuel tx n1) \<noteq> Running \<and>
        (\<forall>e b n'. sendAndConfirm v fuel tx n1 \<noteq> (Threw e (Some b), n'))" by blast
      have "fst (one_attempt v fuel (again fuel) n) \<noteq> Running" if le: "F \<le> fuel" for fuel
      proof -
        obtain r2 n2 where r2: "sendAndConfirm v fuel tx n1 = (r2, n2)" by (cases "sendAndConfirm v fuel tx n1")
        have ends: "r2 \<noteq> Running" using F [OF le] unfolding r2 by simp
        have unbranded: "r2 \<noteq> Threw e (Some b)" for e b using F [OF le] unfolding r2 by simp
        obtain r' where c: "checked_send v fuel tx n1 = (r', n2)" "r' \<noteq> Running"
            "\<And>e b. r' = Threw e (Some b) \<longleftrightarrow> r2 = Threw e (Some b)"
          using checked_result [OF r2 ends] by auto
        show ?thesis
        proof (cases r')
          case (Threw e b)
          then have "b = None" using c(3) [of e "the b"] unbranded by (cases b) simp_all
          then show ?thesis using c Threw failure_ends [of "again fuel" None] by (simp add: attempt ncatch_def)
        qed (use c in \<open>simp_all add: attempt ncatch_def\<close>)
      qed
      then show ?thesis by blast
    qed
  qed
qed

lemma sends_return: "clock_runs v \<Longrightarrow> \<exists>F. \<forall>fuel\<ge>F. fst (send_attempts v fuel retries n) \<noteq> Running"
proof (induction retries arbitrary: n)
  case 0
  show ?case using attempt_returns [OF 0, of "\<lambda>_. None" n] by simp
next
  case (Suc retries)
  show ?case using attempt_returns [OF Suc.prems, of "\<lambda>fuel. Some (send_attempts v fuel retries)" n] Suc.IH [OF Suc.prems] by simp
qed

section \<open>The guarantees\<close>

definition fresh_net :: net where
  "fresh_net = \<lparr>n_tick = 0, n_log = []\<rparr>"

text \<open>C13: no double submission.  However the transport answers, \<open>send\<close> hands over a further transaction only when
  each one before was refused before broadcast by a transport of the SDK.  If the last one may have landed, then
  the error, or the result, names its signature.  In particular an error without a signature means that no
  transaction may have landed.\<close>

theorem no_double_submission:
  assumes "signs v" "send_attempts v fuel retries fresh_net = (out, n')"
  shows "list_all (refused v) (butlast (handed (n_log n'))) \<and>
    (handed (n_log n') \<noteq> [] \<and> \<not> refused v (last (handed (n_log n'))) \<longrightarrow>
      names out (st_signature (fst (last (handed (n_log n'))))))"
  using sends_safe [OF assms(1) _ assms(2)] by (simp add: fresh_net_def safe_log_def)

text \<open>C14: a send that succeeds names a transaction for which the venue reported a status without error at the
  promised commitment; only a transport that confirms by itself may do without one, and then that transaction
  is the one it was handed.\<close>

theorem success_evidenced:
  assumes "signs v" "send_attempts v fuel retries fresh_net = (Returned r, n')"
  shows "\<exists>s. result_signature r = Some s \<and>
    ((\<exists>st. Seen s (Some st) \<in> set (n_log n') \<and> landed_status v st) \<or>
     (v_kind v \<noteq> Polling \<and> (\<exists>tx. st_signature tx = s \<and> Handed tx None \<in> set (n_log n'))))"
  using sends_evidence [OF assms] by (simp add: evidenced_def)

text \<open>C15: if the clock runs, every send ends, whatever the venue answers.\<close>

theorem send_returns:
  assumes "clock_runs v"
  shows "\<exists>F. \<forall>fuel\<ge>F. fst (send_attempts v fuel retries fresh_net) \<noteq> Running"
  by (rule sends_return [OF assms])

section \<open>A sample venue\<close>

text \<open>The first transaction is refused with an old blockhash, the second is accepted and confirmed.\<close>

definition sample_refusal :: thrown where
  "sample_refusal = Err_Object \<lparr>eo_solana = Some PREFLIGHT_FAILURE, eo_frozen = False, eo_fields = []\<rparr>
     (Some (Err_Object \<lparr>eo_solana = Some BLOCKHASH_NOT_FOUND, eo_frozen = False, eo_fields = []\<rparr> None))"

definition sample_venue :: venue where
  "sample_venue = \<lparr>v_kind = Polling, v_commitment = Some Confirmed, v_has_status = True, v_timeoutMs = 60000,
     v_errors = \<lparr>et_constants = [], et_message = \<lambda>_. None\<rparr>,
     o_blockhash = \<lambda>t. Inr (100 + t), o_sign = \<lambda>t h. Inr \<lparr>st_signature = (if t < 4 then ''s1'' else ''s2''), st_lastValidBlockHeight = h\<rparr>,
     o_build = \<lambda>_ _. None, o_send = \<lambda>t _. if t < 4 then Some sample_refusal else None, o_confirm = \<lambda>_ _. Confirmed_Ok,
     o_custom = \<lambda>_ _. Inr JNull, o_status = \<lambda>_ _. Inr (Some \<lparr>ss_confirmationStatus = Some ''confirmed'', ss_err = JNull\<rparr>),
     o_height = \<lambda>_. Inr 0, o_clock = \<lambda>t. int t\<rparr>"

lemma sample_signs: "signs sample_venue"
  by (simp add: signs_def sample_venue_def)

lemma sample_clock: "clock_runs sample_venue"
proof -
  have "\<exists>N. \<forall>t\<ge>N. d \<le> int t" for d :: int by (intro exI [of _ "nat d"]) auto
  then show ?thesis by (simp add: clock_runs_def sample_venue_def)
qed

lemma sample_refusal_classified: "isTypedSendTransactionPreflightFailure sample_refusal"
  "isBlockhashNotFoundPreflightFailure sample_refusal" "isBlockhashExpiredError sample_refusal"
  by (simp_all add: sample_refusal_def isTypedSendTransactionPreflightFailure_def isBlockhashNotFoundPreflightFailure_def
      isBlockhashExpiredError_def expired_link_def causeChain_head numeral_eq_Suc)

definition refused_net :: net where
  "refused_net = \<lparr>n_tick = Suc (Suc (Suc (Suc 0))), n_log = [Handed \<lparr>st_signature = ''s1'', st_lastValidBlockHeight = 100\<rparr> (Some sample_refusal)]\<rparr>"

definition sent_net :: net where
  "sent_net = \<lparr>n_tick = Suc (Suc (Suc (Suc (Suc (Suc (n_tick refused_net)))))), n_log = n_log refused_net @
     [Handed \<lparr>st_signature = ''s2'', st_lastValidBlockHeight = 104\<rparr> None,
      Seen ''s2'' (Some \<lparr>ss_confirmationStatus = Some ''confirmed'', ss_err = JNull\<rparr>)]\<rparr>"

lemma sample_refused: "one_attempt sample_venue 1 (Some retry) fresh_net = retry refused_net"
  by (simp add: one_attempt_alt on_failure_def checked_send_def sign_attempt_def sendAndConfirm_def polling_send_def
      rejected_send_def net_simps sample_refusal_classified sample_venue_def fresh_net_def refused_net_def Let_def)

lemma sample_sent: "one_attempt sample_venue 1 again refused_net = (Returned (send_result ''s2''), sent_net)"
  by (simp add: one_attempt_alt checked_send_def sign_attempt_def sendAndConfirm_def polling_send_def
      round_status_def pollStatus_def net_simps sample_venue_def refused_net_def sent_net_def validateTransportSendResult_def
      send_result_def nonempty_string_def string_array_def truthy_def commitmentReached_def the_commitment_def Let_def)

lemma sample_send: "send_attempts sample_venue 1 3 fresh_net = (Returned (send_result ''s2''), sent_net)"
  unfolding numeral_3_eq_3 send_attempts.simps sample_refused sample_sent ..

lemma sample_landed: "landed_status sample_venue \<lparr>ss_confirmationStatus = Some ''confirmed'', ss_err = JNull\<rparr>"
  by (simp add: landed_status_def truthy_def commitmentReached_def the_commitment_def sample_venue_def)

theorem no_double_submission_witness:
  "refused sample_venue (\<lparr>st_signature = ''s1'', st_lastValidBlockHeight = 100\<rparr>, Some sample_refusal) \<and>
   names (Returned (send_result ''s2'')) ''s2''"
  using no_double_submission [OF sample_signs sample_send] by (simp add: refused_def sent_net_def refused_net_def)

theorem success_evidenced_witness:
  "\<exists>s. result_signature (send_result ''s2'') = Some s \<and>
     (\<exists>st. Seen s (Some st) \<in> {Seen ''s2'' (Some \<lparr>ss_confirmationStatus = Some ''confirmed'', ss_err = JNull\<rparr>)} \<and> landed_status sample_venue st)"
  using success_evidenced [OF sample_signs sample_send] by (simp add: sample_venue_def sent_net_def refused_net_def)

theorem send_returns_witness: "\<exists>F. \<forall>fuel\<ge>F. fst (send_attempts sample_venue fuel 3 fresh_net) \<noteq> Running"
  by (rule send_returns [OF sample_clock])

end
