(* ===== verification/HireActivate.thy ===== *)
theory HireActivate
  imports Queries JsText
begin

text \<open>
  The buyer's hire (\<open>orchestration/hire-and-activate.ts\<close>, \<open>orchestration/moderation-accounts.ts\<close>): hire a
  listing, have the job spec hosted and moderated, activate the task; and the recovery of a hire whose outcome is
  not known, from the finalized transaction and the accounts it must have left.
\<close>

section \<open>Data\<close>

text \<open>An optional address as a caller may give it: not at all, \<open>null\<close>, a string, or an option of the Solana kit.\<close>

datatype option_arg = Arg_Absent | Arg_Null | Arg_Address string | Arg_Option "string option"

text \<open>\<open>h_taskQuotaSurface\<close>: a capability set that grants task quotas was given (one that does not is refused by the
  client before anything is sent).  \<open>h_account\<close> are the addresses the caller may override, by name.\<close>

record hire_input =
  h_taskId :: bytes
  h_taskJobSpecHash :: bytes
  h_listingSpecHash :: bytes
  h_listing :: string
  h_providerAgent :: string
  h_moderator :: string
  h_expectedPrice :: int
  h_expectedVersion :: int
  h_reviewWindowSecs :: int
  h_referrer :: option_arg
  h_referrerFeeBps :: "int option"
  h_moderatorIsAttestor :: "json option"
  h_account :: "string \<Rightarrow> string option"
  h_taskQuotaSurface :: bool

record activation_input =
  ac_account :: "string \<Rightarrow> string option"
  ac_moderatorIsAttestor :: "json option"

text \<open>The request; the RPC may be missing, or unable to serve finalized transactions.\<close>

record hire_request =
  hq_hire :: hire_input
  hq_activation :: "activation_input option"
  hq_creator :: string
  hq_rpc :: bool
  hq_getTransaction :: bool

record committed_hire =
  ch_taskPda :: string
  ch_hireSignature :: string
  ch_hireIntentDigest :: string
  ch_hireReconciled :: "bool option"

text \<open>Where a failed flow can be resumed.\<close>

datatype progress =
    Hiring string "string option" string
  | Moderating committed_hire
  | Activating committed_hire bytes string string

record hire_result =
  hr_taskPda :: string
  hr_hireSignature :: string
  hr_activationSignature :: string
  hr_activationReconciled :: bool
  hr_jobSpecHash :: bytes
  hr_jobSpecUri :: string

record client_failure =
  cf_agenc :: bool
  cf_signature :: "string option"

datatype flow_error =
    Flow_Error string
  | Client_Error client_failure
  | Finalized_Failure string json
  | Recoverable progress

text \<open>Accounts and derived addresses the flow needs.\<close>

record task_escrow =
  es_task :: string
  es_amount :: nat
  es_distributed :: nat
  es_isClosed :: bool

datatype validation_mode = VAuto | VCreatorReview | VValidatorQuorum | VExternalAttestation

record task_validation_config =
  vc_task :: string
  vc_creator :: string
  vc_mode :: validation_mode
  vc_reviewWindowSecs :: int
  vc_createdAt :: int
  vc_updatedAt :: int

datatype pda =
    Pda_Task string bytes
  | Pda_Escrow string
  | Pda_Hire_Record string
  | Pda_Validation string
  | Pda_Protocol_Config
  | Pda_Moderation_Config
  | Pda_Moderation_Block bytes
  | Pda_Rate_Limit string
  | Pda_Listing_Moderation string bytes string
  | Pda_Legacy_Listing_Moderation string bytes
  | Pda_Task_Moderation string bytes string
  | Pda_Legacy_Task_Moderation string bytes
  | Pda_Attestor string
  | Pda_Job_Spec string
  | Pda_Task_Quota string

record hire_args =
  ha_taskId :: bytes
  ha_expectedPrice :: int
  ha_expectedVersion :: int
  ha_reviewWindowSecs :: int
  ha_referrer :: "string option"
  ha_referrerFeeBps :: int
  ha_moderator :: string
  ha_taskJobSpecHash :: bytes

text \<open>The parts of the Solana kit and of the generated client the flow uses.\<close>

record hire_lib =
  l_is_address :: "string \<Rightarrow> bool"
  l_base58 :: "string \<Rightarrow> bytes option"
  l_base58_text :: "bytes \<Rightarrow> string"
  l_instruction_data :: "hire_args \<Rightarrow> bytes option"
  l_sha256 :: "bytes \<Rightarrow> bytes"
  l_pda :: "pda \<Rightarrow> string"
  l_program :: string

record proof_instruction =
  pi_accounts :: "nat list"
  pi_data :: string
  pi_programIdIndex :: nat

text \<open>\<open>px_meta\<close> is \<open>None\<close> for \<open>null\<close> and \<open>Some None\<close> without a property \<open>err\<close>.\<close>

record proof_tx =
  px_meta :: "json option option"
  px_signatures :: "string list"
  px_accountKeys :: "string list"
  px_instructions :: "proof_instruction list"
  px_addressTableLookups :: nat

record moderation_result =
  mr_jobSpecHash :: bytes
  mr_jobSpecUri :: string
  mr_moderationAttested :: bool
  mr_moderator :: string

section \<open>Validation of the request\<close>

definition flow_guard :: "bool \<Rightarrow> string \<Rightarrow> flow_error + unit" where
  "flow_guard ok message = guard_res ok (Flow_Error message)"

definition snapshotFixedBytes :: "bytes \<Rightarrow> nat \<Rightarrow> flow_error + bytes" where
  "snapshotFixedBytes v byteLength =
     (if length v \<noteq> byteLength then Inl (Flow_Error ''must be exactly the byte length'') else Inr v)"

definition snapshotInput :: "(string \<times> int) option \<Rightarrow> hire_request \<Rightarrow> flow_error + hire_request" where
  "snapshotInput defaultReferrer input =
     (let hire = hq_hire input in
      bind_res (snapshotFixedBytes (h_taskId hire) 32) (\<lambda>_.
      bind_res (snapshotFixedBytes (h_taskJobSpecHash hire) 32) (\<lambda>_.
      bind_res (snapshotFixedBytes (h_listingSpecHash hire) 32) (\<lambda>_.
      Inr (case (h_referrer hire, defaultReferrer) of
          (Arg_Absent, Some (address, feeBps)) \<Rightarrow>
            input\<lparr>hq_hire := hire\<lparr>h_referrer := Arg_Address address, h_referrerFeeBps := Some feeBps\<rparr>\<rparr>
        | _ \<Rightarrow> input)))))"

definition some_byte :: "bytes \<Rightarrow> bool" where
  "some_byte hash = list_ex (\<lambda>b. b \<noteq> 0) hash"

definition validateHireCommitment :: "bytes \<Rightarrow> flow_error + unit" where
  "validateHireCommitment hash = flow_guard (some_byte hash) ''hire.taskJobSpecHash must not be all zeroes''"

definition validateListingCommitment :: "bytes \<Rightarrow> flow_error + unit" where
  "validateListingCommitment hash = flow_guard (some_byte hash) ''hire.listingSpecHash must not be all zeroes''"

definition is_boolean_or_absent :: "json option \<Rightarrow> bool" where
  "is_boolean_or_absent v \<longleftrightarrow> (case v of None \<Rightarrow> True | Some (JBool b) \<Rightarrow> True | _ \<Rightarrow> False)"

definition validateHireOverrides :: "hire_input \<Rightarrow> flow_error + unit" where
  "validateHireOverrides hire =
     flow_guard (is_boolean_or_absent (h_moderatorIsAttestor hire)) ''hire.moderatorIsAttestor must be boolean''"

definition activation_fields :: "string list" where
  "activation_fields = [''protocolConfig'', ''moderationConfig'', ''taskModeration'', ''moderationAttestor'',
     ''moderationBlock'', ''taskJobSpec'', ''systemProgram'', ''hireRecord'', ''moderator'']"

definition validateActivationOverrides :: "hire_lib \<Rightarrow> activation_input option \<Rightarrow> flow_error + unit" where
  "validateActivationOverrides lib activation = (case activation of
      None \<Rightarrow> Inr ()
    | Some a \<Rightarrow>
        bind_res (flow_guard (list_all (\<lambda>f. case ac_account a f of None \<Rightarrow> True | Some v \<Rightarrow> l_is_address lib v) activation_fields)
          ''activation override must be a valid Solana address'') (\<lambda>_.
        flow_guard (is_boolean_or_absent (ac_moderatorIsAttestor a)) ''activation.moderatorIsAttestor must be boolean''))"

definition validated_request :: "hire_lib \<Rightarrow> hire_request \<Rightarrow> flow_error + unit" where
  "validated_request lib input =
     bind_res (validateHireCommitment (h_taskJobSpecHash (hq_hire input))) (\<lambda>_.
     bind_res (validateListingCommitment (h_listingSpecHash (hq_hire input))) (\<lambda>_.
     bind_res (validateHireOverrides (hq_hire input)) (\<lambda>_.
     validateActivationOverrides lib (hq_activation input))))"

definition validateModerationResult :: "hire_lib \<Rightarrow> moderation_result \<Rightarrow> bytes \<Rightarrow> flow_error + (bytes \<times> string \<times> string)" where
  "validateModerationResult lib result committedHash =
     (let jobSpecUri = js_trim (mr_jobSpecUri result) in
      bind_res (flow_guard (mr_moderationAttested result) ''Task moderation was not attested; activation was not signed.'') (\<lambda>_.
      bind_res (flow_guard (length (mr_jobSpecHash result) = 32) ''Task moderation returned an invalid jobSpecHash'') (\<lambda>_.
      bind_res (flow_guard (mr_jobSpecHash result = committedHash)
        ''Task moderation returned a jobSpecHash different from the hash committed at hire'') (\<lambda>_.
      bind_res (flow_guard (jobSpecUri \<noteq> []) ''Task moderation returned an empty jobSpecUri'') (\<lambda>_.
      bind_res (flow_guard (js_trim (mr_moderator result) \<noteq> []) ''Task moderation returned no moderator pubkey'') (\<lambda>_.
      bind_res (flow_guard (l_is_address lib (mr_moderator result)) ''Task moderation returned an invalid moderator pubkey'') (\<lambda>_.
      Inr (mr_jobSpecHash result, jobSpecUri, mr_moderator result))))))))"

section \<open>The intent and its digest\<close>

definition option_arg_value :: "option_arg \<Rightarrow> string option" where
  "option_arg_value a = (case a of Arg_Address s \<Rightarrow> Some s | Arg_Option v \<Rightarrow> v | _ \<Rightarrow> None)"

definition resolveOptionalAddress :: "hire_lib \<Rightarrow> option_arg \<Rightarrow> flow_error + string" where
  "resolveOptionalAddress lib v = (case option_arg_value v of
      None \<Rightarrow> Inr DEFAULT_ADDRESS
    | Some s \<Rightarrow> if l_is_address lib s then Inr s else Inl (Flow_Error ''is not a valid optional Solana address''))"

definition fee_bps :: "hire_input \<Rightarrow> int" where
  "fee_bps hire = (case h_referrerFeeBps hire of None \<Rightarrow> 0 | Some n \<Rightarrow> n)"

definition expectedReferral :: "hire_lib \<Rightarrow> hire_input \<Rightarrow> flow_error + (string \<times> int)" where
  "expectedReferral lib hire =
     (if fee_bps hire = 0 then Inr (DEFAULT_ADDRESS, 0)
      else bind_res (resolveOptionalAddress lib (h_referrer hire)) (\<lambda>referrer. Inr (referrer, fee_bps hire)))"

definition isCanonicalTransactionSignature :: "hire_lib \<Rightarrow> string \<Rightarrow> bool" where
  "isCanonicalTransactionSignature lib s \<longleftrightarrow> s \<noteq> [] \<and> length s \<le> 100 \<and>
     (case l_base58 lib s of None \<Rightarrow> False | Some bs \<Rightarrow> length bs = 64 \<and> l_base58_text lib bs = s)"

definition candidateSignature :: "hire_lib \<Rightarrow> client_failure \<Rightarrow> string option" where
  "candidateSignature lib error = (case cf_signature error of
      None \<Rightarrow> None
    | Some s \<Rightarrow> if isCanonicalTransactionSignature lib s then Some s else None)"

definition hire_args_of :: "hire_input \<Rightarrow> hire_args" where
  "hire_args_of hire = \<lparr>ha_taskId = h_taskId hire, ha_expectedPrice = h_expectedPrice hire,
     ha_expectedVersion = h_expectedVersion hire, ha_reviewWindowSecs = h_reviewWindowSecs hire,
     ha_referrer = option_arg_value (h_referrer hire), ha_referrerFeeBps = fee_bps hire,
     ha_moderator = h_moderator hire, ha_taskJobSpecHash = h_taskJobSpecHash hire\<rparr>"

definition effectiveHireInstructionData :: "hire_lib \<Rightarrow> hire_input \<Rightarrow> flow_error + bytes" where
  "effectiveHireInstructionData lib hire = (case l_instruction_data lib (hire_args_of hire) of
      None \<Rightarrow> Inl (Flow_Error ''instruction data cannot be encoded'') | Some bs \<Rightarrow> Inr bs)"

definition optionalIntentField :: "string option \<Rightarrow> string" where
  "optionalIntentField v = (case v of None \<Rightarrow> ''<undefined>'' | Some s \<Rightarrow> s)"

definition intent_overrides :: "string list" where
  "intent_overrides = [''task'', ''escrow'', ''hireRecord'', ''taskValidationConfig'', ''protocolConfig'',
     ''moderationConfig'', ''listingModeration'', ''moderationAttestor'', ''moderationBlock'', ''authorityRateLimit'',
     ''systemProgram'']"

definition logicalFields :: "hire_input \<Rightarrow> string \<Rightarrow> string list" where
  "logicalFields hire creator =
     [''agenc:hire-and-activate:intent:v1'', creator, h_listing hire, h_providerAgent hire, bytesToHex (h_listingSpecHash hire)]
     @ map (\<lambda>f. optionalIntentField (h_account hire f)) intent_overrides
     @ [case h_moderatorIsAttestor hire of None \<Rightarrow> ''auto''
        | Some v \<Rightarrow> if v = JBool True then ''attestor'' else ''authority'']"

definition intent_prefix :: "hire_input \<Rightarrow> string \<Rightarrow> string" where
  "intent_prefix hire creator = commas [CHR 0x1F] (logicalFields hire creator) @ [CHR 0x1E]"

definition hireIntentDigest :: "hire_lib \<Rightarrow> hire_input \<Rightarrow> string \<Rightarrow> flow_error + string" where
  "hireIntentDigest lib hire creator =
     bind_res (effectiveHireInstructionData lib hire) (\<lambda>instructionData.
     Inr (bytesToHex (l_sha256 lib (map of_char (intent_prefix hire creator) @ instructionData))))"

definition requiredListingSpecHash :: "hire_input \<Rightarrow> flow_error + bytes" where
  "requiredListingSpecHash hire =
     bind_res (flow_guard (some_byte (h_listingSpecHash hire)) ''recovery requires a non-zero hire.listingSpecHash'') (\<lambda>_.
     Inr (h_listingSpecHash hire))"

section \<open>The hire instruction\<close>

text \<open>The accounts of \<open>facade.hireFromListingHumanless\<close>, in the order of the generated builder; the quota account
  is appended when the caller opted in.  \<open>moderation\<close> are the accounts resolved for the hire.\<close>

record hire_moderation =
  hm_moderationAttestor :: "string option"
  hm_listingModeration :: "string option"

definition or_else :: "'a option \<Rightarrow> 'a \<Rightarrow> 'a" where
  "or_else v d = (case v of None \<Rightarrow> d | Some x \<Rightarrow> x)"

definition merged :: "string option \<Rightarrow> string option \<Rightarrow> string option" where
  "merged v w = (case v of None \<Rightarrow> w | Some x \<Rightarrow> Some x)"

definition hire_accounts :: "hire_lib \<Rightarrow> hire_input \<Rightarrow> string \<Rightarrow> hire_moderation \<Rightarrow> string list" where
  "hire_accounts lib hire creator moderation =
     (let task = or_else (h_account hire ''task'') (l_pda lib (Pda_Task creator (h_taskId hire)));
          attestor = (case merged (hm_moderationAttestor moderation) (h_account hire ''moderationAttestor'') of
             Some a \<Rightarrow> a
           | None \<Rightarrow> if h_moderatorIsAttestor hire = Some (JBool True) then l_pda lib (Pda_Attestor (h_moderator hire))
                     else l_program lib) in
      [task,
       or_else (h_account hire ''escrow'') (l_pda lib (Pda_Escrow task)),
       or_else (h_account hire ''hireRecord'') (l_pda lib (Pda_Hire_Record task)),
       or_else (h_account hire ''taskValidationConfig'') (l_pda lib (Pda_Validation task)),
       h_listing hire,
       h_providerAgent hire,
       or_else (h_account hire ''protocolConfig'') (l_pda lib Pda_Protocol_Config),
       or_else (h_account hire ''moderationConfig'') (l_pda lib Pda_Moderation_Config),
       or_else (merged (hm_listingModeration moderation) (h_account hire ''listingModeration''))
         (l_pda lib (Pda_Listing_Moderation (h_listing hire) (h_listingSpecHash hire) (h_moderator hire))),
       attestor,
       or_else (h_account hire ''moderationBlock'') (l_pda lib (Pda_Moderation_Block (h_listingSpecHash hire))),
       or_else (h_account hire ''authorityRateLimit'') (l_pda lib (Pda_Rate_Limit creator)),
       creator,
       or_else (h_account hire ''systemProgram'') DEFAULT_ADDRESS]
      @ (if h_taskQuotaSurface hire then [l_pda lib (Pda_Task_Quota creator)] else []))"

section \<open>Proof of a finalized hire\<close>

definition COMPUTE_BUDGET_PROGRAM_ADDRESS :: string where
  "COMPUTE_BUDGET_PROGRAM_ADDRESS = ''ComputeBudget111111111111111111111111111111''"

definition key_at :: "string list \<Rightarrow> nat \<Rightarrow> string option" where
  "key_at keys index = (if index < length keys then Some (keys ! index) else None)"

fun program_instructions :: "hire_lib \<Rightarrow> string list \<Rightarrow> proof_instruction list \<Rightarrow> flow_error + proof_instruction list" where
  "program_instructions lib keys [] = Inr []"
| "program_instructions lib keys (i # is) =
     (let program = key_at keys (pi_programIdIndex i) in
      if program = Some (l_program lib) then bind_res (program_instructions lib keys is) (\<lambda>rest. Inr (i # rest))
      else if program \<noteq> Some COMPUTE_BUDGET_PROGRAM_ADDRESS
      then Inl (Flow_Error ''candidate hire transaction contains an unexpected program'')
      else program_instructions lib keys is)"

definition account_keys :: "string list \<Rightarrow> nat list \<Rightarrow> flow_error + string list" where
  "account_keys keys = map_res (\<lambda>index. case key_at keys index of
      None \<Rightarrow> Inl (Flow_Error ''candidate hire transaction account index is out of bounds'')
    | Some a \<Rightarrow> Inr a)"

definition exact_accounts :: "hire_lib \<Rightarrow> hire_input \<Rightarrow> string \<Rightarrow> string \<Rightarrow> (nat \<times> string) list" where
  "exact_accounts lib hire creator taskPda =
     [(0, taskPda), (1, l_pda lib (Pda_Escrow taskPda)), (2, l_pda lib (Pda_Hire_Record taskPda)),
      (3, l_pda lib (Pda_Validation taskPda)), (4, h_listing hire), (5, h_providerAgent hire),
      (6, l_pda lib Pda_Protocol_Config), (7, l_pda lib Pda_Moderation_Config),
      (10, l_pda lib (Pda_Moderation_Block (h_listingSpecHash hire))), (11, l_pda lib (Pda_Rate_Limit creator)),
      (12, creator), (13, DEFAULT_ADDRESS)]"

definition listing_moderation_matches :: "hire_lib \<Rightarrow> hire_input \<Rightarrow> string \<Rightarrow> bool" where
  "listing_moderation_matches lib hire a = (case h_account hire ''listingModeration'' of
      Some m \<Rightarrow> a = m
    | None \<Rightarrow>
        a = l_pda lib (Pda_Listing_Moderation (h_listing hire) (h_listingSpecHash hire) (h_moderator hire)) \<or>
        a = l_pda lib (Pda_Legacy_Listing_Moderation (h_listing hire) (h_listingSpecHash hire)))"

definition moderation_attestor_matches :: "hire_lib \<Rightarrow> hire_input \<Rightarrow> string \<Rightarrow> bool" where
  "moderation_attestor_matches lib hire a = (case h_account hire ''moderationAttestor'' of
      Some m \<Rightarrow> a = m
    | None \<Rightarrow>
        if h_moderatorIsAttestor hire = Some (JBool True) then a = l_pda lib (Pda_Attestor (h_moderator hire))
        else if h_moderatorIsAttestor hire = Some (JBool False) then a = l_program lib
        else a = l_pda lib (Pda_Attestor (h_moderator hire)) \<or> a = l_program lib)"

datatype execution = Succeeded | Failed json

definition prove_transaction ::
  "hire_lib \<Rightarrow> hire_input \<Rightarrow> string \<Rightarrow> string \<Rightarrow> string \<Rightarrow> proof_tx \<Rightarrow> flow_error + execution" where
  "prove_transaction lib hire creator taskPda candidate transaction =
     (case px_meta transaction of
        None \<Rightarrow> Inl (Flow_Error ''candidate hire transaction has no finalized execution metadata'')
      | Some None \<Rightarrow> Inl (Flow_Error ''candidate hire transaction has malformed execution metadata'')
      | Some (Some transactionError) \<Rightarrow>
          bind_res (flow_guard (key_at (px_signatures transaction) 0 = Some candidate)
            ''finalized transaction does not carry the candidate signature'') (\<lambda>_.
          bind_res (flow_guard (px_addressTableLookups transaction = 0)
            ''candidate hire transaction uses address lookup tables'') (\<lambda>_.
          bind_res (program_instructions lib (px_accountKeys transaction) (px_instructions transaction)) (\<lambda>programInstructions.
          case programInstructions of
            [instruction] \<Rightarrow>
              (case l_base58 lib (pi_data instruction) of
                 None \<Rightarrow> Inl (Flow_Error ''candidate hire transaction has invalid instruction data'')
               | Some instructionData \<Rightarrow>
                   bind_res (effectiveHireInstructionData lib hire) (\<lambda>expected.
                   bind_res (flow_guard (instructionData = expected)
                     ''candidate hire transaction arguments do not match the requested hire intent'') (\<lambda>_.
                   bind_res (requiredListingSpecHash hire) (\<lambda>_.
                   bind_res (flow_guard (length (pi_accounts instruction) = 14)
                     ''candidate hire transaction does not use the humanless-hire account surface'') (\<lambda>_.
                   bind_res (account_keys (px_accountKeys transaction) (pi_accounts instruction)) (\<lambda>accounts.
                   bind_res (flow_guard (list_all (\<lambda>(index, expected). accounts ! index = expected)
                       (exact_accounts lib hire creator taskPda))
                     ''candidate hire transaction account does not match the requested hire intent'') (\<lambda>_.
                   bind_res (flow_guard (listing_moderation_matches lib hire (accounts ! 8))
                     ''candidate hire transaction uses a non-canonical listing moderation account'') (\<lambda>_.
                   bind_res (flow_guard (moderation_attestor_matches lib hire (accounts ! 9))
                     ''candidate hire transaction uses a non-canonical moderation attestor account'') (\<lambda>_.
                   Inr (if transactionError = JNull then Succeeded else Failed transactionError))))))))))
          | _ \<Rightarrow> Inl (Flow_Error ''candidate hire transaction must contain exactly one AgenC instruction'')))))"

text \<open>What the finalized accounts must hold.\<close>

definition expected_description :: "hire_input \<Rightarrow> bytes" where
  "expected_description hire = h_listingSpecHash hire @ h_taskJobSpecHash hire"

definition hire_state_matches ::
  "hire_lib \<Rightarrow> hire_input \<Rightarrow> string \<Rightarrow> string \<Rightarrow> string \<times> int \<Rightarrow> task \<Rightarrow> task_escrow \<Rightarrow> hire_record_data
   \<Rightarrow> task_validation_config \<Rightarrow> bool" where
  "hire_state_matches lib hire creator taskPda referral task escrow hireRecord validationConfig \<longleftrightarrow>
     t_taskId task = h_taskId hire \<and> t_creator task = creator \<and> t_description task = expected_description hire \<and>
     t_constraintHash task = map of_char MANUAL_VALIDATION_SENTINEL \<and> int (t_rewardAmount task) = h_expectedPrice hire \<and>
     t_maxWorkers task = 1 \<and> t_currentWorkers task = 0 \<and> t_status task = TOpen \<and> t_taskType task = TTExclusive \<and>
     t_deadline task > t_createdAt task \<and> t_completedAt task = 0 \<and> t_escrow task = l_pda lib (Pda_Escrow taskPda) \<and>
     t_completions task = 0 \<and> t_requiredCompletions task = 1 \<and> t_minReputation task = 0 \<and> t_rewardMint task = None \<and>
     t_operator task = hi_operator hireRecord \<and> t_operatorFeeBps task = hi_operatorFeeBps hireRecord \<and>
     t_referrer task = fst referral \<and> int (t_referrerFeeBps task) = snd referral \<and>
     es_task escrow = taskPda \<and> int (es_amount escrow) = h_expectedPrice hire \<and> es_distributed escrow = 0 \<and>
     \<not> es_isClosed escrow \<and>
     hi_task hireRecord = taskPda \<and> hi_listing hireRecord = h_listing hire \<and>
     hi_designatedProvider hireRecord = h_providerAgent hire \<and> hi_referrer hireRecord = fst referral \<and>
     int (hi_referrerFeeBps hireRecord) = snd referral \<and>
     vc_task validationConfig = taskPda \<and> vc_creator validationConfig = creator \<and>
     vc_mode validationConfig = VCreatorReview \<and> vc_reviewWindowSecs validationConfig = h_reviewWindowSecs hire \<and>
     vc_createdAt validationConfig = t_createdAt task \<and> vc_updatedAt validationConfig = t_createdAt task"

section \<open>The environment\<close>

datatype phase = P_Hiring | P_Moderating | P_Activating

record host_input =
  hs_taskPda :: string
  hs_taskId :: bytes
  hs_listing :: string
  hs_hireSignature :: string
  hs_hireIntentDigest :: string
  hs_hireReconciled :: "bool option"

record activation_accounts =
  aa_moderationAttestor :: "string option"
  aa_taskModeration :: "string option"

record activation_call =
  av_task :: string
  av_creator :: string
  av_jobSpecHash :: bytes
  av_jobSpecUri :: string
  av_moderator :: string
  av_resolved :: activation_accounts
  av_overrides :: "activation_input option"

text \<open>What is done to the outside: a hire with its accounts and instruction data, the hosting callback, an
  activation.\<close>

datatype hire_event =
    Hire_Called "string list" bytes
  | Host_Called host_input
  | Activation_Called activation_call

record flow_world =
  fw_tick :: nat
  fw_trace :: "hire_event list"

text \<open>The answers of the outside, call by call; a read gives a message when it fails, \<open>ho_phase\<close> whether the
  progress callback throws.\<close>

record hire_env =
  he_lib :: hire_lib
  he_defaultReferrer :: "(string \<times> int) option"
  ho_phase :: "nat \<Rightarrow> phase \<Rightarrow> bool"
  ho_transaction :: "nat \<Rightarrow> string \<Rightarrow> string + proof_tx option"
  ho_task :: "nat \<Rightarrow> string \<Rightarrow> string + task option"
  ho_escrow :: "nat \<Rightarrow> string \<Rightarrow> string + task_escrow option"
  ho_hire_record :: "nat \<Rightarrow> string \<Rightarrow> string + hire_record_data option"
  ho_validation :: "nat \<Rightarrow> string \<Rightarrow> string + task_validation_config option"
  ho_job_spec :: "nat \<Rightarrow> string \<Rightarrow> string + task_job_spec option"
  ho_moderation_authority :: "nat \<Rightarrow> string + string option"
  ho_attestor_exists :: "nat \<Rightarrow> string \<Rightarrow> string + bool"
  ho_moderation :: "nat \<Rightarrow> string \<Rightarrow> string + string option"
  ho_hire :: "nat \<Rightarrow> client_failure + string"
  ho_activate :: "nat \<Rightarrow> client_failure + string"
  ho_host :: "nat \<Rightarrow> host_input \<Rightarrow> string + moderation_result"

type_synonym 'a flow = "flow_world \<Rightarrow> (flow_error + 'a) \<times> flow_world"

definition freturn :: "'a \<Rightarrow> 'a flow" where
  "freturn a = (\<lambda>w. (Inr a, w))"

definition fthrow :: "flow_error \<Rightarrow> 'a flow" where
  "fthrow e = (\<lambda>w. (Inl e, w))"

definition fbind :: "'a flow \<Rightarrow> ('a \<Rightarrow> 'b flow) \<Rightarrow> 'b flow" where
  "fbind m f = (\<lambda>w. case m w of (Inl e, w') \<Rightarrow> (Inl e, w') | (Inr a, w') \<Rightarrow> f a w')"

definition fcatch :: "'a flow \<Rightarrow> (flow_error \<Rightarrow> 'a flow) \<Rightarrow> 'a flow" where
  "fcatch m h = (\<lambda>w. case m w of (Inl e, w') \<Rightarrow> h e w' | r \<Rightarrow> r)"

definition flift :: "flow_error + 'a \<Rightarrow> 'a flow" where
  "flift r = (\<lambda>w. (r, w))"

definition fask :: "(nat \<Rightarrow> 'a) \<Rightarrow> 'a flow" where
  "fask f = (\<lambda>w. (Inr (f (fw_tick w)), w\<lparr>fw_tick := Suc (fw_tick w)\<rparr>))"

definition fread :: "(nat \<Rightarrow> string + 'a) \<Rightarrow> 'a flow" where
  "fread f = fbind (fask f) (\<lambda>r. flift (map_error Flow_Error r))"

definition femit :: "hire_event \<Rightarrow> unit flow" where
  "femit ev = (\<lambda>w. (Inr (), w\<lparr>fw_trace := fw_trace w @ [ev]\<rparr>))"

definition fphase :: "hire_env \<Rightarrow> phase \<Rightarrow> unit flow" where
  "fphase E p = fbind (fask (\<lambda>t. ho_phase E t p)) (\<lambda>throws.
     if throws then fthrow (Flow_Error ''onPhase'') else freturn ())"

section \<open>Moderation accounts\<close>

definition resolveRosterEntry :: "hire_env \<Rightarrow> string \<Rightarrow> string option flow" where
  "resolveRosterEntry E moderator =
     fbind (fread (ho_moderation_authority E)) (\<lambda>authority.
       if authority = Some moderator then freturn None
       else
         (let rosterPda = l_pda (he_lib E) (Pda_Attestor moderator) in
          fbind (fread (\<lambda>t. ho_attestor_exists E t rosterPda)) (\<lambda>exists.
            freturn (if exists then Some rosterPda else None))))"

text \<open>The record under the address of the moderator, else one under the old address if the moderator signed it.\<close>

definition legacy_record :: "hire_env \<Rightarrow> string \<Rightarrow> string \<Rightarrow> string \<Rightarrow> string option flow" where
  "legacy_record E v2Pda legacyPda moderator =
     fbind (fread (\<lambda>t. ho_moderation E t v2Pda)) (\<lambda>v2.
       if v2 \<noteq> None then freturn None
       else fbind (fread (\<lambda>t. ho_moderation E t legacyPda)) (\<lambda>legacy.
         freturn (if legacy = Some moderator then Some legacyPda else None)))"

definition resolveActivationModerationAccounts ::
  "hire_env \<Rightarrow> string \<Rightarrow> bytes \<Rightarrow> string \<Rightarrow> activation_accounts flow" where
  "resolveActivationModerationAccounts E task jobSpecHash moderator =
     fcatch
       (fbind (resolveRosterEntry E moderator) (\<lambda>attestor.
        fbind (legacy_record E (l_pda (he_lib E) (Pda_Task_Moderation task jobSpecHash moderator))
            (l_pda (he_lib E) (Pda_Legacy_Task_Moderation task jobSpecHash)) moderator) (\<lambda>record1.
        freturn \<lparr>aa_moderationAttestor = attestor, aa_taskModeration = record1\<rparr>)))
       (\<lambda>_. freturn \<lparr>aa_moderationAttestor = None, aa_taskModeration = None\<rparr>)"

definition resolveHireListingModerationAccounts ::
  "hire_env \<Rightarrow> string \<Rightarrow> bytes \<Rightarrow> string \<Rightarrow> hire_moderation flow" where
  "resolveHireListingModerationAccounts E listing listingSpecHash moderator =
     fcatch
       (fbind (resolveRosterEntry E moderator) (\<lambda>attestor.
        fbind (legacy_record E (l_pda (he_lib E) (Pda_Listing_Moderation listing listingSpecHash moderator))
            (l_pda (he_lib E) (Pda_Legacy_Listing_Moderation listing listingSpecHash)) moderator) (\<lambda>record1.
        freturn \<lparr>hm_moderationAttestor = attestor, hm_listingModeration = record1\<rparr>)))
       (\<lambda>_. freturn \<lparr>hm_moderationAttestor = None, hm_listingModeration = None\<rparr>)"

section \<open>Reconciliation\<close>

definition proveFinalizedHireTransaction ::
  "hire_env \<Rightarrow> hire_request \<Rightarrow> string \<Rightarrow> string \<Rightarrow> execution flow" where
  "proveFinalizedHireTransaction E input taskPda candidate =
     (if \<not> isCanonicalTransactionSignature (he_lib E) candidate
      then fthrow (Flow_Error ''candidate hire transaction signature is not canonical'')
      else if \<not> (hq_rpc input \<and> hq_getTransaction input)
      then fthrow (Flow_Error ''the reconciliation RPC does not support finalized getTransaction proof'')
      else fbind (fread (\<lambda>t. ho_transaction E t candidate)) (\<lambda>transaction.
        case transaction of
          None \<Rightarrow> fthrow (Flow_Error ''candidate hire transaction is not available at finalized commitment'')
        | Some tx \<Rightarrow> flift (prove_transaction (he_lib E) (hq_hire input) (hq_creator input) taskPda candidate tx)))"

text \<open>\<open>proof\<close> is a candidate signature with the digest of the token that carries it.\<close>

definition reconcileHire ::
  "hire_env \<Rightarrow> hire_request \<Rightarrow> string \<Rightarrow> (string \<times> string) option \<Rightarrow> committed_hire option flow" where
  "reconcileHire E input taskPda proof1 =
     (let lib = he_lib E; hire = hq_hire input; creator = hq_creator input in
      if \<not> hq_rpc input then freturn None
      else
        fbind (case proof1 of
            None \<Rightarrow> freturn None
          | Some (candidate, digest) \<Rightarrow>
              fbind (flift (hireIntentDigest lib hire creator)) (\<lambda>expectedIntentDigest.
                if digest \<noteq> expectedIntentDigest
                then fthrow (Flow_Error ''Hire recovery token does not match the supplied hire intent'')
                else fbind (proveFinalizedHireTransaction E input taskPda candidate) (\<lambda>outcome. freturn (Some outcome))))
          (\<lambda>transactionOutcome.
        fbind (fread (\<lambda>t. ho_task E t taskPda)) (\<lambda>task.
        fbind (fread (\<lambda>t. ho_escrow E t (l_pda lib (Pda_Escrow taskPda)))) (\<lambda>escrow.
        fbind (fread (\<lambda>t. ho_hire_record E t (l_pda lib (Pda_Hire_Record taskPda)))) (\<lambda>hireRecord.
        fbind (fread (\<lambda>t. ho_validation E t (l_pda lib (Pda_Validation taskPda)))) (\<lambda>validationConfig.
          let absent = (task = None \<and> escrow = None \<and> hireRecord = None \<and> validationConfig = None) in
          case (transactionOutcome, proof1) of
            (Some (Failed transactionError), Some (candidate, digest)) \<Rightarrow>
              if absent then fthrow (Finalized_Failure candidate transactionError)
              else fthrow (Flow_Error ''Candidate hire transaction failed, but finalized hire state exists'')
          | _ \<Rightarrow>
              if absent then
                (case proof1 of
                   None \<Rightarrow> freturn None
                 | Some _ \<Rightarrow> fthrow (Flow_Error ''Candidate hire transaction finalized successfully, but account state is absent''))
              else (case (task, escrow, hireRecord, validationConfig, proof1) of
                  (Some t, Some e, Some h, Some v, Some (candidate, digest)) \<Rightarrow>
                    fbind (flift (expectedReferral lib hire)) (\<lambda>referral.
                    fbind (flift (requiredListingSpecHash hire)) (\<lambda>_.
                      if hire_state_matches lib hire creator taskPda referral t e h v
                      then freturn (Some \<lparr>ch_taskPda = taskPda, ch_hireSignature = candidate,
                        ch_hireIntentDigest = digest, ch_hireReconciled = None\<rparr>)
                      else fthrow (Flow_Error ''Finalized state does not match the funded hire intent'')))
                | (Some t, Some e, Some h, Some v, None) \<Rightarrow>
                    fthrow (Flow_Error ''Finalized state already exists, but no attributable ambiguous hire transaction was supplied'')
                | _ \<Rightarrow> fthrow (Flow_Error ''Finalized hire state is incomplete''))))))))"

definition reconcileActivation ::
  "hire_env \<Rightarrow> hire_request \<Rightarrow> committed_hire \<Rightarrow> bytes \<Rightarrow> string \<Rightarrow> hire_result option flow" where
  "reconcileActivation E input committed jobSpecHash jobSpecUri =
     (if \<not> hq_rpc input then freturn None
      else fbind (fread (\<lambda>t. ho_job_spec E t (l_pda (he_lib E) (Pda_Job_Spec (ch_taskPda committed))))) (\<lambda>account.
        case account of
          None \<Rightarrow> freturn None
        | Some a \<Rightarrow>
            if js_task a = ch_taskPda committed \<and> js_creator a = hq_creator input \<and>
               js_jobSpecHash a = jobSpecHash \<and> js_jobSpecUri a = jobSpecUri
            then freturn (Some \<lparr>hr_taskPda = ch_taskPda committed, hr_hireSignature = ch_hireSignature committed,
              hr_activationSignature = [], hr_activationReconciled = True, hr_jobSpecHash = jobSpecHash,
              hr_jobSpecUri = jobSpecUri\<rparr>)
            else fthrow (Flow_Error ''TaskJobSpec exists but does not match the funded activation intent'')))"

section \<open>Activation and moderation of a committed hire\<close>

definition call_activation :: "hire_env \<Rightarrow> activation_call \<Rightarrow> string flow" where
  "call_activation E call =
     fbind (femit (Activation_Called call)) (\<lambda>_.
     fbind (fask (ho_activate E)) (\<lambda>r. flift (map_error Client_Error r)))"

definition activation_caller_resolved :: "hire_request \<Rightarrow> bool" where
  "activation_caller_resolved input \<longleftrightarrow> (case hq_activation input of
      None \<Rightarrow> False
    | Some a \<Rightarrow> ac_account a ''moderationAttestor'' \<noteq> None \<or> ac_moderatorIsAttestor a \<noteq> None \<or>
        ac_account a ''taskModeration'' \<noteq> None)"

definition send_activation ::
  "hire_env \<Rightarrow> hire_request \<Rightarrow> committed_hire \<Rightarrow> bytes \<Rightarrow> string \<Rightarrow> activation_call \<Rightarrow> hire_result flow" where
  "send_activation E input committed jobSpecHash jobSpecUri call =
     fcatch
       (fbind (call_activation E call) (\<lambda>signature.
          if isCanonicalTransactionSignature (he_lib E) signature
          then freturn \<lparr>hr_taskPda = ch_taskPda committed, hr_hireSignature = ch_hireSignature committed,
            hr_activationSignature = signature, hr_activationReconciled = False, hr_jobSpecHash = jobSpecHash,
            hr_jobSpecUri = jobSpecUri\<rparr>
          else fbind (reconcileActivation E input committed jobSpecHash jobSpecUri) (\<lambda>result.
            case result of
              Some r \<Rightarrow> freturn r
            | None \<Rightarrow> fthrow (Flow_Error ''activation returned a non-canonical transaction signature''))))
       (\<lambda>sendCause.
          fbind (fcatch (reconcileActivation E input committed jobSpecHash jobSpecUri)
              (\<lambda>_. fthrow (Flow_Error ''activation send failed and finalized reconciliation failed'')))
            (\<lambda>result. case result of Some r \<Rightarrow> freturn r | None \<Rightarrow> fthrow sendCause))"

definition activateCommittedHire ::
  "hire_env \<Rightarrow> hire_request \<Rightarrow> committed_hire \<Rightarrow> bytes \<Rightarrow> string \<Rightarrow> string \<Rightarrow> hire_result flow" where
  "activateCommittedHire E input committed jobSpecHash jobSpecUri moderator =
     fcatch
       (fbind (fphase E P_Activating) (\<lambda>_.
        fbind (reconcileActivation E input committed jobSpecHash jobSpecUri) (\<lambda>already.
        case already of
          Some r \<Rightarrow> freturn r
        | None \<Rightarrow>
            fbind (if \<not> activation_caller_resolved input \<and> hq_rpc input
                then resolveActivationModerationAccounts E (ch_taskPda committed) jobSpecHash moderator
                else freturn \<lparr>aa_moderationAttestor = None, aa_taskModeration = None\<rparr>) (\<lambda>accounts.
            send_activation E input committed jobSpecHash jobSpecUri
              \<lparr>av_task = ch_taskPda committed, av_creator = hq_creator input, av_jobSpecHash = jobSpecHash,
               av_jobSpecUri = jobSpecUri, av_moderator = moderator, av_resolved = accounts,
               av_overrides = hq_activation input\<rparr>))))
       (\<lambda>_. fthrow (Recoverable (Activating committed jobSpecHash jobSpecUri moderator)))"

definition activation_moderator :: "hire_lib \<Rightarrow> hire_request \<Rightarrow> string \<Rightarrow> flow_error + string" where
  "activation_moderator lib input moderator =
     (case Option.bind (hq_activation input) (\<lambda>a. ac_account a ''moderator'') of
        None \<Rightarrow> Inr moderator
      | Some m \<Rightarrow> if l_is_address lib m then Inr m
          else Inl (Flow_Error ''Activation override contains an invalid moderator pubkey''))"

definition moderateCommittedHire :: "hire_env \<Rightarrow> hire_request \<Rightarrow> committed_hire \<Rightarrow> hire_result flow" where
  "moderateCommittedHire E input committed =
     fbind
       (fcatch
         (fbind (fphase E P_Moderating) (\<lambda>_.
          let host = \<lparr>hs_taskPda = ch_taskPda committed, hs_taskId = h_taskId (hq_hire input),
            hs_listing = h_listing (hq_hire input), hs_hireSignature = ch_hireSignature committed,
            hs_hireIntentDigest = ch_hireIntentDigest committed, hs_hireReconciled = ch_hireReconciled committed\<rparr> in
          fbind (femit (Host_Called host)) (\<lambda>_.
          fbind (fread (\<lambda>t. ho_host E t host)) (\<lambda>moderation.
          fbind (flift (validateModerationResult (he_lib E) moderation (h_taskJobSpecHash (hq_hire input))))
            (\<lambda>(jobSpecHash, jobSpecUri, moderator).
          fbind (flift (activation_moderator (he_lib E) input moderator)) (\<lambda>activationModerator.
          freturn (jobSpecHash, jobSpecUri, activationModerator)))))))
         (\<lambda>_. fthrow (Recoverable (Moderating committed))))
       (\<lambda>(jobSpecHash, jobSpecUri, moderator). activateCommittedHire E input committed jobSpecHash jobSpecUri moderator)"

section \<open>The two entry points\<close>

definition call_hire :: "hire_env \<Rightarrow> hire_request \<Rightarrow> hire_moderation \<Rightarrow> string flow" where
  "call_hire E input moderation =
     fbind (flift (effectiveHireInstructionData (he_lib E) (hq_hire input))) (\<lambda>instructionData.
     fbind (femit (Hire_Called (hire_accounts (he_lib E) (hq_hire input) (hq_creator input) moderation) instructionData)) (\<lambda>_.
     fbind (fask (ho_hire E)) (\<lambda>r. flift (map_error Client_Error r))))"

definition hire_caller_resolved :: "hire_input \<Rightarrow> bool" where
  "hire_caller_resolved hire \<longleftrightarrow> h_account hire ''moderationAttestor'' \<noteq> None \<or>
     h_moderatorIsAttestor hire \<noteq> None \<or> h_account hire ''listingModeration'' \<noteq> None"

definition ambiguous_hire ::
  "hire_env \<Rightarrow> hire_request \<Rightarrow> string \<Rightarrow> string \<Rightarrow> flow_error \<Rightarrow> committed_hire flow" where
  "ambiguous_hire E input taskPda digest sendCause =
     (case sendCause of
        Client_Error failure \<Rightarrow>
          if cf_agenc failure \<and> cf_signature failure = None then fthrow sendCause
          else
            (let signature = candidateSignature (he_lib E) failure; progress = Hiring taskPda signature digest in
             case signature of
               None \<Rightarrow> fthrow (Recoverable progress)
             | Some s \<Rightarrow>
                 fbind (fcatch (reconcileHire E input taskPda (Some (s, digest)))
                     (\<lambda>reconcileCause. case reconcileCause of
                        Finalized_Failure c e \<Rightarrow> fthrow reconcileCause
                      | _ \<Rightarrow> fthrow (Recoverable progress)))
                   (\<lambda>committed. case committed of Some c \<Rightarrow> freturn c | None \<Rightarrow> fthrow (Recoverable progress)))
      | _ \<Rightarrow> fthrow (Recoverable (Hiring taskPda None digest)))"

definition hireAndActivate :: "hire_env \<Rightarrow> hire_request \<Rightarrow> hire_result flow" where
  "hireAndActivate E input0 =
     fbind (flift (snapshotInput (he_defaultReferrer E) input0)) (\<lambda>input.
     fbind (flift (validated_request (he_lib E) input)) (\<lambda>_.
     fbind (flift (hireIntentDigest (he_lib E) (hq_hire input) (hq_creator input))) (\<lambda>digest.
     fbind (fphase E P_Hiring) (\<lambda>_.
     let taskPda = l_pda (he_lib E) (Pda_Task (hq_creator input) (h_taskId (hq_hire input))) in
     fbind (reconcileHire E input taskPda None) (\<lambda>_.
     fbind (if \<not> hire_caller_resolved (hq_hire input) \<and> hq_rpc input
         then resolveHireListingModerationAccounts E (h_listing (hq_hire input)) (h_listingSpecHash (hq_hire input))
           (h_moderator (hq_hire input))
         else freturn \<lparr>hm_moderationAttestor = None, hm_listingModeration = None\<rparr>) (\<lambda>moderation.
     fbind (fcatch (fbind (call_hire E input moderation) (\<lambda>signature. freturn (Inr signature)))
         (\<lambda>sendCause. fbind (ambiguous_hire E input taskPda digest sendCause) (\<lambda>committed. freturn (Inl committed))))
       (\<lambda>outcome. case outcome of
          Inl committed \<Rightarrow> moderateCommittedHire E input committed
        | Inr signature \<Rightarrow>
            if \<not> isCanonicalTransactionSignature (he_lib E) signature
            then fthrow (Recoverable (Hiring taskPda None digest))
            else moderateCommittedHire E input \<lparr>ch_taskPda = taskPda, ch_hireSignature = signature,
              ch_hireIntentDigest = digest, ch_hireReconciled = None\<rparr>)))))))"

fun progress_task :: "progress \<Rightarrow> string" where
  "progress_task (Hiring task candidate digest) = task"
| "progress_task (Moderating c) = ch_taskPda c"
| "progress_task (Activating c hash uri moderator) = ch_taskPda c"

fun progress_digest :: "progress \<Rightarrow> string" where
  "progress_digest (Hiring task candidate digest) = digest"
| "progress_digest (Moderating c) = ch_hireIntentDigest c"
| "progress_digest (Activating c hash uri moderator) = ch_hireIntentDigest c"

definition committed_token :: "hire_lib \<Rightarrow> committed_hire \<Rightarrow> bool" where
  "committed_token lib c \<longleftrightarrow>
     (ch_hireReconciled c = Some True \<and> ch_hireSignature c = []) \<or>
     (ch_hireReconciled c = None \<and> isCanonicalTransactionSignature lib (ch_hireSignature c))"

definition activating_token :: "hire_lib \<Rightarrow> hire_request \<Rightarrow> bytes \<Rightarrow> string \<Rightarrow> string \<Rightarrow> flow_error + unit" where
  "activating_token lib input jobSpecHash jobSpecUri moderator =
     bind_res (flow_guard (jobSpecHash = h_taskJobSpecHash (hq_hire input) \<and> jobSpecUri \<noteq> [] \<and> jobSpecUri = js_trim jobSpecUri)
       ''activation recovery payload does not match the funded hire intent'') (\<lambda>_.
     bind_res (flow_guard (l_is_address lib moderator) ''invalid activation recovery moderator'') (\<lambda>_.
     flow_guard (case Option.bind (hq_activation input) (\<lambda>a. ac_account a ''moderator'') of None \<Rightarrow> True | Some m \<Rightarrow> m = moderator)
       ''activation moderator no longer matches recovery intent''))"

definition resumeHireAndActivate :: "hire_env \<Rightarrow> hire_request \<Rightarrow> progress \<Rightarrow> hire_result flow" where
  "resumeHireAndActivate E input0 progress1 =
     (let lib = he_lib E in
     fbind (flift (case progress1 of Activating c hash uri m \<Rightarrow> bind_res (snapshotFixedBytes hash 32) (\<lambda>_. Inr ()) | _ \<Rightarrow> Inr ())) (\<lambda>_.
     fbind (flift (snapshotInput (he_defaultReferrer E) input0)) (\<lambda>input.
     fbind (flift (validated_request lib input)) (\<lambda>_.
     fbind (flift (hireIntentDigest lib (hq_hire input) (hq_creator input))) (\<lambda>digest.
     let expectedTask = l_pda lib (Pda_Task (hq_creator input) (h_taskId (hq_hire input))) in
     fbind (flift (flow_guard (expectedTask = progress_task progress1) ''recovery task does not match the supplied intent'')) (\<lambda>_.
     fbind (flift (flow_guard (l_is_address lib (progress_task progress1)) ''recovery task is invalid'')) (\<lambda>_.
     fbind (flift (flow_guard (length (progress_digest progress1) = 64 \<and> progress_digest progress1 = digest)
       ''recovery token does not match the complete supplied hire intent'')) (\<lambda>_.
     case progress1 of
       Hiring taskPda candidate digest1 \<Rightarrow>
         (case candidate of
            None \<Rightarrow> fthrow (Recoverable progress1)
          | Some s \<Rightarrow>
              if \<not> isCanonicalTransactionSignature lib s then fthrow (Flow_Error ''invalid ambiguous-hire recovery payload'')
              else
                fbind (fcatch (reconcileHire E input taskPda (Some (s, digest1)))
                    (\<lambda>cause. case cause of Finalized_Failure c e \<Rightarrow> fthrow cause | _ \<Rightarrow> fthrow (Recoverable progress1)))
                  (\<lambda>committed. case committed of
                     None \<Rightarrow> fthrow (Recoverable progress1)
                   | Some c \<Rightarrow> moderateCommittedHire E input c))
     | Moderating c \<Rightarrow>
         if committed_token lib c then moderateCommittedHire E input c
         else fthrow (Flow_Error ''invalid recovery progress'')
     | Activating c jobSpecHash jobSpecUri moderator \<Rightarrow>
         if \<not> committed_token lib c then fthrow (Flow_Error ''invalid recovery progress'')
         else fbind (flift (activating_token lib input jobSpecHash jobSpecUri moderator)) (\<lambda>_.
           activateCommittedHire E input c jobSpecHash jobSpecUri moderator)))))))))"

end
