(* ===== verification/HireRules.thy ===== *)
theory HireRules
  imports HireActivate
begin

text \<open>
  Reasoning about the flow of a hire: what each part adds to the trace, what it returns and what it throws.
\<close>

section \<open>Outcomes of a flow\<close>

text \<open>Every run of \<open>m\<close> adds events \<open>l\<close> to the trace; \<open>Q\<close> holds of a returned value and \<open>l\<close>, \<open>R\<close> of a thrown one.\<close>

definition outcomes ::
  "'a flow \<Rightarrow> ('a \<Rightarrow> hire_event list \<Rightarrow> bool) \<Rightarrow> (flow_error \<Rightarrow> hire_event list \<Rightarrow> bool) \<Rightarrow> bool" where
  "outcomes m Q R \<longleftrightarrow> (\<forall>w r w'. m w = (r, w') \<longrightarrow>
     (\<exists>l. fw_trace w' = fw_trace w @ l \<and> (case r of Inr a \<Rightarrow> Q a l | Inl e \<Rightarrow> R e l)))"

named_theorems flow_rules \<open>outcomes of the combinators\<close>

lemma outcomes_freturn [flow_rules]: "Q a [] \<Longrightarrow> outcomes (freturn a) Q R"
  by (simp add: outcomes_def freturn_def)

lemma outcomes_fthrow [flow_rules]: "R e [] \<Longrightarrow> outcomes (fthrow e) Q R"
  by (simp add: outcomes_def fthrow_def)

lemma outcomes_flift: "(\<And>a. r = Inr a \<Longrightarrow> Q a []) \<Longrightarrow> (\<And>e. r = Inl e \<Longrightarrow> R e []) \<Longrightarrow> outcomes (flift r) Q R"
  by (cases r) (simp_all add: outcomes_def flift_def)

lemma outcomes_fask: "(\<And>t. Q (f t) []) \<Longrightarrow> outcomes (fask f) Q R"
  by (simp add: outcomes_def fask_def)

lemma outcomes_femit [flow_rules]: "Q () [ev] \<Longrightarrow> outcomes (femit ev) Q R"
  by (simp add: outcomes_def femit_def)

lemma outcomes_fbind:
  assumes "outcomes m (\<lambda>a l. outcomes (f a) (\<lambda>b l'. Q b (l @ l')) (\<lambda>e l'. R e (l @ l'))) R"
  shows "outcomes (fbind m f) Q R"
  unfolding outcomes_def
proof (intro allI impI)
  fix w r w'
  assume run: "fbind m f w = (r, w')"
  obtain r1 w1 where m: "m w = (r1, w1)" by (cases "m w")
  from assms m obtain l where l: "fw_trace w1 = fw_trace w @ l"
    "case r1 of Inr a \<Rightarrow> outcomes (f a) (\<lambda>b l'. Q b (l @ l')) (\<lambda>e l'. R e (l @ l')) | Inl e \<Rightarrow> R e l"
    unfolding outcomes_def [of m] by blast
  show "\<exists>l. fw_trace w' = fw_trace w @ l \<and> (case r of Inr a \<Rightarrow> Q a l | Inl e \<Rightarrow> R e l)"
  proof (cases r1)
    case (Inl e)
    then show ?thesis using run m l by (auto simp: fbind_def)
  next
    case (Inr a)
    then have "f a w1 = (r, w')" using run m by (simp add: fbind_def)
    moreover have "outcomes (f a) (\<lambda>b l'. Q b (l @ l')) (\<lambda>e l'. R e (l @ l'))" using l(2) Inr by simp
    ultimately obtain l' where "fw_trace w' = fw_trace w1 @ l'" "case r of Inr b \<Rightarrow> Q b (l @ l') | Inl e \<Rightarrow> R e (l @ l')"
      unfolding outcomes_def by blast
    then show ?thesis using l(1) by (intro exI [of _ "l @ l'"]) simp
  qed
qed

lemma outcomes_fcatch:
  assumes "outcomes m Q (\<lambda>e l. outcomes (h e) (\<lambda>b l'. Q b (l @ l')) (\<lambda>e' l'. R e' (l @ l')))"
  shows "outcomes (fcatch m h) Q R"
  unfolding outcomes_def
proof (intro allI impI)
  fix w r w'
  assume run: "fcatch m h w = (r, w')"
  obtain r1 w1 where m: "m w = (r1, w1)" by (cases "m w")
  from assms m obtain l where l: "fw_trace w1 = fw_trace w @ l"
    "case r1 of Inr a \<Rightarrow> Q a l | Inl e \<Rightarrow> outcomes (h e) (\<lambda>b l'. Q b (l @ l')) (\<lambda>e' l'. R e' (l @ l'))"
    unfolding outcomes_def [of m] by blast
  show "\<exists>l. fw_trace w' = fw_trace w @ l \<and> (case r of Inr a \<Rightarrow> Q a l | Inl e \<Rightarrow> R e l)"
  proof (cases r1)
    case (Inr a)
    then show ?thesis using run m l by (auto simp: fcatch_def)
  next
    case (Inl e)
    then have "h e w1 = (r, w')" using run m by (simp add: fcatch_def)
    moreover have "outcomes (h e) (\<lambda>b l'. Q b (l @ l')) (\<lambda>e' l'. R e' (l @ l'))" using l(2) Inl by simp
    ultimately obtain l' where "fw_trace w' = fw_trace w1 @ l'" "case r of Inr b \<Rightarrow> Q b (l @ l') | Inl e' \<Rightarrow> R e' (l @ l')"
      unfolding outcomes_def by blast
    then show ?thesis using l(1) by (intro exI [of _ "l @ l'"]) simp
  qed
qed

lemma outcomes_mono:
  assumes "outcomes m Q' R'" "\<And>a l. Q' a l \<Longrightarrow> Q a l" "\<And>e l. R' e l \<Longrightarrow> R e l"
  shows "outcomes m Q R"
  unfolding outcomes_def
proof (intro allI impI)
  fix w r w'
  assume "m w = (r, w')"
  with assms(1) obtain l where "fw_trace w' = fw_trace w @ l" "case r of Inr a \<Rightarrow> Q' a l | Inl e \<Rightarrow> R' e l"
    unfolding outcomes_def by blast
  then show "\<exists>l. fw_trace w' = fw_trace w @ l \<and> (case r of Inr a \<Rightarrow> Q a l | Inl e \<Rightarrow> R e l)"
    using assms(2,3) by (intro exI [of _ l]) (auto split: sum.splits)
qed

lemma outcomesD:
  assumes "outcomes m Q R" "m w = (r, w')"
  obtains l where "fw_trace w' = fw_trace w @ l" "case r of Inr a \<Rightarrow> Q a l | Inl e \<Rightarrow> R e l"
  using assms unfolding outcomes_def by blast

text \<open>Chains: a first part described by a lemma, then the rest.\<close>

lemma outcomes_then:
  assumes "outcomes m Q' R'" "\<And>a l. Q' a l \<Longrightarrow> outcomes (f a) (\<lambda>b l'. Q b (l @ l')) (\<lambda>e l'. R e (l @ l'))"
    "\<And>e l. R' e l \<Longrightarrow> R e l"
  shows "outcomes (fbind m f) Q R"
  by (rule outcomes_fbind, rule outcomes_mono [OF assms])

lemma outcomes_else:
  assumes "outcomes m Q' R'" "\<And>a l. Q' a l \<Longrightarrow> Q a l"
    "\<And>e l. R' e l \<Longrightarrow> outcomes (h e) (\<lambda>b l'. Q b (l @ l')) (\<lambda>e' l'. R e' (l @ l'))"
  shows "outcomes (fcatch m h) Q R"
  by (rule outcomes_fcatch, rule outcomes_mono [OF assms])

section \<open>Calls that only read\<close>

lemma fread_outcomes: "outcomes (fread f) (\<lambda>a l. l = [] \<and> (\<exists>t. f t = Inr a)) (\<lambda>e l. l = [] \<and> (\<exists>m. e = Flow_Error m))"
  unfolding fread_def
  by (intro outcomes_fbind outcomes_fask outcomes_flift) (auto simp: map_error_def split: sum.splits)

lemma fphase_outcomes: "outcomes (fphase E p) (\<lambda>_ l. l = []) (\<lambda>e l. l = [] \<and> (\<exists>m. e = Flow_Error m))"
  unfolding fphase_def
  by (intro outcomes_fbind outcomes_fask) (auto intro: flow_rules)

lemma flift_outcomes: "outcomes (flift r) (\<lambda>a l. l = [] \<and> r = Inr a) (\<lambda>e l. l = [] \<and> r = Inl e)"
  by (rule outcomes_flift) auto

text \<open>A flow that adds nothing to the trace and never throws.\<close>

definition silent :: "'a flow \<Rightarrow> bool" where
  "silent m \<longleftrightarrow> outcomes m (\<lambda>_ l. l = []) (\<lambda>_ _. False)"

definition reads_only :: "'a flow \<Rightarrow> bool" where
  "reads_only m \<longleftrightarrow> outcomes m (\<lambda>_ l. l = []) (\<lambda>e l. l = [] \<and> (\<exists>m. e = Flow_Error m))"

lemma reads_only_basic: "reads_only (freturn a)" "reads_only (fread f)"
  unfolding reads_only_def by (auto intro: flow_rules outcomes_mono [OF fread_outcomes])

lemma reads_only_bind: "reads_only m \<Longrightarrow> (\<And>a. reads_only (f a)) \<Longrightarrow> reads_only (fbind m f)"
  unfolding reads_only_def by (erule outcomes_then) (auto elim: outcomes_mono)

lemma reads_only_silenced: "reads_only m \<Longrightarrow> silent (fcatch m (\<lambda>_. freturn a))"
  unfolding silent_def reads_only_def by (erule outcomes_else) (auto intro: flow_rules)

lemma roster_reads: "reads_only (resolveRosterEntry E moderator)"
  unfolding resolveRosterEntry_def Let_def
  by (intro reads_only_bind reads_only_basic) (auto intro!: reads_only_bind reads_only_basic)

lemma legacy_reads: "reads_only (legacy_record E a b m)"
  unfolding legacy_record_def
  by (intro reads_only_bind reads_only_basic) (auto intro!: reads_only_bind reads_only_basic)

lemma resolvers_silent: "silent (resolveActivationModerationAccounts E t h m)"
  "silent (resolveHireListingModerationAccounts E li h m)"
  unfolding resolveActivationModerationAccounts_def resolveHireListingModerationAccounts_def
  by (intro reads_only_silenced reads_only_bind roster_reads legacy_reads reads_only_basic)+

lemma silent_return: "silent (freturn a)"
  unfolding silent_def by (rule outcomes_freturn) simp

text \<open>What the resolvers can answer.\<close>

lemma roster_outcomes:
  "outcomes (resolveRosterEntry E moderator)
     (\<lambda>r l. l = [] \<and> (\<forall>a. r = Some a \<longrightarrow> a = l_pda (he_lib E) (Pda_Attestor moderator)))
     (\<lambda>e l. l = [] \<and> (\<exists>m. e = Flow_Error m))"
  unfolding resolveRosterEntry_def Let_def
  by (auto intro!: outcomes_then [OF fread_outcomes] outcomes_freturn split: if_splits)

lemma legacy_outcomes:
  "outcomes (legacy_record E v2Pda legacyPda moderator) (\<lambda>r l. l = [] \<and> (\<forall>a. r = Some a \<longrightarrow> a = legacyPda))
     (\<lambda>e l. l = [] \<and> (\<exists>m. e = Flow_Error m))"
  unfolding legacy_record_def
  by (auto intro!: outcomes_then [OF fread_outcomes] outcomes_freturn split: if_splits)

lemma listing_outcomes:
  "outcomes (resolveHireListingModerationAccounts E listing hash moderator)
     (\<lambda>r l. l = [] \<and> (\<forall>a. hm_moderationAttestor r = Some a \<longrightarrow> a = l_pda (he_lib E) (Pda_Attestor moderator)) \<and>
        (\<forall>a. hm_listingModeration r = Some a \<longrightarrow> a = l_pda (he_lib E) (Pda_Legacy_Listing_Moderation listing hash)))
     (\<lambda>_ _. False)"
  unfolding resolveHireListingModerationAccounts_def
  by (rule outcomes_else [where R' = "\<lambda>e l. l = []" and
        Q' = "\<lambda>r l. l = [] \<and> (\<forall>a. hm_moderationAttestor r = Some a \<longrightarrow> a = l_pda (he_lib E) (Pda_Attestor moderator)) \<and>
        (\<forall>a. hm_listingModeration r = Some a \<longrightarrow> a = l_pda (he_lib E) (Pda_Legacy_Listing_Moderation listing hash))"])
    (auto intro!: outcomes_then [OF roster_outcomes] outcomes_then [OF legacy_outcomes] outcomes_freturn)

section \<open>Trimming twice\<close>

lemma trim_nil: "trim_start [] = []" "trim_end [] = []"
  by (simp_all add: trim_start.simps [of "[]"] trim_end.simps [of "[]"] split: option.split)

lemma trim_start_twice: "trim_start (trim_start s) = trim_start s"
proof (induction s rule: trim_start.induct)
  case (1 s)
  then show ?case
    by (cases "List.find (\<lambda>w. w \<noteq> [] \<and> take (length w) (codes s) = w) whitespace_codes"; cases "s = []")
      (simp_all add: trim_nil trim_start.simps [of s])
qed

lemma trim_end_twice: "trim_end (trim_end s) = trim_end s"
proof (induction s rule: trim_end.induct)
  case (1 s)
  then show ?case
    by (cases "List.find (\<lambda>w. w \<noteq> [] \<and> length w \<le> length s \<and> drop (length s - length w) (codes s) = w) whitespace_codes";
        cases "s = []") (simp_all add: trim_nil trim_end.simps [of s])
qed

lemma trim_end_prefix: "\<exists>n. trim_end s = take n s"
proof (induction s rule: trim_end.induct)
  case (1 s)
  show ?case
  proof (cases "List.find (\<lambda>w. w \<noteq> [] \<and> length w \<le> length s \<and> drop (length s - length w) (codes s) = w) whitespace_codes")
    case None
    then show ?thesis by (intro exI [of _ "length s"]) (simp add: trim_end.simps [of s])
  next
    case (Some w)
    show ?thesis
    proof (cases "s = []")
      case False
      with 1 [OF Some] obtain n where "trim_end (take (length s - length w) s) = take n (take (length s - length w) s)" by blast
      then show ?thesis using Some False by (intro exI [of _ "min n (length s - length w)"]) (simp add: trim_end.simps [of s])
    qed (simp add: trim_nil)
  qed
qed

lemma js_trim_twice: "js_trim (js_trim s) = js_trim s"
proof -
  obtain n where n: "trim_end (trim_start s) = take n (trim_start s)" using trim_end_prefix by blast
  have "trim_start (take n (trim_start s)) = take n (trim_start s)"
  proof -
    have "take (length w) (codes (take n (trim_start s))) \<noteq> w" if w: "w \<in> set whitespace_codes" for w
    proof
      assume pre: "take (length w) (codes (take n (trim_start s))) = w"
      then have "length w \<le> length (codes (take n (trim_start s)))" by (metis length_take min.cobounded1)
      then have "length w \<le> n" by simp
      then have "take (length w) (codes (trim_start s)) = w"
        using pre by (simp add: codes_def take_map [symmetric] min_absorb1)
      then show False using trim_start_twice [of s] w trim_start_fixed [of "trim_start s"] by blast
    qed
    then show ?thesis by (simp add: trim_start_fixed)
  qed
  then show ?thesis by (simp add: js_trim_def n [symmetric] trim_end_twice)
qed

end
