(* ===== verification/HireProps.thy ===== *)
theory HireProps
  imports HireRules SendProps
begin

text \<open>
  What the flow of a hire guarantees: at most one funded hire, never lost; adoption only of what finalized state
  proves; activation only of the committed content.
\<close>

section \<open>Plain errors\<close>

definition plain :: "flow_error + 'a \<Rightarrow> bool" where
  "plain r \<longleftrightarrow> (\<forall>e. r = Inl e \<longrightarrow> (\<exists>m. e = Flow_Error m))"

lemma plain_Inr [simp]: "plain (Inr a)" "plain (Inl (Flow_Error m))" "plain (flow_guard b m)"
  by (simp_all add: plain_def flow_guard_def guard_res_def)

lemma plain_bind [intro]: "plain r \<Longrightarrow> (\<And>a. plain (f a)) \<Longrightarrow> plain (bind_res r f)"
  by (cases r) (auto simp: plain_def)

lemma plain_data: "plain (effectiveHireInstructionData lib hire)"
  by (simp add: effectiveHireInstructionData_def split: option.split)

lemma plain_digest: "plain (hireIntentDigest lib hire creator)"
  unfolding hireIntentDigest_def by (auto intro: plain_data)

lemma plain_listing_hash: "plain (requiredListingSpecHash hire)"
  unfolding requiredListingSpecHash_def by auto

lemma plain_programs: "plain (program_instructions lib keys is)"
  by (induction "is") (auto simp: Let_def)

lemma plain_keys: "plain (account_keys keys is)"
proof -
  have "plain (map_res (\<lambda>index. case key_at keys index of
      None \<Rightarrow> Inl (Flow_Error m) | Some a \<Rightarrow> Inr a) is)" for m
    by (induction "is") (auto split: option.split)
  then show ?thesis by (simp add: account_keys_def)
qed

lemma plain_proof: "plain (prove_transaction lib hire creator task s tx)"
  unfolding prove_transaction_def
  by (auto intro!: plain_bind plain_programs plain_data plain_listing_hash plain_keys split: option.split list.split)

lemma plain_referral: "plain (expectedReferral lib hire)"
  unfolding expectedReferral_def resolveOptionalAddress_def by (auto split: option.split)

lemma plain_request: "plain (validated_request lib input)" "plain (snapshotInput d input)"
  "plain (validateModerationResult lib r h)" "plain (activation_moderator lib input m)"
  "plain (activating_token lib input h u m)"
  unfolding validated_request_def snapshotInput_def validateModerationResult_def activation_moderator_def
    activating_token_def validateHireCommitment_def validateListingCommitment_def validateHireOverrides_def
    validateActivationOverrides_def snapshotFixedBytes_def Let_def
  by (auto intro!: plain_bind split: option.split)

lemma plain_flift: "plain r \<Longrightarrow> outcomes (flift r) (\<lambda>a l. l = [] \<and> r = Inr a) (\<lambda>e l. l = [] \<and> (\<exists>m. e = Flow_Error m))"
  by (rule outcomes_mono [OF flift_outcomes]) (auto simp: plain_def)

section \<open>Adoption of a hire\<close>

text \<open>The finalized transaction and the finalized accounts prove the hire of the request.\<close>

definition proven_hire :: "hire_env \<Rightarrow> hire_request \<Rightarrow> string \<Rightarrow> string \<Rightarrow> bool" where
  "proven_hire E input taskPda s \<longleftrightarrow>
     (\<exists>t tx. ho_transaction E t s = Inr (Some tx) \<and>
        prove_transaction (he_lib E) (hq_hire input) (hq_creator input) taskPda s tx = Inr Succeeded) \<and>
     (\<exists>t1 a t2 e t3 h t4 v referral.
        ho_task E t1 taskPda = Inr (Some a) \<and> ho_escrow E t2 (l_pda (he_lib E) (Pda_Escrow taskPda)) = Inr (Some e) \<and>
        ho_hire_record E t3 (l_pda (he_lib E) (Pda_Hire_Record taskPda)) = Inr (Some h) \<and>
        ho_validation E t4 (l_pda (he_lib E) (Pda_Validation taskPda)) = Inr (Some v) \<and>
        expectedReferral (he_lib E) (hq_hire input) = Inr referral \<and>
        hire_state_matches (he_lib E) (hq_hire input) (hq_creator input) taskPda referral a e h v)"

text \<open>The finalized transaction failed and left no account.\<close>

definition proven_failure :: "hire_env \<Rightarrow> hire_request \<Rightarrow> string \<Rightarrow> string \<Rightarrow> json \<Rightarrow> bool" where
  "proven_failure E input taskPda s x \<longleftrightarrow>
     (\<exists>t tx. ho_transaction E t s = Inr (Some tx) \<and>
        prove_transaction (he_lib E) (hq_hire input) (hq_creator input) taskPda s tx = Inr (Failed x)) \<and>
     (\<exists>t1 t2 t3 t4.
        ho_task E t1 taskPda = Inr None \<and> ho_escrow E t2 (l_pda (he_lib E) (Pda_Escrow taskPda)) = Inr None \<and>
        ho_hire_record E t3 (l_pda (he_lib E) (Pda_Hire_Record taskPda)) = Inr None \<and>
        ho_validation E t4 (l_pda (he_lib E) (Pda_Validation taskPda)) = Inr None)"

lemma prove_outcomes:
  "outcomes (proveFinalizedHireTransaction E input taskPda s)
     (\<lambda>x l. l = [] \<and> isCanonicalTransactionSignature (he_lib E) s \<and>
        (\<exists>t tx. ho_transaction E t s = Inr (Some tx) \<and>
          prove_transaction (he_lib E) (hq_hire input) (hq_creator input) taskPda s tx = Inr x))
     (\<lambda>e l. l = [] \<and> (\<exists>m. e = Flow_Error m))"
proof (cases "isCanonicalTransactionSignature (he_lib E) s \<and> hq_rpc input \<and> hq_getTransaction input")
  case False
  then show ?thesis by (auto simp: proveFinalizedHireTransaction_def intro: flow_rules)
next
  case True
  have "outcomes (case r of None \<Rightarrow> fthrow (Flow_Error m) | Some tx \<Rightarrow>
        flift (prove_transaction (he_lib E) (hq_hire input) (hq_creator input) taskPda s tx))
      (\<lambda>x l. l = [] \<and> isCanonicalTransactionSignature (he_lib E) s \<and> (\<exists>t tx. ho_transaction E t s = Inr (Some tx) \<and>
          prove_transaction (he_lib E) (hq_hire input) (hq_creator input) taskPda s tx = Inr x))
      (\<lambda>e l. l = [] \<and> (\<exists>m. e = Flow_Error m))" if "\<exists>t. ho_transaction E t s = Inr r" for r m
    using that True by (cases r) (auto intro!: outcomes_fthrow outcomes_mono [OF plain_flift [OF plain_proof]])
  with True show ?thesis
    unfolding proveFinalizedHireTransaction_def
    by (simp, intro outcomes_then [OF fread_outcomes]) auto
qed

definition adopted :: "hire_env \<Rightarrow> hire_request \<Rightarrow> string \<Rightarrow> (string \<times> string) option \<Rightarrow> committed_hire option \<Rightarrow> bool" where
  "adopted E input taskPda proof1 r \<longleftrightarrow> (case r of
      None \<Rightarrow> proof1 = None \<or> \<not> hq_rpc input
    | Some c \<Rightarrow> (\<exists>s d. proof1 = Some (s, d) \<and> isCanonicalTransactionSignature (he_lib E) s \<and> proven_hire E input taskPda s \<and>
        hireIntentDigest (he_lib E) (hq_hire input) (hq_creator input) = Inr d \<and>
        c = \<lparr>ch_taskPda = taskPda, ch_hireSignature = s, ch_hireIntentDigest = d, ch_hireReconciled = None\<rparr>))"

definition not_adopted :: "hire_env \<Rightarrow> hire_request \<Rightarrow> string \<Rightarrow> (string \<times> string) option \<Rightarrow> flow_error \<Rightarrow> bool" where
  "not_adopted E input taskPda proof1 e \<longleftrightarrow>
     (\<exists>m. e = Flow_Error m) \<or> (\<exists>s d x. proof1 = Some (s, d) \<and> e = Finalized_Failure s x \<and> proven_failure E input taskPda s x)"

text \<open>The part of \<open>reconcileHire\<close> that looks at the transaction, and the part that looks at the accounts.\<close>

definition examine :: "hire_env \<Rightarrow> hire_request \<Rightarrow> string \<Rightarrow> (string \<times> string) option \<Rightarrow> execution option flow" where
  "examine E input taskPda proof1 = (case proof1 of
      None \<Rightarrow> freturn None
    | Some (candidate, digest) \<Rightarrow>
        fbind (flift (hireIntentDigest (he_lib E) (hq_hire input) (hq_creator input))) (\<lambda>expectedIntentDigest.
          if digest \<noteq> expectedIntentDigest
          then fthrow (Flow_Error ''Hire recovery token does not match the supplied hire intent'')
          else fbind (proveFinalizedHireTransaction E input taskPda candidate) (\<lambda>outcome. freturn (Some outcome))))"

definition conclude :: "hire_env \<Rightarrow> hire_request \<Rightarrow> string \<Rightarrow> (string \<times> string) option \<Rightarrow> execution option \<Rightarrow> task option \<Rightarrow>
    task_escrow option \<Rightarrow> hire_record_data option \<Rightarrow> task_validation_config option \<Rightarrow> committed_hire option flow" where
  "conclude E input taskPda proof1 transactionOutcome task escrow hireRecord validationConfig =
     (let lib = he_lib E; hire = hq_hire input; creator = hq_creator input;
          absent = (task = None \<and> escrow = None \<and> hireRecord = None \<and> validationConfig = None) in
          case (transactionOutcome, proof1) of
            (Some (Failed transactionError), Some (candidate, digest)) \<Rightarrow>
              if absent then fthrow (Finalized_Failure candidate transactionError)
              else fthrow (Flow_Error ''Candidate hire transaction failed, but finalized hire state exists'')
          | _ \<Rightarrow>
              if absent then
                (case proof1 of
                   None \<Rightarrow> freturn None
                 | Some _ \<Rightarrow> fthrow (Flow_Error ''Candidate hire transaction finalized successfully, but account state is absent''))
              else (case (task, escrow, hireRecord, validationConfig, proof1) of
                  (Some t, Some e, Some h, Some v, Some (candidate, digest)) \<Rightarrow>
                    fbind (flift (expectedReferral lib hire)) (\<lambda>referral.
                    fbind (flift (requiredListingSpecHash hire)) (\<lambda>_.
                      if hire_state_matches lib hire creator taskPda referral t e h v
                      then freturn (Some \<lparr>ch_taskPda = taskPda, ch_hireSignature = candidate,
                        ch_hireIntentDigest = digest, ch_hireReconciled = None\<rparr>)
                      else fthrow (Flow_Error ''Finalized state does not match the funded hire intent'')))
                | (Some t, Some e, Some h, Some v, None) \<Rightarrow>
                    fthrow (Flow_Error ''Finalized state already exists, but no attributable ambiguous hire transaction was supplied'')
                | _ \<Rightarrow> fthrow (Flow_Error ''Finalized hire state is incomplete'')))"

lemma reconcileHire_alt:
  "reconcileHire E input taskPda proof1 =
     (if \<not> hq_rpc input then freturn None
      else fbind (examine E input taskPda proof1) (\<lambda>transactionOutcome.
        fbind (fread (\<lambda>t. ho_task E t taskPda)) (\<lambda>task.
        fbind (fread (\<lambda>t. ho_escrow E t (l_pda (he_lib E) (Pda_Escrow taskPda)))) (\<lambda>escrow.
        fbind (fread (\<lambda>t. ho_hire_record E t (l_pda (he_lib E) (Pda_Hire_Record taskPda)))) (\<lambda>hireRecord.
        fbind (fread (\<lambda>t. ho_validation E t (l_pda (he_lib E) (Pda_Validation taskPda)))) (\<lambda>validationConfig.
          conclude E input taskPda proof1 transactionOutcome task escrow hireRecord validationConfig))))))"
  by (simp add: reconcileHire_def examine_def conclude_def Let_def)

definition examined :: "hire_env \<Rightarrow> hire_request \<Rightarrow> string \<Rightarrow> (string \<times> string) option \<Rightarrow> execution option \<Rightarrow> bool" where
  "examined E input taskPda proof1 x \<longleftrightarrow> (case proof1 of
      None \<Rightarrow> x = None
    | Some (s, d) \<Rightarrow> (\<exists>y. x = Some y \<and> isCanonicalTransactionSignature (he_lib E) s \<and>
        hireIntentDigest (he_lib E) (hq_hire input) (hq_creator input) = Inr d \<and>
        (\<exists>t tx. ho_transaction E t s = Inr (Some tx) \<and>
          prove_transaction (he_lib E) (hq_hire input) (hq_creator input) taskPda s tx = Inr y)))"

lemma examine_outcomes:
  "outcomes (examine E input taskPda proof1) (\<lambda>x l. l = [] \<and> examined E input taskPda proof1 x)
     (\<lambda>e l. l = [] \<and> (\<exists>m. e = Flow_Error m))"
proof (cases proof1)
  case None
  then show ?thesis by (auto simp: examine_def examined_def intro: flow_rules)
next
  case (Some sd)
  obtain s d where sd: "sd = (s, d)" by (cases sd)
  have "outcomes (if d \<noteq> d' then fthrow (Flow_Error m)
      else fbind (proveFinalizedHireTransaction E input taskPda s) (\<lambda>outcome. freturn (Some outcome)))
     (\<lambda>x l. l = [] \<and> examined E input taskPda proof1 x) (\<lambda>e l. l = [] \<and> (\<exists>m. e = Flow_Error m))"
    if "hireIntentDigest (he_lib E) (hq_hire input) (hq_creator input) = Inr d'" for d' m
    using that Some sd
    by (auto intro!: outcomes_fthrow outcomes_then [OF prove_outcomes] outcomes_freturn simp: examined_def)
  then show ?thesis
    unfolding examine_def Some sd by (auto intro!: outcomes_then [OF plain_flift [OF plain_digest]] simp: Some sd)
qed

lemma conclude_outcomes:
  assumes "examined E input taskPda proof1 x" "ho_task E t1 taskPda = Inr a"
    "ho_escrow E t2 (l_pda (he_lib E) (Pda_Escrow taskPda)) = Inr e"
    "ho_hire_record E t3 (l_pda (he_lib E) (Pda_Hire_Record taskPda)) = Inr h"
    "ho_validation E t4 (l_pda (he_lib E) (Pda_Validation taskPda)) = Inr v"
  shows "outcomes (conclude E input taskPda proof1 x a e h v)
     (\<lambda>r l. l = [] \<and> adopted E input taskPda proof1 r) (\<lambda>e l. l = [] \<and> not_adopted E input taskPda proof1 e)"
proof (cases proof1)
  case None
  then have "x = None" using assms(1) by (simp add: examined_def)
  then show ?thesis
    using None by (auto simp: conclude_def adopted_def not_adopted_def Let_def intro!: flow_rules split: option.split)
next
  case (Some sd)
  obtain s d where sd: "sd = (s, d)" by (cases sd)
  obtain y t tx where y: "x = Some y" "isCanonicalTransactionSignature (he_lib E) s"
      "hireIntentDigest (he_lib E) (hq_hire input) (hq_creator input) = Inr d" "ho_transaction E t s = Inr (Some tx)"
      "prove_transaction (he_lib E) (hq_hire input) (hq_creator input) taskPda s tx = Inr y"
    using assms(1) unfolding examined_def Some sd by auto
  show ?thesis
  proof (cases y)
    case (Failed err)
    then have "not_adopted E input taskPda proof1 (Finalized_Failure s err)"
      if "a = None" "e = None" "h = None" "v = None"
      using that y assms Some sd unfolding not_adopted_def proven_failure_def by blast
    then show ?thesis
      using Failed y(1) Some sd by (auto simp: conclude_def not_adopted_def Let_def intro!: flow_rules)
  next
    case Succeeded
    show ?thesis
    proof (cases "\<exists>a' e' h' v'. a = Some a' \<and> e = Some e' \<and> h = Some h' \<and> v = Some v'")
      case False
      then show ?thesis
        using Succeeded y(1) Some sd
        by (auto simp: conclude_def not_adopted_def Let_def intro!: flow_rules split: option.split)
    next
      case True
      then obtain a' e' h' v' where acc: "a = Some a'" "e = Some e'" "h = Some h'" "v = Some v'" by blast
      have "adopted E input taskPda proof1 (Some \<lparr>ch_taskPda = taskPda, ch_hireSignature = s,
          ch_hireIntentDigest = d, ch_hireReconciled = None\<rparr>)"
        if "expectedReferral (he_lib E) (hq_hire input) = Inr referral"
          "hire_state_matches (he_lib E) (hq_hire input) (hq_creator input) taskPda referral a' e' h' v'" for referral
      proof -
        have "proven_hire E input taskPda s"
          using that y assms acc Succeeded unfolding proven_hire_def by blast
        then show ?thesis using y Some sd by (simp add: adopted_def)
      qed
      moreover have "not_adopted E input taskPda proof1 (Flow_Error m)" for m by (simp add: not_adopted_def)
      ultimately show ?thesis
        using Succeeded y(1) Some sd acc
        by (auto simp: conclude_def Let_def intro!: outcomes_then [OF plain_flift [OF plain_referral]]
            outcomes_then [OF plain_flift [OF plain_listing_hash]] outcomes_freturn outcomes_fthrow)
    qed
  qed
qed

lemma reconcile_outcomes:
  "outcomes (reconcileHire E input taskPda proof1)
     (\<lambda>r l. l = [] \<and> adopted E input taskPda proof1 r) (\<lambda>e l. l = [] \<and> not_adopted E input taskPda proof1 e)"
proof (cases "hq_rpc input")
  case False
  then show ?thesis by (auto simp: reconcileHire_alt adopted_def intro: flow_rules)
next
  case True
  have plain: "not_adopted E input taskPda proof1 (Flow_Error m)" for m by (simp add: not_adopted_def)
  show ?thesis
    using True unfolding reconcileHire_alt
    by (auto intro!: outcomes_then [OF examine_outcomes] outcomes_then [OF fread_outcomes] conclude_outcomes
        simp: plain)
qed

section \<open>Activation\<close>

text \<open>What a result of the activation says of the finalized job spec, or of the signature that was returned.\<close>

definition activation_result :: "hire_env \<Rightarrow> hire_request \<Rightarrow> committed_hire \<Rightarrow> bytes \<Rightarrow> string \<Rightarrow> hire_result \<Rightarrow> bool" where
  "activation_result E input c jobSpecHash jobSpecUri r \<longleftrightarrow>
     hr_taskPda r = ch_taskPda c \<and> hr_hireSignature r = ch_hireSignature c \<and>
     hr_jobSpecHash r = jobSpecHash \<and> hr_jobSpecUri r = jobSpecUri \<and>
     (if hr_activationReconciled r
      then \<exists>t a. ho_job_spec E t (l_pda (he_lib E) (Pda_Job_Spec (ch_taskPda c))) = Inr (Some a) \<and> js_task a = ch_taskPda c \<and>
        js_creator a = hq_creator input \<and> js_jobSpecHash a = jobSpecHash \<and> js_jobSpecUri a = jobSpecUri
      else (\<exists>t. ho_activate E t = Inr (hr_activationSignature r)) \<and>
        isCanonicalTransactionSignature (he_lib E) (hr_activationSignature r))"

lemma reconcileActivation_outcomes:
  "outcomes (reconcileActivation E input c jobSpecHash jobSpecUri)
     (\<lambda>r l. l = [] \<and> (\<forall>x. r = Some x \<longrightarrow> activation_result E input c jobSpecHash jobSpecUri x))
     (\<lambda>e l. l = [] \<and> (\<exists>m. e = Flow_Error m))"
proof (cases "hq_rpc input")
  case True
  then show ?thesis
    unfolding reconcileActivation_def
    by (auto intro!: outcomes_then [OF fread_outcomes] outcomes_freturn outcomes_fthrow
        simp: activation_result_def split: option.split) blast
qed (auto simp: reconcileActivation_def intro: flow_rules)

lemma call_activation_outcomes:
  "outcomes (call_activation E call) (\<lambda>s l. l = [Activation_Called call] \<and> (\<exists>t. ho_activate E t = Inr s))
     (\<lambda>e l. l = [Activation_Called call])"
  unfolding call_activation_def
  by (auto intro!: outcomes_fbind outcomes_femit outcomes_fask outcomes_flift simp: map_error_def split: sum.splits)

lemma send_activation_outcomes:
  "outcomes (send_activation E input c jobSpecHash jobSpecUri call)
     (\<lambda>r l. l = [Activation_Called call] \<and> activation_result E input c jobSpecHash jobSpecUri r)
     (\<lambda>e l. l = [Activation_Called call])"
proof -
  have retry: "outcomes (fbind (fcatch (reconcileActivation E input c jobSpecHash jobSpecUri) (\<lambda>_. fthrow e1))
      (\<lambda>result. case result of Some r \<Rightarrow> freturn r | None \<Rightarrow> fthrow e2))
     (\<lambda>r l. l = [] \<and> activation_result E input c jobSpecHash jobSpecUri r) (\<lambda>e l. l = [])" for e1 e2
    by (rule outcomes_then [where Q' = "\<lambda>r l. l = [] \<and> (\<forall>x. r = Some x \<longrightarrow> activation_result E input c jobSpecHash jobSpecUri x)"
          and R' = "\<lambda>e l. l = []"])
      (auto intro!: outcomes_else [OF reconcileActivation_outcomes] outcomes_freturn outcomes_fthrow split: option.split)
  have try1: "outcomes (fbind (call_activation E call) (\<lambda>signature.
          if isCanonicalTransactionSignature (he_lib E) signature
          then freturn \<lparr>hr_taskPda = ch_taskPda c, hr_hireSignature = ch_hireSignature c,
            hr_activationSignature = signature, hr_activationReconciled = False, hr_jobSpecHash = jobSpecHash,
            hr_jobSpecUri = jobSpecUri\<rparr>
          else fbind (reconcileActivation E input c jobSpecHash jobSpecUri) (\<lambda>result.
            case result of Some r \<Rightarrow> freturn r | None \<Rightarrow> fthrow e3)))
     (\<lambda>r l. l = [Activation_Called call] \<and> activation_result E input c jobSpecHash jobSpecUri r)
     (\<lambda>e l. l = [Activation_Called call])" for e3
    by (rule outcomes_then [OF call_activation_outcomes])
      (auto intro!: outcomes_freturn outcomes_fthrow outcomes_then [OF reconcileActivation_outcomes]
        simp: activation_result_def split: option.split)
  show ?thesis
    unfolding send_activation_def
    by (rule outcomes_else [OF try1]) (auto intro: outcomes_mono [OF retry])
qed

definition activation_events :: "hire_request \<Rightarrow> committed_hire \<Rightarrow> bytes \<Rightarrow> string \<Rightarrow> string \<Rightarrow> hire_event list \<Rightarrow> bool" where
  "activation_events input c jobSpecHash jobSpecUri moderator l \<longleftrightarrow> l = [] \<or>
     (\<exists>accounts. l = [Activation_Called \<lparr>av_task = ch_taskPda c, av_creator = hq_creator input, av_jobSpecHash = jobSpecHash,
        av_jobSpecUri = jobSpecUri, av_moderator = moderator, av_resolved = accounts, av_overrides = hq_activation input\<rparr>])"

lemma activate_outcomes:
  "outcomes (activateCommittedHire E input c jobSpecHash jobSpecUri moderator)
     (\<lambda>r l. activation_events input c jobSpecHash jobSpecUri moderator l \<and> activation_result E input c jobSpecHash jobSpecUri r)
     (\<lambda>e l. activation_events input c jobSpecHash jobSpecUri moderator l \<and>
        e = Recoverable (Activating c jobSpecHash jobSpecUri moderator))"
proof -
  define resolved where "resolved = (if \<not> activation_caller_resolved input \<and> hq_rpc input
      then resolveActivationModerationAccounts E (ch_taskPda c) jobSpecHash moderator
      else freturn \<lparr>aa_moderationAttestor = None, aa_taskModeration = None\<rparr>)"
  have silent: "silent resolved"
    by (auto simp: resolved_def intro: resolvers_silent silent_return)
  show ?thesis
    unfolding activateCommittedHire_def resolved_def [symmetric]
    by (rule outcomes_else [where R' = "\<lambda>e l. activation_events input c jobSpecHash jobSpecUri moderator l" and
          Q' = "\<lambda>r l. activation_events input c jobSpecHash jobSpecUri moderator l \<and> activation_result E input c jobSpecHash jobSpecUri r"])
      (auto intro!: outcomes_then [OF fphase_outcomes] outcomes_then [OF reconcileActivation_outcomes] outcomes_freturn
          outcomes_fthrow outcomes_then [OF silent [unfolded silent_def]] outcomes_mono [OF send_activation_outcomes]
        simp: activation_events_def split: option.split)
qed

section \<open>Moderation\<close>

definition host_call :: "hire_request \<Rightarrow> committed_hire \<Rightarrow> hire_event" where
  "host_call input c = Host_Called \<lparr>hs_taskPda = ch_taskPda c, hs_taskId = h_taskId (hq_hire input),
     hs_listing = h_listing (hq_hire input), hs_hireSignature = ch_hireSignature c,
     hs_hireIntentDigest = ch_hireIntentDigest c, hs_hireReconciled = ch_hireReconciled c\<rparr>"

lemma validated_moderation:
  assumes "validateModerationResult lib r h = Inr (jobSpecHash, jobSpecUri, m)" "activation_moderator lib input m = Inr moderator"
    "h = h_taskJobSpecHash (hq_hire input)"
  shows "activating_token lib input jobSpecHash jobSpecUri moderator = Inr ()" "jobSpecHash = h" "length h = 32"
  using assms
  by (auto simp: validateModerationResult_def activating_token_def activation_moderator_def flow_guard_def guard_res_def Let_def
      js_trim_twice split: if_splits option.splits)

lemma moderate_outcomes:
  "outcomes (moderateCommittedHire E input c)
     (\<lambda>r l. \<exists>uri m l'. l = host_call input c # l' \<and> activating_token (he_lib E) input (h_taskJobSpecHash (hq_hire input)) uri m = Inr () \<and>
        activation_events input c (h_taskJobSpecHash (hq_hire input)) uri m l' \<and>
        activation_result E input c (h_taskJobSpecHash (hq_hire input)) uri r)
     (\<lambda>e l. (e = Recoverable (Moderating c) \<and> (l = [] \<or> l = [host_call input c])) \<or>
        (\<exists>uri m l'. e = Recoverable (Activating c (h_taskJobSpecHash (hq_hire input)) uri m) \<and> l = host_call input c # l' \<and>
          length (h_taskJobSpecHash (hq_hire input)) = 32 \<and>
          activating_token (he_lib E) input (h_taskJobSpecHash (hq_hire input)) uri m = Inr () \<and>
          activation_events input c (h_taskJobSpecHash (hq_hire input)) uri m l'))"
proof -
  let ?h = "h_taskJobSpecHash (hq_hire input)"
  have first: "outcomes
         (fbind (fphase E P_Moderating) (\<lambda>_.
          let host = \<lparr>hs_taskPda = ch_taskPda c, hs_taskId = h_taskId (hq_hire input),
            hs_listing = h_listing (hq_hire input), hs_hireSignature = ch_hireSignature c,
            hs_hireIntentDigest = ch_hireIntentDigest c, hs_hireReconciled = ch_hireReconciled c\<rparr> in
          fbind (femit (Host_Called host)) (\<lambda>_.
          fbind (fread (\<lambda>t. ho_host E t host)) (\<lambda>moderation.
          fbind (flift (validateModerationResult (he_lib E) moderation ?h)) (\<lambda>(jobSpecHash, jobSpecUri, moderator).
          fbind (flift (activation_moderator (he_lib E) input moderator)) (\<lambda>activationModerator.
          freturn (jobSpecHash, jobSpecUri, activationModerator)))))))
      (\<lambda>(jobSpecHash, jobSpecUri, m) l. l = [host_call input c] \<and> jobSpecHash = ?h \<and> length ?h = 32 \<and>
         activating_token (he_lib E) input ?h jobSpecUri m = Inr ())
      (\<lambda>e l. l = [] \<or> l = [host_call input c])"
    unfolding Let_def host_call_def [symmetric]
    by (auto intro!: outcomes_then [OF fphase_outcomes] outcomes_fbind [of "femit _"] outcomes_femit outcomes_then [OF fread_outcomes]
        outcomes_then [OF plain_flift [OF plain_request(3)]] outcomes_then [OF plain_flift [OF plain_request(4)]] outcomes_freturn
        dest: validated_moderation)
  show ?thesis
    unfolding moderateCommittedHire_def
    by (rule outcomes_then [where
          Q' = "\<lambda>(jobSpecHash, jobSpecUri, m) l. l = [host_call input c] \<and> jobSpecHash = ?h \<and> length ?h = 32 \<and>
            activating_token (he_lib E) input ?h jobSpecUri m = Inr ()" and
          R' = "\<lambda>e l. e = Recoverable (Moderating c) \<and> (l = [] \<or> l = [host_call input c])"])
      (auto intro!: outcomes_else [OF first] outcomes_fthrow outcomes_mono [OF activate_outcomes], blast)
qed

section \<open>Tokens\<close>

definition hired_task :: "hire_lib \<Rightarrow> hire_request \<Rightarrow> string" where
  "hired_task lib input = l_pda lib (Pda_Task (hq_creator input) (h_taskId (hq_hire input)))"

definition good_committed :: "hire_lib \<Rightarrow> hire_request \<Rightarrow> string \<Rightarrow> committed_hire \<Rightarrow> bool" where
  "good_committed lib input digest c \<longleftrightarrow>
     ch_taskPda c = hired_task lib input \<and> ch_hireIntentDigest c = digest \<and> committed_token lib c"

text \<open>A token that belongs to the request and that can be resumed.\<close>

fun good_token :: "hire_lib \<Rightarrow> hire_request \<Rightarrow> string \<Rightarrow> progress \<Rightarrow> bool" where
  "good_token lib input digest (Hiring task candidate digest') \<longleftrightarrow> task = hired_task lib input \<and> digest' = digest \<and>
     (\<forall>s. candidate = Some s \<longrightarrow> isCanonicalTransactionSignature lib s)"
| "good_token lib input digest (Moderating c) \<longleftrightarrow> good_committed lib input digest c"
| "good_token lib input digest (Activating c hash uri moderator) \<longleftrightarrow> good_committed lib input digest c \<and> length hash = 32 \<and>
     activating_token lib input hash uri moderator = Inr ()"

text \<open>How a flow with a funded hire may fail: with a token, with the proof that the hire failed, or with the proof
  of the client that nothing was broadcast.\<close>

definition not_lost :: "hire_env \<Rightarrow> hire_request \<Rightarrow> string \<Rightarrow> flow_error \<Rightarrow> bool" where
  "not_lost E input digest e \<longleftrightarrow>
     (\<exists>p. e = Recoverable p \<and> good_token (he_lib E) input digest p) \<or>
     (\<exists>s x. e = Finalized_Failure s x \<and> proven_failure E input (hired_task (he_lib E) input) s x)"

fun is_hire :: "hire_event \<Rightarrow> bool" where
  "is_hire (Hire_Called accounts d) = True"
| "is_hire _ = False"

text \<open>An activation is for the task of the request and the content committed when it was hired.\<close>

fun faithful :: "hire_lib \<Rightarrow> hire_request \<Rightarrow> hire_event \<Rightarrow> bool" where
  "faithful lib input (Activation_Called call) \<longleftrightarrow> av_task call = hired_task lib input \<and>
     av_creator call = hq_creator input \<and> av_jobSpecHash call = h_taskJobSpecHash (hq_hire input) \<and>
     av_jobSpecUri call \<noteq> [] \<and> l_is_address lib (av_moderator call)"
| "faithful lib input (Host_Called h) \<longleftrightarrow> hs_taskPda h = hired_task lib input \<and> hs_taskId h = h_taskId (hq_hire input)"
| "faithful lib input (Hire_Called accounts d) \<longleftrightarrow> effectiveHireInstructionData lib (hq_hire input) = Inr d"

definition harmless :: "hire_lib \<Rightarrow> hire_request \<Rightarrow> hire_event list \<Rightarrow> bool" where
  "harmless lib input l \<longleftrightarrow> list_all (\<lambda>e. faithful lib input e \<and> \<not> is_hire e) l"

text \<open>What a success says.\<close>

definition completed :: "hire_env \<Rightarrow> hire_request \<Rightarrow> string \<Rightarrow> hire_result \<Rightarrow> bool" where
  "completed E input digest r \<longleftrightarrow> (\<exists>c uri. good_committed (he_lib E) input digest c \<and>
     activation_result E input c (h_taskJobSpecHash (hq_hire input)) uri r)"

lemma activation_token_parts:
  "activating_token lib input h u m = Inr () \<Longrightarrow> h = h_taskJobSpecHash (hq_hire input) \<and> u \<noteq> [] \<and> l_is_address lib m"
  by (auto simp: activating_token_def flow_guard_def guard_res_def split: if_splits)

lemma events_harmless:
  assumes "activation_events input c h u m l" "good_committed lib input digest c" "activating_token lib input h u m = Inr ()"
  shows "harmless lib input l"
  using assms activation_token_parts [OF assms(3)]
  by (auto simp: harmless_def activation_events_def good_committed_def)

lemma host_harmless: "good_committed lib input digest c \<Longrightarrow> faithful lib input (host_call input c) \<and> \<not> is_hire (host_call input c)"
  by (simp add: host_call_def good_committed_def)

lemma good_moderate:
  assumes c: "good_committed (he_lib E) input digest c"
  shows "outcomes (moderateCommittedHire E input c) (\<lambda>r l. harmless (he_lib E) input l \<and> completed E input digest r)
     (\<lambda>e l. harmless (he_lib E) input l \<and> not_lost E input digest e)"
proof (rule outcomes_mono [OF moderate_outcomes], goal_cases)
  case (1 r l)
  then obtain uri m l' where l: "l = host_call input c # l'"
    "activating_token (he_lib E) input (h_taskJobSpecHash (hq_hire input)) uri m = Inr ()"
    "activation_events input c (h_taskJobSpecHash (hq_hire input)) uri m l'"
    "activation_result E input c (h_taskJobSpecHash (hq_hire input)) uri r" by blast
  then show ?case using events_harmless [OF l(3) c l(2)] host_harmless [OF c] c by (auto simp: harmless_def completed_def)
next
  case (2 e l)
  then show ?case
  proof
    assume "e = Recoverable (Moderating c) \<and> (l = [] \<or> l = [host_call input c])"
    then show ?thesis using host_harmless [OF c] c by (auto simp: harmless_def not_lost_def)
  next
    assume "\<exists>uri m l'. e = Recoverable (Activating c (h_taskJobSpecHash (hq_hire input)) uri m) \<and> l = host_call input c # l' \<and>
      length (h_taskJobSpecHash (hq_hire input)) = 32 \<and>
      activating_token (he_lib E) input (h_taskJobSpecHash (hq_hire input)) uri m = Inr () \<and>
      activation_events input c (h_taskJobSpecHash (hq_hire input)) uri m l'"
    then obtain uri m l' where l: "e = Recoverable (Activating c (h_taskJobSpecHash (hq_hire input)) uri m)"
      "l = host_call input c # l'" "length (h_taskJobSpecHash (hq_hire input)) = 32"
      "activating_token (he_lib E) input (h_taskJobSpecHash (hq_hire input)) uri m = Inr ()"
      "activation_events input c (h_taskJobSpecHash (hq_hire input)) uri m l'" by blast
    then show ?thesis
      using events_harmless [OF l(5) c l(4)] host_harmless [OF c] c by (auto simp: harmless_def not_lost_def)
  qed
qed

lemma good_activate:
  assumes c: "good_committed (he_lib E) input digest c" "length h = 32" "activating_token (he_lib E) input h uri m = Inr ()"
  shows "outcomes (activateCommittedHire E input c h uri m) (\<lambda>r l. harmless (he_lib E) input l \<and> completed E input digest r)
     (\<lambda>e l. harmless (he_lib E) input l \<and> not_lost E input digest e)"
  using c activation_token_parts [OF c(3)]
  by (intro outcomes_mono [OF activate_outcomes])
    (auto simp: completed_def not_lost_def intro: events_harmless)

lemma adopted_good:
  assumes "adopted E input (hired_task (he_lib E) input) proof1 (Some c)"
    "hireIntentDigest (he_lib E) (hq_hire input) (hq_creator input) = Inr digest"
  shows "good_committed (he_lib E) input digest c"
  using assms by (auto simp: adopted_def good_committed_def committed_token_def)

section \<open>A first run\<close>

definition broadcast_refused :: "flow_error \<Rightarrow> bool" where
  "broadcast_refused e \<longleftrightarrow> (\<exists>f. e = Client_Error f \<and> cf_agenc f \<and> cf_signature f = None)"

lemma call_hire_outcomes:
  assumes "effectiveHireInstructionData (he_lib E) (hq_hire input) = Inr d"
  shows "outcomes (call_hire E input moderation)
     (\<lambda>s l. l = [Hire_Called (hire_accounts (he_lib E) (hq_hire input) (hq_creator input) moderation) d])
     (\<lambda>e l. l = [Hire_Called (hire_accounts (he_lib E) (hq_hire input) (hq_creator input) moderation) d] \<and> (\<exists>f. e = Client_Error f))"
  unfolding call_hire_def assms
  by (auto intro!: outcomes_fbind outcomes_femit outcomes_fask outcomes_flift simp: map_error_def split: sum.splits)

lemma ambiguous_outcomes:
  assumes "hireIntentDigest (he_lib E) (hq_hire input) (hq_creator input) = Inr digest"
  shows "outcomes (ambiguous_hire E input (hired_task (he_lib E) input) digest (Client_Error f))
     (\<lambda>c l. l = [] \<and> good_committed (he_lib E) input digest c)
     (\<lambda>e l. l = [] \<and> (not_lost E input digest e \<or> broadcast_refused e))"
proof (cases "cf_agenc f \<and> cf_signature f = None")
  case True
  then show ?thesis by (auto simp: ambiguous_hire_def broadcast_refused_def intro!: flow_rules)
next
  case amb: False
  show ?thesis
  proof (cases "candidateSignature (he_lib E) f")
    case None
    then show ?thesis using amb by (auto simp: ambiguous_hire_def not_lost_def Let_def intro!: flow_rules)
  next
    case (Some s)
    then have s: "isCanonicalTransactionSignature (he_lib E) s"
      by (auto simp: candidateSignature_def split: option.splits if_splits)
    let ?p = "Hiring (hired_task (he_lib E) input) (Some s) digest"
    have token: "not_lost E input digest (Recoverable ?p)" using s by (simp add: not_lost_def)
    have "outcomes (fbind (fcatch (reconcileHire E input (hired_task (he_lib E) input) (Some (s, digest)))
          (\<lambda>reconcileCause. case reconcileCause of Finalized_Failure c e \<Rightarrow> fthrow reconcileCause | _ \<Rightarrow> fthrow (Recoverable ?p)))
        (\<lambda>committed. case committed of Some c \<Rightarrow> freturn c | None \<Rightarrow> fthrow (Recoverable ?p)))
      (\<lambda>c l. l = [] \<and> good_committed (he_lib E) input digest c) (\<lambda>e l. l = [] \<and> not_lost E input digest e)"
      by (rule outcomes_then [where
            Q' = "\<lambda>r l. l = [] \<and> (\<forall>c. r = Some c \<longrightarrow> good_committed (he_lib E) input digest c)" and
            R' = "\<lambda>e l. l = [] \<and> not_lost E input digest e"], rule outcomes_else [OF reconcile_outcomes])
        (auto intro!: outcomes_freturn outcomes_fthrow token dest: adopted_good [OF _ assms]
          simp: not_adopted_def not_lost_def [of E input digest "Finalized_Failure _ _"] split: option.split)
    then show ?thesis
      using amb Some by (auto simp: ambiguous_hire_def Let_def elim!: outcomes_mono)
  qed
qed

text \<open>The moderation accounts a hire may be sent with: those the resolver can find, none if the caller chose.\<close>

definition resolved_moderation :: "hire_lib \<Rightarrow> hire_input \<Rightarrow> hire_moderation \<Rightarrow> bool" where
  "resolved_moderation lib hire m \<longleftrightarrow>
     (\<forall>a. hm_moderationAttestor m = Some a \<longrightarrow> \<not> hire_caller_resolved hire \<and> a = l_pda lib (Pda_Attestor (h_moderator hire))) \<and>
     (\<forall>a. hm_listingModeration m = Some a \<longrightarrow> \<not> hire_caller_resolved hire \<and>
        a = l_pda lib (Pda_Legacy_Listing_Moderation (h_listing hire) (h_listingSpecHash hire)))"

lemma moderation_outcomes:
  "outcomes (if \<not> hire_caller_resolved hire \<and> rpc
       then resolveHireListingModerationAccounts E (h_listing hire) (h_listingSpecHash hire) (h_moderator hire)
       else freturn \<lparr>hm_moderationAttestor = None, hm_listingModeration = None\<rparr>)
     (\<lambda>m l. l = [] \<and> resolved_moderation (he_lib E) hire m) (\<lambda>_ _. False)"
  by (auto intro!: outcomes_freturn outcomes_mono [OF listing_outcomes] simp: resolved_moderation_def)

text \<open>What a first run leaves: either nothing was done, or exactly one hire was called and is not lost.\<close>

definition one_hire :: "hire_lib \<Rightarrow> hire_request \<Rightarrow> hire_event list \<Rightarrow> bool" where
  "one_hire lib input l \<longleftrightarrow> (\<exists>moderation d l'.
     l = Hire_Called (hire_accounts lib (hq_hire input) (hq_creator input) moderation) d # l' \<and> harmless lib input l' \<and>
     resolved_moderation lib (hq_hire input) moderation \<and> effectiveHireInstructionData lib (hq_hire input) = Inr d)"

definition accepted_request :: "hire_lib \<Rightarrow> hire_request \<Rightarrow> string \<Rightarrow> bool" where
  "accepted_request lib input digest \<longleftrightarrow> validated_request lib input = Inr () \<and>
     hireIntentDigest lib (hq_hire input) (hq_creator input) = Inr digest"

lemma one_hire_more: "one_hire lib input l \<Longrightarrow> harmless lib input l' \<Longrightarrow> one_hire lib input (l @ l')"
  by (auto simp: one_hire_def harmless_def)

lemma silent_then:
  "outcomes m (\<lambda>a l. l = [] \<and> P a) (\<lambda>_ _. False) \<Longrightarrow> (\<And>a. P a \<Longrightarrow> outcomes (f a) Q R) \<Longrightarrow> outcomes (fbind m f) Q R"
  by (erule outcomes_then) auto

lemma hire_outcomes:
  assumes "snapshotInput (he_defaultReferrer E) input0 = Inr input"
  shows "outcomes (hireAndActivate E input0)
     (\<lambda>r l. \<exists>digest. accepted_request (he_lib E) input digest \<and> one_hire (he_lib E) input l \<and> completed E input digest r)
     (\<lambda>e l. l = [] \<and> (\<exists>m. e = Flow_Error m) \<or> (\<exists>digest. accepted_request (he_lib E) input digest \<and> one_hire (he_lib E) input l \<and>
        (not_lost E input digest e \<or> broadcast_refused e)))"
proof -
  let ?lib = "he_lib E"
  have rest: "outcomes (fbind (if \<not> hire_caller_resolved (hq_hire input) \<and> hq_rpc input
         then resolveHireListingModerationAccounts E (h_listing (hq_hire input)) (h_listingSpecHash (hq_hire input))
           (h_moderator (hq_hire input))
         else freturn \<lparr>hm_moderationAttestor = None, hm_listingModeration = None\<rparr>) (\<lambda>moderation.
     fbind (fcatch (fbind (call_hire E input moderation) (\<lambda>signature. freturn (Inr signature)))
         (\<lambda>sendCause. fbind (ambiguous_hire E input (hired_task ?lib input) digest sendCause) (\<lambda>committed. freturn (Inl committed))))
       (\<lambda>outcome. case outcome of
          Inl committed \<Rightarrow> moderateCommittedHire E input committed
        | Inr signature \<Rightarrow>
            if \<not> isCanonicalTransactionSignature ?lib signature
            then fthrow (Recoverable (Hiring (hired_task ?lib input) None digest))
            else moderateCommittedHire E input \<lparr>ch_taskPda = hired_task ?lib input, ch_hireSignature = signature,
              ch_hireIntentDigest = digest, ch_hireReconciled = None\<rparr>)))
     (\<lambda>r l. one_hire ?lib input l \<and> completed E input digest r)
     (\<lambda>e l. one_hire ?lib input l \<and> (not_lost E input digest e \<or> broadcast_refused e))"
    if ok: "accepted_request ?lib input digest" for digest
  proof (rule silent_then [OF moderation_outcomes])
    fix moderation
    assume moderation: "resolved_moderation ?lib (hq_hire input) moderation"
    have digest: "hireIntentDigest ?lib (hq_hire input) (hq_creator input) = Inr digest"
      using ok by (simp add: accepted_request_def)
    then obtain d where d: "effectiveHireInstructionData ?lib (hq_hire input) = Inr d"
      by (cases "effectiveHireInstructionData ?lib (hq_hire input)") (auto simp: hireIntentDigest_def)
    let ?accounts = "hire_accounts ?lib (hq_hire input) (hq_creator input) moderation"
    have called: "one_hire ?lib input [Hire_Called ?accounts d]"
      using d moderation by (auto simp: one_hire_def harmless_def)
    have call: "outcomes (fcatch (fbind (call_hire E input moderation) (\<lambda>signature. freturn (Inr signature)))
         (\<lambda>sendCause. fbind (ambiguous_hire E input (hired_task ?lib input) digest sendCause) (\<lambda>committed. freturn (Inl committed))))
       (\<lambda>r l. l = [Hire_Called ?accounts d] \<and> (\<forall>c. r = Inl c \<longrightarrow> good_committed ?lib input digest c))
       (\<lambda>e l. l = [Hire_Called ?accounts d] \<and> (not_lost E input digest e \<or> broadcast_refused e))"
    proof (rule outcomes_else [where R' = "\<lambda>e l. l = [Hire_Called ?accounts d] \<and> (\<exists>f. e = Client_Error f)" and
          Q' = "\<lambda>r l. l = [Hire_Called ?accounts d] \<and> (\<exists>s. r = Inr s)"], goal_cases)
      case 1
      show ?case by (rule outcomes_then [OF call_hire_outcomes [OF d]]) (auto intro: flow_rules)
    next
      case (3 e l)
      then obtain f where f: "e = Client_Error f" "l = [Hire_Called ?accounts d]" by blast
      show ?case unfolding f
        by (rule outcomes_then [OF ambiguous_outcomes [OF digest]]) (auto intro!: outcomes_freturn)
    qed auto
    have moderated: "outcomes (moderateCommittedHire E input c)
        (\<lambda>r l'. one_hire ?lib input ([Hire_Called ?accounts d] @ l') \<and> completed E input digest r)
        (\<lambda>e l'. one_hire ?lib input ([Hire_Called ?accounts d] @ l') \<and> (not_lost E input digest e \<or> broadcast_refused e))"
      if "good_committed ?lib input digest c" for c
      by (rule outcomes_mono [OF good_moderate [OF that]]) (use one_hire_more [OF called] in auto)
    show "outcomes (fbind (fcatch (fbind (call_hire E input moderation) (\<lambda>signature. freturn (Inr signature)))
         (\<lambda>sendCause. fbind (ambiguous_hire E input (hired_task ?lib input) digest sendCause) (\<lambda>committed. freturn (Inl committed))))
       (\<lambda>outcome. case outcome of
          Inl committed \<Rightarrow> moderateCommittedHire E input committed
        | Inr signature \<Rightarrow>
            if \<not> isCanonicalTransactionSignature ?lib signature
            then fthrow (Recoverable (Hiring (hired_task ?lib input) None digest))
            else moderateCommittedHire E input \<lparr>ch_taskPda = hired_task ?lib input, ch_hireSignature = signature,
              ch_hireIntentDigest = digest, ch_hireReconciled = None\<rparr>))
      (\<lambda>r l. one_hire ?lib input l \<and> completed E input digest r)
      (\<lambda>e l. one_hire ?lib input l \<and> (not_lost E input digest e \<or> broadcast_refused e))"
    proof (rule outcomes_then [OF call], goal_cases)
      case (1 r l)
      show ?case
      proof (cases r)
        case (Inl c)
        then show ?thesis using 1 moderated by simp
      next
        case (Inr s)
        have token: "not_lost E input digest (Recoverable (Hiring (hired_task ?lib input) None digest))"
          by (simp add: not_lost_def)
        show ?thesis
        proof (cases "isCanonicalTransactionSignature ?lib s")
          case True
          then have "good_committed ?lib input digest \<lparr>ch_taskPda = hired_task ?lib input, ch_hireSignature = s,
              ch_hireIntentDigest = digest, ch_hireReconciled = None\<rparr>"
            by (simp add: good_committed_def committed_token_def)
          then show ?thesis using 1 Inr True moderated by simp
        next
          case False
          then show ?thesis using 1 Inr called token by (auto intro!: outcomes_fthrow)
        qed
      qed
    qed (use called in auto)
  qed
  define body where "body digest = fbind (if \<not> hire_caller_resolved (hq_hire input) \<and> hq_rpc input
         then resolveHireListingModerationAccounts E (h_listing (hq_hire input)) (h_listingSpecHash (hq_hire input))
           (h_moderator (hq_hire input))
         else freturn \<lparr>hm_moderationAttestor = None, hm_listingModeration = None\<rparr>) (\<lambda>moderation.
     fbind (fcatch (fbind (call_hire E input moderation) (\<lambda>signature. freturn (Inr signature)))
         (\<lambda>sendCause. fbind (ambiguous_hire E input (hired_task ?lib input) digest sendCause) (\<lambda>committed. freturn (Inl committed))))
       (\<lambda>outcome. case outcome of
          Inl committed \<Rightarrow> moderateCommittedHire E input committed
        | Inr signature \<Rightarrow>
            if \<not> isCanonicalTransactionSignature ?lib signature
            then fthrow (Recoverable (Hiring (hired_task ?lib input) None digest))
            else moderateCommittedHire E input \<lparr>ch_taskPda = hired_task ?lib input, ch_hireSignature = signature,
              ch_hireIntentDigest = digest, ch_hireReconciled = None\<rparr>))" for digest
  have start: "hireAndActivate E input0 =
     fbind (flift (validated_request ?lib input)) (\<lambda>_.
     fbind (flift (hireIntentDigest ?lib (hq_hire input) (hq_creator input))) (\<lambda>digest.
     fbind (fphase E P_Hiring) (\<lambda>_.
     fbind (reconcileHire E input (hired_task ?lib input) None) (\<lambda>_. body digest))))"
    unfolding hireAndActivate_def hired_task_def Let_def assms body_def
    by (simp add: fbind_def flift_def)
  note rest = rest [folded body_def]
  show ?thesis
    unfolding start
    by (auto intro!: outcomes_then [OF plain_flift [OF plain_request(1)]] outcomes_then [OF plain_flift [OF plain_digest]]
        outcomes_then [OF fphase_outcomes] outcomes_then [OF reconcile_outcomes] outcomes_mono [OF rest]
        simp: accepted_request_def not_adopted_def)
qed

section \<open>A resumed run\<close>

definition lib_ok :: "hire_lib \<Rightarrow> bool" where
  "lib_ok lib \<longleftrightarrow> (\<forall>p. l_is_address lib (l_pda lib p)) \<and> (\<forall>bs. length (l_sha256 lib bs) = 32)"

lemma flift_Inr [simp]: "fbind (flift (Inr a)) f = f a"
  by (simp add: fbind_def flift_def)

lemma digest_length:
  assumes "lib_ok lib" "hireIntentDigest lib hire creator = Inr digest"
  shows "length digest = 64"
proof -
  obtain bs where "digest = bytesToHex (l_sha256 lib bs)"
    using assms(2) by (cases "effectiveHireInstructionData lib hire") (auto simp: hireIntentDigest_def)
  then show ?thesis using assms(1) by (simp add: lib_ok_def)
qed

lemma reconciled_resume:
  assumes "hireIntentDigest (he_lib E) (hq_hire input) (hq_creator input) = Inr digest"
    "isCanonicalTransactionSignature (he_lib E) s"
  shows "outcomes (fbind (fcatch (reconcileHire E input (hired_task (he_lib E) input) (Some (s, digest)))
          (\<lambda>cause. case cause of Finalized_Failure c e \<Rightarrow> fthrow cause
            | _ \<Rightarrow> fthrow (Recoverable (Hiring (hired_task (he_lib E) input) (Some s) digest))))
        (\<lambda>committed. case committed of
            None \<Rightarrow> fthrow (Recoverable (Hiring (hired_task (he_lib E) input) (Some s) digest))
          | Some c \<Rightarrow> moderateCommittedHire E input c))
     (\<lambda>r l. harmless (he_lib E) input l \<and> completed E input digest r)
     (\<lambda>e l. harmless (he_lib E) input l \<and> not_lost E input digest e)"
proof -
  let ?p = "Hiring (hired_task (he_lib E) input) (Some s) digest"
  have token: "not_lost E input digest (Recoverable ?p)" using assms(2) by (simp add: not_lost_def)
  have nil: "harmless (he_lib E) input []" by (simp add: harmless_def)
  show ?thesis
    by (rule outcomes_then [where
          Q' = "\<lambda>r l. l = [] \<and> (\<forall>c. r = Some c \<longrightarrow> good_committed (he_lib E) input digest c)" and
          R' = "\<lambda>e l. l = [] \<and> not_lost E input digest e"], rule outcomes_else [OF reconcile_outcomes])
      (auto intro!: outcomes_freturn outcomes_fthrow token nil good_moderate dest: adopted_good [OF _ assms(1)]
        simp: not_adopted_def not_lost_def [of E input digest "Finalized_Failure _ _"] split: option.split)
qed

lemma resume_outcomes:
  assumes "lib_ok (he_lib E)" "snapshotInput (he_defaultReferrer E) input0 = Inr input"
    "accepted_request (he_lib E) input digest" "good_token (he_lib E) input digest p"
  shows "outcomes (resumeHireAndActivate E input0 p) (\<lambda>r l. harmless (he_lib E) input l \<and> completed E input digest r)
     (\<lambda>e l. harmless (he_lib E) input l \<and> not_lost E input digest e)"
proof -
  have digest: "hireIntentDigest (he_lib E) (hq_hire input) (hq_creator input) = Inr digest"
    and valid: "validated_request (he_lib E) input = Inr ()" using assms(3) by (simp_all add: accepted_request_def)
  note len = digest_length [OF assms(1) digest]
  have addr: "l_is_address (he_lib E) (hired_task (he_lib E) input)" using assms(1) by (simp add: lib_ok_def hired_task_def)
  have nil: "harmless (he_lib E) input []" by (simp add: harmless_def)
  have parts: "progress_task p = hired_task (he_lib E) input" "progress_digest p = digest"
    using assms(4) by (cases p; simp add: good_committed_def)+
  note common = resumeHireAndActivate_def Let_def assms(2) valid digest parts addr len flow_guard_def
  show ?thesis
  proof (cases p)
    case (Hiring task candidate digest')
    then have h: "task = hired_task (he_lib E) input" "digest' = digest" using assms(4) by simp_all
    show ?thesis
    proof (cases candidate)
      case None
      have "not_lost E input digest (Recoverable (Hiring (hired_task (he_lib E) input) None digest))"
        by (simp add: not_lost_def)
      then show ?thesis
        using Hiring h None parts addr len nil
        by (simp add: resumeHireAndActivate_def Let_def assms(2) valid digest flow_guard_def hired_task_def [symmetric] outcomes_fthrow)
    next
      case (Some s)
      then have s: "isCanonicalTransactionSignature (he_lib E) s" using assms(4) Hiring by simp
      show ?thesis
        using Hiring h Some s parts addr len reconciled_resume [OF digest s]
        by (simp add: resumeHireAndActivate_def Let_def assms(2) valid digest flow_guard_def hired_task_def [symmetric])
    qed
  next
    case (Moderating c)
    then have "good_committed (he_lib E) input digest c" using assms(4) by simp
    then show ?thesis
      using Moderating parts addr len good_moderate [of E input digest c]
      by (simp add: resumeHireAndActivate_def Let_def assms(2) valid digest flow_guard_def hired_task_def [symmetric]
          good_committed_def)
  next
    case (Activating c hash uri moderator)
    then have "good_committed (he_lib E) input digest c" "length hash = 32"
      "activating_token (he_lib E) input hash uri moderator = Inr ()" using assms(4) by simp_all
    then show ?thesis
      using Activating parts addr len good_activate [of E input digest c hash uri moderator]
      by (simp add: resumeHireAndActivate_def Let_def assms(2) valid digest flow_guard_def hired_task_def [symmetric]
          good_committed_def snapshotFixedBytes_def)
  qed
qed

text \<open>Whatever token it is given, a resumed run calls no hire.\<close>

definition calls_no_hire :: "hire_event list \<Rightarrow> bool" where
  "calls_no_hire l \<longleftrightarrow> list_all (\<lambda>e. \<not> is_hire e) l"

lemma no_hire_moderate: "outcomes (moderateCommittedHire E input c) (\<lambda>_. calls_no_hire) (\<lambda>_. calls_no_hire)"
  by (rule outcomes_mono [OF moderate_outcomes]) (auto simp: calls_no_hire_def host_call_def activation_events_def)

lemma no_hire_activate: "outcomes (activateCommittedHire E input c h u m) (\<lambda>_. calls_no_hire) (\<lambda>_. calls_no_hire)"
  by (rule outcomes_mono [OF activate_outcomes]) (auto simp: calls_no_hire_def activation_events_def)

lemma no_hire_flift: "outcomes (flift r) (\<lambda>_ l. l = []) (\<lambda>_. calls_no_hire)"
  by (rule outcomes_flift) (simp_all add: calls_no_hire_def)

lemma no_hire_reconcile: "outcomes (reconcileHire E input t p) (\<lambda>_ l. l = []) (\<lambda>_ l. l = [])"
  by (rule outcomes_mono [OF reconcile_outcomes]) auto

lemma resume_calls_no_hire: "outcomes (resumeHireAndActivate E input0 p) (\<lambda>_. calls_no_hire) (\<lambda>_. calls_no_hire)"
proof -
  have nil: "calls_no_hire []" by (simp add: calls_no_hire_def)
  have last: "outcomes (fbind (fcatch (reconcileHire E input t q) (\<lambda>cause. case cause of Finalized_Failure c e \<Rightarrow> fthrow cause
        | _ \<Rightarrow> fthrow (Recoverable p'))) (\<lambda>committed. case committed of None \<Rightarrow> fthrow (Recoverable p')
        | Some c \<Rightarrow> moderateCommittedHire E input c)) (\<lambda>_. calls_no_hire) (\<lambda>_. calls_no_hire)" for input t q p'
    by (rule outcomes_then [where Q' = "\<lambda>_ l. l = []" and R' = "\<lambda>_ l. l = []"], rule outcomes_else [OF no_hire_reconcile])
      (auto intro!: flow_rules no_hire_moderate nil split: option.split flow_error.split)
  show ?thesis
    unfolding resumeHireAndActivate_def Let_def
    by (cases p) (auto intro!: outcomes_then [OF no_hire_flift] flow_rules last no_hire_moderate no_hire_activate nil
        split: option.split)
qed

section \<open>Sessions\<close>

text \<open>A first run, then a resumed run for each further environment as long as the last one left a token.\<close>

definition fresh_world :: flow_world where
  "fresh_world = \<lparr>fw_tick = 0, fw_trace = []\<rparr>"

fun resume_session :: "hire_env list \<Rightarrow> hire_request \<Rightarrow> progress \<Rightarrow> (flow_error + hire_result) \<times> hire_event list" where
  "resume_session [] input p = (Inl (Recoverable p), [])"
| "resume_session (E # Es) input p =
     (case resumeHireAndActivate E input p fresh_world of
        (Inl (Recoverable p'), w) \<Rightarrow> (case resume_session Es input p' of (r, l) \<Rightarrow> (r, fw_trace w @ l))
      | (r, w) \<Rightarrow> (r, fw_trace w))"

definition session :: "hire_env \<Rightarrow> hire_env list \<Rightarrow> hire_request \<Rightarrow> (flow_error + hire_result) \<times> hire_event list" where
  "session E Es input =
     (case hireAndActivate E input fresh_world of
        (Inl (Recoverable p), w) \<Rightarrow> (case resume_session Es input p of (r, l) \<Rightarrow> (r, fw_trace w @ l))
      | (r, w) \<Rightarrow> (r, fw_trace w))"

text \<open>The environments of a session share the libraries and the client.\<close>

definition same_client :: "hire_env \<Rightarrow> hire_env \<Rightarrow> bool" where
  "same_client E E' \<longleftrightarrow> he_lib E' = he_lib E \<and> he_defaultReferrer E' = he_defaultReferrer E"

definition ended :: "hire_env list \<Rightarrow> hire_lib \<Rightarrow> hire_request \<Rightarrow> string \<Rightarrow> flow_error + hire_result \<Rightarrow> bool" where
  "ended Es lib input digest r \<longleftrightarrow> (case r of
      Inr res \<Rightarrow> \<exists>E\<in>set Es. completed E input digest res
    | Inl e \<Rightarrow> (\<exists>p. e = Recoverable p \<and> good_token lib input digest p) \<or>
        (\<exists>E\<in>set Es. \<exists>s x. e = Finalized_Failure s x \<and> proven_failure E input (hired_task lib input) s x))"

lemma fresh_trace [simp]: "fw_trace fresh_world = []"
  by (simp add: fresh_world_def)

lemma resumed_session:
  assumes "lib_ok lib" "accepted_request lib input digest" "snapshotInput d input0 = Inr input"
  shows "\<forall>E\<in>set Es. he_lib E = lib \<and> he_defaultReferrer E = d \<Longrightarrow> good_token lib input digest p \<Longrightarrow>
    resume_session Es input0 p = (r, l) \<Longrightarrow> harmless lib input l \<and> ended Es lib input digest r"
proof (induction Es arbitrary: p r l)
  case Nil
  then show ?case by (auto simp: harmless_def ended_def)
next
  case (Cons E Es)
  have E: "he_lib E = lib" "he_defaultReferrer E = d" using Cons.prems(1) by simp_all
  obtain r1 w1 where run: "resumeHireAndActivate E input0 p fresh_world = (r1, w1)" by fastforce
  have out: "outcomes (resumeHireAndActivate E input0 p) (\<lambda>r l. harmless lib input l \<and> completed E input digest r)
     (\<lambda>e l. harmless lib input l \<and> not_lost E input digest e)"
    using resume_outcomes [of E input0 input digest p] assms E Cons.prems(2) by simp
  then obtain l1 where l1: "fw_trace w1 = l1"
    "case r1 of Inr a \<Rightarrow> harmless lib input l1 \<and> completed E input digest a | Inl e \<Rightarrow> harmless lib input l1 \<and> not_lost E input digest e"
    using outcomesD [OF out run] by auto
  show ?case
  proof (cases "\<exists>p'. r1 = Inl (Recoverable p')")
    case True
    then obtain p' where p': "r1 = Inl (Recoverable p')" by blast
    obtain r2 l2 where rest: "resume_session Es input0 p' = (r2, l2)" by fastforce
    have good: "good_token lib input digest p'" "harmless lib input l1" using l1(2) p' E by (auto simp: not_lost_def)
    have tail: "\<forall>E\<in>set Es. he_lib E = lib \<and> he_defaultReferrer E = d" using Cons.prems(1) by simp
    have "harmless lib input l2 \<and> ended Es lib input digest r2" by (rule Cons.IH [OF tail good(1) rest])
    moreover have "r = r2" "l = l1 @ l2" using Cons.prems(3) run p' rest l1(1) by auto
    ultimately show ?thesis using good(2) by (auto simp: harmless_def ended_def split: sum.splits)
  next
    case False
    then have "r = r1" "l = l1"
      using Cons.prems(3) run l1(1) by (auto split: sum.splits flow_error.splits)
    then show ?thesis using l1(2) False E by (auto simp: ended_def not_lost_def split: sum.splits)
  qed
qed

text \<open>How a whole session ends.\<close>

lemma session_ends:
  assumes "lib_ok (he_lib E)" "\<forall>E'\<in>set Es. same_client E E'" "session E Es input0 = (r, l)"
    "snapshotInput (he_defaultReferrer E) input0 = Inr input"
  shows "l = [] \<and> (\<exists>m. r = Inl (Flow_Error m)) \<or> (\<exists>digest. accepted_request (he_lib E) input digest \<and> one_hire (he_lib E) input l \<and>
     (ended (E # Es) (he_lib E) input digest r \<or> (\<exists>e. r = Inl e \<and> broadcast_refused e)))"
proof -
  obtain r1 w1 where run: "hireAndActivate E input0 fresh_world = (r1, w1)" by fastforce
  from outcomesD [OF hire_outcomes [OF assms(4)] run]
  obtain l1 where l1: "fw_trace w1 = l1"
    "case r1 of Inr r \<Rightarrow> \<exists>digest. accepted_request (he_lib E) input digest \<and> one_hire (he_lib E) input l1 \<and> completed E input digest r
     | Inl e \<Rightarrow> l1 = [] \<and> (\<exists>m. e = Flow_Error m) \<or> (\<exists>digest. accepted_request (he_lib E) input digest \<and> one_hire (he_lib E) input l1 \<and>
        (not_lost E input digest e \<or> broadcast_refused e))" by auto
  show ?thesis
  proof (cases "\<exists>p. r1 = Inl (Recoverable p)")
    case False
    then have "r = r1" "l = l1" using assms(3) run l1(1) by (auto simp: session_def split: sum.splits flow_error.splits)
    then show ?thesis using l1(2) False by (auto simp: ended_def not_lost_def split: sum.splits)
  next
    case True
    then obtain p where p: "r1 = Inl (Recoverable p)" by blast
    obtain r2 l2 where rest: "resume_session Es input0 p = (r2, l2)" by fastforce
    then have l: "l = l1 @ l2" "r = r2" using assms(3) run p l1(1) by (auto simp: session_def)
    have not_refused: "\<not> broadcast_refused (Recoverable p)" by (simp add: broadcast_refused_def)
    have same: "\<forall>E'\<in>set Es. he_lib E' = he_lib E \<and> he_defaultReferrer E' = he_defaultReferrer E"
      using assms(2) by (simp add: same_client_def)
    from l1(2) p not_refused obtain digest where d: "accepted_request (he_lib E) input digest" "one_hire (he_lib E) input l1"
      "good_token (he_lib E) input digest p" by (auto simp: not_lost_def)
    from resumed_session [OF assms(1) d(1) assms(4) same d(3) rest]
    have "harmless (he_lib E) input l2" "ended Es (he_lib E) input digest r2" by simp_all
    then show ?thesis using d l one_hire_more [OF d(2)] by (auto simp: ended_def split: sum.splits)
  qed
qed

end
