(* ===== verification/HireTheorems.thy ===== *)
theory HireTheorems
  imports HireProps
begin

text \<open>
  The guarantees of the hire flow over whole sessions, what a proof of a finalized hire rests on, and that the hires
  the SDK sends itself are the ones it can recover, unless they carry a quota account.
\<close>

section \<open>The proof, declaratively\<close>

text \<open>The transaction carries the signature, resolves no address outside its keys, and besides compute budget
  instructions has exactly one instruction, to the program, with the data and the accounts of the request.\<close>

definition carries_hire :: "hire_lib \<Rightarrow> string \<Rightarrow> bytes \<Rightarrow> string list \<Rightarrow> proof_tx \<Rightarrow> bool" where
  "carries_hire lib s data accounts tx \<longleftrightarrow>
     (\<exists>rest. px_signatures tx = s # rest) \<and> px_addressTableLookups tx = 0 \<and>
     (\<forall>i\<in>set (px_instructions tx). key_at (px_accountKeys tx) (pi_programIdIndex i)
        \<in> {Some (l_program lib), Some COMPUTE_BUDGET_PROGRAM_ADDRESS}) \<and>
     (\<exists>i. List.filter (\<lambda>i. key_at (px_accountKeys tx) (pi_programIdIndex i) = Some (l_program lib)) (px_instructions tx) = [i] \<and>
        l_base58 lib (pi_data i) = Some data \<and> map (key_at (px_accountKeys tx)) (pi_accounts i) = map Some accounts)"

text \<open>The fourteen accounts of a hire of the request.\<close>

definition accounts_of_hire :: "hire_lib \<Rightarrow> hire_input \<Rightarrow> string \<Rightarrow> string \<Rightarrow> string list \<Rightarrow> bool" where
  "accounts_of_hire lib hire creator taskPda accounts \<longleftrightarrow>
     (\<exists>listingModeration attestor.
        accounts = [taskPda, l_pda lib (Pda_Escrow taskPda), l_pda lib (Pda_Hire_Record taskPda),
          l_pda lib (Pda_Validation taskPda), h_listing hire, h_providerAgent hire, l_pda lib Pda_Protocol_Config,
          l_pda lib Pda_Moderation_Config, listingModeration, attestor,
          l_pda lib (Pda_Moderation_Block (h_listingSpecHash hire)), l_pda lib (Pda_Rate_Limit creator), creator,
          DEFAULT_ADDRESS] \<and>
        listing_moderation_matches lib hire listingModeration \<and> moderation_attestor_matches lib hire attestor)"

lemma program_instructions_iff:
  "program_instructions lib keys instructions = Inr r \<longleftrightarrow>
     r = List.filter (\<lambda>i. key_at keys (pi_programIdIndex i) = Some (l_program lib)) instructions \<and>
     (\<forall>i\<in>set instructions. key_at keys (pi_programIdIndex i) \<in> {Some (l_program lib), Some COMPUTE_BUDGET_PROGRAM_ADDRESS})"
  by (induction instructions arbitrary: r) (auto simp: Let_def bind_res_Inr_iff)

lemma account_keys_iff: "account_keys keys indices = Inr accounts \<longleftrightarrow> map (key_at keys) indices = map Some accounts"
proof (induction indices arbitrary: accounts)
  case (Cons i indices)
  have "account_keys keys (i # indices) = Inr accounts \<longleftrightarrow>
      (\<exists>a as. key_at keys i = Some a \<and> account_keys keys indices = Inr as \<and> accounts = a # as)"
    by (cases "key_at keys i") (auto simp: account_keys_def bind_res_Inr_iff)
  then show ?case using Cons.IH by (cases accounts) auto
qed (auto simp: account_keys_def)

lemma fourteen: "length accounts = 14 \<Longrightarrow> accounts = [accounts ! 0, accounts ! 1, accounts ! 2, accounts ! 3, accounts ! 4,
    accounts ! 5, accounts ! 6, accounts ! 7, accounts ! 8, accounts ! 9, accounts ! 10, accounts ! 11, accounts ! 12, accounts ! 13]"
  by (intro nth_equalityI) (auto simp: less_Suc_eq numeral_eq_Suc)

lemma accounts_of_hire_iff:
  "accounts_of_hire lib hire creator taskPda accounts \<longleftrightarrow> length accounts = 14 \<and>
     list_all (\<lambda>(index, expected). accounts ! index = expected) (exact_accounts lib hire creator taskPda) \<and>
     listing_moderation_matches lib hire (accounts ! 8) \<and> moderation_attestor_matches lib hire (accounts ! 9)"
  (is "?l \<longleftrightarrow> ?r")
proof
  assume ?l
  then show ?r by (auto simp: accounts_of_hire_def exact_accounts_def)
next
  assume r: ?r
  show ?l
    unfolding accounts_of_hire_def
    by (rule exI [of _ "accounts ! 8"], rule exI [of _ "accounts ! 9"])
      (use r fourteen [of accounts] in \<open>simp add: exact_accounts_def\<close>)
qed

lemma key_at_0: "key_at xs 0 = Some x \<longleftrightarrow> (\<exists>rest. xs = x # rest)"
  by (cases xs) (auto simp: key_at_def)

lemma proof_iff:
  "prove_transaction lib hire creator taskPda s tx = Inr x \<longleftrightarrow> some_byte (h_listingSpecHash hire) \<and>
     (\<exists>data accounts err. px_meta tx = Some (Some err) \<and> x = (if err = JNull then Succeeded else Failed err) \<and>
        l_instruction_data lib (hire_args_of hire) = Some data \<and> carries_hire lib s data accounts tx \<and>
        accounts_of_hire lib hire creator taskPda accounts)"
  (is "?l \<longleftrightarrow> ?r")
proof
  assume l: ?l
  then obtain err where meta: "px_meta tx = Some (Some err)"
    by (auto simp: prove_transaction_def split: option.splits)
  with l obtain programs where start: "key_at (px_signatures tx) 0 = Some s" "px_addressTableLookups tx = 0"
      "program_instructions lib (px_accountKeys tx) (px_instructions tx) = Inr programs"
    by (auto simp: prove_transaction_def bind_res_Inr_iff flow_guard_def guard_res_def split: if_splits)
  then obtain instruction where one: "programs = [instruction]"
    using l meta by (cases programs; cases "tl programs") (simp_all add: prove_transaction_def flow_guard_def)
  obtain data where data: "l_base58 lib (pi_data instruction) = Some data"
    using l meta start one by (cases "l_base58 lib (pi_data instruction)") (simp_all add: prove_transaction_def flow_guard_def)
  obtain accounts where parts: "l_instruction_data lib (hire_args_of hire) = Some data" "some_byte (h_listingSpecHash hire)"
    "length (pi_accounts instruction) = 14" "account_keys (px_accountKeys tx) (pi_accounts instruction) = Inr accounts"
    "list_all (\<lambda>(index, expected). accounts ! index = expected) (exact_accounts lib hire creator taskPda)"
    "listing_moderation_matches lib hire (accounts ! 8)" "moderation_attestor_matches lib hire (accounts ! 9)"
    "x = (if err = JNull then Succeeded else Failed err)"
    using l meta start one data
    by (auto simp: prove_transaction_def bind_res_Inr_iff flow_guard_def guard_res_def requiredListingSpecHash_def
        effectiveHireInstructionData_def split: option.splits if_splits)
  have "length accounts = 14" using parts(3,4) [unfolded account_keys_iff] by (metis length_map)
  then have "accounts_of_hire lib hire creator taskPda accounts" using parts(5-7) by (simp add: accounts_of_hire_iff)
  moreover have "carries_hire lib s data accounts tx"
  proof -
    have flt: "List.filter (\<lambda>i. key_at (px_accountKeys tx) (pi_programIdIndex i) = Some (l_program lib)) (px_instructions tx)
        = [instruction]"
      and only: "\<forall>i\<in>set (px_instructions tx). key_at (px_accountKeys tx) (pi_programIdIndex i)
        \<in> {Some (l_program lib), Some COMPUTE_BUDGET_PROGRAM_ADDRESS}"
      using start(3) one unfolding program_instructions_iff by simp_all
    have sig: "\<exists>rest. px_signatures tx = s # rest" using start(1) by (simp add: key_at_0)
    have "map (key_at (px_accountKeys tx)) (pi_accounts instruction) = map Some accounts"
      using parts(4) by (simp only: account_keys_iff)
    then show ?thesis unfolding carries_hire_def using sig start(2) only flt data by blast
  qed
  ultimately show ?r using parts meta by blast
next
  assume ?r
  then obtain data accounts err where parts: "px_meta tx = Some (Some err)" "x = (if err = JNull then Succeeded else Failed err)"
    "l_instruction_data lib (hire_args_of hire) = Some data" "carries_hire lib s data accounts tx"
    "accounts_of_hire lib hire creator taskPda accounts" "some_byte (h_listingSpecHash hire)" by blast
  then obtain i where i: "program_instructions lib (px_accountKeys tx) (px_instructions tx) = Inr [i]"
    "l_base58 lib (pi_data i) = Some data" "account_keys (px_accountKeys tx) (pi_accounts i) = Inr accounts"
    "key_at (px_signatures tx) 0 = Some s" "px_addressTableLookups tx = 0"
    unfolding carries_hire_def program_instructions_iff account_keys_iff key_at_0 by metis
  have "length (pi_accounts i) = 14"
    using i(3) [unfolded account_keys_iff] parts(5) [unfolded accounts_of_hire_iff] by (metis length_map)
  then show ?l
    using parts i parts(5) [unfolded accounts_of_hire_iff]
    by (simp add: prove_transaction_def flow_guard_def requiredListingSpecHash_def effectiveHireInstructionData_def)
qed

section \<open>The hires the SDK sends\<close>

text \<open>The accounts the caller may override are left to the SDK; the flag of the moderator is a boolean, if given.\<close>

definition no_override :: "hire_input \<Rightarrow> bool" where
  "no_override hire \<longleftrightarrow> (\<forall>f. h_account hire f = None) \<and> is_boolean_or_absent (h_moderatorIsAttestor hire)"

lemma own_accounts_iff:
  assumes "no_override hire" "resolved_moderation lib hire moderation"
  shows "accounts_of_hire lib hire creator (l_pda lib (Pda_Task creator (h_taskId hire))) (hire_accounts lib hire creator moderation)
    \<longleftrightarrow> \<not> h_taskQuotaSurface hire"
proof (cases "h_taskQuotaSurface hire")
  case True
  then have "length (hire_accounts lib hire creator moderation) = 15" by (simp add: hire_accounts_def Let_def)
  then show ?thesis using True by (simp add: accounts_of_hire_iff)
next
  case False
  let ?a = "hire_accounts lib hire creator moderation"
  have none: "h_account hire f = None" for f using assms(1) by (simp add: no_override_def)
  have exact: "length ?a = 14" "list_all (\<lambda>(index, expected). ?a ! index = expected)
      (exact_accounts lib hire creator (l_pda lib (Pda_Task creator (h_taskId hire))))"
    using False none by (simp_all add: hire_accounts_def exact_accounts_def or_else_def Let_def)
  have listing: "listing_moderation_matches lib hire (?a ! 8)"
    using assms(2) none
    by (auto simp: hire_accounts_def listing_moderation_matches_def resolved_moderation_def or_else_def merged_def Let_def
        split: option.splits)
  have "moderation_attestor_matches lib hire (?a ! 9)"
    using assms none
    by (auto simp: hire_accounts_def moderation_attestor_matches_def resolved_moderation_def hire_caller_resolved_def
        no_override_def is_boolean_or_absent_def merged_def Let_def split: option.splits json.splits)
  then show ?thesis using False exact listing by (simp add: accounts_of_hire_iff)
qed

text \<open>A transaction carries at most one hire.\<close>

lemma carries_hire_one:
  assumes "carries_hire lib s d accounts tx" "carries_hire lib s d' accounts' tx"
  shows "d' = d \<and> accounts' = accounts"
proof -
  have inj: "map Some xs = map Some ys \<Longrightarrow> xs = ys" for xs ys :: "string list"
    by (rule map_injective) (auto simp: inj_def)
  from assms obtain i j where ij:
    "List.filter (\<lambda>i. key_at (px_accountKeys tx) (pi_programIdIndex i) = Some (l_program lib)) (px_instructions tx) = [i]"
    "l_base58 lib (pi_data i) = Some d" "map (key_at (px_accountKeys tx)) (pi_accounts i) = map Some accounts"
    "List.filter (\<lambda>i. key_at (px_accountKeys tx) (pi_programIdIndex i) = Some (l_program lib)) (px_instructions tx) = [j]"
    "l_base58 lib (pi_data j) = Some d'" "map (key_at (px_accountKeys tx)) (pi_accounts j) = map Some accounts'"
    unfolding carries_hire_def by blast
  have "i = j" using ij(1) unfolding ij(4) by simp
  then show ?thesis using ij(2,3,5,6) inj [of accounts' accounts] by simp
qed

lemma own_proof_iff:
  assumes "no_override hire" "resolved_moderation lib hire moderation" "some_byte (h_listingSpecHash hire)"
    "effectiveHireInstructionData lib hire = Inr d" "carries_hire lib s d (hire_accounts lib hire creator moderation) tx"
    "px_meta tx = Some (Some JNull)"
  shows "prove_transaction lib hire creator (l_pda lib (Pda_Task creator (h_taskId hire))) s tx = Inr Succeeded
    \<longleftrightarrow> \<not> h_taskQuotaSurface hire"
proof -
  have d: "l_instruction_data lib (hire_args_of hire) = Some d"
    using assms(4) by (simp add: effectiveHireInstructionData_def split: option.splits)
  let ?task = "l_pda lib (Pda_Task creator (h_taskId hire))"
  have "prove_transaction lib hire creator ?task s tx = Inr Succeeded
    \<longleftrightarrow> accounts_of_hire lib hire creator ?task (hire_accounts lib hire creator moderation)" (is "?l \<longleftrightarrow> ?r")
  proof
    assume ?l
    then obtain accounts where "carries_hire lib s d accounts tx" "accounts_of_hire lib hire creator ?task accounts"
      unfolding proof_iff d by blast
    then show ?r using carries_hire_one [OF assms(5)] by simp
  next
    assume ?r
    then show ?l unfolding proof_iff d using assms(3,5,6) by auto
  qed
  then show ?thesis using own_accounts_iff [OF assms(1,2)] by simp
qed

section \<open>Runs that complete\<close>

definition returns :: "'a flow \<Rightarrow> 'a \<Rightarrow> bool" where
  "returns m a \<longleftrightarrow> (\<forall>w. fst (m w) = Inr a)"

named_theorems returns_rules \<open>flows that return a known value\<close>

lemma returns_basic [returns_rules]:
  "returns (freturn a) a" "returns (flift (Inr a)) a" "returns (femit ev) ()"
  by (simp_all add: returns_def freturn_def flift_def femit_def)

lemma returnsE:
  assumes "returns m a"
  obtains w' where "m w = (Inr a, w')"
  using assms by (cases "m w") (auto simp: returns_def dest: spec [of _ w])

lemma returns_bind:
  assumes "returns m a" "returns (f a) b"
  shows "returns (fbind m f) b"
  unfolding returns_def
proof
  fix w
  obtain w' where "m w = (Inr a, w')" using returnsE [OF assms(1)] .
  then show "fst (fbind m f w) = Inr b" using assms(2) by (simp add: fbind_def returns_def)
qed

lemma returns_catch:
  assumes "returns m a"
  shows "returns (fcatch m h) a"
  unfolding returns_def
proof
  fix w
  obtain w' where "m w = (Inr a, w')" using returnsE [OF assms] .
  then show "fst (fcatch m h w) = Inr a" by (simp add: fcatch_def)
qed

lemma returns_read: "(\<And>t. f t = Inr a) \<Longrightarrow> returns (fread f) a"
  by (simp add: returns_def fread_def fbind_def fask_def flift_def map_error_def)

lemma returns_phase: "(\<And>t. \<not> ho_phase E t p) \<Longrightarrow> returns (fphase E p) ()"
  by (simp add: returns_def fphase_def fbind_def fask_def freturn_def)

lemma returns_silent: 
  assumes "silent m" "\<And>a. returns (f a) b"
  shows "returns (fbind m f) b"
  unfolding returns_def
proof
  fix w
  obtain r w' where m: "m w = (r, w')" by (cases "m w")
  then obtain a where "r = Inr a" using assms(1) unfolding silent_def outcomes_def by (cases r) force+
  then show "fst (fbind m f w) = Inr b" using m assms(2) by (simp add: fbind_def returns_def)
qed

text \<open>The finalized state keeps a hire with these accounts.\<close>

definition landed_hire :: "hire_env \<Rightarrow> hire_request \<Rightarrow> string \<Rightarrow> bytes \<Rightarrow> string list \<Rightarrow> bool" where
  "landed_hire E input s d accounts \<longleftrightarrow>
     (\<exists>tx. (\<forall>t. ho_transaction E t s = Inr (Some tx)) \<and> px_meta tx = Some (Some JNull) \<and>
        carries_hire (he_lib E) s d accounts tx) \<and>
     (\<exists>a e h v referral. expectedReferral (he_lib E) (hq_hire input) = Inr referral \<and>
        (\<forall>t. ho_task E t (hired_task (he_lib E) input) = Inr (Some a)) \<and>
        (\<forall>t. ho_escrow E t (l_pda (he_lib E) (Pda_Escrow (hired_task (he_lib E) input))) = Inr (Some e)) \<and>
        (\<forall>t. ho_hire_record E t (l_pda (he_lib E) (Pda_Hire_Record (hired_task (he_lib E) input))) = Inr (Some h)) \<and>
        (\<forall>t. ho_validation E t (l_pda (he_lib E) (Pda_Validation (hired_task (he_lib E) input))) = Inr (Some v)) \<and>
        hire_state_matches (he_lib E) (hq_hire input) (hq_creator input) (hired_task (he_lib E) input) referral a e h v)"

text \<open>The job spec is hosted and attested as committed, the activation is not done yet and then lands.\<close>

definition obliging :: "hire_env \<Rightarrow> hire_request \<Rightarrow> bool" where
  "obliging E input \<longleftrightarrow> (\<forall>t p. \<not> ho_phase E t p) \<and>
     (\<exists>m. (\<forall>t h. ho_host E t h = Inr m) \<and> mr_moderationAttested m \<and> mr_jobSpecHash m = h_taskJobSpecHash (hq_hire input) \<and>
        js_trim (mr_jobSpecUri m) \<noteq> [] \<and> js_trim (mr_moderator m) \<noteq> [] \<and> l_is_address (he_lib E) (mr_moderator m)) \<and>
     (\<forall>t a. ho_job_spec E t a = Inr None) \<and>
     (\<exists>s. (\<forall>t. ho_activate E t = Inr s) \<and> isCanonicalTransactionSignature (he_lib E) s)"

lemma landed_reconciles:
  assumes "landed_hire E input s d accounts" "isCanonicalTransactionSignature (he_lib E) s" "hq_rpc input" "hq_getTransaction input"
    "hireIntentDigest (he_lib E) (hq_hire input) (hq_creator input) = Inr digest" "some_byte (h_listingSpecHash (hq_hire input))"
    "\<And>tx. px_meta tx = Some (Some JNull) \<Longrightarrow> carries_hire (he_lib E) s d accounts tx \<Longrightarrow>
      prove_transaction (he_lib E) (hq_hire input) (hq_creator input) (hired_task (he_lib E) input) s tx = Inr Succeeded"
  shows "returns (reconcileHire E input (hired_task (he_lib E) input) (Some (s, digest)))
     (Some \<lparr>ch_taskPda = hired_task (he_lib E) input, ch_hireSignature = s, ch_hireIntentDigest = digest, ch_hireReconciled = None\<rparr>)"
proof -
  let ?task = "hired_task (he_lib E) input"
  obtain tx where tx: "\<And>t. ho_transaction E t s = Inr (Some tx)" "px_meta tx = Some (Some JNull)"
      "carries_hire (he_lib E) s d accounts tx" using assms(1) unfolding landed_hire_def by blast
  obtain a e h v referral where acc: "expectedReferral (he_lib E) (hq_hire input) = Inr referral"
      "\<And>t. ho_task E t ?task = Inr (Some a)" "\<And>t. ho_escrow E t (l_pda (he_lib E) (Pda_Escrow ?task)) = Inr (Some e)"
      "\<And>t. ho_hire_record E t (l_pda (he_lib E) (Pda_Hire_Record ?task)) = Inr (Some h)"
      "\<And>t. ho_validation E t (l_pda (he_lib E) (Pda_Validation ?task)) = Inr (Some v)"
      "hire_state_matches (he_lib E) (hq_hire input) (hq_creator input) ?task referral a e h v"
    using assms(1) unfolding landed_hire_def by blast
  have "returns (proveFinalizedHireTransaction E input ?task s) Succeeded"
    using assms(2-4) assms(7) [OF tx(2,3)]
    by (auto simp: proveFinalizedHireTransaction_def intro!: returns_bind [OF returns_read [OF tx(1)]] returns_rules)
  then have "returns (examine E input ?task (Some (s, digest))) (Some Succeeded)"
    unfolding examine_def by (simp add: assms(5) returns_bind returns_rules)
  moreover have "returns (conclude E input ?task (Some (s, digest)) (Some Succeeded) (Some a) (Some e) (Some h) (Some v))
     (Some \<lparr>ch_taskPda = ?task, ch_hireSignature = s, ch_hireIntentDigest = digest, ch_hireReconciled = None\<rparr>)"
    using acc(1,6) assms(6) by (simp add: conclude_def Let_def requiredListingSpecHash_def flow_guard_def returns_rules)
  ultimately show ?thesis
    using assms(3) unfolding reconcileHire_alt
    by (simp, intro returns_bind [where m = "examine _ _ _ _"] returns_bind [OF returns_read [OF acc(2)]]
        returns_bind [OF returns_read [OF acc(3)]] returns_bind [OF returns_read [OF acc(4)]]
        returns_bind [OF returns_read [OF acc(5)]])
qed

lemma absent_activation: "(\<And>t a. ho_job_spec E t a = Inr None) \<Longrightarrow> returns (reconcileActivation E input c h u) None"
  by (auto simp: reconcileActivation_def intro!: returns_rules returns_bind [OF returns_read])

lemma activation_completes:
  assumes "obliging E input"
  shows "\<exists>r. returns (activateCommittedHire E input c h u m) r"
proof -
  obtain s where s: "\<And>t. ho_activate E t = Inr s" "isCanonicalTransactionSignature (he_lib E) s"
    and phase: "\<And>t p. \<not> ho_phase E t p" and spec: "\<And>t a. ho_job_spec E t a = Inr None"
    using assms unfolding obliging_def by blast
  have "returns (call_activation E call) s" for call
    using s(1) by (simp add: returns_def call_activation_def fbind_def femit_def fask_def flift_def map_error_def)
  then have send: "returns (send_activation E input c h u call) \<lparr>hr_taskPda = ch_taskPda c, hr_hireSignature = ch_hireSignature c,
      hr_activationSignature = s, hr_activationReconciled = False, hr_jobSpecHash = h, hr_jobSpecUri = u\<rparr>" for call
    unfolding send_activation_def by (rule returns_catch [OF returns_bind]) (simp add: s(2) returns_rules)
  have sil: "silent (if \<not> activation_caller_resolved input \<and> hq_rpc input
      then resolveActivationModerationAccounts E (ch_taskPda c) h m
      else freturn \<lparr>aa_moderationAttestor = None, aa_taskModeration = None\<rparr>)"
    by (auto intro: resolvers_silent silent_return)
  show ?thesis
    unfolding activateCommittedHire_def
    by (rule exI, rule returns_catch, rule returns_bind [OF returns_phase [OF phase]],
        rule returns_bind [OF absent_activation [OF spec]], simp only: option.case, rule returns_silent [OF sil send])
qed

lemma moderation_completes:
  assumes "obliging E input" "validated_request (he_lib E) input = Inr ()" "length (h_taskJobSpecHash (hq_hire input)) = 32"
  shows "\<exists>r. returns (moderateCommittedHire E input c) r"
proof -
  let ?h = "h_taskJobSpecHash (hq_hire input)"
  obtain m where m: "\<And>t h. ho_host E t h = Inr m" "mr_moderationAttested m" "mr_jobSpecHash m = ?h"
      "js_trim (mr_jobSpecUri m) \<noteq> []" "js_trim (mr_moderator m) \<noteq> []" "l_is_address (he_lib E) (mr_moderator m)"
    and phase: "\<And>t p. \<not> ho_phase E t p" using assms(1) unfolding obliging_def by blast
  have valid: "validateModerationResult (he_lib E) m ?h = Inr (?h, js_trim (mr_jobSpecUri m), mr_moderator m)"
    using m(2-) assms(3) by (simp add: validateModerationResult_def flow_guard_def Let_def)
  have "\<exists>m'. activation_moderator (he_lib E) input (mr_moderator m) = Inr m'"
  proof (cases "Option.bind (hq_activation input) (\<lambda>a. ac_account a ''moderator'')")
    case (Some v)
    then obtain a where a: "hq_activation input = Some a" "ac_account a ''moderator'' = Some v"
      by (cases "hq_activation input") auto
    have "validateActivationOverrides (he_lib E) (hq_activation input) = Inr ()"
      using assms(2) by (auto simp: validated_request_def bind_res_Inr_iff)
    then have "list_all (\<lambda>f. case ac_account a f of None \<Rightarrow> True | Some v \<Rightarrow> l_is_address (he_lib E) v) activation_fields"
      unfolding a(1) by (simp add: validateActivationOverrides_def bind_res_Inr_iff flow_guard_def guard_res_def split: if_splits)
    then have "l_is_address (he_lib E) v" using a(2) by (simp add: activation_fields_def)
    then show ?thesis using Some by (simp add: activation_moderator_def)
  qed (simp add: activation_moderator_def)
  then obtain m' where m': "activation_moderator (he_lib E) input (mr_moderator m) = Inr m'" by blast
  obtain r where r: "returns (activateCommittedHire E input c ?h (js_trim (mr_jobSpecUri m)) m') r"
    using activation_completes [OF assms(1)] by blast
  show ?thesis
    unfolding moderateCommittedHire_def Let_def
    by (rule exI [of _ r], rule returns_bind [where a = "(?h, js_trim (mr_jobSpecUri m), m')"], rule returns_catch,
        rule returns_bind [OF returns_phase [OF phase]], rule returns_bind [OF returns_basic(3)],
        rule returns_bind [OF returns_read [OF m(1)]]) (simp_all add: valid m' returns_rules r)
qed

section \<open>Sessions\<close>

lemma session_hire:
  assumes "lib_ok (he_lib E)" "\<forall>E'\<in>set Es. same_client E E'" "session E Es input0 = (r, l)"
    "snapshotInput (he_defaultReferrer E) input0 = Inr input" "Hire_Called accounts d \<in> set l"
  obtains digest moderation where "accepted_request (he_lib E) input digest"
    "accounts = hire_accounts (he_lib E) (hq_hire input) (hq_creator input) moderation"
    "resolved_moderation (he_lib E) (hq_hire input) moderation" "effectiveHireInstructionData (he_lib E) (hq_hire input) = Inr d"
    "ended (E # Es) (he_lib E) input digest r \<or> (\<exists>e. r = Inl e \<and> broadcast_refused e)"
proof -
  from session_ends [OF assms(1-4)] assms(5) obtain digest where digest: "accepted_request (he_lib E) input digest"
      "one_hire (he_lib E) input l" "ended (E # Es) (he_lib E) input digest r \<or> (\<exists>e. r = Inl e \<and> broadcast_refused e)"
    by auto
  from digest(2) obtain moderation d' l' where l: "l = Hire_Called (hire_accounts (he_lib E) (hq_hire input) (hq_creator input) moderation) d' # l'"
      "harmless (he_lib E) input l'" "resolved_moderation (he_lib E) (hq_hire input) moderation"
      "effectiveHireInstructionData (he_lib E) (hq_hire input) = Inr d'" unfolding one_hire_def by blast
  have "Hire_Called accounts d \<notin> set l'" using l(2) by (auto simp: harmless_def list_all_iff)
  then show ?thesis using that digest(1,3) l assms(5) by auto
qed

lemma one_hire_filter: "one_hire lib input l \<Longrightarrow> length (List.filter is_hire l) = 1"
  by (auto simp: one_hire_def harmless_def list_all_iff intro!: filter_False)

lemma never_rejected:
  assumes "lib_ok (he_lib E)" "same_client E E'" "snapshotInput (he_defaultReferrer E) input0 = Inr input"
    "accepted_request (he_lib E) input digest" "good_token (he_lib E) input digest p"
  shows "fst (resumeHireAndActivate E' input0 p w) \<noteq> Inl (Flow_Error m)"
proof
  assume rejected: "fst (resumeHireAndActivate E' input0 p w) = Inl (Flow_Error m)"
  obtain w' where run: "resumeHireAndActivate E' input0 p w = (Inl (Flow_Error m), w')"
    using rejected by (cases "resumeHireAndActivate E' input0 p w") auto
  have "outcomes (resumeHireAndActivate E' input0 p) (\<lambda>r l. harmless (he_lib E') input l \<and> completed E' input digest r)
     (\<lambda>e l. harmless (he_lib E') input l \<and> not_lost E' input digest e)"
    using assms resume_outcomes [of E' input0 input digest p] by (simp add: same_client_def)
  from outcomesD [OF this run] show False by (auto simp: not_lost_def)
qed

text \<open>C16: one funded hire, and it is not lost.  In a session (a first run, then resumed runs as long as there is a
  token), at most one hire is ever submitted.  If one was, the session ends with the activated task, or with the
  client's word that nothing was broadcast, or with a finalized failure of the hire that left no account, or with a
  token that no resumed run of the same request rejects.\<close>

theorem one_funded_hire:
  assumes "lib_ok (he_lib E)" "\<forall>E'\<in>set Es. same_client E E'" "session E Es input0 = (r, l)"
    "snapshotInput (he_defaultReferrer E) input0 = Inr input"
  shows "length (List.filter is_hire l) \<le> 1 \<and> (List.filter is_hire l \<noteq> [] \<longrightarrow> (case r of
      Inr res \<Rightarrow> hr_taskPda res = hired_task (he_lib E) input
    | Inl (Flow_Error m) \<Rightarrow> False
    | Inl (Client_Error f) \<Rightarrow> cf_agenc f \<and> cf_signature f = None
    | Inl (Finalized_Failure s x) \<Rightarrow> \<exists>E'\<in>set (E # Es). proven_failure E' input (hired_task (he_lib E) input) s x
    | Inl (Recoverable p) \<Rightarrow> \<forall>E' w m. same_client E E' \<longrightarrow> fst (resumeHireAndActivate E' input0 p w) \<noteq> Inl (Flow_Error m)))"
  using session_ends [OF assms]
proof
  assume "\<exists>digest. accepted_request (he_lib E) input digest \<and> one_hire (he_lib E) input l \<and>
     (ended (E # Es) (he_lib E) input digest r \<or> (\<exists>e. r = Inl e \<and> broadcast_refused e))"
  then obtain digest where digest: "accepted_request (he_lib E) input digest" "one_hire (he_lib E) input l"
    "ended (E # Es) (he_lib E) input digest r \<or> (\<exists>e. r = Inl e \<and> broadcast_refused e)" by blast
  have same: "he_lib E' = he_lib E" if "E' \<in> set (E # Es)" for E' using that assms(2) by (auto simp: same_client_def)
  show ?thesis
  proof (cases "\<exists>p. r = Inl (Recoverable p)")
    case True
    then obtain p where p: "r = Inl (Recoverable p)" by blast
    then have "good_token (he_lib E) input digest p"
      using digest(3) by (auto simp: ended_def broadcast_refused_def)
    then show ?thesis using never_rejected [OF assms(1) _ assms(4) digest(1)] one_hire_filter [OF digest(2)] p by auto
  next
    case False
    consider res E' where "r = Inr res" "E' \<in> set (E # Es)" "completed E' input digest res"
      | E' s x where "r = Inl (Finalized_Failure s x)" "E' \<in> set (E # Es)"
        "proven_failure E' input (hired_task (he_lib E) input) s x"
      | f where "r = Inl (Client_Error f)" "cf_agenc f" "cf_signature f = None"
      using digest(3) False unfolding ended_def broadcast_refused_def by (cases r) (simp, blast, simp, blast)
    then show ?thesis
    proof cases
      case 1
      then show ?thesis
        using one_hire_filter [OF digest(2)] same [OF 1(2)]
        by (auto simp: completed_def activation_result_def good_committed_def)
    next
      case 2
      then have "\<exists>E'\<in>set (E # Es). proven_failure E' input (hired_task (he_lib E) input) s x" by blast
      then show ?thesis unfolding 2(1) using one_hire_filter [OF digest(2)] by simp
    next
      case 3
      then show ?thesis using one_hire_filter [OF digest(2)] by simp
    qed
  qed
qed simp

text \<open>C17: only the committed content is activated.  Every activation a session submits is for the hired task, with
  the job spec hash committed by the hire, which is not all zeroes, a link, and a moderator that is an address; and a
  session that succeeds reports that hash, with the finalized job spec of the task that holds it or the signature
  the activation returned.\<close>

theorem activation_committed:
  assumes "lib_ok (he_lib E)" "\<forall>E'\<in>set Es. same_client E E'" "session E Es input0 = (r, l)"
    "snapshotInput (he_defaultReferrer E) input0 = Inr input"
  shows "(\<forall>call. Activation_Called call \<in> set l \<longrightarrow> av_task call = hired_task (he_lib E) input \<and>
        av_jobSpecHash call = h_taskJobSpecHash (hq_hire input) \<and> some_byte (av_jobSpecHash call) \<and>
        av_jobSpecUri call \<noteq> [] \<and> l_is_address (he_lib E) (av_moderator call)) \<and>
     (\<forall>res. r = Inr res \<longrightarrow> hr_jobSpecHash res = h_taskJobSpecHash (hq_hire input) \<and>
        (\<exists>E'\<in>set (E # Es). \<exists>t. if hr_activationReconciled res
          then \<exists>a. ho_job_spec E' t (l_pda (he_lib E) (Pda_Job_Spec (hired_task (he_lib E) input))) = Inr (Some a) \<and>
            js_task a = hired_task (he_lib E) input \<and> js_creator a = hq_creator input \<and>
            js_jobSpecHash a = hr_jobSpecHash res \<and> js_jobSpecUri a = hr_jobSpecUri res
          else ho_activate E' t = Inr (hr_activationSignature res)))"
  using session_ends [OF assms]
proof
  assume "\<exists>digest. accepted_request (he_lib E) input digest \<and> one_hire (he_lib E) input l \<and>
     (ended (E # Es) (he_lib E) input digest r \<or> (\<exists>e. r = Inl e \<and> broadcast_refused e))"
  then obtain digest where digest: "accepted_request (he_lib E) input digest" "one_hire (he_lib E) input l"
    "ended (E # Es) (he_lib E) input digest r \<or> (\<exists>e. r = Inl e \<and> broadcast_refused e)" by blast
  have some: "some_byte (h_taskJobSpecHash (hq_hire input))"
    using digest(1)
    by (auto simp: accepted_request_def validated_request_def validateHireCommitment_def bind_res_Inr_iff flow_guard_def
        guard_res_def split: if_splits)
  have calls: "faithful (he_lib E) input (Activation_Called call)" if "Activation_Called call \<in> set l" for call
  proof -
    obtain h l' where l: "l = h # l'" "is_hire h" "harmless (he_lib E) input l'"
      using digest(2) unfolding one_hire_def by fastforce
    then have "Activation_Called call \<in> set l'" using that by auto
    then show ?thesis using l(3) unfolding harmless_def list_all_iff by blast
  qed
  have result: "hr_jobSpecHash res = h_taskJobSpecHash (hq_hire input) \<and>
        (\<exists>E'\<in>set (E # Es). \<exists>t. if hr_activationReconciled res
          then \<exists>a. ho_job_spec E' t (l_pda (he_lib E) (Pda_Job_Spec (hired_task (he_lib E) input))) = Inr (Some a) \<and>
            js_task a = hired_task (he_lib E) input \<and> js_creator a = hq_creator input \<and>
            js_jobSpecHash a = hr_jobSpecHash res \<and> js_jobSpecUri a = hr_jobSpecUri res
          else ho_activate E' t = Inr (hr_activationSignature res))" if res: "r = Inr res" for res
  proof -
    obtain E' c uri where E': "E' \<in> set (E # Es)" "good_committed (he_lib E') input digest c"
        "activation_result E' input c (h_taskJobSpecHash (hq_hire input)) uri res"
      using digest(3) res by (auto simp: ended_def completed_def)
    have lib: "he_lib E' = he_lib E" using E'(1) assms(2) by (auto simp: same_client_def)
    have task: "ch_taskPda c = hired_task (he_lib E) input" using E'(2) unfolding lib good_committed_def by simp
    note parts = E'(3) [unfolded activation_result_def lib task]
    show ?thesis
    proof (intro conjI bexI [OF _ E'(1)])
      show hash: "hr_jobSpecHash res = h_taskJobSpecHash (hq_hire input)" using parts by blast
      have uri: "hr_jobSpecUri res = uri" using parts by blast
      show "\<exists>t. if hr_activationReconciled res
          then \<exists>a. ho_job_spec E' t (l_pda (he_lib E) (Pda_Job_Spec (hired_task (he_lib E) input))) = Inr (Some a) \<and>
            js_task a = hired_task (he_lib E) input \<and> js_creator a = hq_creator input \<and>
            js_jobSpecHash a = hr_jobSpecHash res \<and> js_jobSpecUri a = hr_jobSpecUri res
          else ho_activate E' t = Inr (hr_activationSignature res)"
        unfolding hash uri using parts by (cases "hr_activationReconciled res") auto
    qed
  qed
  show ?thesis using calls some result by simp
next
  assume "l = [] \<and> (\<exists>m. r = Inl (Flow_Error m))"
  then obtain m where "l = []" "r = Inl (Flow_Error m)" by blast
  then show ?thesis by simp
qed

section \<open>What a recovered hire rests on\<close>

text \<open>C18: a hire is adopted only on proof.  When the reconciliation of a candidate signature adopts a hire, the
  finalized transaction with this signature succeeded, uses no lookup tables, has besides compute budget
  instructions exactly one instruction, with the data of the request and the fourteen accounts of its hire; and the
  finalized accounts hold the state such a hire leaves.\<close>

theorem recovery_adopts_proven:
  assumes "reconcileHire E input taskPda (Some (s, digest)) w = (Inr (Some c), w')"
  shows "c = \<lparr>ch_taskPda = taskPda, ch_hireSignature = s, ch_hireIntentDigest = digest, ch_hireReconciled = None\<rparr> \<and>
     fw_trace w' = fw_trace w \<and>
     (\<exists>t tx data accounts. ho_transaction E t s = Inr (Some tx) \<and> px_meta tx = Some (Some JNull) \<and>
        l_instruction_data (he_lib E) (hire_args_of (hq_hire input)) = Some data \<and>
        carries_hire (he_lib E) s data accounts tx \<and>
        accounts_of_hire (he_lib E) (hq_hire input) (hq_creator input) taskPda accounts) \<and>
     (\<exists>t1 a t2 e t3 h t4 v referral.
        ho_task E t1 taskPda = Inr (Some a) \<and> ho_escrow E t2 (l_pda (he_lib E) (Pda_Escrow taskPda)) = Inr (Some e) \<and>
        ho_hire_record E t3 (l_pda (he_lib E) (Pda_Hire_Record taskPda)) = Inr (Some h) \<and>
        ho_validation E t4 (l_pda (he_lib E) (Pda_Validation taskPda)) = Inr (Some v) \<and>
        expectedReferral (he_lib E) (hq_hire input) = Inr referral \<and>
        hire_state_matches (he_lib E) (hq_hire input) (hq_creator input) taskPda referral a e h v)"
proof -
  from outcomesD [OF reconcile_outcomes assms]
  have trace: "fw_trace w' = fw_trace w" and adopted: "adopted E input taskPda (Some (s, digest)) (Some c)" by auto
  then have c: "c = \<lparr>ch_taskPda = taskPda, ch_hireSignature = s, ch_hireIntentDigest = digest, ch_hireReconciled = None\<rparr>"
    and proven: "proven_hire E input taskPda s" by (simp_all add: adopted_def)
  from proven obtain t tx where tx: "ho_transaction E t s = Inr (Some tx)"
    "prove_transaction (he_lib E) (hq_hire input) (hq_creator input) taskPda s tx = Inr Succeeded"
    unfolding proven_hire_def by blast
  then obtain data accounts where "px_meta tx = Some (Some JNull)"
    "l_instruction_data (he_lib E) (hire_args_of (hq_hire input)) = Some data" "carries_hire (he_lib E) s data accounts tx"
    "accounts_of_hire (he_lib E) (hq_hire input) (hq_creator input) taskPda accounts"
    unfolding proof_iff by (auto split: if_splits)
  with c trace tx(1) proven show ?thesis unfolding proven_hire_def by blast
qed

lemma resumed_proof:
  "outcomes (resumeHireAndActivate E input0 (Hiring task (Some s) digest))
     (\<lambda>_ _. \<exists>input. snapshotInput (he_defaultReferrer E) input0 = Inr input \<and> (hq_rpc input \<longrightarrow> proven_hire E input task s))
     (\<lambda>_ _. True)"
proof -
  have moderated: "outcomes (moderateCommittedHire E input c) (\<lambda>_ _. True) (\<lambda>_ _. True)" for input c
    by (rule outcomes_mono [OF moderate_outcomes]) auto
  have last: "outcomes (fbind (fcatch (reconcileHire E input task (Some (s, digest))) (\<lambda>cause. case cause of
          Finalized_Failure c e \<Rightarrow> fthrow cause | _ \<Rightarrow> fthrow (Recoverable q)))
        (\<lambda>committed. case committed of None \<Rightarrow> fthrow (Recoverable q) | Some c \<Rightarrow> moderateCommittedHire E input c))
     (\<lambda>_ _. hq_rpc input \<longrightarrow> proven_hire E input task s) (\<lambda>_ _. True)" for input q
    by (rule outcomes_then [where Q' = "\<lambda>r l. adopted E input task (Some (s, digest)) r" and R' = "\<lambda>_ _. True"],
        rule outcomes_else [OF reconcile_outcomes])
      (auto intro!: outcomes_fthrow outcomes_mono [OF moderated] split: option.split flow_error.split
        simp: adopted_def [of E input task "Some (s, digest)" "Some _"])
  show ?thesis
    unfolding resumeHireAndActivate_def Let_def
    by (auto intro!: outcomes_then [OF flift_outcomes] outcomes_fthrow last)
qed

text \<open>With an obliging environment and a hire that landed and that can be proven, a resumed run completes.\<close>

lemma landed_resumes:
  assumes "lib_ok (he_lib E)" "snapshotInput (he_defaultReferrer E) input0 = Inr input" "accepted_request (he_lib E) input digest"
    "hq_rpc input" "hq_getTransaction input" "isCanonicalTransactionSignature (he_lib E) s"
    "landed_hire E input s d accounts" "obliging E input"
    "\<And>tx. px_meta tx = Some (Some JNull) \<Longrightarrow> carries_hire (he_lib E) s d accounts tx \<Longrightarrow>
      prove_transaction (he_lib E) (hq_hire input) (hq_creator input) (hired_task (he_lib E) input) s tx = Inr Succeeded"
  shows "\<exists>res. returns (resumeHireAndActivate E input0 (Hiring (hired_task (he_lib E) input) (Some s) digest)) res"
proof -
  let ?task = "hired_task (he_lib E) input"
  have valid: "validated_request (he_lib E) input = Inr ()"
    and digest: "hireIntentDigest (he_lib E) (hq_hire input) (hq_creator input) = Inr digest"
    using assms(3) by (simp_all add: accepted_request_def)
  have listing: "some_byte (h_listingSpecHash (hq_hire input))"
    using valid by (auto simp: validated_request_def validateListingCommitment_def bind_res_Inr_iff flow_guard_def guard_res_def
        split: if_splits)
  have committed: "returns (reconcileHire E input ?task (Some (s, digest)))
     (Some \<lparr>ch_taskPda = ?task, ch_hireSignature = s, ch_hireIntentDigest = digest, ch_hireReconciled = None\<rparr>)"
    by (rule landed_reconciles [OF assms(7,6,4,5) digest listing assms(9)])
  have len: "length (h_taskJobSpecHash (hq_hire input)) = 32"
    using assms(2) by (auto simp: snapshotInput_def snapshotFixedBytes_def Let_def bind_res_Inr_iff
        split: if_splits option.splits option_arg.splits prod.splits)
  obtain res where res: "returns (moderateCommittedHire E input \<lparr>ch_taskPda = ?task, ch_hireSignature = s,
      ch_hireIntentDigest = digest, ch_hireReconciled = None\<rparr>) res"
    using moderation_completes [OF assms(8) valid len] by blast
  have "returns (resumeHireAndActivate E input0 (Hiring ?task (Some s) digest)) res"
    unfolding resumeHireAndActivate_def Let_def
    using digest_length [OF assms(1) digest] assms(1,6)
    by (simp add: assms(2) valid digest hired_task_def [symmetric] flow_guard_def lib_ok_def)
      (simp add: hired_task_def returns_bind [OF returns_catch [OF committed [unfolded hired_task_def]]] res [unfolded hired_task_def])
  then show ?thesis by blast
qed

text \<open>C19: the hires the SDK sends can be recovered, unless they carry a quota account.  Suppose a session that leaves
  the addresses to the SDK ends with a candidate signature, and that the hire it submitted did land: the finalized
  transaction and accounts are those of the hire.  Then, with a job spec service and an activation that do their
  part, resuming completes the flow exactly when the request did not ask for the quota account.\<close>

theorem own_hire_recoverable:
  assumes "lib_ok (he_lib E)" "\<forall>E'\<in>set Es. same_client E E'" "snapshotInput (he_defaultReferrer E) input0 = Inr input"
    "session E Es input0 = (Inl (Recoverable (Hiring task (Some s) digest)), l)" "Hire_Called accounts d \<in> set l"
    "no_override (hq_hire input)" "hq_rpc input" "hq_getTransaction input"
    "same_client E E'" "landed_hire E' input s d accounts" "obliging E' input"
  shows "(\<exists>res. fst (resumeHireAndActivate E' input0 (Hiring task (Some s) digest) w) = Inr res) \<longleftrightarrow>
    \<not> h_taskQuotaSurface (hq_hire input)"
proof -
  let ?lib = "he_lib E" and ?task = "hired_task (he_lib E) input"
  have lib: "he_lib E' = ?lib" "he_defaultReferrer E' = he_defaultReferrer E" using assms(9) by (simp_all add: same_client_def)
  from session_hire [OF assms(1,2,4,3,5)] obtain digest' moderation where hire: "accepted_request ?lib input digest'"
      "accounts = hire_accounts ?lib (hq_hire input) (hq_creator input) moderation"
      "resolved_moderation ?lib (hq_hire input) moderation" "effectiveHireInstructionData ?lib (hq_hire input) = Inr d"
      "good_token ?lib input digest' (Hiring task (Some s) digest)"
    by (auto simp: ended_def broadcast_refused_def)
  have token: "task = ?task" "digest = digest'" "isCanonicalTransactionSignature ?lib s" using hire(5) by simp_all
  have valid: "validated_request ?lib input = Inr ()" and digest: "hireIntentDigest ?lib (hq_hire input) (hq_creator input) = Inr digest"
    using hire(1) token(2) by (simp_all add: accepted_request_def)
  have listing: "some_byte (h_listingSpecHash (hq_hire input))"
    using valid by (auto simp: validated_request_def validateListingCommitment_def bind_res_Inr_iff flow_guard_def guard_res_def
        split: if_splits)
  have proof1: "prove_transaction ?lib (hq_hire input) (hq_creator input) ?task s tx = Inr Succeeded
      \<longleftrightarrow> \<not> h_taskQuotaSurface (hq_hire input)"
    if "px_meta tx = Some (Some JNull)" "carries_hire ?lib s d accounts tx" for tx
    using own_proof_iff [OF assms(6) hire(3) listing hire(4)] that hire(2) by (simp add: hired_task_def)
  show ?thesis
  proof
    assume "\<exists>res. fst (resumeHireAndActivate E' input0 (Hiring task (Some s) digest) w) = Inr res"
    then obtain res w' where "resumeHireAndActivate E' input0 (Hiring task (Some s) digest) w = (Inr res, w')"
      by (cases "resumeHireAndActivate E' input0 (Hiring task (Some s) digest) w") auto
    from outcomesD [OF resumed_proof this] have "proven_hire E' input ?task s"
      using assms(3,7) lib token(1) by auto
    then obtain t tx where "ho_transaction E' t s = Inr (Some tx)"
      "prove_transaction ?lib (hq_hire input) (hq_creator input) ?task s tx = Inr Succeeded"
      unfolding proven_hire_def lib by blast
    moreover obtain tx' where "\<forall>t. ho_transaction E' t s = Inr (Some tx')" "px_meta tx' = Some (Some JNull)"
      "carries_hire ?lib s d accounts tx'" using assms(10) unfolding landed_hire_def lib by blast
    ultimately show "\<not> h_taskQuotaSurface (hq_hire input)" using proof1 by auto
  next
    assume free: "\<not> h_taskQuotaSurface (hq_hire input)"
    have "\<exists>res. returns (resumeHireAndActivate E' input0 (Hiring ?task (Some s) digest)) res"
      by (rule landed_resumes [where E = E', unfolded lib, OF assms(1,3) _ assms(7,8) token(3) assms(10,11)])
        (use hire(1) token(2) proof1 free in simp_all)
    then show "\<exists>res. fst (resumeHireAndActivate E' input0 (Hiring task (Some s) digest) w) = Inr res"
      unfolding token(1) by (auto simp: returns_def)
  qed
qed

section \<open>A sample session\<close>

definition sample_lib :: hire_lib where
  "sample_lib = \<lparr>l_is_address = (\<lambda>s. s \<noteq> []), l_base58 = (\<lambda>s. Some (replicate (length s) 0)),
     l_base58_text = (\<lambda>bs. replicate (length bs) (CHR ''s'')), l_instruction_data = (\<lambda>a. Some [0]), l_sha256 = (\<lambda>bs. replicate 32 7),
     l_pda = (\<lambda>p. case p of Pda_Task c i \<Rightarrow> ''T'' | Pda_Escrow t \<Rightarrow> ''E'' | Pda_Job_Spec t \<Rightarrow> ''J'' | _ \<Rightarrow> ''A''),
     l_program = ''P''\<rparr>"

definition sample_hire :: hire_input where
  "sample_hire = \<lparr>h_taskId = replicate 32 1, h_taskJobSpecHash = replicate 32 2, h_listingSpecHash = replicate 32 3,
     h_listing = ''L'', h_providerAgent = ''W'', h_moderator = ''M'', h_expectedPrice = 5, h_expectedVersion = 1,
     h_reviewWindowSecs = 60, h_referrer = Arg_Absent, h_referrerFeeBps = None, h_moderatorIsAttestor = None,
     h_account = (\<lambda>_. None), h_taskQuotaSurface = False\<rparr>"

definition sample_request :: hire_request where
  "sample_request = \<lparr>hq_hire = sample_hire, hq_activation = None, hq_creator = ''B'', hq_rpc = True, hq_getTransaction = True\<rparr>"

definition sample_signature :: string where
  "sample_signature = replicate 64 (CHR ''s'')"

text \<open>The send of the hire fails after the broadcast; nothing is finalized yet.\<close>

definition lost_env :: hire_env where
  "lost_env = \<lparr>he_lib = sample_lib, he_defaultReferrer = None, ho_phase = \<lambda>t p. False, ho_transaction = \<lambda>t s. Inr None,
     ho_task = \<lambda>t a. Inr None, ho_escrow = \<lambda>t a. Inr None, ho_hire_record = \<lambda>t a. Inr None, ho_validation = \<lambda>t a. Inr None,
     ho_job_spec = \<lambda>t a. Inr None, ho_moderation_authority = \<lambda>t. Inl ''down'', ho_attestor_exists = \<lambda>t a. Inl ''down'',
     ho_moderation = \<lambda>t a. Inl ''down'', ho_hire = \<lambda>t. Inl \<lparr>cf_agenc = True, cf_signature = Some sample_signature\<rparr>,
     ho_activate = \<lambda>t. Inr sample_signature,
     ho_host = \<lambda>t h. Inr \<lparr>mr_jobSpecHash = replicate 32 2, mr_jobSpecUri = ''u'', mr_moderationAttested = True, mr_moderator = ''M''\<rparr>\<rparr>"

definition lost_accounts :: "string list" where
  "lost_accounts = [''T'', ''E'', ''A'', ''A'', ''L'', ''W'', ''A'', ''A'', ''A'', ''P'', ''A'', ''A'', ''B'', DEFAULT_ADDRESS]"

definition lost_token :: progress where
  "lost_token = Hiring ''T'' (Some sample_signature) (bytesToHex (replicate 32 7))"

definition sample_tx :: proof_tx where
  "sample_tx = \<lparr>px_meta = Some (Some JNull), px_signatures = [sample_signature], px_accountKeys = ''P'' # lost_accounts,
     px_instructions = [\<lparr>pi_accounts = [1, 2, 3, 4, 5, 6, 7, 8, 9, 10, 11, 12, 13, 14], pi_data = ''s'', pi_programIdIndex = 0\<rparr>],
     px_addressTableLookups = 0\<rparr>"

definition sample_task :: task where
  "sample_task = \<lparr>t_discriminator = [], t_taskId = replicate 32 1, t_creator = ''B'', t_requiredCapabilities = 0,
     t_description = replicate 32 3 @ replicate 32 2, t_constraintHash = map of_char MANUAL_VALIDATION_SENTINEL,
     t_rewardAmount = 5, t_maxWorkers = 1, t_currentWorkers = 0, t_status = TOpen, t_taskType = TTExclusive,
     t_createdAt = 10, t_deadline = 20, t_completedAt = 0, t_escrow = ''E'', t_result = [], t_completions = 0,
     t_requiredCompletions = 1, t_bump = 0, t_protocolFeeBps = 0, t_dependsOn = None, t_dependencyType = DNone,
     t_minReputation = 0, t_rewardMint = None, t_operator = ''O'', t_operatorFeeBps = 0, t_reserved = [],
     t_referrer = DEFAULT_ADDRESS, t_referrerFeeBps = 0\<rparr>"

text \<open>Later, the hire is finalized.\<close>

definition landed_env :: hire_env where
  "landed_env = lost_env\<lparr>ho_transaction := \<lambda>t s. Inr (Some sample_tx), ho_task := \<lambda>t a. Inr (Some sample_task),
     ho_escrow := \<lambda>t a. Inr (Some \<lparr>es_task = ''T'', es_amount = 5, es_distributed = 0, es_isClosed = False\<rparr>),
     ho_hire_record := \<lambda>t a. Inr (Some \<lparr>hi_discriminator = [], hi_task = ''T'', hi_listing = ''L'', hi_operator = ''O'',
       hi_operatorFeeBps = 0, hi_bump = 0, hi_designatedProvider = ''W'', hi_referrer = DEFAULT_ADDRESS, hi_referrerFeeBps = 0\<rparr>),
     ho_validation := \<lambda>t a. Inr (Some \<lparr>vc_task = ''T'', vc_creator = ''B'', vc_mode = VCreatorReview, vc_reviewWindowSecs = 60,
       vc_createdAt = 10, vc_updatedAt = 10\<rparr>)\<rparr>"

lemma sample_lib_ok: "lib_ok (he_lib lost_env)" "lib_ok sample_lib"
  by (simp_all add: lib_ok_def sample_lib_def lost_env_def split: pda.split)

lemma sample_same: "same_client lost_env landed_env"
  by (simp add: same_client_def landed_env_def)

lemma sample_snapshot: "snapshotInput (he_defaultReferrer lost_env) sample_request = Inr sample_request"
  by (simp add: snapshotInput_def snapshotFixedBytes_def sample_request_def sample_hire_def lost_env_def Let_def)

lemmas flow_defs = fbind_def fcatch_def flift_def fask_def fread_def femit_def fphase_def freturn_def fthrow_def

lemma sample_canonical: "isCanonicalTransactionSignature sample_lib sample_signature"
  by (simp add: isCanonicalTransactionSignature_def sample_lib_def sample_signature_def)

lemma sample_valid: "validated_request sample_lib sample_request = Inr ()"
  by (simp add: validated_request_def validateHireCommitment_def validateListingCommitment_def validateHireOverrides_def
      validateActivationOverrides_def flow_guard_def some_byte_def list_ex_iff is_boolean_or_absent_def sample_request_def
      sample_hire_def)

lemma sample_digest: "hireIntentDigest sample_lib sample_hire c = Inr (bytesToHex (replicate 32 7))"
  by (simp add: hireIntentDigest_def effectiveHireInstructionData_def sample_lib_def)

lemma sample_accounts:
  "hire_accounts sample_lib sample_hire ''B'' \<lparr>hm_moderationAttestor = None, hm_listingModeration = None\<rparr> = lost_accounts"
  by (simp add: hire_accounts_def sample_lib_def sample_hire_def or_else_def merged_def lost_accounts_def Let_def)

lemma lost_simps:
  "he_lib lost_env = sample_lib" "he_defaultReferrer lost_env = None" "ho_phase lost_env = (\<lambda>t p. False)"
  "ho_transaction lost_env = (\<lambda>t s. Inr None)" "ho_task lost_env = (\<lambda>t a. Inr None)" "ho_escrow lost_env = (\<lambda>t a. Inr None)"
  "ho_hire_record lost_env = (\<lambda>t a. Inr None)" "ho_validation lost_env = (\<lambda>t a. Inr None)"
  "ho_moderation_authority lost_env = (\<lambda>t. Inl ''down'')"
  "ho_hire lost_env = (\<lambda>t. Inl \<lparr>cf_agenc = True, cf_signature = Some sample_signature\<rparr>)"
  "hq_hire sample_request = sample_hire" "hq_rpc sample_request" "hq_getTransaction sample_request"
  "hq_creator sample_request = ''B''" "l_pda sample_lib (Pda_Task c i) = ''T''" "\<not> hire_caller_resolved sample_hire"
  "effectiveHireInstructionData sample_lib sample_hire = Inr [0]"
  by (simp_all add: lost_env_def sample_request_def sample_lib_def hire_caller_resolved_def sample_hire_def
      effectiveHireInstructionData_def)

lemma lost_absent: "fst (reconcileHire lost_env sample_request t None w) = Inr None"
  "fw_trace (snd (reconcileHire lost_env sample_request t None w)) = fw_trace w"
  by (simp_all add: reconcileHire_def lost_simps flow_defs map_error_def)

lemma lost_resolver: "fst (resolveHireListingModerationAccounts lost_env li h m w) =
    Inr \<lparr>hm_moderationAttestor = None, hm_listingModeration = None\<rparr>"
  "fw_trace (snd (resolveHireListingModerationAccounts lost_env li h m w)) = fw_trace w"
  by (simp_all add: resolveHireListingModerationAccounts_def resolveRosterEntry_def lost_simps flow_defs map_error_def)

lemma lost_call: "call_hire lost_env sample_request \<lparr>hm_moderationAttestor = None, hm_listingModeration = None\<rparr> w =
    (Inl (Client_Error \<lparr>cf_agenc = True, cf_signature = Some sample_signature\<rparr>),
     w\<lparr>fw_tick := Suc (fw_tick w), fw_trace := fw_trace w @ [Hire_Called lost_accounts [0]]\<rparr>)"
  by (simp add: call_hire_def lost_simps flow_defs map_error_def sample_accounts)

lemma lost_ambiguous: "fst (ambiguous_hire lost_env sample_request ''T'' (bytesToHex (replicate 32 7))
      (Client_Error \<lparr>cf_agenc = True, cf_signature = Some sample_signature\<rparr>) w) = Inl (Recoverable lost_token)"
  "fw_trace (snd (ambiguous_hire lost_env sample_request ''T'' (bytesToHex (replicate 32 7))
      (Client_Error \<lparr>cf_agenc = True, cf_signature = Some sample_signature\<rparr>) w)) = fw_trace w"
  by (simp_all add: ambiguous_hire_def reconcileHire_alt examine_def candidateSignature_def proveFinalizedHireTransaction_def
      lost_token_def lost_simps flow_defs map_error_def sample_canonical sample_digest)

lemma bind_parts: "fst (m w) = Inr a \<Longrightarrow> fbind m f w = f a (snd (m w))"
  by (cases "m w") (simp add: fbind_def)

lemma bind_fails: "fst (m w) = Inl e \<Longrightarrow> fbind m f w = (Inl e, snd (m w))"
  by (cases "m w") (simp add: fbind_def)

lemma catch_fails: "fst (m w) = Inl e \<Longrightarrow> fcatch m h w = h e (snd (m w))"
  by (cases "m w") (simp add: fcatch_def)

lemma lost_phase: "fst (fphase lost_env p w) = Inr ()" "fw_trace (snd (fphase lost_env p w)) = fw_trace w"
  by (simp_all add: lost_simps flow_defs)

lemma lost_send:
  "fst (fcatch (fbind (call_hire lost_env sample_request \<lparr>hm_moderationAttestor = None, hm_listingModeration = None\<rparr>) f)
      (\<lambda>c. fbind (ambiguous_hire lost_env sample_request ''T'' (bytesToHex (replicate 32 7)) c) g) w) = Inl (Recoverable lost_token)"
  "fw_trace (snd (fcatch (fbind (call_hire lost_env sample_request \<lparr>hm_moderationAttestor = None, hm_listingModeration = None\<rparr>) f)
      (\<lambda>c. fbind (ambiguous_hire lost_env sample_request ''T'' (bytesToHex (replicate 32 7)) c) g) w)) =
    fw_trace w @ [Hire_Called lost_accounts [0]]"
  by (simp_all add: catch_fails [of _ w "Client_Error \<lparr>cf_agenc = True, cf_signature = Some sample_signature\<rparr>"]
      bind_fails [of "call_hire _ _ _"] lost_call bind_fails [OF lost_ambiguous(1)] lost_ambiguous)

lemma lost_run: "fst (hireAndActivate lost_env sample_request fresh_world) = Inl (Recoverable lost_token)"
  "fw_trace (snd (hireAndActivate lost_env sample_request fresh_world)) = [Hire_Called lost_accounts [0]]"
  using sample_snapshot sample_valid
  by (simp_all add: hireAndActivate_def lost_simps bind_parts [OF lost_absent(1)] bind_parts [OF lost_resolver(1)] Let_def
      sample_digest bind_parts [OF lost_phase(1)] bind_fails [OF lost_send(1)] lost_send lost_absent lost_resolver lost_phase)

lemma lost_session: "session lost_env [] sample_request = (Inl (Recoverable lost_token), [Hire_Called lost_accounts [0]])"
  using lost_run by (cases "hireAndActivate lost_env sample_request fresh_world") (simp add: session_def)

lemma sample_carries: "carries_hire sample_lib sample_signature [0] lost_accounts sample_tx"
  by (simp add: carries_hire_def sample_lib_def sample_tx_def key_at_def lost_accounts_def)

lemma landed_simps: "he_lib landed_env = sample_lib" "hired_task sample_lib sample_request = ''T''"
  by (simp_all add: landed_env_def lost_simps hired_task_def)

lemma sample_hire_landed: "landed_hire landed_env sample_request sample_signature [0] lost_accounts"
  unfolding landed_hire_def landed_simps
proof (intro conjI)
  show "\<exists>tx. (\<forall>t. ho_transaction landed_env t sample_signature = Inr (Some tx)) \<and> px_meta tx = Some (Some JNull) \<and>
      carries_hire sample_lib sample_signature [0] lost_accounts tx"
    using sample_carries by (intro exI [of _ sample_tx]) (simp add: landed_env_def sample_tx_def)
  show "\<exists>a e h v referral. expectedReferral sample_lib (hq_hire sample_request) = Inr referral \<and>
      (\<forall>t. ho_task landed_env t ''T'' = Inr (Some a)) \<and>
      (\<forall>t. ho_escrow landed_env t (l_pda sample_lib (Pda_Escrow ''T'')) = Inr (Some e)) \<and>
      (\<forall>t. ho_hire_record landed_env t (l_pda sample_lib (Pda_Hire_Record ''T'')) = Inr (Some h)) \<and>
      (\<forall>t. ho_validation landed_env t (l_pda sample_lib (Pda_Validation ''T'')) = Inr (Some v)) \<and>
      hire_state_matches sample_lib (hq_hire sample_request) (hq_creator sample_request) ''T'' referral a e h v"
    by (simp add: landed_env_def lost_simps hire_state_matches_def sample_task_def sample_hire_def expectedReferral_def fee_bps_def
        expected_description_def sample_lib_def)
qed

lemma sample_obliging: "obliging landed_env sample_request"
  unfolding obliging_def landed_simps
  using sample_canonical
  by (simp add: landed_env_def lost_env_def lost_simps sample_hire_def sample_lib_def) code_simp

lemma sample_no_override: "no_override sample_hire"
  by (simp add: no_override_def is_boolean_or_absent_def sample_hire_def)

theorem own_hire_recoverable_witness:
  "\<exists>res. fst (resumeHireAndActivate landed_env sample_request lost_token fresh_world) = Inr res"
  using own_hire_recoverable [OF sample_lib_ok(1) _ sample_snapshot lost_session [unfolded lost_token_def] _ _ _ _ sample_same
      sample_hire_landed sample_obliging, of fresh_world] sample_no_override
  by (simp add: lost_simps lost_token_def) (simp add: sample_hire_def)

theorem one_funded_hire_witness:
  "length (List.filter is_hire [Hire_Called lost_accounts [0]]) \<le> 1 \<and>
     fst (resumeHireAndActivate landed_env sample_request lost_token fresh_world) \<noteq> Inl (Flow_Error [])"
  using one_funded_hire [OF sample_lib_ok(1) _ lost_session sample_snapshot] sample_same by simp

lemma sample_proof:
  assumes "px_meta tx = Some (Some JNull)" "carries_hire sample_lib s [0] lost_accounts tx"
  shows "prove_transaction sample_lib sample_hire ''B'' ''T'' s tx = Inr Succeeded"
proof -
  have "resolved_moderation sample_lib sample_hire \<lparr>hm_moderationAttestor = None, hm_listingModeration = None\<rparr>"
    by (simp add: resolved_moderation_def)
  moreover have "some_byte (h_listingSpecHash sample_hire)" by (simp add: some_byte_def list_ex_iff sample_hire_def)
  ultimately show ?thesis
    using own_proof_iff [of sample_hire sample_lib "\<lparr>hm_moderationAttestor = None, hm_listingModeration = None\<rparr>" "[0]" s "''B''" tx]
      sample_no_override assms sample_accounts lost_simps by (simp add: sample_hire_def)
qed

lemma sample_resumes: "\<exists>res. fst (resumeHireAndActivate landed_env sample_request lost_token fresh_world) = Inr res"
proof -
  have "\<exists>res. returns (resumeHireAndActivate landed_env sample_request lost_token) res"
    using landed_resumes [of landed_env sample_request sample_request "bytesToHex (replicate 32 7)" sample_signature "[0]" lost_accounts]
      sample_lib_ok sample_same sample_snapshot sample_valid sample_digest sample_canonical sample_hire_landed sample_obliging sample_proof
    by (simp add: landed_simps lost_simps accepted_request_def same_client_def lost_token_def)
  then show ?thesis by (auto simp: returns_def)
qed

lemma whole_session:
  obtains res l where "session lost_env [landed_env] sample_request = (Inr res, l)" "Hire_Called lost_accounts [0] \<in> set l"
proof -
  obtain res w where w: "resumeHireAndActivate landed_env sample_request lost_token fresh_world = (Inr res, w)"
    using sample_resumes by (cases "resumeHireAndActivate landed_env sample_request lost_token fresh_world") auto
  show ?thesis
    by (rule that [of res "[Hire_Called lost_accounts [0]] @ fw_trace w"])
      (use w lost_run in \<open>cases "hireAndActivate lost_env sample_request fresh_world"; simp add: session_def\<close>)+
qed

theorem activation_committed_witness:
  "\<exists>res l. session lost_env [landed_env] sample_request = (Inr res, l) \<and> hr_jobSpecHash res = replicate 32 2"
proof -
  obtain res l where run: "session lost_env [landed_env] sample_request = (Inr res, l)" using whole_session by blast
  have "hr_jobSpecHash res = h_taskJobSpecHash (hq_hire sample_request)"
    using activation_committed [OF sample_lib_ok(1) _ run sample_snapshot] sample_same by simp
  then show ?thesis using run by (simp add: lost_simps sample_hire_def)
qed

theorem recovery_adopts_proven_witness:
  "\<exists>tx data accounts. ho_transaction landed_env 0 sample_signature = Inr (Some tx) \<and>
     carries_hire sample_lib sample_signature data accounts tx \<and> accounts_of_hire sample_lib sample_hire ''B'' ''T'' accounts"
proof -
  have "returns (reconcileHire landed_env sample_request ''T'' (Some (sample_signature, bytesToHex (replicate 32 7))))
      (Some \<lparr>ch_taskPda = ''T'', ch_hireSignature = sample_signature, ch_hireIntentDigest = bytesToHex (replicate 32 7),
        ch_hireReconciled = None\<rparr>)"
    using landed_reconciles [OF sample_hire_landed, of "bytesToHex (replicate 32 7)"] sample_canonical sample_digest sample_proof
    by (simp add: landed_simps lost_simps) (simp add: some_byte_def list_ex_iff sample_hire_def)
  then obtain w' where "reconcileHire landed_env sample_request ''T'' (Some (sample_signature, bytesToHex (replicate 32 7))) fresh_world =
      (Inr (Some \<lparr>ch_taskPda = ''T'', ch_hireSignature = sample_signature, ch_hireIntentDigest = bytesToHex (replicate 32 7),
        ch_hireReconciled = None\<rparr>), w')" by (rule returnsE)
  from recovery_adopts_proven [OF this] show ?thesis
    by (auto simp: landed_simps lost_simps) (auto simp: landed_env_def)
qed

end
