(* ===== verification/CanonicalText.thy ===== *)
theory CanonicalText
  imports StableJson
begin

text \<open>
  The compact text of a JSON document determines the document, so that a digest of its canonical text is a commitment
  to its content.  Documents are those of integers, strings, booleans, null, arrays and objects.
\<close>

section \<open>Strings\<close>

text \<open>The first character of an escaped text, and what follows.\<close>

fun unescape :: "string \<Rightarrow> (char \<times> string) option" where
  "unescape [] = None"
| "unescape (c # s) =
     (if c \<noteq> CHR 0x5C then Some (c, s)
      else case s of
          [] \<Rightarrow> None
        | e # r \<Rightarrow>
            if e = CHR 0x22 \<or> e = CHR 0x5C then Some (e, r)
            else if e = CHR ''b'' then Some (char_of (8::nat), r)
            else if e = CHR ''t'' then Some (char_of (9::nat), r)
            else if e = CHR ''n'' then Some (char_of (10::nat), r)
            else if e = CHR ''f'' then Some (char_of (12::nat), r)
            else if e = CHR ''r'' then Some (char_of (13::nat), r)
            else (case r of
                a # b # p # q # r' \<Rightarrow> Some (char_of (16 * the (hex_value p) + the (hex_value q)), r')
              | _ \<Rightarrow> None))"

lemma of_char_eq: "(of_char c :: nat) = n \<Longrightarrow> char_of n = c"
  by auto

lemma unescape_escape: "unescape (json_escape_char c @ x) = Some (c, x)"
proof -
  have "(of_char c :: nat) < 32 \<Longrightarrow> of_char c div 16 < (16::nat)" by (simp add: less_mult_imp_div_less)
  then show ?thesis
    by (simp add: json_escape_char_def Let_def of_char_eq)
qed

lemma escape_eq: "json_escape_char c @ x = json_escape_char d @ y \<Longrightarrow> c = d \<and> x = y"
  by (metis unescape_escape option.inject prod.inject)

lemma escape_quote: "json_escape_char c @ x \<noteq> CHR 0x22 # y"
  by (auto simp: json_escape_char_def Let_def)

lemma string_body_eq:
  "concat (map json_escape_char s) @ CHR 0x22 # x = concat (map json_escape_char t) @ CHR 0x22 # y \<Longrightarrow> s = t \<and> x = y"
proof (induction s arbitrary: t)
  case Nil
  then show ?case using escape_quote by (cases t) (simp, simp, metis)
next
  case (Cons c s)
  show ?case
  proof (cases t)
    case Nil
    then show ?thesis using Cons.prems escape_quote by simp
  next
    case (Cons d t')
    then have "json_escape_char c @ (concat (map json_escape_char s) @ CHR 0x22 # x) =
        json_escape_char d @ (concat (map json_escape_char t') @ CHR 0x22 # y)"
      using Cons.prems by simp
    then show ?thesis using escape_eq Cons.IH Cons by blast
  qed
qed

lemma json_string_eq: "json_string s @ x = json_string t @ y \<Longrightarrow> s = t \<and> x = y"
  unfolding json_string_def by (rule string_body_eq) simp

section \<open>Numbers\<close>

definition delimited :: "string \<Rightarrow> bool" where
  "delimited r \<longleftrightarrow> (case r of [] \<Rightarrow> True | c # _ \<Rightarrow> \<not> is_digit c)"

lemma takeWhile_digits: "delimited r \<Longrightarrow> takeWhile is_digit (dec_print n @ r) = dec_print n"
  using dec_print_digits [of n] by (cases r) (simp_all add: delimited_def list_all_iff takeWhile_append)

lemma dec_print_eq:
  assumes "dec_print m @ r = dec_print n @ s" "delimited r" "delimited s"
  shows "m = n \<and> r = s"
proof -
  have same: "dec_print m = dec_print n"
    using takeWhile_digits [OF assms(2), of m] takeWhile_digits [OF assms(3), of n] assms(1) by simp
  have "m = dec_value (dec_print m)" by (simp only: dec_value_print)
  also have "\<dots> = n" unfolding same by (simp only: dec_value_print)
  finally have "m = n" .
  then show ?thesis using assms(1) by (simp only: same_append_eq)
qed

lemma dec_print_no_minus: "dec_print n @ r \<noteq> CHR ''-'' # s"
proof
  assume "dec_print n @ r = CHR ''-'' # s"
  then have "CHR ''-'' \<in> set (dec_print n)" by (cases "dec_print n") auto
  then have "is_digit (CHR ''-'')" using dec_print_digits [of n] by (simp only: list_all_iff)
  then show False by (simp add: is_digit_def)
qed

lemma json_int_eq:
  assumes "json_int i @ r = json_int k @ s" "delimited r" "delimited s"
  shows "i = k \<and> r = s"
proof (cases "i < 0"; cases "k < 0")
  assume "i < 0" "k < 0"
  then have "dec_print (nat (- i)) @ r = dec_print (nat (- k)) @ s" using assms(1) by (simp add: json_int_def)
  from dec_print_eq [OF this assms(2,3)] show ?thesis using \<open>i < 0\<close> \<open>k < 0\<close> by (simp add: eq_nat_nat_iff)
next
  assume "i < 0" "\<not> k < 0"
  then show ?thesis using assms(1) dec_print_no_minus [of "nat k" s, THEN not_sym] by (simp add: json_int_def)
next
  assume "\<not> i < 0" "k < 0"
  then show ?thesis using assms(1) dec_print_no_minus [of "nat i" r] by (simp add: json_int_def)
next
  assume "\<not> i < 0" "\<not> k < 0"
  then have "dec_print (nat i) @ r = dec_print (nat k) @ s" using assms(1) by (simp add: json_int_def)
  from dec_print_eq [OF this assms(2,3)] show ?thesis using \<open>\<not> i < 0\<close> \<open>\<not> k < 0\<close> by (simp add: eq_nat_nat_iff)
qed

section \<open>Documents\<close>

text \<open>Documents without numbers that are no integers.\<close>

fun plain_json :: "json \<Rightarrow> bool" where
  "plain_json (JNonInt s) = False"
| "plain_json (JArr xs) = list_all plain_json xs"
| "plain_json (JObj fs) = list_all (\<lambda>(k, v). plain_json v) fs"
| "plain_json _ = True"

definition distinguishes :: "('a \<Rightarrow> string) \<Rightarrow> ('a \<Rightarrow> bool) \<Rightarrow> 'a \<Rightarrow> bool" where
  "distinguishes p ok x \<longleftrightarrow> (\<forall>y r s. ok y \<longrightarrow> delimited r \<longrightarrow> delimited s \<longrightarrow> p x @ r = p y @ s \<longrightarrow> x = y \<and> r = s)"

text \<open>A list of items separated by commas, up to its closing bracket.\<close>

lemma tail_eq:
  assumes "list_all (distinguishes p ok) xs" "list_all ok ys" "c \<in> {CHR '']'', CHR ''}''}"
    "concat (map (\<lambda>z. '','' @ p z) xs) @ c # r = concat (map (\<lambda>z. '','' @ p z) ys) @ c # s"
  shows "xs = ys \<and> r = s"
  using assms
proof (induction xs arbitrary: ys)
  case Nil
  then show ?case by (cases ys) auto
next
  case (Cons x xs)
  show ?case
  proof (cases ys)
    case Nil
    then show ?thesis using Cons.prems by auto
  next
    case (Cons y ys')
    let ?r = "concat (map (\<lambda>z. '','' @ p z) xs) @ c # r" and ?s = "concat (map (\<lambda>z. '','' @ p z) ys') @ c # s"
    have "delimited ?r" "delimited ?s"
      using assms(3) by (cases xs; cases ys'; auto simp: delimited_def is_digit_def)+
    moreover have "p x @ ?r = p y @ ?s" using Cons.prems(4) Cons by simp
    ultimately have "x = y" "?r = ?s" using Cons.prems(1,2) Cons unfolding distinguishes_def by auto
    then show ?thesis using Cons.IH [of ys'] Cons.prems Cons by auto
  qed
qed

lemma commas_eq:
  assumes "list_all (distinguishes p ok) xs" "list_all ok ys" "c \<in> {CHR '']'', CHR ''}''}"
    "list_all ok xs" "\<And>z t t'. ok z \<Longrightarrow> p z @ t \<noteq> c # t'" "commas '','' (map p xs) @ c # r = commas '','' (map p ys) @ c # s"
  shows "xs = ys \<and> r = s"
proof (cases xs)
  case Nil
  show ?thesis
  proof (cases ys)
    case Nil
    then show ?thesis using assms(6) \<open>xs = []\<close> by (simp add: commas_def)
  next
    case (Cons y ys')
    then have "ok y" using assms(2) by simp
    then show ?thesis using assms(5) [of y, THEN not_sym] assms(6) Cons \<open>xs = []\<close> by (simp add: commas_def)
  qed
next
  case (Cons x xs')
  show ?thesis
  proof (cases ys)
    case Nil
    then show ?thesis using assms(4-6) Cons by (simp add: commas_def)
  next
    case ys: (Cons y ys')
    have eq: "concat (map (\<lambda>z. '','' @ p z) xs) @ c # r = concat (map (\<lambda>z. '','' @ p z) ys) @ c # s"
      using assms(6) Cons ys by (simp add: commas_def comp_def)
    show ?thesis by (rule tail_eq [OF assms(1-3) eq])
  qed
qed

lemma int_start: "json_int i @ r = c # t \<Longrightarrow> c = CHR ''-'' \<or> is_digit c"
proof -
  have "is_digit c" if "dec_print n @ r = c # t" for n
  proof -
    from that have "c \<in> set (dec_print n)" using dec_print_not_Nil [of n] by (cases "dec_print n") auto
    then show ?thesis using dec_print_digits [of n] by (simp only: list_all_iff)
  qed
  then show "json_int i @ r = c # t \<Longrightarrow> c = CHR ''-'' \<or> is_digit c"
    by (auto simp: json_int_def split: if_splits)
qed

definition letters :: "char set" where
  "letters = {CHR ''n'', CHR ''t'', CHR ''f'', CHR 0x22, CHR ''['', CHR ''{'', CHR '']'', CHR ''}''}"

lemma not_int: "c \<in> letters \<Longrightarrow> json_int i @ r \<noteq> c # t" "c \<in> letters \<Longrightarrow> c # t \<noteq> json_int i @ r"
  using int_start [of i r c t] by (auto simp: letters_def is_digit_def dest: sym)

lemma letters_simps [simp]:
  "CHR ''n'' \<in> letters" "CHR ''t'' \<in> letters" "CHR ''f'' \<in> letters" "CHR 0x22 \<in> letters"
  "CHR ''['' \<in> letters" "CHR ''{'' \<in> letters" "CHR '']'' \<in> letters" "CHR ''}'' \<in> letters"
  by (simp_all add: letters_def)

lemma compact_start: "plain_json j \<Longrightarrow> json_compact j @ t \<noteq> CHR '']'' # t'"
  by (cases j) (auto simp: json_string_def not_int)

definition pair_text :: "string \<times> json \<Rightarrow> string" where
  "pair_text = (\<lambda>(k, v). json_string k @ '':'' @ json_compact v)"

lemma compact_object: "json_compact (JObj fs) = ''{'' @ commas '','' (map pair_text fs) @ ''}''"
  by (simp add: pair_text_def)

lemma compact_kind:
  assumes "plain_json j" "plain_json k" "json_compact j @ r = json_compact k @ s"
  shows "(\<exists>i i'. j = JInt i \<and> k = JInt i') \<or> (\<exists>x y. j = JStr x \<and> k = JStr y) \<or>
    (\<exists>xs ys. j = JArr xs \<and> k = JArr ys) \<or> (\<exists>fs gs. j = JObj fs \<and> k = JObj gs) \<or>
    (j = k \<and> (j = JNull \<or> (\<exists>b. j = JBool b)))"
  using assms by (cases j; cases k) (auto simp: json_string_def not_int split: if_splits)

lemma compact_eq:
  "plain_json j \<Longrightarrow> plain_json k \<Longrightarrow> delimited r \<Longrightarrow> delimited s \<Longrightarrow> json_compact j @ r = json_compact k @ s \<Longrightarrow> j = k \<and> r = s"
proof (induction j arbitrary: k r s rule: json_compact.induct)
  case (6 xs)
  then obtain ys where ys: "k = JArr ys" using compact_kind [OF 6(2,3,6)] by auto
  have "list_all (distinguishes json_compact plain_json) xs"
    unfolding list_all_iff distinguishes_def
  proof (intro ballI allI impI)
    fix x y r s
    assume "x \<in> set xs" "plain_json y" "delimited r" "delimited s" "json_compact x @ r = json_compact y @ s"
    then show "x = y \<and> r = s" using 6(1) [of x y r s] 6(2) by (simp add: list_all_iff)
  qed
  moreover have "commas '','' (map json_compact xs) @ CHR '']'' # r = commas '','' (map json_compact ys) @ CHR '']'' # s"
    using 6(6) ys by simp
  ultimately have "xs = ys \<and> r = s"
    using 6(2,3) ys compact_start by (intro commas_eq [where p = json_compact and ok = plain_json and c = "CHR '']''"]) simp_all
  then show ?case using ys by simp
next
  case (7 fs)
  then obtain gs where gs: "k = JObj gs" using compact_kind [OF 7(2,3,6)] by auto
  have "distinguishes pair_text (\<lambda>(k, v). plain_json v) kv" if "kv \<in> set fs" for kv
  proof -
    obtain k v where kv: "kv = (k, v)" by (cases kv)
    have "v = v' \<and> r = s" if "plain_json v'" "delimited r" "delimited s" "json_compact v @ r = json_compact v' @ s" for v' r s
      using 7(1) [OF \<open>kv \<in> set fs\<close>, of k v v' r s] 7(2) \<open>kv \<in> set fs\<close> kv that by (auto simp: list_all_iff)
    then show ?thesis
      unfolding distinguishes_def kv pair_text_def by (auto dest!: json_string_eq)
  qed
  moreover have "commas '','' (map pair_text fs) @ CHR ''}'' # r = commas '','' (map pair_text gs) @ CHR ''}'' # s"
    using 7(6) unfolding gs compact_object by simp
  ultimately have "fs = gs \<and> r = s"
    using 7(2,3) gs
    by (intro commas_eq [where p = pair_text and ok = "\<lambda>(k, v). plain_json v" and c = "CHR ''}''"])
      (auto simp: list_all_iff pair_text_def json_string_def)
  then show ?case using gs by simp
next
  case (3 i)
  then obtain i' where k: "k = JInt i'" using compact_kind [OF 3(1,2,5)] by auto
  show ?case using json_int_eq [of i r i' s] 3(3-5) unfolding k by simp
next
  case (5 x)
  then obtain y where k: "k = JStr y" using compact_kind [OF 5(1,2,5)] by auto
  show ?case using json_string_eq [of x r y s] 5(5) unfolding k by simp
next
  case (4 x)
  then show ?case by simp
next
  case 1
  then show ?case using compact_kind [OF 1(1,2,5)] by auto
next
  case (2 b)
  then show ?case using compact_kind [OF 2(1,2,5)] by auto
qed

lemma compact_inj: "plain_json j \<Longrightarrow> plain_json k \<Longrightarrow> json_compact j = json_compact k \<Longrightarrow> j = k"
  using compact_eq [of j k "[]" "[]"] by (simp add: delimited_def)

section \<open>Canonical texts\<close>

text \<open>The canonical form keeps every property.\<close>

lemma own_order_set [simp]: "set (own_order ks) = set ks"
  by (auto simp: own_order_def)

lemma sorted_object_field: "field (sorted_object fs) k = field fs k"
proof -
  have "map_of (map (\<lambda>k. (k, f k)) ks) k = (if k \<in> set ks then Some (f k) else None)" for f :: "string \<Rightarrow> json" and ks
    by (induction ks) auto
  then have "field (sorted_object fs) k = (if k \<in> set (map fst fs) then Some (the (field fs k)) else None)"
    by (simp add: sorted_object_def)
  moreover have "k \<in> set (map fst fs) \<longleftrightarrow> field fs k \<noteq> None" by (simp add: map_of_eq_None_iff)
  ultimately show ?thesis by (cases "field fs k") simp_all
qed

lemma canonical_field:
  assumes "canonicalize (JObj fs) = Inr j" "canonicalize (JObj gs) = Inr j"
  shows "map_option (\<lambda>v. projr (canonicalize v)) (field fs k) = map_option (\<lambda>v. projr (canonicalize v)) (field gs k)"
proof -
  have "sorted_object (canonical_fields fs) = sorted_object (canonical_fields gs)"
    using assms unfolding canonicalize_obj by (auto split: if_splits)
  then have "field (canonical_fields fs) k = field (canonical_fields gs) k"
    using sorted_object_field by metis
  then show ?thesis by (simp add: canonical_fields_field)
qed

lemma plain_sorted: "list_all (\<lambda>(k, v). plain_json v) fs \<Longrightarrow> list_all (\<lambda>(k, v). plain_json v) (sorted_object fs)"
proof -
  assume plain: "list_all (\<lambda>(k, v). plain_json v) fs"
  have "plain_json (the (field fs k))" if "k \<in> fst ` set fs" for k
  proof -
    from that obtain v where "field fs k = Some v" by (cases "field fs k") (auto simp: map_of_eq_None_iff)
    then show ?thesis using plain by (auto simp: list_all_iff dest: map_of_SomeD)
  qed
  then show ?thesis by (simp add: sorted_object_def list_all_iff)
qed

lemma canonicalize_plain: "plain_json j \<Longrightarrow> \<exists>k. canonicalize j = Inr k \<and> plain_json k"
proof (induction j rule: canonicalize.induct)
  case (6 xs)
  then have "\<forall>x\<in>set xs. \<exists>k. canonicalize x = Inr k \<and> plain_json k" by (simp add: list_all_iff)
  then have "\<exists>ys. map_res canonicalize xs = Inr ys \<and> list_all plain_json ys"
    by (induction xs) auto
  then show ?case by auto
next
  case (7 fs)
  have "\<exists>k. canonicalize v = Inr k \<and> plain_json k" if "(p, v) \<in> set fs" for p v
    using 7(1) [of "(p, v)" p v] 7(2) that by (auto simp: list_all_iff)
  then have ok: "\<exists>k. canonicalize v = Inr k \<and> plain_json k" if "v \<in> snd ` set fs" for v using that by auto
  then have "\<forall>v\<in>snd ` set fs. is_ok (canonicalize v)" by fastforce
  moreover have "list_all (\<lambda>(k, v). plain_json v) (canonical_fields fs)"
    using ok by (fastforce simp: canonical_fields_def list_all_iff)
  ultimately show ?case using plain_sorted unfolding canonicalize_obj by simp
qed auto

text \<open>Plain documents with the same canonical text have the same canonical form.\<close>

lemma canonical_text_inj:
  assumes "plain_json a" "plain_json b" "canonicalJobSpecJson a = canonicalJobSpecJson b"
  obtains j where "canonicalize a = Inr j" "canonicalize b = Inr j"
proof -
  obtain j k where jk: "canonicalize a = Inr j" "canonicalize b = Inr k" "plain_json j" "plain_json k"
    using canonicalize_plain [OF assms(1)] canonicalize_plain [OF assms(2)] by blast
  then have "j = k" using assms(3) compact_inj by (simp add: canonicalJobSpecJson_def)
  then show ?thesis using jk that by simp
qed

end
