(* ===== verification/Delivery.thy ===== *)
theory Delivery
  imports CanonicalText JsText WorkerState
begin

text \<open>
  Encrypted hand-over of results (\<open>sdk-ts/src/delivery\<close>): the worker encrypts an artifact and publishes a manifest
  without key material; the buyer decrypts with the key the host releases after acceptance, or with the private key
  the artifact was wrapped for.
\<close>

section \<open>WebCrypto\<close>

text \<open>AES-256-GCM (key, IV, additional data), X25519 and HKDF-SHA256.  \<open>wc_generated\<close> tells which exported private keys
  (PKCS#8) \<open>generateKey\<close> can give, \<open>wc_public\<close> is the raw public key of such a key, and \<open>wc_shared\<close> is \<open>None\<close> when a
  key cannot be imported or the secret cannot be derived.  No additional data is the same as empty additional data.\<close>

record webcrypto =
  wc_encrypt :: "bytes \<Rightarrow> bytes \<Rightarrow> bytes \<Rightarrow> bytes \<Rightarrow> bytes"
  wc_decrypt :: "bytes \<Rightarrow> bytes \<Rightarrow> bytes \<Rightarrow> bytes \<Rightarrow> bytes option"
  wc_generated :: "bytes \<Rightarrow> bool"
  wc_public :: "bytes \<Rightarrow> bytes"
  wc_shared :: "bytes \<Rightarrow> bytes \<Rightarrow> bytes option"
  wc_hkdf :: "bytes \<Rightarrow> bytes \<Rightarrow> bytes \<Rightarrow> bytes"
  wc_platform :: platform

text \<open>The random values of one encryption: data key, ephemeral private key, and the two IVs.\<close>

record draws =
  dr_key :: bytes
  dr_ephemeral :: bytes
  dr_wrap_iv :: bytes
  dr_iv :: bytes

datatype delivery_error =
    Delivery_Type string
  | Crypto_Failure
  | Integrity_Failure
  | Canonical_Failure

type_synonym 'a delivery = "delivery_error + 'a"

definition DELIVERY_ENC_ALGO :: string where "DELIVERY_ENC_ALGO = ''AES-256-GCM''"
definition DELIVERY_KEY_AGREEMENT :: string where "DELIVERY_KEY_AGREEMENT = ''X25519''"
definition AES_GCM_IV_BYTES :: nat where "AES_GCM_IV_BYTES = 12"
definition AES_KEY_BYTES :: nat where "AES_KEY_BYTES = 32"
definition X25519_PUBKEY_BYTES :: nat where "X25519_PUBKEY_BYTES = 32"
definition HKDF_INFO :: bytes where "HKDF_INFO = utf8_encode ''agenc:delivery:v1:x25519-aesgcm''"

definition generateRecipientKeyPair :: "webcrypto \<Rightarrow> bytes \<Rightarrow> bytes \<times> bytes" where
  "generateRecipientKeyPair K privateKey = (wc_public K privateKey, privateKey)"

definition importAesKey :: "bytes \<Rightarrow> bytes delivery" where
  "importAesKey raw =
     (if length raw \<noteq> AES_KEY_BYTES then Inl (Delivery_Type ''delivery: symmetric key must be 32 bytes'') else Inr raw)"

definition additional :: "bytes option \<Rightarrow> bytes" where
  "additional a = (case a of None \<Rightarrow> [] | Some bs \<Rightarrow> bs)"

definition aesGcmEncrypt :: "webcrypto \<Rightarrow> bytes \<Rightarrow> bytes \<Rightarrow> bytes \<Rightarrow> bytes option \<Rightarrow> bytes delivery" where
  "aesGcmEncrypt K iv plaintext symKey additionalData =
     bind_res (importAesKey symKey) (\<lambda>key. Inr (iv @ wc_encrypt K key iv (additional additionalData) plaintext))"

definition aesGcmDecrypt :: "webcrypto \<Rightarrow> bytes \<Rightarrow> bytes \<Rightarrow> bytes option \<Rightarrow> bytes delivery" where
  "aesGcmDecrypt K blob symKey additionalData =
     (if length blob < AES_GCM_IV_BYTES then Inl (Delivery_Type ''delivery: ciphertext shorter than the IV'')
      else bind_res (importAesKey symKey) (\<lambda>key.
        case wc_decrypt K key (take AES_GCM_IV_BYTES blob) (additional additionalData) (drop AES_GCM_IV_BYTES blob) of
          None \<Rightarrow> Inl Crypto_Failure
        | Some plaintext \<Rightarrow> Inr plaintext))"

definition deriveAesKeyFromShared :: "webcrypto \<Rightarrow> bytes \<Rightarrow> bytes \<Rightarrow> bytes" where
  "deriveAesKeyFromShared K sharedSecret salt = wc_hkdf K sharedSecret salt HKDF_INFO"

definition shared_secret :: "webcrypto \<Rightarrow> bytes \<Rightarrow> bytes \<Rightarrow> bytes delivery" where
  "shared_secret K privateKey publicKey = (case wc_shared K privateKey publicKey of None \<Rightarrow> Inl Crypto_Failure | Some s \<Rightarrow> Inr s)"

definition wrapKeyToPubkey :: "webcrypto \<Rightarrow> draws \<Rightarrow> bytes \<Rightarrow> bytes \<Rightarrow> (string \<times> string) delivery" where
  "wrapKeyToPubkey K d symKey recipientPublicKey =
     (if length recipientPublicKey \<noteq> X25519_PUBKEY_BYTES
      then Inl (Delivery_Type ''delivery: recipient public key must be 32 bytes'')
      else
        let ephemeralPublicKey = wc_public K (dr_ephemeral d) in
        bind_res (shared_secret K (dr_ephemeral d) recipientPublicKey) (\<lambda>shared.
        bind_res (aesGcmEncrypt K (dr_wrap_iv d) symKey
            (deriveAesKeyFromShared K shared (ephemeralPublicKey @ recipientPublicKey)) None) (\<lambda>wrapped.
        Inr (bytesToHex wrapped, bytesToHex ephemeralPublicKey))))"

definition unwrapKeyWithPrivateKey :: "webcrypto \<Rightarrow> bytes \<Rightarrow> bytes \<Rightarrow> bytes \<Rightarrow> bytes \<Rightarrow> bytes delivery" where
  "unwrapKeyWithPrivateKey K wrappedKey ephemeralPublicKey recipientPrivateKey recipientPublicKey =
     bind_res (shared_secret K recipientPrivateKey ephemeralPublicKey) (\<lambda>shared.
     aesGcmDecrypt K wrappedKey (deriveAesKeyFromShared K shared (ephemeralPublicKey @ recipientPublicKey)) None)"

section \<open>Hexadecimal of the SDK\<close>

text \<open>\<open>Number.parseInt(pair, 16)\<close> of two UTF-16 units: white space, a sign and \<open>0x\<close> are skipped, and it reads as many
  digits as there are.  The result is stored modulo 256.\<close>

definition space_units :: "nat list" where
  "space_units = [9, 10, 11, 12, 13, 32, 0xA0, 0x1680, 0x2028, 0x2029, 0x202F, 0x205F, 0x3000, 0xFEFF] @ [0x2000..<0x200B]"

definition hex_unit :: "nat \<Rightarrow> nat option" where
  "hex_unit u = (if u < 128 then hex_value (char_of u) else None)"

definition parse_pair :: "nat \<Rightarrow> nat \<Rightarrow> int option" where
  "parse_pair u v =
     (let text = dropWhile (\<lambda>x. x \<in> set space_units) [u, v];
          negative = (take 1 text = [0x2D]);
          unsigned = (if take 1 text \<in> {[0x2D], [0x2B]} then drop 1 text else text);
          body = (if unsigned \<in> {[0x30, 0x78], [0x30, 0x58]} then [] else unsigned);
          digits = takeWhile (\<lambda>x. hex_unit x \<noteq> None) body;
          magnitude = foldl (\<lambda>a x. 16 * a + int (the (hex_unit x))) 0 digits in
      if digits = [] then None else Some (if negative then - magnitude else magnitude))"

fun parse_pairs :: "nat list \<Rightarrow> bytes delivery" where
  "parse_pairs (u # v # us) = (case parse_pair u v of
      None \<Rightarrow> Inl (Delivery_Type ''hexToBytes: non-hex character'')
    | Some n \<Rightarrow> bind_res (parse_pairs us) (\<lambda>bs. Inr (word_of_int n # bs)))"
| "parse_pairs _ = Inr []"

definition hex_decode :: "string \<Rightarrow> bytes delivery" where
  "hex_decode hex =
     (let clean = (if take 2 hex \<in> {''0x'', ''0X''} then drop 2 hex else hex); units = utf16 clean in
      if length units mod 2 \<noteq> 0 then Inl (Delivery_Type ''hexToBytes: odd-length hex string'')
      else parse_pairs units)"

section \<open>Manifests\<close>

text \<open>A symmetric descriptor has no key, only the reference to the gated store.\<close>

datatype key_wrap =
    Symmetric "string option"
  | Wrapped string string string string

record manifest =
  dm_v :: nat
  dm_taskPda :: string
  dm_ciphertextUri :: string
  dm_previewUri :: "string option"
  dm_encAlgo :: string
  dm_plaintextHash :: string
  dm_keyWrap :: key_wrap

record delivery_meta =
  me_taskPda :: string
  me_ciphertextUri :: string
  me_previewUri :: "string option"
  me_gateRef :: "string option"

fun key_wrap_json :: "key_wrap \<Rightarrow> json" where
  "key_wrap_json (Symmetric gateRef) = JObj ((''mode'', JStr ''symmetric'') # opt_prop ''gateRef'' (map_option JStr gateRef))"
| "key_wrap_json (Wrapped agreement wrappedKey ephemeralPublicKey recipientPublicKey) =
     JObj [(''mode'', JStr ''x25519''), (''agreement'', JStr agreement), (''wrappedKey'', JStr wrappedKey),
       (''ephemeralPublicKey'', JStr ephemeralPublicKey), (''recipientPublicKey'', JStr recipientPublicKey)]"

definition manifest_json :: "manifest \<Rightarrow> json" where
  "manifest_json m =
     JObj ([(''v'', JInt (int (dm_v m))), (''taskPda'', JStr (dm_taskPda m)), (''ciphertextUri'', JStr (dm_ciphertextUri m))]
       @ opt_prop ''previewUri'' (map_option JStr (dm_previewUri m))
       @ [(''encAlgo'', JStr (dm_encAlgo m)), (''plaintextHash'', JStr (dm_plaintextHash m)), (''keyWrap'', key_wrap_json (dm_keyWrap m))])"

definition build_manifest :: "nat \<Rightarrow> delivery_meta \<Rightarrow> string \<Rightarrow> key_wrap \<Rightarrow> manifest" where
  "build_manifest version meta plaintextHash keyWrap =
     \<lparr>dm_v = version, dm_taskPda = me_taskPda meta, dm_ciphertextUri = me_ciphertextUri meta,
      dm_previewUri = me_previewUri meta, dm_encAlgo = DELIVERY_ENC_ALGO, dm_plaintextHash = plaintextHash,
      dm_keyWrap = keyWrap\<rparr>"

definition buildDeliveryManifest :: "delivery_meta \<Rightarrow> string \<Rightarrow> key_wrap \<Rightarrow> manifest" where
  "buildDeliveryManifest = build_manifest 1"

definition buildDeliveryManifestV2 :: "delivery_meta \<Rightarrow> string \<Rightarrow> key_wrap \<Rightarrow> manifest" where
  "buildDeliveryManifestV2 = build_manifest 2"

definition deliveryManifestV2Aad :: "manifest \<Rightarrow> bytes delivery" where
  "deliveryManifestV2Aad m = (case canonicalJobSpecJson (manifest_json m) of
      Inl e \<Rightarrow> Inl Canonical_Failure | Inr text \<Rightarrow> Inr (utf8_encode text))"

definition manifest_aad :: "manifest \<Rightarrow> bytes option delivery" where
  "manifest_aad m = (if dm_v m = 2 then bind_res (deliveryManifestV2Aad m) (\<lambda>a. Inr (Some a)) else Inr None)"

section \<open>Encryption\<close>

datatype artifact = Art_Bytes bytes | Art_Text string

fun artifact_bytes :: "artifact \<Rightarrow> bytes" where
  "artifact_bytes (Art_Bytes bs) = bs"
| "artifact_bytes (Art_Text s) = utf8_encode s"

datatype recipient = To_Key bytes | To_Public bytes

definition chosen_key :: "webcrypto \<Rightarrow> draws \<Rightarrow> recipient \<Rightarrow> delivery_meta \<Rightarrow> (bytes \<times> key_wrap) delivery" where
  "chosen_key K d recipient1 meta = (case recipient1 of
      To_Key symKey \<Rightarrow> Inr (symKey, Symmetric (me_gateRef meta))
    | To_Public recipientPublicKey \<Rightarrow>
        bind_res (wrapKeyToPubkey K d (dr_key d) recipientPublicKey) (\<lambda>(wrappedKey, ephemeralPublicKey).
        Inr (dr_key d, Wrapped DELIVERY_KEY_AGREEMENT wrappedKey ephemeralPublicKey (bytesToHex recipientPublicKey))))"

definition encryptDeliverableVersion ::
  "webcrypto \<Rightarrow> draws \<Rightarrow> nat \<Rightarrow> artifact \<Rightarrow> recipient \<Rightarrow> delivery_meta \<Rightarrow> (bytes \<times> bytes \<times> manifest) delivery" where
  "encryptDeliverableVersion K d version plaintext recipient1 meta =
     (let pt = artifact_bytes plaintext; plaintextHash = sha256Hex (wc_platform K) pt in
      bind_res (chosen_key K d recipient1 meta) (\<lambda>(symKey, keyWrap).
      let m = (if version = 1 then buildDeliveryManifest meta plaintextHash keyWrap
               else buildDeliveryManifestV2 meta plaintextHash keyWrap) in
      bind_res (manifest_aad m) (\<lambda>aad.
      bind_res (aesGcmEncrypt K (dr_iv d) pt symKey aad) (\<lambda>ciphertext.
      Inr (ciphertext, symKey, m)))))"

definition encryptDeliverable where
  "encryptDeliverable K d = encryptDeliverableVersion K d 1"

definition encryptDeliverableV2 where
  "encryptDeliverableV2 K d = encryptDeliverableVersion K d 2"

section \<open>Decryption\<close>

datatype decrypt_key = With_Key bytes | With_Private bytes bytes

definition decryption_key :: "webcrypto \<Rightarrow> decrypt_key \<Rightarrow> manifest \<Rightarrow> bytes delivery" where
  "decryption_key K key m = (case key of
      With_Key symKey \<Rightarrow> Inr symKey
    | With_Private recipientPrivateKey recipientPublicKey \<Rightarrow>
        (case dm_keyWrap m of
           Symmetric gateRef \<Rightarrow> Inl (Delivery_Type ''recipient-key path requires a manifest with an x25519 keyWrap'')
         | Wrapped agreement wrappedKey ephemeralPublicKey recipient1 \<Rightarrow>
             bind_res (hex_decode wrappedKey) (\<lambda>wrapped.
             bind_res (hex_decode ephemeralPublicKey) (\<lambda>ephemeral.
             unwrapKeyWithPrivateKey K wrapped ephemeral recipientPrivateKey recipientPublicKey))))"

definition decryptDeliverable :: "webcrypto \<Rightarrow> bytes \<Rightarrow> decrypt_key \<Rightarrow> manifest option \<Rightarrow> bytes delivery" where
  "decryptDeliverable K ciphertext key manifest1 = (case manifest1 of
      None \<Rightarrow> Inl (Delivery_Type ''a v1/v2 manifest is required'')
    | Some m \<Rightarrow>
        if dm_v m \<notin> {1, 2} \<or> dm_encAlgo m \<noteq> DELIVERY_ENC_ALGO \<or> \<not> is_hash_hex (dm_plaintextHash m)
        then Inl (Delivery_Type ''invalid or unsupported manifest'')
        else
          bind_res (decryption_key K key m) (\<lambda>symKey.
          bind_res (manifest_aad m) (\<lambda>aad.
          bind_res (aesGcmDecrypt K ciphertext symKey aad) (\<lambda>plaintext.
          if sha256Hex (wc_platform K) plaintext \<noteq> dm_plaintextHash m then Inl Integrity_Failure
          else Inr plaintext))))"

end
