(* ===== verification/DeliveryProps.thy ===== *)
theory DeliveryProps
  imports Delivery BorshString Samples
begin

text \<open>
  What the hand-over guarantees: what was encrypted is decrypted by its recipient, the published manifest says nothing
  about a symmetric key, and a decryption with any other key or manifest is a forgery of the GCM tag.
\<close>

section \<open>Hexadecimal\<close>

lemma lower_hex_units: "is_lower_hex c \<Longrightarrow> of_char c < (128::nat) \<and> of_char c \<notin> set space_units
    \<and> of_char c \<notin> {0x2D, 0x2B, 0x78, 0x58 :: nat}"
  by (auto simp: is_lower_hex_def space_units_def)

lemma parse_digits:
  assumes "m < 16" "n < 16"
  shows "parse_pair (of_char (hex_digit m)) (of_char (hex_digit n)) = Some (int (16 * m + n))"
proof -
  have units: "hex_unit (of_char (hex_digit k)) = Some k" if "k < 16" for k
    using that lower_hex_units [of "hex_digit k"] by (simp add: hex_unit_def)
  show ?thesis
    using assms lower_hex_units [of "hex_digit m"] lower_hex_units [of "hex_digit n"]
    by (simp add: parse_pair_def units)
qed

lemma parse_pairs_hex: "parse_pairs (map of_char (bytesToHex bs)) = Inr bs"
proof (induction bs)
  case (Cons b bs)
  have "parse_pair (of_char (hex_digit (unat b div 16))) (of_char (hex_digit (unat b mod 16))) = Some (int (unat b))"
    using parse_digits [OF byte_nibbles, of b b] by (simp only: mult_div_mod_eq)
  then show ?case using Cons.IH by simp
qed simp

lemma hex_ascii: "list_all (\<lambda>c. of_char c < (128::nat)) (bytesToHex bs)"
  using bytesToHex_lower [of bs] lower_hex_units by (auto simp: list_all_iff)

lemma hex_no_prefix:
  assumes "list_all is_lower_hex s"
  shows "take 2 s \<noteq> ''0x''" "take 2 s \<noteq> ''0X''"
proof -
  have hex: "is_lower_hex c" if "c \<in> set (take 2 s)" for c
    using assms set_take_subset [of 2 s] that by (auto simp: list_all_iff)
  show "take 2 s \<noteq> ''0x''" using hex [of "CHR ''x''"] by (auto simp: is_lower_hex_def)
  show "take 2 s \<noteq> ''0X''" using hex [of "CHR ''X''"] by (auto simp: is_lower_hex_def)
qed

lemma hex_decode_encode: "hex_decode (bytesToHex bs) = Inr bs"
  using hex_no_prefix [OF bytesToHex_lower [of bs]]
  by (simp add: hex_decode_def utf16_ascii [OF hex_ascii] parse_pairs_hex)

section \<open>Manifests\<close>

lemma manifest_plain: "plain_json (manifest_json m)"
  by (cases "dm_keyWrap m") (auto simp: manifest_json_def opt_prop_def split: option.split)

lemma key_wrap_inj:
  assumes "canonicalize (key_wrap_json a) = canonicalize (key_wrap_json b)"
  shows "a = b"
proof -
  obtain fs gs where fs: "key_wrap_json a = JObj fs" "key_wrap_json b = JObj gs" by (cases a; cases b) auto
  have "plain_json (key_wrap_json a)" by (cases a) (auto simp: opt_prop_def split: option.split)
  then obtain j where j: "canonicalize (JObj fs) = Inr j" using canonicalize_plain fs by metis
  then have "canonicalize (JObj gs) = Inr j" using assms fs by simp
  note same = canonical_field [OF j this]
  show ?thesis
    using fs same [of "''mode''"] same [of "''gateRef''"] same [of "''agreement''"] same [of "''wrappedKey''"]
      same [of "''ephemeralPublicKey''"] same [of "''recipientPublicKey''"]
    by (cases a; cases b) (auto simp: opt_prop_def split: option.splits)
qed

lemma manifest_json_obj: "\<exists>fs. manifest_json m = JObj fs"
  by (simp add: manifest_json_def)

lemma key_wrap_canonical: "projr (canonicalize (key_wrap_json a)) = projr (canonicalize (key_wrap_json b)) \<Longrightarrow> a = b"
proof -
  assume same: "projr (canonicalize (key_wrap_json a)) = projr (canonicalize (key_wrap_json b))"
  have plain: "plain_json (key_wrap_json c)" for c by (cases c) (auto simp: opt_prop_def split: option.split)
  obtain j k where "canonicalize (key_wrap_json a) = Inr j" "canonicalize (key_wrap_json b) = Inr k"
    using canonicalize_plain [OF plain] by metis
  then show "a = b" using same key_wrap_inj [of a b] by simp
qed

lemma manifest_text_inj:
  assumes "canonicalJobSpecJson (manifest_json m) = canonicalJobSpecJson (manifest_json n)"
  shows "m = n"
proof -
  obtain j where j: "canonicalize (manifest_json m) = Inr j" "canonicalize (manifest_json n) = Inr j"
    using canonical_text_inj [OF manifest_plain manifest_plain assms] .
  note same = canonical_field [OF j [unfolded manifest_json_def]]
  have "dm_v m = dm_v n" using same [of "''v''"] by simp
  moreover have "dm_taskPda m = dm_taskPda n" using same [of "''taskPda''"] by simp
  moreover have "dm_ciphertextUri m = dm_ciphertextUri n" using same [of "''ciphertextUri''"] by simp
  moreover have "dm_previewUri m = dm_previewUri n"
    using same [of "''previewUri''"] by (cases "dm_previewUri m"; cases "dm_previewUri n") simp_all
  moreover have "dm_encAlgo m = dm_encAlgo n"
    using same [of "''encAlgo''"] by (cases "dm_previewUri m"; cases "dm_previewUri n") simp_all
  moreover have "dm_plaintextHash m = dm_plaintextHash n"
    using same [of "''plaintextHash''"] by (cases "dm_previewUri m"; cases "dm_previewUri n") simp_all
  moreover have "dm_keyWrap m = dm_keyWrap n"
    using same [of "''keyWrap''"]
    by (cases "dm_previewUri m"; cases "dm_previewUri n") (simp_all add: key_wrap_canonical)
  ultimately show ?thesis by simp
qed

lemma utf8_inj: "utf8_encode s = utf8_encode t \<Longrightarrow> s = t"
proof -
  assume "utf8_encode s = utf8_encode t"
  then have "map unat (utf8_encode s) = map unat (utf8_encode t)" by (rule arg_cong)
  then have same: "map of_char s = (map of_char t :: nat list)" by (simp only: unat_utf8)
  have "map (char_of :: nat \<Rightarrow> char) (map of_char s) = map char_of (map of_char t :: nat list)" unfolding same ..
  then show "s = t" by (simp add: comp_def)
qed

lemma aad_exists: "\<exists>a. deliveryManifestV2Aad m = Inr a"
proof -
  obtain j where "canonicalize (manifest_json m) = Inr j" using canonicalize_plain [OF manifest_plain] by blast
  then show ?thesis by (simp add: deliveryManifestV2Aad_def canonicalJobSpecJson_def)
qed

lemma aad_inj:
  assumes "deliveryManifestV2Aad m = Inr a" "deliveryManifestV2Aad n = Inr a"
  shows "m = n"
  using assms by (auto simp: deliveryManifestV2Aad_def split: sum.splits dest!: utf8_inj intro: manifest_text_inj)

lemma aad_nonempty: "deliveryManifestV2Aad m = Inr a \<Longrightarrow> a \<noteq> []"
proof -
  assume aad: "deliveryManifestV2Aad m = Inr a"
  obtain fs where "manifest_json m = JObj fs" using manifest_json_obj by blast
  then show ?thesis
    using aad by (auto simp: deliveryManifestV2Aad_def canonicalJobSpecJson_def utf8_encode_def canonicalize_obj
        simp del: canonicalize.simps split: if_splits)
qed

section \<open>The laws of the cryptography\<close>

text \<open>Decryption inverts encryption, two parties derive the same secret from each other's public keys, and digests, derived keys and public keys have 32
  bytes.\<close>

definition crypto_ok :: "webcrypto \<Rightarrow> bool" where
  "crypto_ok K \<longleftrightarrow> platform_ok (wc_platform K) \<and>
     (\<forall>key iv aad plaintext. length key = AES_KEY_BYTES \<longrightarrow> length iv = AES_GCM_IV_BYTES \<longrightarrow>
        wc_decrypt K key iv aad (wc_encrypt K key iv aad plaintext) = Some plaintext) \<and>
     (\<forall>a b. wc_generated K a \<longrightarrow> wc_generated K b \<longrightarrow>
        (\<exists>secret. wc_shared K a (wc_public K b) = Some secret \<and> wc_shared K b (wc_public K a) = Some secret)) \<and>
     (\<forall>a. wc_generated K a \<longrightarrow> length (wc_public K a) = X25519_PUBKEY_BYTES) \<and>
     (\<forall>secret salt info. length (wc_hkdf K secret salt info) = AES_KEY_BYTES)"

definition draws_ok :: "webcrypto \<Rightarrow> draws \<Rightarrow> bool" where
  "draws_ok K d \<longleftrightarrow> length (dr_key d) = AES_KEY_BYTES \<and> wc_generated K (dr_ephemeral d) \<and>
     length (dr_wrap_iv d) = AES_GCM_IV_BYTES \<and> length (dr_iv d) = AES_GCM_IV_BYTES"

text \<open>The key a recipient holds: the data key itself, or the pair of \<open>generateRecipientKeyPair\<close>.\<close>

fun opens :: "webcrypto \<Rightarrow> recipient \<Rightarrow> decrypt_key \<Rightarrow> bool" where
  "opens K (To_Key symKey) (With_Key key) \<longleftrightarrow> key = symKey \<and> length symKey = AES_KEY_BYTES"
| "opens K (To_Public pub) (With_Private priv pub') \<longleftrightarrow>
     wc_generated K priv \<and> (pub, priv) = generateRecipientKeyPair K priv \<and> pub' = pub"
| "opens K _ _ \<longleftrightarrow> False"

lemma crypto_laws:
  assumes "crypto_ok K"
  shows crypto_inverse: "length key = AES_KEY_BYTES \<Longrightarrow> length iv = AES_GCM_IV_BYTES
      \<Longrightarrow> wc_decrypt K key iv aad (wc_encrypt K key iv aad plaintext) = Some plaintext"
    and crypto_shared: "wc_generated K a \<Longrightarrow> wc_generated K b
      \<Longrightarrow> \<exists>secret. wc_shared K a (wc_public K b) = Some secret \<and> wc_shared K b (wc_public K a) = Some secret"
    and crypto_public: "wc_generated K a \<Longrightarrow> length (wc_public K a) = X25519_PUBKEY_BYTES"
    and crypto_hkdf: "length (wc_hkdf K secret salt info) = AES_KEY_BYTES"
    and crypto_platform: "platform_ok (wc_platform K)"
  using assms unfolding crypto_ok_def by blast+

lemma import_ok: "importAesKey key = (if length key = AES_KEY_BYTES then Inr key else
    Inl (Delivery_Type ''delivery: symmetric key must be 32 bytes''))"
  by (simp add: importAesKey_def)

lemma gcm_roundtrip:
  assumes "crypto_ok K" "length key = AES_KEY_BYTES" "length iv = AES_GCM_IV_BYTES"
  obtains c where "aesGcmEncrypt K iv plaintext key aad = Inr c" "aesGcmDecrypt K c key aad = Inr plaintext"
  using assms by (auto simp: aesGcmEncrypt_def aesGcmDecrypt_def import_ok crypto_inverse)

lemma wrap_roundtrip:
  assumes K: "crypto_ok K" and d: "draws_ok K d" and priv: "wc_generated K priv" and key: "length key = AES_KEY_BYTES"
  obtains wrapped where
    "wrapKeyToPubkey K d key (wc_public K priv) = Inr (bytesToHex wrapped, bytesToHex (wc_public K (dr_ephemeral d)))"
    "unwrapKeyWithPrivateKey K wrapped (wc_public K (dr_ephemeral d)) priv (wc_public K priv) = Inr key"
proof -
  obtain secret where secret: "wc_shared K (dr_ephemeral d) (wc_public K priv) = Some secret"
    "wc_shared K priv (wc_public K (dr_ephemeral d)) = Some secret"
    using crypto_shared [OF K, of "dr_ephemeral d" priv] d priv by (auto simp: draws_ok_def)
  define derived where "derived = deriveAesKeyFromShared K secret (wc_public K (dr_ephemeral d) @ wc_public K priv)"
  have "length derived = AES_KEY_BYTES" "length (dr_wrap_iv d) = AES_GCM_IV_BYTES"
    using K d by (simp_all add: derived_def deriveAesKeyFromShared_def crypto_hkdf draws_ok_def)
  then obtain wrapped where "aesGcmEncrypt K (dr_wrap_iv d) key derived None = Inr wrapped"
    "aesGcmDecrypt K wrapped derived None = Inr key"
    using gcm_roundtrip [OF K] by metis
  moreover have "length (wc_public K priv) = X25519_PUBKEY_BYTES" using K priv by (rule crypto_public)
  ultimately show thesis
    using that secret
    by (simp add: wrapKeyToPubkey_def unwrapKeyWithPrivateKey_def shared_secret_def derived_def Let_def)
qed

lemma chosen_key_opens:
  assumes "crypto_ok K" "draws_ok K d" "opens K recipient1 key"
  obtains symKey keyWrap where "chosen_key K d recipient1 meta = Inr (symKey, keyWrap)" "length symKey = AES_KEY_BYTES"
    "\<And>m. dm_keyWrap m = keyWrap \<Longrightarrow> decryption_key K key m = Inr symKey"
proof -
  consider (symmetric) symKey where "recipient1 = To_Key symKey" "key = With_Key symKey" "length symKey = AES_KEY_BYTES"
    | (wrapped) priv where "recipient1 = To_Public (wc_public K priv)" "key = With_Private priv (wc_public K priv)" "wc_generated K priv"
    using assms(3) by (cases recipient1; cases key) (auto simp: generateRecipientKeyPair_def)
  then show thesis
  proof cases
    case symmetric
    then show thesis using that by (simp add: chosen_key_def decryption_key_def)
  next
    case wrapped
    have key: "length (dr_key d) = AES_KEY_BYTES" using assms(2) by (simp add: draws_ok_def)
    obtain w where
      "wrapKeyToPubkey K d (dr_key d) (wc_public K priv) = Inr (bytesToHex w, bytesToHex (wc_public K (dr_ephemeral d)))"
      "unwrapKeyWithPrivateKey K w (wc_public K (dr_ephemeral d)) priv (wc_public K priv) = Inr (dr_key d)"
      by (rule wrap_roundtrip [OF assms(1,2) wrapped(3) key])
    then show thesis
      using that [of "dr_key d"] wrapped key by (simp add: chosen_key_def decryption_key_def hex_decode_encode)
  qed
qed

lemma manifest_aad_exists: "\<exists>aad. manifest_aad m = Inr aad"
  using aad_exists [of m] by (auto simp: manifest_aad_def)

section \<open>Exactly what was delivered\<close>

text \<open>The additional data of two manifests agree when neither is of version 2, or when they are the same manifest.\<close>

lemma manifest_aad_eq:
  assumes "manifest_aad m = Inr a" "manifest_aad n = Inr b" "dm_v m = 2 \<or> dm_v n = 2"
  shows "additional a = additional b \<longleftrightarrow> m = n"
proof
  assume same: "additional a = additional b"
  show "m = n"
  proof (cases "dm_v m = 2 \<and> dm_v n = 2")
    case True
    then show ?thesis
      using assms same by (auto simp: manifest_aad_def additional_def bind_res_Inr_iff dest: aad_inj)
  next
    case False
    then show ?thesis
      using assms same by (auto simp: manifest_aad_def additional_def bind_res_Inr_iff split: if_splits dest: aad_nonempty)
  qed
qed (use assms in simp)

lemma gcm_opens:
  assumes "crypto_ok K" "length key = AES_KEY_BYTES" "length iv = AES_GCM_IV_BYTES"
  shows "aesGcmDecrypt K (iv @ wc_encrypt K key iv (additional aad) plaintext) key (Some (additional aad)) = Inr plaintext"
    and "additional aad' = additional aad \<Longrightarrow>
      aesGcmDecrypt K (iv @ wc_encrypt K key iv (additional aad) plaintext) key aad' = Inr x \<longleftrightarrow> x = plaintext"
  using assms by (auto simp: aesGcmDecrypt_def import_ok crypto_inverse) (simp add: additional_def crypto_inverse)

text \<open>A forgery: the tag of a ciphertext that was made with the data key and manifest \<open>n\<close> verifies with what another
  key or another manifest gives.\<close>

definition forged :: "webcrypto \<Rightarrow> bytes \<Rightarrow> bytes \<Rightarrow> manifest \<Rightarrow> decrypt_key \<Rightarrow> manifest \<Rightarrow> bool" where
  "forged K c symKey n key m \<longleftrightarrow> (\<exists>key' aad aad' x. decryption_key K key m = Inr key' \<and> manifest_aad n = Inr aad \<and>
     manifest_aad m = Inr aad' \<and> (key' \<noteq> symKey \<or> additional aad' \<noteq> additional aad) \<and> aesGcmDecrypt K c key' aad' = Inr x)"

text \<open>A key and a manifest that go with a delivery: the data key, the version, the digest, and in version 2 nothing but
  the manifest \<open>n\<close> that was published.\<close>

definition goes_with :: "webcrypto \<Rightarrow> nat \<Rightarrow> artifact \<Rightarrow> bytes \<Rightarrow> manifest \<Rightarrow> decrypt_key \<Rightarrow> manifest \<Rightarrow> bool" where
  "goes_with K version a symKey n key m \<longleftrightarrow> decryption_key K key m = Inr symKey \<and> dm_v m = version \<and>
     dm_encAlgo m = DELIVERY_ENC_ALGO \<and> dm_plaintextHash m = sha256Hex (wc_platform K) (artifact_bytes a) \<and>
     (version = 2 \<longrightarrow> m = n)"

definition delivered_manifest :: "webcrypto \<Rightarrow> nat \<Rightarrow> artifact \<Rightarrow> delivery_meta \<Rightarrow> key_wrap \<Rightarrow> manifest" where
  "delivered_manifest K version a meta keyWrap = build_manifest version meta (sha256Hex (wc_platform K) (artifact_bytes a)) keyWrap"

lemma encrypted:
  assumes "version \<in> {1, 2}" "chosen_key K d r meta = Inr (symKey, keyWrap)" "length symKey = AES_KEY_BYTES"
    "manifest_aad (delivered_manifest K version a meta keyWrap) = Inr aad"
  shows "encryptDeliverableVersion K d version a r meta =
     Inr (dr_iv d @ wc_encrypt K symKey (dr_iv d) (additional aad) (artifact_bytes a), symKey, delivered_manifest K version a meta keyWrap)"
  using assms
  by (auto simp: encryptDeliverableVersion_def delivered_manifest_def buildDeliveryManifest_def buildDeliveryManifestV2_def
      aesGcmEncrypt_def import_ok Let_def)

text \<open>A recipient an artifact can be encrypted to: a key of 32 bytes, or a public key that was generated.\<close>

fun recipient_ok :: "webcrypto \<Rightarrow> recipient \<Rightarrow> bool" where
  "recipient_ok K (To_Key symKey) \<longleftrightarrow> length symKey = AES_KEY_BYTES"
| "recipient_ok K (To_Public pub) \<longleftrightarrow> (\<exists>priv. wc_generated K priv \<and> generateRecipientKeyPair K priv = (pub, priv))"

lemma chosen_key_exists:
  assumes "crypto_ok K" "draws_ok K d" "recipient_ok K r"
  obtains symKey keyWrap where "chosen_key K d r meta = Inr (symKey, keyWrap)" "length symKey = AES_KEY_BYTES"
    "\<And>key m. opens K r key \<Longrightarrow> dm_keyWrap m = keyWrap \<Longrightarrow> decryption_key K key m = Inr symKey"
proof -
  have "\<exists>key. opens K r key"
  proof (cases r)
    case (To_Key symKey)
    then have "opens K r (With_Key symKey)" using assms(3) by simp
    then show ?thesis by blast
  next
    case (To_Public pub)
    then obtain priv where "wc_generated K priv" "generateRecipientKeyPair K priv = (pub, priv)" using assms(3) by auto
    then have "opens K r (With_Private priv pub)" using To_Public by simp
    then show ?thesis by blast
  qed
  then obtain key0 where key0: "opens K r key0" by blast
  from chosen_key_opens [OF assms(1,2) key0, of meta] obtain symKey keyWrap where
    chosen: "chosen_key K d r meta = Inr (symKey, keyWrap)" "length symKey = AES_KEY_BYTES" .
  have "decryption_key K key m = Inr symKey" if "opens K r key" "dm_keyWrap m = keyWrap" for key m
    using chosen_key_opens [OF assms(1,2) that(1), of meta] chosen(1) that(2) by (metis Pair_inject sum.inject(2))
  with chosen show thesis by (rule that)
qed

lemma decrypted_hash: "decryptDeliverable K c key (Some m) = Inr x \<Longrightarrow> sha256Hex (wc_platform K) x = dm_plaintextHash m"
  by (auto simp: decryptDeliverable_def bind_res_Inr_iff split: if_splits)

lemma decrypted_exactly:
  assumes K: "crypto_ok K" and key: "length symKey = AES_KEY_BYTES" and iv: "length iv = AES_GCM_IV_BYTES"
    and v: "version \<in> {1, 2}" and n: "n = delivered_manifest K version a meta keyWrap" "manifest_aad n = Inr aad"
    and c: "c = iv @ wc_encrypt K symKey iv (additional aad) (artifact_bytes a)"
    and unforged: "\<not> forged K c symKey n key m"
  shows "decryptDeliverable K c key (Some m) = Inr x \<longleftrightarrow> x = artifact_bytes a \<and> goes_with K version a symKey n key m"
proof -
  have n_v: "dm_v n = version" by (simp add: n(1) delivered_manifest_def build_manifest_def)
  obtain b where b: "manifest_aad m = Inr b" using manifest_aad_exists by blast
  have aad: "additional b = additional aad \<longleftrightarrow> (if version = 2 \<or> dm_v m = 2 then m = n else True)"
    using manifest_aad_eq [OF b n(2)] b n(2) n_v by (auto simp: manifest_aad_def additional_def)
  have hash: "is_hash_hex (sha256Hex (wc_platform K) (artifact_bytes a))"
    using crypto_platform [OF K] by (rule sha256Hex_hash_hex)
  show ?thesis
  proof (cases "decryption_key K key m")
    case (Inr key')
    have opens: "aesGcmDecrypt K c key' b = Inr y \<longleftrightarrow> key' = symKey \<and> additional b = additional aad \<and> y = artifact_bytes a" for y
      using gcm_opens(2) [OF K key iv, of b aad] unforged Inr b n(2) by (auto simp: c forged_def)
    have "decryptDeliverable K c key (Some m) = Inr x \<longleftrightarrow>
      dm_v m \<in> {1, 2} \<and> dm_encAlgo m = DELIVERY_ENC_ALGO \<and> is_hash_hex (dm_plaintextHash m) \<and>
      (key' = symKey \<and> additional b = additional aad \<and> x = artifact_bytes a) \<and> sha256Hex (wc_platform K) x = dm_plaintextHash m"
      unfolding opens [symmetric] using Inr b by (auto simp: decryptDeliverable_def bind_res_Inr_iff split: if_splits)
    then show ?thesis unfolding goes_with_def using Inr aad n_v v hash by (auto split: if_splits)
  next
    case (Inl e)
    then show ?thesis by (auto simp: decryptDeliverable_def goes_with_def split: if_splits)
  qed
qed

lemma goes_with_unforged:
  assumes "goes_with K version a symKey n key m" "n = delivered_manifest K version a meta keyWrap"
  shows "\<not> forged K c symKey n key m"
  using assms by (auto simp: goes_with_def forged_def delivered_manifest_def build_manifest_def manifest_aad_def additional_def)

text \<open>C38: a deliverable is opened by those it was encrypted for, and to nothing else.  Encryption to a key of 32 bytes
  or to a generated public key succeeds, and each holder of the recipient's key gets the artifact back.  Every key
  and manifest that goes with the delivery opens it; whatever key and manifest are presented, what is returned has the
  digest of that manifest, and it is the artifact, opened with the data key and a manifest of the version and digest
  of the delivery, in version 2 the very manifest that was published, so that no task, location, digest or wrapped
  key can be exchanged, or else this decryption is itself a forgery of the GCM tag.  The manifest for a symmetric
  key does not depend on the key.\<close>

theorem deliverable_opened_exactly:
  assumes "crypto_ok K" "draws_ok K d" "recipient_ok K r" "version \<in> {1, 2}"
  shows "\<exists>c symKey n. encryptDeliverableVersion K d version a r meta = Inr (c, symKey, n) \<and>
     (\<forall>key. opens K r key \<longrightarrow> decryptDeliverable K c key (Some n) = Inr (artifact_bytes a)) \<and>
     (\<forall>key m. goes_with K version a symKey n key m \<longrightarrow> decryptDeliverable K c key (Some m) = Inr (artifact_bytes a)) \<and>
     (\<forall>key m x. decryptDeliverable K c key (Some m) = Inr x \<longrightarrow>
        sha256Hex (wc_platform K) x = dm_plaintextHash m \<and>
        (x = artifact_bytes a \<and> goes_with K version a symKey n key m \<or> forged K c symKey n key m)) \<and>
     (\<forall>k k' c' n'. r = To_Key k \<longrightarrow> encryptDeliverableVersion K d version a (To_Key k') meta = Inr (c', k', n') \<longrightarrow> n' = n)"
proof -
  obtain symKey keyWrap where
    chosen: "chosen_key K d r meta = Inr (symKey, keyWrap)" and len: "length symKey = AES_KEY_BYTES"
    and opens: "\<And>key m. opens K r key \<Longrightarrow> dm_keyWrap m = keyWrap \<Longrightarrow> decryption_key K key m = Inr symKey"
    using chosen_key_exists [OF assms(1-3), of meta] by blast
  define n where "n = delivered_manifest K version a meta keyWrap"
  obtain aad where aad: "manifest_aad n = Inr aad" using manifest_aad_exists by blast
  have iv: "length (dr_iv d) = AES_GCM_IV_BYTES" using assms(2) by (simp add: draws_ok_def)
  define c where "c = dr_iv d @ wc_encrypt K symKey (dr_iv d) (additional aad) (artifact_bytes a)"
  note exactly = decrypted_exactly [OF assms(1) len iv assms(4) n_def aad c_def]
  have with1: "goes_with K version a symKey n key n" if "opens K r key" for key
    using opens [OF that, of n] by (simp add: goes_with_def n_def delivered_manifest_def build_manifest_def)
  have success: "decryptDeliverable K c key (Some m) = Inr (artifact_bytes a)" if "goes_with K version a symKey n key m" for key m
    using exactly [OF goes_with_unforged [OF that n_def]] that by simp
  have outcome: "x = artifact_bytes a \<and> goes_with K version a symKey n key m \<or> forged K c symKey n key m"
    if "decryptDeliverable K c key (Some m) = Inr x" for key m x
    using exactly [of key m x] that by blast
  have same: "n' = n" if "r = To_Key k" "encryptDeliverableVersion K d version a (To_Key k') meta = Inr (c', k', n')" for k k' c' n'
    using that chosen assms(4)
    by (auto simp: encryptDeliverableVersion_def chosen_key_def n_def delivered_manifest_def buildDeliveryManifest_def
        buildDeliveryManifestV2_def bind_res_Inr_iff Let_def split: if_splits)
  have "encryptDeliverableVersion K d version a r meta = Inr (c, symKey, n)"
    using encrypted [OF assms(4) chosen len aad [unfolded n_def]] by (simp only: c_def n_def)
  then show ?thesis using success with1 outcome decrypted_hash same by blast
qed

section \<open>A concrete cryptography\<close>

text \<open>The key and the additional data in front of the plaintext, and the sum of two keys as their secret.\<close>

fun framed :: "bytes \<Rightarrow> bytes" where
  "framed [] = [0]"
| "framed (b # bs) = 1 # b # framed bs"

definition sealed :: "bytes \<Rightarrow> bytes \<Rightarrow> bytes" where
  "sealed key aad = key @ framed aad"

definition sample_crypto :: webcrypto where
  "sample_crypto = \<lparr>
     wc_encrypt = (\<lambda>key iv aad plaintext. sealed key aad @ plaintext),
     wc_decrypt = (\<lambda>key iv aad c. if take (length (sealed key aad)) c = sealed key aad
        then Some (drop (length (sealed key aad)) c) else None),
     wc_generated = (\<lambda>a. length a = 32),
     wc_public = id,
     wc_shared = (\<lambda>a b. Some (map2 (+) a b)),
     wc_hkdf = (\<lambda>secret salt info. take 32 (secret @ replicate 32 0)),
     wc_platform = sample_platform\<rparr>"

lemma framed_eq: "framed a @ x = framed b @ y \<longleftrightarrow> a = b \<and> x = y"
proof (induction a arbitrary: b)
  case Nil
  then show ?case by (cases b) auto
next
  case (Cons c a)
  then show ?case by (cases b) auto
qed

lemma sealed_eq: "length key = length key' \<Longrightarrow> sealed key aad @ x = sealed key' aad' @ y \<longleftrightarrow> key = key' \<and> aad = aad' \<and> x = y"
  by (auto simp: sealed_def framed_eq)

lemma sealed_apart:
  assumes "length key' = length key" "key' \<noteq> key \<or> aad' \<noteq> aad"
  shows "take (length (sealed key' aad')) (sealed key aad @ plaintext) \<noteq> sealed key' aad'"
proof
  assume "take (length (sealed key' aad')) (sealed key aad @ plaintext) = sealed key' aad'"
  then have "sealed key aad @ plaintext = sealed key' aad' @ drop (length (sealed key' aad')) (sealed key aad @ plaintext)"
    by (metis append_take_drop_id)
  then show False using assms sealed_eq [of key key' aad plaintext aad'] by auto
qed

lemma sample_crypto_ok: "crypto_ok sample_crypto"
proof -
  have "map2 (+) a b = map2 (+) b (a :: bytes)" for a b
    by (simp add: list_eq_iff_nth_eq add.commute)
  moreover have "take (length (sealed key aad)) (sealed key aad @ x) = sealed key aad" for key aad x by simp
  ultimately show ?thesis
    unfolding crypto_ok_def
    by (simp add: sample_crypto_def sample_platform_ok AES_KEY_BYTES_def X25519_PUBKEY_BYTES_def sealed_apart min_def del: take_append)
qed

definition sample_draws :: draws where
  "sample_draws = \<lparr>dr_key = replicate 32 7, dr_ephemeral = replicate 32 9, dr_wrap_iv = replicate 12 1, dr_iv = replicate 12 2\<rparr>"

definition sample_meta :: delivery_meta where
  "sample_meta = \<lparr>me_taskPda = ''task'', me_ciphertextUri = ''ar://c'', me_previewUri = None, me_gateRef = Some ''gate''\<rparr>"

lemma sample_unforged:
  assumes "dm_v m = 2" "dm_v n = 2" "m \<noteq> n" "length iv = AES_GCM_IV_BYTES" "length symKey = 32" "manifest_aad n = Inr aad"
  shows "\<not> forged sample_crypto (iv @ wc_encrypt sample_crypto symKey iv (additional aad) x) symKey n key m"
proof -
  have "take (length (sealed key' (additional aad'))) (sealed symKey (additional aad) @ x) \<noteq> sealed key' (additional aad')"
    if "manifest_aad m = Inr aad'" "length key' = 32" for key' aad'
    using manifest_aad_eq [OF that(1) assms(6)] assms(1,3,5) that(2) by (intro sealed_apart) auto
  then show ?thesis
    using assms(4,6)
    by (auto simp: forged_def aesGcmDecrypt_def sample_crypto_def importAesKey_def AES_KEY_BYTES_def bind_res_Inr_iff
        simp del: take_append split: if_splits)
qed

lemma encrypted_parts:
  assumes "encryptDeliverableVersion K d 2 a r meta = Inr (c, symKey, n)"
  obtains aad where "manifest_aad n = Inr aad" "dm_v n = 2" "dm_taskPda n = me_taskPda meta" "length symKey = AES_KEY_BYTES"
    "c = dr_iv d @ wc_encrypt K symKey (dr_iv d) (additional aad) (artifact_bytes a)"
proof -
  obtain keyWrap aad where "n = build_manifest 2 meta (sha256Hex (wc_platform K) (artifact_bytes a)) keyWrap"
    "manifest_aad n = Inr aad" "aesGcmEncrypt K (dr_iv d) (artifact_bytes a) symKey aad = Inr c"
    using assms by (auto simp: encryptDeliverableVersion_def buildDeliveryManifestV2_def bind_res_Inr_iff Let_def)
  then show thesis
    using that by (auto simp: build_manifest_def aesGcmEncrypt_def import_ok split: if_splits)
qed

theorem deliverable_opened_exactly_witness:
  "\<exists>c symKey n. encryptDeliverableVersion sample_crypto sample_draws 2 (Art_Text ''report'') (To_Public (replicate 32 5)) sample_meta
       = Inr (c, symKey, n) \<and>
     decryptDeliverable sample_crypto c (With_Private (replicate 32 5) (replicate 32 5)) (Some n) = Inr (utf8_encode ''report'') \<and>
     (\<forall>x. decryptDeliverable sample_crypto c (With_Key symKey) (Some (n\<lparr>dm_taskPda := ''other''\<rparr>)) \<noteq> Inr x)"
proof -
  let ?pub = "replicate 32 5 :: bytes"
  have ok: "draws_ok sample_crypto sample_draws" "recipient_ok sample_crypto (To_Public ?pub)" "(2 :: nat) \<in> {1, 2}"
    "opens sample_crypto (To_Public ?pub) (With_Private ?pub ?pub)"
    by (simp_all add: draws_ok_def sample_draws_def sample_crypto_def generateRecipientKeyPair_def AES_KEY_BYTES_def AES_GCM_IV_BYTES_def)
  obtain c symKey n where n:
    "encryptDeliverableVersion sample_crypto sample_draws 2 (Art_Text ''report'') (To_Public ?pub) sample_meta = Inr (c, symKey, n)"
    "\<forall>key. opens sample_crypto (To_Public ?pub) key \<longrightarrow>
       decryptDeliverable sample_crypto c key (Some n) = Inr (artifact_bytes (Art_Text ''report''))"
    "\<forall>key m x. decryptDeliverable sample_crypto c key (Some m) = Inr x \<longrightarrow>
        sha256Hex (wc_platform sample_crypto) x = dm_plaintextHash m \<and>
        (x = artifact_bytes (Art_Text ''report'') \<and> goes_with sample_crypto 2 (Art_Text ''report'') symKey n key m
         \<or> forged sample_crypto c symKey n key m)"
    using deliverable_opened_exactly [OF sample_crypto_ok ok(1-3), of "Art_Text ''report''" sample_meta] by (elim exE conjE)
  obtain aad where parts: "manifest_aad n = Inr aad" "dm_v n = 2" "dm_taskPda n = ''task''" "length symKey = AES_KEY_BYTES"
    "c = dr_iv sample_draws @ wc_encrypt sample_crypto symKey (dr_iv sample_draws) (additional aad) (artifact_bytes (Art_Text ''report''))"
    using encrypted_parts [OF n(1)] by (auto simp: sample_meta_def)
  let ?m = "n\<lparr>dm_taskPda := ''other''\<rparr>"
  have other: "?m \<noteq> n" using parts(3) by (auto dest: arg_cong [of _ _ dm_taskPda])
  have "\<not> forged sample_crypto c symKey n (With_Key symKey) ?m"
    unfolding parts(5) using parts(1,2,4) other
    by (intro sample_unforged) (simp_all add: sample_draws_def AES_GCM_IV_BYTES_def AES_KEY_BYTES_def)
  moreover have "\<not> goes_with sample_crypto 2 (Art_Text ''report'') symKey n (With_Key symKey) ?m"
    using other by (simp add: goes_with_def)
  ultimately show ?thesis using n(1) n(2) [rule_format, OF ok(4)] n(3) unfolding artifact_bytes.simps by blast
qed

end
