(* ===== verification/Spec2Isabelle.thy ===== *)
theory Spec2Isabelle
  imports WalTheorems CalmRuns PrivateFiles RpcReaders LockSafety LockProgress EventPolling Webhook
    QueryResults WatchProps SendProps HireTheorems DeliveryProps
begin

text \<open>
  A model of the autonomous worker of this repository (\<open>packages/agenc-worker\<close>) and of the parts of
  the SDK (\<open>packages/sdk-ts\<close>) that its safety, or that of other clients of the marketplace, rests on.

  The program.  The worker is a process that registers an agent on chain, looks for open tasks with a
  pinned job spec, claims one that passes the operator's policy, downloads and verifies the job spec,
  runs a configured executor on it, uploads the result, submits its hash on chain, and later settles
  the submission against the chain.  Between any two effects the process may die; a state file
  (\<open>worker-state.json\<close>) is the write-ahead log it recovers from.

  Theories, in the order they build on each other:
  \<^item> \<open>Prelude\<close>: errors as sums (\<open>worker_error\<close>, \<open>'a res\<close>), their bind and guard, list traversals.
  \<^item> \<open>Codecs\<close>: hexadecimal, base64 and decimal texts; the locales \<open>codec\<close> and \<open>canonical_codec\<close> with
    their interpretations.
  \<^item> \<open>Json\<close>, \<open>Web\<close>, \<open>JsText\<close>: JSON values and their printing, URL records, splitting, UTF-16 order,
    trimming and character classes of JavaScript strings.
  \<^item> \<open>WorkerState\<close>, \<open>StateCodec\<close>, \<open>Pruning\<close> (\<open>state.ts\<close>): the persisted types, the validators
    \<open>currentState\<close> and \<open>migrateLegacyState\<close>, the invariant \<open>valid_state\<close>, the round trips through the
    locale \<open>validating_codec\<close>, and the retention of settled records.
  \<^item> \<open>Samples\<close>: a concrete platform on which the theorems' hypotheses are shown to hold.
  \<^item> \<open>StableJson\<close> (\<open>values/job-spec.ts\<close>): the canonical text whose digest is the on-chain commitment.
  \<^item> \<open>PublicIp\<close>, \<open>JobSpec\<close> (\<open>job-spec.ts\<close>): address classification, the pinned download with its
    redirects, and the verification of an envelope against the commitment.
  \<^item> \<open>Executor\<close> (\<open>executor.ts\<close>), \<open>ResultDelivery\<close> (\<open>result.ts\<close>), \<open>Redact\<close> (\<open>redact.ts\<close>).
  \<^item> \<open>ChainTypes\<close>, \<open>WorkerPolicy\<close> (\<open>runtime.ts\<close>, \<open>config.ts\<close>, \<open>queries/helpers.ts\<close>): account fields,
    predicates on them, hire provenance, filters, candidates, prompt, funding.
  \<^item> \<open>WorkerEnv\<close>: world, environment and actions; the locale \<open>durable_store\<close> states what the runtime
    relies on of \<open>loadState\<close> and \<open>saveState\<close>, and its interpretation proves it.
  \<^item> \<open>WorkerSubmit\<close>, \<open>WorkerProcess\<close>, \<open>WorkerResume\<close>, \<open>WorkerSettle\<close>, \<open>WorkerLoop\<close> (\<open>runtime.ts\<close>):
    the effectful functions, each with every early return and every load and save of the code.
  \<^item> \<open>Guarantee\<close>: reasoning about actions.  \<open>path\<close> is a trace of allowed steps; a \<open>triple\<close> bounds what an
    action may do to the durable state and what it may emit, process death included; the locale
    \<open>guarded_store\<close> derives the rules for load, save and effects from the laws of the store.
  \<^item> \<open>WalSpec\<close>: the abstract specification, a state machine on the open claim and the ledger with the
    chain evidence of each step (\<open>change\<close>), and the effects each durable state allows (\<open>wal\<close>), for the worker's
    own agent: the one whose id the state holds (\<open>agent_of\<close>).
  \<^item> \<open>WalSubmit\<close>, \<open>WalProcess\<close>, \<open>WalResume\<close>, \<open>WalSettle\<close>, \<open>WalTick\<close>: every runtime function refines the
    specification, up to whole lives of the worker, a list of runs in environments of their own.
  \<^item> \<open>SampleRun\<close>, \<open>WalTheorems\<close>: what the refinement gives: announcement of effects, one result per
    round, one task at a time, the account of the ledger, the credits backed by totals read from the agent account
    (\<open>credits\<close>), survival of the state file.
  \<^item> \<open>CalmRuns\<close>: progress.  \<open>achieves\<close> is total correctness in an environment without faults; a
    submission that was in flight when the process died reaches the ledger.
  \<^item> \<open>Config\<close> (\<open>config.ts\<close>): the configuration from file, environment and flags: every field's validator
    and parser, precedence, defaults and the rules between fields.
  \<^item> \<open>PrivateFiles\<close> (\<open>state.ts\<close>, \<open>config.ts\<close>, \<open>wallet.ts\<close>): the checks around reading the state, the
    configuration and the wallet from disk.
  \<^item> \<open>StateLock\<close>, \<open>LockProtocol\<close>, \<open>LockSafety\<close>, \<open>LockProgress\<close> (\<open>state.ts\<close>): the lock file and the reaper
    marker, the protocol as a machine of contenders that interleave call by call, mutual exclusion by an
    invariant over every schedule, its bound of eighty calls, and the schedule that breaks exclusion when
    a reaper has died (\<open>orphaned_marker_race\<close>).
  \<^item> \<open>RpcReaders\<close> (\<open>account-reader.ts\<close>, \<open>settlement.ts\<close>): account snapshots, and the search for the
    transaction that settled a task.
  \<^item> \<open>EventLogs\<close>, \<open>EventPolling\<close> (\<open>sdk-ts/src/events\<close>): the events of a transaction log, against the tree of
    calls that wrote it, and the polling subscription, against the history of the chain.
  \<^item> \<open>Webhook\<close> (\<open>sdk-ts/src/webhooks/verify.ts\<close>): which deliveries of the indexer are accepted,
    and when the verification throws.
  \<^item> \<open>CanonicalText\<close> (\<open>values/job-spec.ts\<close>): the canonical text of a document determines its content.
  \<^item> \<open>Delivery\<close>, \<open>DeliveryProps\<close> (\<open>sdk-ts/src/delivery\<close>, \<open>values/hash.ts\<close>): the encrypted hand-over of results.  A
    deliverable opens for its recipient; with any other key or manifest a decryption that succeeds is a forgery of
    the GCM tag, which the theorem exhibits instead of assuming there is none.
  \<^item> \<open>BorshString\<close> (\<open>sdk-ts/src/generated/codecs/borshString.ts\<close>): the strings of accounts, between the UTF-16
    units of JavaScript and UTF-8 bytes; which strings have an encoding, which bytes decode, and that the two
    are inverse.
  \<^item> \<open>Accounts\<close> (\<open>sdk-ts/src/generated/accounts\<close>, \<open>types\<close>, \<open>codecs/fixedBytes.ts\<close>): the layouts of the seven
    accounts the SDK queries, over the repository's own codecs of strings and of byte fields, and those of the
    Solana kit for numbers, addresses, options and raw bytes (\<open>kit_ok\<close>).
  \<^item> \<open>Queries\<close>, \<open>QueryResults\<close> (\<open>sdk-ts/src/queries\<close>): the account scans with their byte filters, and
    what they return on a chain of typed accounts; the locale \<open>account_kind\<close> states what a scan needs of a
    layout, and its seven interpretations prove it.
  \<^item> \<open>Watch\<close>, \<open>WatchProps\<close> (\<open>sdk-ts/src/watch/watch.ts\<close>): the watch for claimable tasks as a machine of two
    producers; bounded memory, no needless redelivery, and that a claimable task is surfaced.
  \<^item> \<open>SdkErrors\<close> (\<open>sdk-ts/src/client/errors.ts\<close>): thrown values with their causes, what the SDK reads off them,
    and the error it makes of them.
  \<^item> \<open>SendPipeline\<close>, \<open>SendProps\<close> (\<open>client/client.ts\<close>, \<open>client/transport.ts\<close>): assembling, signing, submitting and
    confirming a transaction; no second submission unless the first was refused, evidence of success, and that
    every send ends.
  \<^item> \<open>HireActivate\<close>, \<open>HireRules\<close>, \<open>HireProps\<close>, \<open>HireTheorems\<close> (\<open>orchestration/hire-and-activate.ts\<close>): the buyer's
    hire, hosting and activation, and its recovery from a token.  \<open>outcomes\<close> bounds what a flow returns, throws
    and does; over sessions of a first run and resumed ones there is one funded hire, which is never lost, and
    only the committed content is activated.

  Modelling decisions.  Strings are lists of the bytes of their UTF-8 encoding; byte arrays are lists
  of 8-bit words; \<open>bigint\<close> values that the program keeps non-negative are naturals, others integers.
  A throw is \<open>Inl\<close> of a \<open>worker_error\<close>, whose constructor is the class of the error; messages keep the
  fixed part of the text.  Code outside \<open>src/\<close> (the Solana and Node
  libraries) or generated (program addresses, the account decoders of the worker) is a field of the records
  \<open>platform\<close>, \<open>chain\<close>, \<open>env\<close>, \<open>kit\<close>, \<open>venue\<close>, \<open>hire_lib\<close> and \<open>webcrypto\<close>.  An effect takes
  one tick; the environment decides, by tick, what a read returns, what a transaction answers, what
  time it is, whether a save fails and whether the process dies.  Reads made by \<open>Promise.all\<close> are made
  one after the other.  Log events are left out.

  Recursion.  Loops are structural, or have a measure: the bytes left of a diagnostic, the redirects
  left of a download.  Only the polling loop of a sent transaction uses fuel: \<open>send_returns\<close> proves that there is
  enough for every venue whose clock runs, since the loop ends at its deadline.

  Not modelled: sockets and TLS, process groups and scratch directories, file descriptors, the command
  line, the React packages, generated clients and operator scripts; of the SDK the other facade builders, the
  client of the indexer, task messages and the test helpers.
\<close>

end
